(* ===== verification/Mon_Prelude.thy ===== *)
theory Mon_Prelude
  imports Main "HOL-Library.Signed_Division"
begin

text \<open>
  Shared vocabulary of the development.

  The program is TypeScript.  Its conventions are rendered as follows throughout:

  \<^item> a thrown error class is a constructor of the type \<open>err\<close>, carrying the error code the
    source passes to it; a function that may throw returns \<open>err + 'a\<close> and \<open>Inl\<close> is the throw;
  \<^item> money is an integer number of minor units (\<open>int\<close>), bounded by \<open>MAX_MINOR_UNIT_AMOUNT\<close>
    wherever a schema bounds it;
  \<^item> an ISO instant is the \<open>int\<close> number of milliseconds \<open>Date.parse\<close> gives for it;
  \<^item> an identifier is a \<open>string\<close> (the \<open>mon:kind:opaque\<close> patterns of the identifier schemas are
    not modelled: the ids are minted in that form by the program's own generators, which appear
    as arguments); a nullable column is an \<open>option\<close>;
  \<^item> a database table is the list of its rows, in insertion order; an update guarded by a
    \<open>where\<close> clause is \<open>update_where\<close> and its affected-row count is \<open>count_where\<close>; an insert
    into a table with a unique key is \<open>insert_unique\<close>, whose \<open>None\<close> is the constraint
    violation.
\<close>

type_synonym ident = string
type_synonym instant = int
type_synonym amount = int
type_synonym currency = string

text \<open>Why a refund request is refused: the codes a refusal carries as a list
  (\<open>REFUND_REFUSAL_CODES\<close> of \<open>src/contracts/marketplace/order-refund.ts\<close>).\<close>

datatype refund_refusal =
    ORDER_NOT_FOUND | ORDER_NOT_PAID | ECONOMIC_SNAPSHOT_MISSING
  | PROVIDER_PAYMENT_REFERENCE_MISSING | REFUND_ALREADY_EXISTS | SALE_ALREADY_REVERSED
  | SALE_DISPUTE_OPEN | SALE_DISPUTE_LOST | NO_REFUND_LINES_SELECTED | REFUND_LINE_NOT_FOUND
  | PARTIAL_LINE_REFUND_NOT_SUPPORTED | SUBSET_LINE_REFUND_NOT_YET_EXECUTABLE
  | SELLER_REFUND_POLICY_NOT_BOUND | SELLER_REFUND_POLICY_UNREADABLE
  | SELLER_REFUND_POLICY_FORBIDS_REFUND | SELLER_REFUND_WINDOW_EXPIRED
  | SHIPPING_ALLOCATION_NOT_GOVERNED | PASS_THROUGH_REFUND_TREATMENT_NOT_GOVERNED
  | REFUND_AMOUNT_DOES_NOT_RECONCILE | CURRENCY_MISMATCH | CONFLICTING_REFUND_STATE

text \<open>Why a purchase does not license a review, also carried as a list
  (\<open>REVIEW_ELIGIBILITY_BLOCKERS\<close> of \<open>src/contracts/marketplace/purchase-evidence.ts\<close>).\<close>

datatype review_blocker = ORDER_NOT_COMPLETED | PURCHASE_EVIDENCE_MISSING | REVIEW_ALREADY_AUTHORIZED

datatype err =
    ZodError
  | ListingEconomicsError string
  | OfferEconomicsError
  | TransactionAccountingError string
  | TransactionEconomicsRefused string
  | TransactionReconciliationRefused string
  | TransactionCurrencyMismatch string
  | TransactionReversalError string
  | ProceedsError string
  | OrderError string
  | QuoteSnapshotMismatchError "string list"
  | ReviewNotEligibleError "review_blocker list"
  | ProceedsPayoutHeldError string
  | RefundError string
  | RefundRefusedError "refund_refusal list"
  | SellerRefundPolicyError string
  | TaxError string
  | DisputeError string
  | DisputeEvidenceRefused string
  | CommercialPolicyError string
  | InvalidEntitlementGovernanceInput
  | EntitlementGovernanceRefused string
  | EntitlementGovernanceFailure
  | ParticipantError string
  | NotificationError string
  | OutboxError string
  | AttemptError string
  | UniqueViolation string
  | RecordNotFound string

type_synonym 'a res = "err + 'a"

named_theorems table_simps "rewrite rules for tables as lists of rows"
named_theorems model_defs "definitions unfolded by the component proofs"

section \<open>Results\<close>

definition is_ok :: "'a res \<Rightarrow> bool" where
  "is_ok r = (case r of Inl _ \<Rightarrow> False | Inr _ \<Rightarrow> True)"

fun chain :: "'a res \<Rightarrow> ('a \<Rightarrow> 'b res) \<Rightarrow> 'b res" where
  "chain (Inl e) f = Inl e"
| "chain (Inr x) f = f x"

definition require :: "bool \<Rightarrow> err \<Rightarrow> unit res" where
  "require b e = (if b then Inr () else Inl e)"

text \<open>\<open>catch (error) { if (error instanceof Own) throw error; throw new Wrapped(...) }\<close>.\<close>

fun rethrow_own :: "(err \<Rightarrow> bool) \<Rightarrow> err \<Rightarrow> 'a res \<Rightarrow> 'a res" where
  "rethrow_own own wrapped (Inl e) = Inl (if own e then e else wrapped)"
| "rethrow_own own wrapped (Inr x) = Inr x"

lemma rethrow_own_Inr [simp]: "rethrow_own own w r = Inr x \<longleftrightarrow> r = Inr x"
  by (cases r) auto

lemma chain_Inr_iff: "chain r f = Inr y \<longleftrightarrow> (\<exists>x. r = Inr x \<and> f x = Inr y)"
  by (cases r) auto

lemma chain_Inl_iff: "chain r f = Inl e \<longleftrightarrow> r = Inl e \<or> (\<exists>x. r = Inr x \<and> f x = Inl e)"
  by (cases r) auto

lemma chain_Inr_E [elim]:
  assumes "chain r f = Inr y"
  obtains x where "r = Inr x" and "f x = Inr y"
  using assms by (auto simp: chain_Inr_iff)

lemma require_Inr [simp]: "require b e = Inr u \<longleftrightarrow> b"
  by (simp add: require_def)

lemma require_Inl [simp]: "require b e = Inl d \<longleftrightarrow> \<not> b \<and> d = e"
  by (auto simp: require_def)

lemma is_ok_iff: "is_ok r \<longleftrightarrow> (\<exists>x. r = Inr x)"
  by (cases r) (auto simp: is_ok_def)

lemma is_ok_simps [simp]: "is_ok (Inr x)" "\<not> is_ok (Inl e)"
  by (simp_all add: is_ok_def)

section \<open>BigInt division\<close>

text \<open>\<open>BigInt\<close> division truncates towards zero, which is \<open>sdiv\<close>; on the non-negative operands
  the program divides it is \<open>div\<close>.\<close>

lemma sdiv_nonneg: "0 \<le> (a::int) \<Longrightarrow> 0 < b \<Longrightarrow> a sdiv b = a div b"
  by (cases "a = 0") (simp_all add: signed_divide_int_def)

section \<open>Tables\<close>

definition update_where :: "('a \<Rightarrow> bool) \<Rightarrow> ('a \<Rightarrow> 'a) \<Rightarrow> 'a list \<Rightarrow> 'a list" where
  "update_where P f xs = map (\<lambda>x. if P x then f x else x) xs"

definition count_where :: "('a \<Rightarrow> bool) \<Rightarrow> 'a list \<Rightarrow> nat" where
  "count_where P xs = length (filter P xs)"

definition insert_unique :: "('a \<Rightarrow> 'k) \<Rightarrow> 'a \<Rightarrow> 'a list \<Rightarrow> 'a list option" where
  "insert_unique key x xs = (if key x \<in> key ` set xs then None else Some (xs @ [x]))"

definition unique_on :: "('a \<Rightarrow> 'k) \<Rightarrow> 'a list \<Rightarrow> bool" where
  "unique_on key xs = distinct (map key xs)"

lemma length_update_where [simp]: "length (update_where P f xs) = length xs"
  by (simp add: update_where_def)

lemma update_where_Nil [simp]: "update_where P f [] = []"
  by (simp add: update_where_def)

lemma set_update_where: "set (update_where P f xs) = (\<lambda>x. if P x then f x else x) ` set xs"
  by (simp add: update_where_def)

lemma in_update_where_E:
  assumes "y \<in> set (update_where P f xs)"
  obtains (old) "y \<in> set xs" "\<not> P y" | (new) x where "x \<in> set xs" "P x" "y = f x"
  using assms by (auto simp: set_update_where split: if_splits)

lemma map_update_where [table_simps]:
  assumes "\<And>x. P x \<Longrightarrow> g (f x) = g x"
  shows "map g (update_where P f xs) = map g xs"
  using assms by (auto simp: update_where_def)

lemma unique_on_update_where:
  assumes "unique_on key xs" and "\<And>x. P x \<Longrightarrow> key (f x) = key x"
  shows "unique_on key (update_where P f xs)"
  using assms by (simp add: unique_on_def map_update_where)

lemma update_where_none: "(\<And>x. x \<in> set xs \<Longrightarrow> \<not> P x) \<Longrightarrow> update_where P f xs = xs"
  by (simp add: update_where_def map_idI)

lemma count_where_0_iff: "count_where P xs = 0 \<longleftrightarrow> (\<forall>x\<in>set xs. \<not> P x)"
  by (auto simp: count_where_def filter_empty_conv)

lemma count_where_pos_iff: "0 < count_where P xs \<longleftrightarrow> (\<exists>x\<in>set xs. P x)"
  using count_where_0_iff[of P xs] by auto

lemma count_where_simps [simp]:
  "count_where P [] = 0"
  "count_where P (x # xs) = (if P x then Suc (count_where P xs) else count_where P xs)"
  "count_where P (xs @ ys) = count_where P xs + count_where P ys"
  by (simp_all add: count_where_def)

lemma insert_unique_Some_iff:
  "insert_unique key x xs = Some ys \<longleftrightarrow> key x \<notin> key ` set xs \<and> ys = xs @ [x]"
  by (auto simp: insert_unique_def)

lemma unique_on_insert:
  assumes "unique_on key xs" and "insert_unique key x xs = Some ys"
  shows "unique_on key ys"
  using assms by (auto simp: unique_on_def insert_unique_Some_iff)

lemma unique_on_simps [simp]:
  "unique_on key []"
  "unique_on key (xs @ [x]) \<longleftrightarrow> unique_on key xs \<and> key x \<notin> key ` set xs"
  by (auto simp: unique_on_def)

lemma unique_on_eq:
  assumes "unique_on key xs" and "x \<in> set xs" and "y \<in> set xs" and "key x = key y"
  shows "x = y"
  using assms by (auto simp: unique_on_def distinct_map inj_on_def)

lemma count_where_le_1:
  assumes "distinct xs" and "\<And>x y. x \<in> set xs \<Longrightarrow> y \<in> set xs \<Longrightarrow> P x \<Longrightarrow> P y \<Longrightarrow> x = y"
  shows "count_where P xs \<le> 1"
  using assms
proof (induction xs)
  case (Cons a xs)
  have "count_where P xs = 0" if "P a"
    using Cons.prems that unfolding count_where_0_iff by (metis distinct.simps(2) list.set_intros)
  then show ?case using Cons by simp
qed simp

lemma unique_on_count: "unique_on key xs \<Longrightarrow> count_where (\<lambda>x. key x = k) xs \<le> 1"
  by (rule count_where_le_1) (auto simp: unique_on_def distinct_map inj_on_def)

lemma find_Some_set: "List.find P xs = Some x \<Longrightarrow> x \<in> set xs \<and> P x"
  by (auto simp: find_Some_iff)

lemma find_None_set: "List.find P xs = None \<Longrightarrow> x \<in> set xs \<Longrightarrow> \<not> P x"
  by (auto simp: find_None_iff)

lemma find_append: "List.find P (xs @ ys) =
    (case List.find P xs of None \<Rightarrow> List.find P ys | Some x \<Rightarrow> Some x)"
  by (induction xs) auto

lemma find_unique:
  assumes "unique_on key xs" and "x \<in> set xs"
  shows "List.find (\<lambda>y. key y = key x) xs = Some x"
proof (cases "List.find (\<lambda>y. key y = key x) xs")
  case None
  then show ?thesis using assms(2) by (auto simp: find_None_iff)
next
  case (Some y)
  then have "y \<in> set xs" "key y = key x" by (auto dest: find_Some_set)
  then show ?thesis using Some assms unique_on_eq by metis
qed

lemma find_update_where_same:
  assumes "\<And>x. x \<in> set xs \<Longrightarrow> Q x \<Longrightarrow> \<not> P x"
    and "\<And>x. x \<in> set xs \<Longrightarrow> P x \<Longrightarrow> Q (f x) = Q x"
  shows "List.find Q (update_where P f xs) = List.find Q xs"
  using assms by (induction xs) (auto simp: update_where_def)

text \<open>Looking up by key after a rewrite of the rows of one key.\<close>

lemma find_update_where_key:
  assumes "\<And>x. key (f x) = key x"
  shows "List.find (\<lambda>x. key x = k') (update_where (\<lambda>x. key x = k) f xs) =
    (if k' = k then map_option f (List.find (\<lambda>x. key x = k) xs) else List.find (\<lambda>x. key x = k') xs)"
  by (induction xs) (auto simp: update_where_def assms)

text \<open>First occurrences only, as \<open>Array.from(new Set(xs))\<close> keeps them.\<close>

definition uniq :: "'a list \<Rightarrow> 'a list" where
  "uniq xs = rev (remdups (rev xs))"

lemma set_uniq [simp]: "set (uniq xs) = set xs"
  by (simp add: uniq_def)

lemma uniq_Nil [simp]: "uniq xs = [] \<longleftrightarrow> xs = []"
  by (metis set_empty set_uniq)

text \<open>Stops at the first row that fails, as a \<open>map\<close> of a throwing mapper does.\<close>

fun map_res :: "('a \<Rightarrow> 'b res) \<Rightarrow> 'a list \<Rightarrow> 'b list res" where
  "map_res f [] = Inr []"
| "map_res f (x # xs) = chain (f x) (\<lambda>y. chain (map_res f xs) (\<lambda>ys. Inr (y # ys)))"

lemma map_res_Inr: "map_res f xs = Inr ys \<Longrightarrow> list_all2 (\<lambda>x y. f x = Inr y) xs ys"
  by (induction xs arbitrary: ys) auto

lemma map_res_all: "(\<And>x. x \<in> set xs \<Longrightarrow> f x = Inr x) \<Longrightarrow> map_res f xs = Inr xs"
  by (induction xs) auto

section \<open>State tables\<close>

text \<open>Every lifecycle of the program is a frozen table from a state to the states it may move
  to.  \<open>transition_table\<close> is the contract of such a table together with its terminality
  predicate; \<open>forward_table\<close> adds a rank every permitted move increases.\<close>

locale transition_table =
  fixes next_states :: "'s \<Rightarrow> 's list"
    and terminal :: "'s \<Rightarrow> bool"
  assumes terminal_iff: "terminal s \<longleftrightarrow> next_states s = []"
begin

definition moves :: "'s \<Rightarrow> 's \<Rightarrow> bool" where
  "moves s t \<longleftrightarrow> t \<in> set (next_states s)"

fun history :: "'s \<Rightarrow> 's list \<Rightarrow> bool" where
  "history s [] = True"
| "history s (t # ts) = (moves s t \<and> history t ts)"

lemma terminal_no_move: "terminal s \<Longrightarrow> \<not> moves s t"
  by (simp add: moves_def terminal_iff)

lemma terminal_history: "terminal s \<Longrightarrow> history s ts \<longleftrightarrow> ts = []"
  by (cases ts) (auto dest: terminal_no_move)

lemma history_append: "history s (ts @ us) \<longleftrightarrow> history s ts \<and> history (last (s # ts)) us"
  by (induction ts arbitrary: s) auto

lemma moves_rtranclp_terminal:
  assumes "moves\<^sup>*\<^sup>* s t" and "terminal s"
  shows "t = s"
  using assms by (induction rule: converse_rtranclp_induct) (auto dest: terminal_no_move)

end

locale forward_table = transition_table next_states terminal
  for next_states :: "'s \<Rightarrow> 's list" and terminal :: "'s \<Rightarrow> bool" +
  fixes rank :: "'s \<Rightarrow> nat"
  assumes rank_step: "t \<in> set (next_states s) \<Longrightarrow> rank s < rank t"
begin

lemma rank_reaches: "moves\<^sup>*\<^sup>* s t \<Longrightarrow> rank s \<le> rank t"
  by (induction rule: rtranclp_induct) (auto simp: moves_def dest: rank_step)

lemma never_returns: "moves\<^sup>+\<^sup>+ s t \<Longrightarrow> \<not> moves\<^sup>*\<^sup>* t s"
proof
  assume "moves\<^sup>+\<^sup>+ s t" and rev: "moves\<^sup>*\<^sup>* t s"
  then obtain u where "moves s u" "moves\<^sup>*\<^sup>* u t" by (blast dest: tranclpD)
  then have "rank s < rank t" using rank_reaches rank_step by (fastforce simp: moves_def)
  with rev show False using rank_reaches by fastforce
qed

lemma history_rank: "history s ts \<Longrightarrow> rank s + length ts \<le> rank (last (s # ts))"
proof (induction ts arbitrary: s)
  case Nil
  then show ?case by simp
next
  case (Cons t ts)
  then have "rank s < rank t" using rank_step by (auto simp: moves_def)
  moreover have "rank t + length ts \<le> rank (last (t # ts))" using Cons by auto
  ultimately show ?case by simp
qed

lemma history_distinct: "history s ts \<Longrightarrow> distinct (s # ts)"
proof (induction ts arbitrary: s)
  case Nil
  then show ?case by simp
next
  case (Cons t ts)
  have step: "history u us \<Longrightarrow> v \<in> set us \<Longrightarrow> rank u < rank v" for u us v
  proof (induction us arbitrary: u)
    case (Cons w ws)
    then have "rank u < rank w" using rank_step by (auto simp: moves_def)
    then show ?case using Cons by (auto intro: less_trans)
  qed simp
  show ?case using Cons step[OF Cons.prems] by auto
qed

end

end
