(* ===== verification/Economics.thy ===== *)
theory Economics
  imports Mon_Prelude
begin

text \<open>
  The pure commercial arithmetic of \<open>src/contracts/marketplace/offer-source.ts\<close> and
  \<open>src/contracts/marketplace/listing-source.ts\<close>: an Offer's terms, its commission and creator
  proceeds; the wholesale-acquisition policy, the amount Monacado retains, the acquisition
  amount; the seller-direct and promoted reconciliations of one sale; the lowest viable promoted
  price; placements, scheduled sales and the effective price; the lifecycles of Offers and
  Listings.  A zod \<open>parse\<close> is a validity predicate whose failure is \<open>ZodError\<close>.  \<open>BigInt\<close>
  division is \<open>sdiv\<close>, which truncates as the source's does.
\<close>

section \<open>Offer terms\<close>

definition MAX_MINOR_UNIT_AMOUNT :: int where
  "MAX_MINOR_UNIT_AMOUNT = 9007199254740991"

definition CurrencyCode :: "currency \<Rightarrow> bool" where
  "CurrencyCode c = (length c = 3 \<and> list_all (\<lambda>x. x \<in> set ''ABCDEFGHIJKLMNOPQRSTUVWXYZ'') c)"

definition MinorUnitAmount :: "amount \<Rightarrow> bool" where
  "MinorUnitAmount a = (0 < a \<and> a \<le> MAX_MINOR_UNIT_AMOUNT)"

text \<open>\<open>z.int().min(0).max(MAX_MINOR_UNIT_AMOUNT)\<close>, the bound of every recorded amount, and its
  signed form (\<open>z.int()\<close> alone already refuses unsafe integers).\<close>

definition Amount :: "amount \<Rightarrow> bool" where
  "Amount a = (0 \<le> a \<and> a \<le> MAX_MINOR_UNIT_AMOUNT)"

definition SignedAmount :: "amount \<Rightarrow> bool" where
  "SignedAmount a = (- MAX_MINOR_UNIT_AMOUNT \<le> a \<and> a \<le> MAX_MINOR_UNIT_AMOUNT)"

datatype offer_price = FREE | PAID (wholesalePriceMinorUnits: amount) (wholesalePriceCurrency: currency)

datatype offer_commission =
    PERCENT_OF_WHOLESALE (commissionBasisPoints: int)
  | FIXED_AMOUNT (fixedCommissionMinorUnits: amount) (fixedCommissionCurrency: currency)

datatype offer_promotion = NOT_PROMOTABLE | PROMOTABLE offer_commission

fun OfferPrice :: "offer_price \<Rightarrow> bool" where
  "OfferPrice FREE = True"
| "OfferPrice (PAID w c) = (MinorUnitAmount w \<and> CurrencyCode c)"

definition MIN_COMMISSION_BASIS_POINTS :: int where "MIN_COMMISSION_BASIS_POINTS = 1"
definition MAX_COMMISSION_BASIS_POINTS :: int where "MAX_COMMISSION_BASIS_POINTS = 10000"

fun OfferCommission :: "offer_commission \<Rightarrow> bool" where
  "OfferCommission (PERCENT_OF_WHOLESALE bp) =
     (MIN_COMMISSION_BASIS_POINTS \<le> bp \<and> bp \<le> MAX_COMMISSION_BASIS_POINTS)"
| "OfferCommission (FIXED_AMOUNT a c) = (MinorUnitAmount a \<and> CurrencyCode c)"

fun OfferPromotion :: "offer_promotion \<Rightarrow> bool" where
  "OfferPromotion NOT_PROMOTABLE = True"
| "OfferPromotion (PROMOTABLE c) = OfferCommission c"

record offer_terms =
  ot_price :: offer_price
  ot_promotion :: offer_promotion

text \<open>The strict object and its refinement: a promotable Offer is paid, and a fixed commission
  is in the wholesale currency and at most the wholesale price.\<close>

definition OfferCommercialTerms :: "offer_terms \<Rightarrow> bool" where
  "OfferCommercialTerms t = (OfferPrice (ot_price t) \<and> OfferPromotion (ot_promotion t) \<and>
     (case ot_promotion t of
        NOT_PROMOTABLE \<Rightarrow> True
      | PROMOTABLE com \<Rightarrow>
          (case ot_price t of
             FREE \<Rightarrow> False
           | PAID w cur \<Rightarrow>
               (case com of
                  PERCENT_OF_WHOLESALE _ \<Rightarrow> True
                | FIXED_AMOUNT a c \<Rightarrow> c = cur \<and> a \<le> w))))"

record offer_economics =
  oe_commission :: amount
  oe_creatorGrossProceeds :: amount
  oe_policyVersion :: string

definition CURRENT_COMMISSION_CALCULATION_POLICY :: string where
  "CURRENT_COMMISSION_CALCULATION_POLICY = ''WHOLESALE_COMMISSION_V1''"

fun offer_commission_amount :: "amount \<Rightarrow> offer_promotion \<Rightarrow> amount res" where
  "offer_commission_amount w NOT_PROMOTABLE = Inr 0"
| "offer_commission_amount w (PROMOTABLE (PERCENT_OF_WHOLESALE bp)) =
     (let scaled = (w * bp + 5000) sdiv 10000
      in if scaled > MAX_MINOR_UNIT_AMOUNT then Inl OfferEconomicsError else Inr scaled)"
| "offer_commission_amount w (PROMOTABLE (FIXED_AMOUNT a _)) = Inr a"

definition calculateOfferEconomics :: "offer_terms \<Rightarrow> offer_economics res" where
  "calculateOfferEconomics t =
     (if \<not> OfferCommercialTerms t then Inl ZodError
      else case ot_price t of
        FREE \<Rightarrow> Inr \<lparr>oe_commission = 0, oe_creatorGrossProceeds = 0,
                     oe_policyVersion = CURRENT_COMMISSION_CALCULATION_POLICY\<rparr>
      | PAID w _ \<Rightarrow>
          chain (offer_commission_amount w (ot_promotion t)) (\<lambda>c.
            if c > w then Inl OfferEconomicsError
            else Inr \<lparr>oe_commission = c, oe_creatorGrossProceeds = w - c,
                      oe_policyVersion = CURRENT_COMMISSION_CALCULATION_POLICY\<rparr>))"

definition economicsMatch :: "offer_terms \<Rightarrow> offer_economics \<Rightarrow> bool res" where
  "economicsMatch t stored = chain (calculateOfferEconomics t) (\<lambda>c.
     Inr (oe_commission c = oe_commission stored \<and>
          oe_creatorGrossProceeds c = oe_creatorGrossProceeds stored \<and>
          oe_policyVersion c = oe_policyVersion stored))"

text \<open>The narrower terms a Seller may author: paid, promotable, in a supported currency.\<close>

definition OFFER_SUPPORTED_CURRENCIES :: "currency list" where
  "OFFER_SUPPORTED_CURRENCIES = [''USD'']"

definition PromotedResaleOfferTerms :: "offer_terms \<Rightarrow> bool" where
  "PromotedResaleOfferTerms t = (OfferCommercialTerms t \<and>
     (case ot_price t of
        FREE \<Rightarrow> False
      | PAID _ cur \<Rightarrow> cur \<in> set OFFER_SUPPORTED_CURRENCIES \<and> ot_promotion t \<noteq> NOT_PROMOTABLE))"

subsection \<open>The half-up share\<close>

lemma half_up_bounds:
  assumes "0 \<le> (a::int)" and "0 \<le> bp" and "bp \<le> 10000"
  shows "0 \<le> (a * bp + 5000) sdiv 10000" and "(a * bp + 5000) sdiv 10000 \<le> a"
    and "(a * bp + 5000) sdiv 10000 = (a * bp + 5000) div 10000"
proof -
  have nn: "0 \<le> a * bp" using assms by simp
  then show eq: "(a * bp + 5000) sdiv 10000 = (a * bp + 5000) div 10000" by (simp add: sdiv_nonneg)
  show "0 \<le> (a * bp + 5000) sdiv 10000" unfolding eq using nn by (simp add: pos_imp_zdiv_nonneg_iff)
  have "a * bp \<le> a * 10000" using assms by (intro mult_left_mono) auto
  then show "(a * bp + 5000) sdiv 10000 \<le> a" unfolding eq by linarith
qed

lemma offer_commission_amount_ok:
  assumes v: "OfferCommercialTerms t" and p: "ot_price t = PAID w cur"
  obtains c where "offer_commission_amount w (ot_promotion t) = Inr c" and "0 \<le> c" and "c \<le> w"
proof (cases "ot_promotion t")
  case NOT_PROMOTABLE
  then show ?thesis using that v p by (auto simp: OfferCommercialTerms_def MinorUnitAmount_def)
next
  case (PROMOTABLE com)
  have w: "0 \<le> w" "w \<le> MAX_MINOR_UNIT_AMOUNT"
    using v p by (auto simp: OfferCommercialTerms_def MinorUnitAmount_def)
  show ?thesis
  proof (cases com)
    case (PERCENT_OF_WHOLESALE bp)
    have bp: "0 \<le> bp" "bp \<le> 10000"
      using v PROMOTABLE PERCENT_OF_WHOLESALE
      by (auto simp: OfferCommercialTerms_def MIN_COMMISSION_BASIS_POINTS_def MAX_COMMISSION_BASIS_POINTS_def)
    show ?thesis
      using that half_up_bounds[OF w(1) bp] w PROMOTABLE PERCENT_OF_WHOLESALE by (auto simp: Let_def)
  next
    case (FIXED_AMOUNT a c)
    then show ?thesis using that v p PROMOTABLE
      by (auto simp: OfferCommercialTerms_def MinorUnitAmount_def)
  qed
qed

text \<open>On terms the schema accepts both internal assertions are dead: the calculation always
  returns, and the wholesale price is exactly split.\<close>

definition wholesale_of :: "offer_price \<Rightarrow> amount" where
  "wholesale_of p = (case p of FREE \<Rightarrow> 0 | PAID w _ \<Rightarrow> w)"

lemma calculateOfferEconomics_valid:
  assumes "OfferCommercialTerms t"
  obtains e where "calculateOfferEconomics t = Inr e"
    and "oe_commission e + oe_creatorGrossProceeds e = wholesale_of (ot_price t)"
    and "0 \<le> oe_commission e" and "0 \<le> oe_creatorGrossProceeds e"
proof (cases "ot_price t")
  case FREE
  then show ?thesis using that assms by (simp add: calculateOfferEconomics_def wholesale_of_def)
next
  case (PAID w cur)
  from offer_commission_amount_ok[OF assms PAID]
  obtain c where "offer_commission_amount w (ot_promotion t) = Inr c" "0 \<le> c" "c \<le> w" .
  then show ?thesis using that assms PAID by (simp add: calculateOfferEconomics_def wholesale_of_def)
qed

lemma calculateOfferEconomics_ok_iff: "is_ok (calculateOfferEconomics t) \<longleftrightarrow> OfferCommercialTerms t"
proof
  assume "is_ok (calculateOfferEconomics t)"
  then show "OfferCommercialTerms t"
    by (cases "OfferCommercialTerms t") (simp_all add: calculateOfferEconomics_def)
qed (metis calculateOfferEconomics_valid is_ok_simps(1))

lemma economicsMatch_computed:
  "calculateOfferEconomics t = Inr e \<Longrightarrow> economicsMatch t e = Inr True"
  by (simp add: economicsMatch_def)

section \<open>The wholesale-acquisition policy and the retained amount\<close>

datatype rounding_policy = HALF_UP_TO_MINOR_UNIT

record acquisition_policy =
  wap_policyId :: ident
  wap_policyVersion :: string
  wap_currency :: currency
  wap_retainedPercentageBasisPoints :: int
  wap_retainedFixedAmountMinorUnits :: amount
  wap_roundingPolicy :: rounding_policy

definition MonacadoWholesaleAcquisitionPolicy :: "acquisition_policy \<Rightarrow> bool" where
  "MonacadoWholesaleAcquisitionPolicy p =
     (1 \<le> length (wap_policyId p) \<and> length (wap_policyId p) \<le> 191 \<and>
      1 \<le> length (wap_policyVersion p) \<and> length (wap_policyVersion p) \<le> 64 \<and>
      CurrencyCode (wap_currency p) \<and>
      0 \<le> wap_retainedPercentageBasisPoints p \<and> wap_retainedPercentageBasisPoints p \<le> 10000 \<and>
      Amount (wap_retainedFixedAmountMinorUnits p))"

definition halfUpBasisPoints :: "amount \<Rightarrow> int \<Rightarrow> amount res" where
  "halfUpBasisPoints a bp =
     (let scaled = (a * bp + 5000) sdiv 10000
      in if scaled > MAX_MINOR_UNIT_AMOUNT
         then Inl (ListingEconomicsError ''RETAINED_AMOUNT_OUT_OF_RANGE'')
         else Inr scaled)"

definition calculateMonacadoRetainedAmount :: "amount \<Rightarrow> currency \<Rightarrow> acquisition_policy \<Rightarrow> amount res" where
  "calculateMonacadoRetainedAmount retail cur p =
     (if \<not> MonacadoWholesaleAcquisitionPolicy p then Inl ZodError
      else if wap_currency p \<noteq> cur then Inl (ListingEconomicsError ''POLICY_CURRENCY_MISMATCH'')
      else chain (halfUpBasisPoints retail (wap_retainedPercentageBasisPoints p)) (\<lambda>percentage.
        let total = percentage + wap_retainedFixedAmountMinorUnits p
        in if total > MAX_MINOR_UNIT_AMOUNT
           then Inl (ListingEconomicsError ''RETAINED_AMOUNT_OUT_OF_RANGE'')
           else Inr total))"

record acquisition_result =
  mar_commercialRetailPrice :: amount
  mar_monacadoRetainedAmount :: amount
  mar_acquisitionAmount :: amount
  mar_currency :: currency
  mar_policyId :: ident
  mar_policyVersion :: string

definition MorAcquisitionResult :: "acquisition_result \<Rightarrow> bool" where
  "MorAcquisitionResult r =
     (Amount (mar_commercialRetailPrice r) \<and> Amount (mar_monacadoRetainedAmount r) \<and>
      Amount (mar_acquisitionAmount r) \<and> CurrencyCode (mar_currency r) \<and>
      1 \<le> length (mar_policyId r) \<and> length (mar_policyId r) \<le> 191 \<and>
      1 \<le> length (mar_policyVersion r) \<and> length (mar_policyVersion r) \<le> 64)"

definition calculateMorWholesaleAcquisition ::
  "amount \<Rightarrow> currency \<Rightarrow> acquisition_policy \<Rightarrow> acquisition_result res" where
  "calculateMorWholesaleAcquisition retail cur p =
     (if \<not> MonacadoWholesaleAcquisitionPolicy p then Inl ZodError
      else chain (calculateMonacadoRetainedAmount retail cur p) (\<lambda>retained.
        let acquisition = retail - retained in
        if acquisition < 0 then Inl (ListingEconomicsError ''NEGATIVE_ACQUISITION_AMOUNT'')
        else let r = \<lparr>mar_commercialRetailPrice = retail, mar_monacadoRetainedAmount = retained,
                       mar_acquisitionAmount = acquisition, mar_currency = cur,
                       mar_policyId = wap_policyId p, mar_policyVersion = wap_policyVersion p\<rparr>
             in if MorAcquisitionResult r then Inr r else Inl ZodError))"

subsection \<open>The retained share at a price\<close>

text \<open>\<open>retained_at\<close> is the reference amount the calculators agree with on every price the schemas
  admit: the half-up share plus the fixed amount.\<close>

definition retained_at :: "acquisition_policy \<Rightarrow> int \<Rightarrow> int" where
  "retained_at p r = (r * wap_retainedPercentageBasisPoints p + 5000) div 10000
                     + wap_retainedFixedAmountMinorUnits p"

lemma retained_at_bounds:
  assumes "MonacadoWholesaleAcquisitionPolicy p" and "0 \<le> r"
  shows "0 \<le> retained_at p r"
    and "retained_at p r \<le> r + wap_retainedFixedAmountMinorUnits p"
  using half_up_bounds[of r "wap_retainedPercentageBasisPoints p"] assms
  by (auto simp: retained_at_def MonacadoWholesaleAcquisitionPolicy_def Amount_def)

text \<open>Raising the price by some units raises the retention by at most as many.\<close>

lemma retained_at_lipschitz:
  assumes "MonacadoWholesaleAcquisitionPolicy p" and "r \<le> r'"
  shows "retained_at p r' - retained_at p r \<le> r' - r"
proof -
  let ?bp = "wap_retainedPercentageBasisPoints p"
  have "?bp \<le> 10000" using assms(1) by (simp add: MonacadoWholesaleAcquisitionPolicy_def)
  then have "(r' - r) * ?bp \<le> (r' - r) * 10000" using assms(2) by (intro mult_left_mono) auto
  then have "r' * ?bp + 5000 \<le> (r * ?bp + 5000) + (r' - r) * 10000" by (simp add: algebra_simps)
  then have "(r' * ?bp + 5000) div 10000 \<le> ((r * ?bp + 5000) + (r' - r) * 10000) div 10000"
    by (intro zdiv_mono1) auto
  also have "\<dots> = (r * ?bp + 5000) div 10000 + (r' - r)" by simp
  finally show ?thesis by (simp add: retained_at_def)
qed

text \<open>On a price in range the calculator answers exactly when the retention is at most the price,
  and then with the reference amount.\<close>

lemma calculateMorWholesaleAcquisition_Inr_iff:
  assumes "MonacadoWholesaleAcquisitionPolicy p" and "Amount r"
  shows "calculateMorWholesaleAcquisition r cur p = Inr a \<longleftrightarrow>
    wap_currency p = cur \<and> retained_at p r \<le> r \<and>
    a = \<lparr>mar_commercialRetailPrice = r, mar_monacadoRetainedAmount = retained_at p r,
         mar_acquisitionAmount = r - retained_at p r, mar_currency = cur,
         mar_policyId = wap_policyId p, mar_policyVersion = wap_policyVersion p\<rparr>"
proof -
  have bp: "0 \<le> r" "0 \<le> wap_retainedPercentageBasisPoints p" "wap_retainedPercentageBasisPoints p \<le> 10000"
    using assms by (auto simp: MonacadoWholesaleAcquisitionPolicy_def Amount_def)
  note h = half_up_bounds[OF bp]
  have m: "halfUpBasisPoints r (wap_retainedPercentageBasisPoints p)
      = Inr ((r * wap_retainedPercentageBasisPoints p + 5000) div 10000)"
    using h assms(2) by (simp add: halfUpBasisPoints_def Let_def Amount_def)
  have z: "MorAcquisitionResult \<lparr>mar_commercialRetailPrice = r, mar_monacadoRetainedAmount = retained_at p r,
         mar_acquisitionAmount = r - retained_at p r, mar_currency = wap_currency p,
         mar_policyId = wap_policyId p, mar_policyVersion = wap_policyVersion p\<rparr>"
    if "retained_at p r \<le> r"
    using that assms retained_at_bounds(1)[OF assms(1) bp(1)]
    by (auto simp: MorAcquisitionResult_def MonacadoWholesaleAcquisitionPolicy_def Amount_def)
  have q: "calculateMonacadoRetainedAmount r cur p =
      (if wap_currency p \<noteq> cur then Inl (ListingEconomicsError ''POLICY_CURRENCY_MISMATCH'')
       else if retained_at p r > MAX_MINOR_UNIT_AMOUNT
            then Inl (ListingEconomicsError ''RETAINED_AMOUNT_OUT_OF_RANGE'')
       else Inr (retained_at p r))"
    using assms(1) by (simp add: calculateMonacadoRetainedAmount_def m Let_def retained_at_def)
  show ?thesis
    using assms z by (auto simp: calculateMorWholesaleAcquisition_def q Let_def Amount_def)
qed

section \<open>Promoted economics\<close>

record promoted_input =
  pi_commercialRetailPrice :: amount
  pi_currency :: currency
  pi_offerWholesalePrice :: amount
  pi_offerWholesalePriceCurrency :: currency
  pi_sellerFundedCommission :: amount
  pi_policy :: acquisition_policy

record promoted_economics =
  ple_commercialRetailPrice :: amount
  ple_monacadoRetainedAmount :: amount
  ple_acquisitionAmount :: amount
  ple_offerWholesalePrice :: amount
  ple_sellerFundedCommission :: amount
  ple_promoterRetailSpread :: amount
  ple_promoterNetProceeds :: amount
  ple_promoterMarginRateBasisPoints :: int
  ple_sellerProceeds :: amount
  ple_currency :: currency
  ple_policyId :: ident
  ple_policyVersion :: string

definition PromotedListingEconomics :: "promoted_economics \<Rightarrow> bool" where
  "PromotedListingEconomics e =
     (Amount (ple_commercialRetailPrice e) \<and> Amount (ple_monacadoRetainedAmount e) \<and>
      Amount (ple_acquisitionAmount e) \<and> Amount (ple_offerWholesalePrice e) \<and>
      Amount (ple_sellerFundedCommission e) \<and> SignedAmount (ple_promoterRetailSpread e) \<and>
      Amount (ple_promoterNetProceeds e) \<and>
      0 \<le> ple_promoterMarginRateBasisPoints e \<and> ple_promoterMarginRateBasisPoints e \<le> 10000 \<and>
      Amount (ple_sellerProceeds e) \<and> CurrencyCode (ple_currency e) \<and>
      1 \<le> length (ple_policyId e) \<and> length (ple_policyId e) \<le> 191 \<and>
      1 \<le> length (ple_policyVersion e) \<and> length (ple_policyVersion e) \<le> 64)"

definition calculatePromotedListingEconomics :: "promoted_input \<Rightarrow> promoted_economics res" where
  "calculatePromotedListingEconomics i =
     (let p = pi_policy i; R = pi_commercialRetailPrice i;
          W = pi_offerWholesalePrice i; C = pi_sellerFundedCommission i in
      if \<not> MonacadoWholesaleAcquisitionPolicy p then Inl ZodError
      else if pi_offerWholesalePriceCurrency i \<noteq> pi_currency i
        then Inl (ListingEconomicsError ''WHOLESALE_CURRENCY_MISMATCH'')
      else if C > W then Inl (ListingEconomicsError ''COMMISSION_EXCEEDS_OFFER_WHOLESALE'')
      else chain (calculateMorWholesaleAcquisition R (pi_currency i) p) (\<lambda>a.
        let spread = mar_acquisitionAmount a - W;
            promoterNet = spread + C;
            sellerProceeds = W - C in
        if promoterNet < 0 then Inl (ListingEconomicsError ''NEGATIVE_PROMOTER_PROCEEDS'')
        else if sellerProceeds + promoterNet + mar_monacadoRetainedAmount a \<noteq> R
          then Inl (ListingEconomicsError ''RECONCILIATION_IMBALANCE'')
        else
          let rate = (if R = 0 then 0 else (promoterNet * 10000 + R sdiv 2) sdiv R);
              e = \<lparr>ple_commercialRetailPrice = R,
                   ple_monacadoRetainedAmount = mar_monacadoRetainedAmount a,
                   ple_acquisitionAmount = mar_acquisitionAmount a,
                   ple_offerWholesalePrice = W,
                   ple_sellerFundedCommission = C,
                   ple_promoterRetailSpread = spread,
                   ple_promoterNetProceeds = promoterNet,
                   ple_promoterMarginRateBasisPoints = min (max rate 0) 10000,
                   ple_sellerProceeds = sellerProceeds,
                   ple_currency = pi_currency i,
                   ple_policyId = wap_policyId p,
                   ple_policyVersion = wap_policyVersion p\<rparr>
          in if PromotedListingEconomics e then Inr e else Inl ZodError))"

text \<open>The promoter's net at a price, as the minimum-price search computes it.\<close>

definition promoterNetAt :: "acquisition_policy \<Rightarrow> amount \<Rightarrow> int \<Rightarrow> int" where
  "promoterNetAt p netSupplyCost retail =
     retail - ((retail * wap_retainedPercentageBasisPoints p + 5000) sdiv 10000)
            - wap_retainedFixedAmountMinorUnits p - netSupplyCost"

lemma promoterNetAt_eq:
  assumes "MonacadoWholesaleAcquisitionPolicy p" and "0 \<le> r"
  shows "promoterNetAt p n r = r - retained_at p r - n"
  using half_up_bounds(3)[of r "wap_retainedPercentageBasisPoints p"] assms
  by (simp add: promoterNetAt_def retained_at_def MonacadoWholesaleAcquisitionPolicy_def)

lemma promoterNetAt_mono:
  assumes "MonacadoWholesaleAcquisitionPolicy p" and "0 \<le> r" and "r \<le> r'"
  shows "promoterNetAt p n r \<le> promoterNetAt p n r'"
  using retained_at_lipschitz[OF assms(1,3)] assms by (simp add: promoterNetAt_eq)

text \<open>What a caller of the promoted calculation has validated: amounts in range, currencies
  that agree.\<close>

definition promoted_input_ok :: "promoted_input \<Rightarrow> bool" where
  "promoted_input_ok i \<longleftrightarrow> MonacadoWholesaleAcquisitionPolicy (pi_policy i) \<and>
     Amount (pi_commercialRetailPrice i) \<and> Amount (pi_offerWholesalePrice i) \<and>
     Amount (pi_sellerFundedCommission i) \<and>
     pi_sellerFundedCommission i \<le> pi_offerWholesalePrice i \<and>
     wap_currency (pi_policy i) = pi_currency i \<and> pi_offerWholesalePriceCurrency i = pi_currency i"

lemma calculatePromotedListingEconomics_fields:
  assumes "calculatePromotedListingEconomics i = Inr e"
  shows "PromotedListingEconomics e"
    and "ple_commercialRetailPrice e = pi_commercialRetailPrice i"
    and "ple_offerWholesalePrice e = pi_offerWholesalePrice i"
    and "ple_sellerFundedCommission e = pi_sellerFundedCommission i"
    and "ple_promoterRetailSpread e = ple_acquisitionAmount e - ple_offerWholesalePrice e"
    and "ple_promoterNetProceeds e = ple_promoterRetailSpread e + ple_sellerFundedCommission e"
    and "ple_sellerProceeds e = ple_offerWholesalePrice e - ple_sellerFundedCommission e"
    and "ple_sellerProceeds e + ple_promoterNetProceeds e + ple_monacadoRetainedAmount e
           = ple_commercialRetailPrice e"
  using assms
  by (auto simp: calculatePromotedListingEconomics_def Let_def chain_Inr_iff split: if_split_asm)

lemma calculatePromotedListingEconomics_ok_iff:
  assumes "promoted_input_ok i"
  shows "is_ok (calculatePromotedListingEconomics i) \<longleftrightarrow>
     0 \<le> promoterNetAt (pi_policy i) (pi_offerWholesalePrice i - pi_sellerFundedCommission i)
           (pi_commercialRetailPrice i)"
proof -
  let ?p = "pi_policy i" and ?R = "pi_commercialRetailPrice i"
  let ?W = "pi_offerWholesalePrice i" and ?C = "pi_sellerFundedCommission i"
  have p: "MonacadoWholesaleAcquisitionPolicy ?p" and R: "Amount ?R" and cw: "?C \<le> ?W"
    and cur: "wap_currency ?p = pi_currency i" "pi_offerWholesalePriceCurrency i = pi_currency i"
    and C: "Amount ?C" and W: "Amount ?W"
    using assms by (auto simp: promoted_input_ok_def)
  have R0: "0 \<le> ?R" using R by (simp add: Amount_def)
  have ra0: "0 \<le> retained_at ?p ?R" using retained_at_bounds(1)[OF p R0] .
  have net: "promoterNetAt ?p (?W - ?C) ?R = ?R - retained_at ?p ?R - (?W - ?C)"
    using promoterNetAt_eq[OF p R0] .
  note acq = calculateMorWholesaleAcquisition_Inr_iff[OF p R]
  show ?thesis
  proof (cases "retained_at ?p ?R \<le> ?R")
    case False
    then have "\<not> is_ok (calculatePromotedListingEconomics i)"
      using p cur cw acq by (auto simp: calculatePromotedListingEconomics_def Let_def is_ok_iff chain_Inr_iff)
    then show ?thesis using False net cw by simp
  next
    case True
    then have a: "calculateMorWholesaleAcquisition ?R (pi_currency i) ?p =
        Inr \<lparr>mar_commercialRetailPrice = ?R, mar_monacadoRetainedAmount = retained_at ?p ?R,
         mar_acquisitionAmount = ?R - retained_at ?p ?R, mar_currency = pi_currency i,
         mar_policyId = wap_policyId ?p, mar_policyVersion = wap_policyVersion ?p\<rparr>"
      using acq cur by simp
    show ?thesis
      unfolding calculatePromotedListingEconomics_def Let_def a chain.simps net
      using p R W C cw cur True ra0
      by (auto simp: PromotedListingEconomics_def MonacadoWholesaleAcquisitionPolicy_def
            Amount_def SignedAmount_def)
  qed
qed

section \<open>The lowest viable promoted price\<close>

lemma sdiv2_bounds: "lo < hi \<Longrightarrow> 0 \<le> (hi - lo) sdiv (2::int) \<and> (hi - lo) sdiv 2 < hi - lo"
  by (simp add: sdiv_nonneg)

text \<open>The bisection of the source's \<open>while (lo < hi)\<close> loop, over an arbitrary test.\<close>

function viable_search :: "(int \<Rightarrow> bool) \<Rightarrow> int \<Rightarrow> int \<Rightarrow> int" where
  "viable_search ok lo hi =
     (if lo < hi
      then let mid = lo + (hi - lo) sdiv 2
           in if ok mid then viable_search ok lo mid else viable_search ok (mid + 1) hi
      else lo)"
  by pat_completeness auto

termination
proof (relation "measure (\<lambda>(ok, lo, hi). nat (hi - lo))", goal_cases)
  case 1
  show ?case by simp
next
  case (2 ok lo hi mid)
  then show ?case using sdiv2_bounds[of lo hi] by simp
next
  case (3 ok lo hi mid)
  then show ?case using sdiv2_bounds[of lo hi] by simp
qed

declare viable_search.simps [simp del]

lemma viable_search_least:
  assumes "lo \<le> hi" and "ok hi" and "\<forall>a b. lo \<le> a \<longrightarrow> a \<le> b \<longrightarrow> ok a \<longrightarrow> ok b"
  shows "lo \<le> viable_search ok lo hi \<and> viable_search ok lo hi \<le> hi \<and>
         ok (viable_search ok lo hi) \<and>
         (\<forall>r. lo \<le> r \<longrightarrow> r < viable_search ok lo hi \<longrightarrow> \<not> ok r)"
  using assms
proof (induction ok lo hi rule: viable_search.induct)
  case (1 ok lo hi)
  show ?case
  proof (cases "lo < hi")
    case False
    then have "viable_search ok lo hi = lo" by (simp add: viable_search.simps[of ok lo hi])
    moreover have "lo = hi" using False 1(3) by simp
    ultimately show ?thesis using 1(4) by simp
  next
    case True
    define mid where "mid = lo + (hi - lo) sdiv 2"
    have m: "lo \<le> mid" "mid < hi" using sdiv2_bounds[OF True] by (simp_all add: mid_def)
    show ?thesis
    proof (cases "ok mid")
      case ok: True
      have eq: "viable_search ok lo hi = viable_search ok lo mid"
        using True ok by (simp add: viable_search.simps[of ok lo hi] mid_def)
      show ?thesis unfolding eq using 1(1)[OF True mid_def ok m(1) ok 1(5)] m by auto
    next
      case nok: False
      have eq: "viable_search ok lo hi = viable_search ok (mid + 1) hi"
        using True nok by (simp add: viable_search.simps[of ok lo hi] mid_def)
      have below: "\<not> ok r" if "lo \<le> r" "r \<le> mid" for r
        using nok 1(5) that by blast
      have hi: "mid + 1 \<le> hi" using m by simp
      have "lo \<le> a" if "mid + 1 \<le> a" for a using m that by simp
      then have mono: "\<forall>a b. mid + 1 \<le> a \<longrightarrow> a \<le> b \<longrightarrow> ok a \<longrightarrow> ok b" using 1(5) by blast
      note IH = 1(2)[OF True mid_def nok hi 1(4) mono]
      have "\<not> ok r" if "lo \<le> r" "r < viable_search ok (mid + 1) hi" for r
        using IH below[of r] that by (cases "r \<le> mid") auto
      then show ?thesis unfolding eq using IH m by auto
    qed
  qed
qed

definition minimumViablePromotedRetailPrice ::
  "amount \<Rightarrow> amount \<Rightarrow> currency \<Rightarrow> acquisition_policy \<Rightarrow> amount res" where
  "minimumViablePromotedRetailPrice W C cur p =
     (if \<not> MonacadoWholesaleAcquisitionPolicy p then Inl ZodError
      else if wap_currency p \<noteq> cur then Inl (ListingEconomicsError ''POLICY_CURRENCY_MISMATCH'')
      else if C > W then Inl (ListingEconomicsError ''COMMISSION_EXCEEDS_OFFER_WHOLESALE'')
      else
        let netSupplyCost = W - C;
            denominator = 10000 - wap_retainedPercentageBasisPoints p in
        if denominator \<le> 0 then Inl (ListingEconomicsError ''NO_VIABLE_RETAIL_PRICE'')
        else
          let numerator = (netSupplyCost + wap_retainedFixedAmountMinorUnits p) * 10000;
              hi0 = (numerator + denominator - 1) sdiv denominator;
              hi = (if hi0 < 1 then 1 else hi0) in
          if hi > MAX_MINOR_UNIT_AMOUNT \<or> promoterNetAt p netSupplyCost hi < 0
          then Inl (ListingEconomicsError ''NO_VIABLE_RETAIL_PRICE'')
          else Inr (viable_search (\<lambda>mid. promoterNetAt p netSupplyCost mid \<ge> 0) 1 hi))"

text \<open>The bound the source documents: the ceiling of the exact quotient is always feasible, so the
  test of \<open>promoterNetAt hi\<close> never refuses.\<close>

lemma ceiling_price_feasible:
  assumes p: "MonacadoWholesaleAcquisitionPolicy p" and d: "0 < 10000 - wap_retainedPercentageBasisPoints p"
    and n: "0 \<le> n"
    and h: "((n + wap_retainedFixedAmountMinorUnits p) * 10000 + (10000 - wap_retainedPercentageBasisPoints p) - 1)
              sdiv (10000 - wap_retainedPercentageBasisPoints p) \<le> h"
    and h0: "0 \<le> h"
  shows "0 \<le> promoterNetAt p n h"
proof -
  let ?bp = "wap_retainedPercentageBasisPoints p" and ?f = "wap_retainedFixedAmountMinorUnits p"
  let ?d = "10000 - ?bp"
  have f: "0 \<le> ?f" using p by (simp add: MonacadoWholesaleAcquisitionPolicy_def Amount_def)
  have N0: "0 \<le> (n + ?f) * 10000 + ?d - 1" using n f d by simp
  let ?x = "(n + ?f) * 10000 + ?d - 1"
  have "?x div ?d \<le> h" using h N0 d by (simp add: sdiv_nonneg)
  then have "?x div ?d * ?d \<le> h * ?d" using d by (intro mult_right_mono) auto
  moreover have "?x = ?x div ?d * ?d + ?x mod ?d" by (simp only: div_mult_mod_eq)
  moreover have "?x mod ?d < ?d" using d by simp
  ultimately have "?x < h * ?d + ?d" by linarith
  then have "(n + ?f) * 10000 \<le> h * ?d" by (simp add: algebra_simps)
  then have "10000 * (h - n - ?f) \<ge> h * ?bp" by (simp add: algebra_simps)
  then have "(h * ?bp + 5000) div 10000 \<le> (10000 * (h - n - ?f) + 5000) div 10000"
    by (intro zdiv_mono1) auto
  then have "(h * ?bp + 5000) div 10000 \<le> h - n - ?f" by simp
  then show ?thesis using promoterNetAt_eq[OF p h0] by (simp add: retained_at_def)
qed

lemma minimumViablePromotedRetailPrice_least:
  assumes ok: "minimumViablePromotedRetailPrice W C cur p = Inr m"
  shows "1 \<le> m" and "m \<le> MAX_MINOR_UNIT_AMOUNT"
    and "\<And>r. 1 \<le> r \<Longrightarrow> 0 \<le> promoterNetAt p (W - C) r \<longleftrightarrow> m \<le> r"
    and "MonacadoWholesaleAcquisitionPolicy p" and "wap_currency p = cur" and "C \<le> W"
proof -
  from ok show p: "MonacadoWholesaleAcquisitionPolicy p" and "wap_currency p = cur" and "C \<le> W"
    by (auto simp: minimumViablePromotedRetailPrice_def Let_def split: if_split_asm)
  let ?ok = "\<lambda>mid. promoterNetAt p (W - C) mid \<ge> 0"
  let ?d = "10000 - wap_retainedPercentageBasisPoints p"
  define hi0 where "hi0 = ((W - C + wap_retainedFixedAmountMinorUnits p) * 10000 + ?d - 1) sdiv ?d"
  define hi where "hi = (if hi0 < 1 then 1 else hi0)"
  have "\<not> (hi > MAX_MINOR_UNIT_AMOUNT \<or> promoterNetAt p (W - C) hi < 0) \<and> Inr m = (Inr (viable_search ?ok 1 hi) :: amount res)"
    using ok unfolding minimumViablePromotedRetailPrice_def Let_def hi0_def[symmetric] hi_def[symmetric]
    by (simp split: if_split_asm)
  then have hi: "1 \<le> hi" "hi \<le> MAX_MINOR_UNIT_AMOUNT" "?ok hi" and m: "m = viable_search ?ok 1 hi"
    by (auto simp: hi_def)
  have mono: "\<And>a b. 1 \<le> a \<Longrightarrow> a \<le> b \<Longrightarrow> ?ok a \<Longrightarrow> ?ok b"
    using promoterNetAt_mono[OF p] by (meson order_trans zero_le_one)
  have "1 \<le> viable_search ?ok 1 hi \<and> viable_search ?ok 1 hi \<le> hi \<and> ?ok (viable_search ?ok 1 hi) \<and>
      (\<forall>r. 1 \<le> r \<longrightarrow> r < viable_search ?ok 1 hi \<longrightarrow> \<not> ?ok r)"
    by (rule viable_search_least) (use hi mono in auto)
  then have s: "1 \<le> m" "m \<le> hi" "?ok m" "\<And>r. 1 \<le> r \<Longrightarrow> r < m \<Longrightarrow> \<not> ?ok r"
    using m by auto
  then show "1 \<le> m" and "m \<le> MAX_MINOR_UNIT_AMOUNT" using hi by auto
  show "0 \<le> promoterNetAt p (W - C) r \<longleftrightarrow> m \<le> r" if "1 \<le> r" for r
    using s mono[of m r] that by (meson not_le order_trans)
qed

section \<open>Placements, scheduled sales and the effective price\<close>

record retail_price =
  rp_minorUnits :: amount
  rp_currency :: currency

record sale_schedule =
  ss_salePriceMinorUnits :: amount
  ss_salePriceCurrency :: currency
  ss_saleStartsAt :: instant
  ss_saleEndsAt :: instant

record seller_direct_placement =
  sd_retail :: "retail_price option"
  sd_sale :: "sale_schedule option"

record accepted_offer_dependency =
  aod_internalOfferId :: ident
  aod_offerSourceRecordId :: ident
  aod_acceptedVersion :: string
  aod_acceptedWholesalePriceMinorUnits :: amount
  aod_acceptedWholesalePriceCurrency :: currency
  aod_acceptedCommissionPolicyVersion :: string
  aod_acceptedAt :: instant

datatype upstream_review_state = NO_UPSTREAM_CHANGE | REVIEW_REQUIRED | ACCEPTED_CURRENT_VERSION

datatype listing_placement =
    SellerDirectPlacement seller_direct_placement
  | PromotedPlacement retail_price accepted_offer_dependency upstream_review_state
  | PackagePromotedPlacement "retail_price option"

definition RetailPrice :: "retail_price \<Rightarrow> bool" where
  "RetailPrice r = (MinorUnitAmount (rp_minorUnits r) \<and> CurrencyCode (rp_currency r))"

definition SellerSaleSchedule :: "sale_schedule \<Rightarrow> bool" where
  "SellerSaleSchedule s = (MinorUnitAmount (ss_salePriceMinorUnits s) \<and> CurrencyCode (ss_salePriceCurrency s))"

definition AcceptedOfferDependency :: "accepted_offer_dependency \<Rightarrow> bool" where
  "AcceptedOfferDependency d =
     (MinorUnitAmount (aod_acceptedWholesalePriceMinorUnits d) \<and>
      CurrencyCode (aod_acceptedWholesalePriceCurrency d) \<and>
      1 \<le> length (aod_acceptedCommissionPolicyVersion d) \<and> length (aod_acceptedCommissionPolicyVersion d) \<le> 64)"

text \<open>The union and its refinement: a sale needs an ordinary price, in the same currency and
  strictly lower, over a non-empty half-open window.\<close>

fun ListingPlacement :: "listing_placement \<Rightarrow> bool" where
  "ListingPlacement (SellerDirectPlacement p) =
     ((case sd_retail p of None \<Rightarrow> True | Some r \<Rightarrow> RetailPrice r) \<and>
      (case sd_sale p of None \<Rightarrow> True
       | Some s \<Rightarrow> SellerSaleSchedule s \<and>
          (case sd_retail p of None \<Rightarrow> False
           | Some r \<Rightarrow> ss_salePriceCurrency s = rp_currency r \<and>
                      ss_salePriceMinorUnits s < rp_minorUnits r \<and>
                      ss_saleStartsAt s < ss_saleEndsAt s)))"
| "ListingPlacement (PromotedPlacement r d _) = (RetailPrice r \<and> AcceptedOfferDependency d)"
| "ListingPlacement (PackagePromotedPlacement r) = (case r of None \<Rightarrow> True | Some x \<Rightarrow> RetailPrice x)"

fun isPackagePromotedPlacement :: "listing_placement \<Rightarrow> bool" where
  "isPackagePromotedPlacement (PackagePromotedPlacement _) = True"
| "isPackagePromotedPlacement _ = False"

fun isLegacyPromotedPlacement :: "listing_placement \<Rightarrow> bool" where
  "isLegacyPromotedPlacement (PromotedPlacement _ _ _) = True"
| "isLegacyPromotedPlacement _ = False"

record effective_price =
  ep_effectivePriceMinorUnits :: amount
  ep_currency :: currency
  ep_saleActive :: bool

definition isSaleActive :: "sale_schedule \<Rightarrow> instant \<Rightarrow> bool" where
  "isSaleActive s now = (now \<ge> ss_saleStartsAt s \<and> now < ss_saleEndsAt s)"

definition effectiveSellerRetailPrice :: "seller_direct_placement \<Rightarrow> instant \<Rightarrow> effective_price res" where
  "effectiveSellerRetailPrice p now =
     (case sd_retail p of
        None \<Rightarrow> Inl (ListingEconomicsError ''LISTING_NOT_PRICED'')
      | Some r \<Rightarrow>
          (case sd_sale p of
             None \<Rightarrow> Inr \<lparr>ep_effectivePriceMinorUnits = rp_minorUnits r, ep_currency = rp_currency r,
                          ep_saleActive = False\<rparr>
           | Some s \<Rightarrow>
               let active = isSaleActive s now
               in Inr \<lparr>ep_effectivePriceMinorUnits = (if active then ss_salePriceMinorUnits s else rp_minorUnits r),
                       ep_currency = rp_currency r, ep_saleActive = active\<rparr>))"

record seller_direct_economics =
  sde_effectiveCommercialRetailPrice :: amount
  sde_saleActive :: bool
  sde_monacadoRetainedAmount :: amount
  sde_acquisitionAmount :: amount
  sde_sellerProceeds :: amount
  sde_currency :: currency
  sde_policyId :: ident
  sde_policyVersion :: string

definition SellerDirectEconomics :: "seller_direct_economics \<Rightarrow> bool" where
  "SellerDirectEconomics e =
     (Amount (sde_effectiveCommercialRetailPrice e) \<and> Amount (sde_monacadoRetainedAmount e) \<and>
      Amount (sde_acquisitionAmount e) \<and> Amount (sde_sellerProceeds e) \<and> CurrencyCode (sde_currency e) \<and>
      1 \<le> length (sde_policyId e) \<and> length (sde_policyId e) \<le> 191 \<and>
      1 \<le> length (sde_policyVersion e) \<and> length (sde_policyVersion e) \<le> 64)"

definition calculateSellerDirectEconomics ::
  "seller_direct_placement \<Rightarrow> instant \<Rightarrow> acquisition_policy \<Rightarrow> seller_direct_economics res" where
  "calculateSellerDirectEconomics pl now p =
     chain (effectiveSellerRetailPrice pl now) (\<lambda>eff.
     chain (calculateMorWholesaleAcquisition (ep_effectivePriceMinorUnits eff) (ep_currency eff) p) (\<lambda>a.
       let e = \<lparr>sde_effectiveCommercialRetailPrice = ep_effectivePriceMinorUnits eff,
                sde_saleActive = ep_saleActive eff,
                sde_monacadoRetainedAmount = mar_monacadoRetainedAmount a,
                sde_acquisitionAmount = mar_acquisitionAmount a,
                sde_sellerProceeds = mar_acquisitionAmount a,
                sde_currency = ep_currency eff,
                sde_policyId = mar_policyId a, sde_policyVersion = mar_policyVersion a\<rparr>
       in if SellerDirectEconomics e then Inr e else Inl ZodError))"

lemma effectiveSellerRetailPrice_priced:
  "is_ok (effectiveSellerRetailPrice p now) \<longleftrightarrow> sd_retail p \<noteq> None"
  by (auto simp: effectiveSellerRetailPrice_def Let_def split: option.splits)

lemma effectiveSellerRetailPrice_window:
  assumes "ListingPlacement (SellerDirectPlacement p)" and "sd_retail p = Some r"
    and "effectiveSellerRetailPrice p now = Inr e"
  shows "MinorUnitAmount (ep_effectivePriceMinorUnits e)"
    and "ep_currency e = rp_currency r"
    and "ep_effectivePriceMinorUnits e \<le> rp_minorUnits r"
    and "ep_saleActive e \<longleftrightarrow> (\<exists>s. sd_sale p = Some s \<and> ss_saleStartsAt s \<le> now \<and> now < ss_saleEndsAt s)"
    and "ep_effectivePriceMinorUnits e < rp_minorUnits r \<longleftrightarrow> ep_saleActive e"
  using assms
  by (auto simp: effectiveSellerRetailPrice_def isSaleActive_def Let_def RetailPrice_def SellerSaleSchedule_def
      split: option.splits if_split_asm)

lemma calculateMorWholesaleAcquisition_sum:
  assumes "calculateMorWholesaleAcquisition r cur p = Inr a"
  shows "mar_acquisitionAmount a + mar_monacadoRetainedAmount a = r"
    and "mar_commercialRetailPrice a = r" and "MorAcquisitionResult a"
  using assms
  by (auto simp: calculateMorWholesaleAcquisition_def chain_Inr_iff Let_def split: if_split_asm)

lemma calculateSellerDirectEconomics_fields:
  assumes "calculateSellerDirectEconomics pl now p = Inr e"
  shows "SellerDirectEconomics e"
    and "sde_sellerProceeds e = sde_acquisitionAmount e"
    and "sde_acquisitionAmount e + sde_monacadoRetainedAmount e = sde_effectiveCommercialRetailPrice e"
proof -
  obtain eff a where eff: "effectiveSellerRetailPrice pl now = Inr eff"
    and a: "calculateMorWholesaleAcquisition (ep_effectivePriceMinorUnits eff) (ep_currency eff) p = Inr a"
    using assms by (auto simp: calculateSellerDirectEconomics_def chain_Inr_iff)
  show "SellerDirectEconomics e" and "sde_sellerProceeds e = sde_acquisitionAmount e"
    and "sde_acquisitionAmount e + sde_monacadoRetainedAmount e = sde_effectiveCommercialRetailPrice e"
    using assms calculateMorWholesaleAcquisition_sum[OF a]
    by (auto simp: calculateSellerDirectEconomics_def eff a Let_def split: if_split_asm)
qed

end
