(* ===== verification/Policy.thy ===== *)
theory Policy
  imports Economics
begin

text \<open>
  Commercial policy versions: \<open>src/contracts/marketplace/commercial-policy.ts\<close> and
  \<open>src/server/marketplace/commercial-policy-service.ts\<close>.  A version is an immutable set of
  numbers under \<open>(policyId, policyVersion)\<close>; it is recorded as a draft, activated (which retires
  the incumbent in the same transaction) and stays readable after it is retired.  The unique
  column \<open>activeForPolicyId\<close> and the two operations keep at most one version active per policy.
  Whether an account may govern policies is the caller's decision and a parameter here.
\<close>

section \<open>The contract\<close>

datatype policy_status = Policy_DRAFT | Policy_ACTIVE | Policy_RETIRED

fun COMMERCIAL_POLICY_VERSION_TRANSITIONS :: "policy_status \<Rightarrow> policy_status list" where
  "COMMERCIAL_POLICY_VERSION_TRANSITIONS Policy_DRAFT = [Policy_ACTIVE, Policy_RETIRED]"
| "COMMERCIAL_POLICY_VERSION_TRANSITIONS Policy_ACTIVE = [Policy_RETIRED]"
| "COMMERCIAL_POLICY_VERSION_TRANSITIONS Policy_RETIRED = []"

definition isValidCommercialPolicyVersionTransition :: "policy_status \<Rightarrow> policy_status \<Rightarrow> bool" where
  "isValidCommercialPolicyVersionTransition from to =
     (to \<in> set (COMMERCIAL_POLICY_VERSION_TRANSITIONS from))"

definition isBindableCommercialPolicyVersion :: "policy_status \<Rightarrow> bool" where
  "isBindableCommercialPolicyVersion s = (s \<noteq> Policy_DRAFT)"

record policy_version =
  pv_seq :: nat
  pv_policyId :: ident
  pv_policyVersion :: string
  pv_status :: policy_status
  pv_currency :: currency
  pv_retainedPercentageBasisPoints :: int
  pv_retainedFixedAmountMinorUnits :: amount
  pv_roundingPolicy :: rounding_policy
  pv_effectiveFrom :: instant
  pv_recordedByAccountId :: ident
  pv_recordedAt :: instant
  pv_retiredAt :: "instant option"
  pv_retiredByAccountId :: "ident option"
  pv_activeForPolicyId :: "ident option"
  pv_activatedAt :: "instant option"
  pv_activatedByAccountId :: "ident option"

definition CommercialPolicyVersionRecord :: "policy_version \<Rightarrow> bool" where
  "CommercialPolicyVersionRecord v =
     (1 \<le> length (pv_policyId v) \<and> length (pv_policyId v) \<le> 191 \<and>
      1 \<le> length (pv_policyVersion v) \<and> length (pv_policyVersion v) \<le> 64 \<and>
      CurrencyCode (pv_currency v) \<and>
      0 \<le> pv_retainedPercentageBasisPoints v \<and> pv_retainedPercentageBasisPoints v \<le> 10000 \<and>
      Amount (pv_retainedFixedAmountMinorUnits v))"

definition to_policy :: "policy_version \<Rightarrow> acquisition_policy" where
  "to_policy v = \<lparr>wap_policyId = pv_policyId v, wap_policyVersion = pv_policyVersion v,
     wap_currency = pv_currency v,
     wap_retainedPercentageBasisPoints = pv_retainedPercentageBasisPoints v,
     wap_retainedFixedAmountMinorUnits = pv_retainedFixedAmountMinorUnits v,
     wap_roundingPolicy = pv_roundingPolicy v\<rparr>"

definition toWholesaleAcquisitionPolicy :: "policy_version \<Rightarrow> acquisition_policy res" where
  "toWholesaleAcquisitionPolicy v =
     (if \<not> CommercialPolicyVersionRecord v then Inl ZodError
      else if \<not> isBindableCommercialPolicyVersion (pv_status v)
        then Inl (CommercialPolicyError ''POLICY_VERSION_NOT_BINDABLE'')
      else if MonacadoWholesaleAcquisitionPolicy (to_policy v) then Inr (to_policy v) else Inl ZodError)"

section \<open>The service\<close>

record policy_tables =
  commercialPolicies :: "ident list"
  policyVersions :: "policy_version list"

record policy_version_input =
  pvi_policyId :: ident
  pvi_policyVersion :: string
  pvi_currency :: currency
  pvi_retainedPercentageBasisPoints :: int
  pvi_retainedFixedAmountMinorUnits :: amount
  pvi_effectiveFrom :: instant
  pvi_recordedByAccountId :: ident
  pvi_recordedAt :: instant

definition version_key :: "policy_version \<Rightarrow> ident \<times> string" where
  "version_key v = (pv_policyId v, pv_policyVersion v)"

text \<open>\<open>readVersionIn\<close>, with the mapper's refusal of a malformed row.\<close>

definition readVersionIn :: "'a policy_tables_scheme \<Rightarrow> ident \<Rightarrow> string \<Rightarrow> policy_version res" where
  "readVersionIn db pid ver =
     (case List.find (\<lambda>v. version_key v = (pid, ver)) (policyVersions db) of
        None \<Rightarrow> Inl (CommercialPolicyError ''CommercialPolicyVersionNotFoundError'')
      | Some v \<Rightarrow> if CommercialPolicyVersionRecord v then Inr v
                  else Inl (CommercialPolicyError ''CorruptCommercialPolicyRecordError''))"

definition recordCommercialPolicyVersion ::
  "(ident \<Rightarrow> bool) \<Rightarrow> policy_version_input \<Rightarrow> 'a policy_tables_scheme \<Rightarrow>
   ('a policy_tables_scheme \<times> policy_version) res" where
  "recordCommercialPolicyVersion authorized i db =
     (let row = \<lparr>pv_seq = length (policyVersions db),
                 pv_policyId = pvi_policyId i, pv_policyVersion = pvi_policyVersion i,
                 pv_status = Policy_DRAFT, pv_currency = pvi_currency i,
                 pv_retainedPercentageBasisPoints = pvi_retainedPercentageBasisPoints i,
                 pv_retainedFixedAmountMinorUnits = pvi_retainedFixedAmountMinorUnits i,
                 pv_roundingPolicy = HALF_UP_TO_MINOR_UNIT,
                 pv_effectiveFrom = pvi_effectiveFrom i,
                 pv_recordedByAccountId = pvi_recordedByAccountId i,
                 pv_recordedAt = pvi_recordedAt i,
                 pv_retiredAt = None, pv_retiredByAccountId = None,
                 pv_activeForPolicyId = None, pv_activatedAt = None, pv_activatedByAccountId = None\<rparr>
      in if \<not> CommercialPolicyVersionRecord row
           then Inl (CommercialPolicyError ''InvalidCommercialPolicyInputError'')
         else if \<not> authorized (pvi_recordedByAccountId i)
           then Inl (CommercialPolicyError ''CommercialPolicyActorNotAuthorizedError'')
         else if pvi_policyId i \<notin> set (commercialPolicies db)
           then Inl (CommercialPolicyError ''CommercialPolicyNotFoundError'')
         else case insert_unique version_key row (policyVersions db) of
             None \<Rightarrow> Inl (CommercialPolicyError ''DuplicateCommercialPolicyVersionError'')
           | Some vs \<Rightarrow>
               let db' = db\<lparr>policyVersions := vs\<rparr>
               in chain (readVersionIn db' (pvi_policyId i) (pvi_policyVersion i)) (\<lambda>v. Inr (db', v)))"

definition retire_version :: "ident \<Rightarrow> instant \<Rightarrow> policy_version \<Rightarrow> policy_version" where
  "retire_version actor at v = v\<lparr>pv_status := Policy_RETIRED, pv_retiredAt := Some at,
     pv_retiredByAccountId := Some actor, pv_activeForPolicyId := None\<rparr>"

definition activate_version :: "ident \<Rightarrow> instant \<Rightarrow> policy_version \<Rightarrow> policy_version" where
  "activate_version actor at v = v\<lparr>pv_status := Policy_ACTIVE, pv_activeForPolicyId := Some (pv_policyId v),
     pv_activatedAt := Some at, pv_activatedByAccountId := Some actor\<rparr>"

definition activateCommercialPolicyVersion ::
  "(ident \<Rightarrow> bool) \<Rightarrow> ident \<Rightarrow> string \<Rightarrow> ident \<Rightarrow> instant \<Rightarrow> 'a policy_tables_scheme \<Rightarrow>
   ('a policy_tables_scheme \<times> policy_version) res" where
  "activateCommercialPolicyVersion authorized pid ver actor at db =
     (if \<not> authorized actor then Inl (CommercialPolicyError ''CommercialPolicyActorNotAuthorizedError'')
      else case List.find (\<lambda>v. version_key v = (pid, ver)) (policyVersions db) of
        None \<Rightarrow> Inl (CommercialPolicyError ''CommercialPolicyVersionNotFoundError'')
      | Some target \<Rightarrow>
          if \<not> isValidCommercialPolicyVersionTransition (pv_status target) Policy_ACTIVE
          then Inl (CommercialPolicyError ''InvalidCommercialPolicyVersionTransitionError'')
          else
            let vs = update_where (\<lambda>v. pv_activeForPolicyId v = Some pid) (retire_version actor at)
                       (policyVersions db);
                vs' = update_where (\<lambda>v. pv_seq v = pv_seq target) (activate_version actor at) vs;
                db' = db\<lparr>policyVersions := vs'\<rparr>
            in chain (readVersionIn db' pid ver) (\<lambda>v. Inr (db', v)))"

definition getEffectiveCommercialPolicyVersion ::
  "'a policy_tables_scheme \<Rightarrow> ident \<Rightarrow> policy_version res" where
  "getEffectiveCommercialPolicyVersion db pid =
     (if pid \<notin> set (commercialPolicies db)
      then Inl (CommercialPolicyError ''CommercialPolicyNotFoundError'')
      else case filter (\<lambda>v. pv_policyId v = pid \<and> pv_status v = Policy_ACTIVE) (policyVersions db) of
        [] \<Rightarrow> Inl (CommercialPolicyError ''NoActiveCommercialPolicyError'')
      | [v] \<Rightarrow> if CommercialPolicyVersionRecord v then Inr v
               else Inl (CommercialPolicyError ''CorruptCommercialPolicyRecordError'')
      | _ \<Rightarrow> Inl (CommercialPolicyError ''AmbiguousActiveCommercialPolicyError''))"

section \<open>The lifecycle\<close>

fun policy_rank :: "policy_status \<Rightarrow> nat" where
  "policy_rank Policy_DRAFT = 0"
| "policy_rank Policy_ACTIVE = 1"
| "policy_rank Policy_RETIRED = 2"

interpretation policy_lifecycle: forward_table COMMERCIAL_POLICY_VERSION_TRANSITIONS
  "\<lambda>s. s = Policy_RETIRED" policy_rank
proof
  fix s t
  show "(s = Policy_RETIRED) = (COMMERCIAL_POLICY_VERSION_TRANSITIONS s = [])" by (cases s) auto
  show "t \<in> set (COMMERCIAL_POLICY_VERSION_TRANSITIONS s) \<Longrightarrow> policy_rank s < policy_rank t"
    by (cases s) auto
qed

section \<open>Invariant\<close>

text \<open>Rows are identified by their sequence number and by \<open>(policyId, policyVersion)\<close>; the marker
  is set on exactly the active rows; no two rows carry the same marker.\<close>

definition policy_inv :: "'a policy_tables_scheme \<Rightarrow> bool" where
  "policy_inv db \<longleftrightarrow>
     unique_on pv_seq (policyVersions db) \<and> unique_on version_key (policyVersions db) \<and>
     (\<forall>v\<in>set (policyVersions db). pv_seq v < length (policyVersions db)) \<and>
     (\<forall>v\<in>set (policyVersions db).
        pv_activeForPolicyId v = (if pv_status v = Policy_ACTIVE then Some (pv_policyId v) else None)) \<and>
     (\<forall>v\<in>set (policyVersions db). \<forall>w\<in>set (policyVersions db).
        pv_status v = Policy_ACTIVE \<longrightarrow> pv_status w = Policy_ACTIVE \<longrightarrow> pv_policyId v = pv_policyId w \<longrightarrow> v = w)"

text \<open>What no operation may change in a version: its identity and its numbers.\<close>

definition version_facts where
  "version_facts v = (pv_seq v, version_key v, to_policy v, pv_effectiveFrom v,
     pv_recordedByAccountId v, pv_recordedAt v)"

lemma version_facts_standing [simp]:
  "version_facts (retire_version actor at v) = version_facts v"
  "version_facts (activate_version actor at v) = version_facts v"
  "pv_seq (retire_version actor at v) = pv_seq v"
  "pv_seq (activate_version actor at v) = pv_seq v"
  "version_key (retire_version actor at v) = version_key v"
  "version_key (activate_version actor at v) = version_key v"
  by (simp_all add: version_facts_def retire_version_def activate_version_def version_key_def to_policy_def)

lemma recordCommercialPolicyVersion_table:
  assumes "recordCommercialPolicyVersion auth i db = Inr (db', v)"
  obtains row where "insert_unique version_key row (policyVersions db) = Some (policyVersions db')"
    and "pv_status row = Policy_DRAFT" and "pv_activeForPolicyId row = None"
    and "pv_seq row = length (policyVersions db)"
    and "auth (pvi_recordedByAccountId i)" and "commercialPolicies db' = commercialPolicies db"
  using assms
  by (auto simp: recordCommercialPolicyVersion_def Let_def chain_Inr_iff split: if_split_asm option.split_asm)

lemma record_policy_inv:
  assumes inv: "policy_inv db" and ok: "recordCommercialPolicyVersion auth i db = Inr (db', v)"
  shows "policy_inv db'"
proof -
  obtain row where ins: "insert_unique version_key row (policyVersions db) = Some (policyVersions db')"
    and row: "pv_status row = Policy_DRAFT" "pv_activeForPolicyId row = None"
      "pv_seq row = length (policyVersions db)"
    using recordCommercialPolicyVersion_table[OF ok] by metis
  have tab: "policyVersions db' = policyVersions db @ [row]"
    using ins by (simp add: insert_unique_Some_iff)
  have "pv_seq row \<notin> pv_seq ` set (policyVersions db)"
    using inv row(3) by (auto simp: policy_inv_def)
  then show ?thesis
    using inv row ins unfolding policy_inv_def tab
    by (auto simp: insert_unique_Some_iff less_Suc_eq)
qed

text \<open>Activation rewrites each row by \<open>activation_step\<close>.\<close>

definition activation_step :: "ident \<Rightarrow> nat \<Rightarrow> ident \<Rightarrow> instant \<Rightarrow> policy_version \<Rightarrow> policy_version" where
  "activation_step pid seq actor at v =
     (let v' = if pv_activeForPolicyId v = Some pid then retire_version actor at v else v
      in if pv_seq v' = seq then activate_version actor at v' else v')"

lemma activateCommercialPolicyVersion_table:
  assumes "activateCommercialPolicyVersion auth pid ver actor at db = Inr (db', v)"
  obtains target where "target \<in> set (policyVersions db)" and "version_key target = (pid, ver)"
    and "pv_status target = Policy_DRAFT"
    and "policyVersions db' = map (activation_step pid (pv_seq target) actor at) (policyVersions db)"
    and "commercialPolicies db' = commercialPolicies db" and "auth actor"
proof -
  have auth: "auth actor" using assms by (auto simp: activateCommercialPolicyVersion_def split: if_split_asm)
  obtain target where f: "List.find (\<lambda>v. version_key v = (pid, ver)) (policyVersions db) = Some target"
    using assms auth by (cases "List.find (\<lambda>v. version_key v = (pid, ver)) (policyVersions db)")
      (auto simp: activateCommercialPolicyVersion_def)
  have tr: "isValidCommercialPolicyVersionTransition (pv_status target) Policy_ACTIVE"
    using assms auth f by (auto simp: activateCommercialPolicyVersion_def split: if_split_asm)
  then have draft: "pv_status target = Policy_DRAFT"
    by (cases "pv_status target") (auto simp: isValidCommercialPolicyVersionTransition_def)
  have "policyVersions db' = update_where (\<lambda>v. pv_seq v = pv_seq target) (activate_version actor at)
      (update_where (\<lambda>v. pv_activeForPolicyId v = Some pid) (retire_version actor at) (policyVersions db))"
    and "commercialPolicies db' = commercialPolicies db"
    using assms auth f tr by (auto simp: activateCommercialPolicyVersion_def Let_def chain_Inr_iff)
  moreover have "update_where (\<lambda>v. pv_seq v = pv_seq target) (activate_version actor at)
      (update_where (\<lambda>v. pv_activeForPolicyId v = Some pid) (retire_version actor at) (policyVersions db))
      = map (activation_step pid (pv_seq target) actor at) (policyVersions db)"
    by (simp add: update_where_def activation_step_def Let_def)
  moreover have "target \<in> set (policyVersions db)" "version_key target = (pid, ver)"
    using find_Some_set[OF f] by auto
  ultimately show ?thesis using that draft auth by metis
qed

lemma activation_step_facts [simp]: "version_facts (activation_step pid seq actor at v) = version_facts v"
  by (simp add: activation_step_def Let_def)

lemma activation_step_keys [simp]:
  "pv_seq (activation_step pid seq actor at v) = pv_seq v"
  "version_key (activation_step pid seq actor at v) = version_key v"
  "pv_policyId (activation_step pid seq actor at v) = pv_policyId v"
  using activation_step_facts[of pid seq actor at v] by (simp_all add: version_facts_def version_key_def)

lemma activation_step_status:
  "pv_status (activation_step pid seq actor at v) =
     (if pv_seq v = seq then Policy_ACTIVE
      else if pv_activeForPolicyId v = Some pid then Policy_RETIRED else pv_status v)"
  "pv_activeForPolicyId (activation_step pid seq actor at v) =
     (if pv_seq v = seq then Some (pv_policyId v)
      else if pv_activeForPolicyId v = Some pid then None else pv_activeForPolicyId v)"
  by (simp_all add: activation_step_def Let_def retire_version_def activate_version_def)

lemma activate_policy_inv:
  assumes inv: "policy_inv db" and ok: "activateCommercialPolicyVersion auth pid ver actor at db = Inr (db', v)"
  shows "policy_inv db'"
proof -
  obtain target where t: "target \<in> set (policyVersions db)" "version_key target = (pid, ver)"
    and draft: "pv_status target = Policy_DRAFT"
    and tab: "policyVersions db' = map (activation_step pid (pv_seq target) actor at) (policyVersions db)"
    using activateCommercialPolicyVersion_table[OF ok] by metis
  let ?f = "activation_step pid (pv_seq target) actor at"
  have pid: "pv_policyId target = pid" using t(2) by (simp add: version_key_def)
  have same: "x = target" if "x \<in> set (policyVersions db)" "pv_seq x = pv_seq target" for x
    using inv t(1) that unique_on_eq by (fastforce simp: policy_inv_def)
  have mark: "pv_activeForPolicyId x = (if pv_status x = Policy_ACTIVE then Some (pv_policyId x) else None)"
    if "x \<in> set (policyVersions db)" for x
    using inv that by (simp add: policy_inv_def)
  have act: "pv_status (?f x) = Policy_ACTIVE \<longleftrightarrow>
      x = target \<or> pv_status x = Policy_ACTIVE \<and> pv_policyId x \<noteq> pid"
    if "x \<in> set (policyVersions db)" for x
    using same[OF that] mark[OF that] draft by (auto simp: activation_step_status)
  have single: "x = y" if "x \<in> set (policyVersions db)" "y \<in> set (policyVersions db)"
    "pv_status (?f x) = Policy_ACTIVE" "pv_status (?f y) = Policy_ACTIVE" "pv_policyId x = pv_policyId y" for x y
    using that act pid inv unfolding policy_inv_def by metis
  have marks: "pv_activeForPolicyId (?f x) =
      (if pv_status (?f x) = Policy_ACTIVE then Some (pv_policyId (?f x)) else None)"
    if "x \<in> set (policyVersions db)" for x
    using mark[OF that] by (auto simp: activation_step_status)
  show ?thesis
    using inv marks single unfolding policy_inv_def tab
    by (auto simp: unique_on_def o_def)
qed

lemma activate_facts:
  assumes "activateCommercialPolicyVersion auth pid ver actor at db = Inr (db', v)"
  shows "map version_facts (policyVersions db') = map version_facts (policyVersions db)"
proof (rule activateCommercialPolicyVersion_table[OF assms])
  fix target
  assume "policyVersions db' = map (activation_step pid (pv_seq target) actor at) (policyVersions db)"
  then show ?thesis by simp
qed

lemma policy_inv_active_count:
  assumes "policy_inv db"
  shows "count_where (\<lambda>v. pv_policyId v = pid \<and> pv_status v = Policy_ACTIVE) (policyVersions db) \<le> 1"
  using assms by (intro count_where_le_1) (auto simp: policy_inv_def unique_on_def distinct_map)

text \<open>The effective lookup never finds two: with the invariant the ambiguous branch is dead.\<close>

lemma effective_not_ambiguous:
  assumes "policy_inv db"
  shows "getEffectiveCommercialPolicyVersion db pid
           \<noteq> Inl (CommercialPolicyError ''AmbiguousActiveCommercialPolicyError'')"
proof -
  let ?vs = "filter (\<lambda>v. pv_policyId v = pid \<and> pv_status v = Policy_ACTIVE) (policyVersions db)"
  have "length ?vs \<le> 1" using policy_inv_active_count[OF assms] by (simp add: count_where_def)
  then show ?thesis
    by (cases ?vs rule: remdups_adj.cases) (auto simp: getEffectiveCommercialPolicyVersion_def)
qed

section \<open>Histories of the policy book\<close>

inductive policy_step :: "'a policy_tables_scheme \<Rightarrow> 'a policy_tables_scheme \<Rightarrow> bool" where
  created: "policy_step db (db\<lparr>commercialPolicies := pid # commercialPolicies db\<rparr>)"
| recorded: "recordCommercialPolicyVersion auth i db = Inr (db', v) \<Longrightarrow> policy_step db db'"
| activated: "activateCommercialPolicyVersion auth pid ver actor at db = Inr (db', v) \<Longrightarrow> policy_step db db'"

lemma policy_step_inv: "policy_step db db' \<Longrightarrow> policy_inv db \<Longrightarrow> policy_inv db'"
  by (induction rule: policy_step.induct)
     (auto intro: record_policy_inv activate_policy_inv, simp add: policy_inv_def)

lemma policy_steps_inv: "policy_step\<^sup>*\<^sup>* db db' \<Longrightarrow> policy_inv db \<Longrightarrow> policy_inv db'"
  by (induction rule: rtranclp_induct) (auto intro: policy_step_inv)

text \<open>Rows are only appended, and an appended row's facts never change.\<close>

lemma policy_step_facts:
  "policy_step db db' \<Longrightarrow>
   \<exists>ws. map version_facts (policyVersions db') = map version_facts (policyVersions db) @ ws"
proof (induction rule: policy_step.induct)
  case (created db pid)
  then show ?case by simp
next
  case (recorded auth i db db' v)
  then obtain row where "insert_unique version_key row (policyVersions db) = Some (policyVersions db')"
    using recordCommercialPolicyVersion_table[OF recorded] by metis
  then show ?case by (auto simp: insert_unique_Some_iff)
next
  case (activated auth pid ver actor at db db' v)
  then show ?case using activate_facts by fastforce
qed

lemma policy_steps_facts:
  "policy_step\<^sup>*\<^sup>* db db' \<Longrightarrow>
   \<exists>ws. map version_facts (policyVersions db') = map version_facts (policyVersions db) @ ws"
proof (induction rule: rtranclp_induct)
  case (step db1 db2)
  then show ?case using policy_step_facts[OF step.hyps(2)] by (metis append.assoc)
qed simp

text \<open>A version bindable once prices the same forever: whatever is recorded or activated later,
  the exact lookup returns the same acquisition policy.\<close>

definition readExactPolicy :: "'a policy_tables_scheme \<Rightarrow> ident \<Rightarrow> string \<Rightarrow> acquisition_policy res" where
  "readExactPolicy db pid ver = chain (readVersionIn db pid ver) (\<lambda>v.
     case toWholesaleAcquisitionPolicy v of
       Inl (CommercialPolicyError c) \<Rightarrow> Inl (TransactionAccountingError ''CommercialPolicyVersionNotBindableError'')
     | r \<Rightarrow> r)"

lemma policy_step_row:
  assumes "policy_step db db'" and "v \<in> set (policyVersions db)"
  shows "\<exists>v'\<in>set (policyVersions db'). version_facts v' = version_facts v \<and>
           (pv_status v \<noteq> Policy_DRAFT \<longrightarrow> pv_status v' \<noteq> Policy_DRAFT)"
  using assms
proof (induction rule: policy_step.induct)
  case (recorded auth i db db' w)
  then obtain row where "insert_unique version_key row (policyVersions db) = Some (policyVersions db')"
    using recordCommercialPolicyVersion_table[OF recorded(1)] by metis
  then show ?case using recorded(2) by (auto simp: insert_unique_Some_iff)
next
  case (activated auth pid ver actor at db db' w)
  show ?case
  proof (rule activateCommercialPolicyVersion_table[OF activated(1)])
    fix target
    assume "policyVersions db' = map (activation_step pid (pv_seq target) actor at) (policyVersions db)"
    then show ?thesis using activated(2) by (auto simp: activation_step_status)
  qed
qed auto

lemma policy_steps_row:
  assumes "policy_step\<^sup>*\<^sup>* db db'" and "v \<in> set (policyVersions db)"
  shows "\<exists>v'\<in>set (policyVersions db'). version_facts v' = version_facts v \<and>
           (pv_status v \<noteq> Policy_DRAFT \<longrightarrow> pv_status v' \<noteq> Policy_DRAFT)"
  using assms
proof (induction rule: rtranclp_induct)
  case (step db1 db2)
  then show ?case using policy_step_row[OF step.hyps(2)] by metis
qed auto

lemma record_from_facts:
  assumes "version_facts v = version_facts w"
  shows "CommercialPolicyVersionRecord v = CommercialPolicyVersionRecord w"
    and "to_policy v = to_policy w" and "version_key v = version_key w"
  using assms by (auto simp: version_facts_def to_policy_def version_key_def CommercialPolicyVersionRecord_def)

lemma readExactPolicy_Inr_iff:
  assumes "unique_on version_key (policyVersions db)"
  shows "readExactPolicy db pid ver = Inr p \<longleftrightarrow>
    (\<exists>v\<in>set (policyVersions db). version_key v = (pid, ver) \<and> CommercialPolicyVersionRecord v \<and>
       pv_status v \<noteq> Policy_DRAFT \<and> MonacadoWholesaleAcquisitionPolicy (to_policy v) \<and> p = to_policy v)"
proof (cases "List.find (\<lambda>v. version_key v = (pid, ver)) (policyVersions db)")
  case None
  then show ?thesis
    by (auto simp: readExactPolicy_def readVersionIn_def dest: find_None_set)
next
  case (Some v)
  note v = find_Some_set[OF Some]
  have only: "w = v" if "w \<in> set (policyVersions db)" "version_key w = (pid, ver)" for w
    using unique_on_eq[OF assms] v that by metis
  show ?thesis
    using v only
    by (auto simp: readExactPolicy_def readVersionIn_def Some toWholesaleAcquisitionPolicy_def
          isBindableCommercialPolicyVersion_def split: err.splits sum.splits if_split_asm)
qed

lemma readExactPolicy_valid:
  assumes "readExactPolicy db pid ver = Inr p"
  shows "MonacadoWholesaleAcquisitionPolicy p"
  using assms
  by (auto simp: readExactPolicy_def toWholesaleAcquisitionPolicy_def chain_Inr_iff split: if_split_asm sum.split_asm err.split_asm)

lemma readExactPolicy_stable:
  assumes inv: "policy_inv db" and steps: "policy_step\<^sup>*\<^sup>* db db'"
    and ok: "readExactPolicy db pid ver = Inr p"
  shows "readExactPolicy db' pid ver = Inr p"
proof -
  have u: "unique_on version_key (policyVersions db)" using inv by (simp add: policy_inv_def)
  have u': "unique_on version_key (policyVersions db')"
    using policy_steps_inv[OF steps inv] by (simp add: policy_inv_def)
  obtain v where v: "v \<in> set (policyVersions db)" "version_key v = (pid, ver)" "CommercialPolicyVersionRecord v"
    "pv_status v \<noteq> Policy_DRAFT" "MonacadoWholesaleAcquisitionPolicy (to_policy v)" "p = to_policy v"
    using ok readExactPolicy_Inr_iff[OF u] by blast
  obtain v' where v': "v' \<in> set (policyVersions db')" "version_facts v' = version_facts v"
    "pv_status v' \<noteq> Policy_DRAFT"
    using policy_steps_row[OF steps v(1)] v(4) by blast
  show ?thesis
    unfolding readExactPolicy_Inr_iff[OF u'] using v v' record_from_facts[OF v'(2)] by metis
qed

end
