(* ===== verification/Accounting.thy ===== *)
theory Accounting
  imports Policy
begin

text \<open>
  Per-sale accounting: \<open>src/contracts/marketplace/transaction-accounting.ts\<close>,
  \<open>src/server/marketplace/transaction-accounting-mapper.ts\<close> and
  \<open>src/server/marketplace/transaction-accounting-service.ts\<close>.  A sale's economics are computed
  from the exact Listing, Offer and policy versions it is bound to, reconciled, and written as an
  immutable snapshot row beside a mutable settlement row.  The Listing and Offer version rows are
  kept here in the form their own mappers return.
\<close>

section \<open>Economics of a sale\<close>

record offer_binding =
  ob_internalOfferId :: ident
  ob_offerSourceRecordId :: ident
  ob_offerSourceRecordVersion :: string

record seller_direct_te =
  sdt_monacadoRetained :: amount
  sdt_acquisition :: amount
  sdt_sellerProceeds :: amount

record promoted_te =
  pte_offerBinding :: offer_binding
  pte_monacadoRetained :: amount
  pte_acquisition :: amount
  pte_offerWholesalePrice :: amount
  pte_sellerFundedCommission :: amount
  pte_promoterRetailSpread :: amount
  pte_promoterNetProceeds :: amount
  pte_sellerProceeds :: amount

datatype transaction_economics =
    SELLER_DIRECT seller_direct_te
  | PROMOTED promoted_te

definition source_ref :: "ident \<Rightarrow> bool" where
  "source_ref s = (1 \<le> length s \<and> length s \<le> 191)"

definition version_ref :: "string \<Rightarrow> bool" where
  "version_ref s = (1 \<le> length s \<and> length s \<le> 64)"

definition OfferSourceBinding :: "offer_binding \<Rightarrow> bool" where
  "OfferSourceBinding b = (source_ref (ob_offerSourceRecordId b) \<and> version_ref (ob_offerSourceRecordVersion b))"

fun TransactionEconomics :: "transaction_economics \<Rightarrow> bool" where
  "TransactionEconomics (SELLER_DIRECT e) =
     (Amount (sdt_monacadoRetained e) \<and> Amount (sdt_acquisition e) \<and> Amount (sdt_sellerProceeds e))"
| "TransactionEconomics (PROMOTED e) =
     (OfferSourceBinding (pte_offerBinding e) \<and>
      Amount (pte_monacadoRetained e) \<and> Amount (pte_acquisition e) \<and>
      Amount (pte_offerWholesalePrice e) \<and> Amount (pte_sellerFundedCommission e) \<and>
      SignedAmount (pte_promoterRetailSpread e) \<and> Amount (pte_promoterNetProceeds e) \<and>
      Amount (pte_sellerProceeds e))"

fun te_acquisition :: "transaction_economics \<Rightarrow> amount" where
  "te_acquisition (SELLER_DIRECT e) = sdt_acquisition e"
| "te_acquisition (PROMOTED e) = pte_acquisition e"

fun te_monacadoRetained :: "transaction_economics \<Rightarrow> amount" where
  "te_monacadoRetained (SELLER_DIRECT e) = sdt_monacadoRetained e"
| "te_monacadoRetained (PROMOTED e) = pte_monacadoRetained e"

fun te_sellerProceeds :: "transaction_economics \<Rightarrow> amount" where
  "te_sellerProceeds (SELLER_DIRECT e) = sdt_sellerProceeds e"
| "te_sellerProceeds (PROMOTED e) = pte_sellerProceeds e"

text \<open>The check before any write, component by component in the source's order.\<close>

definition reconcileTransactionEconomics :: "amount \<Rightarrow> transaction_economics \<Rightarrow> unit res" where
  "reconcileTransactionEconomics retail e =
     (if \<not> TransactionEconomics e then Inl ZodError
      else if te_acquisition e + te_monacadoRetained e \<noteq> retail
        then Inl (TransactionAccountingError ''ACQUISITION_IMBALANCE'')
      else case e of
        SELLER_DIRECT s \<Rightarrow>
          if sdt_sellerProceeds s + sdt_monacadoRetained s \<noteq> retail
          then Inl (TransactionAccountingError ''RECONCILIATION_IMBALANCE'') else Inr ()
      | PROMOTED p \<Rightarrow>
          if pte_promoterRetailSpread p \<noteq> pte_acquisition p - pte_offerWholesalePrice p
            then Inl (TransactionAccountingError ''PROMOTER_SPREAD_IMBALANCE'')
          else if pte_promoterNetProceeds p \<noteq> pte_promoterRetailSpread p + pte_sellerFundedCommission p
            then Inl (TransactionAccountingError ''PROMOTER_NET_IMBALANCE'')
          else if pte_sellerProceeds p \<noteq> pte_offerWholesalePrice p - pte_sellerFundedCommission p
            then Inl (TransactionAccountingError ''SELLER_PROCEEDS_IMBALANCE'')
          else if pte_sellerProceeds p + pte_promoterNetProceeds p + pte_monacadoRetained p \<noteq> retail
            then Inl (TransactionAccountingError ''RECONCILIATION_IMBALANCE'')
          else Inr ())"

text \<open>What the check accepts, as the accounting identity: the parties' shares sum to the price.\<close>

fun promoter_net :: "transaction_economics \<Rightarrow> amount" where
  "promoter_net (SELLER_DIRECT _) = 0"
| "promoter_net (PROMOTED p) = pte_promoterNetProceeds p"

lemma reconcile_ok_sum:
  assumes "reconcileTransactionEconomics retail e = Inr ()"
  shows "te_sellerProceeds e + promoter_net e + te_monacadoRetained e = retail"
    and "te_acquisition e + te_monacadoRetained e = retail"
    and "TransactionEconomics e"
  using assms
  by (auto simp: reconcileTransactionEconomics_def split: if_split_asm transaction_economics.split_asm)

text \<open>The last imbalance cannot be reached: once the components agree the sum does.\<close>

lemma reconcile_promoted_last_dead:
  "reconcileTransactionEconomics retail (PROMOTED p) \<noteq> Inl (TransactionAccountingError ''RECONCILIATION_IMBALANCE'')"
  by (auto simp: reconcileTransactionEconomics_def)

section \<open>Snapshots\<close>

record pass_through =
  pt_tax :: amount
  pt_shipping :: amount
  pt_other :: amount

record snapshot_record =
  snap_snapshotId :: ident
  snap_internalListingId :: ident
  snap_listingSourceRecordId :: ident
  snap_listingSourceRecordVersion :: string
  snap_policyId :: ident
  snap_policyVersion :: string
  snap_commercialRetail :: amount
  snap_currency :: currency
  snap_economics :: transaction_economics
  snap_passThrough :: pass_through
  snap_occurredAt :: instant
  snap_recordedAt :: instant

definition TransactionEconomicSnapshotRecord :: "snapshot_record \<Rightarrow> bool" where
  "TransactionEconomicSnapshotRecord s =
     (source_ref (snap_listingSourceRecordId s) \<and> version_ref (snap_listingSourceRecordVersion s) \<and>
      version_ref (snap_policyVersion s) \<and> Amount (snap_commercialRetail s) \<and>
      CurrencyCode (snap_currency s) \<and> TransactionEconomics (snap_economics s) \<and>
      Amount (pt_tax (snap_passThrough s)) \<and> Amount (pt_shipping (snap_passThrough s)) \<and>
      Amount (pt_other (snap_passThrough s)))"

definition buyerChargedTotalMinorUnits :: "snapshot_record \<Rightarrow> amount" where
  "buyerChargedTotalMinorUnits s = snap_commercialRetail s + pt_tax (snap_passThrough s) +
     pt_shipping (snap_passThrough s) + pt_other (snap_passThrough s)"

text \<open>The flat columns of a stored row.\<close>

record economics_columns =
  ec_transactionType :: string
  ec_internalOfferId :: "ident option"
  ec_offerSourceRecordId :: "ident option"
  ec_offerSourceRecordVersion :: "string option"
  ec_monacadoRetained :: int
  ec_acquisition :: int
  ec_sellerProceeds :: int
  ec_offerWholesalePrice :: "int option"
  ec_sellerFundedCommission :: "int option"
  ec_promoterRetailSpread :: "int option"
  ec_promoterNetProceeds :: "int option"

record snapshot_row =
  sr_id :: ident
  sr_internalListingId :: ident
  sr_listingSourceRecordId :: ident
  sr_listingSourceRecordVersion :: string
  sr_policyId :: ident
  sr_policyVersion :: string
  sr_currency :: currency
  sr_commercialRetail :: int
  sr_economics :: economics_columns
  sr_tax :: int
  sr_shipping :: int
  sr_other :: int
  sr_occurredAt :: instant
  sr_recordedAt :: instant
  sr_promotionAuthorizationId :: "ident option"
  sr_promotionOfferAcceptanceId :: "ident option"
  sr_orderId :: "ident option"

definition corrupt_record :: err where
  "corrupt_record = TransactionAccountingError ''CorruptTransactionRecordError''"

definition narrow_amount :: "int \<Rightarrow> amount res" where
  "narrow_amount v = (if Amount v then Inr v else Inl corrupt_record)"

definition narrow_signedAmount :: "int \<Rightarrow> amount res" where
  "narrow_signedAmount v = (if SignedAmount v then Inr v else Inl corrupt_record)"

fun requiredOnPromoted :: "'a option \<Rightarrow> 'a res" where
  "requiredOnPromoted None = Inl corrupt_record"
| "requiredOnPromoted (Some x) = Inr x"

definition rowToEconomics :: "economics_columns \<Rightarrow> transaction_economics res" where
  "rowToEconomics c =
     chain (narrow_amount (ec_monacadoRetained c)) (\<lambda>retained.
     chain (narrow_amount (ec_acquisition c)) (\<lambda>acquisition.
     chain (narrow_amount (ec_sellerProceeds c)) (\<lambda>proceeds.
     if ec_transactionType c \<noteq> ''PROMOTED'' then
       Inr (SELLER_DIRECT \<lparr>sdt_monacadoRetained = retained, sdt_acquisition = acquisition,
                           sdt_sellerProceeds = proceeds\<rparr>)
     else
       chain (requiredOnPromoted (ec_internalOfferId c)) (\<lambda>oid.
       chain (requiredOnPromoted (ec_offerSourceRecordId c)) (\<lambda>osr.
       chain (requiredOnPromoted (ec_offerSourceRecordVersion c)) (\<lambda>osv.
       chain (chain (requiredOnPromoted (ec_offerWholesalePrice c)) narrow_amount) (\<lambda>w.
       chain (chain (requiredOnPromoted (ec_sellerFundedCommission c)) narrow_amount) (\<lambda>com.
       chain (chain (requiredOnPromoted (ec_promoterRetailSpread c)) narrow_signedAmount) (\<lambda>spread.
       chain (chain (requiredOnPromoted (ec_promoterNetProceeds c)) narrow_amount) (\<lambda>net.
       Inr (PROMOTED \<lparr>pte_offerBinding = \<lparr>ob_internalOfferId = oid, ob_offerSourceRecordId = osr,
                                           ob_offerSourceRecordVersion = osv\<rparr>,
                      pte_monacadoRetained = retained, pte_acquisition = acquisition,
                      pte_offerWholesalePrice = w, pte_sellerFundedCommission = com,
                      pte_promoterRetailSpread = spread, pte_promoterNetProceeds = net,
                      pte_sellerProceeds = proceeds\<rparr>)))))))))))"

fun economicsToColumns :: "transaction_economics \<Rightarrow> economics_columns" where
  "economicsToColumns (SELLER_DIRECT e) =
     \<lparr>ec_transactionType = ''SELLER_DIRECT'', ec_internalOfferId = None, ec_offerSourceRecordId = None,
      ec_offerSourceRecordVersion = None, ec_monacadoRetained = sdt_monacadoRetained e,
      ec_acquisition = sdt_acquisition e, ec_sellerProceeds = sdt_sellerProceeds e,
      ec_offerWholesalePrice = None, ec_sellerFundedCommission = None,
      ec_promoterRetailSpread = None, ec_promoterNetProceeds = None\<rparr>"
| "economicsToColumns (PROMOTED e) =
     \<lparr>ec_transactionType = ''PROMOTED'',
      ec_internalOfferId = Some (ob_internalOfferId (pte_offerBinding e)),
      ec_offerSourceRecordId = Some (ob_offerSourceRecordId (pte_offerBinding e)),
      ec_offerSourceRecordVersion = Some (ob_offerSourceRecordVersion (pte_offerBinding e)),
      ec_monacadoRetained = pte_monacadoRetained e, ec_acquisition = pte_acquisition e,
      ec_sellerProceeds = pte_sellerProceeds e,
      ec_offerWholesalePrice = Some (pte_offerWholesalePrice e),
      ec_sellerFundedCommission = Some (pte_sellerFundedCommission e),
      ec_promoterRetailSpread = Some (pte_promoterRetailSpread e),
      ec_promoterNetProceeds = Some (pte_promoterNetProceeds e)\<rparr>"

definition snapshotRowToRecord :: "snapshot_row \<Rightarrow> snapshot_record res" where
  "snapshotRowToRecord r =
     chain (narrow_amount (sr_commercialRetail r)) (\<lambda>retail.
     chain (rowToEconomics (sr_economics r)) (\<lambda>e.
     chain (narrow_amount (sr_tax r)) (\<lambda>tax.
     chain (narrow_amount (sr_shipping r)) (\<lambda>shipping.
     chain (narrow_amount (sr_other r)) (\<lambda>other.
       let s = \<lparr>snap_snapshotId = sr_id r, snap_internalListingId = sr_internalListingId r,
                snap_listingSourceRecordId = sr_listingSourceRecordId r,
                snap_listingSourceRecordVersion = sr_listingSourceRecordVersion r,
                snap_policyId = sr_policyId r, snap_policyVersion = sr_policyVersion r,
                snap_commercialRetail = retail, snap_currency = sr_currency r, snap_economics = e,
                snap_passThrough = \<lparr>pt_tax = tax, pt_shipping = shipping, pt_other = other\<rparr>,
                snap_occurredAt = sr_occurredAt r, snap_recordedAt = sr_recordedAt r\<rparr>
       in if TransactionEconomicSnapshotRecord s then Inr s else Inl corrupt_record)))))"

lemma narrow_amount_ok [simp]: "Amount v \<Longrightarrow> narrow_amount v = Inr v"
  by (simp add: narrow_amount_def)

lemma narrow_amount_Inr_iff: "narrow_amount v = Inr w \<longleftrightarrow> Amount v \<and> w = v"
  by (auto simp: narrow_amount_def)

lemma narrow_signedAmount_Inr_iff: "narrow_signedAmount v = Inr w \<longleftrightarrow> SignedAmount v \<and> w = v"
  by (auto simp: narrow_signedAmount_def)

lemma requiredOnPromoted_Inr_iff: "requiredOnPromoted x = Inr w \<longleftrightarrow> x = Some w"
  by (cases x) auto

lemmas narrowing = narrow_amount_Inr_iff narrow_signedAmount_Inr_iff requiredOnPromoted_Inr_iff

lemma rowToEconomics_economicsToColumns:
  assumes "TransactionEconomics e"
  shows "rowToEconomics (economicsToColumns e) = Inr e"
  using assms
  by (cases e) (auto simp: rowToEconomics_def narrow_amount_def narrow_signedAmount_def)

lemma snapshotRowToRecord_valid:
  "snapshotRowToRecord r = Inr s \<Longrightarrow> TransactionEconomicSnapshotRecord s"
  by (auto simp: snapshotRowToRecord_def chain_Inr_iff Let_def split: if_split_asm)

lemma snapshotRowToRecord_fields:
  assumes "snapshotRowToRecord r = Inr s"
  shows "snap_snapshotId s = sr_id r" and "snap_commercialRetail s = sr_commercialRetail r"
    and "snap_currency s = sr_currency r" and "rowToEconomics (sr_economics r) = Inr (snap_economics s)"
    and "snap_passThrough s = \<lparr>pt_tax = sr_tax r, pt_shipping = sr_shipping r, pt_other = sr_other r\<rparr>"
    and "snap_occurredAt s = sr_occurredAt r"
  using assms
  by (auto simp: snapshotRowToRecord_def chain_Inr_iff Let_def narrowing split: if_split_asm)

end
