(* ===== verification/Accounting_Service.thy ===== *)
theory Accounting_Service
  imports Accounting
begin

text \<open>
  \<open>src/server/marketplace/transaction-accounting-service.ts\<close>: the exact-version reads, the
  computation of a sale's economics, the writes of the snapshot and of its settlement, the
  reconstruction of stored economics, the write-once provider reference and the settlement state.
\<close>

section \<open>Settlement states\<close>

datatype settlement_state = Settlement_PENDING | FUNDS_RECEIVED | SETTLED | REVERSED

fun TRANSACTION_SETTLEMENT_TRANSITIONS :: "settlement_state \<Rightarrow> settlement_state list" where
  "TRANSACTION_SETTLEMENT_TRANSITIONS Settlement_PENDING = [FUNDS_RECEIVED, REVERSED]"
| "TRANSACTION_SETTLEMENT_TRANSITIONS FUNDS_RECEIVED = [SETTLED, REVERSED]"
| "TRANSACTION_SETTLEMENT_TRANSITIONS SETTLED = [REVERSED]"
| "TRANSACTION_SETTLEMENT_TRANSITIONS REVERSED = []"

definition isValidTransactionSettlementTransition :: "settlement_state \<Rightarrow> settlement_state \<Rightarrow> bool" where
  "isValidTransactionSettlementTransition from to = (to \<in> set (TRANSACTION_SETTLEMENT_TRANSITIONS from))"

definition isTerminalTransactionSettlementState :: "settlement_state \<Rightarrow> bool" where
  "isTerminalTransactionSettlementState s = (length (TRANSACTION_SETTLEMENT_TRANSITIONS s) = 0)"

fun settlement_rank :: "settlement_state \<Rightarrow> nat" where
  "settlement_rank Settlement_PENDING = 0"
| "settlement_rank FUNDS_RECEIVED = 1"
| "settlement_rank SETTLED = 2"
| "settlement_rank REVERSED = 3"

interpretation settlement_lifecycle: forward_table TRANSACTION_SETTLEMENT_TRANSITIONS
  isTerminalTransactionSettlementState settlement_rank
proof
  fix s t
  show "isTerminalTransactionSettlementState s = (TRANSACTION_SETTLEMENT_TRANSITIONS s = [])"
    by (simp add: isTerminalTransactionSettlementState_def)
  show "t \<in> set (TRANSACTION_SETTLEMENT_TRANSITIONS s) \<Longrightarrow> settlement_rank s < settlement_rank t"
    by (cases s) auto
qed

section \<open>The provider reference\<close>

definition ascii_lower :: "char \<Rightarrow> char" where
  "ascii_lower c = (case map_of (zip ''ABCDEFGHIJKLMNOPQRSTUVWXYZ'' ''abcdefghijklmnopqrstuvwxyz'') c of
     None \<Rightarrow> c | Some d \<Rightarrow> d)"

definition is_white :: "char \<Rightarrow> bool" where
  "is_white c = (c \<in> {CHR 0x09, CHR 0x0A, CHR 0x0B, CHR 0x0C, CHR 0x0D, CHR 0x20, CHR 0xA0})"

definition FORBIDDEN_PROVIDER_TRANSACTION_REF_PREFIXES :: "string list" where
  "FORBIDDEN_PROVIDER_TRANSACTION_REF_PREFIXES =
     [''mon:'', ''sk_'', ''rk_'', ''pk_live_'', ''whsec_'', ''bearer '', ''basic '']"

definition starts_with :: "string \<Rightarrow> string \<Rightarrow> bool" where
  "starts_with p s = (take (length p) s = p)"

definition ProviderTransactionRef :: "string \<Rightarrow> bool" where
  "ProviderTransactionRef v =
     (1 \<le> length v \<and> length v \<le> 191 \<and> \<not> is_white (hd v) \<and> \<not> is_white (last v) \<and>
      list_all (\<lambda>p. \<not> starts_with p (map ascii_lower v)) FORBIDDEN_PROVIDER_TRANSACTION_REF_PREFIXES)"

section \<open>Tables\<close>

record listing_row =
  lr_internalListingId :: ident
  lr_listingSourceRecordId :: ident
  lr_currentSourceRecordVersion :: string

record listing_version =
  lv_listingSourceRecordId :: ident
  lv_sourceRecordVersion :: string
  lv_internalProductId :: ident
  lv_controllingParticipantId :: ident
  lv_placement :: listing_placement

record offer_version =
  ov_offerSourceRecordId :: ident
  ov_sourceRecordVersion :: string
  ov_internalOfferId :: ident
  ov_internalProductId :: ident
  ov_terms :: offer_terms
  ov_economics :: offer_economics

record promotion_acceptance =
  poa_id :: ident
  poa_authorizationId :: ident
  poa_offerSourceRecordId :: ident
  poa_standingVersion :: string
  poa_promotionVersion :: "string option"

record promotion_authorization =
  pau_id :: ident
  pau_internalProductId :: ident
  pau_promoterParticipantId :: ident

record settlement_row =
  st_snapshotId :: ident
  st_state :: settlement_state
  st_provider :: "string option"
  st_providerTransactionRef :: "string option"
  st_providerReferenceRecordedAt :: "instant option"
  st_fundsReceivedAt :: "instant option"
  st_settledAt :: "instant option"
  st_reversedAt :: "instant option"

record accounting_tables = policy_tables +
  listings :: "listing_row list"
  listingVersions :: "listing_version list"
  offerVersions :: "offer_version list"
  promotionAcceptances :: "promotion_acceptance list"
  promotionAuthorizations :: "promotion_authorization list"
  snapshots :: "snapshot_row list"
  settlements :: "settlement_row list"

section \<open>Reading the bound sources\<close>

definition acc_err :: "string \<Rightarrow> err" where
  "acc_err c = TransactionAccountingError c"

definition readExactListingVersion ::
  "'a accounting_tables_scheme \<Rightarrow> ident \<Rightarrow> string \<Rightarrow> listing_version res" where
  "readExactListingVersion db lid ver =
     (case List.find (\<lambda>l. lr_internalListingId l = lid) (listings db) of
        None \<Rightarrow> Inl (acc_err ''ListingSourceVersionNotFoundError'')
      | Some lst \<Rightarrow>
          (case List.find (\<lambda>v. lv_listingSourceRecordId v = lr_listingSourceRecordId lst \<and>
                               lv_sourceRecordVersion v = ver) (listingVersions db) of
             None \<Rightarrow> Inl (acc_err ''ListingSourceVersionNotFoundError'')
           | Some v \<Rightarrow> Inr v))"

definition find_offer_version ::
  "'a accounting_tables_scheme \<Rightarrow> ident \<Rightarrow> string \<Rightarrow> offer_version res" where
  "find_offer_version db rid ver =
     (case List.find (\<lambda>v. ov_offerSourceRecordId v = rid \<and> ov_sourceRecordVersion v = ver) (offerVersions db) of
        None \<Rightarrow> Inl (acc_err ''OfferSourceVersionNotFoundError'')
      | Some v \<Rightarrow> Inr v)"

definition readAcceptedOfferCommission ::
  "'a accounting_tables_scheme \<Rightarrow> accepted_offer_dependency \<Rightarrow> amount res" where
  "readAcceptedOfferCommission db d =
     chain (find_offer_version db (aod_offerSourceRecordId d) (aod_acceptedVersion d)) (\<lambda>offer.
       case ot_price (ov_terms offer) of
         FREE \<Rightarrow> Inl (TransactionEconomicsRefused ''OFFER_NOT_PAID'')
       | PAID w cur \<Rightarrow>
           if w \<noteq> aod_acceptedWholesalePriceMinorUnits d \<or> cur \<noteq> aod_acceptedWholesalePriceCurrency d
           then Inl corrupt_record
           else Inr (oe_commission (ov_economics offer)))"

record promoted_sale_binding =
  psb_promotionAuthorizationId :: ident
  psb_promotionOfferAcceptanceId :: ident
  psb_offerSourceRecordId :: ident
  psb_offerSourceRecordVersion :: string

record promoted_terms =
  prt_internalOfferId :: ident
  prt_wholesalePrice :: amount
  prt_wholesaleCurrency :: currency
  prt_sellerFundedCommission :: amount

text \<open>The coherence of the binding an Order froze: the acceptance is of that authorization, for
  that Offer, covering that version; the authorization is this Product's and this Promoter's.\<close>

definition binding_coherent ::
  "'a accounting_tables_scheme \<Rightarrow> listing_version \<Rightarrow> promoted_sale_binding \<Rightarrow> bool" where
  "binding_coherent db lv b =
     ((case List.find (\<lambda>a. poa_id a = psb_promotionOfferAcceptanceId b) (promotionAcceptances db) of
         None \<Rightarrow> False
       | Some a \<Rightarrow> poa_authorizationId a = psb_promotionAuthorizationId b \<and>
                   poa_offerSourceRecordId a = psb_offerSourceRecordId b \<and>
                   (psb_offerSourceRecordVersion b = poa_standingVersion a \<or>
                    Some (psb_offerSourceRecordVersion b) = poa_promotionVersion a)) \<and>
      (case List.find (\<lambda>a. pau_id a = psb_promotionAuthorizationId b) (promotionAuthorizations db) of
         None \<Rightarrow> False
       | Some a \<Rightarrow> pau_internalProductId a = lv_internalProductId lv \<and>
                   pau_promoterParticipantId a = lv_controllingParticipantId lv))"

definition readPromotedBindingTerms ::
  "'a accounting_tables_scheme \<Rightarrow> listing_version \<Rightarrow> promoted_sale_binding \<Rightarrow> promoted_terms res" where
  "readPromotedBindingTerms db lv b =
     (if \<not> binding_coherent db lv b then Inl corrupt_record
      else chain (find_offer_version db (psb_offerSourceRecordId b) (psb_offerSourceRecordVersion b)) (\<lambda>offer.
        if ov_internalProductId offer \<noteq> lv_internalProductId lv then Inl corrupt_record
        else case ot_price (ov_terms offer) of
          FREE \<Rightarrow> Inl (TransactionEconomicsRefused ''OFFER_NOT_PAID'')
        | PAID w cur \<Rightarrow> Inr \<lparr>prt_internalOfferId = ov_internalOfferId offer, prt_wholesalePrice = w,
                            prt_wholesaleCurrency = cur,
                            prt_sellerFundedCommission = oe_commission (ov_economics offer)\<rparr>))"

section \<open>Computing the economics\<close>

text \<open>The \<open>catch\<close> of the source: a calculator's refusal keeps its code.\<close>

fun as_refused :: "'a res \<Rightarrow> 'a res" where
  "as_refused (Inl (ListingEconomicsError c)) = Inl (TransactionEconomicsRefused c)"
| "as_refused r = r"

definition promoted_economics_of ::
  "offer_binding \<Rightarrow> promoted_economics \<Rightarrow> transaction_economics" where
  "promoted_economics_of ob e = PROMOTED
     \<lparr>pte_offerBinding = ob,
      pte_monacadoRetained = ple_monacadoRetainedAmount e,
      pte_acquisition = ple_acquisitionAmount e,
      pte_offerWholesalePrice = ple_offerWholesalePrice e,
      pte_sellerFundedCommission = ple_sellerFundedCommission e,
      pte_promoterRetailSpread = ple_promoterRetailSpread e,
      pte_promoterNetProceeds = ple_promoterNetProceeds e,
      pte_sellerProceeds = ple_sellerProceeds e\<rparr>"

fun placement_retail :: "listing_placement \<Rightarrow> retail_price option" where
  "placement_retail (SellerDirectPlacement p) = sd_retail p"
| "placement_retail (PromotedPlacement r _ _) = Some r"
| "placement_retail (PackagePromotedPlacement r) = r"

definition compute_direct ::
  "seller_direct_placement \<Rightarrow> acquisition_policy \<Rightarrow> instant \<Rightarrow> (amount \<times> transaction_economics) res" where
  "compute_direct pl policy at = chain (calculateSellerDirectEconomics pl at policy) (\<lambda>r.
     Inr (sde_effectiveCommercialRetailPrice r,
          SELLER_DIRECT \<lparr>sdt_monacadoRetained = sde_monacadoRetainedAmount r,
                         sdt_acquisition = sde_acquisitionAmount r,
                         sdt_sellerProceeds = sde_sellerProceeds r\<rparr>))"

definition compute_promoted ::
  "amount \<Rightarrow> currency \<Rightarrow> amount \<Rightarrow> currency \<Rightarrow> amount \<Rightarrow> acquisition_policy \<Rightarrow> offer_binding \<Rightarrow>
   (amount \<times> transaction_economics) res" where
  "compute_promoted retail cur w wcur com policy ob =
     chain (calculatePromotedListingEconomics
              \<lparr>pi_commercialRetailPrice = retail, pi_currency = cur, pi_offerWholesalePrice = w,
               pi_offerWholesalePriceCurrency = wcur, pi_sellerFundedCommission = com, pi_policy = policy\<rparr>)
       (\<lambda>e. Inr (retail, promoted_economics_of ob e))"

definition computeEconomics ::
  "'a accounting_tables_scheme \<Rightarrow> listing_version \<Rightarrow> acquisition_policy \<Rightarrow> currency \<Rightarrow> instant \<Rightarrow>
   promoted_sale_binding option \<Rightarrow> (amount \<times> transaction_economics) res" where
  "computeEconomics db lv policy cur at promotedBinding =
     (let pl = lv_placement lv in
      if promotedBinding \<noteq> None \<and> \<not> isPackagePromotedPlacement pl
        then Inl (acc_err ''InvalidTransactionAccountingInputError'')
      else case placement_retail pl of
        None \<Rightarrow> Inl (TransactionEconomicsRefused ''LISTING_NOT_PRICED'')
      | Some retail \<Rightarrow>
          if rp_currency retail \<noteq> cur then Inl (TransactionCurrencyMismatch ''listingRetailCurrency'')
          else if wap_currency policy \<noteq> cur then Inl (TransactionCurrencyMismatch ''policyCurrency'')
          else as_refused
            (case pl of
               SellerDirectPlacement p \<Rightarrow> compute_direct p policy at
             | PackagePromotedPlacement _ \<Rightarrow>
                 (case promotedBinding of
                    None \<Rightarrow> Inl (TransactionEconomicsRefused ''PROMOTED_COMMERCE_NOT_ENABLED'')
                  | Some b \<Rightarrow> chain (readPromotedBindingTerms db lv b) (\<lambda>terms.
                      compute_promoted (rp_minorUnits retail) cur (prt_wholesalePrice terms)
                        (prt_wholesaleCurrency terms) (prt_sellerFundedCommission terms) policy
                        \<lparr>ob_internalOfferId = prt_internalOfferId terms,
                         ob_offerSourceRecordId = psb_offerSourceRecordId b,
                         ob_offerSourceRecordVersion = psb_offerSourceRecordVersion b\<rparr>))
             | PromotedPlacement _ d _ \<Rightarrow> chain (readAcceptedOfferCommission db d) (\<lambda>com.
                 compute_promoted (rp_minorUnits retail) cur (aod_acceptedWholesalePriceMinorUnits d)
                   (aod_acceptedWholesalePriceCurrency d) com policy
                   \<lparr>ob_internalOfferId = aod_internalOfferId d,
                    ob_offerSourceRecordId = aod_offerSourceRecordId d,
                    ob_offerSourceRecordVersion = aod_acceptedVersion d\<rparr>)))"

definition requireReconciled :: "amount \<Rightarrow> transaction_economics \<Rightarrow> unit res" where
  "requireReconciled retail e =
     (case reconcileTransactionEconomics retail e of
        Inl (TransactionAccountingError c) \<Rightarrow> Inl (TransactionReconciliationRefused c)
      | r \<Rightarrow> r)"

section \<open>Operations\<close>

record snapshot_input =
  sni_internalListingId :: ident
  sni_listingSourceRecordVersion :: string
  sni_policyId :: ident
  sni_policyVersion :: string
  sni_currency :: currency
  sni_tax :: amount
  sni_shipping :: amount
  sni_other :: amount
  sni_occurredAt :: instant
  sni_recordedAt :: instant
  sni_promotedBinding :: "promoted_sale_binding option"

definition RecordTransactionEconomicSnapshotInput :: "snapshot_input \<Rightarrow> bool" where
  "RecordTransactionEconomicSnapshotInput i =
     (version_ref (sni_listingSourceRecordVersion i) \<and> version_ref (sni_policyVersion i) \<and>
      CurrencyCode (sni_currency i) \<and> Amount (sni_tax i) \<and> Amount (sni_shipping i) \<and> Amount (sni_other i) \<and>
      (case sni_promotedBinding i of None \<Rightarrow> True
       | Some b \<Rightarrow> source_ref (psb_promotionAuthorizationId b) \<and> source_ref (psb_promotionOfferAcceptanceId b) \<and>
                   source_ref (psb_offerSourceRecordId b) \<and> version_ref (psb_offerSourceRecordVersion b)))"

definition new_settlement :: "ident \<Rightarrow> settlement_row" where
  "new_settlement sid = \<lparr>st_snapshotId = sid, st_state = Settlement_PENDING, st_provider = None,
     st_providerTransactionRef = None, st_providerReferenceRecordedAt = None,
     st_fundsReceivedAt = None, st_settledAt = None, st_reversedAt = None\<rparr>"

definition snapshot_row_of ::
  "snapshot_input \<Rightarrow> ident \<Rightarrow> ident \<Rightarrow> amount \<Rightarrow> transaction_economics \<Rightarrow> snapshot_row" where
  "snapshot_row_of i sid lsr retail e =
     \<lparr>sr_id = sid, sr_internalListingId = sni_internalListingId i, sr_listingSourceRecordId = lsr,
      sr_listingSourceRecordVersion = sni_listingSourceRecordVersion i,
      sr_policyId = sni_policyId i, sr_policyVersion = sni_policyVersion i,
      sr_currency = sni_currency i, sr_commercialRetail = retail,
      sr_economics = economicsToColumns e,
      sr_tax = sni_tax i, sr_shipping = sni_shipping i, sr_other = sni_other i,
      sr_occurredAt = sni_occurredAt i, sr_recordedAt = sni_recordedAt i,
      sr_promotionAuthorizationId = map_option psb_promotionAuthorizationId (sni_promotedBinding i),
      sr_promotionOfferAcceptanceId = map_option psb_promotionOfferAcceptanceId (sni_promotedBinding i),
      sr_orderId = None\<rparr>"

definition recordTransactionEconomicSnapshotInTx ::
  "ident \<Rightarrow> snapshot_input \<Rightarrow> 'a accounting_tables_scheme \<Rightarrow>
   ('a accounting_tables_scheme \<times> snapshot_record) res" where
  "recordTransactionEconomicSnapshotInTx sid i db =
     (if \<not> RecordTransactionEconomicSnapshotInput i
      then Inl (acc_err ''InvalidTransactionAccountingInputError'')
      else
        chain (readExactListingVersion db (sni_internalListingId i) (sni_listingSourceRecordVersion i)) (\<lambda>lv.
        chain (readExactPolicy db (sni_policyId i) (sni_policyVersion i)) (\<lambda>policy.
        chain (computeEconomics db lv policy (sni_currency i) (sni_occurredAt i) (sni_promotedBinding i)) (\<lambda>(retail, e).
        chain (requireReconciled retail e) (\<lambda>_.
          let row = snapshot_row_of i sid (lv_listingSourceRecordId lv) retail e in
          case insert_unique sr_id row (snapshots db) of
            None \<Rightarrow> Inl (UniqueViolation ''TransactionEconomicSnapshot'')
          | Some snaps \<Rightarrow>
              (case insert_unique st_snapshotId (new_settlement sid) (settlements db) of
                 None \<Rightarrow> Inl (UniqueViolation ''TransactionSettlement'')
               | Some sets \<Rightarrow>
                   chain (snapshotRowToRecord row) (\<lambda>rec.
                     Inr (db\<lparr>snapshots := snaps, settlements := sets\<rparr>, rec))))))))"

definition find_snapshot :: "'a accounting_tables_scheme \<Rightarrow> ident \<Rightarrow> snapshot_row option" where
  "find_snapshot db sid = List.find (\<lambda>r. sr_id r = sid) (snapshots db)"

definition find_settlement :: "'a accounting_tables_scheme \<Rightarrow> ident \<Rightarrow> settlement_row option" where
  "find_settlement db sid = List.find (\<lambda>r. st_snapshotId r = sid) (settlements db)"

definition getTransactionEconomicSnapshot ::
  "'a accounting_tables_scheme \<Rightarrow> ident \<Rightarrow> (snapshot_record \<times> settlement_row) res" where
  "getTransactionEconomicSnapshot db sid =
     (case find_snapshot db sid of
        None \<Rightarrow> Inl (acc_err ''TransactionSnapshotNotFoundError'')
      | Some r \<Rightarrow>
          (case find_settlement db sid of
             None \<Rightarrow> Inl (acc_err ''TransactionSettlementNotFoundError'')
           | Some s \<Rightarrow> chain (snapshotRowToRecord r) (\<lambda>rec. Inr (rec, s))))"

text \<open>The stored fields that differ from the recomputed economics.\<close>

definition drift :: "string \<Rightarrow> 'v \<Rightarrow> 'v \<Rightarrow> string list" where
  "drift field a b = (if a \<noteq> b then [field] else [])"

definition drifted_economics :: "transaction_economics \<Rightarrow> transaction_economics \<Rightarrow> string list" where
  "drifted_economics fresh stored =
     (case (fresh, stored) of
        (SELLER_DIRECT a, SELLER_DIRECT b) \<Rightarrow>
          concat [drift ''monacadoRetainedAmountMinorUnits'' (sdt_monacadoRetained a) (sdt_monacadoRetained b),
                  drift ''morWholesaleAcquisitionAmountMinorUnits'' (sdt_acquisition a) (sdt_acquisition b),
                  drift ''sellerProceedsMinorUnits'' (sdt_sellerProceeds a) (sdt_sellerProceeds b)]
      | (PROMOTED a, PROMOTED b) \<Rightarrow>
          concat [drift ''offerBinding.internalOfferId''
                    (ob_internalOfferId (pte_offerBinding a)) (ob_internalOfferId (pte_offerBinding b)),
                  drift ''offerBinding.offerSourceRecordId''
                    (ob_offerSourceRecordId (pte_offerBinding a)) (ob_offerSourceRecordId (pte_offerBinding b)),
                  drift ''offerBinding.offerSourceRecordVersion''
                    (ob_offerSourceRecordVersion (pte_offerBinding a)) (ob_offerSourceRecordVersion (pte_offerBinding b)),
                  drift ''monacadoRetainedAmountMinorUnits'' (pte_monacadoRetained a) (pte_monacadoRetained b),
                  drift ''morWholesaleAcquisitionAmountMinorUnits'' (pte_acquisition a) (pte_acquisition b),
                  drift ''offerWholesalePriceMinorUnits'' (pte_offerWholesalePrice a) (pte_offerWholesalePrice b),
                  drift ''sellerFundedCommissionMinorUnits''
                    (pte_sellerFundedCommission a) (pte_sellerFundedCommission b),
                  drift ''promoterRetailSpreadMinorUnits'' (pte_promoterRetailSpread a) (pte_promoterRetailSpread b),
                  drift ''promoterNetProceedsMinorUnits'' (pte_promoterNetProceeds a) (pte_promoterNetProceeds b),
                  drift ''sellerProceedsMinorUnits'' (pte_sellerProceeds a) (pte_sellerProceeds b)]
      | _ \<Rightarrow> [''transactionType''])"

definition stored_binding :: "snapshot_row \<Rightarrow> transaction_economics \<Rightarrow> promoted_sale_binding option" where
  "stored_binding r stored =
     (case (sr_promotionAuthorizationId r, sr_promotionOfferAcceptanceId r, stored) of
        (Some a, Some acc, PROMOTED p) \<Rightarrow>
          Some \<lparr>psb_promotionAuthorizationId = a, psb_promotionOfferAcceptanceId = acc,
                psb_offerSourceRecordId = ob_offerSourceRecordId (pte_offerBinding p),
                psb_offerSourceRecordVersion = ob_offerSourceRecordVersion (pte_offerBinding p)\<rparr>
      | _ \<Rightarrow> None)"

definition reconstructTransactionEconomics ::
  "'a accounting_tables_scheme \<Rightarrow> ident \<Rightarrow> snapshot_record res" where
  "reconstructTransactionEconomics db sid =
     chain (getTransactionEconomicSnapshot db sid) (\<lambda>(snap, _).
     chain (readExactListingVersion db (snap_internalListingId snap) (snap_listingSourceRecordVersion snap)) (\<lambda>lv.
     chain (readExactPolicy db (snap_policyId snap) (snap_policyVersion snap)) (\<lambda>policy.
       case find_snapshot db sid of
         None \<Rightarrow> Inl (acc_err ''TransactionAccountingPersistenceFailureError'')
       | Some row \<Rightarrow>
           chain (computeEconomics db lv policy (snap_currency snap) (snap_occurredAt snap)
                    (stored_binding row (snap_economics snap))) (\<lambda>(retail, fresh).
             let drifted = (if retail \<noteq> snap_commercialRetail snap
                            then [''commercialRetailAmountMinorUnits''] else []) @
                           drifted_economics fresh (snap_economics snap) in
             chain (requireReconciled (snap_commercialRetail snap) (snap_economics snap)) (\<lambda>_.
               if drifted \<noteq> [] then Inl (acc_err ''TransactionEconomicsDriftedError'') else Inr snap)))))"

definition provider_key :: "settlement_row \<Rightarrow> (string \<times> string) option" where
  "provider_key s = (case (st_provider s, st_providerTransactionRef s) of
     (Some p, Some r) \<Rightarrow> Some (p, r) | _ \<Rightarrow> None)"

definition recordProviderTransactionReference ::
  "ident \<Rightarrow> string \<Rightarrow> string \<Rightarrow> instant \<Rightarrow> 'a accounting_tables_scheme \<Rightarrow> 'a accounting_tables_scheme res" where
  "recordProviderTransactionReference sid provider ref at db =
     (if \<not> (provider = ''STRIPE'' \<and> ProviderTransactionRef ref)
      then Inl (acc_err ''InvalidTransactionAccountingInputError'')
      else case find_settlement db sid of
        None \<Rightarrow> Inl (acc_err ''TransactionSnapshotNotFoundError'')
      | Some current \<Rightarrow>
          if st_providerTransactionRef current \<noteq> None
          then Inl (acc_err ''ProviderTransactionReferenceAlreadyRecordedError'')
          else if list_ex (\<lambda>s. provider_key s = Some (provider, ref)) (settlements db)
          then Inl (acc_err ''DuplicateProviderTransactionReferenceError'')
          else Inr (db\<lparr>settlements := update_where (\<lambda>s. st_snapshotId s = sid)
                 (\<lambda>s. s\<lparr>st_provider := Some provider, st_providerTransactionRef := Some ref,
                        st_providerReferenceRecordedAt := Some at\<rparr>) (settlements db)\<rparr>))"

fun stamp_settlement :: "settlement_state \<Rightarrow> instant \<Rightarrow> settlement_row \<Rightarrow> settlement_row" where
  "stamp_settlement Settlement_PENDING at s = s\<lparr>st_state := Settlement_PENDING\<rparr>"
| "stamp_settlement FUNDS_RECEIVED at s = s\<lparr>st_state := FUNDS_RECEIVED, st_fundsReceivedAt := Some at\<rparr>"
| "stamp_settlement SETTLED at s = s\<lparr>st_state := SETTLED, st_settledAt := Some at\<rparr>"
| "stamp_settlement REVERSED at s = s\<lparr>st_state := REVERSED, st_reversedAt := Some at\<rparr>"

definition advanceTransactionSettlement ::
  "ident \<Rightarrow> settlement_state \<Rightarrow> instant \<Rightarrow> 'a accounting_tables_scheme \<Rightarrow> 'a accounting_tables_scheme res" where
  "advanceTransactionSettlement sid to at db =
     (case find_settlement db sid of
        None \<Rightarrow> Inl (acc_err ''TransactionSnapshotNotFoundError'')
      | Some current \<Rightarrow>
          if \<not> isValidTransactionSettlementTransition (st_state current) to
          then Inl (acc_err ''InvalidSettlementTransitionError'')
          else Inr (db\<lparr>settlements := update_where (\<lambda>s. st_snapshotId s = sid)
                                       (stamp_settlement to at) (settlements db)\<rparr>))"

end
