(* ===== verification/Accounting_Facts.thy ===== *)
theory Accounting_Facts
  imports Accounting_Service
begin

text \<open>
  What the accounting service guarantees: computed economics always reconcile; a recorded row
  reads back as what was computed; the settlement of a sale only moves forward; and, over any
  history of later source versions, policy activations, sales and settlement changes, the
  reconstruction of a recorded sale succeeds and returns the recorded amounts.
\<close>

section \<open>Computed economics reconcile\<close>

fun te_binding_ok :: "transaction_economics \<Rightarrow> bool" where
  "te_binding_ok (SELLER_DIRECT _) = True"
| "te_binding_ok (PROMOTED p) = OfferSourceBinding (pte_offerBinding p)"

lemma as_refused_Inr [simp]: "as_refused r = Inr x \<longleftrightarrow> r = Inr x"
  by (cases r rule: as_refused.cases) auto

lemma compute_direct_reconciles:
  assumes "compute_direct pl p at = Inr (retail, e)"
  shows "reconcileTransactionEconomics retail e = Inr ()"
proof -
  obtain r where r: "calculateSellerDirectEconomics pl at p = Inr r"
    and e: "retail = sde_effectiveCommercialRetailPrice r"
      "e = SELLER_DIRECT \<lparr>sdt_monacadoRetained = sde_monacadoRetainedAmount r,
             sdt_acquisition = sde_acquisitionAmount r, sdt_sellerProceeds = sde_sellerProceeds r\<rparr>"
    using assms by (auto simp: compute_direct_def chain_Inr_iff)
  show ?thesis
    using calculateSellerDirectEconomics_fields[OF r]
    by (simp add: e reconcileTransactionEconomics_def SellerDirectEconomics_def)
qed

lemma compute_promoted_acquisition:
  assumes "calculatePromotedListingEconomics i = Inr e"
  shows "ple_acquisitionAmount e + ple_monacadoRetainedAmount e = ple_commercialRetailPrice e"
proof -
  from assms obtain a where a: "calculateMorWholesaleAcquisition (pi_commercialRetailPrice i) (pi_currency i) (pi_policy i) = Inr a"
    and "ple_acquisitionAmount e = mar_acquisitionAmount a"
    and "ple_monacadoRetainedAmount e = mar_monacadoRetainedAmount a"
    and "ple_commercialRetailPrice e = pi_commercialRetailPrice i"
    by (auto simp: calculatePromotedListingEconomics_def Let_def chain_Inr_iff split: if_split_asm)
  then show ?thesis using calculateMorWholesaleAcquisition_sum(1)[OF a] by simp
qed

lemma compute_promoted_reconciles:
  assumes "compute_promoted R cur w wcur com p ob = Inr (retail, e)" and "OfferSourceBinding ob"
  shows "reconcileTransactionEconomics retail e = Inr ()"
proof -
  obtain r where r: "calculatePromotedListingEconomics
       \<lparr>pi_commercialRetailPrice = R, pi_currency = cur, pi_offerWholesalePrice = w,
        pi_offerWholesalePriceCurrency = wcur, pi_sellerFundedCommission = com, pi_policy = p\<rparr> = Inr r"
    and e: "retail = R" "e = promoted_economics_of ob r"
    using assms(1) by (auto simp: compute_promoted_def chain_Inr_iff)
  note f = calculatePromotedListingEconomics_fields[OF r] and a = compute_promoted_acquisition[OF r]
  have valid: "TransactionEconomics e"
    using f(1) assms(2) by (simp add: e promoted_economics_of_def PromotedListingEconomics_def)
  define q where "q = promoted_economics_of ob r"
  obtain p' where q: "q = PROMOTED p'" by (simp add: q_def promoted_economics_of_def)
  have "pte_acquisition p' + pte_monacadoRetained p' = R"
    and "pte_promoterRetailSpread p' = pte_acquisition p' - pte_offerWholesalePrice p'"
    and "pte_promoterNetProceeds p' = pte_promoterRetailSpread p' + pte_sellerFundedCommission p'"
    and "pte_sellerProceeds p' = pte_offerWholesalePrice p' - pte_sellerFundedCommission p'"
    and "pte_sellerProceeds p' + pte_promoterNetProceeds p' + pte_monacadoRetained p' = R"
    using f(2,5-8) a q unfolding q_def promoted_economics_of_def by auto
  then show ?thesis
    using valid unfolding e(1) e(2)[folded q_def] q reconcileTransactionEconomics_def by simp
qed

lemma compute_promoted_binding:
  "compute_promoted R cur w wcur com p ob = Inr (retail, PROMOTED e) \<Longrightarrow> pte_offerBinding e = ob"
  by (auto simp: compute_promoted_def chain_Inr_iff promoted_economics_of_def)

lemma compute_promoted_not_direct:
  "compute_promoted R cur w wcur com p ob \<noteq> Inr (retail, SELLER_DIRECT e)"
  by (auto simp: compute_promoted_def chain_Inr_iff promoted_economics_of_def)

lemma computeEconomics_reconciles:
  assumes "computeEconomics db lv policy cur at b = Inr (retail, e)" and "te_binding_ok e"
  shows "reconcileTransactionEconomics retail e = Inr ()"
proof -
  have promoted: "reconcileTransactionEconomics retail e = Inr ()"
    if c: "compute_promoted R cur' w wcur com p ob = Inr (retail, e)" for R cur' w wcur com p ob
  proof (cases e)
    case (SELLER_DIRECT s)
    then show ?thesis using c compute_promoted_not_direct by blast
  next
    case (PROMOTED p)
    then have "OfferSourceBinding ob" using c assms(2) compute_promoted_binding by fastforce
    then show ?thesis using compute_promoted_reconciles[OF c] by simp
  qed
  show ?thesis
    using assms(1) compute_direct_reconciles promoted
    by (auto simp: computeEconomics_def Let_def chain_Inr_iff
        split: if_split_asm option.split_asm listing_placement.split_asm)
qed

lemma requireReconciled_Inr [simp]:
  "requireReconciled retail e = Inr u \<longleftrightarrow> reconcileTransactionEconomics retail e = Inr ()"
  by (auto simp: requireReconciled_def split: sum.split err.split)

section \<open>The recorded row\<close>

lemma recordTransactionEconomicSnapshotInTx_row:
  assumes "recordTransactionEconomicSnapshotInTx sid i db = Inr (db', rec)"
  shows "\<exists>lv policy retail e.
     RecordTransactionEconomicSnapshotInput i \<and>
     readExactListingVersion db (sni_internalListingId i) (sni_listingSourceRecordVersion i) = Inr lv \<and>
     readExactPolicy db (sni_policyId i) (sni_policyVersion i) = Inr policy \<and>
     computeEconomics db lv policy (sni_currency i) (sni_occurredAt i) (sni_promotedBinding i) = Inr (retail, e) \<and>
     reconcileTransactionEconomics retail e = Inr () \<and>
     sid \<notin> sr_id ` set (snapshots db) \<and> sid \<notin> st_snapshotId ` set (settlements db) \<and>
     db' = db\<lparr>snapshots := snapshots db @ [snapshot_row_of i sid (lv_listingSourceRecordId lv) retail e],
              settlements := settlements db @ [new_settlement sid]\<rparr> \<and>
     snapshotRowToRecord (snapshot_row_of i sid (lv_listingSourceRecordId lv) retail e) = Inr rec"
  using assms
  by (auto simp: recordTransactionEconomicSnapshotInTx_def chain_Inr_iff Let_def insert_unique_Some_iff
        snapshot_row_of_def new_settlement_def split: if_split_asm option.split_asm prod.split_asm)

lemma snapshot_row_of_record:
  assumes "snapshotRowToRecord (snapshot_row_of i sid lsr retail e) = Inr rec" and "TransactionEconomics e"
  shows "snap_snapshotId rec = sid" and "snap_internalListingId rec = sni_internalListingId i"
    and "snap_listingSourceRecordVersion rec = sni_listingSourceRecordVersion i"
    and "snap_policyId rec = sni_policyId i" and "snap_policyVersion rec = sni_policyVersion i"
    and "snap_commercialRetail rec = retail" and "snap_currency rec = sni_currency i"
    and "snap_economics rec = e" and "snap_occurredAt rec = sni_occurredAt i"
    and "snap_passThrough rec = \<lparr>pt_tax = sni_tax i, pt_shipping = sni_shipping i, pt_other = sni_other i\<rparr>"
  using assms rowToEconomics_economicsToColumns[OF assms(2)]
  by (auto simp: snapshotRowToRecord_def snapshot_row_of_def chain_Inr_iff Let_def narrowing split: if_split_asm)

section \<open>Drift\<close>

lemma drift_Nil [simp]: "drift f a b = [] \<longleftrightarrow> a = b"
  by (simp add: drift_def)

lemma drifted_economics_Nil: "drifted_economics a b = [] \<longleftrightarrow> a = b"
proof (cases a; cases b)
  fix x y assume "a = PROMOTED x" "b = PROMOTED y"
  then show ?thesis
    by (cases x; cases y; cases "pte_offerBinding x"; cases "pte_offerBinding y")
       (auto simp: drifted_economics_def)
qed (auto simp: drifted_economics_def)

section \<open>Sources that persist\<close>

text \<open>Everything an exact read of \<open>db\<close> finds, \<open>db'\<close> finds unchanged.\<close>

definition sources_persist :: "'a accounting_tables_scheme \<Rightarrow> 'a accounting_tables_scheme \<Rightarrow> bool" where
  "sources_persist db db' \<longleftrightarrow>
     (\<forall>lid ver lv. readExactListingVersion db lid ver = Inr lv \<longrightarrow> readExactListingVersion db' lid ver = Inr lv) \<and>
     (\<forall>rid ver ov. find_offer_version db rid ver = Inr ov \<longrightarrow> find_offer_version db' rid ver = Inr ov) \<and>
     (\<forall>k a. List.find (\<lambda>a. poa_id a = k) (promotionAcceptances db) = Some a \<longrightarrow>
            List.find (\<lambda>a. poa_id a = k) (promotionAcceptances db') = Some a) \<and>
     (\<forall>k a. List.find (\<lambda>a. pau_id a = k) (promotionAuthorizations db) = Some a \<longrightarrow>
            List.find (\<lambda>a. pau_id a = k) (promotionAuthorizations db') = Some a) \<and>
     (\<forall>pid ver p. readExactPolicy db pid ver = Inr p \<longrightarrow> readExactPolicy db' pid ver = Inr p)"

lemma sources_persist_refl: "sources_persist db db"
  by (simp add: sources_persist_def)

lemma sources_persist_trans:
  "sources_persist a b \<Longrightarrow> sources_persist b c \<Longrightarrow> sources_persist a c"
  by (simp add: sources_persist_def)

lemma binding_coherent_persist:
  "sources_persist db db' \<Longrightarrow> binding_coherent db lv b \<Longrightarrow> binding_coherent db' lv b"
  unfolding binding_coherent_def sources_persist_def
  by (auto split: option.split_asm) 

lemma readPromotedBindingTerms_persist:
  assumes "sources_persist db db'" and "readPromotedBindingTerms db lv b = Inr t"
  shows "readPromotedBindingTerms db' lv b = Inr t"
proof -
  have c: "binding_coherent db lv b" using assms(2) by (auto simp: readPromotedBindingTerms_def split: if_split_asm)
  obtain ov where o: "find_offer_version db (psb_offerSourceRecordId b) (psb_offerSourceRecordVersion b) = Inr ov"
    using assms(2) c by (auto simp: readPromotedBindingTerms_def chain_Inr_iff)
  moreover have "find_offer_version db' (psb_offerSourceRecordId b) (psb_offerSourceRecordVersion b) = Inr ov"
    using assms(1) o by (auto simp: sources_persist_def)
  ultimately show ?thesis
    using assms(2) c binding_coherent_persist[OF assms(1) c] by (simp add: readPromotedBindingTerms_def)
qed

lemma readAcceptedOfferCommission_persist:
  assumes "sources_persist db db'" and "readAcceptedOfferCommission db d = Inr c"
  shows "readAcceptedOfferCommission db' d = Inr c"
proof -
  obtain ov where o: "find_offer_version db (aod_offerSourceRecordId d) (aod_acceptedVersion d) = Inr ov"
    using assms(2) by (auto simp: readAcceptedOfferCommission_def chain_Inr_iff)
  moreover have "find_offer_version db' (aod_offerSourceRecordId d) (aod_acceptedVersion d) = Inr ov"
    using assms(1) o by (auto simp: sources_persist_def)
  ultimately show ?thesis using assms(2) by (simp add: readAcceptedOfferCommission_def)
qed

lemma computeEconomics_persist:
  assumes "sources_persist db db'" and "computeEconomics db lv p cur at b = Inr r"
  shows "computeEconomics db' lv p cur at b = Inr r"
  using assms(2) readPromotedBindingTerms_persist[OF assms(1)] readAcceptedOfferCommission_persist[OF assms(1)]
  by (auto simp: computeEconomics_def Let_def chain_Inr_iff
        split: if_split_asm option.split_asm listing_placement.split_asm)

end
