(* ===== verification/Accounting_History.thy ===== *)
theory Accounting_History
  imports Accounting_Facts
begin

text \<open>
  Histories of the accounting books: the invariant of the snapshot and settlement tables, the step
  relation of everything that may happen after a sale is recorded, and the two guarantees the
  separation of the immutable economics from the mutable settlement is for.
\<close>

section \<open>Invariant\<close>

text \<open>Identifiers are unique; every snapshot has its one settlement and conversely; every stored
  snapshot reads back and its economics reconcile; no provider reference is used twice.\<close>

definition snapshot_ok :: "snapshot_row \<Rightarrow> bool" where
  "snapshot_ok r \<longleftrightarrow> (\<exists>s. snapshotRowToRecord r = Inr s \<and>
     reconcileTransactionEconomics (snap_commercialRetail s) (snap_economics s) = Inr ())"

definition refs_unique :: "settlement_row list \<Rightarrow> bool" where
  "refs_unique ss \<longleftrightarrow> (\<forall>s\<in>set ss. \<forall>t\<in>set ss.
     provider_key s \<noteq> None \<longrightarrow> provider_key s = provider_key t \<longrightarrow> st_snapshotId s = st_snapshotId t)"

lemma refs_uniqueD:
  "refs_unique ss \<Longrightarrow> s \<in> set ss \<Longrightarrow> t \<in> set ss \<Longrightarrow> provider_key s \<noteq> None \<Longrightarrow>
   provider_key s = provider_key t \<Longrightarrow> st_snapshotId s = st_snapshotId t"
  unfolding refs_unique_def by blast

lemma refs_unique_append:
  assumes "refs_unique ss" and n: "provider_key n = None"
  shows "refs_unique (ss @ [n])"
  unfolding refs_unique_def
proof (intro ballI impI)
  fix s t assume st: "s \<in> set (ss @ [n])" "t \<in> set (ss @ [n])"
    and k: "provider_key s \<noteq> None" "provider_key s = provider_key t"
  have "s \<in> set ss" using st(1) k(1) n by (cases "s = n") auto
  moreover have "t \<in> set ss" using st(2) k n by (cases "t = n") auto
  ultimately show "st_snapshotId s = st_snapshotId t" using refs_uniqueD[OF assms(1)] k by blast
qed

lemma refs_unique_map:
  assumes "\<And>s. provider_key (f s) = provider_key s" and "\<And>s. st_snapshotId (f s) = st_snapshotId s"
  shows "refs_unique (map f ss) = refs_unique ss"
  by (simp add: refs_unique_def assms del: not_None_eq)

definition accounting_inv :: "'a accounting_tables_scheme \<Rightarrow> bool" where
  "accounting_inv db \<longleftrightarrow>
     unique_on sr_id (snapshots db) \<and>
     map st_snapshotId (settlements db) = map sr_id (snapshots db) \<and>
     (\<forall>r\<in>set (snapshots db). snapshot_ok r) \<and>
     refs_unique (settlements db)"

lemma record_accounting_inv:
  assumes inv: "accounting_inv db"
    and ok: "recordTransactionEconomicSnapshotInTx sid i db = Inr (db', rec)"
  shows "accounting_inv db'"
proof -
  from recordTransactionEconomicSnapshotInTx_row[OF ok] show ?thesis
  proof (elim exE conjE)
    fix lv p retail e
    let ?row = "snapshot_row_of i sid (lv_listingSourceRecordId lv) retail e"
    assume r: "reconcileTransactionEconomics retail e = Inr ()" "sid \<notin> sr_id ` set (snapshots db)"
      "snapshotRowToRecord ?row = Inr rec"
      and db': "db' = db\<lparr>snapshots := snapshots db @ [?row], settlements := settlements db @ [new_settlement sid]\<rparr>"
    have te: "TransactionEconomics e" using reconcile_ok_sum(3)[OF r(1)] .
    have "snapshot_ok ?row"
      using r snapshot_row_of_record[OF r(3) te] by (auto simp: snapshot_ok_def)
    moreover have "sr_id ?row = sid" and "st_snapshotId (new_settlement sid) = sid"
      and "provider_key (new_settlement sid) = None"
      by (simp_all add: snapshot_row_of_def new_settlement_def provider_key_def)
    ultimately show ?thesis
      using inv r(2) refs_unique_append[of "settlements db" "new_settlement sid"]
      unfolding accounting_inv_def db' by simp
  qed
qed

lemma find_settlement_set:
  "find_settlement db sid = Some s \<Longrightarrow> s \<in> set (settlements db) \<and> st_snapshotId s = sid"
  by (auto simp: find_settlement_def dest: find_Some_set)

lemma recordProviderTransactionReference_row:
  assumes "recordProviderTransactionReference sid provider ref at db = Inr db'"
  shows "\<exists>cur. find_settlement db sid = Some cur \<and> st_providerTransactionRef cur = None \<and>
     ProviderTransactionRef ref \<and>
     (\<forall>s\<in>set (settlements db). provider_key s \<noteq> Some (provider, ref)) \<and>
     db' = db\<lparr>settlements := update_where (\<lambda>s. st_snapshotId s = sid)
                 (\<lambda>s. s\<lparr>st_provider := Some provider, st_providerTransactionRef := Some ref,
                        st_providerReferenceRecordedAt := Some at\<rparr>) (settlements db)\<rparr>"
  using assms
  by (auto simp: recordProviderTransactionReference_def list_ex_iff split: if_split_asm option.split_asm)

lemma advanceTransactionSettlement_row:
  assumes "advanceTransactionSettlement sid to at db = Inr db'"
  shows "\<exists>cur. find_settlement db sid = Some cur \<and>
     to \<in> set (TRANSACTION_SETTLEMENT_TRANSITIONS (st_state cur)) \<and>
     db' = db\<lparr>settlements := update_where (\<lambda>s. st_snapshotId s = sid) (stamp_settlement to at) (settlements db)\<rparr>"
  using assms
  by (auto simp: advanceTransactionSettlement_def isValidTransactionSettlementTransition_def
        split: if_split_asm option.split_asm)

lemma stamp_settlement_keys [simp]:
  "st_snapshotId (stamp_settlement to at s) = st_snapshotId s"
  "provider_key (stamp_settlement to at s) = provider_key s"
  "st_state (stamp_settlement to at s) = to"
  "st_provider (stamp_settlement to at s) = st_provider s"
  "st_providerTransactionRef (stamp_settlement to at s) = st_providerTransactionRef s"
  by (cases to; simp add: provider_key_def)+

declare stamp_settlement.simps [simp del]

text \<open>A rewrite of the settlement rows that keeps each row's snapshot keeps the pairing.\<close>

lemma settlements_rewrite_inv:
  assumes inv: "accounting_inv db"
    and sid: "\<And>s. st_snapshotId (f s) = st_snapshotId s"
    and keys: "refs_unique (map f (settlements db))"
  shows "accounting_inv (db\<lparr>settlements := map f (settlements db)\<rparr>)"
  using inv keys by (simp add: accounting_inv_def o_def sid)

lemma reference_accounting_inv:
  assumes inv: "accounting_inv db"
    and ok: "recordProviderTransactionReference sid provider ref at db = Inr db'"
  shows "accounting_inv db'"
proof -
  let ?u = "\<lambda>s. s\<lparr>st_provider := Some provider, st_providerTransactionRef := Some ref,
                  st_providerReferenceRecordedAt := Some at\<rparr>"
  let ?f = "\<lambda>s. if st_snapshotId s = sid then ?u s else s"
  have free: "\<forall>s\<in>set (settlements db). provider_key s \<noteq> Some (provider, ref)"
    and db': "db' = db\<lparr>settlements := map ?f (settlements db)\<rparr>"
    using recordProviderTransactionReference_row[OF ok] by (auto simp: update_where_def)
  have pk: "provider_key (?u s) = Some (provider, ref)" for s by (simp add: provider_key_def)
  show ?thesis
    unfolding db'
  proof (rule settlements_rewrite_inv[OF inv])
    show "st_snapshotId (?f s) = st_snapshotId s" for s by simp
    have sid: "st_snapshotId (?f s) = st_snapshotId s" for s by simp
    have "st_snapshotId s = st_snapshotId t" if st: "s \<in> set (settlements db)" "t \<in> set (settlements db)"
      and k: "provider_key (?f s) \<noteq> None" "provider_key (?f s) = provider_key (?f t)" for s t
    proof -
      consider "st_snapshotId s = sid" "st_snapshotId t = sid"
      | "st_snapshotId s = sid" "st_snapshotId t \<noteq> sid" | "st_snapshotId s \<noteq> sid" "st_snapshotId t = sid"
      | "st_snapshotId s \<noteq> sid" "st_snapshotId t \<noteq> sid" by blast
    then show ?thesis
    proof cases
      case 1
      then show ?thesis by simp
    next
      case 2
      then have "provider_key t = Some (provider, ref)" using k(2) pk[of s] by simp
      then show ?thesis using free st(2) by blast
    next
      case 3
      then have "provider_key s = Some (provider, ref)" using k(2) pk[of t] by simp
      then show ?thesis using free st(1) by blast
    next
      case 4
      then have "provider_key s \<noteq> None" "provider_key s = provider_key t" using k by simp_all
      then show ?thesis using inv st refs_uniqueD unfolding accounting_inv_def by blast
    qed
    qed
    then show "refs_unique (map ?f (settlements db))"
      unfolding refs_unique_def set_map ball_simps sid by blast
  qed
qed

lemma advance_accounting_inv:
  assumes inv: "accounting_inv db" and ok: "advanceTransactionSettlement sid to at db = Inr db'"
  shows "accounting_inv db'"
proof -
  let ?f = "\<lambda>s. if st_snapshotId s = sid then stamp_settlement to at s else s"
  have db': "db' = db\<lparr>settlements := map ?f (settlements db)\<rparr>"
    using advanceTransactionSettlement_row[OF ok] by (auto simp: update_where_def)
  have pk: "provider_key (?f s) = provider_key s" for s by simp
  have "refs_unique (map ?f (settlements db))"
    using inv by (subst refs_unique_map) (auto simp: accounting_inv_def)
  then show ?thesis
    unfolding db' by (rule settlements_rewrite_inv[OF inv, rotated]) simp
qed

section \<open>What may happen after a sale\<close>

text \<open>Sources are only ever added to, under their unique keys; policies follow the policy service.\<close>

inductive accounting_step :: "'a accounting_tables_scheme \<Rightarrow> 'a accounting_tables_scheme \<Rightarrow> bool" where
  listing: "insert_unique lr_internalListingId l (listings db) = Some ls \<Longrightarrow>
     accounting_step db (db\<lparr>listings := ls\<rparr>)"
| listing_version: "insert_unique (\<lambda>v. (lv_listingSourceRecordId v, lv_sourceRecordVersion v)) lv (listingVersions db) = Some lvs \<Longrightarrow>
     accounting_step db (db\<lparr>listingVersions := lvs\<rparr>)"
| offer_version: "insert_unique (\<lambda>v. (ov_offerSourceRecordId v, ov_sourceRecordVersion v)) ov (offerVersions db) = Some ovs \<Longrightarrow>
     accounting_step db (db\<lparr>offerVersions := ovs\<rparr>)"
| acceptance: "insert_unique poa_id a (promotionAcceptances db) = Some as' \<Longrightarrow>
     accounting_step db (db\<lparr>promotionAcceptances := as'\<rparr>)"
| authorization: "insert_unique pau_id au (promotionAuthorizations db) = Some aus \<Longrightarrow>
     accounting_step db (db\<lparr>promotionAuthorizations := aus\<rparr>)"
| policy_recorded: "recordCommercialPolicyVersion auth i db = Inr (db', v) \<Longrightarrow> accounting_step db db'"
| policy_activated: "activateCommercialPolicyVersion auth pid ver actor at db = Inr (db', v) \<Longrightarrow> accounting_step db db'"
| sale: "recordTransactionEconomicSnapshotInTx sid si db = Inr (db', rec) \<Longrightarrow> accounting_step db db'"
| reference: "recordProviderTransactionReference sid provider ref at db = Inr db' \<Longrightarrow> accounting_step db db'"
| advance: "advanceTransactionSettlement sid to at db = Inr db' \<Longrightarrow> accounting_step db db'"

text \<open>The policy operations rewrite the policy tables only.\<close>

lemma policy_record_frame:
  assumes "recordCommercialPolicyVersion auth i db = Inr (db', v)"
  shows "\<exists>vs. db' = db\<lparr>policyVersions := vs\<rparr>"
  using assms
  by (auto simp: recordCommercialPolicyVersion_def Let_def chain_Inr_iff split: if_split_asm option.split_asm)

lemma policy_activate_frame:
  assumes "activateCommercialPolicyVersion auth pid ver actor at db = Inr (db', v)"
  shows "\<exists>vs. db' = db\<lparr>policyVersions := vs\<rparr>"
  using assms
  by (auto simp: activateCommercialPolicyVersion_def Let_def chain_Inr_iff split: if_split_asm option.split_asm)

lemma readExactPolicy_cong:
  "policyVersions db = policyVersions db' \<Longrightarrow> readExactPolicy db pid ver = readExactPolicy db' pid ver"
  by (simp add: readExactPolicy_def readVersionIn_def)

definition books_inv :: "'a accounting_tables_scheme \<Rightarrow> bool" where
  "books_inv db \<longleftrightarrow> policy_inv db \<and> accounting_inv db"

lemma policy_inv_cong: "policyVersions db = policyVersions db' \<Longrightarrow> policy_inv db = policy_inv db'"
  by (simp add: policy_inv_def)

lemma accounting_inv_cong:
  "snapshots db = snapshots db' \<Longrightarrow> settlements db = settlements db' \<Longrightarrow> accounting_inv db = accounting_inv db'"
  by (simp add: accounting_inv_def)

lemma accounting_step_books:
  assumes "accounting_step db db'" and "books_inv db"
  shows "books_inv db'"
  using assms
proof (induction rule: accounting_step.induct)
  case (policy_recorded auth i db db' v)
  have "snapshots db' = snapshots db" "settlements db' = settlements db"
    using policy_record_frame[OF policy_recorded(1)] by auto
  then show ?case
    using policy_recorded record_policy_inv accounting_inv_cong[of db' db] by (auto simp: books_inv_def)
next
  case (policy_activated auth pid ver actor at db db' v)
  have "snapshots db' = snapshots db" "settlements db' = settlements db"
    using policy_activate_frame[OF policy_activated(1)] by auto
  then show ?case
    using policy_activated activate_policy_inv accounting_inv_cong[of db' db] by (auto simp: books_inv_def)
next
  case (sale sid si db db' rec)
  have "policyVersions db' = policyVersions db"
    using recordTransactionEconomicSnapshotInTx_row[OF sale(1)] by auto
  then show ?case using sale record_accounting_inv policy_inv_cong[of db' db] by (auto simp: books_inv_def)
next
  case (reference sid provider ref at db db')
  have "policyVersions db' = policyVersions db"
    using recordProviderTransactionReference_row[OF reference(1)] by auto
  then show ?case using reference reference_accounting_inv policy_inv_cong[of db' db] by (auto simp: books_inv_def)
next
  case (advance sid to at db db')
  have "policyVersions db' = policyVersions db"
    using advanceTransactionSettlement_row[OF advance(1)] by auto
  then show ?case using advance advance_accounting_inv policy_inv_cong[of db' db] by (auto simp: books_inv_def)
qed (auto simp: books_inv_def policy_inv_def accounting_inv_def)

lemma accounting_steps_books:
  "accounting_step\<^sup>*\<^sup>* db db' \<Longrightarrow> books_inv db \<Longrightarrow> books_inv db'"
  by (induction rule: rtranclp_induct) (auto intro: accounting_step_books)

section \<open>Recorded sales are permanent\<close>

lemma find_append_Some: "List.find P xs = Some x \<Longrightarrow> List.find P (xs @ ys) = Some x"
  by (simp add: find_append)

lemma readExactListingVersion_ext:
  assumes "readExactListingVersion db lid ver = Inr lv"
    and "\<exists>xs. listings db' = listings db @ xs" and "\<exists>ys. listingVersions db' = listingVersions db @ ys"
  shows "readExactListingVersion db' lid ver = Inr lv"
  using assms
  by (auto simp: readExactListingVersion_def find_append split: option.splits)

lemma find_offer_version_ext:
  assumes "find_offer_version db rid ver = Inr ov" and "\<exists>xs. offerVersions db' = offerVersions db @ xs"
  shows "find_offer_version db' rid ver = Inr ov"
  using assms by (auto simp: find_offer_version_def find_append split: option.splits)

lemma sources_persist_ext:
  assumes "\<exists>xs. listings db' = listings db @ xs" and "\<exists>xs. listingVersions db' = listingVersions db @ xs"
    and "\<exists>xs. offerVersions db' = offerVersions db @ xs"
    and "\<exists>xs. promotionAcceptances db' = promotionAcceptances db @ xs"
    and "\<exists>xs. promotionAuthorizations db' = promotionAuthorizations db @ xs"
    and "\<And>pid ver p. readExactPolicy db pid ver = Inr p \<Longrightarrow> readExactPolicy db' pid ver = Inr p"
  shows "sources_persist db db'"
  using assms readExactListingVersion_ext[OF _ assms(1,2)] find_offer_version_ext[OF _ assms(3)]
  by (auto simp: sources_persist_def intro: find_append_Some)

lemma accounting_step_sources:
  assumes "accounting_step db db'" and "books_inv db"
  shows "sources_persist db db'"
  using assms
proof (induction rule: accounting_step.induct)
  case (policy_recorded auth i db db' v)
  have "policy_step\<^sup>*\<^sup>* db db'" using policy_step.recorded[OF policy_recorded(1)] by blast
  then have "readExactPolicy db pid ver = Inr p \<Longrightarrow> readExactPolicy db' pid ver = Inr p" for pid ver p
    using readExactPolicy_stable policy_recorded(2) by (auto simp: books_inv_def)
  then show ?case using policy_record_frame[OF policy_recorded(1)] by (intro sources_persist_ext) auto
next
  case (policy_activated auth pid ver actor at db db' v)
  have "policy_step\<^sup>*\<^sup>* db db'" using policy_step.activated[OF policy_activated(1)] by blast
  then have "readExactPolicy db pid ver = Inr p \<Longrightarrow> readExactPolicy db' pid ver = Inr p" for pid ver p
    using readExactPolicy_stable policy_activated(2) by (auto simp: books_inv_def)
  then show ?case using policy_activate_frame[OF policy_activated(1)] by (intro sources_persist_ext) auto
next
  case (sale sid si db db' rec)
  have "policyVersions db' = policyVersions db"
    using recordTransactionEconomicSnapshotInTx_row[OF sale(1)] by auto
  then show ?case
    using recordTransactionEconomicSnapshotInTx_row[OF sale(1)]
    by (intro sources_persist_ext) (auto simp: readExactPolicy_cong[of db' db])
next
  case (reference sid provider ref at db db')
  have "policyVersions db' = policyVersions db"
    using recordProviderTransactionReference_row[OF reference(1)] by auto
  then show ?case using recordProviderTransactionReference_row[OF reference(1)]
    by (intro sources_persist_ext) (auto simp: readExactPolicy_cong[of db' db])
next
  case (advance sid to at db db')
  have "policyVersions db' = policyVersions db"
    using advanceTransactionSettlement_row[OF advance(1)] by auto
  then show ?case using advanceTransactionSettlement_row[OF advance(1)]
    by (intro sources_persist_ext) (auto simp: readExactPolicy_cong[of db' db])
qed (intro sources_persist_ext; auto simp: insert_unique_Some_iff readExactPolicy_def readVersionIn_def)+

lemma accounting_steps_sources:
  assumes "accounting_step\<^sup>*\<^sup>* db db'" and "books_inv db"
  shows "sources_persist db db'"
  using assms
proof (induction rule: rtranclp_induct)
  case base
  show ?case by (rule sources_persist_refl)
next
  case (step db1 db2)
  then show ?case
    using accounting_steps_books accounting_step_sources sources_persist_trans by blast
qed

text \<open>No step removes or rewrites a snapshot row.\<close>

lemma accounting_step_snapshots:
  "accounting_step db db' \<Longrightarrow> \<exists>xs. snapshots db' = snapshots db @ xs"
proof (induction rule: accounting_step.induct)
  case (policy_recorded auth i db db' v)
  then show ?case using policy_record_frame[OF policy_recorded] by auto
next
  case (policy_activated auth pid ver actor at db db' v)
  then show ?case using policy_activate_frame[OF policy_activated] by auto
next
  case (sale sid si db db' rec)
  then show ?case using recordTransactionEconomicSnapshotInTx_row[OF sale] by auto
next
  case (reference sid provider ref at db db')
  then show ?case using recordProviderTransactionReference_row[OF reference] by auto
next
  case (advance sid to at db db')
  then show ?case using advanceTransactionSettlement_row[OF advance] by auto
qed auto

lemma accounting_steps_snapshots:
  "accounting_step\<^sup>*\<^sup>* db db' \<Longrightarrow> \<exists>xs. snapshots db' = snapshots db @ xs"
proof (induction rule: rtranclp_induct)
  case (step db1 db2)
  then show ?case using accounting_step_snapshots[OF step.hyps(2)] by (metis append.assoc)
qed simp

text \<open>The binding rebuilt from a stored promoted row is the binding it was recorded under.\<close>

lemma computeEconomics_binding:
  assumes "computeEconomics db lv p cur at b = Inr (retail, e)"
  shows "(case b of None \<Rightarrow> True | Some pb \<Rightarrow>
     (\<exists>q. e = PROMOTED q \<and> ob_offerSourceRecordId (pte_offerBinding q) = psb_offerSourceRecordId pb \<and>
          ob_offerSourceRecordVersion (pte_offerBinding q) = psb_offerSourceRecordVersion pb))"
proof (cases b)
  case (Some pb)
  then obtain r where pkg: "lv_placement lv = PackagePromotedPlacement r"
    using assms by (cases "lv_placement lv") (auto simp: computeEconomics_def)
  show ?thesis
    using assms Some pkg
    by (auto simp: computeEconomics_def chain_Inr_iff compute_promoted_def promoted_economics_of_def
          split: if_split_asm option.split_asm)
qed simp

lemma stored_binding_recorded:
  assumes "computeEconomics db lv p cur at (sni_promotedBinding i) = Inr (retail, e)"
  shows "stored_binding (snapshot_row_of i sid lsr retail e) e = sni_promotedBinding i"
  using computeEconomics_binding[OF assms]
  by (cases "sni_promotedBinding i") (auto simp: stored_binding_def snapshot_row_of_def)

lemma reconstruct_recorded:
  assumes ok: "recordTransactionEconomicSnapshotInTx sid i db = Inr (db1, rec)"
    and src: "sources_persist db db'"
    and row: "find_snapshot db' sid = find_snapshot db1 sid"
    and uniq: "unique_on sr_id (snapshots db1)"
    and st: "find_settlement db' sid \<noteq> None"
  shows "reconstructTransactionEconomics db' sid = Inr rec"
proof -
  from recordTransactionEconomicSnapshotInTx_row[OF ok] show ?thesis
  proof (elim exE conjE)
    fix lv :: listing_version and p retail e
    let ?row = "snapshot_row_of i sid (lv_listingSourceRecordId lv) retail e"
    assume l: "readExactListingVersion db (sni_internalListingId i) (sni_listingSourceRecordVersion i) = Inr lv"
      and p: "readExactPolicy db (sni_policyId i) (sni_policyVersion i) = Inr p"
      and c: "computeEconomics db lv p (sni_currency i) (sni_occurredAt i) (sni_promotedBinding i) = Inr (retail, e)"
      and r: "reconcileTransactionEconomics retail e = Inr ()"
      and rec: "snapshotRowToRecord ?row = Inr rec"
      and db1: "db1 = db\<lparr>snapshots := snapshots db @ [?row], settlements := settlements db @ [new_settlement sid]\<rparr>"
    have te: "TransactionEconomics e" using reconcile_ok_sum(3)[OF r] .
    note f = snapshot_row_of_record[OF rec te]
    have f1: "find_snapshot db1 sid = Some ?row"
      using find_unique[OF uniq, of ?row] db1 by (simp add: find_snapshot_def snapshot_row_of_def)
    obtain st' where st': "find_settlement db' sid = Some st'" using st by blast
    have g: "getTransactionEconomicSnapshot db' sid = Inr (rec, st')"
      using f1 row st' rec by (simp add: getTransactionEconomicSnapshot_def)
    have l': "readExactListingVersion db' (sni_internalListingId i) (sni_listingSourceRecordVersion i) = Inr lv"
      and p': "readExactPolicy db' (sni_policyId i) (sni_policyVersion i) = Inr p"
      using src l p by (auto simp: sources_persist_def)
    have rr: "requireReconciled retail e = Inr ()" using r by simp
    show ?thesis
      using g l' p' f1 row f rr computeEconomics_persist[OF src c] stored_binding_recorded[OF c]
      by (simp add: reconstructTransactionEconomics_def drifted_economics_Nil[THEN iffD2]
            del: requireReconciled_Inr)
  qed
qed

lemma recorded_snapshot_found:
  assumes "recordTransactionEconomicSnapshotInTx sid i db = Inr (db', rec)"
  shows "\<exists>row. find_snapshot db' sid = Some row"
proof -
  have "sid \<in> sr_id ` set (snapshots db')"
    using recordTransactionEconomicSnapshotInTx_row[OF assms] by (auto simp: snapshot_row_of_def)
  then show ?thesis
    by (cases "find_snapshot db' sid") (auto simp: find_snapshot_def dest: find_None_set)
qed

lemma find_settlement_paired:
  assumes "accounting_inv db" and "find_snapshot db sid \<noteq> None"
  shows "find_settlement db sid \<noteq> None"
proof -
  obtain r where "r \<in> set (snapshots db)" "sr_id r = sid"
    using assms(2) by (auto simp: find_snapshot_def dest: find_Some_set)
  then have "sid \<in> set (map st_snapshotId (settlements db))"
    using assms(1) by (auto simp: accounting_inv_def)
  then show ?thesis by (auto simp: find_settlement_def find_None_iff)
qed

lemma settlement_state_of_steps:
  assumes "accounting_step db db'" and "books_inv db" and "find_settlement db sid = Some s"
  shows "\<exists>s'. find_settlement db' sid = Some s' \<and> settlement_lifecycle.moves\<^sup>*\<^sup>* (st_state s) (st_state s') \<and>
     (st_providerTransactionRef s \<noteq> None \<longrightarrow> st_provider s' = st_provider s \<and>
        st_providerTransactionRef s' = st_providerTransactionRef s)"
  using assms
proof (induction rule: accounting_step.induct)
  case (policy_recorded auth i db db' v)
  then show ?case using policy_record_frame[OF policy_recorded(1)] by (auto simp: find_settlement_def)
next
  case (policy_activated auth pid ver actor at db db' v)
  then show ?case using policy_activate_frame[OF policy_activated(1)] by (auto simp: find_settlement_def)
next
  case (sale sid' si db db' rec)
  then show ?case using recordTransactionEconomicSnapshotInTx_row[OF sale(1)]
    by (auto simp: find_settlement_def find_append)
next
  case (reference sid' provider ref at db db')
  let ?u = "\<lambda>s. s\<lparr>st_provider := Some provider, st_providerTransactionRef := Some ref,
                  st_providerReferenceRecordedAt := Some at\<rparr>"
  obtain cur where cur: "find_settlement db sid' = Some cur" "st_providerTransactionRef cur = None"
    and db': "db' = db\<lparr>settlements := update_where (\<lambda>s. st_snapshotId s = sid') ?u (settlements db)\<rparr>"
    using recordProviderTransactionReference_row[OF reference(1)] by blast
  have "find_settlement db' sid = Some (if sid = sid' then ?u s else s)"
    using reference(3) find_update_where_key[where key = st_snapshotId and f = ?u and k' = sid and k = sid' and xs = "settlements db"]
    by (cases "sid = sid'") (simp_all add: find_settlement_def db')
  then show ?case using cur reference(3) by (cases "sid = sid'") auto
next
  case (advance sid' to at db db')
  obtain cur where cur: "find_settlement db sid' = Some cur"
      "to \<in> set (TRANSACTION_SETTLEMENT_TRANSITIONS (st_state cur))"
    and db': "db' = db\<lparr>settlements := update_where (\<lambda>s. st_snapshotId s = sid') (stamp_settlement to at) (settlements db)\<rparr>"
    using advanceTransactionSettlement_row[OF advance(1)] by blast
  have "find_settlement db' sid = Some (if sid = sid' then stamp_settlement to at s else s)"
    using advance(3) find_update_where_key[where key = st_snapshotId and f = "stamp_settlement to at" and k' = sid and k = sid' and xs = "settlements db"]
    by (cases "sid = sid'") (simp_all add: find_settlement_def db')
  then show ?case using cur advance(3)
    by (cases "sid = sid'") (auto simp: settlement_lifecycle.moves_def intro!: r_into_rtranclp)
qed (auto simp: find_settlement_def)

lemma settlement_state_of_histories:
  assumes "accounting_step\<^sup>*\<^sup>* db db'" and "books_inv db" and "find_settlement db sid = Some s"
  shows "\<exists>s'. find_settlement db' sid = Some s' \<and> settlement_lifecycle.moves\<^sup>*\<^sup>* (st_state s) (st_state s') \<and>
     (st_providerTransactionRef s \<noteq> None \<longrightarrow> st_provider s' = st_provider s \<and>
        st_providerTransactionRef s' = st_providerTransactionRef s)"
  using assms
proof (induction rule: rtranclp_induct)
  case (step db1 db2)
  then obtain s1 where s1: "find_settlement db1 sid = Some s1"
    "settlement_lifecycle.moves\<^sup>*\<^sup>* (st_state s) (st_state s1)"
    "st_providerTransactionRef s \<noteq> None \<longrightarrow> st_provider s1 = st_provider s \<and>
        st_providerTransactionRef s1 = st_providerTransactionRef s" by blast
  have "books_inv db1" using accounting_steps_books step.hyps(1) step.prems(1) by blast
  then obtain s2 where s2: "find_settlement db2 sid = Some s2"
    "settlement_lifecycle.moves\<^sup>*\<^sup>* (st_state s1) (st_state s2)"
    "st_providerTransactionRef s1 \<noteq> None \<longrightarrow> st_provider s2 = st_provider s1 \<and>
        st_providerTransactionRef s2 = st_providerTransactionRef s1"
    using settlement_state_of_steps[OF step.hyps(2) _ s1(1)] by blast
  have "settlement_lifecycle.moves\<^sup>*\<^sup>* (st_state s) (st_state s2)"
    using s1(2) s2(2) by (rule rtranclp_trans)
  then show ?case using s2(1) s1(3) s2(3) by (intro exI[of _ s2]) auto
qed auto

end
