(* ===== verification/Reversal.thy ===== *)
theory Reversal
  imports Accounting_History
begin

text \<open>
  Proceeds obligations, recovery exceptions and reversals:
  \<open>src/contracts/marketplace/proceeds-obligation.ts\<close>,
  \<open>src/contracts/marketplace/proceeds-recovery.ts\<close>,
  \<open>src/contracts/marketplace/transaction-reversal.ts\<close> and
  \<open>src/server/marketplace/transaction-reversal-service.ts\<close>.  A sale owes its seller and, when
  promoted, its promoter; reversing it derives every amount from the snapshot, checks that the
  parties' shares balance, writes one reversal row and moves the settlement to its terminal state.
\<close>

section \<open>Proceeds obligations\<close>

datatype proceeds_party = SELLER | PROMOTER
datatype obligation_state = Obligation_PENDING | ELIGIBLE | PAID_OUT

fun PROCEEDS_OBLIGATION_TRANSITIONS :: "obligation_state \<Rightarrow> obligation_state list" where
  "PROCEEDS_OBLIGATION_TRANSITIONS Obligation_PENDING = [ELIGIBLE]"
| "PROCEEDS_OBLIGATION_TRANSITIONS ELIGIBLE = [PAID_OUT]"
| "PROCEEDS_OBLIGATION_TRANSITIONS PAID_OUT = []"

definition isValidProceedsObligationTransition :: "obligation_state \<Rightarrow> obligation_state \<Rightarrow> bool" where
  "isValidProceedsObligationTransition from to = (to \<in> set (PROCEEDS_OBLIGATION_TRANSITIONS from))"

definition isTerminalProceedsObligationState :: "obligation_state \<Rightarrow> bool" where
  "isTerminalProceedsObligationState s = (length (PROCEEDS_OBLIGATION_TRANSITIONS s) = 0)"

fun obligation_rank :: "obligation_state \<Rightarrow> nat" where
  "obligation_rank Obligation_PENDING = 0" | "obligation_rank ELIGIBLE = 1" | "obligation_rank PAID_OUT = 2"

interpretation obligation_lifecycle: forward_table PROCEEDS_OBLIGATION_TRANSITIONS
  isTerminalProceedsObligationState obligation_rank
proof
  fix s t
  show "isTerminalProceedsObligationState s = (PROCEEDS_OBLIGATION_TRANSITIONS s = [])"
    by (simp add: isTerminalProceedsObligationState_def)
  show "t \<in> set (PROCEEDS_OBLIGATION_TRANSITIONS s) \<Longrightarrow> obligation_rank s < obligation_rank t"
    by (cases s) auto
qed

record proceeds_obligation =
  pob_id :: ident
  pob_snapshotId :: ident
  pob_participantId :: ident
  pob_party :: proceeds_party
  pob_amount :: amount
  pob_currency :: currency
  pob_state :: obligation_state
  pob_accruedAt :: instant
  pob_becameEligibleAt :: "instant option"
  pob_paidAt :: "instant option"

fun deriveProceedsClaims :: "transaction_economics \<Rightarrow> (proceeds_party \<times> amount) list" where
  "deriveProceedsClaims (SELLER_DIRECT e) = [(SELLER, sdt_sellerProceeds e)]"
| "deriveProceedsClaims (PROMOTED e) =
     [(SELLER, pte_sellerProceeds e), (PROMOTER, pte_promoterNetProceeds e)]"

lemma deriveProceedsClaims_total:
  assumes "reconcileTransactionEconomics retail e = Inr ()"
  shows "sum_list (map snd (deriveProceedsClaims e)) + te_monacadoRetained e = retail"
  using reconcile_ok_sum(1)[OF assms] by (cases e) auto

section \<open>Recovery exceptions\<close>

datatype recovery_cause = Cause_REFUND | Cause_DISPUTE

datatype recovery_reason =
    PAID_BEFORE_REFUND | ELIGIBLE_BEFORE_REFUND | PAID_BEFORE_DISPUTE | ELIGIBLE_BEFORE_DISPUTE

fun recoveryReasonForObligationState :: "obligation_state \<Rightarrow> recovery_cause \<Rightarrow> recovery_reason option" where
  "recoveryReasonForObligationState s Cause_DISPUTE =
     (if s = PAID_OUT then Some PAID_BEFORE_DISPUTE
      else if s = ELIGIBLE then Some ELIGIBLE_BEFORE_DISPUTE else None)"
| "recoveryReasonForObligationState s Cause_REFUND =
     (if s = PAID_OUT then Some PAID_BEFORE_REFUND
      else if s = ELIGIBLE then Some ELIGIBLE_BEFORE_REFUND else None)"

definition causeKindForRecoveryReason :: "recovery_reason \<Rightarrow> recovery_cause" where
  "causeKindForRecoveryReason r =
     (if r = PAID_BEFORE_DISPUTE \<or> r = ELIGIBLE_BEFORE_DISPUTE then Cause_DISPUTE else Cause_REFUND)"

lemma recovery_reason_cause:
  "recoveryReasonForObligationState s c = Some r \<Longrightarrow> causeKindForRecoveryReason r = c"
  by (cases c; cases s) (auto simp: causeKindForRecoveryReason_def)

lemma recovery_reason_None [simp]:
  "recoveryReasonForObligationState s c = None \<longleftrightarrow> s = Obligation_PENDING"
  by (cases c; cases s) auto

datatype recovery_status = Recovery_OPEN | ACKNOWLEDGED | RESOLVED

fun PROCEEDS_RECOVERY_TRANSITIONS :: "recovery_status \<Rightarrow> recovery_status list" where
  "PROCEEDS_RECOVERY_TRANSITIONS Recovery_OPEN = [ACKNOWLEDGED, RESOLVED]"
| "PROCEEDS_RECOVERY_TRANSITIONS ACKNOWLEDGED = [RESOLVED]"
| "PROCEEDS_RECOVERY_TRANSITIONS RESOLVED = []"

definition isValidProceedsRecoveryTransition :: "recovery_status \<Rightarrow> recovery_status \<Rightarrow> bool" where
  "isValidProceedsRecoveryTransition from to = (to \<in> set (PROCEEDS_RECOVERY_TRANSITIONS from))"

fun recovery_rank :: "recovery_status \<Rightarrow> nat" where
  "recovery_rank Recovery_OPEN = 0" | "recovery_rank ACKNOWLEDGED = 1" | "recovery_rank RESOLVED = 2"

interpretation recovery_lifecycle: forward_table PROCEEDS_RECOVERY_TRANSITIONS
  "\<lambda>s. s = RESOLVED" recovery_rank
proof
  fix s t
  show "(s = RESOLVED) = (PROCEEDS_RECOVERY_TRANSITIONS s = [])" by (cases s) auto
  show "t \<in> set (PROCEEDS_RECOVERY_TRANSITIONS s) \<Longrightarrow> recovery_rank s < recovery_rank t"
    by (cases s) auto
qed

datatype recovery_resolution =
    RECOVERED_FROM_PARTY | OFFSET_AGAINST_FUTURE_PROCEEDS | WRITTEN_OFF
  | PAYOUT_CANCELLED_BEFORE_EXECUTION | RAISED_IN_ERROR | DISPUTE_RESOLVED_NO_RECOVERY_DUE

record recovery_exception =
  prx_id :: ident
  prx_refundId :: "ident option"
  prx_disputeId :: "ident option"
  prx_causeKind :: recovery_cause
  prx_orderId :: ident
  prx_snapshotId :: ident
  prx_proceedsObligationId :: ident
  prx_participantId :: ident
  prx_party :: proceeds_party
  prx_amount :: amount
  prx_attributableAmount :: amount
  prx_currency :: currency
  prx_reasonCode :: recovery_reason
  prx_obligationState :: obligation_state
  prx_status :: recovery_status
  prx_resolutionCode :: "recovery_resolution option"
  prx_raisedAt :: instant
  prx_acknowledgedAt :: "instant option"
  prx_resolvedAt :: "instant option"

section \<open>Reversed amounts\<close>

datatype reversal_kind = Kind_REFUND | Kind_CHARGEBACK
datatype reversal_reason = BUYER_REQUESTED | NOT_FULFILLABLE | MONACADO_INITIATED | DISPUTED_BY_BUYER | CORRECTION

record reversed_amounts =
  ra_commercialRetail :: amount
  ra_tax :: amount
  ra_shipping :: amount
  ra_other :: amount
  ra_monacadoRetained :: amount
  ra_sellerProceeds :: amount
  ra_promoterNetProceeds :: "amount option"

definition ReversedAmounts :: "reversed_amounts \<Rightarrow> bool" where
  "ReversedAmounts a = (Amount (ra_commercialRetail a) \<and> Amount (ra_tax a) \<and> Amount (ra_shipping a) \<and>
     Amount (ra_other a) \<and> Amount (ra_monacadoRetained a) \<and> Amount (ra_sellerProceeds a) \<and>
     (case ra_promoterNetProceeds a of None \<Rightarrow> True | Some p \<Rightarrow> Amount p))"

definition reversedBuyerTotalMinorUnits :: "reversed_amounts \<Rightarrow> amount" where
  "reversedBuyerTotalMinorUnits a = ra_commercialRetail a + ra_tax a + ra_shipping a + ra_other a"

definition deriveFullReversalAmounts ::
  "amount \<Rightarrow> pass_through \<Rightarrow> transaction_economics \<Rightarrow> reversed_amounts" where
  "deriveFullReversalAmounts retail pass e =
     \<lparr>ra_commercialRetail = retail, ra_tax = pt_tax pass, ra_shipping = pt_shipping pass,
      ra_other = pt_other pass, ra_monacadoRetained = te_monacadoRetained e,
      ra_sellerProceeds = te_sellerProceeds e,
      ra_promoterNetProceeds = (case e of PROMOTED p \<Rightarrow> Some (pte_promoterNetProceeds p) | SELLER_DIRECT _ \<Rightarrow> None)\<rparr>"

fun is_promoted :: "transaction_economics \<Rightarrow> bool" where
  "is_promoted (PROMOTED _) = True" | "is_promoted (SELLER_DIRECT _) = False"

definition reconcileFullReversal :: "reversed_amounts \<Rightarrow> bool \<Rightarrow> unit res" where
  "reconcileFullReversal a promoted =
     (if promoted \<and> ra_promoterNetProceeds a = None
        then Inl (TransactionReversalError ''REVERSAL_PROMOTER_SHARE_MISSING'')
      else if \<not> promoted \<and> ra_promoterNetProceeds a \<noteq> None
        then Inl (TransactionReversalError ''REVERSAL_PROMOTER_SHARE_UNEXPECTED'')
      else
        let parties = ra_sellerProceeds a +
              (case ra_promoterNetProceeds a of None \<Rightarrow> 0 | Some p \<Rightarrow> p) + ra_monacadoRetained a
        in if parties \<noteq> ra_commercialRetail a
           then Inl (TransactionReversalError ''REVERSAL_DOES_NOT_BALANCE'') else Inr ())"

definition snapshot_reversal :: "snapshot_record \<Rightarrow> reversed_amounts" where
  "snapshot_reversal s = deriveFullReversalAmounts (snap_commercialRetail s) (snap_passThrough s) (snap_economics s)"

text \<open>The reversal of a sale that reconciles always balances and returns exactly what the buyer paid.\<close>

lemma full_reversal_balances:
  assumes "reconcileTransactionEconomics retail e = Inr ()"
  shows "reconcileFullReversal (deriveFullReversalAmounts retail pass e) (is_promoted e) = Inr ()"
  using reconcile_ok_sum(1)[OF assms]
  by (cases e) (auto simp: reconcileFullReversal_def deriveFullReversalAmounts_def Let_def)

lemma full_reversal_buyer_total:
  "reversedBuyerTotalMinorUnits (snapshot_reversal s) = buyerChargedTotalMinorUnits s"
  by (simp add: reversedBuyerTotalMinorUnits_def snapshot_reversal_def deriveFullReversalAmounts_def
      buyerChargedTotalMinorUnits_def)

section \<open>The reversal service\<close>

record transaction_reversal =
  trv_id :: ident
  trv_snapshotId :: ident
  trv_orderId :: ident
  trv_kind :: reversal_kind
  trv_reasonCode :: reversal_reason
  trv_currency :: currency
  trv_amounts :: reversed_amounts
  trv_provider :: "string option"
  trv_providerReversalRef :: "string option"
  trv_occurredAt :: instant
  trv_recordedAt :: instant

record reversal_tables = accounting_tables +
  obligations :: "proceeds_obligation list"
  recoveries :: "recovery_exception list"
  reversals :: "transaction_reversal list"

record reversal_input =
  rvi_snapshotId :: ident
  rvi_kind :: reversal_kind
  rvi_reasonCode :: reversal_reason
  rvi_provider :: "string option"
  rvi_providerReversalRef :: "string option"
  rvi_occurredAt :: instant
  rvi_recordedAt :: instant

definition TransactionReversalRecord :: "transaction_reversal \<Rightarrow> bool" where
  "TransactionReversalRecord r = (1 \<le> length (trv_orderId r) \<and> length (trv_orderId r) \<le> 191 \<and>
     CurrencyCode (trv_currency r) \<and> ReversedAmounts (trv_amounts r) \<and>
     (case trv_provider r of None \<Rightarrow> True | Some p \<Rightarrow> p = ''STRIPE'') \<and>
     (case trv_providerReversalRef r of None \<Rightarrow> True | Some x \<Rightarrow> ProviderTransactionRef x))"

definition reversal_rowToRecord :: "transaction_reversal \<Rightarrow> transaction_reversal res" where
  "reversal_rowToRecord r = (if TransactionReversalRecord r then Inr r
     else Inl (TransactionReversalError ''CORRUPT_REVERSAL_RECORD''))"

definition recordFullReversalInTx ::
  "ident \<Rightarrow> reversal_input \<Rightarrow> 'a reversal_tables_scheme \<Rightarrow> ('a reversal_tables_scheme \<times> transaction_reversal) res" where
  "recordFullReversalInTx rid i db =
     (case find_snapshot db (rvi_snapshotId i) of
        None \<Rightarrow> Inl (TransactionReversalError ''REVERSAL_SNAPSHOT_NOT_FOUND'')
      | Some snapshotRow \<Rightarrow>
          (case sr_orderId snapshotRow of
             None \<Rightarrow> Inl (TransactionReversalError ''REVERSAL_ORDER_NOT_BOUND'')
           | Some orderId \<Rightarrow>
               chain (snapshotRowToRecord snapshotRow) (\<lambda>snapshot.
                 let amounts = snapshot_reversal snapshot in
                 chain (reconcileFullReversal amounts (is_promoted (snap_economics snapshot))) (\<lambda>_.
                   case find_settlement db (rvi_snapshotId i) of
                     None \<Rightarrow> Inl (TransactionReversalError ''REVERSAL_SETTLEMENT_MISSING'')
                   | Some settlement \<Rightarrow>
                       if \<not> isValidTransactionSettlementTransition (st_state settlement) REVERSED
                       then Inl (TransactionReversalError ''REVERSAL_ALREADY_RECORDED'')
                       else
                         let row = \<lparr>trv_id = rid, trv_snapshotId = rvi_snapshotId i, trv_orderId = orderId,
                                    trv_kind = rvi_kind i, trv_reasonCode = rvi_reasonCode i,
                                    trv_currency = snap_currency snapshot, trv_amounts = amounts,
                                    trv_provider = rvi_provider i,
                                    trv_providerReversalRef = rvi_providerReversalRef i,
                                    trv_occurredAt = rvi_occurredAt i, trv_recordedAt = rvi_recordedAt i\<rparr>
                         in if rid \<in> trv_id ` set (reversals db) \<or>
                               rvi_snapshotId i \<in> trv_snapshotId ` set (reversals db)
                            then Inl (UniqueViolation ''TransactionReversal'')
                            else
                              let db' = db\<lparr>reversals := reversals db @ [row],
                                    settlements := update_where (\<lambda>s. st_snapshotId s = rvi_snapshotId i)
                                      (stamp_settlement REVERSED (rvi_occurredAt i)) (settlements db)\<rparr>
                              in chain (reversal_rowToRecord row) (\<lambda>r. Inr (db', r))))))"

definition recordFullReversal ::
  "ident \<Rightarrow> reversal_input \<Rightarrow> 'a reversal_tables_scheme \<Rightarrow> ('a reversal_tables_scheme \<times> transaction_reversal) res" where
  "recordFullReversal rid i db =
     (case recordFullReversalInTx rid i db of
        Inl (UniqueViolation _) \<Rightarrow> Inl (TransactionReversalError ''REVERSAL_ALREADY_RECORDED'')
      | r \<Rightarrow> r)"

definition find_reversal :: "'a reversal_tables_scheme \<Rightarrow> ident \<Rightarrow> transaction_reversal option" where
  "find_reversal db sid = List.find (\<lambda>r. trv_snapshotId r = sid) (reversals db)"

definition getReversalForSnapshot ::
  "'a reversal_tables_scheme \<Rightarrow> ident \<Rightarrow> transaction_reversal option res" where
  "getReversalForSnapshot db sid =
     (case find_reversal db sid of None \<Rightarrow> Inr None | Some r \<Rightarrow> chain (reversal_rowToRecord r) (\<lambda>r. Inr (Some r)))"

definition isSnapshotReversedIn :: "'a reversal_tables_scheme \<Rightarrow> ident \<Rightarrow> bool" where
  "isSnapshotReversedIn db sid = (count_where (\<lambda>r. trv_snapshotId r = sid) (reversals db) > 0)"

record net_position =
  net_party :: proceeds_party
  net_participantId :: ident
  net_obligationAmount :: amount
  net_reversedAmount :: amount
  net_netAmount :: amount

text \<open>\<open>orderBy: { party: "asc" }\<close> puts the promoter's row first.\<close>

definition party_order :: "proceeds_obligation list \<Rightarrow> proceeds_obligation list" where
  "party_order os = filter (\<lambda>ob. pob_party ob = PROMOTER) os @ filter (\<lambda>ob. pob_party ob = SELLER) os"

definition reconcileProceedsAfterReversal ::
  "'a reversal_tables_scheme \<Rightarrow> ident \<Rightarrow> net_position list res" where
  "reconcileProceedsAfterReversal db sid =
     chain (getReversalForSnapshot db sid) (\<lambda>reversal.
       Inr (map (\<lambda>ob.
         let reversed = (case reversal of None \<Rightarrow> 0
                | Some r \<Rightarrow> if pob_party ob = SELLER then ra_sellerProceeds (trv_amounts r)
                           else (case ra_promoterNetProceeds (trv_amounts r) of None \<Rightarrow> 0 | Some p \<Rightarrow> p))
         in \<lparr>net_party = pob_party ob, net_participantId = pob_participantId ob,
             net_obligationAmount = pob_amount ob, net_reversedAmount = reversed,
             net_netAmount = pob_amount ob - reversed\<rparr>)
         (party_order (filter (\<lambda>ob. pob_snapshotId ob = sid) (obligations db)))))"

end
