(* ===== verification/Reversal_Facts.thy ===== *)
theory Reversal_Facts
  imports Reversal
begin

text \<open>
  What the reversal service guarantees: what one successful reversal writes, that a sale is never
  reversed twice, the invariant that ties every reversal to its snapshot's amounts and to a
  settlement in its terminal state, and the net position of the parties after a reversal.
\<close>

section \<open>One reversal\<close>

definition reversal_row_of ::
  "ident \<Rightarrow> reversal_input \<Rightarrow> ident \<Rightarrow> snapshot_record \<Rightarrow> transaction_reversal" where
  "reversal_row_of rid i orderId snapshot =
     \<lparr>trv_id = rid, trv_snapshotId = rvi_snapshotId i, trv_orderId = orderId,
      trv_kind = rvi_kind i, trv_reasonCode = rvi_reasonCode i, trv_currency = snap_currency snapshot,
      trv_amounts = snapshot_reversal snapshot, trv_provider = rvi_provider i,
      trv_providerReversalRef = rvi_providerReversalRef i,
      trv_occurredAt = rvi_occurredAt i, trv_recordedAt = rvi_recordedAt i\<rparr>"

lemma valid_to_REVERSED [simp]:
  "isValidTransactionSettlementTransition s REVERSED \<longleftrightarrow> s \<noteq> REVERSED"
  by (cases s) (auto simp: isValidTransactionSettlementTransition_def)

lemma recordFullReversalInTx_row:
  assumes "recordFullReversalInTx rid i db = Inr (db', r)"
  shows "\<exists>srow orderId snap st. find_snapshot db (rvi_snapshotId i) = Some srow \<and> sr_orderId srow = Some orderId \<and>
     snapshotRowToRecord srow = Inr snap \<and> find_settlement db (rvi_snapshotId i) = Some st \<and>
     st_state st \<noteq> REVERSED \<and> rid \<notin> trv_id ` set (reversals db) \<and>
     rvi_snapshotId i \<notin> trv_snapshotId ` set (reversals db) \<and>
     r = reversal_row_of rid i orderId snap \<and> TransactionReversalRecord r \<and>
     db' = db\<lparr>reversals := reversals db @ [r],
              settlements := update_where (\<lambda>s. st_snapshotId s = rvi_snapshotId i)
                (stamp_settlement REVERSED (rvi_occurredAt i)) (settlements db)\<rparr>"
  using assms
  by (auto simp: recordFullReversalInTx_def Let_def chain_Inr_iff reversal_rowToRecord_def reversal_row_of_def
      split: option.split_asm if_split_asm)

lemma recordFullReversal_Inr [simp]:
  "recordFullReversal rid i db = Inr x \<longleftrightarrow> recordFullReversalInTx rid i db = Inr x"
  by (cases "recordFullReversalInTx rid i db")
     (auto simp: recordFullReversal_def split: err.splits)

lemma snapshotRowToRecord_frame:
  "snapshotRowToRecord (r\<lparr>sr_orderId := x\<rparr>) = snapshotRowToRecord r"
  by (simp add: snapshotRowToRecord_def)

section \<open>Invariant\<close>

text \<open>Every reversal is of a recorded sale bound to an order, carries exactly that sale's amounts,
  and its settlement is \<open>REVERSED\<close>; no sale has two.\<close>

definition reversal_linked :: "'a reversal_tables_scheme \<Rightarrow> transaction_reversal \<Rightarrow> bool" where
  "reversal_linked db r \<longleftrightarrow>
     (\<exists>srow snap st. find_snapshot db (trv_snapshotId r) = Some srow \<and> sr_orderId srow = Some (trv_orderId r) \<and>
        snapshotRowToRecord srow = Inr snap \<and> trv_amounts r = snapshot_reversal snap \<and>
        trv_currency r = snap_currency snap \<and> TransactionReversalRecord r \<and>
        find_settlement db (trv_snapshotId r) = Some st \<and> st_state st = REVERSED)"

definition reversal_inv :: "'a reversal_tables_scheme \<Rightarrow> bool" where
  "reversal_inv db \<longleftrightarrow> unique_on trv_id (reversals db) \<and> unique_on trv_snapshotId (reversals db) \<and>
     (\<forall>r\<in>set (reversals db). reversal_linked db r)"

lemma find_settlement_stamped:
  "find_settlement (db\<lparr>reversals := rs, settlements := update_where (\<lambda>s. st_snapshotId s = sid)
       (stamp_settlement to at) (settlements db)\<rparr>) k =
   (if k = sid then map_option (stamp_settlement to at) (find_settlement db sid) else find_settlement db k)"
  using find_update_where_key[where key = st_snapshotId and f = "stamp_settlement to at" and k' = k
      and k = sid and xs = "settlements db"]
  by (cases "k = sid") (simp_all add: find_settlement_def)

lemma recordFullReversal_inv:
  assumes inv: "reversal_inv db" and ok: "recordFullReversalInTx rid i db = Inr (db', r)"
  shows "reversal_inv db'"
proof -
  let ?sid = "rvi_snapshotId i"
  obtain srow orderId snap st where a: "find_snapshot db ?sid = Some srow" "sr_orderId srow = Some orderId"
    "snapshotRowToRecord srow = Inr snap" "find_settlement db ?sid = Some st" "st_state st \<noteq> REVERSED"
    and fresh: "rid \<notin> trv_id ` set (reversals db)" "?sid \<notin> trv_snapshotId ` set (reversals db)"
    and r: "r = reversal_row_of rid i orderId snap" "TransactionReversalRecord r"
    and db': "db' = db\<lparr>reversals := reversals db @ [r],
              settlements := update_where (\<lambda>s. st_snapshotId s = ?sid)
                (stamp_settlement REVERSED (rvi_occurredAt i)) (settlements db)\<rparr>"
    using recordFullReversalInTx_row[OF ok] by blast
  have snaps: "find_snapshot db' k = find_snapshot db k" for k by (simp add: db' find_snapshot_def)
  have sets: "find_settlement db' k = (if k = ?sid
      then map_option (stamp_settlement REVERSED (rvi_occurredAt i)) (find_settlement db ?sid)
      else find_settlement db k)" for k
    unfolding db' by (rule find_settlement_stamped)
  have new: "reversal_linked db' r"
    using a r by (auto simp: reversal_linked_def snaps sets reversal_row_of_def)
  have old: "reversal_linked db' x" if "x \<in> set (reversals db)" for x
  proof -
    have "trv_snapshotId x \<noteq> ?sid" using fresh(2) that by (metis image_eqI)
    then show ?thesis using inv that by (auto simp: reversal_linked_def snaps sets reversal_inv_def)
  qed
  have ids: "trv_id r = rid" "trv_snapshotId r = ?sid" by (simp_all add: r reversal_row_of_def)
  have tab: "reversals db' = reversals db @ [r]" by (simp add: db')
  show ?thesis
    using inv fresh new old unfolding reversal_inv_def tab by (auto simp: ids)
qed

lemma recordFullReversal_accounting:
  assumes inv: "accounting_inv db" and ok: "recordFullReversalInTx rid i db = Inr (db', r)"
  shows "accounting_inv db'"
proof -
  let ?f = "\<lambda>s. if st_snapshotId s = rvi_snapshotId i
     then stamp_settlement REVERSED (rvi_occurredAt i) s else s"
  have db': "db' = db\<lparr>reversals := reversals db @ [r], settlements := map ?f (settlements db)\<rparr>"
    using recordFullReversalInTx_row[OF ok] by (auto simp: update_where_def)
  have "refs_unique (map ?f (settlements db))"
    using inv by (subst refs_unique_map) (auto simp: accounting_inv_def)
  then have "accounting_inv (db\<lparr>settlements := map ?f (settlements db)\<rparr>)"
    by (rule settlements_rewrite_inv[OF inv, rotated]) simp
  then show ?thesis by (simp add: accounting_inv_def db')
qed

text \<open>Reversing again, whatever the identifiers and evidence supplied, is refused.\<close>

lemma find_unique_row:
  "unique_on key xs \<Longrightarrow> x \<in> set xs \<Longrightarrow> key x = k \<Longrightarrow> List.find (\<lambda>y. key y = k) xs = Some x"
  using find_unique by fastforce

lemma reversed_again_refused:
  assumes "reversal_inv db" and "isSnapshotReversedIn db (rvi_snapshotId i)"
  shows "recordFullReversal rid i db \<noteq> Inr x"
proof -
  obtain r where r: "r \<in> set (reversals db)" "trv_snapshotId r = rvi_snapshotId i"
    using assms(2) by (auto simp: isSnapshotReversedIn_def count_where_pos_iff)
  then have "reversal_linked db r" using assms(1) by (auto simp: reversal_inv_def)
  then obtain st where "find_settlement db (rvi_snapshotId i) = Some st" "st_state st = REVERSED"
    using r(2) by (auto simp: reversal_linked_def)
  then show ?thesis
    using recordFullReversalInTx_row[of rid i db "fst x" "snd x"] by auto
qed

section \<open>Net positions\<close>

text \<open>The claims of a sale, as obligation rows: each row of the sale is one of the derived claims.\<close>

definition obligations_match :: "'a reversal_tables_scheme \<Rightarrow> ident \<Rightarrow> transaction_economics \<Rightarrow> bool" where
  "obligations_match db sid e \<longleftrightarrow>
     (\<forall>ob\<in>set (obligations db). pob_snapshotId ob = sid \<longrightarrow>
        (pob_party ob, pob_amount ob) \<in> set (deriveProceedsClaims e))"

lemma net_zero_after_reversal:
  assumes inv: "reversal_inv db" and rev: "isSnapshotReversedIn db sid"
    and snap: "find_snapshot db sid = Some srow" "snapshotRowToRecord srow = Inr s"
    and ob: "obligations_match db sid (snap_economics s)"
    and res: "reconcileProceedsAfterReversal db sid = Inr ps" and p: "p \<in> set ps"
  shows "net_netAmount p = 0"
proof -
  obtain r where r: "r \<in> set (reversals db)" "trv_snapshotId r = sid"
    using rev by (auto simp: isSnapshotReversedIn_def count_where_pos_iff)
  have f: "find_reversal db sid = Some r"
    using find_unique_row[of trv_snapshotId "reversals db" r sid] inv r
    by (simp add: find_reversal_def reversal_inv_def)
  have l: "reversal_linked db r" using inv r(1) by (auto simp: reversal_inv_def)
  then have a: "trv_amounts r = snapshot_reversal s" and t: "TransactionReversalRecord r"
    using snap r(2) by (auto simp: reversal_linked_def)
  have "p \<in> (\<lambda>ob. let reversed = (if pob_party ob = SELLER then ra_sellerProceeds (trv_amounts r)
                else (case ra_promoterNetProceeds (trv_amounts r) of None \<Rightarrow> 0 | Some p \<Rightarrow> p))
         in \<lparr>net_party = pob_party ob, net_participantId = pob_participantId ob,
             net_obligationAmount = pob_amount ob, net_reversedAmount = reversed,
             net_netAmount = pob_amount ob - reversed\<rparr>)
       ` set (party_order (filter (\<lambda>ob. pob_snapshotId ob = sid) (obligations db)))"
    using res p t by (auto simp: reconcileProceedsAfterReversal_def getReversalForSnapshot_def f
        reversal_rowToRecord_def)
  then obtain x where x: "x \<in> set (obligations db)" "pob_snapshotId x = sid"
    and px: "net_netAmount p = pob_amount x - (if pob_party x = SELLER then ra_sellerProceeds (trv_amounts r)
                else (case ra_promoterNetProceeds (trv_amounts r) of None \<Rightarrow> 0 | Some p \<Rightarrow> p))"
    by (auto simp: party_order_def Let_def)
  have "(pob_party x, pob_amount x) \<in> set (deriveProceedsClaims (snap_economics s))"
    using ob x by (auto simp: obligations_match_def)
  then show ?thesis
    unfolding px a snapshot_reversal_def deriveFullReversalAmounts_def
    by (cases "snap_economics s") auto
qed

end
