(* ===== verification/Example_Sale.thy ===== *)
theory Example_Sale
  imports Reversal_Facts
begin

text \<open>
  A small concrete market on which the properties are exercised: one policy of 7.5 percent plus
  100 minor units, one seller-direct Listing at 10000 with a scheduled sale at 8000, and one
  promoted Listing whose accepted Offer version is wholesale 6000 with a 10 percent commission.
\<close>

definition ex_policy_row :: policy_version where
  "ex_policy_row = \<lparr>pv_seq = 0, pv_policyId = ''pol'', pv_policyVersion = ''1'', pv_status = Policy_ACTIVE,
     pv_currency = ''USD'', pv_retainedPercentageBasisPoints = 750, pv_retainedFixedAmountMinorUnits = 100,
     pv_roundingPolicy = HALF_UP_TO_MINOR_UNIT, pv_effectiveFrom = 0, pv_recordedByAccountId = ''gov'',
     pv_recordedAt = 0, pv_retiredAt = None, pv_retiredByAccountId = None,
     pv_activeForPolicyId = Some ''pol'', pv_activatedAt = Some 0, pv_activatedByAccountId = Some ''gov''\<rparr>"

definition ex_placement :: seller_direct_placement where
  "ex_placement = \<lparr>sd_retail = Some \<lparr>rp_minorUnits = 10000, rp_currency = ''USD''\<rparr>,
     sd_sale = Some \<lparr>ss_salePriceMinorUnits = 8000, ss_salePriceCurrency = ''USD'',
                     ss_saleStartsAt = 100, ss_saleEndsAt = 200\<rparr>\<rparr>"

definition ex_terms :: offer_terms where
  "ex_terms = \<lparr>ot_price = PAID 6000 ''USD'', ot_promotion = PROMOTABLE (PERCENT_OF_WHOLESALE 1000)\<rparr>"

definition ex_offer :: offer_version where
  "ex_offer = \<lparr>ov_offerSourceRecordId = ''off'', ov_sourceRecordVersion = ''1'', ov_internalOfferId = ''o1'',
     ov_internalProductId = ''prod'', ov_terms = ex_terms,
     ov_economics = \<lparr>oe_commission = 600, oe_creatorGrossProceeds = 5400,
                     oe_policyVersion = ''WHOLESALE_COMMISSION_V1''\<rparr>\<rparr>"

definition ex_dependency :: accepted_offer_dependency where
  "ex_dependency = \<lparr>aod_internalOfferId = ''o1'', aod_offerSourceRecordId = ''off'', aod_acceptedVersion = ''1'',
     aod_acceptedWholesalePriceMinorUnits = 6000, aod_acceptedWholesalePriceCurrency = ''USD'',
     aod_acceptedCommissionPolicyVersion = ''WHOLESALE_COMMISSION_V1'', aod_acceptedAt = 0\<rparr>"

definition ex_books :: reversal_tables where
  "ex_books = \<lparr>commercialPolicies = [''pol''], policyVersions = [ex_policy_row],
     listings = [\<lparr>lr_internalListingId = ''l1'', lr_listingSourceRecordId = ''ls1'', lr_currentSourceRecordVersion = ''1''\<rparr>,
                 \<lparr>lr_internalListingId = ''l2'', lr_listingSourceRecordId = ''ls2'', lr_currentSourceRecordVersion = ''1''\<rparr>],
     listingVersions =
       [\<lparr>lv_listingSourceRecordId = ''ls1'', lv_sourceRecordVersion = ''1'', lv_internalProductId = ''prod'',
         lv_controllingParticipantId = ''sell'', lv_placement = SellerDirectPlacement ex_placement\<rparr>,
        \<lparr>lv_listingSourceRecordId = ''ls2'', lv_sourceRecordVersion = ''1'', lv_internalProductId = ''prod'',
         lv_controllingParticipantId = ''prom'',
         lv_placement = PromotedPlacement \<lparr>rp_minorUnits = 10000, rp_currency = ''USD''\<rparr> ex_dependency
                          ACCEPTED_CURRENT_VERSION\<rparr>],
     offerVersions = [ex_offer], promotionAcceptances = [], promotionAuthorizations = [],
     snapshots = [], settlements = [], obligations = [], recoveries = [], reversals = []\<rparr>"

definition ex_sale :: "ident \<Rightarrow> instant \<Rightarrow> snapshot_input" where
  "ex_sale lid at = \<lparr>sni_internalListingId = lid, sni_listingSourceRecordVersion = ''1'', sni_policyId = ''pol'',
     sni_policyVersion = ''1'', sni_currency = ''USD'', sni_tax = 500, sni_shipping = 300, sni_other = 0,
     sni_occurredAt = at, sni_recordedAt = at, sni_promotedBinding = None\<rparr>"

fun after :: "('s \<times> 'r) res \<Rightarrow> 's \<Rightarrow> 's" where
  "after (Inr (s, _)) d = s" | "after (Inl _) d = d"

fun result :: "('s \<times> 'r) res \<Rightarrow> 'r option" where
  "result (Inr (_, r)) = Some r" | "result (Inl _) = None"

lemma is_ok_after: "is_ok r \<Longrightarrow> \<exists>v. r = Inr (after r d, v)"
  by (cases r) auto

definition ex_sold :: reversal_tables where
  "ex_sold = after (recordTransactionEconomicSnapshotInTx ''s1'' (ex_sale ''l1'' 150) ex_books) ex_books"

definition ex_bound :: reversal_tables where
  "ex_bound = ex_sold\<lparr>snapshots := map (\<lambda>r. r\<lparr>sr_orderId := Some ''ord''\<rparr>) (snapshots ex_sold)\<rparr>"

definition ex_reverse :: reversal_input where
  "ex_reverse = \<lparr>rvi_snapshotId = ''s1'', rvi_kind = Kind_REFUND, rvi_reasonCode = BUYER_REQUESTED,
     rvi_provider = Some ''STRIPE'', rvi_providerReversalRef = Some ''re_1'', rvi_occurredAt = 300, rvi_recordedAt = 300\<rparr>"

lemma ex_sold_ok: "is_ok (recordTransactionEconomicSnapshotInTx ''s1'' (ex_sale ''l1'' 150) ex_books)"
  by code_simp

lemma ex_promoted_ok: "is_ok (recordTransactionEconomicSnapshotInTx ''s2'' (ex_sale ''l2'' 150) ex_books)"
  by code_simp

lemma ex_reverse_ok: "is_ok (recordFullReversal ''rv1'' ex_reverse ex_bound)"
  by code_simp

end
