(* ===== verification/Seller_Refund_Policy.thy ===== *)
theory Seller_Refund_Policy
  imports Reversal_Facts
begin

text \<open>
  The seller's refund terms: \<open>src/contracts/marketplace/seller-refund-policy.ts\<close> and
  \<open>src/server/marketplace/seller-refund-policy-service.ts\<close>.  A version is recorded as a draft
  whose document agrees with its terms, is activated by its owner, and is read back only while
  its content still hashes to the hash it was recorded with.  The hash (SHA-256 over canonical
  JSON) is the argument \<open>canonicalHash\<close> of the operations.
\<close>

section \<open>Terms and document\<close>

datatype refund_reason =
    CUSTOMER_REQUEST | PRODUCT_FAILURE | DUPLICATE_PAYMENT | FRAUD_OR_RISK
  | OPERATOR_CORRECTION | OTHER_GOVERNED_REASON

datatype refund_condition =
    ANY_REASON | DEFECTIVE_OR_DAMAGED | NOT_AS_DESCRIBED | UNUSED_AND_UNOPENED
  | DIGITAL_NOT_ACCESSED | NOT_DELIVERED | SELLER_CANCELLED

datatype shipping_refundability = ALWAYS_REFUNDED | NEVER_REFUNDED | REFUNDED_WHEN_SELLER_AT_FAULT

definition SELLER_FAULT_REFUND_REASONS :: "refund_reason list" where
  "SELLER_FAULT_REFUND_REASONS = [PRODUCT_FAILURE, DUPLICATE_PAYMENT, OPERATOR_CORRECTION]"

datatype refund_procedure = CONTACT_SELLER_SUPPORT | MONACADO_MEDIATED

record refund_terms =
  rt_refundsAllowed :: bool
  rt_eligibilityConditions :: "refund_condition list"
  rt_refundWindowDays :: "int option"
  rt_shippingRefundability :: shipping_refundability
  rt_procedureKind :: refund_procedure

definition SellerRefundTerms :: "refund_terms \<Rightarrow> bool" where
  "SellerRefundTerms t = (length (rt_eligibilityConditions t) \<le> 7 \<and>
     (case rt_refundWindowDays t of None \<Rightarrow> True | Some d \<Rightarrow> 1 \<le> d \<and> d \<le> 3650))"

datatype section_key = SUMMARY | ELIGIBILITY | WINDOW | SHIPPING | PROCEDURE | ADDITIONAL_TERMS

definition REQUIRED_SELLER_REFUND_POLICY_SECTIONS :: "section_key list" where
  "REQUIRED_SELLER_REFUND_POLICY_SECTIONS = [SUMMARY, PROCEDURE]"

record policy_section =
  sec_key :: section_key
  sec_heading :: string
  sec_body :: string

definition SellerRefundPolicySection :: "policy_section \<Rightarrow> bool" where
  "SellerRefundPolicySection s = (1 \<le> length (sec_heading s) \<and> length (sec_heading s) \<le> 200 \<and>
     1 \<le> length (sec_body s) \<and> length (sec_body s) \<le> 4000)"

record policy_document =
  doc_title :: string
  doc_sections :: "policy_section list"

definition SellerRefundPolicyDocument :: "policy_document \<Rightarrow> bool" where
  "SellerRefundPolicyDocument d = (1 \<le> length (doc_title d) \<and> length (doc_title d) \<le> 200 \<and>
     1 \<le> length (doc_sections d) \<and> length (doc_sections d) \<le> 6 \<and>
     list_all SellerRefundPolicySection (doc_sections d))"

definition selectSellerRefundSection :: "policy_document \<Rightarrow> section_key \<Rightarrow> policy_section option" where
  "selectSellerRefundSection d k = List.find (\<lambda>s. sec_key s = k) (doc_sections d)"

datatype refund_policy_issue =
    missing_section section_key
  | eligibility_conditions_required
  | eligibility_conditions_unexpected
  | refund_window_unexpected
  | duplicate_section section_key

fun duplicate_sections :: "section_key list \<Rightarrow> policy_section list \<Rightarrow> refund_policy_issue list" where
  "duplicate_sections seen [] = []"
| "duplicate_sections seen (s # ss) =
     (if sec_key s \<in> set seen then [duplicate_section (sec_key s)] else []) @
     duplicate_sections (sec_key s # seen) ss"

definition missing :: "policy_document \<Rightarrow> section_key \<Rightarrow> refund_policy_issue list" where
  "missing d k = (if selectSellerRefundSection d k = None then [missing_section k] else [])"

definition sellerRefundPolicyIssues :: "refund_terms \<Rightarrow> policy_document \<Rightarrow> refund_policy_issue list" where
  "sellerRefundPolicyIssues t d =
     concat (map (missing d) REQUIRED_SELLER_REFUND_POLICY_SECTIONS) @
     (if rt_refundsAllowed t \<and> rt_eligibilityConditions t = [] then [eligibility_conditions_required] else []) @
     (if \<not> rt_refundsAllowed t \<and> rt_eligibilityConditions t \<noteq> [] then [eligibility_conditions_unexpected] else []) @
     (if \<not> rt_refundsAllowed t \<and> rt_refundWindowDays t \<noteq> None then [refund_window_unexpected] else []) @
     (if rt_refundWindowDays t \<noteq> None then missing d WINDOW else []) @
     missing d SHIPPING @
     duplicate_sections [] (doc_sections d)"

definition documentAgreesWithTerms :: "refund_terms \<Rightarrow> policy_document \<Rightarrow> bool" where
  "documentAgreesWithTerms t d = (length (sellerRefundPolicyIssues t d) = 0)"

lemma duplicate_sections_none:
  "duplicate_sections seen ss = [] \<longleftrightarrow>
     distinct (map sec_key ss) \<and> (\<forall>s\<in>set ss. sec_key s \<notin> set seen)"
  by (induction ss arbitrary: seen) (auto simp: image_iff)

lemma missing_none: "missing d k = [] \<longleftrightarrow> k \<in> sec_key ` set (doc_sections d)"
  by (auto simp: missing_def selectSellerRefundSection_def find_None_iff)

lemma documentAgreesWithTerms_iff:
  "documentAgreesWithTerms t d \<longleftrightarrow>
     {SUMMARY, PROCEDURE, SHIPPING} \<subseteq> sec_key ` set (doc_sections d) \<and>
     (rt_refundWindowDays t \<noteq> None \<longrightarrow> WINDOW \<in> sec_key ` set (doc_sections d)) \<and>
     distinct (map sec_key (doc_sections d)) \<and>
     (rt_refundsAllowed t \<longleftrightarrow> rt_eligibilityConditions t \<noteq> []) \<and>
     (rt_refundWindowDays t \<noteq> None \<longrightarrow> rt_refundsAllowed t)"
  unfolding documentAgreesWithTerms_def sellerRefundPolicyIssues_def
  by (auto simp: missing_none duplicate_sections_none REQUIRED_SELLER_REFUND_POLICY_SECTIONS_def)

section \<open>Decisions\<close>

definition refundWindowIsOpen :: "int option \<Rightarrow> instant \<Rightarrow> instant \<Rightarrow> bool" where
  "refundWindowIsOpen days paidAt at =
     (case days of None \<Rightarrow> True | Some n \<Rightarrow> at \<le> paidAt + n * 24 * 60 * 60 * 1000)"

fun shippingIsRefundable :: "shipping_refundability \<Rightarrow> refund_reason \<Rightarrow> bool" where
  "shippingIsRefundable ALWAYS_REFUNDED reason = True"
| "shippingIsRefundable NEVER_REFUNDED reason = False"
| "shippingIsRefundable REFUNDED_WHEN_SELLER_AT_FAULT reason = (reason \<in> set SELLER_FAULT_REFUND_REASONS)"

lemma refundWindow_antimono:
  "refundWindowIsOpen days paidAt at \<Longrightarrow> at' \<le> at \<Longrightarrow> refundWindowIsOpen days paidAt at'"
  by (auto simp: refundWindowIsOpen_def split: option.splits)

section \<open>Stored form of the conditions\<close>

text \<open>\<open>join(",")\<close> and \<open>split(",")\<close> of the standard library, and the enum's member names.\<close>

fun join_on :: "char \<Rightarrow> string list \<Rightarrow> string" where
  "join_on c [] = []"
| "join_on c [x] = x"
| "join_on c (x # y # ys) = x @ c # join_on c (y # ys)"

fun split_acc :: "char \<Rightarrow> string \<Rightarrow> string \<Rightarrow> string list" where
  "split_acc c acc [] = [rev acc]"
| "split_acc c acc (x # xs) = (if x = c then rev acc # split_acc c [] xs else split_acc c (x # acc) xs)"

definition split_on :: "char \<Rightarrow> string \<Rightarrow> string list" where
  "split_on c s = split_acc c [] s"

lemma split_acc_append: "c \<notin> set x \<Longrightarrow> split_acc c acc (x @ ys) = split_acc c (rev x @ acc) ys"
  by (induction x arbitrary: acc) auto

lemma split_join:
  assumes "xs \<noteq> []" and "\<forall>x\<in>set xs. c \<notin> set x"
  shows "split_on c (join_on c xs) = xs"
proof -
  have "split_acc c [] (join_on c xs) = xs"
    using assms
  proof (induction xs rule: join_on.induct)
    case (2 c x)
    then show ?case using split_acc_append[of c x "[]" "[]"] by simp
  next
    case (3 c x y ys)
    then show ?case using split_acc_append[of c x "[]"] by simp
  qed simp
  then show ?thesis by (simp add: split_on_def)
qed

fun condition_name :: "refund_condition \<Rightarrow> string" where
  "condition_name ANY_REASON = ''ANY_REASON''"
| "condition_name DEFECTIVE_OR_DAMAGED = ''DEFECTIVE_OR_DAMAGED''"
| "condition_name NOT_AS_DESCRIBED = ''NOT_AS_DESCRIBED''"
| "condition_name UNUSED_AND_UNOPENED = ''UNUSED_AND_UNOPENED''"
| "condition_name DIGITAL_NOT_ACCESSED = ''DIGITAL_NOT_ACCESSED''"
| "condition_name NOT_DELIVERED = ''NOT_DELIVERED''"
| "condition_name SELLER_CANCELLED = ''SELLER_CANCELLED''"

definition REFUND_ELIGIBILITY_CONDITIONS :: "refund_condition list" where
  "REFUND_ELIGIBILITY_CONDITIONS = [ANY_REASON, DEFECTIVE_OR_DAMAGED, NOT_AS_DESCRIBED,
     UNUSED_AND_UNOPENED, DIGITAL_NOT_ACCESSED, NOT_DELIVERED, SELLER_CANCELLED]"

definition parse_condition :: "string \<Rightarrow> refund_condition option" where
  "parse_condition s = List.find (\<lambda>c. condition_name c = s) REFUND_ELIGIBILITY_CONDITIONS"

fun parse_all :: "('a \<Rightarrow> 'b option) \<Rightarrow> 'a list \<Rightarrow> 'b list option" where
  "parse_all f [] = Some []"
| "parse_all f (x # xs) =
     (case f x of None \<Rightarrow> None | Some y \<Rightarrow> map_option (\<lambda>ys. y # ys) (parse_all f xs))"

definition store_conditions :: "refund_condition list \<Rightarrow> string" where
  "store_conditions cs = join_on (CHR '','') (map condition_name cs)"

definition load_conditions :: "string \<Rightarrow> refund_condition list option" where
  "load_conditions s = (if s = [] then Some []
     else parse_all parse_condition (split_on (CHR '','') s))"

lemma parse_condition_name [simp]: "parse_condition (condition_name c) = Some c"
  by (cases c) (simp_all add: parse_condition_def REFUND_ELIGIBILITY_CONDITIONS_def)

lemma condition_name_no_comma: "CHR '','' \<notin> set (condition_name c)"
  by (cases c) simp_all

lemma condition_name_nonempty: "condition_name c \<noteq> []"
  by (cases c) simp_all

lemma parse_all_names: "parse_all parse_condition (map condition_name cs) = Some cs"
  by (induction cs) simp_all

lemma join_on_nonempty: "xs \<noteq> [] \<Longrightarrow> hd xs \<noteq> [] \<Longrightarrow> join_on c xs \<noteq> []"
  by (induction xs rule: join_on.induct) auto

lemma conditions_roundtrip: "load_conditions (store_conditions cs) = Some cs"
proof (cases cs)
  case Nil
  then show ?thesis by (simp add: load_conditions_def store_conditions_def)
next
  case (Cons x xs)
  then have "split_on (CHR '','') (store_conditions cs) = map condition_name cs"
    unfolding store_conditions_def by (intro split_join) (auto simp: condition_name_no_comma)
  moreover have "store_conditions cs \<noteq> []"
    unfolding store_conditions_def using Cons condition_name_nonempty[of x]
    by (intro join_on_nonempty) auto
  ultimately show ?thesis using parse_all_names by (simp add: load_conditions_def)
qed

end
