(* ===== verification/Internal_Authorization.thy ===== *)
theory Internal_Authorization
  imports Reversal_Facts
begin

text \<open>
  Accounts, the capabilities Monacado's own staff are granted, and the decision each privileged
  operation takes from them: \<open>src/contracts/account/account.ts\<close>,
  \<open>src/contracts/account/internal-authorization.ts\<close>,
  \<open>src/server/account/account-entitlement-service.ts\<close> and
  \<open>src/server/account/internal-authorization-service.ts\<close>.  A capability is the string the
  entitlement row carries; the vocabulary is the list \<open>ACCOUNT_CAPABILITIES\<close>.
\<close>

section \<open>The vocabulary\<close>

definition ACCOUNT_CAPABILITIES :: "string list" where
  "ACCOUNT_CAPABILITIES = [''publication-worker:status:read'', ''activation:review'', ''participant:restrict'',
     ''participant:commerce-approve'', ''participant:risk-review'', ''participant:suspend'', ''refund:initiate'',
     ''dispute:evidence:approve'', ''commercial-policy:govern'', ''risk-policy:govern'',
     ''marketplace-policy:govern'', ''product:suspend'', ''product:tax-classify'', ''entitlement:govern'']"

definition AccountCapability :: "string \<Rightarrow> bool" where
  "AccountCapability c = (c \<in> set ACCOUNT_CAPABILITIES)"

definition ENTITLEMENT_GOVERN_CAPABILITY :: string where
  "ENTITLEMENT_GOVERN_CAPABILITY = ''entitlement:govern''"

section \<open>State\<close>

datatype account_status = Account_ACTIVE | Account_DISABLED

record acting_account =
  acc_id :: ident
  acc_status :: account_status
  acc_emailVerifiedAt :: "instant option"
  acc_emailVerifiedVia :: "string option"

datatype entitlement_status = Entitlement_ACTIVE | Entitlement_REVOKED

record entitlement =
  ent_id :: ident
  ent_accountId :: ident
  ent_capability :: string
  ent_status :: entitlement_status
  ent_grantedAt :: instant
  ent_revokedAt :: "instant option"

datatype act_action = Act_GRANT | Act_REVOKE
datatype act_basis = GOVERNED | BOOTSTRAP_FIRST_GRANT

record entitlement_act =
  act_id :: ident
  act_accountId :: ident
  act_capability :: string
  act_action :: act_action
  act_basis :: act_basis
  act_actorAccountId :: "ident option"
  act_firstGrantForCapability :: "string option"
  act_actedAt :: instant

record account_tables = reversal_tables +
  actingAccounts :: "acting_account list"
  entitlements :: "entitlement list"
  entitlementActs :: "entitlement_act list"

definition find_account :: "'a account_tables_scheme \<Rightarrow> ident \<Rightarrow> acting_account option" where
  "find_account db accountId = List.find (\<lambda>a. acc_id a = accountId) (actingAccounts db)"

section \<open>What an account holds\<close>

definition holds :: "entitlement list \<Rightarrow> ident \<Rightarrow> string \<Rightarrow> bool" where
  "holds es accountId capability = list_ex (\<lambda>e. ent_accountId e = accountId \<and> ent_capability e = capability \<and>
     ent_status e = Entitlement_ACTIVE) es"

definition hasActiveEntitlement :: "'a account_tables_scheme \<Rightarrow> ident \<Rightarrow> string \<Rightarrow> bool" where
  "hasActiveEntitlement db accountId capability =
     (AccountCapability capability \<and> accountId \<noteq> '''' \<and> holds (entitlements db) accountId capability)"

text \<open>The list is sorted by the database; it is only ever tested for membership.\<close>

definition listAccountCapabilities :: "'a account_tables_scheme \<Rightarrow> ident \<Rightarrow> string list" where
  "listAccountCapabilities db accountId =
     uniq (filter AccountCapability (map ent_capability
       (filter (\<lambda>e. ent_accountId e = accountId \<and> ent_status e = Entitlement_ACTIVE) (entitlements db))))"

section \<open>Decisions\<close>

datatype authorization_reason =
    INTERNAL_ACCOUNT_REQUIRED | INTERNAL_ACCOUNT_DISABLED | INTERNAL_CAPABILITY_NOT_GRANTED

record internal_subject =
  sub_accountId :: ident
  sub_accountStatus :: account_status
  sub_capabilities :: "string list"

record authorization_decision =
  ad_capability :: string
  ad_allow :: bool
  ad_reasonCodes :: "authorization_reason list"

definition resolveInternalAuthorizationSubject :: "'a account_tables_scheme \<Rightarrow> ident \<Rightarrow> internal_subject option" where
  "resolveInternalAuthorizationSubject db accountId =
     (case find_account db accountId of None \<Rightarrow> None
      | Some a \<Rightarrow> Some \<lparr>sub_accountId = acc_id a, sub_accountStatus = acc_status a,
                       sub_capabilities = listAccountCapabilities db accountId\<rparr>)"

definition evaluateInternalCapability :: "string \<Rightarrow> internal_subject option \<Rightarrow> authorization_decision" where
  "evaluateInternalCapability capability subject =
     (case subject of
        None \<Rightarrow> \<lparr>ad_capability = capability, ad_allow = False, ad_reasonCodes = [INTERNAL_ACCOUNT_REQUIRED]\<rparr>
      | Some s \<Rightarrow>
          if sub_accountStatus s \<noteq> Account_ACTIVE
          then \<lparr>ad_capability = capability, ad_allow = False, ad_reasonCodes = [INTERNAL_ACCOUNT_DISABLED]\<rparr>
          else if capability \<notin> set (sub_capabilities s)
          then \<lparr>ad_capability = capability, ad_allow = False, ad_reasonCodes = [INTERNAL_CAPABILITY_NOT_GRANTED]\<rparr>
          else \<lparr>ad_capability = capability, ad_allow = True, ad_reasonCodes = []\<rparr>)"

definition isInternallyAuthorized :: "authorization_decision \<Rightarrow> bool" where
  "isInternallyAuthorized d = ad_allow d"

definition canRestrictParticipant :: "internal_subject option \<Rightarrow> authorization_decision" where
  "canRestrictParticipant = evaluateInternalCapability ''participant:restrict''"

definition canSuspendParticipant :: "internal_subject option \<Rightarrow> authorization_decision" where
  "canSuspendParticipant = evaluateInternalCapability ''participant:suspend''"

definition canGovernCommercialPolicy :: "internal_subject option \<Rightarrow> authorization_decision" where
  "canGovernCommercialPolicy = evaluateInternalCapability ''commercial-policy:govern''"

definition canGovernEntitlements :: "internal_subject option \<Rightarrow> authorization_decision" where
  "canGovernEntitlements = evaluateInternalCapability ENTITLEMENT_GOVERN_CAPABILITY"

lemma listAccountCapabilities_iff:
  "c \<in> set (listAccountCapabilities db a) \<longleftrightarrow> AccountCapability c \<and> holds (entitlements db) a c"
  by (auto simp: listAccountCapabilities_def holds_def list_ex_iff)

text \<open>An operation is allowed exactly to an enabled account with a live grant of a known capability.\<close>

lemma authorized_iff:
  "isInternallyAuthorized (evaluateInternalCapability c (resolveInternalAuthorizationSubject db a)) \<longleftrightarrow>
     (\<exists>x. find_account db a = Some x \<and> acc_status x = Account_ACTIVE) \<and> AccountCapability c \<and> holds (entitlements db) a c"
  by (auto simp: isInternallyAuthorized_def evaluateInternalCapability_def resolveInternalAuthorizationSubject_def
      listAccountCapabilities_iff split: option.split)

end
