(* ===== verification/Marketplace_Name.thy ===== *)
theory Marketplace_Name
  imports Mon_Prelude
begin

text \<open>
  The public names of participants: \<open>src/contracts/marketplace/marketplace-name.ts\<close> and the
  allocation of \<open>src/server/marketplace/marketplace-name-service.ts\<close>.  A name mixes digits and
  letters of a fixed alphabet; its length grows with the number of names issued, so that at most a
  quarter of the names of a length are taken before the next length is used.

  The source compares the number issued with a quarter of the capacity in floating point; the model
  compares the exact integers, which is the same for every length up to 10 (capacities below
  \<open>2 ^ 53\<close>), that is until some 147 million million names are issued.
\<close>

section \<open>The contract\<close>

definition MARKETPLACE_NAME_DIGITS :: string where "MARKETPLACE_NAME_DIGITS = ''23456789''"
definition MARKETPLACE_NAME_LETTERS :: string where "MARKETPLACE_NAME_LETTERS = ''abcdefghjkmnpqrstvwxyz''"
definition MARKETPLACE_NAME_ALPHABET :: string where
  "MARKETPLACE_NAME_ALPHABET = MARKETPLACE_NAME_DIGITS @ MARKETPLACE_NAME_LETTERS"

definition MARKETPLACE_NAME_MIN_LENGTH :: nat where "MARKETPLACE_NAME_MIN_LENGTH = 4"
definition MARKETPLACE_NAME_MAX_LENGTH :: nat where "MARKETPLACE_NAME_MAX_LENGTH = 16"

text \<open>\<open>MARKETPLACE_NAME_RE\<close>: two look-aheads for a digit and a letter, and the alphabet between the
  length bounds.\<close>

definition isMarketplaceName :: "string \<Rightarrow> bool" where
  "isMarketplaceName s =
     (list_ex (\<lambda>c. c \<in> set MARKETPLACE_NAME_DIGITS) s \<and> list_ex (\<lambda>c. c \<in> set MARKETPLACE_NAME_LETTERS) s \<and>
      list_all (\<lambda>c. c \<in> set MARKETPLACE_NAME_ALPHABET) s \<and>
      MARKETPLACE_NAME_MIN_LENGTH \<le> length s \<and> length s \<le> MARKETPLACE_NAME_MAX_LENGTH)"

definition marketplaceNameCapacity :: "nat \<Rightarrow> int" where
  "marketplaceNameCapacity n =
     int (length MARKETPLACE_NAME_ALPHABET) ^ n - int (length MARKETPLACE_NAME_LETTERS) ^ n -
     int (length MARKETPLACE_NAME_DIGITS) ^ n"

text \<open>The \<open>while\<close> loop of \<open>marketplaceNameStageLength\<close>, from a current length.\<close>

function stage_from :: "nat \<Rightarrow> nat \<Rightarrow> nat" where
  "stage_from issued n =
     (if n < MARKETPLACE_NAME_MAX_LENGTH \<and> 4 * int issued \<ge> marketplaceNameCapacity n
      then stage_from issued (n + 1) else n)"
  by pat_completeness auto
termination by (relation "measure (\<lambda>(_, n). MARKETPLACE_NAME_MAX_LENGTH - n)") auto

declare stage_from.simps [simp del]

definition marketplaceNameStageLength :: "nat \<Rightarrow> nat" where
  "marketplaceNameStageLength issued = stage_from issued MARKETPLACE_NAME_MIN_LENGTH"

section \<open>Allocation\<close>

definition MARKETPLACE_NAME_DRAWS_PER_LENGTH :: nat where "MARKETPLACE_NAME_DRAWS_PER_LENGTH = 12"

text \<open>One length: draw up to twelve candidates.  The provider is a parameter: the candidate it
  returns at a length for a draw.  A malformed candidate fails the allocation; a taken one is
  drawn again; \<open>Inr None\<close> is that every draw was taken.\<close>

fun draw_names :: "(nat \<Rightarrow> nat \<Rightarrow> string) \<Rightarrow> (string \<Rightarrow> bool) \<Rightarrow> nat \<Rightarrow> nat \<Rightarrow> nat \<Rightarrow> string option res" where
  "draw_names next taken len draw 0 = Inr None"
| "draw_names next taken len draw (Suc left) =
     (let candidate = next len draw in
      if length candidate \<noteq> len \<or> \<not> isMarketplaceName candidate
      then Inl (ParticipantError ''PARTICIPANT_PERSISTENCE_FAILURE'')
      else if taken candidate then draw_names next taken len (draw + 1) left
      else Inr (Some candidate))"

definition allocateMarketplaceNameIn ::
  "(nat \<Rightarrow> nat \<Rightarrow> string) \<Rightarrow> string option list \<Rightarrow> string res" where
  "allocateMarketplaceNameIn next names =
     (let issued = count_where (\<lambda>n. n \<noteq> None) names;
          taken = (\<lambda>c. Some c \<in> set names);
          stage = marketplaceNameStageLength issued in
      chain (draw_names next taken stage 0 MARKETPLACE_NAME_DRAWS_PER_LENGTH) (\<lambda>a.
      case a of Some c \<Rightarrow> Inr c
      | None \<Rightarrow>
          chain (draw_names next taken (min (stage + 1) MARKETPLACE_NAME_MAX_LENGTH) MARKETPLACE_NAME_DRAWS_PER_LENGTH
                   MARKETPLACE_NAME_DRAWS_PER_LENGTH) (\<lambda>b.
          case b of Some c \<Rightarrow> Inr c | None \<Rightarrow> Inl (ParticipantError ''PARTICIPANT_PERSISTENCE_FAILURE''))))"

section \<open>Facts\<close>

lemma draw_names_Some:
  assumes "draw_names next taken len draw left = Inr (Some c)"
  shows "isMarketplaceName c" and "length c = len" and "\<not> taken c"
  using assms by (induction left arbitrary: draw) (auto simp: Let_def split: if_splits)

lemma allocated_name:
  assumes "allocateMarketplaceNameIn next names = Inr c"
  shows "isMarketplaceName c" and "Some c \<notin> set names"
  using assms by (auto simp: allocateMarketplaceNameIn_def Let_def chain_Inr_iff dest: draw_names_Some split: option.splits)

lemma stage_from_bounds:
  assumes "n \<le> MARKETPLACE_NAME_MAX_LENGTH"
  shows "n \<le> stage_from issued n \<and> stage_from issued n \<le> MARKETPLACE_NAME_MAX_LENGTH \<and>
    (stage_from issued n < MARKETPLACE_NAME_MAX_LENGTH \<longrightarrow> 4 * int issued < marketplaceNameCapacity (stage_from issued n))"
  using assms
proof (induction issued n rule: stage_from.induct)
  case (1 issued n)
  show ?case
  proof (cases "n < MARKETPLACE_NAME_MAX_LENGTH \<and> 4 * int issued \<ge> marketplaceNameCapacity n")
    case True
    then show ?thesis using 1 by (auto simp: stage_from.simps[of issued n])
  next
    case False
    then show ?thesis using 1(2) by (auto simp: stage_from.simps[of issued n])
  qed
qed

text \<open>Counting.  The words of a length over an alphabet, without the all-letter and all-digit ones.\<close>

definition words :: "string \<Rightarrow> nat \<Rightarrow> string set" where
  "words alphabet n = {s. set s \<subseteq> set alphabet \<and> length s = n}"

lemma card_words: "distinct alphabet \<Longrightarrow> card (words alphabet n) = length alphabet ^ n"
  by (simp add: words_def card_lists_length_eq distinct_card)

lemma finite_words: "finite (words alphabet n)"
  by (simp add: words_def finite_lists_length_eq)

lemma name_alphabet:
  "distinct MARKETPLACE_NAME_ALPHABET" "distinct MARKETPLACE_NAME_DIGITS" "distinct MARKETPLACE_NAME_LETTERS"
  "set MARKETPLACE_NAME_DIGITS \<inter> set MARKETPLACE_NAME_LETTERS = {}"
  by (simp_all add: MARKETPLACE_NAME_ALPHABET_def MARKETPLACE_NAME_DIGITS_def MARKETPLACE_NAME_LETTERS_def)

lemma names_of_length:
  assumes "MARKETPLACE_NAME_MIN_LENGTH \<le> n" and "n \<le> MARKETPLACE_NAME_MAX_LENGTH"
  shows "{s. isMarketplaceName s \<and> length s = n} =
    words MARKETPLACE_NAME_ALPHABET n - (words MARKETPLACE_NAME_LETTERS n \<union> words MARKETPLACE_NAME_DIGITS n)"
  using assms name_alphabet(4)
  by (auto simp: isMarketplaceName_def words_def list_ex_iff list_all_iff MARKETPLACE_NAME_ALPHABET_def)

lemma names_counted:
  assumes "MARKETPLACE_NAME_MIN_LENGTH \<le> n" and "n \<le> MARKETPLACE_NAME_MAX_LENGTH"
  shows "int (card {s. isMarketplaceName s \<and> length s = n}) = marketplaceNameCapacity n"
proof -
  let ?A = "words MARKETPLACE_NAME_ALPHABET n"
  let ?L = "words MARKETPLACE_NAME_LETTERS n"
  let ?D = "words MARKETPLACE_NAME_DIGITS n"
  have n: "n > 0" using assms(1) by (simp add: MARKETPLACE_NAME_MIN_LENGTH_def)
  have disj: "?L \<inter> ?D = {}"
  proof -
    have "s \<notin> ?D" if "s \<in> ?L" for s
      using that n name_alphabet(4) by (cases s) (auto simp: words_def)
    then show ?thesis by blast
  qed
  have sub: "?L \<union> ?D \<subseteq> ?A" by (auto simp: words_def MARKETPLACE_NAME_ALPHABET_def)
  have c: "card (?L \<union> ?D) = card ?L + card ?D"
    by (rule card_Un_disjoint) (simp_all add: finite_words disj)
  have "card (?A - (?L \<union> ?D)) = card ?A - card (?L \<union> ?D)"
    by (rule card_Diff_subset) (use sub finite_words finite_subset in \<open>auto\<close>)
  moreover have "card (?L \<union> ?D) \<le> card ?A" by (rule card_mono[OF finite_words sub])
  ultimately have "int (card (?A - (?L \<union> ?D))) = int (card ?A) - int (card ?L) - int (card ?D)"
    unfolding c by linarith
  then show ?thesis
    unfolding names_of_length[OF assms] marketplaceNameCapacity_def by (simp add: card_words name_alphabet)
qed

end
