(* ===== verification/Participant.thy ===== *)
theory Participant
  imports Internal_Authorization Marketplace_Name
begin

text \<open>
  Participants and the vocabularies of what may be decided about them:
  \<open>src/contracts/marketplace/participant.ts\<close>, \<open>lifecycle.ts\<close>, \<open>participant-restriction.ts\<close>,
  \<open>participant-mitigation.ts\<close>, \<open>participant-closure.ts\<close>, \<open>restriction-enforcement.ts\<close> and
  \<open>activation-review.ts\<close>.  Pure decisions and the rows they are about; the services are in
  \<open>Participation\<close>.
\<close>

section \<open>Status\<close>

datatype participant_status =
    Part_DRAFT | PROFILE_INCOMPLETE | PROFILE_COMPLETE | UNDER_REVIEW | Part_ACTIVE | RESTRICTED | SUSPENDED | Part_CLOSED

fun PARTICIPANT_STATUS_TRANSITIONS :: "participant_status \<Rightarrow> participant_status list" where
  "PARTICIPANT_STATUS_TRANSITIONS Part_DRAFT = [PROFILE_INCOMPLETE, Part_CLOSED]"
| "PARTICIPANT_STATUS_TRANSITIONS PROFILE_INCOMPLETE = [PROFILE_COMPLETE, Part_CLOSED]"
| "PARTICIPANT_STATUS_TRANSITIONS PROFILE_COMPLETE = [PROFILE_INCOMPLETE, UNDER_REVIEW, Part_CLOSED]"
| "PARTICIPANT_STATUS_TRANSITIONS UNDER_REVIEW = [Part_ACTIVE, PROFILE_INCOMPLETE, RESTRICTED, SUSPENDED, Part_CLOSED]"
| "PARTICIPANT_STATUS_TRANSITIONS Part_ACTIVE = [RESTRICTED, SUSPENDED, Part_CLOSED]"
| "PARTICIPANT_STATUS_TRANSITIONS RESTRICTED = [Part_ACTIVE, SUSPENDED, Part_CLOSED]"
| "PARTICIPANT_STATUS_TRANSITIONS SUSPENDED = [Part_ACTIVE, RESTRICTED, Part_CLOSED]"
| "PARTICIPANT_STATUS_TRANSITIONS Part_CLOSED = []"

definition isValidParticipantTransition :: "participant_status \<Rightarrow> participant_status \<Rightarrow> bool" where
  "isValidParticipantTransition s t = (t \<in> set (PARTICIPANT_STATUS_TRANSITIONS s))"

definition isTerminalParticipantStatus :: "participant_status \<Rightarrow> bool" where
  "isTerminalParticipantStatus s = (s = Part_CLOSED)"

interpretation participant_lifecycle: transition_table PARTICIPANT_STATUS_TRANSITIONS isTerminalParticipantStatus
proof
  show "isTerminalParticipantStatus s = (PARTICIPANT_STATUS_TRANSITIONS s = [])" for s
    by (cases s) (simp_all add: isTerminalParticipantStatus_def)
qed

definition permitsClosure :: "participant_status \<Rightarrow> bool" where
  "permitsClosure s = (s \<noteq> Part_CLOSED)"

definition isAdmittedParticipantStatus :: "participant_status \<Rightarrow> bool" where
  "isAdmittedParticipantStatus s = (s \<in> {Part_ACTIVE, RESTRICTED})"

definition isDraftWritableParticipantStatus :: "participant_status \<Rightarrow> bool" where
  "isDraftWritableParticipantStatus s = (s \<in> {Part_DRAFT, PROFILE_INCOMPLETE, PROFILE_COMPLETE})"

definition isActivationPhaseWritableParticipantStatus :: "participant_status \<Rightarrow> bool" where
  "isActivationPhaseWritableParticipantStatus s =
     (s \<in> {Part_DRAFT, PROFILE_INCOMPLETE, PROFILE_COMPLETE, UNDER_REVIEW, Part_ACTIVE, Part_CLOSED})"

definition requiresRestrictionScope :: "participant_status \<Rightarrow> bool" where
  "requiresRestrictionScope s = (s \<in> {RESTRICTED, SUSPENDED})"

section \<open>Roles\<close>

datatype marketplace_role = Role_SELLER | Role_PROMOTER | Role_BUYER

definition isActivatableRole :: "marketplace_role \<Rightarrow> bool" where
  "isActivatableRole r = (r \<in> {Role_SELLER, Role_PROMOTER})"

datatype role_status = RoleSt_DRAFT | PENDING_ACTIVATION | RoleSt_ACTIVE | RoleSt_SUSPENDED | RoleSt_REVOKED

fun ROLE_ASSIGNMENT_TRANSITIONS :: "role_status \<Rightarrow> role_status list" where
  "ROLE_ASSIGNMENT_TRANSITIONS RoleSt_DRAFT = [PENDING_ACTIVATION, RoleSt_REVOKED]"
| "ROLE_ASSIGNMENT_TRANSITIONS PENDING_ACTIVATION = [RoleSt_ACTIVE, RoleSt_DRAFT, RoleSt_REVOKED]"
| "ROLE_ASSIGNMENT_TRANSITIONS RoleSt_ACTIVE = [RoleSt_SUSPENDED, RoleSt_REVOKED]"
| "ROLE_ASSIGNMENT_TRANSITIONS RoleSt_SUSPENDED = [RoleSt_ACTIVE, RoleSt_REVOKED]"
| "ROLE_ASSIGNMENT_TRANSITIONS RoleSt_REVOKED = []"

interpretation role_lifecycle: transition_table ROLE_ASSIGNMENT_TRANSITIONS "\<lambda>s. s = RoleSt_REVOKED"
proof
  show "(s = RoleSt_REVOKED) = (ROLE_ASSIGNMENT_TRANSITIONS s = [])" for s by (cases s) simp_all
qed

definition isValidRoleAssignmentTransition :: "role_status \<Rightarrow> role_status \<Rightarrow> bool" where
  "isValidRoleAssignmentTransition s t = (t \<in> set (ROLE_ASSIGNMENT_TRANSITIONS s))"

definition initialRoleAssignmentStatus :: "marketplace_role \<Rightarrow> role_status" where
  "initialRoleAssignmentStatus r = (if r = Role_BUYER then RoleSt_ACTIVE else RoleSt_DRAFT)"

definition roleStatusOnActivationSubmission :: "role_status \<Rightarrow> role_status option" where
  "roleStatusOnActivationSubmission s = (if s = RoleSt_DRAFT then Some PENDING_ACTIVATION else None)"

definition roleStatusOnActivationApproval :: "role_status \<Rightarrow> role_status option" where
  "roleStatusOnActivationApproval s = (if s = PENDING_ACTIVATION then Some RoleSt_ACTIVE else None)"

section \<open>Restrictions\<close>

datatype restriction_scope =
    Scope_storefront_activate | Scope_product_activate | Scope_offer_publish | Scope_payout_receive
  | Scope_commission_accrue | Scope_review_product_submit | Scope_review_seller_submit

datatype restriction_reason =
    UNDERWRITING_REVIEW_REQUIRED | POLICY_ELIGIBILITY_RESTRICTION | PROVIDER_REQUIREMENT_UNRESOLVED
  | COMMERCIAL_ELIGIBILITY_RESTRICTION | MANUAL_OPERATIONAL_RESTRICTION | CHARGEBACK_RATE_ELEVATED
  | REFUND_RATE_ELEVATED | PROMOTER_CHANNEL_ANOMALY | UNUSUAL_TRANSACTION_ACTIVITY
  | REQUESTED_INFORMATION_OUTSTANDING

definition risk_derived_reason :: "restriction_reason \<Rightarrow> bool" where
  "risk_derived_reason r = (r \<in> {CHARGEBACK_RATE_ELEVATED, REFUND_RATE_ELEVATED, PROMOTER_CHANNEL_ANOMALY,
     UNUSUAL_TRANSACTION_ACTIVITY, REQUESTED_INFORMATION_OUTSTANDING})"

datatype restriction_lift_reason =
    Lift_REQUIREMENT_SATISFIED | Lift_ELIGIBILITY_RESTORED | Lift_PROVIDER_REQUIREMENT_RESOLVED
  | Lift_ON_RECONSIDERATION | Lift_IMPOSED_IN_ERROR | Lift_SUPERSEDED_BY_A_NARROWER_RESTRICTION

datatype mitigation_status = Mitigation_ACTIVE | Mitigation_LIFTED

definition reconcileParticipantStatusForRestrictions :: "participant_status \<Rightarrow> nat \<Rightarrow> participant_status option" where
  "reconcileParticipantStatusForRestrictions currentStatus activeRestrictionCount =
     (if currentStatus = Part_ACTIVE \<and> activeRestrictionCount > 0 then Some RESTRICTED
      else if currentStatus = RESTRICTED \<and> activeRestrictionCount = 0 then Some Part_ACTIVE
      else None)"

definition restrictedStatusIsSupported :: "nat \<Rightarrow> bool" where
  "restrictedStatusIsSupported n = (n > 0)"

section \<open>What a restriction withholds\<close>

datatype scope_disposition = IMPLEMENTED | UNSUPPORTED

record scope_enforcement =
  se_disposition :: scope_disposition
  se_appliesToRoles :: "marketplace_role list"

fun RESTRICTION_SCOPE_ENFORCEMENT :: "restriction_scope \<Rightarrow> scope_enforcement" where
  "RESTRICTION_SCOPE_ENFORCEMENT Scope_storefront_activate = \<lparr>se_disposition = IMPLEMENTED, se_appliesToRoles = [Role_SELLER, Role_PROMOTER]\<rparr>"
| "RESTRICTION_SCOPE_ENFORCEMENT Scope_product_activate = \<lparr>se_disposition = IMPLEMENTED, se_appliesToRoles = [Role_SELLER]\<rparr>"
| "RESTRICTION_SCOPE_ENFORCEMENT Scope_offer_publish = \<lparr>se_disposition = IMPLEMENTED, se_appliesToRoles = [Role_SELLER]\<rparr>"
| "RESTRICTION_SCOPE_ENFORCEMENT Scope_payout_receive = \<lparr>se_disposition = IMPLEMENTED, se_appliesToRoles = [Role_SELLER, Role_PROMOTER]\<rparr>"
| "RESTRICTION_SCOPE_ENFORCEMENT Scope_commission_accrue = \<lparr>se_disposition = UNSUPPORTED, se_appliesToRoles = []\<rparr>"
| "RESTRICTION_SCOPE_ENFORCEMENT Scope_review_product_submit = \<lparr>se_disposition = UNSUPPORTED, se_appliesToRoles = []\<rparr>"
| "RESTRICTION_SCOPE_ENFORCEMENT Scope_review_seller_submit = \<lparr>se_disposition = UNSUPPORTED, se_appliesToRoles = []\<rparr>"

definition isEnforceableRestrictionScope :: "restriction_scope \<Rightarrow> bool" where
  "isEnforceableRestrictionScope s = (se_disposition (RESTRICTION_SCOPE_ENFORCEMENT s) = IMPLEMENTED)"

definition scopeAppliesToRole :: "restriction_scope \<Rightarrow> marketplace_role \<Rightarrow> bool" where
  "scopeAppliesToRole s r = (r \<in> set (se_appliesToRoles (RESTRICTION_SCOPE_ENFORCEMENT s)))"

definition commerceBlockingScopesForRole :: "marketplace_role \<Rightarrow> restriction_scope list" where
  "commerceBlockingScopesForRole role =
     filter (\<lambda>s. isEnforceableRestrictionScope s \<and> scopeAppliesToRole s role) [Scope_offer_publish, Scope_payout_receive]"

record participant_standing =
  psg_suspended :: bool
  psg_activeScopes :: "restriction_scope list"

datatype action_denial = PARTICIPANT_SUSPENDED | ACTION_RESTRICTED

text \<open>The decision: \<open>None\<close> allows, \<open>Some\<close> is the denial code.\<close>

definition evaluateParticipantAction :: "participant_standing \<Rightarrow> restriction_scope list \<Rightarrow> action_denial option" where
  "evaluateParticipantAction standing requiredScopes =
     (if psg_suspended standing then Some PARTICIPANT_SUSPENDED
      else if list_ex (\<lambda>s. s \<in> set (psg_activeScopes standing)) requiredScopes then Some ACTION_RESTRICTED
      else None)"

section \<open>Suspensions\<close>

definition policyVersionAuthorizesParticipantMitigation :: "string option \<Rightarrow> bool" where
  "policyVersionAuthorizesParticipantMitigation v = (v = Some ''1.3.0'')"

datatype suspension_reason =
    ADVERSE_OUTCOME_LEVEL_UNSUSTAINABLE | REMEDIATION_NOT_COMPLETED | Susp_REQUESTED_INFORMATION_OUTSTANDING
  | POLICY_ELIGIBILITY_SUSPENSION | BUYER_PROTECTION_PENDING_REVIEW | DECISION_EVASION | MANUAL_OPERATIONAL_SUSPENSION

datatype suspension_lift_reason =
    SLift_REQUIREMENT_SATISFIED | SLift_REMEDIATION_COMPLETED | SLift_ELIGIBILITY_RESTORED
  | SLift_ON_RECONSIDERATION | SLift_IMPOSED_IN_ERROR

definition suspendedStatusIsSupported :: "nat \<Rightarrow> bool" where
  "suspendedStatusIsSupported n = (n > 0)"

definition reinstatementTargetStatus ::
  "participant_status \<Rightarrow> nat \<Rightarrow> participant_status \<Rightarrow> participant_status option" where
  "reinstatementTargetStatus currentStatus activeRestrictionCount statusBeforeSuspension =
     (if currentStatus \<noteq> SUSPENDED then None
      else
        let wasAdmitted = isAdmittedParticipantStatus statusBeforeSuspension;
            target = (if wasAdmitted \<and> activeRestrictionCount > 0 then RESTRICTED
                      else if statusBeforeSuspension = RESTRICTED then Part_ACTIVE
                      else statusBeforeSuspension) in
        if target = currentStatus then None
        else if \<not> isValidParticipantTransition currentStatus target then None
        else Some target)"

section \<open>Activation review\<close>

datatype activation_decision = Review_APPROVED | MORE_INFORMATION_REQUIRED | Review_REJECTED

datatype activation_reason =
    PREREQUISITES_SATISFIED | PROFILE_SECTION_OUTSTANDING | PROVIDER_ONBOARDING_INCOMPLETE
  | ADDITIONAL_VERIFICATION_REQUESTED | NOT_ELIGIBLE_UNDER_POLICY | PROVIDER_DECLINED | SUBMISSION_WITHDRAWN

fun REASON_CODES_BY_DECISION :: "activation_decision \<Rightarrow> activation_reason list" where
  "REASON_CODES_BY_DECISION Review_APPROVED = [PREREQUISITES_SATISFIED]"
| "REASON_CODES_BY_DECISION MORE_INFORMATION_REQUIRED =
     [PROFILE_SECTION_OUTSTANDING, PROVIDER_ONBOARDING_INCOMPLETE, ADDITIONAL_VERIFICATION_REQUESTED]"
| "REASON_CODES_BY_DECISION Review_REJECTED = [NOT_ELIGIBLE_UNDER_POLICY, PROVIDER_DECLINED, SUBMISSION_WITHDRAWN]"

definition isCoherentDecisionReason :: "activation_decision \<Rightarrow> activation_reason \<Rightarrow> bool" where
  "isCoherentDecisionReason d r = (r \<in> set (REASON_CODES_BY_DECISION d))"

fun participantStatusAfterDecision :: "activation_decision \<Rightarrow> participant_status option" where
  "participantStatusAfterDecision Review_APPROVED = Some Part_ACTIVE"
| "participantStatusAfterDecision MORE_INFORMATION_REQUIRED = Some PROFILE_INCOMPLETE"
| "participantStatusAfterDecision Review_REJECTED = None"

datatype payment_readiness = NOT_STARTED | DETAILS_REQUIRED | PENDING_PROVIDER | ENABLED | Ready_RESTRICTED | Ready_DISABLED

datatype approval_refusal =
    NO_ACTIVATION_UNDER_REVIEW | PROFILE_NOT_COMPLETE | NO_ACTIVATABLE_ROLE | PAYMENT_NOT_ENABLED
  | PAYMENT_RESTRICTED | MARKETPLACE_POLICY_NOT_ACCEPTED | NO_VERIFIED_SUPPORT_CONTACT

record approval_input =
  api_participantStatus :: participant_status
  api_profileComplete :: bool
  api_roles :: "(marketplace_role \<times> role_status) list"
  api_paymentReadiness :: payment_readiness
  api_outstandingPolicyAudiences :: "marketplace_role list"
  api_hasVerifiedSupportContact :: bool

definition has_activatable_role :: "(marketplace_role \<times> role_status) list \<Rightarrow> bool" where
  "has_activatable_role rs = list_ex (\<lambda>(r, s). isActivatableRole r \<and> s \<noteq> RoleSt_REVOKED) rs"

text \<open>The refusals, all of them in order; approval is the empty list.\<close>

definition evaluateActivationApproval :: "approval_input \<Rightarrow> approval_refusal list" where
  "evaluateActivationApproval i =
     (if api_participantStatus i \<noteq> UNDER_REVIEW then [NO_ACTIVATION_UNDER_REVIEW] else []) @
     (if \<not> api_profileComplete i then [PROFILE_NOT_COMPLETE] else []) @
     (if \<not> has_activatable_role (api_roles i) then [NO_ACTIVATABLE_ROLE] else []) @
     (if api_paymentReadiness i = Ready_RESTRICTED then [PAYMENT_RESTRICTED]
      else if api_paymentReadiness i \<noteq> ENABLED then [PAYMENT_NOT_ENABLED] else []) @
     (if api_outstandingPolicyAudiences i \<noteq> [] then [MARKETPLACE_POLICY_NOT_ACCEPTED] else []) @
     (if \<not> api_hasVerifiedSupportContact i then [NO_VERIFIED_SUPPORT_CONTACT] else [])"

lemma evaluateActivationApproval_Nil:
  "evaluateActivationApproval i = [] \<longleftrightarrow> api_participantStatus i = UNDER_REVIEW \<and> api_profileComplete i \<and>
     has_activatable_role (api_roles i) \<and> api_paymentReadiness i = ENABLED \<and>
     api_outstandingPolicyAudiences i = [] \<and> api_hasVerifiedSupportContact i"
  by (auto simp: evaluateActivationApproval_def)

section \<open>Closure\<close>

datatype closure_reason =
    NO_LONGER_TRADING_ON_MONACADO | TRADING_ELSEWHERE | ACCOUNT_NO_LONGER_NEEDED | BUSINESS_ACTIVITY_ENDED
  | DOES_NOT_ACCEPT_CURRENT_POLICY | REASON_NOT_COVERED_BY_THESE_CODES

section \<open>Rows\<close>

record participant_row =
  pa_id :: ident
  pa_accountId :: ident
  pa_status :: participant_status
  pa_marketplaceName :: "string option"

record role_row =
  mra_id :: ident
  mra_participantId :: ident
  mra_role :: marketplace_role
  mra_status :: role_status
  mra_grantedAt :: instant
  mra_activatedAt :: "instant option"
  mra_revokedAt :: "instant option"

record activation_row =
  av_id :: ident
  av_participantId :: ident
  av_submittedAt :: instant
  av_decision :: "activation_decision option"
  av_decidedAt :: "instant option"
  av_decidedByActorId :: "ident option"
  av_decisionReasonCode :: "activation_reason option"
  av_undecidedForParticipantId :: "ident option"

record restriction_row =
  pr_id :: ident
  pr_participantId :: ident
  pr_scope :: restriction_scope
  pr_reasonCode :: restriction_reason
  pr_status :: mitigation_status
  pr_imposedAt :: instant
  pr_imposedByAccountId :: ident
  pr_liftedAt :: "instant option"
  pr_liftedByAccountId :: "ident option"
  pr_liftedReasonCode :: "restriction_lift_reason option"
  pr_activeForScope :: "restriction_scope option"
  pr_riskReviewId :: "ident option"
  pr_marketplacePolicyVersion :: "string option"

record suspension_row =
  ps_id :: ident
  ps_participantId :: ident
  ps_reasonCode :: suspension_reason
  ps_status :: mitigation_status
  ps_statusBeforeSuspension :: participant_status
  ps_imposedAt :: instant
  ps_imposedByAccountId :: ident
  ps_liftedAt :: "instant option"
  ps_liftedByAccountId :: "ident option"
  ps_liftedReasonCode :: "suspension_lift_reason option"
  ps_riskReviewId :: "ident option"
  ps_marketplacePolicyVersion :: string
  ps_activeForParticipantId :: "ident option"

record closure_row =
  pc_id :: ident
  pc_participantId :: ident
  pc_closedByAccountId :: ident
  pc_reasonCode :: closure_reason
  pc_statusBeforeClosure :: participant_status
  pc_closedAt :: instant

end
