(* ===== verification/Notification_Obligation.thy ===== *)
theory Notification_Obligation
  imports Participant "HOL-Library.List_Lexorder" "HOL-Library.Char_ord"
begin

text \<open>
  That a notice is owed: \<open>src/contracts/marketplace/notification-obligation.ts\<close>,
  \<open>src/server/marketplace/notification-obligation-service.ts\<close> and
  \<open>notification-obligation-mapper.ts\<close>.  An obligation is identified by a key derived from what it is
  about; the key is unique in the table, and the services that raise notices inside their own
  transactions upsert by it.
\<close>

section \<open>The contract\<close>

definition NOTIFICATION_CATEGORIES :: "string list" where
  "NOTIFICATION_CATEGORIES = [''OFFER_CHANGE'', ''ORDER_CONFIRMATION'', ''ORDER_CANCELLED'', ''SALE_RECORDED'',
     ''PAYMENT_FAILED'', ''PAYOUT_STATE_CHANGED'', ''REFUND_OR_CHARGEBACK'', ''REVIEW_ELIGIBILITY'',
     ''OPERATIONAL_ACTION_REQUIRED'', ''PARTICIPANT_STANDING_CHANGED'']"

definition NOTIFICATION_SUBJECT_KINDS :: "string list" where
  "NOTIFICATION_SUBJECT_KINDS = [''OFFER'', ''ORDER'', ''PAYMENT'', ''PAYOUT'', ''REVIEW'', ''PARTICIPANT_DECISION'']"

definition OFFER_BUSINESS_CHANGE_CATEGORIES :: "string list" where
  "OFFER_BUSINESS_CHANGE_CATEGORIES = [''COMMERCIAL_AVAILABILITY_CHANGED'', ''WHOLESALE_PRICE_CHANGED'',
     ''COMMISSION_TERMS_CHANGED'', ''OTHER_MATERIAL_OFFER_CHANGE'']"

definition DISPUTE_NOTIFICATION_CONTEXT_CODES :: "string list" where
  "DISPUTE_NOTIFICATION_CONTEXT_CODES = [''DISPUTE_OPENED'', ''DISPUTE_EVIDENCE_REQUIRED'', ''DISPUTE_WON'',
     ''DISPUTE_LOST'', ''DISPUTE_RECOVERY_REQUIRED'', ''DISPUTE_EVIDENCE_REQUEST_UNANSWERED'',
     ''DISPUTE_EVIDENCE_SUBMITTED'', ''DISPUTE_EVIDENCE_SUBMISSION_FAILED'']"

definition PARTICIPANT_DECISION_CONTEXT_CODES :: "string list" where
  "PARTICIPANT_DECISION_CONTEXT_CODES = [''RESTRICTION_IMPOSED'', ''RESTRICTION_LIFTED'', ''SUSPENSION_IMPOSED'',
     ''SUSPENSION_LIFTED'', ''RECONSIDERATION_DECIDED'', ''PARTICIPANT_CLOSED'']"

definition NotificationContextCode :: "string \<Rightarrow> bool" where
  "NotificationContextCode c = (c \<in> set (OFFER_BUSINESS_CHANGE_CATEGORIES @ DISPUTE_NOTIFICATION_CONTEXT_CODES @
     PARTICIPANT_DECISION_CONTEXT_CODES))"

record notification_subject =
  ns_kind :: string
  ns_ref :: string
  ns_versionRef :: "string option"

definition bounded :: "nat \<Rightarrow> string \<Rightarrow> bool" where
  "bounded n s = (1 \<le> length s \<and> length s \<le> n)"

definition NotificationSubject :: "notification_subject \<Rightarrow> bool" where
  "NotificationSubject s = (ns_kind s \<in> set NOTIFICATION_SUBJECT_KINDS \<and> bounded 191 (ns_ref s) \<and>
     pred_option (bounded 64) (ns_versionRef s))"

datatype notice_status = UNREAD | Notice_ACKNOWLEDGED | Notice_RESOLVED | ARCHIVED

fun NOTIFICATION_OBLIGATION_TRANSITIONS :: "notice_status \<Rightarrow> notice_status list" where
  "NOTIFICATION_OBLIGATION_TRANSITIONS UNREAD = [Notice_ACKNOWLEDGED, Notice_RESOLVED, ARCHIVED]"
| "NOTIFICATION_OBLIGATION_TRANSITIONS Notice_ACKNOWLEDGED = [Notice_RESOLVED, ARCHIVED]"
| "NOTIFICATION_OBLIGATION_TRANSITIONS Notice_RESOLVED = [ARCHIVED]"
| "NOTIFICATION_OBLIGATION_TRANSITIONS ARCHIVED = []"

definition isValidNotificationObligationTransition :: "notice_status \<Rightarrow> notice_status \<Rightarrow> bool" where
  "isValidNotificationObligationTransition s t = (t \<in> set (NOTIFICATION_OBLIGATION_TRANSITIONS s))"

fun notice_rank :: "notice_status \<Rightarrow> nat" where
  "notice_rank UNREAD = 0" | "notice_rank Notice_ACKNOWLEDGED = 1" | "notice_rank Notice_RESOLVED = 2" | "notice_rank ARCHIVED = 3"

interpretation notice_lifecycle: forward_table NOTIFICATION_OBLIGATION_TRANSITIONS "\<lambda>s. s = ARCHIVED" notice_rank
proof
  show "(s = ARCHIVED) = (NOTIFICATION_OBLIGATION_TRANSITIONS s = [])" for s by (cases s) simp_all
  show "t \<in> set (NOTIFICATION_OBLIGATION_TRANSITIONS s) \<Longrightarrow> notice_rank s < notice_rank t" for s t by (cases s) auto
qed

definition isOpenNotificationObligation :: "notice_status \<Rightarrow> bool" where
  "isOpenNotificationObligation s = (s \<in> {UNREAD, Notice_ACKNOWLEDGED})"

section \<open>The key\<close>

definition KEY_SEPARATOR :: char where "KEY_SEPARATOR = CHR ''|''"
definition KEY_ABSENT :: string where "KEY_ABSENT = ''~''"

record notice_fields =
  nf_id :: ident
  nf_recipientParticipantId :: ident
  nf_category :: string
  nf_subject :: notification_subject
  nf_contextCode :: "string option"
  nf_createdAt :: instant

definition key_component :: "string option \<Rightarrow> string" where
  "key_component c = (case c of None \<Rightarrow> KEY_ABSENT | Some s \<Rightarrow> s)"

definition key_components :: "notice_fields \<Rightarrow> string list" where
  "key_components f = [nf_recipientParticipantId f, nf_category f, ns_kind (nf_subject f), ns_ref (nf_subject f),
     key_component (ns_versionRef (nf_subject f)), key_component (nf_contextCode f)]"

fun join_with :: "char \<Rightarrow> string list \<Rightarrow> string" where
  "join_with c [] = []"
| "join_with c [x] = x"
| "join_with c (x # y # ys) = x @ c # join_with c (y # ys)"

definition notificationObligationKey :: "notice_fields \<Rightarrow> string res" where
  "notificationObligationKey f =
     (if list_ex (\<lambda>c. KEY_SEPARATOR \<in> set c) (key_components f)
      then Inl (NotificationError ''OBLIGATION_KEY_COMPONENT_INVALID'')
      else Inr (join_with KEY_SEPARATOR (key_components f)))"

section \<open>Rows\<close>

record notice_row =
  nr_id :: ident
  nr_recipientParticipantId :: ident
  nr_category :: string
  nr_subject :: notification_subject
  nr_contextCode :: "string option"
  nr_status :: notice_status
  nr_createdAt :: instant
  nr_acknowledgedAt :: "instant option"
  nr_resolvedAt :: "instant option"
  nr_archivedAt :: "instant option"
  nr_obligationKey :: string

record notice_tables = account_tables +
  participants :: "participant_row list"
  notices :: "notice_row list"

definition find_participant :: "'a notice_tables_scheme \<Rightarrow> ident \<Rightarrow> participant_row option" where
  "find_participant db i = List.find (\<lambda>p. pa_id p = i) (participants db)"

definition find_account_participant :: "'a notice_tables_scheme \<Rightarrow> ident \<Rightarrow> participant_row option" where
  "find_account_participant db accountId = List.find (\<lambda>p. pa_accountId p = accountId) (participants db)"

text \<open>The mapper validates the row it read; the key column is not part of the record.\<close>

definition obligationRowToRecord :: "notice_row \<Rightarrow> notice_row res" where
  "obligationRowToRecord r =
     (if nr_category r \<in> set NOTIFICATION_CATEGORIES \<and> NotificationSubject (nr_subject r) \<and>
         pred_option NotificationContextCode (nr_contextCode r)
      then Inr r else Inl (NotificationError ''CORRUPT_OBLIGATION_RECORD''))"

definition obligationData :: "notice_fields \<Rightarrow> notice_row res" where
  "obligationData f =
     chain (notificationObligationKey f) (\<lambda>k.
       Inr \<lparr>nr_id = nf_id f, nr_recipientParticipantId = nf_recipientParticipantId f, nr_category = nf_category f,
            nr_subject = nf_subject f, nr_contextCode = nf_contextCode f, nr_status = UNREAD,
            nr_createdAt = nf_createdAt f, nr_acknowledgedAt = None, nr_resolvedAt = None, nr_archivedAt = None,
            nr_obligationKey = k\<rparr>)"

section \<open>Operations\<close>

text \<open>The insert: the unique key, the primary key and the foreign key to the recipient.\<close>

definition insert_notice :: "notice_row \<Rightarrow> 'a notice_tables_scheme \<Rightarrow> 'a notice_tables_scheme res" where
  "insert_notice r db =
     (if nr_obligationKey r \<in> nr_obligationKey ` set (notices db) \<or> nr_id r \<in> nr_id ` set (notices db)
      then Inl (UniqueViolation ''NotificationObligation'')
      else if find_participant db (nr_recipientParticipantId r) = None
      then Inl (NotificationError ''RECIPIENT_PARTICIPANT_NOT_FOUND'')
      else Inr (db\<lparr>notices := notices db @ [r]\<rparr>))"

definition CreateNotificationObligationInput :: "notice_fields \<Rightarrow> bool" where
  "CreateNotificationObligationInput f = (nf_category f \<in> set NOTIFICATION_CATEGORIES \<and>
     NotificationSubject (nf_subject f) \<and> pred_option NotificationContextCode (nf_contextCode f))"

fun create_catch :: "'b res \<Rightarrow> 'b res" where
  "create_catch (Inr x) = Inr x"
| "create_catch (Inl e) =
     (if e = NotificationError ''CORRUPT_OBLIGATION_RECORD'' \<or> e = NotificationError ''RECIPIENT_PARTICIPANT_NOT_FOUND'' then Inl e
      else if e = UniqueViolation ''NotificationObligation'' then Inl (NotificationError ''DUPLICATE_OBLIGATION'')
      else Inl (NotificationError ''OBLIGATION_PERSISTENCE_FAILURE''))"

definition createNotificationObligation ::
  "notice_fields \<Rightarrow> 'a notice_tables_scheme \<Rightarrow> ('a notice_tables_scheme \<times> notice_row) res" where
  "createNotificationObligation f db =
     (if \<not> CreateNotificationObligationInput f then Inl (NotificationError ''INVALID_OBLIGATION_INPUT'')
      else create_catch
        (chain (obligationData f) (\<lambda>r. chain (insert_notice r db) (\<lambda>db'.
         chain (obligationRowToRecord r) (\<lambda>x. Inr (db', x))))))"

definition find_notice_key :: "'a notice_tables_scheme \<Rightarrow> string \<Rightarrow> notice_row option" where
  "find_notice_key db k = List.find (\<lambda>n. nr_obligationKey n = k) (notices db)"

text \<open>The upsert of the services that own a transaction.  The re-read after a lost race does not
  arise: transactions are the steps of the model.\<close>

definition upsertObligationInTx ::
  "notice_fields \<Rightarrow> 'a notice_tables_scheme \<Rightarrow> ('a notice_tables_scheme \<times> notice_row) res" where
  "upsertObligationInTx f db =
     chain (obligationData f) (\<lambda>r.
       case find_notice_key db (nr_obligationKey r) of
         Some existing \<Rightarrow> chain (obligationRowToRecord existing) (\<lambda>x. Inr (db, x))
       | None \<Rightarrow> chain (insert_notice r db) (\<lambda>db'. chain (obligationRowToRecord r) (\<lambda>x. Inr (db', x))))"

fun isObligationDomainError :: "err \<Rightarrow> bool" where
  "isObligationDomainError (NotificationError c) = (c \<in> {''OBLIGATION_NOT_FOUND'', ''INVALID_OBLIGATION_TRANSITION'',
     ''RECIPIENT_PARTICIPANT_NOT_FOUND'', ''OFFER_VERSION_NOT_FOUND'', ''CORRUPT_OBLIGATION_RECORD''})"
| "isObligationDomainError _ = False"

definition find_notice :: "'a notice_tables_scheme \<Rightarrow> ident \<Rightarrow> notice_row option" where
  "find_notice db i = List.find (\<lambda>n. nr_id n = i) (notices db)"

definition getNotificationObligation :: "ident \<Rightarrow> 'a notice_tables_scheme \<Rightarrow> notice_row res" where
  "getNotificationObligation i db =
     (case find_notice db i of None \<Rightarrow> Inl (NotificationError ''OBLIGATION_NOT_FOUND'')
      | Some r \<Rightarrow> obligationRowToRecord r)"

definition advance_notice :: "notice_status \<Rightarrow> instant \<Rightarrow> notice_row \<Rightarrow> notice_row" where
  "advance_notice target at r =
     r\<lparr>nr_status := target,
       nr_acknowledgedAt := (if target = Notice_ACKNOWLEDGED then Some at else nr_acknowledgedAt r),
       nr_resolvedAt := (if target = Notice_RESOLVED then Some at else nr_resolvedAt r),
       nr_archivedAt := (if target = ARCHIVED then Some at else nr_archivedAt r)\<rparr>"

definition advanceNotificationObligation ::
  "ident \<Rightarrow> notice_status \<Rightarrow> instant \<Rightarrow> 'a notice_tables_scheme \<Rightarrow> ('a notice_tables_scheme \<times> notice_row) res" where
  "advanceNotificationObligation i target at db =
     (case find_notice db i of None \<Rightarrow> Inl (NotificationError ''OBLIGATION_NOT_FOUND'')
      | Some r \<Rightarrow>
          if \<not> isValidNotificationObligationTransition (nr_status r) target
          then Inl (NotificationError ''INVALID_OBLIGATION_TRANSITION'')
          else chain (obligationRowToRecord (advance_notice target at r)) (\<lambda>x.
            Inr (db\<lparr>notices := update_where (\<lambda>n. nr_id n = i) (advance_notice target at) (notices db)\<rparr>, x)))"

text \<open>Newest first, by creation and then by id.\<close>

definition listParticipantObligations ::
  "ident \<Rightarrow> notice_status list option \<Rightarrow> 'a notice_tables_scheme \<Rightarrow> notice_row list res" where
  "listParticipantObligations p statuses db =
     map_res obligationRowToRecord
       (rev (sort_key nr_createdAt (sort_key nr_id
         (filter (\<lambda>n. nr_recipientParticipantId n = p \<and>
            (case statuses of None \<Rightarrow> True | Some ss \<Rightarrow> nr_status n \<in> set ss)) (notices db)))))"

section \<open>Offer changes\<close>

definition listing_current :: "'a notice_tables_scheme \<Rightarrow> listing_version \<Rightarrow> bool" where
  "listing_current db v = list_ex (\<lambda>l. lr_listingSourceRecordId l = lv_listingSourceRecordId v \<and>
     lr_currentSourceRecordVersion l = lv_sourceRecordVersion v) (listings db)"

fun accepted_offer :: "listing_placement \<Rightarrow> (ident \<times> string) option" where
  "accepted_offer (PromotedPlacement p d s) = Some (aod_offerSourceRecordId d, aod_acceptedVersion d)"
| "accepted_offer _ = None"

text \<open>The distinct promoters whose Listing currently carries an exact Offer version.\<close>

definition affectedPromotersInTx :: "'a notice_tables_scheme \<Rightarrow> ident \<Rightarrow> string \<Rightarrow> ident list" where
  "affectedPromotersInTx db offerSourceRecordId version =
     sort (remdups (map lv_controllingParticipantId
       (filter (\<lambda>v. accepted_offer (lv_placement v) = Some (offerSourceRecordId, version) \<and> listing_current db v)
         (listingVersions db))))"

record offer_change =
  oc_offerSourceRecordId :: ident
  oc_effectiveVersion :: string
  oc_priorVersion :: string
  oc_changeCategories :: "string list"
  oc_createdAt :: instant

definition RecordOfferChangeObligationsInput :: "offer_change \<Rightarrow> bool" where
  "RecordOfferChangeObligationsInput c = (bounded 191 (oc_offerSourceRecordId c) \<and> bounded 64 (oc_effectiveVersion c) \<and>
     bounded 64 (oc_priorVersion c) \<and> 1 \<le> length (oc_changeCategories c) \<and> length (oc_changeCategories c) \<le> 4 \<and>
     list_all (\<lambda>x. x \<in> set OFFER_BUSINESS_CHANGE_CATEGORIES) (oc_changeCategories c) \<and>
     distinct (oc_changeCategories c))"

definition offer_change_notice :: "ident \<Rightarrow> offer_change \<Rightarrow> ident \<times> string \<Rightarrow> notice_fields" where
  "offer_change_notice i c r = \<lparr>nf_id = i, nf_recipientParticipantId = fst r, nf_category = ''OFFER_CHANGE'',
     nf_subject = \<lparr>ns_kind = ''OFFER'', ns_ref = oc_offerSourceRecordId c, ns_versionRef = Some (oc_effectiveVersion c)\<rparr>,
     nf_contextCode = Some (snd r), nf_createdAt = oc_createdAt c\<rparr>"

text \<open>The two nested loops, over promoters and then categories; one fresh id is drawn per upsert.\<close>

fun upsert_notices ::
  "(nat \<Rightarrow> ident) \<Rightarrow> nat \<Rightarrow> (ident \<Rightarrow> 'n \<Rightarrow> notice_fields) \<Rightarrow> 'n list \<Rightarrow> 'a notice_tables_scheme \<Rightarrow>
   ('a notice_tables_scheme \<times> notice_row list) res" where
  "upsert_notices ids n mk [] db = Inr (db, [])"
| "upsert_notices ids n mk (x # xs) db =
     chain (upsertObligationInTx (mk (ids n) x) db) (\<lambda>(db1, r).
     chain (upsert_notices ids (n + 1) mk xs db1) (\<lambda>(db2, rs). Inr (db2, r # rs)))"

definition recordOfferChangeObligations ::
  "(nat \<Rightarrow> ident) \<Rightarrow> offer_change \<Rightarrow> 'a notice_tables_scheme \<Rightarrow> ('a notice_tables_scheme \<times> notice_row list) res" where
  "recordOfferChangeObligations ids c db =
     (if \<not> RecordOfferChangeObligationsInput c then Inl (NotificationError ''INVALID_OBLIGATION_INPUT'')
      else rethrow_own isObligationDomainError (NotificationError ''OBLIGATION_PERSISTENCE_FAILURE'')
        (if \<not> list_ex (\<lambda>v. ov_offerSourceRecordId v = oc_offerSourceRecordId c \<and>
                ov_sourceRecordVersion v = oc_effectiveVersion c) (offerVersions db)
         then Inl (NotificationError ''OFFER_VERSION_NOT_FOUND'')
         else upsert_notices ids 0 (\<lambda>i. offer_change_notice i c)
           (List.product (affectedPromotersInTx db (oc_offerSourceRecordId c) (oc_priorVersion c)) (oc_changeCategories c)) db))"

end
