(* ===== verification/Participation.thy ===== *)
theory Participation
  imports Notification_Obligation
begin

text \<open>
  The services that decide a participant's standing, each a transaction on the tables:
  \<open>src/server/marketplace/participant-service.ts\<close> (creation, roles, drafting statuses),
  \<open>activation-service.ts\<close>, \<open>participant-restriction-service.ts\<close>,
  \<open>participant-suspension-service.ts\<close>, \<open>participant-closure-service.ts\<close>,
  \<open>participant-mitigation-policy.ts\<close>, \<open>participant-mitigation-notice.ts\<close> and
  \<open>participant-standing-service.ts\<close>.

  The version of the Marketplace Policy in force and the ids of the recorded risk reviews are
  columns of tables other services write; so are the profile, the provider's readiness, the
  accepted terms and the support contact, which reach an approval as one argument.  The retries
  after a write conflict do not arise, since a transaction is one step.
\<close>

section \<open>State\<close>

record participation_tables = notice_tables +
  roleAssignments :: "role_row list"
  activations :: "activation_row list"
  restrictions :: "restriction_row list"
  suspensions :: "suspension_row list"
  closures :: "closure_row list"
  riskReviewIds :: "ident list"
  activeMarketplacePolicyVersion :: "string option"

definition part_err :: "string \<Rightarrow> err" where "part_err c = ParticipantError c"

fun own_codes :: "string list \<Rightarrow> err \<Rightarrow> bool" where
  "own_codes cs (ParticipantError c) = (c \<in> set cs)"
| "own_codes cs _ = False"

definition set_status :: "ident \<Rightarrow> participant_status \<Rightarrow> 'a participation_tables_scheme \<Rightarrow> 'a participation_tables_scheme" where
  "set_status p s db = db\<lparr>participants := update_where (\<lambda>r. pa_id r = p) (\<lambda>r. r\<lparr>pa_status := s\<rparr>) (participants db)\<rparr>"

definition activeRestrictionCount :: "'a participation_tables_scheme \<Rightarrow> ident \<Rightarrow> nat" where
  "activeRestrictionCount db p = count_where (\<lambda>r. pr_participantId r = p \<and> pr_status r = Mitigation_ACTIVE) (restrictions db)"

definition activeSuspensionCount :: "'a participation_tables_scheme \<Rightarrow> ident \<Rightarrow> nat" where
  "activeSuspensionCount db p = count_where (\<lambda>r. ps_participantId r = p \<and> ps_status r = Mitigation_ACTIVE) (suspensions db)"

section \<open>What a mitigation rests on\<close>

definition assertParticipantMitigationAuthorizedInTx :: "'a participation_tables_scheme \<Rightarrow> string res" where
  "assertParticipantMitigationAuthorizedInTx db =
     (if policyVersionAuthorizesParticipantMitigation (activeMarketplacePolicyVersion db)
      then Inr (the (activeMarketplacePolicyVersion db))
      else Inl (part_err ''PARTICIPANT_MITIGATION_NOT_AUTHORIZED_BY_POLICY''))"

definition decision_notice :: "ident \<Rightarrow> ident \<Rightarrow> ident \<Rightarrow> string \<Rightarrow> instant \<Rightarrow> notice_fields" where
  "decision_notice obligationId participantId decisionId contextCode at =
     \<lparr>nf_id = obligationId, nf_recipientParticipantId = participantId, nf_category = ''PARTICIPANT_STANDING_CHANGED'',
      nf_subject = \<lparr>ns_kind = ''PARTICIPANT_DECISION'', ns_ref = decisionId, ns_versionRef = None\<rparr>,
      nf_contextCode = Some contextCode, nf_createdAt = at\<rparr>"

definition recordParticipantDecisionNoticeInTx ::
  "ident \<Rightarrow> ident \<Rightarrow> ident \<Rightarrow> string \<Rightarrow> instant \<Rightarrow> 'a participation_tables_scheme \<Rightarrow> 'a participation_tables_scheme res" where
  "recordParticipantDecisionNoticeInTx obligationId participantId decisionId contextCode at db =
     chain (upsertObligationInTx (decision_notice obligationId participantId decisionId contextCode at) db) (\<lambda>(db', r). Inr db')"

section \<open>Restrictions\<close>

text \<open>The two guarded writes.  Each names the status it leaves and the rows that warrant the move, so
  the database decides; the early return leaves a participant that is not admitted alone.\<close>

definition guarded_status ::
  "ident \<Rightarrow> participant_status \<Rightarrow> bool \<Rightarrow> participant_status \<Rightarrow> 'a participation_tables_scheme \<Rightarrow> 'a participation_tables_scheme" where
  "guarded_status p source someActive target db =
     db\<lparr>participants := update_where
          (\<lambda>r. pa_id r = p \<and> pa_status r = source \<and> (activeRestrictionCount db p > 0) = someActive \<and>
               activeSuspensionCount db p = 0)
          (\<lambda>r. r\<lparr>pa_status := target\<rparr>) (participants db)\<rparr>"

definition reconcileStatusInTx ::
  "ident \<Rightarrow> participant_status \<Rightarrow> 'a participation_tables_scheme \<Rightarrow> 'a participation_tables_scheme" where
  "reconcileStatusInTx p currentStatus db =
     (if \<not> isAdmittedParticipantStatus currentStatus then db
      else guarded_status p RESTRICTED False Part_ACTIVE (guarded_status p Part_ACTIVE True RESTRICTED db))"

record restriction_snapshot =
  rsn_restriction :: restriction_row
  rsn_participantStatus :: participant_status
  rsn_activeRestrictionCount :: nat

definition find_restriction :: "'a participation_tables_scheme \<Rightarrow> ident \<Rightarrow> restriction_row option" where
  "find_restriction db i = List.find (\<lambda>r. pr_id r = i) (restrictions db)"

definition readSnapshotInTx :: "ident \<Rightarrow> ident \<Rightarrow> 'a participation_tables_scheme \<Rightarrow> restriction_snapshot res" where
  "readSnapshotInTx participantId restrictionId db =
     (case find_restriction db restrictionId of None \<Rightarrow> Inl (part_err ''RESTRICTION_NOT_FOUND'')
      | Some row \<Rightarrow> (case find_participant db participantId of None \<Rightarrow> Inl (part_err ''PARTICIPANT_NOT_FOUND'')
          | Some p \<Rightarrow> Inr \<lparr>rsn_restriction = row, rsn_participantStatus = pa_status p,
                          rsn_activeRestrictionCount = activeRestrictionCount db participantId\<rparr>))"

definition assertRestrictionAuthority :: "'a participation_tables_scheme \<Rightarrow> ident \<Rightarrow> unit res" where
  "assertRestrictionAuthority db actor =
     require (isInternallyAuthorized (canRestrictParticipant (resolveInternalAuthorizationSubject db actor)))
       (part_err ''RESTRICTION_ACTOR_NOT_AUTHORIZED'')"

definition restriction_domain_errors :: "string list" where
  "restriction_domain_errors = [''PARTICIPANT_NOT_FOUND'', ''RESTRICTION_NOT_FOUND'', ''RESTRICTION_ALREADY_LIFTED'',
     ''RESTRICTION_ACTOR_NOT_AUTHORIZED'', ''RESTRICTION_SELF_ACTION_NOT_PERMITTED'', ''CORRUPT_RESTRICTION_RECORD'',
     ''PARTICIPANT_MITIGATION_NOT_AUTHORIZED_BY_POLICY'', ''PARTICIPANT_LIFECYCLE_TERMINATED'']"

text \<open>The insert: the unique marker (participant, active scope), the primary key, and the foreign key
  to the risk review.\<close>

definition insert_restriction :: "restriction_row \<Rightarrow> 'a participation_tables_scheme \<Rightarrow> 'a participation_tables_scheme res" where
  "insert_restriction r db =
     (if list_ex (\<lambda>x. pr_participantId x = pr_participantId r \<and> pr_activeForScope x = pr_activeForScope r \<and>
            pr_activeForScope r \<noteq> None) (restrictions db) \<or> pr_id r \<in> pr_id ` set (restrictions db)
      then Inl (UniqueViolation ''ParticipantRestriction'')
      else if (case pr_riskReviewId r of None \<Rightarrow> False | Some i \<Rightarrow> i \<notin> set (riskReviewIds db))
      then Inl (part_err ''FOREIGN_KEY'')
      else Inr (db\<lparr>restrictions := restrictions db @ [r]\<rparr>))"

record impose_input =
  ii_participantId :: ident
  ii_scope :: restriction_scope
  ii_reasonCode :: restriction_reason
  ii_actingAccountId :: ident
  ii_imposedAt :: instant
  ii_riskReviewId :: "ident option"

definition new_restriction :: "ident \<Rightarrow> impose_input \<Rightarrow> string option \<Rightarrow> restriction_row" where
  "new_restriction i inp governing =
     \<lparr>pr_id = i, pr_participantId = ii_participantId inp, pr_scope = ii_scope inp, pr_reasonCode = ii_reasonCode inp,
      pr_status = Mitigation_ACTIVE, pr_imposedAt = ii_imposedAt inp, pr_imposedByAccountId = ii_actingAccountId inp,
      pr_liftedAt = None, pr_liftedByAccountId = None, pr_liftedReasonCode = None,
      pr_activeForScope = Some (ii_scope inp), pr_riskReviewId = ii_riskReviewId inp,
      pr_marketplacePolicyVersion = governing\<rparr>"

fun impose_catch :: "'b res \<Rightarrow> 'b res" where
  "impose_catch (Inr x) = Inr x"
| "impose_catch (Inl e) =
     (if own_codes restriction_domain_errors e then Inl e
      else if e = UniqueViolation ''ParticipantRestriction'' \<or> e = UniqueViolation ''NotificationObligation''
      then Inl (part_err ''DUPLICATE_ACTIVE_RESTRICTION'')
      else Inl (part_err ''RESTRICTION_PERSISTENCE_FAILURE''))"

definition imposeParticipantRestriction ::
  "ident \<Rightarrow> ident \<Rightarrow> impose_input \<Rightarrow> 'a participation_tables_scheme \<Rightarrow>
   ('a participation_tables_scheme \<times> restriction_snapshot) res" where
  "imposeParticipantRestriction restrictionId obligationId inp db =
     (if \<not> pred_option (bounded 191) (ii_riskReviewId inp) then Inl (part_err ''INVALID_RESTRICTION_INPUT'')
      else if \<not> isEnforceableRestrictionScope (ii_scope inp) then Inl (part_err ''RESTRICTION_SCOPE_NOT_ENFORCEABLE'')
      else chain (assertRestrictionAuthority db (ii_actingAccountId inp)) (\<lambda>_. impose_catch
        (chain (if risk_derived_reason (ii_reasonCode inp)
                then chain (assertParticipantMitigationAuthorizedInTx db) (\<lambda>v. Inr (Some v)) else Inr None) (\<lambda>governing.
         case find_participant db (ii_participantId inp) of None \<Rightarrow> Inl (part_err ''PARTICIPANT_NOT_FOUND'')
         | Some p \<Rightarrow>
             if pa_accountId p = ii_actingAccountId inp then Inl (part_err ''RESTRICTION_SELF_ACTION_NOT_PERMITTED'')
             else if isTerminalParticipantStatus (pa_status p) then Inl (part_err ''PARTICIPANT_LIFECYCLE_TERMINATED'')
             else
               chain (insert_restriction (new_restriction restrictionId inp governing) db) (\<lambda>db1.
               chain (recordParticipantDecisionNoticeInTx obligationId (ii_participantId inp) restrictionId
                        ''RESTRICTION_IMPOSED'' (ii_imposedAt inp) (reconcileStatusInTx (ii_participantId inp) (pa_status p) db1)) (\<lambda>db2.
               chain (readSnapshotInTx (ii_participantId inp) restrictionId db2) (\<lambda>s. Inr (db2, s))))))))"

definition lift_restriction :: "instant \<Rightarrow> ident \<Rightarrow> restriction_lift_reason \<Rightarrow> restriction_row \<Rightarrow> restriction_row" where
  "lift_restriction at actor reason r =
     r\<lparr>pr_status := Mitigation_LIFTED, pr_liftedAt := Some at, pr_liftedByAccountId := Some actor,
       pr_liftedReasonCode := Some reason, pr_activeForScope := None\<rparr>"

definition lift_restriction_row ::
  "ident \<Rightarrow> instant \<Rightarrow> ident \<Rightarrow> restriction_lift_reason \<Rightarrow> 'a participation_tables_scheme \<Rightarrow> 'a participation_tables_scheme" where
  "lift_restriction_row i at actor reason db =
     db\<lparr>restrictions := update_where (\<lambda>r. pr_id r = i \<and> pr_status r = Mitigation_ACTIVE)
          (lift_restriction at actor reason) (restrictions db)\<rparr>"

definition liftParticipantRestriction ::
  "ident \<Rightarrow> ident \<Rightarrow> restriction_lift_reason \<Rightarrow> ident \<Rightarrow> instant \<Rightarrow> 'a participation_tables_scheme \<Rightarrow>
   ('a participation_tables_scheme \<times> restriction_snapshot) res" where
  "liftParticipantRestriction obligationId restrictionId reason actor at db =
     chain (assertRestrictionAuthority db actor) (\<lambda>_.
       rethrow_own (own_codes restriction_domain_errors) (part_err ''RESTRICTION_PERSISTENCE_FAILURE'')
       (case find_restriction db restrictionId of None \<Rightarrow> Inl (part_err ''RESTRICTION_NOT_FOUND'')
        | Some row \<Rightarrow>
           (case find_participant db (pr_participantId row) of None \<Rightarrow> Inl (part_err ''PARTICIPANT_NOT_FOUND'')
            | Some p \<Rightarrow>
               if pa_accountId p = actor then Inl (part_err ''RESTRICTION_SELF_ACTION_NOT_PERMITTED'')
               else if count_where (\<lambda>r. pr_id r = restrictionId \<and> pr_status r = Mitigation_ACTIVE) (restrictions db) \<noteq> 1
               then Inl (part_err ''RESTRICTION_ALREADY_LIFTED'')
               else
                 chain (recordParticipantDecisionNoticeInTx obligationId (pr_participantId row) restrictionId
                          ''RESTRICTION_LIFTED'' at
                          (reconcileStatusInTx (pr_participantId row) (pa_status p)
                            (lift_restriction_row restrictionId at actor reason db))) (\<lambda>db2.
                 chain (readSnapshotInTx (pr_participantId row) restrictionId db2) (\<lambda>s. Inr (db2, s))))))"

definition hasActiveRestrictions :: "ident \<Rightarrow> 'a participation_tables_scheme \<Rightarrow> bool" where
  "hasActiveRestrictions p db = (activeRestrictionCount db p > 0)"

definition listActiveParticipantRestrictions :: "ident \<Rightarrow> 'a participation_tables_scheme \<Rightarrow> restriction_row list" where
  "listActiveParticipantRestrictions p db =
     sort_key pr_imposedAt (sort_key pr_id
       (filter (\<lambda>r. pr_participantId r = p \<and> pr_status r = Mitigation_ACTIVE) (restrictions db)))"

section \<open>Suspensions\<close>

definition assertSuspensionAuthority :: "'a participation_tables_scheme \<Rightarrow> ident \<Rightarrow> unit res" where
  "assertSuspensionAuthority db actor =
     require (isInternallyAuthorized (canSuspendParticipant (resolveInternalAuthorizationSubject db actor)))
       (part_err ''SUSPENSION_ACTOR_NOT_AUTHORIZED'')"

definition find_suspension :: "'a participation_tables_scheme \<Rightarrow> ident \<Rightarrow> suspension_row option" where
  "find_suspension db i = List.find (\<lambda>r. ps_id r = i) (suspensions db)"

text \<open>The snapshot: the row and the participant's status beside it.\<close>

definition suspension_snapshot :: "ident \<Rightarrow> 'a participation_tables_scheme \<Rightarrow> (suspension_row \<times> participant_status) res" where
  "suspension_snapshot suspensionId db =
     (case find_suspension db suspensionId of None \<Rightarrow> Inl (part_err ''SUSPENSION_NOT_FOUND'')
      | Some row \<Rightarrow> (case find_participant db (ps_participantId row) of None \<Rightarrow> Inl (part_err ''NOT_FOUND'')
          | Some p \<Rightarrow> Inr (row, pa_status p)))"

definition insert_suspension :: "suspension_row \<Rightarrow> 'a participation_tables_scheme \<Rightarrow> 'a participation_tables_scheme res" where
  "insert_suspension r db =
     (if list_ex (\<lambda>x. ps_activeForParticipantId r \<noteq> None \<and> ps_activeForParticipantId x = ps_activeForParticipantId r)
           (suspensions db) \<or> ps_id r \<in> ps_id ` set (suspensions db)
      then Inl (UniqueViolation ''ParticipantSuspension'')
      else if (case ps_riskReviewId r of None \<Rightarrow> False | Some i \<Rightarrow> i \<notin> set (riskReviewIds db))
      then Inl (part_err ''FOREIGN_KEY'')
      else Inr (db\<lparr>suspensions := suspensions db @ [r]\<rparr>))"

record suspend_input =
  si_participantId :: ident
  si_reasonCode :: suspension_reason
  si_actingAccountId :: ident
  si_suspendedAt :: instant
  si_riskReviewId :: "ident option"

definition new_suspension :: "ident \<Rightarrow> suspend_input \<Rightarrow> participant_status \<Rightarrow> string \<Rightarrow> suspension_row" where
  "new_suspension i inp before governing =
     \<lparr>ps_id = i, ps_participantId = si_participantId inp, ps_reasonCode = si_reasonCode inp,
      ps_status = Mitigation_ACTIVE, ps_statusBeforeSuspension = before, ps_imposedAt = si_suspendedAt inp,
      ps_imposedByAccountId = si_actingAccountId inp, ps_liftedAt = None, ps_liftedByAccountId = None,
      ps_liftedReasonCode = None, ps_riskReviewId = si_riskReviewId inp, ps_marketplacePolicyVersion = governing,
      ps_activeForParticipantId = Some (si_participantId inp)\<rparr>"

fun suspend_catch :: "'b res \<Rightarrow> 'b res" where
  "suspend_catch (Inr x) = Inr x"
| "suspend_catch (Inl e) =
     (if e = UniqueViolation ''ParticipantSuspension'' \<or> e = UniqueViolation ''NotificationObligation''
      then Inl (part_err ''PARTICIPANT_ALREADY_SUSPENDED'') else Inl e)"

text \<open>The status move: only of an admitted participant, with the evidence counted, where the table
  permits it.\<close>

definition suspend_status ::
  "ident \<Rightarrow> participant_status \<Rightarrow> 'a participation_tables_scheme \<Rightarrow> 'a participation_tables_scheme" where
  "suspend_status p source db =
     (if isAdmittedParticipantStatus source \<and> suspendedStatusIsSupported (activeSuspensionCount db p) \<and>
         isValidParticipantTransition source SUSPENDED
      then set_status p SUSPENDED db else db)"

definition suspendParticipant ::
  "ident \<Rightarrow> ident \<Rightarrow> suspend_input \<Rightarrow> 'a participation_tables_scheme \<Rightarrow>
   ('a participation_tables_scheme \<times> suspension_row \<times> participant_status) res" where
  "suspendParticipant suspensionId obligationId inp db =
     (if \<not> pred_option (bounded 191) (si_riskReviewId inp) then Inl (part_err ''PARTICIPANT_MITIGATION_REQUEST_INVALID'')
      else suspend_catch
        (chain (assertParticipantMitigationAuthorizedInTx db) (\<lambda>governing.
         chain (assertSuspensionAuthority db (si_actingAccountId inp)) (\<lambda>_.
         case find_participant db (si_participantId inp) of None \<Rightarrow> Inl (part_err ''PARTICIPANT_NOT_FOUND'')
         | Some p \<Rightarrow>
             if pa_accountId p = si_actingAccountId inp then Inl (part_err ''SUSPENSION_SELF_ACTION_NOT_PERMITTED'')
             else if pa_status p = SUSPENDED \<or> pa_status p = Part_CLOSED then Inl (part_err ''PARTICIPANT_ALREADY_SUSPENDED'')
             else
               chain (insert_suspension (new_suspension suspensionId inp (pa_status p) governing) db) (\<lambda>db1.
               chain (recordParticipantDecisionNoticeInTx obligationId (si_participantId inp) suspensionId
                        ''SUSPENSION_IMPOSED'' (si_suspendedAt inp)
                        (suspend_status (si_participantId inp) (pa_status p) db1)) (\<lambda>db3.
               chain (suspension_snapshot suspensionId db3) (\<lambda>s. Inr (db3, s))))))))"

definition lift_suspension :: "instant \<Rightarrow> ident \<Rightarrow> suspension_lift_reason \<Rightarrow> suspension_row \<Rightarrow> suspension_row" where
  "lift_suspension at actor reason r =
     r\<lparr>ps_status := Mitigation_LIFTED, ps_liftedAt := Some at, ps_liftedByAccountId := Some actor,
       ps_liftedReasonCode := Some reason, ps_activeForParticipantId := None\<rparr>"

definition lift_suspension_row ::
  "ident \<Rightarrow> instant \<Rightarrow> ident \<Rightarrow> suspension_lift_reason \<Rightarrow> 'a participation_tables_scheme \<Rightarrow> 'a participation_tables_scheme" where
  "lift_suspension_row i at actor reason db =
     db\<lparr>suspensions := update_where (\<lambda>r. ps_id r = i \<and> ps_status r = Mitigation_ACTIVE)
          (lift_suspension at actor reason) (suspensions db)\<rparr>"

definition reinstate_status ::
  "ident \<Rightarrow> participant_status \<Rightarrow> participant_status \<Rightarrow> 'a participation_tables_scheme \<Rightarrow> 'a participation_tables_scheme" where
  "reinstate_status p current before db =
     (case reinstatementTargetStatus current (activeRestrictionCount db p) before of
        None \<Rightarrow> db | Some t \<Rightarrow> set_status p t db)"

definition reinstateParticipant ::
  "ident \<Rightarrow> ident \<Rightarrow> suspension_lift_reason \<Rightarrow> ident \<Rightarrow> instant \<Rightarrow> 'a participation_tables_scheme \<Rightarrow>
   ('a participation_tables_scheme \<times> suspension_row \<times> participant_status) res" where
  "reinstateParticipant obligationId suspensionId reason actor at db =
     chain (assertParticipantMitigationAuthorizedInTx db) (\<lambda>_.
     chain (assertSuspensionAuthority db actor) (\<lambda>_.
     case find_suspension db suspensionId of None \<Rightarrow> Inl (part_err ''SUSPENSION_NOT_FOUND'')
     | Some existing \<Rightarrow>
        (case find_participant db (ps_participantId existing) of None \<Rightarrow> Inl (part_err ''NOT_FOUND'')
         | Some p \<Rightarrow>
            if pa_accountId p = actor then Inl (part_err ''SUSPENSION_SELF_ACTION_NOT_PERMITTED'')
            else if count_where (\<lambda>r. ps_id r = suspensionId \<and> ps_status r = Mitigation_ACTIVE) (suspensions db) \<noteq> 1
            then Inl (part_err ''SUSPENSION_ALREADY_LIFTED'')
            else
              chain (recordParticipantDecisionNoticeInTx obligationId (ps_participantId existing) suspensionId
                       ''SUSPENSION_LIFTED'' at
                       (reinstate_status (ps_participantId existing) (pa_status p) (ps_statusBeforeSuspension existing)
                         (lift_suspension_row suspensionId at actor reason db))) (\<lambda>db3.
              chain (suspension_snapshot suspensionId db3) (\<lambda>s. Inr (db3, s))))))"

section \<open>Closure\<close>

fun closure_catch :: "'b res \<Rightarrow> 'b res" where
  "closure_catch (Inr x) = Inr x"
| "closure_catch (Inl e) =
     (if own_codes [''PARTICIPANT_CLOSURE_NOT_FOUND'', ''PARTICIPANT_ALREADY_CLOSED'', ''PARTICIPANT_CLOSURE_REQUEST_INVALID'',
           ''PARTICIPANT_LIFECYCLE_TERMINATED''] e then Inl e
      else if e = UniqueViolation ''ParticipantClosure'' \<or> e = UniqueViolation ''NotificationObligation''
      then Inl (part_err ''PARTICIPANT_ALREADY_CLOSED'')
      else Inl (part_err ''PARTICIPANT_CLOSURE_PERSISTENCE_FAILURE''))"

definition closeParticipant ::
  "ident \<Rightarrow> ident \<Rightarrow> ident \<Rightarrow> ident \<Rightarrow> closure_reason \<Rightarrow> instant \<Rightarrow> 'a participation_tables_scheme \<Rightarrow>
   ('a participation_tables_scheme \<times> closure_row) res" where
  "closeParticipant closureId obligationId participantId actor reason at db =
     closure_catch
       (case find_participant db participantId of None \<Rightarrow> Inl (part_err ''PARTICIPANT_CLOSURE_NOT_FOUND'')
        | Some p \<Rightarrow>
            if pa_accountId p \<noteq> actor then Inl (part_err ''PARTICIPANT_CLOSURE_NOT_FOUND'')
            else if \<not> permitsClosure (pa_status p) then Inl (part_err ''PARTICIPANT_ALREADY_CLOSED'')
            else if \<not> isValidParticipantTransition (pa_status p) Part_CLOSED then Inl (part_err ''PARTICIPANT_ALREADY_CLOSED'')
            else
              let row = \<lparr>pc_id = closureId, pc_participantId = participantId, pc_closedByAccountId = actor,
                         pc_reasonCode = reason, pc_statusBeforeClosure = pa_status p, pc_closedAt = at\<rparr> in
              if pc_participantId row \<in> pc_participantId ` set (closures db) \<or> pc_id row \<in> pc_id ` set (closures db)
              then Inl (UniqueViolation ''ParticipantClosure'')
              else
                chain (recordParticipantDecisionNoticeInTx obligationId participantId closureId ''PARTICIPANT_CLOSED'' at
                         (set_status participantId Part_CLOSED (db\<lparr>closures := closures db @ [row]\<rparr>))) (\<lambda>db1.
                Inr (db1, row)))"

definition assertParticipantLifecycleIsLive :: "'a participation_tables_scheme \<Rightarrow> ident \<Rightarrow> unit res" where
  "assertParticipantLifecycleIsLive db participantId =
     (case find_participant db participantId of None \<Rightarrow> Inr ()
      | Some p \<Rightarrow> require (\<not> isTerminalParticipantStatus (pa_status p)) (part_err ''PARTICIPANT_LIFECYCLE_TERMINATED''))"

definition readParticipantClosure :: "ident \<Rightarrow> 'a participation_tables_scheme \<Rightarrow> closure_row option" where
  "readParticipantClosure participantId db = List.find (\<lambda>r. pc_participantId r = participantId) (closures db)"

section \<open>Standing\<close>

definition readParticipantStanding :: "'a participation_tables_scheme \<Rightarrow> ident \<Rightarrow> participant_standing" where
  "readParticipantStanding db participantId =
     \<lparr>psg_suspended = (activeSuspensionCount db participantId > 0),
      psg_activeScopes = uniq (map pr_scope (filter (\<lambda>r. pr_participantId r = participantId \<and> pr_status r = Mitigation_ACTIVE)
         (restrictions db)))\<rparr>"

definition assertParticipantMayPerform ::
  "'a participation_tables_scheme \<Rightarrow> ident \<Rightarrow> restriction_scope list \<Rightarrow> unit res" where
  "assertParticipantMayPerform db participantId requiredScopes =
     require (evaluateParticipantAction (readParticipantStanding db participantId) requiredScopes = None)
       (part_err ''PARTICIPANT_ACTION_NOT_PERMITTED'')"

definition assertStorefrontMayBecomeOperational :: "'a participation_tables_scheme \<Rightarrow> ident \<Rightarrow> unit res" where
  "assertStorefrontMayBecomeOperational db p = assertParticipantMayPerform db p [Scope_storefront_activate]"

definition assertOfferMayBecomeCommerciallyLive :: "'a participation_tables_scheme \<Rightarrow> ident \<Rightarrow> unit res" where
  "assertOfferMayBecomeCommerciallyLive db p = assertParticipantMayPerform db p [Scope_offer_publish]"

definition readProductActivationStanding :: "'a participation_tables_scheme \<Rightarrow> ident \<Rightarrow> bool \<times> bool" where
  "readProductActivationStanding db p =
     (let standing = readParticipantStanding db p in
      (psg_suspended standing, Scope_product_activate \<in> set (psg_activeScopes standing)))"

definition assertListingMayBecomeOperational :: "'a participation_tables_scheme \<Rightarrow> ident \<Rightarrow> unit res" where
  "assertListingMayBecomeOperational db p =
     (let standing = readParticipantStanding db p in
      if psg_suspended standing then Inl (part_err ''PARTICIPANT_ACTION_NOT_PERMITTED'')
      else if psg_activeScopes standing \<noteq> [] then Inl (part_err ''PARTICIPANT_ACTION_NOT_PERMITTED'')
      else Inr ())"

definition isParticipantSuspended :: "'a participation_tables_scheme \<Rightarrow> ident \<Rightarrow> bool" where
  "isParticipantSuspended db p = psg_suspended (readParticipantStanding db p)"

definition assertParticipantMayAuthorMarketplaceState :: "'a participation_tables_scheme \<Rightarrow> ident \<Rightarrow> unit res" where
  "assertParticipantMayAuthorMarketplaceState db p =
     require (\<not> isParticipantSuspended db p) (part_err ''PARTICIPANT_ACTION_NOT_PERMITTED'')"

text \<open>Every party, in order; the first refusal is thrown.\<close>

fun assertPartiesMayTransact ::
  "'a participation_tables_scheme \<Rightarrow> (ident \<times> marketplace_role) list \<Rightarrow> unit res" where
  "assertPartiesMayTransact db [] = Inr ()"
| "assertPartiesMayTransact db ((p, role) # ps) =
     chain (assertParticipantMayPerform db p (commerceBlockingScopesForRole role)) (\<lambda>_. assertPartiesMayTransact db ps)"

end
