(* ===== verification/Seller_Refund_Policy_Service.thy ===== *)
theory Seller_Refund_Policy_Service
  imports Seller_Refund_Policy Participation
begin

text \<open>
  \<open>src/server/marketplace/seller-refund-policy-service.ts\<close>: registering, recording, activating
  and reading the versions of a seller's refund policy.  Who acts for a seller is read as
  \<open>readActingAccountRows\<close> reads it, from the account and its participant.  The document column holds the parsed JSON,
  \<open>None\<close> when \<open>JSON.parse\<close> fails on it.
\<close>

section \<open>State\<close>

record seller_refund_policy =
  srp_id :: ident
  srp_sellerParticipantId :: ident
  srp_label :: string
  srp_createdAt :: instant

record refund_policy_version =
  rpv_seq :: nat
  rpv_policyId :: ident
  rpv_policyVersion :: string
  rpv_sellerParticipantId :: ident
  rpv_status :: policy_status
  rpv_refundsAllowed :: bool
  rpv_eligibilityConditions :: string
  rpv_refundWindowDays :: "int option"
  rpv_shippingRefundability :: shipping_refundability
  rpv_procedureKind :: refund_procedure
  rpv_documentJson :: "policy_document option"
  rpv_contentHash :: string
  rpv_effectiveFrom :: instant
  rpv_recordedByAccountId :: ident
  rpv_recordedAt :: instant
  rpv_activatedAt :: "instant option"
  rpv_retiredAt :: "instant option"
  rpv_activatedByAccountId :: "ident option"
  rpv_activeMarker :: "ident option"

record refund_policy_tables = participation_tables +
  sellerRefundPolicies :: "seller_refund_policy list"
  refundPolicyVersions :: "refund_policy_version list"

text \<open>The validated version: terms, document and the columns read by callers.\<close>

record refund_policy_record =
  rpr_policyId :: ident
  rpr_policyVersion :: string
  rpr_sellerParticipantId :: ident
  rpr_status :: policy_status
  rpr_terms :: refund_terms
  rpr_document :: policy_document
  rpr_contentHash :: string

type_synonym content_hash = "refund_terms \<Rightarrow> policy_document \<Rightarrow> string"

definition rpv_terms :: "refund_policy_version \<Rightarrow> refund_condition list \<Rightarrow> refund_terms" where
  "rpv_terms row cs = \<lparr>rt_refundsAllowed = rpv_refundsAllowed row, rt_eligibilityConditions = cs,
     rt_refundWindowDays = rpv_refundWindowDays row,
     rt_shippingRefundability = rpv_shippingRefundability row, rt_procedureKind = rpv_procedureKind row\<rparr>"

definition CORRUPT_SELLER_REFUND_POLICY :: err where
  "CORRUPT_SELLER_REFUND_POLICY = SellerRefundPolicyError ''CORRUPT_SELLER_REFUND_POLICY''"

definition refund_policy_rowToRecord ::
  "content_hash \<Rightarrow> refund_policy_version \<Rightarrow> refund_policy_record res" where
  "refund_policy_rowToRecord canonicalHash row =
     (case rpv_documentJson row of None \<Rightarrow> Inl CORRUPT_SELLER_REFUND_POLICY
      | Some document \<Rightarrow>
          (case load_conditions (rpv_eligibilityConditions row) of None \<Rightarrow> Inl CORRUPT_SELLER_REFUND_POLICY
           | Some cs \<Rightarrow>
               let terms = rpv_terms row cs in
               if \<not> (SellerRefundTerms terms \<and> SellerRefundPolicyDocument document \<and>
                     version_ref (rpv_policyVersion row) \<and> source_ref (rpv_recordedByAccountId row))
               then Inl CORRUPT_SELLER_REFUND_POLICY
               else if canonicalHash terms document \<noteq> rpv_contentHash row
               then Inl (SellerRefundPolicyError ''SELLER_REFUND_POLICY_CONTENT_MOVED'')
               else Inr \<lparr>rpr_policyId = rpv_policyId row, rpr_policyVersion = rpv_policyVersion row,
                         rpr_sellerParticipantId = rpv_sellerParticipantId row,
                         rpr_status = rpv_status row, rpr_terms = terms, rpr_document = document,
                         rpr_contentHash = rpv_contentHash row\<rparr>))"

section \<open>Operations\<close>

definition assertActsForSeller ::
  "'a refund_policy_tables_scheme \<Rightarrow> ident \<Rightarrow> ident \<Rightarrow> unit res" where
  "assertActsForSeller db actor seller =
     (let refused = Inl (SellerRefundPolicyError ''SELLER_REFUND_POLICY_ACTOR_NOT_AUTHORIZED'') in
      case find_account db actor of None \<Rightarrow> refused
      | Some account \<Rightarrow>
          (case find_account_participant db actor of None \<Rightarrow> refused
           | Some participant \<Rightarrow>
               if acc_status account \<noteq> Account_ACTIVE then refused
               else if pa_id participant \<noteq> seller then refused else Inr ()))"

definition ensureSellerRefundPolicy ::
  "ident \<Rightarrow> ident \<Rightarrow> string \<Rightarrow> instant \<Rightarrow> ident \<Rightarrow> 'a refund_policy_tables_scheme \<Rightarrow>
   ('a refund_policy_tables_scheme \<times> ident) res" where
  "ensureSellerRefundPolicy newId seller label now actor db =
     chain (assertActsForSeller db actor seller) (\<lambda>_.
       case List.find (\<lambda>p. srp_sellerParticipantId p = seller) (sellerRefundPolicies db) of
         Some existing \<Rightarrow> Inr (db, srp_id existing)
       | None \<Rightarrow>
           (case insert_unique srp_id \<lparr>srp_id = newId, srp_sellerParticipantId = seller,
                   srp_label = label, srp_createdAt = now\<rparr> (sellerRefundPolicies db) of
              None \<Rightarrow> Inl (UniqueViolation ''SellerRefundPolicy'')
            | Some ps \<Rightarrow> Inr (db\<lparr>sellerRefundPolicies := ps\<rparr>, newId)))"

record refund_policy_input =
  rpi_policyId :: ident
  rpi_policyVersion :: string
  rpi_sellerParticipantId :: ident
  rpi_terms :: refund_terms
  rpi_document :: policy_document
  rpi_effectiveFrom :: instant
  rpi_recordedByAccountId :: ident
  rpi_recordedAt :: instant

definition rpv_key :: "refund_policy_version \<Rightarrow> ident \<times> string" where
  "rpv_key v = (rpv_policyId v, rpv_policyVersion v)"

definition is_policy_error :: "err \<Rightarrow> bool" where
  "is_policy_error e = (case e of SellerRefundPolicyError _ \<Rightarrow> True | _ \<Rightarrow> False)"

definition refund_policy_draft :: "content_hash \<Rightarrow> refund_policy_input \<Rightarrow> nat \<Rightarrow> refund_policy_version" where
  "refund_policy_draft canonicalHash i seq =
     (let t = rpi_terms i in
      \<lparr>rpv_seq = seq, rpv_policyId = rpi_policyId i, rpv_policyVersion = rpi_policyVersion i,
       rpv_sellerParticipantId = rpi_sellerParticipantId i, rpv_status = Policy_DRAFT,
       rpv_refundsAllowed = rt_refundsAllowed t,
       rpv_eligibilityConditions = store_conditions (rt_eligibilityConditions t),
       rpv_refundWindowDays = rt_refundWindowDays t,
       rpv_shippingRefundability = rt_shippingRefundability t,
       rpv_procedureKind = rt_procedureKind t, rpv_documentJson = Some (rpi_document i),
       rpv_contentHash = canonicalHash t (rpi_document i),
       rpv_effectiveFrom = rpi_effectiveFrom i,
       rpv_recordedByAccountId = rpi_recordedByAccountId i, rpv_recordedAt = rpi_recordedAt i,
       rpv_activatedAt = None, rpv_retiredAt = None, rpv_activatedByAccountId = None,
       rpv_activeMarker = None\<rparr>)"

definition recordSellerRefundPolicyVersion ::
  "content_hash \<Rightarrow> refund_policy_input \<Rightarrow> 'a refund_policy_tables_scheme \<Rightarrow>
   ('a refund_policy_tables_scheme \<times> refund_policy_record) res" where
  "recordSellerRefundPolicyVersion canonicalHash i db =
     chain (assertActsForSeller db (rpi_recordedByAccountId i) (rpi_sellerParticipantId i)) (\<lambda>_.
     chain (require (SellerRefundTerms (rpi_terms i)) ZodError) (\<lambda>_.
     chain (require (SellerRefundPolicyDocument (rpi_document i)) ZodError) (\<lambda>_.
       if length (sellerRefundPolicyIssues (rpi_terms i) (rpi_document i)) > 0
       then Inl (SellerRefundPolicyError ''SELLER_REFUND_POLICY_INCOHERENT'')
       else
         let row = refund_policy_draft canonicalHash i (length (refundPolicyVersions db))
         in rethrow_own is_policy_error (SellerRefundPolicyError ''SELLER_REFUND_POLICY_PERSISTENCE_FAILURE'')
              (if rpi_policyId i \<notin> srp_id ` set (sellerRefundPolicies db)
               then Inl (UniqueViolation ''SellerRefundPolicy'')
               else case insert_unique rpv_key row (refundPolicyVersions db) of
                 None \<Rightarrow> Inl (UniqueViolation ''SellerRefundPolicyVersionRow'')
               | Some vs \<Rightarrow> chain (refund_policy_rowToRecord canonicalHash row)
                              (\<lambda>r. Inr (db\<lparr>refundPolicyVersions := vs\<rparr>, r))))))"

definition retire_refund_version :: "instant \<Rightarrow> refund_policy_version \<Rightarrow> refund_policy_version" where
  "retire_refund_version at v =
     v\<lparr>rpv_status := Policy_RETIRED, rpv_retiredAt := Some at, rpv_activeMarker := None\<rparr>"

definition activate_refund_version ::
  "ident \<Rightarrow> instant \<Rightarrow> ident \<Rightarrow> refund_policy_version \<Rightarrow> refund_policy_version" where
  "activate_refund_version pid at actor v =
     v\<lparr>rpv_status := Policy_ACTIVE, rpv_activatedAt := Some at, rpv_activeMarker := Some pid,
       rpv_activatedByAccountId := Some actor\<rparr>"

text \<open>The transaction: the standing version is retired first, the target is read after that, and
  any refusal rolls both back.\<close>

definition retire_current :: "ident \<Rightarrow> instant \<Rightarrow> refund_policy_version list \<Rightarrow> refund_policy_version list" where
  "retire_current pid at vs =
     (case List.find (\<lambda>v. rpv_policyId v = pid \<and> rpv_status v = Policy_ACTIVE) vs of
        None \<Rightarrow> vs
      | Some current \<Rightarrow> update_where (\<lambda>v. rpv_seq v = rpv_seq current) (retire_refund_version at) vs)"

definition activateSellerRefundPolicyVersion ::
  "content_hash \<Rightarrow> ident \<Rightarrow> string \<Rightarrow> instant \<Rightarrow> ident \<Rightarrow> 'a refund_policy_tables_scheme \<Rightarrow>
   ('a refund_policy_tables_scheme \<times> refund_policy_record) res" where
  "activateSellerRefundPolicyVersion canonicalHash pid ver at actor db =
     (case List.find (\<lambda>p. srp_id p = pid) (sellerRefundPolicies db) of
        None \<Rightarrow> Inl (SellerRefundPolicyError ''SELLER_REFUND_POLICY_NOT_FOUND'')
      | Some owner \<Rightarrow>
          chain (assertActsForSeller db actor (srp_sellerParticipantId owner)) (\<lambda>_.
            let vs = retire_current pid at (refundPolicyVersions db) in
            case List.find (\<lambda>v. rpv_key v = (pid, ver)) vs of
              None \<Rightarrow> Inl (SellerRefundPolicyError ''SELLER_REFUND_POLICY_VERSION_NOT_FOUND'')
            | Some target \<Rightarrow>
                if rpv_status target = Policy_RETIRED
                then Inl (SellerRefundPolicyError ''SELLER_REFUND_POLICY_VERSION_RETIRED'')
                else if list_ex (\<lambda>v. rpv_seq v \<noteq> rpv_seq target \<and> rpv_activeMarker v = Some pid) vs
                then Inl (UniqueViolation ''SellerRefundPolicyVersionRow'')
                else
                  let row = activate_refund_version pid at actor target;
                      vs' = update_where (\<lambda>v. rpv_seq v = rpv_seq target) (activate_refund_version pid at actor) vs
                  in chain (refund_policy_rowToRecord canonicalHash row)
                       (\<lambda>r. Inr (db\<lparr>refundPolicyVersions := vs'\<rparr>, r))))"

definition getActiveSellerRefundPolicyVersionIn ::
  "content_hash \<Rightarrow> 'a refund_policy_tables_scheme \<Rightarrow> ident \<Rightarrow> refund_policy_record option res" where
  "getActiveSellerRefundPolicyVersionIn canonicalHash db seller =
     (case List.find (\<lambda>v. rpv_sellerParticipantId v = seller \<and> rpv_status v = Policy_ACTIVE)
             (refundPolicyVersions db) of
        None \<Rightarrow> Inr None
      | Some row \<Rightarrow> chain (refund_policy_rowToRecord canonicalHash row) (\<lambda>r. Inr (Some r)))"

definition readSellerRefundPolicyVersionIn ::
  "content_hash \<Rightarrow> 'a refund_policy_tables_scheme \<Rightarrow> ident \<Rightarrow> string \<Rightarrow> refund_policy_record option res" where
  "readSellerRefundPolicyVersionIn canonicalHash db pid ver =
     (case List.find (\<lambda>v. rpv_key v = (pid, ver)) (refundPolicyVersions db) of
        None \<Rightarrow> Inr None
      | Some row \<Rightarrow> chain (refund_policy_rowToRecord canonicalHash row) (\<lambda>r. Inr (Some r)))"

end
