(* ===== verification/Seller_Refund_Policy_Facts.thy ===== *)
theory Seller_Refund_Policy_Facts
  imports Seller_Refund_Policy_Service
begin

text \<open>
  Facts about versioned policies.  The locale \<open>version_rows\<close> is the contract both versioned
  policies of the program meet, the commercial one and the seller's: an append adds an inactive
  row, an activation retires the standing row and activates the target.  It yields the single
  active version; the rest of the theory is the permanence of recorded refund terms.
\<close>

section \<open>Single active version\<close>

locale version_rows =
  fixes seq :: "'v \<Rightarrow> nat" and owner :: "'v \<Rightarrow> ident" and active :: "'v \<Rightarrow> bool"
    and retire :: "'v \<Rightarrow> 'v" and activate :: "'v \<Rightarrow> 'v"
  assumes seq_retire: "seq (retire v) = seq v" and seq_activate: "seq (activate v) = seq v"
    and owner_retire: "owner (retire v) = owner v" and owner_activate: "owner (activate v) = owner v"
    and retire_inactive: "\<not> active (retire v)"
begin

definition single_active :: "'v list \<Rightarrow> bool" where
  "single_active vs \<longleftrightarrow> unique_on seq vs \<and>
     (\<forall>v\<in>set vs. \<forall>w\<in>set vs. active v \<longrightarrow> active w \<longrightarrow> owner v = owner w \<longrightarrow> v = w)"

lemma single_active_count: "single_active vs \<Longrightarrow> count_where (\<lambda>v. owner v = k \<and> active v) vs \<le> 1"
  by (rule count_where_le_1) (auto simp: single_active_def unique_on_def distinct_map)

lemma single_active_append:
  "single_active vs \<Longrightarrow> \<not> active row \<Longrightarrow> seq row \<notin> seq ` set vs \<Longrightarrow> single_active (vs @ [row])"
  by (auto simp: single_active_def)

lemma single_active_retire:
  assumes "single_active vs"
  shows "single_active (update_where P retire vs)"
proof -
  have rows: "v \<in> set vs" if "v \<in> set (update_where P retire vs)" "active v" for v
    using that retire_inactive by (auto elim: in_update_where_E)
  have "unique_on seq (update_where P retire vs)"
    using assms by (simp add: single_active_def unique_on_update_where seq_retire)
  moreover have "v = w" if "v \<in> set (update_where P retire vs)" "w \<in> set (update_where P retire vs)"
    "active v" "active w" "owner v = owner w" for v w
    using rows[OF that(1,3)] rows[OF that(2,4)] that(3-5) assms by (simp add: single_active_def)
  ultimately show ?thesis by (simp add: single_active_def)
qed

lemma single_active_activate:
  assumes sa: "single_active vs" and t: "t \<in> set vs"
    and none: "\<forall>v\<in>set vs. owner v = owner t \<longrightarrow> \<not> active v"
  shows "single_active (update_where (\<lambda>v. seq v = seq t) activate vs)"
proof -
  have same: "v = t" if "v \<in> set vs" "seq v = seq t" for v
    using sa t that unique_on_eq by (fastforce simp: single_active_def)
  have rows: "v = activate t \<or> v \<in> set vs \<and> v \<noteq> t"
    if "v \<in> set (update_where (\<lambda>v. seq v = seq t) activate vs)" for v
    using that
  proof (cases rule: in_update_where_E)
    case old
    then show ?thesis by auto
  next
    case (new u)
    then show ?thesis using same by metis
  qed
  have "unique_on seq (update_where (\<lambda>v. seq v = seq t) activate vs)"
    using sa by (auto simp: single_active_def intro!: unique_on_update_where seq_activate)
  moreover have "v = w" if "v \<in> set (update_where (\<lambda>v. seq v = seq t) activate vs)"
    "w \<in> set (update_where (\<lambda>v. seq v = seq t) activate vs)" "active v" "active w" "owner v = owner w" for v w
    using rows[OF that(1)] rows[OF that(2)] that(3-5) none sa
    by (auto simp: owner_activate single_active_def)
  ultimately show ?thesis by (simp add: single_active_def)
qed

text \<open>An activation retires the standing row of the owner first.\<close>

definition retire_standing :: "ident \<Rightarrow> 'v list \<Rightarrow> 'v list" where
  "retire_standing k vs = (case List.find (\<lambda>v. owner v = k \<and> active v) vs of None \<Rightarrow> vs
     | Some c \<Rightarrow> update_where (\<lambda>v. seq v = seq c) retire vs)"

lemma map_retire_standing: "(\<And>v. g (retire v) = g v) \<Longrightarrow> map g (retire_standing k vs) = map g vs"
  by (simp add: retire_standing_def map_update_where split: option.split)

lemma retire_standing_single:
  assumes sa: "single_active vs"
  shows "single_active (retire_standing k vs)" and "\<forall>v\<in>set (retire_standing k vs). owner v = k \<longrightarrow> \<not> active v"
proof -
  show "single_active (retire_standing k vs)"
    using sa single_active_retire[OF sa] by (simp add: retire_standing_def split: option.split)
  show "\<forall>v\<in>set (retire_standing k vs). owner v = k \<longrightarrow> \<not> active v"
  proof (cases "List.find (\<lambda>v. owner v = k \<and> active v) vs")
    case None
    then have "retire_standing k vs = vs" by (simp add: retire_standing_def)
    then show ?thesis using None by (auto simp: find_None_iff)
  next
    case (Some c)
    then have c: "c \<in> set vs" "owner c = k" "active c" using find_Some_set[OF Some] by auto
    then have "v = c" if "v \<in> set vs" "owner v = k" "active v" for v
      using sa that unfolding single_active_def by metis
    then show ?thesis using Some retire_inactive by (auto simp: retire_standing_def set_update_where)
  qed
qed

lemma activation_single:
  assumes "single_active vs" and "t \<in> set (retire_standing (owner t) vs)"
  shows "single_active (update_where (\<lambda>v. seq v = seq t) activate (retire_standing (owner t) vs))"
  using retire_standing_single[OF assms(1)] assms(2) by (intro single_active_activate) auto

end

interpretation commercial: version_rows pv_seq pv_policyId "\<lambda>v. pv_status v = Policy_ACTIVE"
  "retire_version actor at" "activate_version actor at" for actor at
  by unfold_locales (simp_all add: retire_version_def activate_version_def)

interpretation refund_terms_rows: version_rows rpv_seq rpv_policyId "\<lambda>v. rpv_status v = Policy_ACTIVE"
  "retire_refund_version at" "activate_refund_version pid at actor" for pid at actor
  by unfold_locales (simp_all add: retire_refund_version_def activate_refund_version_def)

section \<open>Rows after an operation\<close>

lemma retire_refund_version_keys [simp]:
  "rpv_seq (retire_refund_version at v) = rpv_seq v"
  "rpv_key (retire_refund_version at v) = rpv_key v"
  "rpv_policyId (retire_refund_version at v) = rpv_policyId v"
  "rpv_status (retire_refund_version at v) = Policy_RETIRED"
  by (simp_all add: retire_refund_version_def rpv_key_def)

lemma activate_refund_version_keys [simp]:
  "rpv_seq (activate_refund_version pid at actor v) = rpv_seq v"
  "rpv_key (activate_refund_version pid at actor v) = rpv_key v"
  "rpv_policyId (activate_refund_version pid at actor v) = rpv_policyId v"
  "rpv_status (activate_refund_version pid at actor v) = Policy_ACTIVE"
  by (simp_all add: activate_refund_version_def rpv_key_def)

text \<open>What a version says, apart from whether it is in force.\<close>

definition rpv_facts where
  "rpv_facts v = (rpv_key v, rpv_sellerParticipantId v, rpv_terms v [], rpv_eligibilityConditions v,
     rpv_documentJson v, rpv_contentHash v, rpv_recordedByAccountId v)"

lemma rpv_facts_standing [simp]:
  "rpv_facts (retire_refund_version at v) = rpv_facts v"
  "rpv_facts (activate_refund_version pid at actor v) = rpv_facts v"
  by (simp_all add: rpv_facts_def retire_refund_version_def activate_refund_version_def rpv_key_def rpv_terms_def)

definition rpr_says where
  "rpr_says r = (rpr_policyId r, rpr_policyVersion r, rpr_sellerParticipantId r, rpr_terms r,
     rpr_document r, rpr_contentHash r)"

lemma rowToRecord_same_facts:
  assumes "rpv_facts v = rpv_facts w" and "refund_policy_rowToRecord h v = Inr r"
  shows "\<exists>r'. refund_policy_rowToRecord h w = Inr r' \<and> rpr_says r' = rpr_says r"
  using assms
  by (auto simp: refund_policy_rowToRecord_def Let_def rpv_facts_def rpv_key_def rpv_terms_def rpr_says_def
      split: option.splits if_split_asm)

lemma retire_current_standing: "retire_current pid at vs =
    version_rows.retire_standing rpv_seq rpv_policyId (\<lambda>v. rpv_status v = Policy_ACTIVE) (retire_refund_version at) pid vs"
  by (simp add: retire_current_def refund_terms_rows.retire_standing_def split: option.split)

lemma retire_current_facts [simp]: "map rpv_facts (retire_current pid at vs) = map rpv_facts vs"
  by (simp add: retire_current_standing refund_terms_rows.map_retire_standing)

lemma retire_current_single:
  assumes "refund_terms_rows.single_active vs"
  shows "refund_terms_rows.single_active (retire_current pid at vs)"
    and "\<forall>v\<in>set (retire_current pid at vs). rpv_policyId v = pid \<longrightarrow> rpv_status v \<noteq> Policy_ACTIVE"
  using refund_terms_rows.retire_standing_single[OF assms] by (simp_all add: retire_current_standing)

lemma refund_policy_draft_fields [simp]:
  "rpv_status (refund_policy_draft h i n) = Policy_DRAFT"
  "rpv_seq (refund_policy_draft h i n) = n"
  "rpv_key (refund_policy_draft h i n) = (rpi_policyId i, rpi_policyVersion i)"
  "rpv_sellerParticipantId (refund_policy_draft h i n) = rpi_sellerParticipantId i"
  by (simp_all add: refund_policy_draft_def Let_def rpv_key_def)

lemma refund_policy_draft_reads:
  assumes "refund_policy_rowToRecord h (refund_policy_draft h i n) = Inr r"
  shows "rpr_says r = (rpi_policyId i, rpi_policyVersion i, rpi_sellerParticipantId i, rpi_terms i,
     rpi_document i, h (rpi_terms i) (rpi_document i))"
proof -
  have "load_conditions (store_conditions cs) = Some cs" for cs by (rule conditions_roundtrip)
  moreover have "rpv_terms (refund_policy_draft h i n) (rt_eligibilityConditions (rpi_terms i)) = rpi_terms i"
    by (simp add: rpv_terms_def refund_policy_draft_def Let_def)
  ultimately show ?thesis using assms
    by (auto simp: refund_policy_rowToRecord_def refund_policy_draft_def Let_def rpr_says_def split: if_split_asm)
qed

lemma recordSellerRefundPolicyVersion_row:
  assumes "recordSellerRefundPolicyVersion h i db = Inr (db', r)"
  shows "insert_unique rpv_key (refund_policy_draft h i (length (refundPolicyVersions db))) (refundPolicyVersions db)
       = Some (refundPolicyVersions db') \<and>
     refund_policy_rowToRecord h (refund_policy_draft h i (length (refundPolicyVersions db))) = Inr r \<and>
     documentAgreesWithTerms (rpi_terms i) (rpi_document i) \<and>
     assertActsForSeller db (rpi_recordedByAccountId i) (rpi_sellerParticipantId i) = Inr () \<and>
     sellerRefundPolicies db' = sellerRefundPolicies db \<and> actingAccounts db' = actingAccounts db \<and>
     participants db' = participants db"
  using assms
  by (auto simp: recordSellerRefundPolicyVersion_def Let_def chain_Inr_iff documentAgreesWithTerms_def
      split: if_split_asm option.split_asm)

lemma activateSellerRefundPolicyVersion_row:
  assumes "activateSellerRefundPolicyVersion h pid ver at actor db = Inr (db', r)"
  shows "\<exists>target owner. target \<in> set (retire_current pid at (refundPolicyVersions db)) \<and>
     rpv_key target = (pid, ver) \<and> rpv_status target \<noteq> Policy_RETIRED \<and>
     refundPolicyVersions db' = update_where (\<lambda>v. rpv_seq v = rpv_seq target)
       (activate_refund_version pid at actor) (retire_current pid at (refundPolicyVersions db)) \<and>
     owner \<in> set (sellerRefundPolicies db) \<and> srp_id owner = pid \<and>
     assertActsForSeller db actor (srp_sellerParticipantId owner) = Inr () \<and>
     sellerRefundPolicies db' = sellerRefundPolicies db \<and> actingAccounts db' = actingAccounts db \<and>
     participants db' = participants db"
proof -
  obtain owner where o: "List.find (\<lambda>p. srp_id p = pid) (sellerRefundPolicies db) = Some owner"
    using assms by (auto simp: activateSellerRefundPolicyVersion_def split: option.split_asm)
  obtain target where t:
    "List.find (\<lambda>v. rpv_key v = (pid, ver)) (retire_current pid at (refundPolicyVersions db)) = Some target"
    using assms o by (auto simp: activateSellerRefundPolicyVersion_def chain_Inr_iff Let_def split: option.split_asm)
  show ?thesis
    by (rule exI[of _ target], rule exI[of _ owner])
      (use assms o t find_Some_set[OF o] find_Some_set[OF t] in
        \<open>auto simp: activateSellerRefundPolicyVersion_def chain_Inr_iff Let_def split: if_split_asm\<close>)
qed

section \<open>Histories\<close>

inductive refund_policy_step ::
  "content_hash \<Rightarrow> 'a refund_policy_tables_scheme \<Rightarrow> 'a refund_policy_tables_scheme \<Rightarrow> bool" for h where
  ensured: "ensureSellerRefundPolicy newId seller label now actor db = Inr (db', pid) \<Longrightarrow>
     refund_policy_step h db db'"
| recorded: "recordSellerRefundPolicyVersion h i db = Inr (db', r) \<Longrightarrow> refund_policy_step h db db'"
| activated: "activateSellerRefundPolicyVersion h pid ver at actor db = Inr (db', r) \<Longrightarrow>
     refund_policy_step h db db'"

definition refund_policy_inv :: "'a refund_policy_tables_scheme \<Rightarrow> bool" where
  "refund_policy_inv db \<longleftrightarrow> refund_terms_rows.single_active (refundPolicyVersions db) \<and>
     unique_on rpv_key (refundPolicyVersions db) \<and>
     (\<forall>v\<in>set (refundPolicyVersions db). rpv_seq v < length (refundPolicyVersions db))"

definition facts_extend :: "'a refund_policy_tables_scheme \<Rightarrow> 'a refund_policy_tables_scheme \<Rightarrow> bool" where
  "facts_extend db db' \<longleftrightarrow>
     (\<exists>new. map rpv_facts (refundPolicyVersions db') = map rpv_facts (refundPolicyVersions db) @ new)"

lemma map_key_facts: "map rpv_key vs = map fst (map rpv_facts vs)"
  by (simp add: rpv_facts_def)

lemma seqs_retire_current [simp]:
  "map rpv_seq (retire_current pid at vs) = map rpv_seq vs"
  "length (retire_current pid at vs) = length vs"
proof -
  show seqs: "map rpv_seq (retire_current pid at vs) = map rpv_seq vs"
    by (simp add: retire_current_standing refund_terms_rows.map_retire_standing)
  show "length (retire_current pid at vs) = length vs" using arg_cong[OF seqs, of length] by simp
qed

lemma bounded_seq_iff: "(\<forall>v\<in>set vs. rpv_seq v < n) \<longleftrightarrow> (\<forall>m\<in>set (map rpv_seq vs). m < n)"
  by simp

lemma refund_policy_step_inv:
  assumes "refund_policy_step h db db'" and "refund_policy_inv db"
  shows "refund_policy_inv db' \<and> facts_extend db db'"
  using assms
proof (induction rule: refund_policy_step.induct)
  case (ensured newId seller label now actor db db' pid)
  then have "refundPolicyVersions db' = refundPolicyVersions db"
    by (auto simp: ensureSellerRefundPolicy_def chain_Inr_iff split: option.split_asm)
  then show ?case using ensured.prems by (auto simp: refund_policy_inv_def facts_extend_def)
next
  case (recorded i db db' r)
  let ?row = "refund_policy_draft h i (length (refundPolicyVersions db))"
  have tab: "refundPolicyVersions db' = refundPolicyVersions db @ [?row]"
    and new: "rpv_key ?row \<notin> rpv_key ` set (refundPolicyVersions db)"
    using recordSellerRefundPolicyVersion_row[OF recorded.hyps] by (auto simp: insert_unique_Some_iff)
  have "refund_terms_rows.single_active (refundPolicyVersions db @ [?row])"
    using recorded.prems by (intro refund_terms_rows.single_active_append) (auto simp: refund_policy_inv_def)
  moreover have "facts_extend db db'" unfolding facts_extend_def tab by simp
  ultimately show ?case using recorded.prems new unfolding refund_policy_inv_def tab
    by (auto simp: less_Suc_eq)
next
  case (activated pid ver at actor db db' r)
  let ?vs = "retire_current pid at (refundPolicyVersions db)"
  obtain t where t: "t \<in> set ?vs" "rpv_key t = (pid, ver)"
    and tab: "refundPolicyVersions db' = update_where (\<lambda>v. rpv_seq v = rpv_seq t)
       (activate_refund_version pid at actor) ?vs"
    using activateSellerRefundPolicyVersion_row[OF activated.hyps] by auto
  have sa: "refund_terms_rows.single_active ?vs"
    and none: "\<forall>v\<in>set ?vs. rpv_policyId v = pid \<longrightarrow> rpv_status v \<noteq> Policy_ACTIVE"
    using retire_current_single activated.prems by (auto simp: refund_policy_inv_def)
  have "refund_terms_rows.single_active (refundPolicyVersions db')"
    unfolding tab using none t(2)
    by (intro refund_terms_rows.single_active_activate sa t(1)) (auto simp: rpv_key_def)
  moreover have facts: "map rpv_facts (refundPolicyVersions db') = map rpv_facts (refundPolicyVersions db)"
    unfolding tab by (simp add: map_update_where)
  moreover have "map rpv_seq (refundPolicyVersions db') = map rpv_seq (refundPolicyVersions db)"
    "length (refundPolicyVersions db') = length (refundPolicyVersions db)"
    unfolding tab by (simp_all add: map_update_where)
  ultimately show ?case using activated.prems
    unfolding refund_policy_inv_def facts_extend_def bounded_seq_iff unique_on_def map_key_facts by auto
qed

lemma refund_policy_steps_inv:
  assumes "(refund_policy_step h)\<^sup>*\<^sup>* db db'" and "refund_policy_inv db"
  shows "refund_policy_inv db' \<and> facts_extend db db'"
  using assms
proof (induction rule: rtranclp_induct)
  case base
  then show ?case by (simp add: facts_extend_def)
next
  case (step y z)
  then show ?case using refund_policy_step_inv[OF step(2)] by (fastforce simp: facts_extend_def)
qed

lemma find_facts:
  assumes "unique_on rpv_key vs'" and "map rpv_facts vs' = map rpv_facts vs @ new" and "v \<in> set vs"
  shows "\<exists>v'. List.find (\<lambda>x. rpv_key x = rpv_key v) vs' = Some v' \<and> rpv_facts v' = rpv_facts v"
proof -
  have "rpv_facts v \<in> set (map rpv_facts vs')" using assms(2,3) by simp
  then obtain v' where v': "v' \<in> set vs'" "rpv_facts v' = rpv_facts v" by auto
  then have "rpv_key v' = rpv_key v" by (simp add: rpv_facts_def)
  then show ?thesis using find_unique[OF assms(1) v'(1)] v'(2) by auto
qed

text \<open>Terms once recorded read back the same after any later history.\<close>

lemma recorded_terms_permanent:
  assumes inv: "refund_policy_inv db"
    and rec: "recordSellerRefundPolicyVersion h i db = Inr (db1, r)"
    and steps: "(refund_policy_step h)\<^sup>*\<^sup>* db1 db2"
  shows "\<exists>r'. readSellerRefundPolicyVersionIn h db2 (rpi_policyId i) (rpi_policyVersion i) = Inr (Some r') \<and>
     rpr_says r' = (rpi_policyId i, rpi_policyVersion i, rpi_sellerParticipantId i, rpi_terms i,
       rpi_document i, h (rpi_terms i) (rpi_document i))"
proof -
  let ?row = "refund_policy_draft h i (length (refundPolicyVersions db))"
  have row: "?row \<in> set (refundPolicyVersions db1)" "refund_policy_rowToRecord h ?row = Inr r"
    using recordSellerRefundPolicyVersion_row[OF rec] by (auto simp: insert_unique_Some_iff)
  have "refund_policy_inv db1" using refund_policy_step_inv[OF refund_policy_step.recorded[OF rec] inv] by simp
  then have inv2: "refund_policy_inv db2" "facts_extend db1 db2"
    using refund_policy_steps_inv[OF steps] by auto
  then obtain new where ext: "map rpv_facts (refundPolicyVersions db2) = map rpv_facts (refundPolicyVersions db1) @ new"
    by (auto simp: facts_extend_def)
  have "unique_on rpv_key (refundPolicyVersions db2)" using inv2(1) by (simp add: refund_policy_inv_def)
  from find_facts[OF this ext row(1)]
  obtain v' where v': "List.find (\<lambda>x. rpv_key x = rpv_key ?row) (refundPolicyVersions db2) = Some v'"
    and facts: "rpv_facts v' = rpv_facts ?row" by blast
  obtain r' where "refund_policy_rowToRecord h v' = Inr r'" "rpr_says r' = rpr_says r"
    using rowToRecord_same_facts[OF facts[symmetric] row(2)] by auto
  then show ?thesis using v' refund_policy_draft_reads[OF row(2)]
    by (simp add: readSellerRefundPolicyVersionIn_def)
qed

text \<open>The hash guards the content: a stored version reads only while the hash of what it says
  is the one it was recorded with.\<close>

lemma read_refund_policy_hash:
  assumes "readSellerRefundPolicyVersionIn h db pid ver = Inr (Some r)"
  shows "h (rpr_terms r) (rpr_document r) = rpr_contentHash r \<and> SellerRefundTerms (rpr_terms r)"
  using assms
  by (auto simp: readSellerRefundPolicyVersionIn_def refund_policy_rowToRecord_def Let_def chain_Inr_iff
      split: option.split_asm if_split_asm)

end
