(* ===== verification/Delivery_Queue.thy ===== *)
theory Delivery_Queue
  imports Seller_Refund_Policy_Facts
begin

text \<open>
  The technique the program's durable work queues share.  A row is due, is claimed by a guarded
  update that stamps a lock token and a lease, and is released either by the worker that holds
  the token or when the lease has expired; a failed attempt is rescheduled by a table of delays
  until the attempts are spent.  \<open>claim_select\<close> and \<open>claim_stamp\<close> are the two statements of a claim,
  kept apart because other workers may run between them.
\<close>

section \<open>Claiming\<close>

definition claim_take :: "int \<Rightarrow> nat" where
  "claim_take limit = nat (max 1 (min limit 100))"

definition claim_select ::
  "('r \<Rightarrow> ident) \<Rightarrow> (instant \<Rightarrow> 'r \<Rightarrow> bool) \<Rightarrow> ('r \<Rightarrow> instant option) \<Rightarrow> instant \<Rightarrow> int \<Rightarrow> 'r list \<Rightarrow> ident list" where
  "claim_select key due nextAt now limit rows =
     map key (take (claim_take limit)
       (sort_key (\<lambda>r. case nextAt r of None \<Rightarrow> 0 | Some t \<Rightarrow> t) (filter (due now) rows)))"

definition claim_stamp ::
  "('r \<Rightarrow> ident) \<Rightarrow> (instant \<Rightarrow> 'r \<Rightarrow> bool) \<Rightarrow> (instant \<Rightarrow> ident \<Rightarrow> 'r \<Rightarrow> 'r) \<Rightarrow> instant \<Rightarrow> ident \<Rightarrow> ident list \<Rightarrow>
   'r list \<Rightarrow> 'r list" where
  "claim_stamp key due stamp now token ids rows =
     update_where (\<lambda>r. key r \<in> set ids \<and> due now r) (stamp now token) rows"

definition claimed_by :: "('r \<Rightarrow> ident option) \<Rightarrow> ident \<Rightarrow> 'r list \<Rightarrow> 'r list" where
  "claimed_by lock token rows = filter (\<lambda>r. lock r = Some token) rows"

definition release_stale :: "(instant \<Rightarrow> 'r \<Rightarrow> bool) \<Rightarrow> (instant \<Rightarrow> 'r \<Rightarrow> 'r) \<Rightarrow> instant \<Rightarrow> 'r list \<Rightarrow> 'r list" where
  "release_stale stale release now rows = update_where (stale now) (release now) rows"

lemma claim_select_due: "i \<in> set (claim_select key due nextAt now limit rows) \<Longrightarrow> \<exists>r\<in>set rows. key r = i \<and> due now r"
  by (auto simp: claim_select_def dest!: in_set_takeD)

lemma claim_select_length: "length (claim_select key due nextAt now limit rows) \<le> 100"
  by (simp add: claim_select_def claim_take_def)

locale lease_queue =
  fixes key :: "'r \<Rightarrow> ident" and due :: "instant \<Rightarrow> 'r \<Rightarrow> bool" and stale :: "instant \<Rightarrow> 'r \<Rightarrow> bool"
    and lock :: "'r \<Rightarrow> ident option" and stamp :: "instant \<Rightarrow> ident \<Rightarrow> 'r \<Rightarrow> 'r"
    and release :: "instant \<Rightarrow> 'r \<Rightarrow> 'r" and lease :: int
  assumes key_stamp: "key (stamp now token r) = key r"
    and key_release: "key (release now r) = key r"
    and lock_stamp: "lock (stamp now token r) = Some token"
    and stamp_not_due: "\<not> due now' (stamp now token r)"
    and due_unlocked: "due now r \<Longrightarrow> lock r = None"
    and lock_release: "lock (release now r) = None"
    and live_not_stale: "now' \<le> now + lease \<Longrightarrow> \<not> stale now' (stamp now token r)"
begin

abbreviation claim where "claim \<equiv> claim_stamp key due stamp"

text \<open>Nobody is claimed who was not due and selected.\<close>

lemma claimed_was_due:
  assumes "r \<in> set (claimed_by lock token (claim now token ids rows))"
    and "\<forall>q\<in>set rows. lock q \<noteq> Some token"
  shows "\<exists>q\<in>set rows. key q = key r \<and> key q \<in> set ids \<and> due now q \<and> r = stamp now token q"
  using assms
  by (auto simp: claimed_by_def claim_stamp_def set_update_where key_stamp split: if_split_asm)

text \<open>A second worker's update, over whatever ids it read before, leaves the first worker's rows
  alone and claims none of them.\<close>

lemma claim_exclusive:
  assumes "r \<in> set (claimed_by lock t1 (claim n1 t1 ids1 rows))" and "t1 \<noteq> t2"
    and "\<forall>q\<in>set rows. lock q \<noteq> Some t1"
  shows "r \<in> set (claimed_by lock t1 (claim n2 t2 ids2 (claim n1 t1 ids1 rows)))"
proof -
  obtain q where "r = stamp n1 t1 q" using claimed_was_due[OF assms(1,3)] by auto
  then have "\<not> due n2 r" by (simp add: stamp_not_due)
  then show ?thesis using assms(1) by (auto simp: claimed_by_def claim_stamp_def set_update_where image_iff)
qed

lemma claims_disjoint:
  assumes "t1 \<noteq> t2"
  shows "set (claimed_by lock t1 rows) \<inter> set (claimed_by lock t2 rows) = {}"
  using assms by (auto simp: claimed_by_def)

text \<open>A live claim is not released.\<close>

lemma live_claim_kept:
  assumes "stamp now token q \<in> set rows" and "now' \<le> now + lease"
  shows "stamp now token q \<in> set (release_stale stale release now' rows)"
  using assms live_not_stale[OF assms(2)] by (auto simp: release_stale_def set_update_where image_iff)

lemma keys_claim: "map key (claim now token ids rows) = map key rows"
  by (simp add: claim_stamp_def map_update_where key_stamp)

lemma keys_release: "map key (release_stale stale release now rows) = map key rows"
  by (simp add: release_stale_def map_update_where key_release)

end

section \<open>Retrying\<close>

text \<open>\<open>delay n\<close> is the delay after \<open>n\<close> attempts already made, \<open>None\<close> when they are spent.\<close>

locale retry_schedule =
  fixes delay :: "nat \<Rightarrow> int option" and attempts :: nat and nextAt :: "nat \<Rightarrow> instant \<Rightarrow> instant option"
  assumes spent_iff: "delay n = None \<longleftrightarrow> attempts \<le> n"
    and delay_positive: "delay n = Some d \<Longrightarrow> 0 < d"
    and delay_mono: "m \<le> n \<Longrightarrow> delay m = Some d \<Longrightarrow> delay n = Some e \<Longrightarrow> d \<le> e"
    and nextAt_delay: "nextAt n at = map_option (\<lambda>d. at + d * 1000) (delay n)"
begin

lemma next_later: "nextAt n at = Some t \<Longrightarrow> at < t"
  using delay_positive by (auto simp: nextAt_delay)

lemma next_spent_iff: "nextAt n at = None \<longleftrightarrow> attempts \<le> n"
  by (simp add: nextAt_delay spent_iff)

lemma next_pending: "nextAt n at \<noteq> None \<Longrightarrow> n < attempts"
  using next_spent_iff[of n at] by (metis not_le)

lemma next_mono:
  "m \<le> n \<Longrightarrow> nextAt m at = Some s \<Longrightarrow> nextAt n at = Some t \<Longrightarrow> s \<le> t"
  using delay_mono by (auto simp: nextAt_delay)

text \<open>The instants of the attempts that follow a first failure, when every attempt fails at once.\<close>

fun attempts_after :: "nat \<Rightarrow> nat \<Rightarrow> instant \<Rightarrow> instant list" where
  "attempts_after 0 n at = []"
| "attempts_after (Suc k) n at = (case nextAt n at of None \<Rightarrow> [] | Some t \<Rightarrow> t # attempts_after k (Suc n) t)"

lemma attempts_after_length: "length (attempts_after k n at) = min k (attempts - n)"
proof (induction k arbitrary: n at)
  case (Suc k)
  then show ?case using next_spent_iff[of n at]
    by (cases "nextAt n at") (auto simp: Suc_diff_Suc)
qed simp

lemma attempts_after_later: "t \<in> set (attempts_after k n at) \<Longrightarrow> at < t"
proof (induction k arbitrary: n at)
  case (Suc k)
  then obtain s where s: "nextAt n at = Some s" "t = s \<or> t \<in> set (attempts_after k (Suc n) s)"
    by (cases "nextAt n at") auto
  then show ?case using next_later[OF s(1)] Suc.IH[of "Suc n" s] by force
qed simp

lemma attempts_after_sorted: "sorted (attempts_after k n at)"
proof (induction k arbitrary: n at)
  case (Suc k)
  then show ?case using attempts_after_later[of _ k "Suc n"]
    by (cases "nextAt n at") (force intro: less_imp_le)+
qed simp

end

end
