(* ===== verification/Order_Contract.thy ===== *)
theory Order_Contract
  imports Delivery_Queue
begin

text \<open>
  Orders: \<open>src/contracts/marketplace/order.ts\<close> and the columns of the \<open>Order\<close> table.  An Order binds
  the exact versions it was sold under and the quote the buyer was shown; its lifecycle has one
  state that is a completed sale.
\<close>

datatype transaction_type = Type_SELLER_DIRECT | Type_PROMOTED

datatype order_lifecycle = PENDING_PAYMENT | Order_PAID | PAYMENT_FAILED | CANCELLED

fun ORDER_LIFECYCLE_TRANSITIONS :: "order_lifecycle \<Rightarrow> order_lifecycle list" where
  "ORDER_LIFECYCLE_TRANSITIONS PENDING_PAYMENT = [Order_PAID, PAYMENT_FAILED, CANCELLED]"
| "ORDER_LIFECYCLE_TRANSITIONS Order_PAID = []"
| "ORDER_LIFECYCLE_TRANSITIONS PAYMENT_FAILED = [CANCELLED]"
| "ORDER_LIFECYCLE_TRANSITIONS CANCELLED = []"

definition isValidOrderLifecycleTransition :: "order_lifecycle \<Rightarrow> order_lifecycle \<Rightarrow> bool" where
  "isValidOrderLifecycleTransition from to = (to \<in> set (ORDER_LIFECYCLE_TRANSITIONS from))"

definition isTerminalOrderLifecycleState :: "order_lifecycle \<Rightarrow> bool" where
  "isTerminalOrderLifecycleState s = (length (ORDER_LIFECYCLE_TRANSITIONS s) = 0)"

definition orderRepresentsCompletedSale :: "order_lifecycle \<Rightarrow> bool" where
  "orderRepresentsCompletedSale s = (s = Order_PAID)"

fun order_rank :: "order_lifecycle \<Rightarrow> nat" where
  "order_rank PENDING_PAYMENT = 0" | "order_rank PAYMENT_FAILED = 1"
| "order_rank Order_PAID = 2" | "order_rank CANCELLED = 2"

interpretation order_lifecycle_table: forward_table ORDER_LIFECYCLE_TRANSITIONS
  isTerminalOrderLifecycleState order_rank
proof
  fix s t
  show "isTerminalOrderLifecycleState s = (ORDER_LIFECYCLE_TRANSITIONS s = [])"
    by (simp add: isTerminalOrderLifecycleState_def)
  show "t \<in> set (ORDER_LIFECYCLE_TRANSITIONS s) \<Longrightarrow> order_rank s < order_rank t"
    by (cases s) auto
qed

datatype payment_failure_code =
    DECLINED | INSTRUMENT_REJECTED | AUTHENTICATION_FAILED | Payment_PROVIDER_UNAVAILABLE
  | Payment_UNSPECIFIED_FAILURE

datatype buyer_kind = ACCOUNT_BUYER | GUEST_BUYER

record order_quote =
  oq_currency :: currency
  oq_commercialRetail :: amount
  oq_tax :: amount
  oq_shipping :: amount
  oq_other :: amount

definition OrderQuote :: "order_quote \<Rightarrow> bool" where
  "OrderQuote q = (CurrencyCode (oq_currency q) \<and> Amount (oq_commercialRetail q) \<and> Amount (oq_tax q) \<and>
     Amount (oq_shipping q) \<and> Amount (oq_other q))"

definition quotedBuyerTotalMinorUnits :: "order_quote \<Rightarrow> amount" where
  "quotedBuyerTotalMinorUnits q = oq_commercialRetail q + oq_tax q + oq_shipping q + oq_other q"

record order_row =
  or_id :: ident
  or_buyerKind :: buyer_kind
  or_buyerAccountId :: "ident option"
  or_buyerParticipantId :: "ident option"
  or_guestClaimCodeDigest :: "string option"
  or_claimedByAccountId :: "ident option"
  or_claimedAt :: "instant option"
  or_internalListingId :: ident
  or_listingSourceRecordId :: ident
  or_listingSourceRecordVersion :: string
  or_policyId :: ident
  or_policyVersion :: string
  or_marketplacePolicy :: "(ident \<times> string) option"
  or_sellerRefundPolicyId :: "ident option"
  or_sellerRefundPolicyVersion :: "string option"
  or_storefrontId :: ident
  or_internalProductId :: ident
  or_transactionType :: transaction_type
  or_sellerParticipantId :: ident
  or_promoterParticipantId :: "ident option"
  or_promotedBinding :: "promoted_sale_binding option"
  or_quote :: order_quote
  or_lifecycle :: order_lifecycle
  or_paymentFailureCode :: "payment_failure_code option"
  or_placedAt :: instant
  or_paidAt :: "instant option"
  or_failedAt :: "instant option"
  or_cancelledAt :: "instant option"

lemma paid_order_terminal:
  assumes "orderRepresentsCompletedSale s"
  shows "\<not> isValidOrderLifecycleTransition s t"
  using assms by (simp add: orderRepresentsCompletedSale_def isValidOrderLifecycleTransition_def)

end
