(* ===== verification/Refund.thy ===== *)
theory Refund
  imports Order_Contract
begin

text \<open>
  Refunds: \<open>src/contracts/marketplace/order-refund.ts\<close>.  A refund returns whole lines; its amount is
  derived from the sale-time quote and the bound terms and is never supplied by a caller.  Its
  provider call is retried on a fixed schedule, and its lifecycle combines with the tax reversal's.
\<close>

section \<open>Lines and reasons\<close>

definition ORDER_LINE_REF_SUFFIX :: string where
  "ORDER_LINE_REF_SUFFIX = ''#L1''"

definition singleOrderLineRef :: "ident \<Rightarrow> string" where
  "singleOrderLineRef orderId = orderId @ ORDER_LINE_REF_SUFFIX"

definition OrderLineRef :: "string \<Rightarrow> bool" where
  "OrderLineRef s = (1 \<le> length s \<and> length s \<le> 220)"

record refundable_line =
  rl_lineRef :: string
  rl_internalProductId :: ident
  rl_listingSourceRecordId :: ident
  rl_listingSourceRecordVersion :: string
  rl_currency :: currency
  rl_commercialRetail :: amount
  rl_tax :: amount

definition RefundableOrderLine :: "refundable_line \<Rightarrow> bool" where
  "RefundableOrderLine l = (OrderLineRef (rl_lineRef l) \<and> source_ref (rl_internalProductId l) \<and>
     source_ref (rl_listingSourceRecordId l) \<and> version_ref (rl_listingSourceRecordVersion l) \<and>
     CurrencyCode (rl_currency l) \<and> Amount (rl_commercialRetail l) \<and> Amount (rl_tax l))"

fun reversalReasonForRefund :: "refund_reason \<Rightarrow> reversal_reason" where
  "reversalReasonForRefund CUSTOMER_REQUEST = BUYER_REQUESTED"
| "reversalReasonForRefund PRODUCT_FAILURE = NOT_FULFILLABLE"
| "reversalReasonForRefund OPERATOR_CORRECTION = CORRECTION"
| "reversalReasonForRefund DUPLICATE_PAYMENT = CORRECTION"
| "reversalReasonForRefund FRAUD_OR_RISK = MONACADO_INITIATED"
| "reversalReasonForRefund OTHER_GOVERNED_REASON = MONACADO_INITIATED"

datatype refund_requestor = OPERATOR | BUYER | SYSTEM

section \<open>Status and failures\<close>

datatype refund_status =
    Refund_PENDING | Refund_IN_PROGRESS | REFUNDED | Refund_RETRY_PENDING | Refund_FAILED_PERMANENT

definition INITIAL_REFUND_STATUS :: refund_status where
  "INITIAL_REFUND_STATUS = Refund_PENDING"

definition RETRYABLE_REFUND_STATUSES :: "refund_status list" where
  "RETRYABLE_REFUND_STATUSES = [Refund_PENDING, Refund_RETRY_PENDING]"

definition TERMINAL_REFUND_STATUSES :: "refund_status list" where
  "TERMINAL_REFUND_STATUSES = [REFUNDED, Refund_FAILED_PERMANENT]"

datatype refund_failure =
    RF_PROVIDER_UNAVAILABLE | RF_PROVIDER_REJECTED | RF_CHARGE_NOT_FOUND | RF_ALREADY_REFUNDED
  | RF_AMOUNT_EXCEEDS_CHARGE | RF_EVIDENCE_INCONSISTENT | RF_PROVIDER_NOT_CONFIGURED
  | RF_PROVIDER_MODE_NOT_PERMITTED | RF_UNSPECIFIED_FAILURE

datatype refund_outcome_class = Class_REFUNDED | Class_TRANSIENT | Class_PERMANENT

definition classifyRefundFailure :: "refund_failure \<Rightarrow> refund_outcome_class" where
  "classifyRefundFailure code =
     (if code \<in> {RF_ALREADY_REFUNDED, RF_CHARGE_NOT_FOUND, RF_AMOUNT_EXCEEDS_CHARGE,
                  RF_EVIDENCE_INCONSISTENT, RF_PROVIDER_MODE_NOT_PERMITTED}
      then Class_PERMANENT else Class_TRANSIENT)"

section \<open>Retry policy\<close>

definition refund_maxAttempts :: nat where "refund_maxAttempts = 8"

definition refund_backoffSeconds :: "int list" where
  "refund_backoffSeconds = [30, 120, 600, 1800, 7200, 21600, 43200]"

definition refund_claimLeaseSeconds :: int where "refund_claimLeaseSeconds = 300"

text \<open>On natural numbers \<open>attemptCount - 1\<close> is already \<open>Math.max(0, attemptCount - 1)\<close>.\<close>

definition nextRefundDelaySeconds :: "nat \<Rightarrow> int option" where
  "nextRefundDelaySeconds attemptCount =
     (if attemptCount \<ge> refund_maxAttempts then None
      else Some (refund_backoffSeconds ! min (attemptCount - 1) (length refund_backoffSeconds - 1)))"

definition nextRefundAttemptAt :: "nat \<Rightarrow> instant \<Rightarrow> instant option" where
  "nextRefundAttemptAt attemptCount failedAt =
     (case nextRefundDelaySeconds attemptCount of None \<Rightarrow> None
      | Some delay \<Rightarrow> Some (failedAt + delay * 1000))"

lemma nextRefundDelay_positive: "nextRefundDelaySeconds n = Some d \<Longrightarrow> 0 < d"
proof -
  have pos: "\<forall>d\<in>set refund_backoffSeconds. 0 < d" by (simp add: refund_backoffSeconds_def)
  have "min (n - 1) (length refund_backoffSeconds - 1) < length refund_backoffSeconds"
    by (simp add: refund_backoffSeconds_def)
  then show "nextRefundDelaySeconds n = Some d \<Longrightarrow> 0 < d"
    using pos nth_mem by (auto simp: nextRefundDelaySeconds_def split: if_split_asm)
qed

lemma nextRefundDelay_mono:
  assumes "m \<le> n" "nextRefundDelaySeconds m = Some d" "nextRefundDelaySeconds n = Some e"
  shows "d \<le> e"
proof -
  have sorted: "sorted refund_backoffSeconds" by (simp add: refund_backoffSeconds_def)
  have "min (m - 1) (length refund_backoffSeconds - 1) \<le> min (n - 1) (length refund_backoffSeconds - 1)"
    using diff_le_mono[OF assms(1), of 1] by (intro min.mono) simp_all
  moreover have "min (n - 1) (length refund_backoffSeconds - 1) < length refund_backoffSeconds"
    by (simp add: refund_backoffSeconds_def)
  ultimately show ?thesis using sorted assms(2,3)
    by (auto simp: nextRefundDelaySeconds_def sorted_iff_nth_mono split: if_split_asm)
qed

interpretation refund_retries: retry_schedule nextRefundDelaySeconds refund_maxAttempts nextRefundAttemptAt
proof
  show "(nextRefundDelaySeconds n = None) = (refund_maxAttempts \<le> n)" for n
    by (simp add: nextRefundDelaySeconds_def)
  show "nextRefundAttemptAt n at = map_option (\<lambda>d. at + d * 1000) (nextRefundDelaySeconds n)" for n at
    by (simp add: nextRefundAttemptAt_def split: option.split)
qed (use nextRefundDelay_positive nextRefundDelay_mono in blast)+

section \<open>The amount\<close>

record refund_amounts =
  ram_total :: amount
  ram_linesRetail :: amount
  ram_linesTax :: amount
  ram_shipping :: amount
  ram_shippingRefundable :: bool
  ram_coversWholeOrder :: bool

definition deriveRefundAmount ::
  "refundable_line list \<Rightarrow> nat \<Rightarrow> amount \<Rightarrow> amount \<Rightarrow> shipping_refundability \<Rightarrow> refund_reason \<Rightarrow>
   refund_refusal + refund_amounts" where
  "deriveRefundAmount selectedLines orderLineCount quotedShipping quotedOther refundability reason =
     (if selectedLines = [] then Inl NO_REFUND_LINES_SELECTED
      else
        let coversWholeOrder = (length selectedLines = orderLineCount);
            linesRetail = sum_list (map rl_commercialRetail selectedLines);
            linesTax = sum_list (map rl_tax selectedLines);
            shippingRefundable = shippingIsRefundable refundability reason
        in if shippingRefundable \<and> quotedShipping > 0 \<and> \<not> coversWholeOrder
             then Inl SHIPPING_ALLOCATION_NOT_GOVERNED
           else if quotedOther \<noteq> 0 then Inl PASS_THROUGH_REFUND_TREATMENT_NOT_GOVERNED
           else
             let shipping = (if shippingRefundable \<and> quotedShipping > 0 then quotedShipping else 0)
             in Inr \<lparr>ram_total = linesRetail + linesTax + shipping, ram_linesRetail = linesRetail,
                     ram_linesTax = linesTax, ram_shipping = shipping,
                     ram_shippingRefundable = shippingRefundable, ram_coversWholeOrder = coversWholeOrder\<rparr>)"

text \<open>A derived amount is the sum of its parts, returns shipping exactly when the terms say so, and
  never exceeds what was quoted.\<close>

lemma deriveRefundAmount_parts:
  assumes "deriveRefundAmount ls n ship other rule reason = Inr a" and "0 \<le> ship"
  shows "ram_total a = ram_linesRetail a + ram_linesTax a + ram_shipping a \<and>
     ram_linesRetail a = sum_list (map rl_commercialRetail ls) \<and> ram_linesTax a = sum_list (map rl_tax ls) \<and>
     ram_shipping a = (if shippingIsRefundable rule reason then ship else 0) \<and>
     (0 < ram_shipping a \<longrightarrow> ram_coversWholeOrder a) \<and> ls \<noteq> [] \<and> other = 0"
  using assms by (auto simp: deriveRefundAmount_def Let_def split: if_split_asm)

lemma deriveRefundAmount_refused:
  "(\<exists>a. deriveRefundAmount ls n ship other rule reason = Inr a) \<longleftrightarrow>
     ls \<noteq> [] \<and> other = 0 \<and> (shippingIsRefundable rule reason \<and> 0 < ship \<longrightarrow> length ls = n)"
  by (auto simp: deriveRefundAmount_def Let_def)

section \<open>The row\<close>

record refund_row =
  rf_id :: ident
  rf_orderId :: ident
  rf_snapshotId :: ident
  rf_coversWholeOrder :: bool
  rf_sellerRefundPolicyId :: ident
  rf_sellerRefundPolicyVersion :: string
  rf_reasonCode :: refund_reason
  rf_requestorKind :: refund_requestor
  rf_requestedByAccountId :: "ident option"
  rf_requestedAt :: instant
  rf_provider :: string
  rf_providerMode :: string
  rf_providerTransactionRef :: string
  rf_providerRefundRef :: "string option"
  rf_providerRefundCreatedAt :: "instant option"
  rf_currency :: currency
  rf_amount :: amount
  rf_linesRetail :: amount
  rf_linesTax :: amount
  rf_refundedShipping :: amount
  rf_recordedAt :: instant
  rf_status :: refund_status
  rf_attemptCount :: nat
  rf_nextAttemptAt :: "instant option"
  rf_lockToken :: "ident option"
  rf_lockedAt :: "instant option"
  rf_leaseExpiresAt :: "instant option"
  rf_lastFailureCode :: "refund_failure option"
  rf_lastFailureClass :: "refund_outcome_class option"
  rf_finalizedAt :: "instant option"
  rf_requeueCount :: nat
  rf_lastRequeuedAt :: "instant option"
  rf_reversalId :: "ident option"

record refund_line_row =
  rll_refundId :: ident
  rll_line :: refundable_line

text \<open>A row with the references of its lines is a valid \<open>OrderRefundRecord\<close>.\<close>

definition opt_all :: "('a \<Rightarrow> bool) \<Rightarrow> 'a option \<Rightarrow> bool" where
  "opt_all P x = (case x of None \<Rightarrow> True | Some y \<Rightarrow> P y)"

definition OrderRefundRecord :: "refund_row \<Rightarrow> string list \<Rightarrow> bool" where
  "OrderRefundRecord r lineRefs =
     (source_ref (rf_orderId r) \<and> source_ref (rf_snapshotId r) \<and> lineRefs \<noteq> [] \<and>
      list_all OrderLineRef lineRefs \<and>
      source_ref (rf_sellerRefundPolicyId r) \<and> version_ref (rf_sellerRefundPolicyVersion r) \<and>
      opt_all source_ref (rf_requestedByAccountId r) \<and>
      rf_provider r = ''STRIPE'' \<and> (rf_providerMode r = ''TEST'' \<or> rf_providerMode r = ''LIVE'') \<and>
      ProviderTransactionRef (rf_providerTransactionRef r) \<and>
      opt_all ProviderTransactionRef (rf_providerRefundRef r) \<and>
      CurrencyCode (rf_currency r) \<and> Amount (rf_amount r) \<and> Amount (rf_linesRetail r) \<and>
      Amount (rf_linesTax r) \<and> Amount (rf_refundedShipping r) \<and>
      rf_attemptCount r \<le> refund_maxAttempts \<and> opt_all source_ref (rf_reversalId r))"

definition immutable_refund_fields where
  "immutable_refund_fields r =
     (rf_id r, rf_orderId r, rf_snapshotId r, rf_reasonCode r, rf_coversWholeOrder r,
      rf_sellerRefundPolicyId r, rf_sellerRefundPolicyVersion r, rf_requestorKind r,
      rf_requestedByAccountId r, rf_requestedAt r, rf_provider r, rf_providerMode r,
      rf_providerTransactionRef r, rf_currency r, rf_amount r, rf_linesRetail r, rf_linesTax r,
      rf_refundedShipping r, rf_recordedAt r)"

definition refundIsCoherent :: "refund_row \<Rightarrow> bool" where
  "refundIsCoherent r =
     (if rf_status r \<noteq> REFUNDED then True
      else case rf_providerRefundRef r of None \<Rightarrow> False
      | Some ref \<Rightarrow> if rf_providerRefundCreatedAt r = None then False
                    else ref \<noteq> rf_providerTransactionRef r)"

end
