(* ===== verification/Tax_Transaction.thy ===== *)
theory Tax_Transaction
  imports Refund
begin

text \<open>
  The provider's record of a sale's tax: \<open>src/contracts/marketplace/tax-transaction.ts\<close>, with the
  evidence row of \<open>src/contracts/marketplace/tax-calculation.ts\<close> it is copied from.  A sale commits the
  obligation to report its tax; a worker reports it on the retry schedule of the other queues.
\<close>

section \<open>Vocabulary\<close>

definition TAX_PROVIDERS :: "string list" where
  "TAX_PROVIDERS = [''TEST_ZERO_RATE'', ''TEST_FLAT_RATE'', ''STRIPE_TAX'']"

definition TAX_PROVIDER_MODES :: "string list" where
  "TAX_PROVIDER_MODES = [''TEST'', ''LIVE'']"

datatype tax_treatment = TAXABLE | EXEMPT | OUT_OF_SCOPE

datatype product_tax_classification = DIGITAL_GOOD | SOFTWARE | PHYSICAL_GOOD | SERVICE_GOOD

definition TaxJurisdictionCode :: "string \<Rightarrow> bool" where
  "TaxJurisdictionCode c = (2 \<le> length c \<and> length c \<le> 16 \<and>
     list_all (\<lambda>x. x \<in> set ''ABCDEFGHIJKLMNOPQRSTUVWXYZ0123456789-'') c)"

datatype tax_recording_status =
    Recording_PENDING | Recording_IN_PROGRESS | RECORDED | Recording_RETRY_PENDING | Recording_FAILED_PERMANENT

datatype tax_transaction_lifecycle =
    Lifecycle_RECORDED | Lifecycle_ADJUSTED | Lifecycle_PARTIALLY_REVERSED | Lifecycle_REVERSED

datatype tax_recording_failure =
    TR_PROVIDER_UNAVAILABLE | TR_PROVIDER_REJECTED | TR_CALCULATION_EXPIRED | TR_DUPLICATE_REFERENCE
  | TR_EVIDENCE_INCONSISTENT | TR_PROVIDER_NOT_CONFIGURED | TR_PROVIDER_MODE_NOT_PERMITTED | TR_UNSPECIFIED_FAILURE

datatype tax_recording_class = TRClass_RECORDED | TRClass_TRANSIENT | TRClass_PERMANENT

definition classifyTaxRecordingFailure :: "tax_recording_failure \<Rightarrow> tax_recording_class" where
  "classifyTaxRecordingFailure code =
     (if code \<in> {TR_CALCULATION_EXPIRED, TR_EVIDENCE_INCONSISTENT, TR_PROVIDER_MODE_NOT_PERMITTED,
                 TR_DUPLICATE_REFERENCE}
      then TRClass_PERMANENT else TRClass_TRANSIENT)"

section \<open>Retries\<close>

definition recording_maxAttempts :: nat where "recording_maxAttempts = 8"

definition recording_backoffSeconds :: "int list" where
  "recording_backoffSeconds = [30, 120, 600, 1800, 7200, 21600, 43200]"

definition recording_claimLeaseSeconds :: int where "recording_claimLeaseSeconds = 300"

definition nextTaxRecordingDelaySeconds :: "nat \<Rightarrow> int option" where
  "nextTaxRecordingDelaySeconds attemptCount =
     (if attemptCount \<ge> recording_maxAttempts then None
      else Some (recording_backoffSeconds ! min (attemptCount - 1) (length recording_backoffSeconds - 1)))"

definition nextTaxRecordingAttemptAt :: "nat \<Rightarrow> instant \<Rightarrow> instant option" where
  "nextTaxRecordingAttemptAt attemptCount failedAt =
     (case nextTaxRecordingDelaySeconds attemptCount of None \<Rightarrow> None
      | Some delay \<Rightarrow> Some (failedAt + delay * 1000))"

lemma nextTaxRecordingDelay_refund: "nextTaxRecordingDelaySeconds = nextRefundDelaySeconds"
  by (rule ext) (simp add: nextTaxRecordingDelaySeconds_def nextRefundDelaySeconds_def recording_maxAttempts_def
      refund_maxAttempts_def recording_backoffSeconds_def refund_backoffSeconds_def)

interpretation recording_retries: retry_schedule nextTaxRecordingDelaySeconds recording_maxAttempts
  nextTaxRecordingAttemptAt
proof
  show "nextTaxRecordingAttemptAt n at = map_option (\<lambda>d. at + d * 1000) (nextTaxRecordingDelaySeconds n)" for n at
    by (simp add: nextTaxRecordingAttemptAt_def split: option.split)
  show "(nextTaxRecordingDelaySeconds n = None) = (recording_maxAttempts \<le> n)" for n
    by (simp add: nextTaxRecordingDelaySeconds_def)
qed (simp_all add: nextTaxRecordingDelay_refund refund_retries.delay_positive refund_retries.delay_mono)

section \<open>Rows\<close>

text \<open>The evidence of the calculation a sale was quoted under.\<close>

record tax_evidence_row =
  txe_id :: ident
  txe_orderId :: ident
  txe_provider :: string
  txe_providerMode :: "string option"
  txe_providerCalculationRef :: string
  txe_providerCalculationExpiresAt :: "instant option"
  txe_currency :: currency
  txe_taxAmount :: amount
  txe_basisAmount :: amount
  txe_treatment :: tax_treatment
  txe_jurisdictionCode :: "string option"
  txe_productSourceRecordId :: "string option"
  txe_productSourceRecordVersion :: "string option"
  txe_productTaxClassification :: "product_tax_classification option"
  txe_providerTaxCode :: "string option"
  txe_providerConfigVersion :: "string option"
  txe_calculatedAt :: instant
  txe_recordedAt :: instant
  txe_buyerSnapshotId :: "ident option"

record tax_transaction_row =
  tt_id :: ident
  tt_orderId :: ident
  tt_taxEvidenceId :: ident
  tt_provider :: string
  tt_providerMode :: string
  tt_providerCalculationRef :: string
  tt_providerTaxTransactionRef :: "string option"
  tt_providerReference :: string
  tt_currency :: currency
  tt_taxableBasis :: amount
  tt_taxAmount :: amount
  tt_providerTotalAmount :: "amount option"
  tt_jurisdictionCode :: "string option"
  tt_treatment :: tax_treatment
  tt_internalProductId :: ident
  tt_productSourceRecordId :: string
  tt_productSourceRecordVersion :: string
  tt_productTaxClassification :: product_tax_classification
  tt_providerTaxCode :: "string option"
  tt_providerConfigVersion :: "string option"
  tt_calculatedAt :: instant
  tt_providerTaxTransactionCreatedAt :: "instant option"
  tt_recordedAt :: instant
  tt_lifecycleState :: tax_transaction_lifecycle
  tt_recordingStatus :: tax_recording_status
  tt_attemptCount :: nat
  tt_nextAttemptAt :: "instant option"
  tt_lastFailureCode :: "tax_recording_failure option"
  tt_lastFailureClass :: "tax_recording_class option"
  tt_lockToken :: "ident option"
  tt_lockedAt :: "instant option"
  tt_leaseExpiresAt :: "instant option"
  tt_finalizedAt :: "instant option"
  tt_requeueCount :: nat
  tt_lastRequeuedAt :: "instant option"

definition OrderTaxTransactionRecord :: "tax_transaction_row \<Rightarrow> bool" where
  "OrderTaxTransactionRecord r =
     (source_ref (tt_orderId r) \<and> tt_provider r \<in> set TAX_PROVIDERS \<and> tt_providerMode r \<in> set TAX_PROVIDER_MODES \<and>
      source_ref (tt_providerCalculationRef r) \<and> opt_all source_ref (tt_providerTaxTransactionRef r) \<and>
      source_ref (tt_providerReference r) \<and> CurrencyCode (tt_currency r) \<and> Amount (tt_taxableBasis r) \<and>
      Amount (tt_taxAmount r) \<and> opt_all Amount (tt_providerTotalAmount r) \<and>
      opt_all TaxJurisdictionCode (tt_jurisdictionCode r) \<and> source_ref (tt_internalProductId r) \<and>
      source_ref (tt_productSourceRecordId r) \<and> version_ref (tt_productSourceRecordVersion r) \<and>
      opt_all version_ref (tt_providerTaxCode r) \<and> opt_all version_ref (tt_providerConfigVersion r) \<and>
      tt_attemptCount r \<le> recording_maxAttempts)"

definition taxTransactionIsCoherent :: "tax_transaction_row \<Rightarrow> bool" where
  "taxTransactionIsCoherent r =
     (if tt_recordingStatus r \<noteq> RECORDED then True
      else tt_providerTaxTransactionRef r \<noteq> None \<and>
        tt_providerTotalAmount r = Some (tt_taxableBasis r + tt_taxAmount r))"

definition requiresProviderTaxTransaction :: "tax_treatment \<Rightarrow> amount \<Rightarrow> bool" where
  "requiresProviderTaxTransaction treatment taxAmountMinorUnits = True"

text \<open>\<open>IMMUTABLE_TAX_TRANSACTION_FIELDS\<close>.\<close>

definition immutable_tax_transaction_fields where
  "immutable_tax_transaction_fields r =
     ((tt_id r, tt_orderId r, tt_taxEvidenceId r, tt_provider r, tt_providerMode r, tt_providerCalculationRef r,
       tt_providerReference r),
      (tt_currency r, tt_taxableBasis r, tt_taxAmount r, tt_jurisdictionCode r, tt_treatment r),
      (tt_internalProductId r, tt_productSourceRecordId r, tt_productSourceRecordVersion r,
       tt_productTaxClassification r, tt_providerTaxCode r, tt_providerConfigVersion r),
      tt_calculatedAt r, tt_recordedAt r)"

end
