(* ===== verification/Tax_Reversal.thy ===== *)
theory Tax_Reversal
  imports Tax_Transaction
begin

text \<open>
  The provider reversal of a refunded sale's tax: \<open>src/contracts/marketplace/tax-reversal.ts\<close>, and
  the composite lifecycle of a refund and its tax reversal (\<open>refundLifecycleState\<close>, \<open>requiresTaxReversal\<close> of \<open>order-refund.ts\<close>).
\<close>

datatype tax_reversal_status =
    Tax_PENDING | Tax_IN_PROGRESS | Tax_REVERSED | Tax_RETRY_PENDING | Tax_FAILED_PERMANENT

datatype tax_reversal_failure =
    TX_PROVIDER_UNAVAILABLE | TX_PROVIDER_REJECTED | TX_ORIGINAL_TRANSACTION_NOT_FOUND
  | TX_ALREADY_REVERSED | TX_DUPLICATE_REFERENCE | TX_EVIDENCE_INCONSISTENT
  | TX_PAYMENT_REFUND_NOT_COMPLETE | TX_PROVIDER_NOT_CONFIGURED | TX_PROVIDER_MODE_NOT_PERMITTED
  | TX_UNSPECIFIED_FAILURE

datatype tax_reversal_class = TaxClass_REVERSED | TaxClass_TRANSIENT | TaxClass_PERMANENT

definition classifyTaxReversalFailure :: "tax_reversal_failure \<Rightarrow> tax_reversal_class" where
  "classifyTaxReversalFailure code =
     (if code \<in> {TX_ORIGINAL_TRANSACTION_NOT_FOUND, TX_ALREADY_REVERSED, TX_DUPLICATE_REFERENCE,
                  TX_EVIDENCE_INCONSISTENT, TX_PROVIDER_MODE_NOT_PERMITTED}
      then TaxClass_PERMANENT else TaxClass_TRANSIENT)"

definition tax_maxAttempts :: nat where "tax_maxAttempts = 8"

definition tax_backoffSeconds :: "int list" where
  "tax_backoffSeconds = [30, 120, 600, 1800, 7200, 21600, 43200]"

definition tax_claimLeaseSeconds :: int where "tax_claimLeaseSeconds = 300"

definition nextTaxReversalDelaySeconds :: "nat \<Rightarrow> int option" where
  "nextTaxReversalDelaySeconds attemptCount =
     (if attemptCount \<ge> tax_maxAttempts then None
      else Some (tax_backoffSeconds ! min (attemptCount - 1) (length tax_backoffSeconds - 1)))"

definition nextTaxReversalAttemptAt :: "nat \<Rightarrow> instant \<Rightarrow> instant option" where
  "nextTaxReversalAttemptAt attemptCount failedAt =
     (case nextTaxReversalDelaySeconds attemptCount of None \<Rightarrow> None
      | Some delay \<Rightarrow> Some (failedAt + delay * 1000))"

text \<open>The schedule is the refund's.\<close>

lemma nextTaxReversalDelay_refund: "nextTaxReversalDelaySeconds = nextRefundDelaySeconds"
  by (rule ext) (simp add: nextTaxReversalDelaySeconds_def nextRefundDelaySeconds_def tax_maxAttempts_def
      refund_maxAttempts_def tax_backoffSeconds_def refund_backoffSeconds_def)

interpretation tax_retries: retry_schedule nextTaxReversalDelaySeconds tax_maxAttempts nextTaxReversalAttemptAt
proof
  show "nextTaxReversalAttemptAt n at = map_option (\<lambda>d. at + d * 1000) (nextTaxReversalDelaySeconds n)" for n at
    by (simp add: nextTaxReversalAttemptAt_def split: option.split)
  show "(nextTaxReversalDelaySeconds n = None) = (tax_maxAttempts \<le> n)" for n
    by (simp add: nextTaxReversalDelaySeconds_def)
qed (simp_all add: nextTaxReversalDelay_refund refund_retries.delay_positive refund_retries.delay_mono)

record tax_reversal_row =
  tv_id :: ident
  tv_orderId :: ident
  tv_refundId :: ident
  tv_taxTransactionId :: ident
  tv_provider :: string
  tv_providerMode :: string
  tv_originalProviderTaxTransactionRef :: string
  tv_providerReversalRef :: "string option"
  tv_providerReversalCreatedAt :: "instant option"
  tv_providerReference :: string
  tv_currency :: currency
  tv_reversedTaxAmount :: amount
  tv_reversedTaxableBasis :: amount
  tv_recordedAt :: instant
  tv_status :: tax_reversal_status
  tv_attemptCount :: nat
  tv_nextAttemptAt :: "instant option"
  tv_lockToken :: "ident option"
  tv_lockedAt :: "instant option"
  tv_leaseExpiresAt :: "instant option"
  tv_lastFailureCode :: "tax_reversal_failure option"
  tv_lastFailureClass :: "tax_reversal_class option"
  tv_finalizedAt :: "instant option"
  tv_requeueCount :: nat
  tv_lastRequeuedAt :: "instant option"

definition OrderTaxReversalRecord :: "tax_reversal_row \<Rightarrow> bool" where
  "OrderTaxReversalRecord r =
     (source_ref (tv_orderId r) \<and> source_ref (tv_refundId r) \<and> tv_provider r \<in> set TAX_PROVIDERS \<and>
      tv_providerMode r \<in> set TAX_PROVIDER_MODES \<and> source_ref (tv_originalProviderTaxTransactionRef r) \<and>
      opt_all source_ref (tv_providerReversalRef r) \<and> source_ref (tv_providerReference r) \<and>
      CurrencyCode (tv_currency r) \<and> Amount (tv_reversedTaxAmount r) \<and>
      Amount (tv_reversedTaxableBasis r) \<and> tv_attemptCount r \<le> tax_maxAttempts)"

definition taxReversalProviderReference :: "ident \<Rightarrow> string" where
  "taxReversalProviderReference orderId = orderId @ ''-reversal''"

definition taxReversalIsCoherent :: "tax_reversal_row \<Rightarrow> bool" where
  "taxReversalIsCoherent r =
     (if tv_status r \<noteq> Tax_REVERSED then True
      else case tv_providerReversalRef r of None \<Rightarrow> False
      | Some ref \<Rightarrow> if tv_providerReversalCreatedAt r = None then False
                    else ref \<noteq> tv_originalProviderTaxTransactionRef r)"

definition immutable_tax_reversal_fields where
  "immutable_tax_reversal_fields r =
     (tv_id r, tv_orderId r, tv_refundId r, tv_taxTransactionId r, tv_provider r, tv_providerMode r,
      tv_originalProviderTaxTransactionRef r, tv_providerReference r, tv_currency r,
      tv_reversedTaxAmount r, tv_reversedTaxableBasis r, tv_recordedAt r)"

section \<open>The composite lifecycle\<close>

datatype refund_lifecycle =
    RL_PENDING | REFUND_IN_PROGRESS | REFUND_RETRY_PENDING | REFUND_FAILED_PERMANENT | RL_REFUNDED
  | TAX_REVERSAL_PENDING | TAX_REVERSAL_IN_PROGRESS | COMPLETED | MANUAL_REMEDIATION_REQUIRED

fun refundLifecycleState :: "refund_status \<Rightarrow> tax_reversal_status option \<Rightarrow> refund_lifecycle" where
  "refundLifecycleState Refund_PENDING t = RL_PENDING"
| "refundLifecycleState Refund_IN_PROGRESS t = REFUND_IN_PROGRESS"
| "refundLifecycleState Refund_RETRY_PENDING t = REFUND_RETRY_PENDING"
| "refundLifecycleState Refund_FAILED_PERMANENT t = REFUND_FAILED_PERMANENT"
| "refundLifecycleState REFUNDED None = RL_REFUNDED"
| "refundLifecycleState REFUNDED (Some Tax_PENDING) = TAX_REVERSAL_PENDING"
| "refundLifecycleState REFUNDED (Some Tax_IN_PROGRESS) = TAX_REVERSAL_IN_PROGRESS"
| "refundLifecycleState REFUNDED (Some Tax_RETRY_PENDING) = TAX_REVERSAL_PENDING"
| "refundLifecycleState REFUNDED (Some Tax_REVERSED) = COMPLETED"
| "refundLifecycleState REFUNDED (Some Tax_FAILED_PERMANENT) = MANUAL_REMEDIATION_REQUIRED"

definition requiresTaxReversal :: "bool \<Rightarrow> amount \<Rightarrow> bool" where
  "requiresTaxReversal hasRecordedProviderTaxTransaction taxAmountMinorUnits =
     hasRecordedProviderTaxTransaction"

lemma refundLifecycle_completed_iff:
  "refundLifecycleState s t = COMPLETED \<longleftrightarrow> s = REFUNDED \<and> t = Some Tax_REVERSED"
  by (cases "(s, t)" rule: refundLifecycleState.cases) auto

lemma refundLifecycle_manual_iff:
  "refundLifecycleState s t = MANUAL_REMEDIATION_REQUIRED \<longleftrightarrow> s = REFUNDED \<and> t = Some Tax_FAILED_PERMANENT"
  by (cases "(s, t)" rule: refundLifecycleState.cases) auto

end
