(* ===== verification/Dispute.thy ===== *)
theory Dispute
  imports Tax_Reversal
begin

text \<open>
  Payment disputes: \<open>src/contracts/marketplace/transaction-dispute.ts\<close>.  The network's adjudication
  and the movement of the funds are two separate axes; a decided adjudication never reopens.
\<close>

datatype dispute_status =
    Dispute_OPEN | NEEDS_RESPONSE | Dispute_UNDER_REVIEW | WON | LOST | CLOSED | Dispute_MANUAL_REMEDIATION

definition NON_TERMINAL_DISPUTE_STATUSES :: "dispute_status list" where
  "NON_TERMINAL_DISPUTE_STATUSES = [Dispute_OPEN, NEEDS_RESPONSE, Dispute_UNDER_REVIEW, Dispute_MANUAL_REMEDIATION]"

definition isDisputeOpen :: "dispute_status \<Rightarrow> bool" where
  "isDisputeOpen s = (s \<in> set NON_TERMINAL_DISPUTE_STATUSES)"

fun DISPUTE_STATUS_TRANSITIONS :: "dispute_status \<Rightarrow> dispute_status list" where
  "DISPUTE_STATUS_TRANSITIONS Dispute_OPEN =
     [NEEDS_RESPONSE, Dispute_UNDER_REVIEW, WON, LOST, CLOSED, Dispute_MANUAL_REMEDIATION]"
| "DISPUTE_STATUS_TRANSITIONS NEEDS_RESPONSE = [Dispute_UNDER_REVIEW, WON, LOST, CLOSED, Dispute_MANUAL_REMEDIATION]"
| "DISPUTE_STATUS_TRANSITIONS Dispute_UNDER_REVIEW = [NEEDS_RESPONSE, WON, LOST, CLOSED, Dispute_MANUAL_REMEDIATION]"
| "DISPUTE_STATUS_TRANSITIONS WON = []"
| "DISPUTE_STATUS_TRANSITIONS LOST = []"
| "DISPUTE_STATUS_TRANSITIONS CLOSED = []"
| "DISPUTE_STATUS_TRANSITIONS Dispute_MANUAL_REMEDIATION = [WON, LOST, CLOSED]"

definition isValidDisputeStatusTransition :: "dispute_status \<Rightarrow> dispute_status \<Rightarrow> bool" where
  "isValidDisputeStatusTransition from to =
     (if from = to then True else to \<in> set (DISPUTE_STATUS_TRANSITIONS from))"

interpretation dispute_lifecycle: transition_table DISPUTE_STATUS_TRANSITIONS "\<lambda>s. \<not> isDisputeOpen s"
proof
  show "(\<not> isDisputeOpen s) = (DISPUTE_STATUS_TRANSITIONS s = [])" for s
    by (cases s) (simp_all add: isDisputeOpen_def NON_TERMINAL_DISPUTE_STATUSES_def)
qed

lemma decided_dispute_stays:
  assumes "\<not> isDisputeOpen s" and "isValidDisputeStatusTransition s t"
  shows "t = s"
  using assms dispute_lifecycle.terminal_no_move[of s t]
  by (auto simp: isValidDisputeStatusTransition_def dispute_lifecycle.moves_def split: if_split_asm)

datatype dispute_funds = NOT_WITHDRAWN | WITHDRAWN | REINSTATED

datatype dispute_reason =
    FRAUDULENT | PRODUCT_NOT_RECEIVED | PRODUCT_UNACCEPTABLE | DUPLICATE | CREDIT_NOT_PROCESSED
  | SUBSCRIPTION_CANCELED | UNRECOGNIZED | GENERAL | UNSPECIFIED

datatype dispute_effect =
    Effect_NONE | REVERSED_BY_THIS_DISPUTE | Effect_ALREADY_REVERSED_BY_REFUND | NOT_EXPRESSIBLE

datatype dispute_tax_consequence =
    NOT_ASSESSED | NO_TAX_TRANSACTION | TaxC_ALREADY_REVERSED_BY_REFUND | NO_ACTION_REQUIRED
  | REVERSAL_REQUIRED_NOT_EXPRESSIBLE

datatype dispute_remediation =
    PARTIAL_AMOUNT_NOT_EXPRESSIBLE | UNATTRIBUTABLE | Remediation_SALE_ALREADY_REVERSED
  | UNRECOGNISED_PROVIDER_STATUS | LIVEMODE_IN_TEST_DEPLOYMENT | TAX_CORRECTION_NOT_EXPRESSIBLE
  | Remediation_CURRENCY_MISMATCH

datatype dispute_event_kind = Event_OPENED | Event_UPDATED | Event_CLOSED | FUNDS_WITHDRAWN | FUNDS_REINSTATED

record dispute_observation =
  dob_provider :: string
  dob_providerMode :: string
  dob_providerDisputeRef :: string
  dob_providerEventId :: string
  dob_providerTransactionRef :: string
  dob_providerChargeRef :: "string option"
  dob_eventKind :: dispute_event_kind
  dob_disputedAmount :: amount
  dob_currency :: currency
  dob_reasonCode :: dispute_reason
  dob_status :: dispute_status
  dob_evidenceDueBy :: "instant option"
  dob_responsePermitted :: bool
  dob_evidenceStagedAtProvider :: bool
  dob_evidenceSubmissionCount :: int
  dob_evidenceSubmittedPastDue :: bool
  dob_chargeStillRefundable :: bool
  dob_openedAt :: instant
  dob_occurredAt :: instant
  dob_providerReportedLivemode :: bool

definition DisputeObservation :: "dispute_observation \<Rightarrow> bool" where
  "DisputeObservation ob =
     (dob_provider ob = ''STRIPE'' \<and> dob_providerMode ob = ''TEST'' \<and>
      source_ref (dob_providerDisputeRef ob) \<and> source_ref (dob_providerEventId ob) \<and>
      source_ref (dob_providerTransactionRef ob) \<and> opt_all source_ref (dob_providerChargeRef ob) \<and>
      Amount (dob_disputedAmount ob) \<and> CurrencyCode (dob_currency ob) \<and>
      0 \<le> dob_evidenceSubmissionCount ob)"

record dispute_row =
  dp_id :: ident
  dp_orderId :: "ident option"
  dp_snapshotId :: "ident option"
  dp_provider :: string
  dp_providerMode :: string
  dp_providerDisputeRef :: string
  dp_providerTransactionRef :: string
  dp_providerChargeRef :: "string option"
  dp_disputedAmount :: amount
  dp_currency :: currency
  dp_reasonCode :: dispute_reason
  dp_status :: dispute_status
  dp_fundsState :: dispute_funds
  dp_taxConsequence :: dispute_tax_consequence
  dp_economicEffect :: dispute_effect
  dp_evidenceDueBy :: "instant option"
  dp_responsePermitted :: bool
  dp_evidenceStagedAtProvider :: bool
  dp_evidenceSubmissionCount :: int
  dp_evidenceSubmittedPastDue :: bool
  dp_chargeStillRefundable :: bool
  dp_remediationCode :: "dispute_remediation option"
  dp_lastProviderEventAt :: instant
  dp_openedAt :: instant
  dp_fundsWithdrawnAt :: "instant option"
  dp_fundsReinstatedAt :: "instant option"
  dp_closedAt :: "instant option"
  dp_recordedAt :: instant
  dp_reversalId :: "ident option"

definition TransactionDisputeRecord :: "dispute_row \<Rightarrow> bool" where
  "TransactionDisputeRecord r =
     (opt_all source_ref (dp_orderId r) \<and> opt_all source_ref (dp_snapshotId r) \<and>
      dp_provider r = ''STRIPE'' \<and> dp_providerMode r = ''TEST'' \<and>
      source_ref (dp_providerDisputeRef r) \<and> source_ref (dp_providerTransactionRef r) \<and>
      opt_all source_ref (dp_providerChargeRef r) \<and> Amount (dp_disputedAmount r) \<and>
      CurrencyCode (dp_currency r) \<and> 0 \<le> dp_evidenceSubmissionCount r \<and>
      opt_all source_ref (dp_reversalId r))"

record dispute_event =
  dev_id :: ident
  dev_disputeId :: ident
  dev_provider :: string
  dev_providerEventId :: string
  dev_eventKind :: dispute_event_kind
  dev_applied :: bool
  dev_occurredAt :: instant
  dev_receivedAt :: instant

datatype fee_state = ASSESSED | WAIVED | SETTLED_FEE

record chargeback_fee =
  cf_id :: ident
  cf_disputeId :: ident
  cf_orderId :: ident
  cf_sellerParticipantId :: ident
  cf_amount :: amount
  cf_currency :: currency
  cf_feePolicyId :: ident
  cf_policyVersion :: string
  cf_state :: fee_state
  cf_assessedAt :: instant

end
