(* ===== verification/Chargeback_Fee_Policy.thy ===== *)
theory Chargeback_Fee_Policy
  imports Dispute Seller_Refund_Policy_Facts
begin

text \<open>
  The governed fee a finalized chargeback costs a seller:
  \<open>src/contracts/marketplace/chargeback-fee.ts\<close> and
  \<open>src/server/marketplace/chargeback-fee-policy-service.ts\<close>.  A version is recorded as a draft and
  activated later; activation retires the standing version in the same transaction.  The third
  instance of the \<open>version_rows\<close> contract.
\<close>

section \<open>The contract\<close>

definition SELLER_CHARGEBACK_FEE_POLICY_KEY :: string where
  "SELLER_CHARGEBACK_FEE_POLICY_KEY = ''MONACADO_SELLER_CHARGEBACK_FEE''"

definition chargebackFeeAppliesTo :: "dispute_status \<Rightarrow> bool" where
  "chargebackFeeAppliesTo s = (s = LOST)"

record fee_version_view =
  fvv_policyId :: ident
  fvv_policyKey :: string
  fvv_policyVersion :: string
  fvv_status :: policy_status
  fvv_amount :: amount
  fvv_currency :: currency
  fvv_effectiveFrom :: instant
  fvv_recordedAt :: instant
  fvv_retiredAt :: "instant option"

section \<open>State\<close>

record fee_policy =
  fp_id :: ident
  fp_policyKey :: string
  fp_label :: string

record fee_policy_version =
  fpv_seq :: nat
  fpv_policyId :: ident
  fpv_policyVersion :: string
  fpv_status :: policy_status
  fpv_amount :: amount
  fpv_currency :: currency
  fpv_effectiveFrom :: instant
  fpv_recordedByAccountId :: ident
  fpv_recordedAt :: instant
  fpv_retiredAt :: "instant option"
  fpv_retiredByAccountId :: "ident option"
  fpv_activatedAt :: "instant option"
  fpv_activatedByAccountId :: "ident option"
  fpv_activeMarker :: "ident option"

record fee_policy_tables = refund_policy_tables +
  feePolicies :: "fee_policy list"
  feePolicyVersions :: "fee_policy_version list"

record active_fee =
  af_policyId :: ident
  af_policyVersion :: string
  af_amount :: amount
  af_currency :: currency

definition fpv_key :: "fee_policy_version \<Rightarrow> ident \<times> string" where
  "fpv_key v = (fpv_policyId v, fpv_policyVersion v)"

section \<open>Reads\<close>

definition find_fee_policy :: "'a fee_policy_tables_scheme \<Rightarrow> fee_policy option" where
  "find_fee_policy db = List.find (\<lambda>p. fp_policyKey p = SELLER_CHARGEBACK_FEE_POLICY_KEY) (feePolicies db)"

definition assertRecordingAccountResolvable ::
  "'a fee_policy_tables_scheme \<Rightarrow> ident \<Rightarrow> unit res" where
  "assertRecordingAccountResolvable db accountId =
     (case find_account db accountId of
        None \<Rightarrow> Inl (DisputeEvidenceRefused ''RECORDING_ACCOUNT_NOT_FOUND'')
      | Some account \<Rightarrow>
          if acc_status account \<noteq> Account_ACTIVE then Inl (DisputeEvidenceRefused ''RECORDING_ACCOUNT_NOT_ACTIVE'')
          else if \<not> isInternallyAuthorized (canGovernCommercialPolicy (resolveInternalAuthorizationSubject db accountId))
          then Inl (CommercialPolicyError ''CommercialPolicyActorNotAuthorizedError'')
          else Inr ())"

definition resolveActiveChargebackFeePolicy :: "'a fee_policy_tables_scheme \<Rightarrow> active_fee option" where
  "resolveActiveChargebackFeePolicy db =
     (case find_fee_policy db of None \<Rightarrow> None
      | Some p \<Rightarrow>
          map_option (\<lambda>v. \<lparr>af_policyId = fpv_policyId v, af_policyVersion = fpv_policyVersion v,
                        af_amount = fpv_amount v, af_currency = fpv_currency v\<rparr>)
            (List.find (\<lambda>v. fpv_policyId v = fp_id p \<and> fpv_status v = Policy_ACTIVE) (feePolicyVersions db)))"

definition fee_version_view :: "fee_policy \<Rightarrow> fee_policy_version \<Rightarrow> fee_version_view" where
  "fee_version_view p v = \<lparr>fvv_policyId = fpv_policyId v, fvv_policyKey = fp_policyKey p,
     fvv_policyVersion = fpv_policyVersion v, fvv_status = fpv_status v, fvv_amount = fpv_amount v,
     fvv_currency = fpv_currency v, fvv_effectiveFrom = fpv_effectiveFrom v,
     fvv_recordedAt = fpv_recordedAt v, fvv_retiredAt = fpv_retiredAt v\<rparr>"

definition readChargebackFeePolicyVersions :: "'a fee_policy_tables_scheme \<Rightarrow> fee_version_view list" where
  "readChargebackFeePolicyVersions db =
     (case find_fee_policy db of None \<Rightarrow> []
      | Some p \<Rightarrow> map (fee_version_view p)
          (sort_key (\<lambda>v. - fpv_recordedAt v) (filter (\<lambda>v. fpv_policyId v = fp_id p) (feePolicyVersions db))))"

text \<open>What both operations end with: \<open>readChargebackFeePolicyVersions(deps).find(...)!\<close>.\<close>

definition read_back :: "'a fee_policy_tables_scheme \<Rightarrow> string \<Rightarrow> fee_version_view option" where
  "read_back db ver = List.find (\<lambda>v. fvv_policyVersion v = ver) (readChargebackFeePolicyVersions db)"

section \<open>Recording\<close>

record fee_version_input =
  fvi_policyVersion :: string
  fvi_amount :: amount
  fvi_currency :: currency
  fvi_effectiveFrom :: instant
  fvi_recordedByAccountId :: ident
  fvi_at :: instant
  fvi_label :: "string option"

definition fee_draft :: "ident \<Rightarrow> fee_version_input \<Rightarrow> nat \<Rightarrow> fee_policy_version" where
  "fee_draft pid i seq = \<lparr>fpv_seq = seq, fpv_policyId = pid, fpv_policyVersion = fvi_policyVersion i,
     fpv_status = Policy_DRAFT, fpv_amount = fvi_amount i, fpv_currency = fvi_currency i,
     fpv_effectiveFrom = fvi_effectiveFrom i, fpv_recordedByAccountId = fvi_recordedByAccountId i,
     fpv_recordedAt = fvi_at i, fpv_retiredAt = None, fpv_retiredByAccountId = None,
     fpv_activatedAt = None, fpv_activatedByAccountId = None, fpv_activeMarker = None\<rparr>"

text \<open>The policy row is created on first use, outside any transaction: it stays when a later statement
  fails.\<close>

definition ensure_fee_policy ::
  "ident \<Rightarrow> string option \<Rightarrow> 'a fee_policy_tables_scheme \<Rightarrow> ('a fee_policy_tables_scheme \<times> ident) res" where
  "ensure_fee_policy newId label db =
     (case find_fee_policy db of Some p \<Rightarrow> Inr (db, fp_id p)
      | None \<Rightarrow>
          (case insert_unique fp_id \<lparr>fp_id = newId, fp_policyKey = SELLER_CHARGEBACK_FEE_POLICY_KEY,
                  fp_label = (case label of None \<Rightarrow> ''Monacado seller chargeback fee'' | Some l \<Rightarrow> l)\<rparr>
                  (feePolicies db) of
             None \<Rightarrow> Inl (UniqueViolation ''SellerChargebackFeePolicy'')
           | Some ps \<Rightarrow> Inr (db\<lparr>feePolicies := ps\<rparr>, newId)))"

definition record_fee_draft ::
  "ident \<Rightarrow> fee_version_input \<Rightarrow> 'a fee_policy_tables_scheme \<Rightarrow>
   'a fee_policy_tables_scheme \<times> fee_version_view option res" where
  "record_fee_draft pid i db =
     (case List.find (\<lambda>v. fpv_key v = (pid, fvi_policyVersion i)) (feePolicyVersions db) of
        Some existing \<Rightarrow>
          (db, if fpv_amount existing \<noteq> fvi_amount i \<or> fpv_currency existing \<noteq> fvi_currency i
               then Inl (DisputeEvidenceRefused ''FEE_VERSION_ALREADY_EXISTS_WITH_DIFFERENT_VALUE'')
               else Inr (read_back db (fvi_policyVersion i)))
      | None \<Rightarrow>
          (let db' = db\<lparr>feePolicyVersions := feePolicyVersions db @
                         [fee_draft pid i (length (feePolicyVersions db))]\<rparr>
           in (db', Inr (read_back db' (fvi_policyVersion i)))))"

definition recordChargebackFeePolicyVersion ::
  "ident \<Rightarrow> fee_version_input \<Rightarrow> 'a fee_policy_tables_scheme \<Rightarrow>
   'a fee_policy_tables_scheme \<times> fee_version_view option res" where
  "recordChargebackFeePolicyVersion newId i db =
     (if fvi_amount i < 0 then (db, Inl (DisputeEvidenceRefused ''FEE_AMOUNT_NOT_A_NON_NEGATIVE_INTEGER''))
      else if length (fvi_currency i) \<noteq> 3 then (db, Inl (DisputeEvidenceRefused ''FEE_CURRENCY_NOT_ISO_4217''))
      else case assertRecordingAccountResolvable db (fvi_recordedByAccountId i) of
        Inl e \<Rightarrow> (db, Inl e)
      | Inr _ \<Rightarrow>
          (case ensure_fee_policy newId (fvi_label i) db of Inl e \<Rightarrow> (db, Inl e)
           | Inr (db1, pid) \<Rightarrow> record_fee_draft pid i db1))"

section \<open>Activating\<close>

definition retire_fee_version :: "ident \<Rightarrow> instant \<Rightarrow> fee_policy_version \<Rightarrow> fee_policy_version" where
  "retire_fee_version actor at v = v\<lparr>fpv_status := Policy_RETIRED, fpv_retiredAt := Some at,
     fpv_retiredByAccountId := Some actor, fpv_activeMarker := None\<rparr>"

definition activate_fee_version :: "ident \<Rightarrow> ident \<Rightarrow> instant \<Rightarrow> fee_policy_version \<Rightarrow> fee_policy_version" where
  "activate_fee_version pid actor at v = v\<lparr>fpv_status := Policy_ACTIVE, fpv_activeMarker := Some pid,
     fpv_activatedAt := Some at, fpv_activatedByAccountId := Some actor\<rparr>"

definition retire_standing_fee ::
  "ident \<Rightarrow> ident \<Rightarrow> instant \<Rightarrow> fee_policy_version list \<Rightarrow> fee_policy_version list" where
  "retire_standing_fee pid actor at vs =
     (case List.find (\<lambda>v. fpv_policyId v = pid \<and> fpv_status v = Policy_ACTIVE) vs of
        None \<Rightarrow> vs
      | Some standing \<Rightarrow> update_where (\<lambda>v. fpv_seq v = fpv_seq standing) (retire_fee_version actor at) vs)"

text \<open>The transaction.  \<open>target\<close> is the row as it was read before it.\<close>

definition fee_activation_tx ::
  "fee_policy_version \<Rightarrow> ident \<Rightarrow> ident \<Rightarrow> instant \<Rightarrow> 'a fee_policy_tables_scheme \<Rightarrow>
   'a fee_policy_tables_scheme res" where
  "fee_activation_tx target pid actor at db =
     (let vs = retire_standing_fee pid actor at (feePolicyVersions db) in
      if list_ex (\<lambda>v. fpv_seq v \<noteq> fpv_seq target \<and> fpv_activeMarker v = Some pid) vs
      then Inl (UniqueViolation ''SellerChargebackFeePolicyVersionRow'')
      else Inr (db\<lparr>feePolicyVersions :=
             update_where (\<lambda>v. fpv_seq v = fpv_seq target) (activate_fee_version pid actor at) vs\<rparr>))"

definition activateChargebackFeePolicyVersion ::
  "string \<Rightarrow> ident \<Rightarrow> instant \<Rightarrow> 'a fee_policy_tables_scheme \<Rightarrow>
   ('a fee_policy_tables_scheme \<times> fee_version_view option) res" where
  "activateChargebackFeePolicyVersion ver actor at db =
     chain (assertRecordingAccountResolvable db actor) (\<lambda>_.
       case find_fee_policy db of None \<Rightarrow> Inl (DisputeEvidenceRefused ''NO_FEE_POLICY_RECORDED'')
       | Some p \<Rightarrow>
           (case List.find (\<lambda>v. fpv_key v = (fp_id p, ver)) (feePolicyVersions db) of
              None \<Rightarrow> Inl (DisputeEvidenceRefused ''FEE_VERSION_NOT_RECORDED'')
            | Some target \<Rightarrow>
                if fpv_status target = Policy_ACTIVE then Inr (db, read_back db ver)
                else if fpv_status target = Policy_RETIRED then Inl (DisputeEvidenceRefused ''FEE_VERSION_RETIRED'')
                else chain (fee_activation_tx target (fp_id p) actor at db)
                       (\<lambda>db'. Inr (db', read_back db' ver))))"

interpretation fee_rows: version_rows fpv_seq fpv_policyId "\<lambda>v. fpv_status v = Policy_ACTIVE"
  "retire_fee_version actor at" "activate_fee_version pid actor at" for actor at pid
  by unfold_locales (simp_all add: retire_fee_version_def activate_fee_version_def)

end
