(* ===== verification/Market_Tables.thy ===== *)
theory Market_Tables
  imports Chargeback_Fee_Policy "HOL-Library.List_Lexorder" "HOL-Library.Char_ord"
begin

text \<open>
  The tables the post-sale services share, and the reads they have in common.  Each service is a
  function of this state; a database transaction is a function that returns the new state only
  when it does not throw, and an operation that writes outside a transaction returns the state
  beside its result, since what it wrote stays written when it throws.
\<close>

record market_tables = fee_policy_tables +
  orders :: "order_row list"
  taxTransactions :: "tax_transaction_row list"
  refunds :: "refund_row list"
  refundLines :: "refund_line_row list"
  taxReversals :: "tax_reversal_row list"
  disputes :: "dispute_row list"
  disputeEvents :: "dispute_event list"
  chargebackFees :: "chargeback_fee list"

definition find_order :: "'a market_tables_scheme \<Rightarrow> ident \<Rightarrow> order_row option" where
  "find_order db oid = List.find (\<lambda>r. or_id r = oid) (orders db)"

definition find_order_snapshot :: "'a market_tables_scheme \<Rightarrow> ident \<Rightarrow> snapshot_row option" where
  "find_order_snapshot db oid = List.find (\<lambda>r. sr_orderId r = Some oid) (snapshots db)"

definition find_refund :: "'a market_tables_scheme \<Rightarrow> ident \<Rightarrow> refund_row option" where
  "find_refund db rid = List.find (\<lambda>r. rf_id r = rid) (refunds db)"

definition find_order_refund :: "'a market_tables_scheme \<Rightarrow> ident \<Rightarrow> refund_row option" where
  "find_order_refund db oid = List.find (\<lambda>r. rf_orderId r = oid) (refunds db)"

definition find_tax_reversal :: "'a market_tables_scheme \<Rightarrow> ident \<Rightarrow> tax_reversal_row option" where
  "find_tax_reversal db tid = List.find (\<lambda>r. tv_id r = tid) (taxReversals db)"

definition find_order_tax_reversal :: "'a market_tables_scheme \<Rightarrow> ident \<Rightarrow> tax_reversal_row option" where
  "find_order_tax_reversal db oid = List.find (\<lambda>r. tv_orderId r = oid) (taxReversals db)"

definition find_tax_transaction :: "'a market_tables_scheme \<Rightarrow> ident \<Rightarrow> tax_transaction_row option" where
  "find_tax_transaction db tid = List.find (\<lambda>r. tt_id r = tid) (taxTransactions db)"

definition find_order_tax_transaction :: "'a market_tables_scheme \<Rightarrow> ident \<Rightarrow> tax_transaction_row option" where
  "find_order_tax_transaction db oid = List.find (\<lambda>r. tt_orderId r = oid) (taxTransactions db)"

text \<open>\<open>orderBy: { lineRef: "asc" }\<close>.\<close>

definition lineRefs_of :: "'a market_tables_scheme \<Rightarrow> ident \<Rightarrow> string list" where
  "lineRefs_of db rid = sort (map (\<lambda>l. rl_lineRef (rll_line l)) (filter (\<lambda>l. rll_refundId l = rid) (refundLines db)))"

text \<open>A dispute that stops a refund (\<open>disputeBlockingRefundIn\<close>).\<close>

definition disputeBlockingRefundIn :: "'a market_tables_scheme \<Rightarrow> ident \<Rightarrow> refund_refusal option" where
  "disputeBlockingRefundIn db sid =
     (let rows = filter (\<lambda>d. dp_snapshotId d = Some sid) (disputes db) in
      if list_ex (\<lambda>d. dp_status d = LOST) rows then Some SALE_DISPUTE_LOST
      else if list_ex (\<lambda>d. isDisputeOpen (dp_status d)) rows then Some SALE_DISPUTE_OPEN
      else None)"

end
