(* ===== verification/Refund_Service.thy ===== *)
theory Refund_Service
  imports Market_Tables
begin

text \<open>
  \<open>src/server/marketplace/order-refund-service.ts\<close>: eligibility, request, claim, and the resolution
  of an attempt.  A request commits a pending refund and contacts nobody; a successful attempt
  commits the refund row, the reversal entry, the tax-reversal obligation and the recovery
  exceptions together.
\<close>

section \<open>Records\<close>

record refund_record =
  rec_row :: refund_row
  rec_lineRefs :: "string list"

definition refundRowToRecord :: "refund_row \<Rightarrow> string list \<Rightarrow> refund_record res" where
  "refundRowToRecord row lineRefs =
     (if OrderRefundRecord row lineRefs then Inr \<lparr>rec_row = row, rec_lineRefs = lineRefs\<rparr>
      else Inl (RefundError ''CORRUPT_REFUND_RECORD''))"

definition withLinesToRecord :: "'a market_tables_scheme \<Rightarrow> refund_row \<Rightarrow> refund_record res" where
  "withLinesToRecord db row = refundRowToRecord row (lineRefs_of db (rf_id row))"

definition isRefundError :: "err \<Rightarrow> bool" where
  "isRefundError e = (case e of RefundError _ \<Rightarrow> True | RefundRefusedError _ \<Rightarrow> True | _ \<Rightarrow> False)"

definition REFUND_PERSISTENCE_FAILURE :: err where
  "REFUND_PERSISTENCE_FAILURE = RefundError ''REFUND_PERSISTENCE_FAILURE''"

section \<open>Lines\<close>

definition resolveRefundableOrderLines :: "'a market_tables_scheme \<Rightarrow> ident \<Rightarrow> refundable_line list" where
  "resolveRefundableOrderLines db orderId =
     (case find_order db orderId of None \<Rightarrow> []
      | Some ord \<Rightarrow>
          [\<lparr>rl_lineRef = singleOrderLineRef (or_id ord), rl_internalProductId = or_internalProductId ord,
            rl_listingSourceRecordId = or_listingSourceRecordId ord,
            rl_listingSourceRecordVersion = or_listingSourceRecordVersion ord,
            rl_currency = oq_currency (or_quote ord),
            rl_commercialRetail = oq_commercialRetail (or_quote ord),
            rl_tax = oq_tax (or_quote ord)\<rparr>])"

section \<open>Eligibility\<close>

record eligibility_args =
  el_orderId :: ident
  el_at :: instant
  el_selectedLineRefs :: "string list option"
  el_reasonCode :: "refund_reason option"
  el_requestedAmount :: "amount option"

record refund_eligibility =
  eg_orderId :: ident
  eg_eligible :: bool
  eg_refusals :: "refund_refusal list"
  eg_orderLines :: "refundable_line list"
  eg_selectedLineRefs :: "string list"
  eg_coversWholeOrder :: bool
  eg_amounts :: "refund_amounts option"
  eg_sellerRefundPolicyId :: "ident option"
  eg_sellerRefundPolicyVersion :: "string option"
  eg_currency :: "currency option"
  eg_providerTransactionRef :: "string option"
  eg_provider :: "string option"
  eg_snapshotId :: "ident option"

definition RefundEligibility :: "refund_eligibility \<Rightarrow> bool" where
  "RefundEligibility e =
     (source_ref (eg_orderId e) \<and> list_all RefundableOrderLine (eg_orderLines e) \<and>
      list_all OrderLineRef (eg_selectedLineRefs e) \<and>
      opt_all (\<lambda>a. Amount (ram_total a) \<and> Amount (ram_linesRetail a) \<and> Amount (ram_linesTax a) \<and>
                   Amount (ram_shipping a)) (eg_amounts e) \<and>
      opt_all source_ref (eg_sellerRefundPolicyId e) \<and> opt_all version_ref (eg_sellerRefundPolicyVersion e) \<and>
      opt_all CurrencyCode (eg_currency e) \<and> opt_all ProviderTransactionRef (eg_providerTransactionRef e) \<and>
      opt_all (\<lambda>p. p = ''STRIPE'') (eg_provider e) \<and> opt_all source_ref (eg_snapshotId e))"

text \<open>The lines a request selects, in its order and without repetition, with one refusal for each
  reference that is not on the Order.\<close>

fun select_lines ::
  "refundable_line list \<Rightarrow> string list \<Rightarrow> refundable_line list \<Rightarrow> refund_refusal list \<times> refundable_line list" where
  "select_lines orderLines [] selected = ([], selected)"
| "select_lines orderLines (ref # refs) selected =
     (case List.find (\<lambda>l. rl_lineRef l = ref) orderLines of
        None \<Rightarrow> (let (es, ls) = select_lines orderLines refs selected in (REFUND_LINE_NOT_FOUND # es, ls))
      | Some line \<Rightarrow>
          select_lines orderLines refs
            (if list_ex (\<lambda>l. rl_lineRef l = ref) selected then selected else selected @ [line]))"

text \<open>The refusals about the sale itself.\<close>

definition sale_refusals ::
  "'a market_tables_scheme \<Rightarrow> order_row \<Rightarrow> snapshot_row option \<Rightarrow> settlement_row option \<Rightarrow> refund_refusal list" where
  "sale_refusals db ord snapshot settlement =
     (let existing = count_where (\<lambda>r. rf_orderId r = or_id ord) (refunds db) in
      (if or_lifecycle ord \<noteq> Order_PAID then [ORDER_NOT_PAID] else []) @
      (if snapshot = None then [ECONOMIC_SNAPSHOT_MISSING] else []) @
      (case settlement of None \<Rightarrow> [PROVIDER_PAYMENT_REFERENCE_MISSING]
       | Some s \<Rightarrow> if st_providerTransactionRef s = None \<or> st_provider s = None
                   then [PROVIDER_PAYMENT_REFERENCE_MISSING] else []) @
      (if existing > 0 then [REFUND_ALREADY_EXISTS] else []) @
      (case snapshot of None \<Rightarrow> []
       | Some s \<Rightarrow>
           (if isSnapshotReversedIn db (sr_id s) \<and> existing = 0 then [SALE_ALREADY_REVERSED] else []) @
           (case disputeBlockingRefundIn db (sr_id s) of None \<Rightarrow> []
            | Some block \<Rightarrow> if existing = 0 then [block] else []) @
           (if sr_currency s \<noteq> oq_currency (or_quote ord) then [CURRENCY_MISMATCH] else []) @
           (case settlement of None \<Rightarrow> []
            | Some st \<Rightarrow> if st_state st = REVERSED \<and> existing = 0 then [CONFLICTING_REFUND_STATE] else [])))"

text \<open>The bound terms, and the refusals about them.\<close>

definition bound_policy ::
  "content_hash \<Rightarrow> 'a market_tables_scheme \<Rightarrow> order_row \<Rightarrow> refund_policy_record option" where
  "bound_policy h db ord =
     (case (or_sellerRefundPolicyId ord, or_sellerRefundPolicyVersion ord) of
        (Some pid, Some ver) \<Rightarrow>
          (case readSellerRefundPolicyVersionIn h db pid ver of Inl _ \<Rightarrow> None | Inr p \<Rightarrow> p)
      | _ \<Rightarrow> None)"

definition policy_refusals :: "order_row \<Rightarrow> refund_policy_record option \<Rightarrow> instant \<Rightarrow> refund_refusal list" where
  "policy_refusals ord policy at =
     (if or_sellerRefundPolicyId ord = None \<or> or_sellerRefundPolicyVersion ord = None
      then [SELLER_REFUND_POLICY_NOT_BOUND]
      else case policy of None \<Rightarrow> [SELLER_REFUND_POLICY_UNREADABLE]
      | Some p \<Rightarrow>
          (if \<not> rt_refundsAllowed (rpr_terms p) then [SELLER_REFUND_POLICY_FORBIDS_REFUND] else []) @
          (case or_paidAt ord of None \<Rightarrow> []
           | Some paidAt \<Rightarrow>
               if \<not> refundWindowIsOpen (rt_refundWindowDays (rpr_terms p)) paidAt at
               then [SELLER_REFUND_WINDOW_EXPIRED] else []))"

definition derive_for ::
  "order_row \<Rightarrow> refund_policy_record option \<Rightarrow> refundable_line list \<Rightarrow> nat \<Rightarrow> refund_reason \<Rightarrow>
   (refund_refusal + refund_amounts) option" where
  "derive_for ord policy selected lineCount reason =
     (case policy of None \<Rightarrow> None
      | Some p \<Rightarrow> if selected = [] then None
                  else Some (deriveRefundAmount selected lineCount (oq_shipping (or_quote ord))
                         (oq_other (or_quote ord)) (rt_shippingRefundability (rpr_terms p)) reason))"

definition not_found_eligibility :: "ident \<Rightarrow> refund_eligibility" where
  "not_found_eligibility oid = \<lparr>eg_orderId = oid, eg_eligible = False, eg_refusals = [ORDER_NOT_FOUND],
     eg_orderLines = [], eg_selectedLineRefs = [], eg_coversWholeOrder = False, eg_amounts = None,
     eg_sellerRefundPolicyId = None, eg_sellerRefundPolicyVersion = None, eg_currency = None,
     eg_providerTransactionRef = None, eg_provider = None, eg_snapshotId = None\<rparr>"

definition evaluate_order ::
  "content_hash \<Rightarrow> eligibility_args \<Rightarrow> 'a market_tables_scheme \<Rightarrow> order_row \<Rightarrow> refund_eligibility" where
  "evaluate_order h a db ord =
     (let reasonCode = (case el_reasonCode a of None \<Rightarrow> CUSTOMER_REQUEST | Some r \<Rightarrow> r);
          snapshot = find_order_snapshot db (el_orderId a);
          settlement = (case snapshot of None \<Rightarrow> None | Some s \<Rightarrow> find_settlement db (sr_id s));
          policy = bound_policy h db ord;
          orderLines = resolveRefundableOrderLines db (el_orderId a);
          requested = (case el_selectedLineRefs a of None \<Rightarrow> map rl_lineRef orderLines | Some rs \<Rightarrow> rs);
          (lineErrors, selectedLines) = select_lines orderLines requested [];
          coversWholeOrder = (orderLines \<noteq> [] \<and> length selectedLines = length orderLines);
          derived = derive_for ord policy selectedLines (length orderLines) reasonCode;
          total = (case derived of Some (Inr d) \<Rightarrow> Some (ram_total d) | _ \<Rightarrow> None);
          refusals =
            sale_refusals db ord snapshot settlement @
            policy_refusals ord policy (el_at a) @
            lineErrors @
            (if selectedLines = [] \<and> REFUND_LINE_NOT_FOUND \<notin> set lineErrors then [NO_REFUND_LINES_SELECTED] else []) @
            (if selectedLines \<noteq> [] \<and> \<not> coversWholeOrder then [SUBSET_LINE_REFUND_NOT_YET_EXECUTABLE] else []) @
            (case derived of Some (Inl e) \<Rightarrow> [e] | _ \<Rightarrow> []) @
            (if el_requestedAmount a \<noteq> None \<and> el_requestedAmount a \<noteq> total
             then [PARTIAL_LINE_REFUND_NOT_SUPPORTED] else []) @
            (case total of None \<Rightarrow> [] | Some t \<Rightarrow> if t \<le> 0 then [REFUND_AMOUNT_DOES_NOT_RECONCILE] else [])
      in \<lparr>eg_orderId = el_orderId a, eg_eligible = (uniq refusals = []), eg_refusals = uniq refusals,
          eg_orderLines = orderLines, eg_selectedLineRefs = map rl_lineRef selectedLines,
          eg_coversWholeOrder = coversWholeOrder,
          eg_amounts = (case derived of Some (Inr d) \<Rightarrow> Some d | _ \<Rightarrow> None),
          eg_sellerRefundPolicyId = or_sellerRefundPolicyId ord,
          eg_sellerRefundPolicyVersion = or_sellerRefundPolicyVersion ord,
          eg_currency = Some (oq_currency (or_quote ord)),
          eg_providerTransactionRef = (case settlement of None \<Rightarrow> None | Some s \<Rightarrow> st_providerTransactionRef s),
          eg_provider = (case settlement of None \<Rightarrow> None | Some s \<Rightarrow> st_provider s),
          eg_snapshotId = map_option sr_id snapshot\<rparr>)"

definition evaluateRefundEligibility ::
  "content_hash \<Rightarrow> eligibility_args \<Rightarrow> 'a market_tables_scheme \<Rightarrow> refund_eligibility res" where
  "evaluateRefundEligibility h a db =
     (let e = (case find_order db (el_orderId a) of
                 None \<Rightarrow> not_found_eligibility (el_orderId a) | Some ord \<Rightarrow> evaluate_order h a db ord)
      in if RefundEligibility e then Inr e else Inl ZodError)"

section \<open>Request\<close>

record refund_request =
  rq_orderId :: ident
  rq_reasonCode :: refund_reason
  rq_requestorKind :: refund_requestor
  rq_requestedByAccountId :: "ident option"
  rq_requestedAt :: instant
  rq_selectedLineRefs :: "string list option"
  rq_requestedAmount :: "amount option"

definition request_args :: "refund_request \<Rightarrow> eligibility_args" where
  "request_args q = \<lparr>el_orderId = rq_orderId q, el_at = rq_requestedAt q,
     el_selectedLineRefs = rq_selectedLineRefs q, el_reasonCode = Some (rq_reasonCode q),
     el_requestedAmount = rq_requestedAmount q\<rparr>"

definition new_refund_row ::
  "ident \<Rightarrow> refund_request \<Rightarrow> refund_eligibility \<Rightarrow> ident \<Rightarrow> string \<Rightarrow> string \<Rightarrow> currency \<Rightarrow> refund_amounts \<Rightarrow>
   ident \<Rightarrow> string \<Rightarrow> refund_row" where
  "new_refund_row refundId q e snapshotId provider providerRef cur amounts pid ver =
     \<lparr>rf_id = refundId, rf_orderId = rq_orderId q, rf_snapshotId = snapshotId,
      rf_coversWholeOrder = eg_coversWholeOrder e, rf_sellerRefundPolicyId = pid,
      rf_sellerRefundPolicyVersion = ver, rf_reasonCode = rq_reasonCode q,
      rf_requestorKind = rq_requestorKind q, rf_requestedByAccountId = rq_requestedByAccountId q,
      rf_requestedAt = rq_requestedAt q, rf_provider = provider, rf_providerMode = ''TEST'',
      rf_providerTransactionRef = providerRef, rf_providerRefundRef = None,
      rf_providerRefundCreatedAt = None, rf_currency = cur, rf_amount = ram_total amounts,
      rf_linesRetail = ram_linesRetail amounts, rf_linesTax = ram_linesTax amounts,
      rf_refundedShipping = ram_shipping amounts, rf_recordedAt = rq_requestedAt q,
      rf_status = INITIAL_REFUND_STATUS, rf_attemptCount = 0,
      rf_nextAttemptAt = Some (rq_requestedAt q), rf_lockToken = None, rf_lockedAt = None,
      rf_leaseExpiresAt = None, rf_lastFailureCode = None, rf_lastFailureClass = None,
      rf_finalizedAt = None, rf_requeueCount = 0, rf_lastRequeuedAt = None, rf_reversalId = None\<rparr>"

text \<open>The insert's unique keys: the id, the Order and the snapshot.\<close>

definition refund_conflict :: "'a market_tables_scheme \<Rightarrow> refund_row \<Rightarrow> bool" where
  "refund_conflict db row = list_ex (\<lambda>r. rf_id r = rf_id row \<or> rf_orderId r = rf_orderId row \<or>
     rf_snapshotId r = rf_snapshotId row) (refunds db)"

text \<open>The transaction: the row and its lines, or nothing.\<close>

definition create_refund_in_tx ::
  "refund_row \<Rightarrow> refundable_line list \<Rightarrow> 'a market_tables_scheme \<Rightarrow> ('a market_tables_scheme \<times> refund_record) res" where
  "create_refund_in_tx row selected db =
     (if refund_conflict db row \<or>
         list_ex (\<lambda>l. rll_refundId l = rf_id row \<and> rl_lineRef (rll_line l) \<in> rl_lineRef ` set selected) (refundLines db)
      then Inl (RefundError ''REFUND_ALREADY_EXISTS'')
      else chain (refundRowToRecord row (map rl_lineRef selected)) (\<lambda>r.
             Inr (db\<lparr>refunds := refunds db @ [row],
                     refundLines := refundLines db @
                       map (\<lambda>l. \<lparr>rll_refundId = rf_id row, rll_line = l\<rparr>) selected\<rparr>, r)))"

definition requestOrderRefund ::
  "content_hash \<Rightarrow> ident \<Rightarrow> refund_request \<Rightarrow> 'a market_tables_scheme \<Rightarrow>
   ('a market_tables_scheme \<times> refund_record) res" where
  "requestOrderRefund h refundId q db =
     chain (evaluateRefundEligibility h (request_args q) db) (\<lambda>e.
       if \<not> eg_eligible e
       then (if REFUND_ALREADY_EXISTS \<in> set (eg_refusals e) then Inl (RefundError ''REFUND_ALREADY_EXISTS'')
             else Inl (RefundRefusedError (eg_refusals e)))
       else case (eg_snapshotId e, eg_provider e, eg_providerTransactionRef e, eg_currency e, eg_amounts e,
                  eg_sellerRefundPolicyId e, eg_sellerRefundPolicyVersion e) of
         (Some snapshotId, Some provider, Some providerRef, Some cur, Some amounts, Some pid, Some ver) \<Rightarrow>
           create_refund_in_tx (new_refund_row refundId q e snapshotId provider providerRef cur amounts pid ver)
             (filter (\<lambda>l. rl_lineRef l \<in> set (eg_selectedLineRefs e)) (eg_orderLines e)) db
       | _ \<Rightarrow> Inl (RefundRefusedError [CONFLICTING_REFUND_STATE]))"

section \<open>Claim\<close>

definition refund_due :: "instant \<Rightarrow> refund_row \<Rightarrow> bool" where
  "refund_due now r = ((rf_status r = Refund_PENDING \<or> rf_status r = Refund_RETRY_PENDING) \<and>
     (case rf_nextAttemptAt r of None \<Rightarrow> False | Some t \<Rightarrow> t \<le> now) \<and> rf_lockToken r = None)"

definition claim_refund_row :: "instant \<Rightarrow> ident \<Rightarrow> refund_row \<Rightarrow> refund_row" where
  "claim_refund_row now token r = r\<lparr>rf_status := Refund_IN_PROGRESS, rf_lockToken := Some token,
     rf_lockedAt := Some now, rf_leaseExpiresAt := Some (now + refund_claimLeaseSeconds * 1000)\<rparr>"

definition refund_stale :: "instant \<Rightarrow> refund_row \<Rightarrow> bool" where
  "refund_stale now r = (rf_status r = Refund_IN_PROGRESS \<and>
     (case rf_leaseExpiresAt r of None \<Rightarrow> False | Some t \<Rightarrow> t < now))"

definition release_refund_row :: "instant \<Rightarrow> refund_row \<Rightarrow> refund_row" where
  "release_refund_row now r = r\<lparr>rf_status := Refund_RETRY_PENDING, rf_lockToken := None,
     rf_lockedAt := None, rf_leaseExpiresAt := None, rf_nextAttemptAt := Some now\<rparr>"

definition claimDueRefunds ::
  "ident \<Rightarrow> instant \<Rightarrow> int \<Rightarrow> 'a market_tables_scheme \<Rightarrow>
   'a market_tables_scheme \<times> ((refund_record \<times> ident) list \<times> nat) res" where
  "claimDueRefunds lockToken now limit db =
     (let eligible = claim_select rf_id refund_due rf_nextAttemptAt now limit (refunds db) in
      if eligible = [] then (db, Inr ([], 0))
      else
        let db' = db\<lparr>refunds := claim_stamp rf_id refund_due claim_refund_row now lockToken eligible (refunds db)\<rparr>;
            claimed = claimed_by rf_lockToken lockToken (refunds db')
        in (db', chain (map_res (withLinesToRecord db') claimed) (\<lambda>records.
                   Inr (map (\<lambda>r. (r, lockToken)) records, length eligible - length claimed))))"

definition recoverStaleRefundClaims ::
  "instant \<Rightarrow> 'a market_tables_scheme \<Rightarrow> 'a market_tables_scheme \<times> nat" where
  "recoverStaleRefundClaims now db =
     (db\<lparr>refunds := release_stale refund_stale release_refund_row now (refunds db)\<rparr>,
      count_where (refund_stale now) (refunds db))"

section \<open>Resolve\<close>

datatype refund_attempt_outcome =
    Attempt_REFUNDED string instant
  | Attempt_FAILED refund_failure

record refund_ids =
  ids_reversal :: ident
  ids_taxReversal :: ident
  ids_precx :: "nat \<Rightarrow> ident"

record resolved_refund =
  rsv_refund :: refund_record
  rsv_reversalId :: "ident option"
  rsv_taxReversalId :: "ident option"
  rsv_recoveryExceptionIds :: "ident list"

definition fail_refund_row :: "refund_row \<Rightarrow> refund_failure \<Rightarrow> instant \<Rightarrow> refund_row \<Rightarrow> refund_row" where
  "fail_refund_row existing code at r =
     (let failureClass = classifyRefundFailure code;
          attemptCount = rf_attemptCount existing + 1;
          retryAt = (if failureClass = Class_PERMANENT then None else nextRefundAttemptAt attemptCount at);
          terminal = (retryAt = None)
      in r\<lparr>rf_status := (if terminal then Refund_FAILED_PERMANENT else Refund_RETRY_PENDING),
           rf_attemptCount := attemptCount, rf_nextAttemptAt := retryAt,
           rf_lastFailureCode := Some code, rf_lastFailureClass := Some failureClass,
           rf_lockToken := None, rf_lockedAt := None, rf_leaseExpiresAt := None,
           rf_finalizedAt := (if terminal then Some at else None)\<rparr>)"

text \<open>The update is by id alone; \<open>existing\<close> is the row as it was read.\<close>

definition failRefundAttempt ::
  "refund_row \<Rightarrow> refund_failure \<Rightarrow> instant \<Rightarrow> 'a market_tables_scheme \<Rightarrow>
   'a market_tables_scheme \<times> refund_record res" where
  "failRefundAttempt existing code at db =
     (let db' = db\<lparr>refunds := update_where (\<lambda>r. rf_id r = rf_id existing)
                    (fail_refund_row existing code at) (refunds db)\<rparr>
      in (db', case find_refund db' (rf_id existing) of
                 None \<Rightarrow> Inl REFUND_PERSISTENCE_FAILURE
               | Some row \<Rightarrow> withLinesToRecord db' row))"

definition tax_obligation ::
  "ident \<Rightarrow> ident \<Rightarrow> ident \<Rightarrow> instant \<Rightarrow> tax_transaction_row \<Rightarrow> string \<Rightarrow> tax_reversal_row" where
  "tax_obligation taxReversalId orderId refundId recordedAt original originalRef =
     \<lparr>tv_id = taxReversalId, tv_orderId = orderId, tv_refundId = refundId,
      tv_taxTransactionId = tt_id original, tv_provider = tt_provider original,
      tv_providerMode = tt_providerMode original, tv_originalProviderTaxTransactionRef = originalRef,
      tv_providerReversalRef = None, tv_providerReversalCreatedAt = None,
      tv_providerReference = taxReversalProviderReference orderId,
      tv_currency = tt_currency original, tv_reversedTaxAmount = tt_taxAmount original,
      tv_reversedTaxableBasis = tt_taxableBasis original, tv_recordedAt = recordedAt,
      tv_status = Tax_PENDING, tv_attemptCount = 0, tv_nextAttemptAt = Some recordedAt,
      tv_lockToken = None, tv_lockedAt = None, tv_leaseExpiresAt = None,
      tv_lastFailureCode = None, tv_lastFailureClass = None, tv_finalizedAt = None,
      tv_requeueCount = 0, tv_lastRequeuedAt = None\<rparr>"

definition commitTaxReversalObligationInTx ::
  "ident \<Rightarrow> ident \<Rightarrow> instant \<Rightarrow> ident \<Rightarrow> 'a market_tables_scheme \<Rightarrow>
   ('a market_tables_scheme \<times> ident option) res" where
  "commitTaxReversalObligationInTx orderId refundId recordedAt taxReversalId db =
     (case find_order_tax_transaction db orderId of None \<Rightarrow> Inr (db, None)
      | Some original \<Rightarrow>
          (if tt_recordingStatus original \<noteq> RECORDED then Inr (db, None)
           else case tt_providerTaxTransactionRef original of None \<Rightarrow> Inr (db, None)
           | Some originalRef \<Rightarrow>
               if \<not> requiresTaxReversal True (tt_taxAmount original) then Inr (db, None)
               else if list_ex (\<lambda>t. tv_id t = taxReversalId \<or> tv_orderId t = orderId \<or>
                         tv_refundId t = refundId \<or> tv_taxTransactionId t = tt_id original) (taxReversals db)
               then Inl (UniqueViolation ''OrderTaxReversal'')
               else Inr (db\<lparr>taxReversals := taxReversals db @
                      [tax_obligation taxReversalId orderId refundId recordedAt original originalRef]\<rparr>, Some taxReversalId)))"

text \<open>One exception per claim that is past the gate; the n-th one raised takes the n-th id.\<close>

definition refund_exception ::
  "ident \<Rightarrow> ident \<Rightarrow> ident \<Rightarrow> ident \<Rightarrow> instant \<Rightarrow> proceeds_obligation \<Rightarrow> recovery_reason \<Rightarrow> recovery_exception" where
  "refund_exception exceptionId refundId orderId snapshotId raisedAt ob reason =
     \<lparr>prx_id = exceptionId, prx_refundId = Some refundId, prx_disputeId = None, prx_causeKind = Cause_REFUND,
      prx_orderId = orderId, prx_snapshotId = snapshotId, prx_proceedsObligationId = pob_id ob,
      prx_participantId = pob_participantId ob, prx_party = pob_party ob, prx_amount = pob_amount ob,
      prx_attributableAmount = pob_amount ob, prx_currency = pob_currency ob, prx_reasonCode = reason,
      prx_obligationState = pob_state ob, prx_status = Recovery_OPEN, prx_resolutionCode = None,
      prx_raisedAt = raisedAt, prx_acknowledgedAt = None, prx_resolvedAt = None\<rparr>"

definition recovery_conflict :: "recovery_exception list \<Rightarrow> recovery_exception \<Rightarrow> bool" where
  "recovery_conflict rs x = list_ex (\<lambda>r. prx_id r = prx_id x \<or>
     (prx_proceedsObligationId r = prx_proceedsObligationId x \<and> prx_causeKind r = prx_causeKind x)) rs"

fun raise_for ::
  "(ident \<Rightarrow> proceeds_obligation \<Rightarrow> recovery_reason \<Rightarrow> recovery_exception) \<Rightarrow> (nat \<Rightarrow> ident) \<Rightarrow> recovery_cause \<Rightarrow>
   proceeds_obligation list \<Rightarrow> nat \<Rightarrow> recovery_exception list \<Rightarrow> (recovery_exception list \<times> ident list) res" where
  "raise_for mk ids cause [] n rs = Inr (rs, [])"
| "raise_for mk ids cause (ob # obs) n rs =
     (case recoveryReasonForObligationState (pob_state ob) cause of
        None \<Rightarrow> raise_for mk ids cause obs n rs
      | Some reason \<Rightarrow>
          let x = mk (ids n) ob reason in
          if recovery_conflict rs x then Inl (UniqueViolation ''ProceedsRecoveryException'')
          else chain (raise_for mk ids cause obs (Suc n) (rs @ [x])) (\<lambda>(rs', raised). Inr (rs', ids n # raised)))"

definition raiseProceedsRecoveryExceptionsInTx ::
  "ident \<Rightarrow> ident \<Rightarrow> ident \<Rightarrow> bool \<Rightarrow> instant \<Rightarrow> (nat \<Rightarrow> ident) \<Rightarrow> 'a market_tables_scheme \<Rightarrow>
   ('a market_tables_scheme \<times> ident list) res" where
  "raiseProceedsRecoveryExceptionsInTx refundId orderId snapshotId coversWholeOrder raisedAt ids db =
     (let obs = party_order (filter (\<lambda>ob. pob_snapshotId ob = snapshotId) (obligations db)) in
      if \<not> coversWholeOrder then Inl (RefundError ''CORRUPT_REFUND_RECORD'')
      else chain (raise_for (\<lambda>i ob reason. refund_exception i refundId orderId snapshotId raisedAt ob reason)
                    ids Cause_REFUND obs 0 (recoveries db))
             (\<lambda>(rs, raised). Inr (db\<lparr>recoveries := rs\<rparr>, raised)))"

definition complete_refund_row ::
  "refund_row \<Rightarrow> string \<Rightarrow> instant \<Rightarrow> instant \<Rightarrow> ident \<Rightarrow> refund_row \<Rightarrow> refund_row" where
  "complete_refund_row existing ref createdAt at reversalId r =
     r\<lparr>rf_status := REFUNDED, rf_providerRefundRef := Some ref, rf_providerRefundCreatedAt := Some createdAt,
       rf_attemptCount := rf_attemptCount existing + 1, rf_nextAttemptAt := None, rf_lockToken := None,
       rf_lockedAt := None, rf_leaseExpiresAt := None, rf_finalizedAt := Some at,
       rf_reversalId := Some reversalId\<rparr>"

text \<open>The update's unique keys: the provider's refund reference and the reversal entry.\<close>

definition refund_update_conflict :: "'a market_tables_scheme \<Rightarrow> refund_row \<Rightarrow> string \<Rightarrow> ident \<Rightarrow> bool" where
  "refund_update_conflict db existing ref reversalId =
     list_ex (\<lambda>r. rf_id r \<noteq> rf_id existing \<and>
       ((rf_provider r = rf_provider existing \<and> rf_providerRefundRef r = Some ref) \<or>
        rf_reversalId r = Some reversalId)) (refunds db)"

definition finalizeRefundInTx ::
  "refund_ids \<Rightarrow> refund_row \<Rightarrow> string \<Rightarrow> instant \<Rightarrow> instant \<Rightarrow> 'a market_tables_scheme \<Rightarrow>
   ('a market_tables_scheme \<times> resolved_refund) res" where
  "finalizeRefundInTx ids existing ref createdAt at db =
     chain (recordFullReversalInTx (ids_reversal ids)
              \<lparr>rvi_snapshotId = rf_snapshotId existing, rvi_kind = Kind_REFUND,
               rvi_reasonCode = reversalReasonForRefund (rf_reasonCode existing),
               rvi_provider = Some (rf_provider existing), rvi_providerReversalRef = Some ref,
               rvi_occurredAt = createdAt, rvi_recordedAt = at\<rparr> db) (\<lambda>(db1, reversal).
     if refund_update_conflict db1 existing ref (trv_id reversal)
     then Inl (UniqueViolation ''OrderRefund'')
     else
       let complete = complete_refund_row existing ref createdAt at (trv_id reversal);
           db2 = db1\<lparr>refunds := update_where (\<lambda>r. rf_id r = rf_id existing) complete (refunds db1)\<rparr>
       in chain (commitTaxReversalObligationInTx (rf_orderId existing) (rf_id existing) at (ids_taxReversal ids) db2)
            (\<lambda>(db3, taxReversalId).
          chain (raiseProceedsRecoveryExceptionsInTx (rf_id existing) (rf_orderId existing)
                   (rf_snapshotId existing) (rf_coversWholeOrder existing) at (ids_precx ids) db3)
            (\<lambda>(db4, raised).
          case find_refund db4 (rf_id existing) of
            None \<Rightarrow> Inl REFUND_PERSISTENCE_FAILURE
          | Some row \<Rightarrow>
              chain (withLinesToRecord db4 row) (\<lambda>record.
                Inr (db4, \<lparr>rsv_refund = record, rsv_reversalId = Some (trv_id reversal),
                           rsv_taxReversalId = taxReversalId, rsv_recoveryExceptionIds = raised\<rparr>)))))"

definition no_consequences :: "refund_record \<Rightarrow> resolved_refund" where
  "no_consequences r = \<lparr>rsv_refund = r, rsv_reversalId = None, rsv_taxReversalId = None,
     rsv_recoveryExceptionIds = []\<rparr>"

text \<open>What follows the read of \<open>existing\<close>: \<open>resolve_read\<close> is run on the state as it is by then.\<close>

definition resolve_read ::
  "refund_ids \<Rightarrow> refund_row \<Rightarrow> refund_attempt_outcome \<Rightarrow> instant \<Rightarrow> 'a market_tables_scheme \<Rightarrow>
   'a market_tables_scheme \<times> resolved_refund option res" where
  "resolve_read ids existing result at db =
     (case result of
        Attempt_FAILED code \<Rightarrow>
          (let (db', r) = failRefundAttempt existing code at db
           in (db', chain r (\<lambda>record. Inr (Some (no_consequences record)))))
      | Attempt_REFUNDED ref createdAt \<Rightarrow>
          (let candidate = existing\<lparr>rf_status := REFUNDED, rf_providerRefundRef := Some ref,
                             rf_providerRefundCreatedAt := Some createdAt\<rparr>
           in case withLinesToRecord db candidate of
                Inl e \<Rightarrow> (db, Inl e)
              | Inr _ \<Rightarrow>
                  if \<not> refundIsCoherent candidate
                  then (let (db', r) = failRefundAttempt existing RF_EVIDENCE_INCONSISTENT at db
                        in (db', chain r (\<lambda>record. Inr (Some (no_consequences record)))))
                  else case finalizeRefundInTx ids existing ref createdAt at db of
                         Inl e \<Rightarrow> (db, Inl (if isRefundError e then e else REFUND_PERSISTENCE_FAILURE))
                       | Inr (db', resolved) \<Rightarrow> (db', Inr (Some resolved))))"

definition resolveRefundAttempt ::
  "refund_ids \<Rightarrow> ident \<Rightarrow> ident \<Rightarrow> refund_attempt_outcome \<Rightarrow> instant \<Rightarrow> 'a market_tables_scheme \<Rightarrow>
   'a market_tables_scheme \<times> resolved_refund option res" where
  "resolveRefundAttempt ids refundId lockToken result at db =
     (case find_refund db refundId of None \<Rightarrow> (db, Inr None)
      | Some existing \<Rightarrow>
          if rf_lockToken existing \<noteq> Some lockToken then (db, Inr None)
          else resolve_read ids existing result at db)"

section \<open>Reads\<close>

definition markTaxTransactionReversedInTx ::
  "ident \<Rightarrow> 'a market_tables_scheme \<Rightarrow> 'a market_tables_scheme" where
  "markTaxTransactionReversedInTx taxTransactionId db =
     db\<lparr>taxTransactions := update_where (\<lambda>t. tt_id t = taxTransactionId)
          (\<lambda>t. t\<lparr>tt_lifecycleState := Lifecycle_REVERSED\<rparr>) (taxTransactions db)\<rparr>"

definition getRefundForOrder :: "'a market_tables_scheme \<Rightarrow> ident \<Rightarrow> refund_record option res" where
  "getRefundForOrder db oid =
     (case find_order_refund db oid of None \<Rightarrow> Inr None
      | Some row \<Rightarrow> chain (withLinesToRecord db row) (\<lambda>r. Inr (Some r)))"

definition isOrderRefundedIn :: "'a market_tables_scheme \<Rightarrow> ident \<Rightarrow> bool" where
  "isOrderRefundedIn db oid =
     (case find_order_refund db oid of None \<Rightarrow> False | Some r \<Rightarrow> rf_status r = REFUNDED)"

definition getRefundLifecycleState :: "'a market_tables_scheme \<Rightarrow> ident \<Rightarrow> refund_lifecycle option" where
  "getRefundLifecycleState db oid =
     (case find_order_refund db oid of None \<Rightarrow> None
      | Some refund \<Rightarrow>
          Some (refundLifecycleState (rf_status refund) (map_option tv_status (find_order_tax_reversal db oid))))"

definition listUnresolvedRefunds :: "int \<Rightarrow> 'a market_tables_scheme \<Rightarrow> refund_record list res" where
  "listUnresolvedRefunds limit db =
     map_res (withLinesToRecord db) (take (nat (max 1 (min limit 500)))
       (sort_key rf_recordedAt (filter (\<lambda>r. rf_status r \<noteq> REFUNDED) (refunds db))))"

end
