(* ===== verification/Tax_Reversal_Service.thy ===== *)
theory Tax_Reversal_Service
  imports Refund_Service
begin

text \<open>
  \<open>src/server/tax/tax-reversal-service.ts\<close>: the queue of provider tax reversals a completed refund
  commits.  A reversal is verified against the refund and the original tax transaction before the
  provider is called, and its success also marks the original as reversed.
\<close>

definition taxReversalRowToRecord :: "tax_reversal_row \<Rightarrow> tax_reversal_row res" where
  "taxReversalRowToRecord row =
     (if OrderTaxReversalRecord row then Inr row else Inl (TaxError ''CORRUPT_TAX_REVERSAL''))"

definition isTaxError :: "err \<Rightarrow> bool" where
  "isTaxError e = (case e of TaxError _ \<Rightarrow> True | _ \<Rightarrow> False)"

definition TAX_REVERSAL_PERSISTENCE_FAILURE :: err where
  "TAX_REVERSAL_PERSISTENCE_FAILURE = TaxError ''TAX_REVERSAL_PERSISTENCE_FAILURE''"

section \<open>Claim\<close>

definition tax_reversal_due :: "instant \<Rightarrow> tax_reversal_row \<Rightarrow> bool" where
  "tax_reversal_due now r = ((tv_status r = Tax_PENDING \<or> tv_status r = Tax_RETRY_PENDING) \<and>
     (case tv_nextAttemptAt r of None \<Rightarrow> False | Some t \<Rightarrow> t \<le> now) \<and> tv_lockToken r = None)"

definition claim_tax_reversal_row :: "instant \<Rightarrow> ident \<Rightarrow> tax_reversal_row \<Rightarrow> tax_reversal_row" where
  "claim_tax_reversal_row now token r = r\<lparr>tv_status := Tax_IN_PROGRESS, tv_lockToken := Some token,
     tv_lockedAt := Some now, tv_leaseExpiresAt := Some (now + tax_claimLeaseSeconds * 1000)\<rparr>"

definition tax_reversal_stale :: "instant \<Rightarrow> tax_reversal_row \<Rightarrow> bool" where
  "tax_reversal_stale now r = (tv_status r = Tax_IN_PROGRESS \<and>
     (case tv_leaseExpiresAt r of None \<Rightarrow> False | Some t \<Rightarrow> t < now))"

definition release_tax_reversal_row :: "instant \<Rightarrow> tax_reversal_row \<Rightarrow> tax_reversal_row" where
  "release_tax_reversal_row now r = r\<lparr>tv_status := Tax_RETRY_PENDING, tv_lockToken := None,
     tv_lockedAt := None, tv_leaseExpiresAt := None, tv_nextAttemptAt := Some now\<rparr>"

definition claimDueTaxReversals ::
  "ident \<Rightarrow> instant \<Rightarrow> int \<Rightarrow> 'a market_tables_scheme \<Rightarrow>
   'a market_tables_scheme \<times> ((tax_reversal_row \<times> ident) list \<times> nat) res" where
  "claimDueTaxReversals lockToken now limit db =
     (let eligible = claim_select tv_id tax_reversal_due tv_nextAttemptAt now limit (taxReversals db) in
      if eligible = [] then (db, Inr ([], 0))
      else
        let db' = db\<lparr>taxReversals := claim_stamp tv_id tax_reversal_due claim_tax_reversal_row now lockToken
                     eligible (taxReversals db)\<rparr>;
            claimed = claimed_by tv_lockToken lockToken (taxReversals db')
        in (db', chain (map_res taxReversalRowToRecord claimed) (\<lambda>records.
                   Inr (map (\<lambda>r. (r, lockToken)) records, length eligible - length claimed))))"

definition recoverStaleTaxReversalClaims ::
  "instant \<Rightarrow> 'a market_tables_scheme \<Rightarrow> 'a market_tables_scheme \<times> nat" where
  "recoverStaleTaxReversalClaims now db =
     (db\<lparr>taxReversals := release_stale tax_reversal_stale release_tax_reversal_row now (taxReversals db)\<rparr>,
      count_where (tax_reversal_stale now) (taxReversals db))"

section \<open>Verify\<close>

definition verifyReversibleTaxReversal ::
  "'a market_tables_scheme \<Rightarrow> tax_reversal_row \<Rightarrow> tax_reversal_failure option" where
  "verifyReversibleTaxReversal db record =
     (case find_refund db (tv_refundId record) of
        None \<Rightarrow> Some TX_EVIDENCE_INCONSISTENT
      | Some refund \<Rightarrow>
          if rf_orderId refund \<noteq> tv_orderId record then Some TX_EVIDENCE_INCONSISTENT
          else if rf_status refund \<noteq> REFUNDED then Some TX_PAYMENT_REFUND_NOT_COMPLETE
          else (case find_tax_transaction db (tv_taxTransactionId record) of
             None \<Rightarrow> Some TX_EVIDENCE_INCONSISTENT
           | Some original \<Rightarrow>
               if tt_orderId original \<noteq> tv_orderId record then Some TX_EVIDENCE_INCONSISTENT
               else if tt_providerTaxTransactionRef original \<noteq> Some (tv_originalProviderTaxTransactionRef record)
                 then Some TX_EVIDENCE_INCONSISTENT
               else if tt_recordingStatus original \<noteq> RECORDED then Some TX_EVIDENCE_INCONSISTENT
               else if tt_currency original \<noteq> tv_currency record then Some TX_EVIDENCE_INCONSISTENT
               else if tt_taxAmount original \<noteq> tv_reversedTaxAmount record then Some TX_EVIDENCE_INCONSISTENT
               else if tt_taxableBasis original \<noteq> tv_reversedTaxableBasis record then Some TX_EVIDENCE_INCONSISTENT
               else if rf_currency refund \<noteq> tv_currency record then Some TX_EVIDENCE_INCONSISTENT
               else None))"

section \<open>Resolve\<close>

datatype tax_attempt_outcome = TaxAttempt_REVERSED string instant | TaxAttempt_FAILED tax_reversal_failure

definition fail_tax_reversal_row ::
  "tax_reversal_row \<Rightarrow> tax_reversal_failure \<Rightarrow> instant \<Rightarrow> tax_reversal_row \<Rightarrow> tax_reversal_row" where
  "fail_tax_reversal_row existing code at r =
     (let failureClass = classifyTaxReversalFailure code;
          attemptCount = tv_attemptCount existing + 1;
          retryAt = (if failureClass = TaxClass_PERMANENT then None else nextTaxReversalAttemptAt attemptCount at);
          terminal = (retryAt = None)
      in r\<lparr>tv_status := (if terminal then Tax_FAILED_PERMANENT else Tax_RETRY_PENDING),
           tv_attemptCount := attemptCount, tv_nextAttemptAt := retryAt,
           tv_lastFailureCode := Some code, tv_lastFailureClass := Some failureClass,
           tv_lockToken := None, tv_lockedAt := None, tv_leaseExpiresAt := None,
           tv_finalizedAt := (if terminal then Some at else None)\<rparr>)"

definition read_tax_reversal :: "'a market_tables_scheme \<Rightarrow> ident \<Rightarrow> tax_reversal_row res" where
  "read_tax_reversal db tid = (case find_tax_reversal db tid of
     None \<Rightarrow> Inl TAX_REVERSAL_PERSISTENCE_FAILURE | Some row \<Rightarrow> taxReversalRowToRecord row)"

definition failTaxReversalAttempt ::
  "tax_reversal_row \<Rightarrow> tax_reversal_failure \<Rightarrow> instant \<Rightarrow> 'a market_tables_scheme \<Rightarrow>
   'a market_tables_scheme \<times> tax_reversal_row res" where
  "failTaxReversalAttempt existing code at db =
     (let db' = db\<lparr>taxReversals := update_where (\<lambda>r. tv_id r = tv_id existing)
                    (fail_tax_reversal_row existing code at) (taxReversals db)\<rparr>
      in (db', read_tax_reversal db' (tv_id existing)))"

definition complete_tax_reversal_row ::
  "tax_reversal_row \<Rightarrow> string \<Rightarrow> instant \<Rightarrow> instant \<Rightarrow> tax_reversal_row \<Rightarrow> tax_reversal_row" where
  "complete_tax_reversal_row existing ref createdAt at r =
     r\<lparr>tv_status := Tax_REVERSED, tv_providerReversalRef := Some ref,
       tv_providerReversalCreatedAt := Some createdAt, tv_attemptCount := tv_attemptCount existing + 1,
       tv_nextAttemptAt := None, tv_lockToken := None, tv_lockedAt := None, tv_leaseExpiresAt := None,
       tv_finalizedAt := Some at\<rparr>"

definition finalizeTaxReversalInTx ::
  "tax_reversal_row \<Rightarrow> string \<Rightarrow> instant \<Rightarrow> instant \<Rightarrow> 'a market_tables_scheme \<Rightarrow>
   ('a market_tables_scheme \<times> tax_reversal_row) res" where
  "finalizeTaxReversalInTx existing ref createdAt at db =
     (if list_ex (\<lambda>r. tv_id r \<noteq> tv_id existing \<and> tv_provider r = tv_provider existing \<and>
             tv_providerReversalRef r = Some ref) (taxReversals db)
      then Inl (UniqueViolation ''OrderTaxReversal'')
      else
        let db1 = db\<lparr>taxReversals := update_where (\<lambda>r. tv_id r = tv_id existing)
                      (complete_tax_reversal_row existing ref createdAt at) (taxReversals db)\<rparr>;
            db2 = markTaxTransactionReversedInTx (tv_taxTransactionId existing) db1
        in chain (read_tax_reversal db2 (tv_id existing)) (\<lambda>r. Inr (db2, r)))"

definition resolve_tax_read ::
  "tax_reversal_row \<Rightarrow> tax_attempt_outcome \<Rightarrow> instant \<Rightarrow> 'a market_tables_scheme \<Rightarrow>
   'a market_tables_scheme \<times> tax_reversal_row option res" where
  "resolve_tax_read existing result at db =
     (case result of
        TaxAttempt_FAILED code \<Rightarrow>
          (let (db', r) = failTaxReversalAttempt existing code at db in (db', chain r (\<lambda>x. Inr (Some x))))
      | TaxAttempt_REVERSED ref createdAt \<Rightarrow>
          (let candidate = existing\<lparr>tv_status := Tax_REVERSED, tv_providerReversalRef := Some ref,
                             tv_providerReversalCreatedAt := Some createdAt\<rparr>
           in case taxReversalRowToRecord candidate of
                Inl e \<Rightarrow> (db, Inl e)
              | Inr _ \<Rightarrow>
                  if \<not> taxReversalIsCoherent candidate
                  then (let (db', r) = failTaxReversalAttempt existing TX_EVIDENCE_INCONSISTENT at db
                        in (db', chain r (\<lambda>x. Inr (Some x))))
                  else case finalizeTaxReversalInTx existing ref createdAt at db of
                         Inl e \<Rightarrow> (db, Inl (if isTaxError e then e else TAX_REVERSAL_PERSISTENCE_FAILURE))
                       | Inr (db', row) \<Rightarrow> (db', Inr (Some row))))"

definition resolveTaxReversalAttempt ::
  "ident \<Rightarrow> ident \<Rightarrow> tax_attempt_outcome \<Rightarrow> instant \<Rightarrow> 'a market_tables_scheme \<Rightarrow>
   'a market_tables_scheme \<times> tax_reversal_row option res" where
  "resolveTaxReversalAttempt taxReversalId lockToken result at db =
     (case find_tax_reversal db taxReversalId of None \<Rightarrow> (db, Inr None)
      | Some existing \<Rightarrow>
          if tv_lockToken existing \<noteq> Some lockToken then (db, Inr None)
          else resolve_tax_read existing result at db)"

section \<open>Reads\<close>

definition getTaxReversalForOrder :: "'a market_tables_scheme \<Rightarrow> ident \<Rightarrow> tax_reversal_row option res" where
  "getTaxReversalForOrder db oid =
     (case find_order_tax_reversal db oid of None \<Rightarrow> Inr None
      | Some row \<Rightarrow> chain (taxReversalRowToRecord row) (\<lambda>r. Inr (Some r)))"

definition countDueRefundTaxReversalsIn :: "'a market_tables_scheme \<Rightarrow> instant \<Rightarrow> nat" where
  "countDueRefundTaxReversalsIn db at =
     count_where (\<lambda>r. (tv_status r = Tax_PENDING \<or> tv_status r = Tax_RETRY_PENDING) \<and>
       (case tv_nextAttemptAt r of None \<Rightarrow> False | Some t \<Rightarrow> t \<le> at)) (taxReversals db)"

end
