(* ===== verification/Refund_Processor.thy ===== *)
theory Refund_Processor
  imports Tax_Reversal_Service
begin

text \<open>
  \<open>src/server/marketplace/refund-processor.ts\<close>: one bounded cycle.  Stale claims of both queues are
  recovered, then due refunds are verified, executed and resolved, then due tax reversals.  The
  payment and tax providers are the arguments \<open>port\<close> and \<open>taxPort\<close>, the hash of the idempotency
  keys is \<open>sha256\<close>, and the identifier generators are \<open>ids\<close>.  Notices and monitoring, which cannot
  change an outcome, are left out.
\<close>

section \<open>Payment half\<close>

definition verifyExecutableRefund ::
  "content_hash \<Rightarrow> refund_record \<Rightarrow> 'a market_tables_scheme \<Rightarrow> refund_failure option res" where
  "verifyExecutableRefund h record db =
     (let row = rec_row record in
      chain (evaluateRefundEligibility h \<lparr>el_orderId = rf_orderId row, el_at = rf_requestedAt row,
               el_selectedLineRefs = Some (rec_lineRefs record), el_reasonCode = Some (rf_reasonCode row),
               el_requestedAmount = None\<rparr> db) (\<lambda>e.
        let disqualifying = filter (\<lambda>c. c \<noteq> REFUND_ALREADY_EXISTS \<and> c \<noteq> CONFLICTING_REFUND_STATE) (eg_refusals e)
        in if length disqualifying > 0 then Inr (Some RF_EVIDENCE_INCONSISTENT)
           else if eg_providerTransactionRef e \<noteq> Some (rf_providerTransactionRef row)
             then Inr (Some RF_EVIDENCE_INCONSISTENT)
           else if eg_currency e \<noteq> Some (rf_currency row) then Inr (Some RF_EVIDENCE_INCONSISTENT)
           else (case eg_amounts e of
               Some a \<Rightarrow> if ram_total a \<noteq> rf_amount row then Inr (Some RF_EVIDENCE_INCONSISTENT) else Inr None
             | None \<Rightarrow> Inr None)))"

datatype refund_execution_failure =
    RX_ALREADY_REVERSED | RX_CHARGE_NOT_FOUND | RX_AMOUNT_EXCEEDS_CHARGE | RX_PROVIDER_UNAVAILABLE
  | RX_UNSPECIFIED_FAILURE | RX_PROVIDER_REJECTED | RX_PROVIDER_NOT_CONFIGURED
  | RX_PROVIDER_MODE_NOT_PERMITTED

fun refundFailureCodeFor :: "refund_execution_failure \<Rightarrow> refund_failure" where
  "refundFailureCodeFor RX_ALREADY_REVERSED = RF_ALREADY_REFUNDED"
| "refundFailureCodeFor RX_CHARGE_NOT_FOUND = RF_CHARGE_NOT_FOUND"
| "refundFailureCodeFor RX_AMOUNT_EXCEEDS_CHARGE = RF_AMOUNT_EXCEEDS_CHARGE"
| "refundFailureCodeFor RX_PROVIDER_UNAVAILABLE = RF_PROVIDER_UNAVAILABLE"
| "refundFailureCodeFor RX_PROVIDER_REJECTED = RF_PROVIDER_REJECTED"
| "refundFailureCodeFor RX_PROVIDER_NOT_CONFIGURED = RF_PROVIDER_NOT_CONFIGURED"
| "refundFailureCodeFor RX_PROVIDER_MODE_NOT_PERMITTED = RF_PROVIDER_MODE_NOT_PERMITTED"
| "refundFailureCodeFor RX_UNSPECIFIED_FAILURE = RF_UNSPECIFIED_FAILURE"

record execution_request =
  xr_providerTransactionRef :: string
  xr_provider :: string
  xr_currency :: currency
  xr_amount :: amount
  xr_idempotencyKey :: string

datatype execution_result = EXECUTED string instant | REFUSED refund_execution_failure

type_synonym refund_port = "execution_request \<Rightarrow> execution_result"
type_synonym key_hash = "string \<Rightarrow> string \<Rightarrow> string"

definition refundIdempotencyKey :: "key_hash \<Rightarrow> ident \<Rightarrow> string \<Rightarrow> string" where
  "refundIdempotencyKey sha256 refundId providerTransactionRef =
     ''mon-refnd-'' @ sha256 refundId providerTransactionRef"

definition taxReversalIdempotencyKey :: "key_hash \<Rightarrow> ident \<Rightarrow> string \<Rightarrow> string" where
  "taxReversalIdempotencyKey sha256 taxReversalId originalRef =
     ''mon-txrvs-'' @ sha256 taxReversalId originalRef"

definition refund_execution_request :: "key_hash \<Rightarrow> refund_row \<Rightarrow> execution_request" where
  "refund_execution_request sha256 row =
     \<lparr>xr_providerTransactionRef = rf_providerTransactionRef row, xr_provider = rf_provider row,
      xr_currency = rf_currency row, xr_amount = rf_amount row,
      xr_idempotencyKey = refundIdempotencyKey sha256 (rf_id row) (rf_providerTransactionRef row)\<rparr>"

definition executeAndResolve ::
  "key_hash \<Rightarrow> refund_port \<Rightarrow> refund_ids \<Rightarrow> refund_record \<Rightarrow> ident \<Rightarrow> instant \<Rightarrow> 'a market_tables_scheme \<Rightarrow>
   'a market_tables_scheme \<times> resolved_refund option res" where
  "executeAndResolve sha256 port ids record lockToken at db =
     (let row = rec_row record in
      resolveRefundAttempt ids (rf_id row) lockToken
        (case port (refund_execution_request sha256 row) of
           EXECUTED ref createdAt \<Rightarrow> Attempt_REFUNDED ref createdAt
         | REFUSED code \<Rightarrow> Attempt_FAILED (refundFailureCodeFor code)) at db)"

definition process_refund ::
  "content_hash \<Rightarrow> key_hash \<Rightarrow> refund_port \<Rightarrow> refund_ids \<Rightarrow> refund_record \<Rightarrow> ident \<Rightarrow> instant \<Rightarrow>
   'a market_tables_scheme \<Rightarrow> 'a market_tables_scheme \<times> resolved_refund option res" where
  "process_refund h sha256 port ids record lockToken at db =
     (case verifyExecutableRefund h record db of
        Inl e \<Rightarrow> (db, Inl e)
      | Inr (Some refusal) \<Rightarrow>
          resolveRefundAttempt ids (rf_id (rec_row record)) lockToken (Attempt_FAILED refusal) at db
      | Inr None \<Rightarrow> executeAndResolve sha256 port ids record lockToken at db)"

record half_outcome =
  ho_claimed :: nat
  ho_executed :: nat
  ho_retryScheduled :: nat
  ho_permanentlyFailed :: nat
  ho_conflicts :: nat
  ho_recoveryExceptionsRaised :: nat

definition empty_half :: half_outcome where
  "empty_half = \<lparr>ho_claimed = 0, ho_executed = 0, ho_retryScheduled = 0, ho_permanentlyFailed = 0,
     ho_conflicts = 0, ho_recoveryExceptionsRaised = 0\<rparr>"

text \<open>A row that throws, or whose token is no longer its own, is skipped and counted nowhere.\<close>

definition count_refund :: "resolved_refund option res \<Rightarrow> half_outcome \<Rightarrow> half_outcome" where
  "count_refund r c =
     (case r of Inl _ \<Rightarrow> c | Inr None \<Rightarrow> c
      | Inr (Some v) \<Rightarrow>
          let c' = c\<lparr>ho_recoveryExceptionsRaised :=
                ho_recoveryExceptionsRaised c + length (rsv_recoveryExceptionIds v)\<rparr>;
              status = rf_status (rec_row (rsv_refund v))
          in if status = REFUNDED then c'\<lparr>ho_executed := ho_executed c' + 1\<rparr>
             else if status = Refund_FAILED_PERMANENT
             then c'\<lparr>ho_permanentlyFailed := ho_permanentlyFailed c' + 1\<rparr>
             else c'\<lparr>ho_retryScheduled := ho_retryScheduled c' + 1\<rparr>)"

fun refund_batch ::
  "content_hash \<Rightarrow> key_hash \<Rightarrow> refund_port \<Rightarrow> (ident \<Rightarrow> refund_ids) \<Rightarrow> instant \<Rightarrow> (refund_record \<times> ident) list \<Rightarrow>
   'a market_tables_scheme \<Rightarrow> half_outcome \<Rightarrow> 'a market_tables_scheme \<times> half_outcome" where
  "refund_batch h sha256 port ids at [] db c = (db, c)"
| "refund_batch h sha256 port ids at ((record, token) # rest) db c =
     (let (db', r) = process_refund h sha256 port (ids (rf_id (rec_row record))) record token at db
      in refund_batch h sha256 port ids at rest db' (count_refund r c))"

definition runPaymentRefundHalf ::
  "content_hash \<Rightarrow> key_hash \<Rightarrow> refund_port \<Rightarrow> (ident \<Rightarrow> refund_ids) \<Rightarrow> ident \<Rightarrow> instant \<Rightarrow> int \<Rightarrow>
   'a market_tables_scheme \<Rightarrow> 'a market_tables_scheme \<times> half_outcome res" where
  "runPaymentRefundHalf h sha256 port ids token at limit db =
     (let (db1, claim) = claimDueRefunds token at limit db in
      case claim of Inl e \<Rightarrow> (db1, Inl e)
      | Inr (claimed, conflicts) \<Rightarrow>
          (let (db2, c) = refund_batch h sha256 port ids at claimed db1
                 (empty_half\<lparr>ho_claimed := length claimed, ho_conflicts := conflicts\<rparr>)
           in (db2, Inr c)))"

section \<open>Tax half\<close>

record tax_port_request =
  tq_originalProviderTaxTransactionRef :: string
  tq_providerReference :: string
  tq_idempotencyKey :: string

type_synonym tax_port = "tax_port_request \<Rightarrow> tax_attempt_outcome"

definition tax_port_request_of :: "key_hash \<Rightarrow> tax_reversal_row \<Rightarrow> tax_port_request" where
  "tax_port_request_of sha256 r =
     \<lparr>tq_originalProviderTaxTransactionRef = tv_originalProviderTaxTransactionRef r,
      tq_providerReference = tv_providerReference r,
      tq_idempotencyKey = taxReversalIdempotencyKey sha256 (tv_id r) (tv_originalProviderTaxTransactionRef r)\<rparr>"

definition reverseAndResolve ::
  "key_hash \<Rightarrow> tax_port \<Rightarrow> tax_reversal_row \<Rightarrow> ident \<Rightarrow> instant \<Rightarrow> 'a market_tables_scheme \<Rightarrow>
   'a market_tables_scheme \<times> tax_reversal_row option res" where
  "reverseAndResolve sha256 taxPort record lockToken at db =
     resolveTaxReversalAttempt (tv_id record) lockToken (taxPort (tax_port_request_of sha256 record)) at db"

definition process_tax_reversal ::
  "key_hash \<Rightarrow> tax_port \<Rightarrow> tax_reversal_row \<Rightarrow> ident \<Rightarrow> instant \<Rightarrow> 'a market_tables_scheme \<Rightarrow>
   'a market_tables_scheme \<times> tax_reversal_row option res" where
  "process_tax_reversal sha256 taxPort record lockToken at db =
     (case verifyReversibleTaxReversal db record of
        Some refusal \<Rightarrow> resolveTaxReversalAttempt (tv_id record) lockToken (TaxAttempt_FAILED refusal) at db
      | None \<Rightarrow> reverseAndResolve sha256 taxPort record lockToken at db)"

definition count_tax :: "tax_reversal_row option res \<Rightarrow> half_outcome \<Rightarrow> half_outcome" where
  "count_tax r c =
     (case r of Inl _ \<Rightarrow> c | Inr None \<Rightarrow> c
      | Inr (Some v) \<Rightarrow>
          if tv_status v = Tax_REVERSED then c\<lparr>ho_executed := ho_executed c + 1\<rparr>
          else if tv_status v = Tax_FAILED_PERMANENT then c\<lparr>ho_permanentlyFailed := ho_permanentlyFailed c + 1\<rparr>
          else c\<lparr>ho_retryScheduled := ho_retryScheduled c + 1\<rparr>)"

fun tax_batch ::
  "key_hash \<Rightarrow> tax_port \<Rightarrow> instant \<Rightarrow> (tax_reversal_row \<times> ident) list \<Rightarrow> 'a market_tables_scheme \<Rightarrow>
   half_outcome \<Rightarrow> 'a market_tables_scheme \<times> half_outcome" where
  "tax_batch sha256 taxPort at [] db c = (db, c)"
| "tax_batch sha256 taxPort at ((record, token) # rest) db c =
     (let (db', r) = process_tax_reversal sha256 taxPort record token at db
      in tax_batch sha256 taxPort at rest db' (count_tax r c))"

definition runTaxReversalHalf ::
  "key_hash \<Rightarrow> tax_port \<Rightarrow> ident \<Rightarrow> instant \<Rightarrow> int \<Rightarrow> 'a market_tables_scheme \<Rightarrow>
   'a market_tables_scheme \<times> half_outcome res" where
  "runTaxReversalHalf sha256 taxPort token at limit db =
     (let (db1, claim) = claimDueTaxReversals token at limit db in
      case claim of Inl e \<Rightarrow> (db1, Inl e)
      | Inr (claimed, conflicts) \<Rightarrow>
          (let (db2, c) = tax_batch sha256 taxPort at claimed db1
                 (empty_half\<lparr>ho_claimed := length claimed, ho_conflicts := conflicts\<rparr>)
           in (db2, Inr c)))"

section \<open>The cycle\<close>

record refund_cycle =
  rcy_payment :: half_outcome
  rcy_tax :: half_outcome
  rcy_staleClaimsRecovered :: nat
  rcy_claimConflicts :: nat

definition runRefundCycle ::
  "content_hash \<Rightarrow> key_hash \<Rightarrow> refund_port \<Rightarrow> tax_port \<Rightarrow> (ident \<Rightarrow> refund_ids) \<Rightarrow> ident \<Rightarrow> ident \<Rightarrow>
   instant \<Rightarrow> int option \<Rightarrow> 'a market_tables_scheme \<Rightarrow> 'a market_tables_scheme \<times> refund_cycle res" where
  "runRefundCycle h sha256 port taxPort ids refundToken taxToken at limitArg db =
     (let limit = max 1 (min (case limitArg of None \<Rightarrow> 25 | Some n \<Rightarrow> n) 100);
          (db1, staleRefunds) = recoverStaleRefundClaims at db;
          (db2, staleTax) = recoverStaleTaxReversalClaims at db1;
          (db3, payment) = runPaymentRefundHalf h sha256 port ids refundToken at limit db2
      in case payment of Inl e \<Rightarrow> (db3, Inl e)
         | Inr p \<Rightarrow>
             (let (db4, tax) = runTaxReversalHalf sha256 taxPort taxToken at limit db3
              in (db4, chain tax (\<lambda>t. Inr \<lparr>rcy_payment = p, rcy_tax = t,
                   rcy_staleClaimsRecovered = staleRefunds + staleTax,
                   rcy_claimConflicts = ho_conflicts p + ho_conflicts t\<rparr>))))"

end
