(* ===== verification/Refund_Machine.thy ===== *)
theory Refund_Machine
  imports Refund_Processor
begin

text \<open>
  The state machine of one refund and of one tax reversal, as relations between rows, and the
  interpretation of the lease-queue contract on both queues.  \<open>refund_row_step\<close> is the abstract
  specification the service operations implement (shown in \<open>Refund_Facts\<close>): claim, release of an
  expired claim, failure and completion of an attempt.
\<close>

section \<open>The queues\<close>

interpretation refund_queue: lease_queue rf_id refund_due refund_stale rf_lockToken
  claim_refund_row release_refund_row "refund_claimLeaseSeconds * 1000"
  by unfold_locales
    (auto simp: claim_refund_row_def release_refund_row_def refund_due_def refund_stale_def)

interpretation tax_queue: lease_queue tv_id tax_reversal_due tax_reversal_stale tv_lockToken
  claim_tax_reversal_row release_tax_reversal_row "tax_claimLeaseSeconds * 1000"
  by unfold_locales
    (auto simp: claim_tax_reversal_row_def release_tax_reversal_row_def tax_reversal_due_def tax_reversal_stale_def)

section \<open>A refund\<close>

inductive refund_row_step :: "refund_row \<Rightarrow> refund_row \<Rightarrow> bool" where
  claimed: "refund_due now r \<Longrightarrow> refund_row_step r (claim_refund_row now token r)"
| released: "refund_stale now r \<Longrightarrow> refund_row_step r (release_refund_row now r)"
| failed: "rf_lockToken r = Some token \<Longrightarrow> refund_row_step r (fail_refund_row r code at r)"
| completed: "rf_lockToken r = Some token \<Longrightarrow> ref \<noteq> rf_providerTransactionRef r \<Longrightarrow>
     refund_row_step r (complete_refund_row r ref createdAt at reversalId r)"

inductive_cases refund_row_stepE [elim]: "refund_row_step r r'"

lemmas refund_row_ops = claim_refund_row_def release_refund_row_def fail_refund_row_def
  complete_refund_row_def Let_def

lemmas refund_row_guards = refund_due_def refund_stale_def

text \<open>A row agrees with its status.\<close>

definition unfinished :: "refund_row \<Rightarrow> bool" where
  "unfinished r \<longleftrightarrow> rf_attemptCount r < refund_maxAttempts \<and> rf_providerRefundRef r = None \<and>
     rf_reversalId r = None \<and> rf_nextAttemptAt r \<noteq> None \<and> rf_finalizedAt r = None"

definition refund_row_ok :: "refund_row \<Rightarrow> bool" where
  "refund_row_ok r \<longleftrightarrow> rf_attemptCount r \<le> refund_maxAttempts \<and>
     (case rf_status r of
        Refund_PENDING \<Rightarrow> unfinished r \<and> rf_lockToken r = None
      | Refund_RETRY_PENDING \<Rightarrow> unfinished r \<and> rf_lockToken r = None
      | Refund_IN_PROGRESS \<Rightarrow> unfinished r \<and> rf_lockToken r \<noteq> None \<and> rf_leaseExpiresAt r \<noteq> None
      | REFUNDED \<Rightarrow> rf_lockToken r = None \<and> rf_nextAttemptAt r = None \<and> rf_finalizedAt r \<noteq> None \<and>
          rf_providerRefundRef r \<noteq> None \<and> rf_providerRefundCreatedAt r \<noteq> None \<and>
          rf_providerRefundRef r \<noteq> Some (rf_providerTransactionRef r) \<and> rf_reversalId r \<noteq> None
      | Refund_FAILED_PERMANENT \<Rightarrow> rf_lockToken r = None \<and> rf_nextAttemptAt r = None \<and>
          rf_finalizedAt r \<noteq> None \<and> rf_lastFailureCode r \<noteq> None \<and> rf_providerRefundRef r = None \<and>
          rf_reversalId r = None)"

lemma refund_row_ok_locked:
  "refund_row_ok r \<Longrightarrow> rf_lockToken r \<noteq> None \<longleftrightarrow> rf_status r = Refund_IN_PROGRESS"
  by (cases "rf_status r") (auto simp: refund_row_ok_def)

lemma refund_row_ok_coherent: "refund_row_ok r \<Longrightarrow> refundIsCoherent r"
  by (auto simp: refund_row_ok_def refundIsCoherent_def split: option.splits)

lemma refund_step_immutable:
  "refund_row_step r r' \<Longrightarrow> immutable_refund_fields r' = immutable_refund_fields r"
  by (erule refund_row_stepE) (simp_all add: immutable_refund_fields_def refund_row_ops)

lemma immutable_fields_simps:
  assumes "immutable_refund_fields r' = immutable_refund_fields r"
  shows "rf_id r' = rf_id r" "rf_orderId r' = rf_orderId r" "rf_snapshotId r' = rf_snapshotId r"
    "rf_providerTransactionRef r' = rf_providerTransactionRef r" "rf_provider r' = rf_provider r"
    "rf_currency r' = rf_currency r" "rf_amount r' = rf_amount r"
  using assms by (simp_all add: immutable_refund_fields_def)

lemma refund_step_ok:
  assumes "refund_row_step r r'" and "refund_row_ok r"
  shows "refund_row_ok r'"
  using assms(1)
proof cases
  case (claimed now token)
  then show ?thesis using assms(2)
    by (auto simp: refund_row_ops refund_due_def refund_row_ok_def unfinished_def)
next
  case (released now)
  then show ?thesis using assms(2)
    by (auto simp: refund_row_ops refund_stale_def refund_row_ok_def unfinished_def)
next
  case (failed token code at)
  then have "rf_status r = Refund_IN_PROGRESS" using refund_row_ok_locked[OF assms(2)] by simp
  then have u: "unfinished r" using assms(2) by (simp add: refund_row_ok_def)
  then have "rf_attemptCount r + 1 \<le> refund_maxAttempts" by (simp add: unfinished_def)
  moreover have "rf_attemptCount r + 1 < refund_maxAttempts" if "nextRefundAttemptAt (rf_attemptCount r + 1) at \<noteq> None"
    using that by (rule refund_retries.next_pending)
  ultimately show ?thesis using u failed(1)
    by (auto simp: refund_row_ops refund_row_ok_def unfinished_def)
next
  case (completed token ref createdAt at reversalId)
  then have "rf_status r = Refund_IN_PROGRESS" using refund_row_ok_locked[OF assms(2)] by simp
  then have "unfinished r" using assms(2) by (simp add: refund_row_ok_def)
  then show ?thesis using completed by (auto simp: refund_row_ops refund_row_ok_def unfinished_def)
qed

text \<open>Nothing leaves a terminal status.\<close>

lemma refund_step_terminal:
  assumes "refund_row_ok r" and "rf_status r \<in> set TERMINAL_REFUND_STATUSES"
  shows "\<not> refund_row_step r r'"
proof
  assume "refund_row_step r r'"
  then show False
    using assms by (cases rule: refund_row_step.cases)
      (auto simp: TERMINAL_REFUND_STATUSES_def refund_row_guards refund_row_ok_def)
qed

lemma refund_step_attempts:
  "refund_row_step r r' \<Longrightarrow> rf_attemptCount r \<le> rf_attemptCount r'"
  by (erule refund_row_stepE) (simp_all add: refund_row_ops)

lemma refund_steps_ok:
  assumes "refund_row_step\<^sup>*\<^sup>* r r'" and "refund_row_ok r"
  shows "refund_row_ok r' \<and> immutable_refund_fields r' = immutable_refund_fields r \<and>
     rf_attemptCount r \<le> rf_attemptCount r'"
  using assms
proof (induction rule: rtranclp_induct)
  case (step y z)
  then show ?case
    using refund_step_ok refund_step_immutable refund_step_attempts by (metis order_trans)
qed simp

lemma refund_steps_terminal:
  assumes "refund_row_step\<^sup>*\<^sup>* r r'" and "refund_row_ok r" and "rf_status r \<in> set TERMINAL_REFUND_STATUSES"
  shows "r' = r"
  using assms refund_step_terminal by (metis converse_rtranclpE)

text \<open>Every attempt of one refund sends the provider the same request, key included.\<close>

lemma refund_request_constant:
  assumes "immutable_refund_fields r' = immutable_refund_fields r"
  shows "refund_execution_request sha256 r' = refund_execution_request sha256 r"
  using immutable_fields_simps[OF assms] by (simp add: refund_execution_request_def)

text \<open>Only a completion refunds.\<close>

definition quiet_step :: "refund_row \<Rightarrow> refund_row \<Rightarrow> bool" where
  "quiet_step r r' \<longleftrightarrow> refund_row_step r r' \<and> rf_status r' \<noteq> REFUNDED"

lemma quiet_steps:
  "refund_due now r \<Longrightarrow> quiet_step r (claim_refund_row now token r)"
  "refund_stale now r \<Longrightarrow> quiet_step r (release_refund_row now r)"
  "rf_lockToken r = Some token \<Longrightarrow> quiet_step r (fail_refund_row r code at r)"
  unfolding quiet_step_def
  by (rule conjI, erule refund_row_step.intros, simp add: refund_row_ops)+

section \<open>A tax reversal\<close>

inductive tax_row_step :: "tax_reversal_row \<Rightarrow> tax_reversal_row \<Rightarrow> bool" where
  tax_claimed: "tax_reversal_due now r \<Longrightarrow> tax_row_step r (claim_tax_reversal_row now token r)"
| tax_released: "tax_reversal_stale now r \<Longrightarrow> tax_row_step r (release_tax_reversal_row now r)"
| tax_failed: "tv_lockToken r = Some token \<Longrightarrow> tax_row_step r (fail_tax_reversal_row r code at r)"
| tax_completed: "tv_lockToken r = Some token \<Longrightarrow> ref \<noteq> tv_originalProviderTaxTransactionRef r \<Longrightarrow>
     tax_row_step r (complete_tax_reversal_row r ref createdAt at r)"

inductive_cases tax_row_stepE [elim]: "tax_row_step r r'"

lemmas tax_row_ops = claim_tax_reversal_row_def release_tax_reversal_row_def fail_tax_reversal_row_def
  complete_tax_reversal_row_def Let_def

definition tax_row_ok :: "tax_reversal_row \<Rightarrow> bool" where
  "tax_row_ok r \<longleftrightarrow> tv_attemptCount r \<le> tax_maxAttempts \<and>
     (tv_lockToken r \<noteq> None \<longleftrightarrow> tv_status r = Tax_IN_PROGRESS) \<and>
     (tv_status r \<in> {Tax_PENDING, Tax_RETRY_PENDING, Tax_IN_PROGRESS} \<longrightarrow>
        tv_attemptCount r < tax_maxAttempts \<and> tv_nextAttemptAt r \<noteq> None \<and> tv_providerReversalRef r = None) \<and>
     (tv_status r = Tax_REVERSED \<longrightarrow> tv_providerReversalRef r \<noteq> None \<and>
        tv_providerReversalCreatedAt r \<noteq> None \<and>
        tv_providerReversalRef r \<noteq> Some (tv_originalProviderTaxTransactionRef r)) \<and>
     (tv_status r \<in> {Tax_REVERSED, Tax_FAILED_PERMANENT} \<longrightarrow> tv_nextAttemptAt r = None \<and> tv_finalizedAt r \<noteq> None)"

lemma tax_step_immutable:
  "tax_row_step r r' \<Longrightarrow> immutable_tax_reversal_fields r' = immutable_tax_reversal_fields r"
  by (erule tax_row_stepE) (simp_all add: immutable_tax_reversal_fields_def tax_row_ops)

lemma tax_step_ok:
  assumes "tax_row_step r r'" and "tax_row_ok r"
  shows "tax_row_ok r'"
  using assms(1)
proof cases
  case (tax_claimed now token)
  then show ?thesis using assms(2) by (auto simp: tax_row_ops tax_reversal_due_def tax_row_ok_def)
next
  case (tax_released now)
  then show ?thesis using assms(2) by (auto simp: tax_row_ops tax_reversal_stale_def tax_row_ok_def)
next
  case (tax_failed token code at)
  have p: "tv_status r = Tax_IN_PROGRESS" using tax_failed assms(2) by (simp add: tax_row_ok_def)
  then have u: "tv_attemptCount r + 1 \<le> tax_maxAttempts" using assms(2) by (simp add: tax_row_ok_def)
  have "tv_attemptCount r + 1 < tax_maxAttempts" if "nextTaxReversalAttemptAt (tv_attemptCount r + 1) at \<noteq> None"
    using that by (rule tax_retries.next_pending)
  then show ?thesis using u p assms(2) tax_failed(1) by (auto simp: tax_row_ops tax_row_ok_def)
next
  case (tax_completed token ref createdAt at)
  then have "tv_status r = Tax_IN_PROGRESS" using assms(2) by (simp add: tax_row_ok_def)
  then have "tv_attemptCount r < tax_maxAttempts" using assms(2) by (simp add: tax_row_ok_def)
  then show ?thesis using tax_completed by (auto simp: tax_row_ops tax_row_ok_def)
qed

lemma tax_step_terminal:
  assumes "tax_row_ok r" and "tv_status r = Tax_REVERSED \<or> tv_status r = Tax_FAILED_PERMANENT"
  shows "\<not> tax_row_step r r'"
proof
  assume "tax_row_step r r'"
  then show False
    using assms by (cases rule: tax_row_step.cases)
      (auto simp: tax_reversal_due_def tax_reversal_stale_def tax_row_ok_def)
qed

end
