(* ===== verification/Refund_Facts.thy ===== *)
theory Refund_Facts
  imports Refund_Machine
begin

text \<open>
  The refund service implements the machine of \<open>Refund_Machine\<close>: every operation moves each stored
  refund by at most one of its steps.  A completed attempt commits the reversal entry, the
  tax-reversal obligation and the recovery exceptions with the refund row, and a failed one
  changes the refund row alone.
\<close>

section \<open>Tables moved by a machine\<close>

definition moved_by :: "('r \<Rightarrow> 'r \<Rightarrow> bool) \<Rightarrow> 'r list \<Rightarrow> 'r list \<Rightarrow> bool" where
  "moved_by R xs ys \<longleftrightarrow> list_all2 (\<lambda>x y. y = x \<or> R x y) xs ys"

lemma moved_by_refl [simp]: "moved_by R xs xs"
  by (simp add: moved_by_def list_all2_same)

lemma moved_by_update:
  assumes "\<And>x. x \<in> set xs \<Longrightarrow> P x \<Longrightarrow> R x (f x)"
  shows "moved_by R xs (update_where P f xs)"
  using assms by (auto simp: moved_by_def update_where_def list_all2_conv_all_nth)

lemma moved_by_mem:
  assumes "moved_by R xs ys" and "y \<in> set ys"
  shows "\<exists>x\<in>set xs. y = x \<or> R x y"
proof -
  obtain i where i: "i < length ys" "y = ys ! i" using assms(2) by (auto simp: in_set_conv_nth)
  then have "xs ! i \<in> set xs" "y = xs ! i \<or> R (xs ! i) y"
    using assms(1) by (auto simp: moved_by_def list_all2_conv_all_nth)
  then show ?thesis by blast
qed

lemma moved_by_mem_old:
  assumes "moved_by R xs ys" and "x \<in> set xs"
  shows "\<exists>y\<in>set ys. y = x \<or> R x y"
proof -
  obtain i where i: "i < length xs" "x = xs ! i" using assms(2) by (auto simp: in_set_conv_nth)
  then have "ys ! i \<in> set ys" "ys ! i = x \<or> R x (ys ! i)"
    using assms(1) by (auto simp: moved_by_def list_all2_conv_all_nth)
  then show ?thesis by blast
qed

lemma moved_by_map:
  assumes "moved_by R xs ys" and "\<And>x y. R x y \<Longrightarrow> f y = f x"
  shows "map f ys = map f xs"
  using assms by (auto simp: moved_by_def list_all2_conv_all_nth intro!: nth_equalityI)

section \<open>Claiming and recovering\<close>

lemma claimDueRefunds_moves:
  assumes "claimDueRefunds token now limit db = (db', r)"
  shows "moved_by quiet_step (refunds db) (refunds db') \<and> db' = db\<lparr>refunds := refunds db'\<rparr>"
  using assms
  by (auto simp: claimDueRefunds_def Let_def claim_stamp_def split: if_split_asm
      intro!: moved_by_update quiet_steps)

lemma recoverStaleRefundClaims_moves:
  assumes "recoverStaleRefundClaims now db = (db', n)"
  shows "moved_by quiet_step (refunds db) (refunds db') \<and> db' = db\<lparr>refunds := refunds db'\<rparr>"
  using assms
  by (auto simp: recoverStaleRefundClaims_def release_stale_def intro!: moved_by_update quiet_steps)

section \<open>Failing\<close>

lemma find_refund_unique:
  assumes "unique_on rf_id (refunds db)" and "r \<in> set (refunds db)"
  shows "find_refund db (rf_id r) = Some r"
  using find_unique[OF assms] by (simp add: find_refund_def)

lemma find_refund_mem: "find_refund db i = Some r \<Longrightarrow> r \<in> set (refunds db) \<and> rf_id r = i"
  unfolding find_refund_def by (rule find_Some_set)

lemma fail_refund_row_id [simp]: "rf_id (fail_refund_row e code at r) = rf_id r"
  by (simp add: fail_refund_row_def Let_def)

lemma complete_refund_row_id [simp]: "rf_id (complete_refund_row e ref c at rid r) = rf_id r"
  by (simp add: complete_refund_row_def)

lemma failRefundAttempt_moves:
  assumes uniq: "unique_on rf_id (refunds db)" and mem: "existing \<in> set (refunds db)"
    and lock: "rf_lockToken existing = Some token"
    and res: "failRefundAttempt existing code at db = (db', r)"
  shows "moved_by quiet_step (refunds db) (refunds db') \<and> db' = db\<lparr>refunds := refunds db'\<rparr> \<and>
     find_refund db' (rf_id existing) = Some (fail_refund_row existing code at existing)"
proof -
  have db': "db' = db\<lparr>refunds := update_where (\<lambda>r. rf_id r = rf_id existing)
      (fail_refund_row existing code at) (refunds db)\<rparr>"
    using res by (simp add: failRefundAttempt_def Let_def)
  have same: "x = existing" if "x \<in> set (refunds db)" "rf_id x = rf_id existing" for x
    using unique_on_eq[OF uniq that(1) mem that(2)] .
  have "moved_by quiet_step (refunds db) (refunds db')"
    unfolding db' using same lock by (auto intro!: moved_by_update quiet_steps(3))
  moreover have "find_refund db' (rf_id existing) = Some (fail_refund_row existing code at existing)"
    using find_unique[OF uniq mem] unfolding db' find_refund_def
    by (simp add: find_update_where_key[where key = rf_id])
  ultimately show ?thesis by (simp add: db')
qed

section \<open>Raising recovery exceptions\<close>

definition exception_key :: "recovery_exception \<Rightarrow> ident \<times> recovery_cause" where
  "exception_key x = (prx_proceedsObligationId x, prx_causeKind x)"

text \<open>The exceptions added for a list of obligations: each is made for one of them that is past the
  gate, and each of those has one.\<close>

definition raised_for ::
  "(ident \<Rightarrow> proceeds_obligation \<Rightarrow> recovery_reason \<Rightarrow> recovery_exception) \<Rightarrow> recovery_cause \<Rightarrow>
   proceeds_obligation list \<Rightarrow> recovery_exception list \<Rightarrow> bool" where
  "raised_for mk cause obs xs \<longleftrightarrow>
     (\<forall>x\<in>set xs. \<exists>i reason. \<exists>ob\<in>set obs. x = mk i ob reason \<and>
        recoveryReasonForObligationState (pob_state ob) cause = Some reason) \<and>
     (\<forall>ob\<in>set obs. pob_state ob \<noteq> Obligation_PENDING \<longrightarrow>
        (\<exists>x\<in>set xs. \<exists>i reason. x = mk i ob reason \<and>
           recoveryReasonForObligationState (pob_state ob) cause = Some reason))"

lemma raised_for_skip:
  assumes "raised_for mk cause obs xs" and "recoveryReasonForObligationState (pob_state ob) cause = None"
  shows "raised_for mk cause (ob # obs) xs"
proof -
  have "pob_state ob = Obligation_PENDING" using assms(2) by simp
  then show ?thesis using assms(1) unfolding raised_for_def by (simp only: list.set) blast
qed

lemma raised_for_add:
  assumes "raised_for mk cause obs xs" and "recoveryReasonForObligationState (pob_state ob) cause = Some reason"
  shows "raised_for mk cause (ob # obs) (mk i ob reason # xs)"
  using assms unfolding raised_for_def by (simp only: list.set) blast

lemma raise_for_rows:
  assumes "raise_for mk ids cause obs n rs = Inr (rs', raised)"
  shows "\<exists>xs. rs' = rs @ xs \<and> length raised = length xs \<and> raised_for mk cause obs xs"
  using assms
proof (induction obs arbitrary: n rs rs' raised)
  case Nil
  then show ?case by (simp add: raised_for_def)
next
  case (Cons ob obs)
  show ?case
  proof (cases "recoveryReasonForObligationState (pob_state ob) cause")
    case None
    then have "raise_for mk ids cause obs n rs = Inr (rs', raised)" using Cons.prems
      by (simp del: recovery_reason_None)
    then show ?thesis using Cons.IH raised_for_skip[OF _ None] by blast
  next
    case (Some reason)
    let ?x = "mk (ids n) ob reason"
    obtain raised' where step: "raise_for mk ids cause obs (Suc n) (rs @ [?x]) = Inr (rs', raised')"
      "raised = ids n # raised'"
      using Cons.prems Some by (auto simp: Let_def chain_Inr_iff split: if_split_asm)
    obtain xs where xs: "rs' = (rs @ [?x]) @ xs" "length raised' = length xs" "raised_for mk cause obs xs"
      using Cons.IH[OF step(1)] by blast
    have "rs' = rs @ ?x # xs \<and> length raised = length (?x # xs) \<and> raised_for mk cause (ob # obs) (?x # xs)"
      using xs step(2) raised_for_add[OF xs(3) Some] by simp
    then show ?thesis by blast
  qed
qed

lemma raise_for_unique:
  assumes "raise_for mk ids cause obs n rs = Inr (rs', raised)" and "unique_on exception_key rs"
  shows "unique_on exception_key rs'"
  using assms
proof (induction obs arbitrary: n rs rs' raised)
  case Nil
  then show ?case by simp
next
  case (Cons ob obs)
  show ?case
  proof (cases "recoveryReasonForObligationState (pob_state ob) cause")
    case None
    then show ?thesis using Cons by (simp del: recovery_reason_None)
  next
    case (Some reason)
    let ?x = "mk (ids n) ob reason"
    obtain raised' where step: "\<not> recovery_conflict rs ?x"
      "raise_for mk ids cause obs (Suc n) (rs @ [?x]) = Inr (rs', raised')"
      using Cons.prems(1) Some by (auto simp: Let_def chain_Inr_iff split: if_split_asm)
    have "exception_key ?x \<notin> exception_key ` set rs"
      using step(1) by (auto simp: recovery_conflict_def list_ex_iff exception_key_def)
    then have "unique_on exception_key (rs @ [?x])" using Cons.prems(2) by simp
    then show ?thesis using Cons.IH[OF step(2)] by simp
  qed
qed

section \<open>Completing\<close>

definition recorded_tax :: "'a market_tables_scheme \<Rightarrow> ident \<Rightarrow> (tax_transaction_row \<times> string) option" where
  "recorded_tax db oid =
     (case find_order_tax_transaction db oid of None \<Rightarrow> None
      | Some t \<Rightarrow> if tt_recordingStatus t = RECORDED
                  then map_option (\<lambda>ref. (t, ref)) (tt_providerTaxTransactionRef t) else None)"

lemma commitTaxReversalObligation_rows:
  assumes "commitTaxReversalObligationInTx oid rid at tid db = Inr (db', r)"
  shows "(case recorded_tax db oid of
       None \<Rightarrow> db' = db \<and> r = None
     | Some (t, ref) \<Rightarrow> r = Some tid \<and>
         db' = db\<lparr>taxReversals := taxReversals db @ [tax_obligation tid oid rid at t ref]\<rparr> \<and>
         (\<forall>x\<in>set (taxReversals db). tv_id x \<noteq> tid \<and> tv_orderId x \<noteq> oid \<and> tv_refundId x \<noteq> rid))"
proof (cases "recorded_tax db oid")
  case None
  then show ?thesis using assms
    by (auto simp: commitTaxReversalObligationInTx_def recorded_tax_def split: option.split_asm if_split_asm)
next
  case (Some p)
  obtain t ref where p: "p = (t, ref)" by (cases p)
  have t: "find_order_tax_transaction db oid = Some t" "tt_recordingStatus t = RECORDED"
    "tt_providerTaxTransactionRef t = Some ref"
    using Some p by (auto simp: recorded_tax_def split: option.split_asm if_split_asm)
  show ?thesis using assms t Some p
    by (auto simp: commitTaxReversalObligationInTx_def requiresTaxReversal_def list_ex_iff split: if_split_asm)
qed

definition refund_reversal_input :: "refund_row \<Rightarrow> string \<Rightarrow> instant \<Rightarrow> instant \<Rightarrow> reversal_input" where
  "refund_reversal_input e ref createdAt at =
     \<lparr>rvi_snapshotId = rf_snapshotId e, rvi_kind = Kind_REFUND,
      rvi_reasonCode = reversalReasonForRefund (rf_reasonCode e), rvi_provider = Some (rf_provider e),
      rvi_providerReversalRef = Some ref, rvi_occurredAt = createdAt, rvi_recordedAt = at\<rparr>"

definition sale_obligations :: "'a market_tables_scheme \<Rightarrow> ident \<Rightarrow> proceeds_obligation list" where
  "sale_obligations db sid = party_order (filter (\<lambda>ob. pob_snapshotId ob = sid) (obligations db))"

lemma set_sale_obligations:
  "set (sale_obligations db sid) = {ob \<in> set (obligations db). pob_snapshotId ob = sid}"
  using proceeds_party.exhaust by (auto simp: sale_obligations_def party_order_def)

lemma raiseProceedsRecoveryExceptions_rows:
  assumes "raiseProceedsRecoveryExceptionsInTx rid oid sid whole at ids db = Inr (db', raised)"
  shows "\<exists>xs. db' = db\<lparr>recoveries := recoveries db @ xs\<rparr> \<and> length raised = length xs \<and> whole \<and>
     raised_for (\<lambda>i ob reason. refund_exception i rid oid sid at ob reason) Cause_REFUND
       (sale_obligations db sid) xs \<and>
     (unique_on exception_key (recoveries db) \<longrightarrow> unique_on exception_key (recoveries db @ xs))"
proof -
  obtain rs where rs: "raise_for (\<lambda>i ob reason. refund_exception i rid oid sid at ob reason) ids Cause_REFUND
      (sale_obligations db sid) 0 (recoveries db) = Inr (rs, raised)" "db' = db\<lparr>recoveries := rs\<rparr>" and whole
    using assms by (auto simp: raiseProceedsRecoveryExceptionsInTx_def sale_obligations_def Let_def chain_Inr_iff
        split: if_split_asm)
  then show ?thesis using raise_for_rows[OF rs(1)] raise_for_unique[OF rs(1)] by blast
qed

lemma finalizeRefundInTx_rows:
  assumes "finalizeRefundInTx ids e ref createdAt at db = Inr (db', v)"
  shows "\<exists>db1 rev taxes xs.
     recordFullReversalInTx (ids_reversal ids) (refund_reversal_input e ref createdAt at) db = Inr (db1, rev) \<and>
     \<not> refund_update_conflict db1 e ref (trv_id rev) \<and>
     rf_coversWholeOrder e \<and>
     taxes = (case recorded_tax db (rf_orderId e) of None \<Rightarrow> []
              | Some (t, tref) \<Rightarrow> [tax_obligation (ids_taxReversal ids) (rf_orderId e) (rf_id e) at t tref]) \<and>
     (\<forall>y\<in>set taxes. \<forall>x\<in>set (taxReversals db). tv_id x \<noteq> tv_id y \<and> tv_orderId x \<noteq> tv_orderId y \<and>
        tv_refundId x \<noteq> tv_refundId y) \<and>
     raised_for (\<lambda>i ob reason. refund_exception i (rf_id e) (rf_orderId e) (rf_snapshotId e) at ob reason)
       Cause_REFUND (sale_obligations db (rf_snapshotId e)) xs \<and>
     (unique_on exception_key (recoveries db) \<longrightarrow> unique_on exception_key (recoveries db @ xs)) \<and>
     db' = db1\<lparr>refunds := update_where (\<lambda>r. rf_id r = rf_id e)
               (complete_refund_row e ref createdAt at (trv_id rev)) (refunds db),
             taxReversals := taxReversals db @ taxes, recoveries := recoveries db @ xs\<rparr> \<and>
     rsv_reversalId v = Some (trv_id rev) \<and> length (rsv_recoveryExceptionIds v) = length xs \<and>
     Some (rec_row (rsv_refund v)) = find_refund db' (rf_id e)"
proof -
  let ?in = "refund_reversal_input e ref createdAt at"
  obtain db1 rev where r1: "recordFullReversalInTx (ids_reversal ids) ?in db = Inr (db1, rev)"
    using assms by (auto simp: finalizeRefundInTx_def chain_Inr_iff refund_reversal_input_def)
  define db2 where "db2 = db1\<lparr>refunds := update_where (\<lambda>r. rf_id r = rf_id e)
      (complete_refund_row e ref createdAt at (trv_id rev)) (refunds db1)\<rparr>"
  have same: "refunds db1 = refunds db" "taxReversals db1 = taxReversals db" "recoveries db1 = recoveries db"
    "taxTransactions db1 = taxTransactions db" "obligations db1 = obligations db"
    using recordFullReversalInTx_row[OF r1] by auto
  obtain db3 tid db4 raised row where
    nc: "\<not> refund_update_conflict db1 e ref (trv_id rev)" and
    tax: "commitTaxReversalObligationInTx (rf_orderId e) (rf_id e) at (ids_taxReversal ids) db2 = Inr (db3, tid)" and
    rec: "raiseProceedsRecoveryExceptionsInTx (rf_id e) (rf_orderId e) (rf_snapshotId e)
       (rf_coversWholeOrder e) at (ids_precx ids) db3 = Inr (db4, raised)" and
    fin: "find_refund db4 (rf_id e) = Some row" "db' = db4" "rsv_recoveryExceptionIds v = raised"
      "rsv_reversalId v = Some (trv_id rev)" "rec_row (rsv_refund v) = row"
    using assms r1 unfolding finalizeRefundInTx_def db2_def
    by (auto simp: chain_Inr_iff Let_def refund_reversal_input_def[symmetric] withLinesToRecord_def
        refundRowToRecord_def split: if_split_asm option.split_asm)
  have rt: "recorded_tax db2 (rf_orderId e) = recorded_tax db (rf_orderId e)"
    by (simp add: recorded_tax_def find_order_tax_transaction_def db2_def same)
  let ?taxes = "case recorded_tax db (rf_orderId e) of None \<Rightarrow> []
      | Some (t, tref) \<Rightarrow> [tax_obligation (ids_taxReversal ids) (rf_orderId e) (rf_id e) at t tref]"
  have db3: "db3 = db2\<lparr>taxReversals := taxReversals db @ ?taxes\<rparr>"
    and fresh: "\<forall>y\<in>set ?taxes. \<forall>x\<in>set (taxReversals db). tv_id x \<noteq> tv_id y \<and> tv_orderId x \<noteq> tv_orderId y \<and>
        tv_refundId x \<noteq> tv_refundId y"
    using commitTaxReversalObligation_rows[OF tax] unfolding rt
    by (auto simp: db2_def same tax_obligation_def split: option.split_asm)
  obtain xs where xs: "db4 = db3\<lparr>recoveries := recoveries db3 @ xs\<rparr>" "length raised = length xs"
    "rf_coversWholeOrder e"
    "raised_for (\<lambda>i ob reason. refund_exception i (rf_id e) (rf_orderId e) (rf_snapshotId e) at ob reason)
       Cause_REFUND (sale_obligations db3 (rf_snapshotId e)) xs"
    "unique_on exception_key (recoveries db3) \<longrightarrow> unique_on exception_key (recoveries db3 @ xs)"
    using raiseProceedsRecoveryExceptions_rows[OF rec] by blast
  have so: "sale_obligations db3 (rf_snapshotId e) = sale_obligations db (rf_snapshotId e)"
    "recoveries db3 = recoveries db"
    by (simp_all add: sale_obligations_def db3 db2_def same)
  have db': "db' = db1\<lparr>refunds := update_where (\<lambda>r. rf_id r = rf_id e)
               (complete_refund_row e ref createdAt at (trv_id rev)) (refunds db),
             taxReversals := taxReversals db @ ?taxes, recoveries := recoveries db @ xs\<rparr>"
    by (simp add: fin(2) xs(1) db3 db2_def same)
  have row: "Some (rec_row (rsv_refund v)) = find_refund db' (rf_id e)" using fin by simp
  have len: "length (rsv_recoveryExceptionIds v) = length xs" using fin(3) xs(2) by simp
  show ?thesis
    by (rule exI[of _ db1], rule exI[of _ rev], rule exI[of _ ?taxes], rule exI[of _ xs], intro conjI)
      (rule r1 nc xs(3) refl fresh xs(4,5)[unfolded so] db' fin(4) len row)+
qed

section \<open>Resolving\<close>

text \<open>What one call to \<open>resolveRefundAttempt\<close> can do to the state: nothing, a failure recorded on the
  row it holds, or a completion.\<close>

lemma resolveRefundAttempt_cases:
  assumes "resolveRefundAttempt ids rid token result at db = (db', r)"
  obtains (nothing) "db' = db"
  | (failed) e code r' where "find_refund db rid = Some e" "rf_lockToken e = Some token"
      "failRefundAttempt e code at db = (db', r')"
  | (completed) e ref createdAt v where "find_refund db rid = Some e" "rf_lockToken e = Some token"
      "result = Attempt_REFUNDED ref createdAt" "ref \<noteq> rf_providerTransactionRef e"
      "finalizeRefundInTx ids e ref createdAt at db = Inr (db', v)" "r = Inr (Some v)"
proof (cases "find_refund db rid")
  case None
  then have "db' = db" using assms by (simp add: resolveRefundAttempt_def)
  then show ?thesis by (rule nothing)
next
  case (Some e)
  note f = Some
  show ?thesis
  proof (cases "rf_lockToken e = Some token")
    case False
    then have "db' = db" using assms f by (simp add: resolveRefundAttempt_def)
    then show ?thesis by (rule nothing)
  next
    case True
    have rr: "resolve_read ids e result at db = (db', r)"
      using assms f True by (simp add: resolveRefundAttempt_def)
    show ?thesis
    proof (cases result)
      case (Attempt_FAILED code)
      then have "\<exists>r'. failRefundAttempt e code at db = (db', r')"
        using rr by (auto simp: resolve_read_def split: prod.split_asm)
      then show ?thesis using failed f True by blast
    next
      case (Attempt_REFUNDED ref createdAt)
      let ?c = "e\<lparr>rf_status := REFUNDED, rf_providerRefundRef := Some ref, rf_providerRefundCreatedAt := Some createdAt\<rparr>"
      consider (corrupt) "db' = db"
        | (incoherent) r' where "failRefundAttempt e RF_EVIDENCE_INCONSISTENT at db = (db', r')"
        | (finished) v where "refundIsCoherent ?c" "finalizeRefundInTx ids e ref createdAt at db = Inr (db', v)"
            "r = Inr (Some v)"
        using rr Attempt_REFUNDED
        by (auto simp: resolve_read_def Let_def split: sum.split_asm if_split_asm prod.split_asm)
      then show ?thesis
      proof cases
        case corrupt
        then show ?thesis by (rule nothing)
      next
        case incoherent
        then show ?thesis using failed f True by blast
      next
        case finished
        have "ref \<noteq> rf_providerTransactionRef e" using finished(1) by (simp add: refundIsCoherent_def)
        then show ?thesis using completed f True Attempt_REFUNDED finished(2,3) by blast
      qed
    qed
  qed
qed

end
