(* ===== verification/Refund_Request.thy ===== *)
theory Refund_Request
  imports Refund_Facts
begin

text \<open>
  What an accepted refund request rests on: the Order, its charge and the bound terms, with no
  dispute and no reversal standing; and the amount it commits, which is a function of the
  sale-time quote and those terms alone.
\<close>

lemma select_lines_single:
  assumes "select_lines [l] refs sel = (es, ls)" and "sel = [] \<or> sel = [l]"
  shows "ls = [] \<or> ls = [l]"
  using assms
proof (induction refs arbitrary: sel es)
  case (Cons r rs)
  then show ?case by (cases "rl_lineRef l = r") (auto split: prod.split_asm if_split_asm)
qed simp

lemma find_order_id: "find_order db oid = Some ord \<Longrightarrow> or_id ord = oid"
  unfolding find_order_def by (drule find_Some_set) simp

definition order_line :: "order_row \<Rightarrow> refundable_line" where
  "order_line ord = \<lparr>rl_lineRef = singleOrderLineRef (or_id ord), rl_internalProductId = or_internalProductId ord,
     rl_listingSourceRecordId = or_listingSourceRecordId ord,
     rl_listingSourceRecordVersion = or_listingSourceRecordVersion ord,
     rl_currency = oq_currency (or_quote ord), rl_commercialRetail = oq_commercialRetail (or_quote ord),
     rl_tax = oq_tax (or_quote ord)\<rparr>"

lemma order_lines: "find_order db oid = Some ord \<Longrightarrow> resolveRefundableOrderLines db oid = [order_line ord]"
  by (simp add: resolveRefundableOrderLines_def order_line_def)

lemma order_line_ref [simp]: "rl_lineRef (order_line ord) = singleOrderLineRef (or_id ord)"
  by (simp add: order_line_def)

text \<open>The sale-time amount under the bound terms.\<close>

definition sale_time_refund :: "order_quote \<Rightarrow> shipping_refundability \<Rightarrow> refund_reason \<Rightarrow> amount" where
  "sale_time_refund quote rule reason = oq_commercialRetail quote + oq_tax quote +
     (if shippingIsRefundable rule reason then max 0 (oq_shipping quote) else 0)"

lemma derive_single:
  assumes "deriveRefundAmount [order_line ord] 1 (oq_shipping (or_quote ord)) (oq_other (or_quote ord)) rule reason = Inr a"
  shows "ram_total a = sale_time_refund (or_quote ord) rule reason \<and> oq_other (or_quote ord) = 0 \<and> ram_coversWholeOrder a"
  using assms by (auto simp: deriveRefundAmount_def Let_def sale_time_refund_def order_line_def split: if_split_asm)

lemma sale_refusals_none:
  assumes "sale_refusals db ord snapshot settlement = []"
  shows "\<exists>snap st ref provider. snapshot = Some snap \<and> settlement = Some st \<and> or_lifecycle ord = Order_PAID \<and>
     st_providerTransactionRef st = Some ref \<and> st_provider st = Some provider \<and>
     count_where (\<lambda>r. rf_orderId r = or_id ord) (refunds db) = 0 \<and>
     \<not> isSnapshotReversedIn db (sr_id snap) \<and> disputeBlockingRefundIn db (sr_id snap) = None \<and>
     sr_currency snap = oq_currency (or_quote ord) \<and> st_state st \<noteq> REVERSED"
  using assms
  by (cases snapshot; cases settlement; cases "count_where (\<lambda>r. rf_orderId r = or_id ord) (refunds db)")
    (auto simp: sale_refusals_def Let_def split: if_split_asm option.split_asm)

lemma policy_refusals_none:
  assumes "policy_refusals ord policy at = []"
  shows "\<exists>p. policy = Some p \<and> rt_refundsAllowed (rpr_terms p) \<and>
     (\<forall>paidAt. or_paidAt ord = Some paidAt \<longrightarrow> refundWindowIsOpen (rt_refundWindowDays (rpr_terms p)) paidAt at)"
  using assms by (auto simp: policy_refusals_def split: if_split_asm option.split_asm)

text \<open>An eligible evaluation selects the Order's line and derives the sale-time amount.\<close>

lemma eligible_order:
  assumes f: "find_order db (el_orderId a) = Some ord" and e: "eg_eligible (evaluate_order h a db ord)"
  defines "reason \<equiv> (case el_reasonCode a of None \<Rightarrow> CUSTOMER_REQUEST | Some r \<Rightarrow> r)"
  shows "\<exists>snap st p d.
     find_order_snapshot db (el_orderId a) = Some snap \<and> find_settlement db (sr_id snap) = Some st \<and>
     sale_refusals db ord (Some snap) (Some st) = [] \<and>
     bound_policy h db ord = Some p \<and> policy_refusals ord (Some p) (el_at a) = [] \<and>
     eg_amounts (evaluate_order h a db ord) = Some d \<and>
     ram_total d = sale_time_refund (or_quote ord) (rt_shippingRefundability (rpr_terms p)) reason \<and>
     oq_other (or_quote ord) = 0 \<and> 0 < ram_total d \<and>
     (el_requestedAmount a = None \<or> el_requestedAmount a = Some (ram_total d)) \<and>
     eg_coversWholeOrder (evaluate_order h a db ord) \<and>
     eg_selectedLineRefs (evaluate_order h a db ord) = [singleOrderLineRef (or_id ord)] \<and>
     eg_orderLines (evaluate_order h a db ord) = [order_line ord]"
proof -
  let ?snap = "find_order_snapshot db (el_orderId a)"
  let ?st = "case ?snap of None \<Rightarrow> None | Some s \<Rightarrow> find_settlement db (sr_id s)"
  let ?req = "case el_selectedLineRefs a of None \<Rightarrow> map rl_lineRef [order_line ord] | Some rs \<Rightarrow> rs"
  obtain es ls where sel: "select_lines [order_line ord] ?req [] = (es, ls)" by fastforce
  note ev = evaluate_order_def Let_def order_lines[OF f] sel prod.case reason_def
  have sale: "sale_refusals db ord ?snap ?st = []" using e by (simp add: ev)
  have pol: "policy_refusals ord (bound_policy h db ord) (el_at a) = []" using e by (simp add: ev)
  obtain snap st where s: "?snap = Some snap" "?st = Some st" using sale_refusals_none[OF sale] by blast
  obtain p where p: "bound_policy h db ord = Some p" using policy_refusals_none[OF pol] by blast
  have line: "ls = [order_line ord]"
  proof -
    have "ls = [] \<or> ls = [order_line ord]" using select_lines_single[OF sel] by simp
    moreover have "ls \<noteq> []"
      using e by (auto simp: ev split: if_split_asm)
    ultimately show ?thesis by simp
  qed
  have der: "derive_for ord (Some p) [order_line ord] 1 reason = Some (deriveRefundAmount [order_line ord] 1
      (oq_shipping (or_quote ord)) (oq_other (or_quote ord)) (rt_shippingRefundability (rpr_terms p)) reason)"
    by (simp add: derive_for_def)
  obtain d where d: "deriveRefundAmount [order_line ord] 1
      (oq_shipping (or_quote ord)) (oq_other (or_quote ord)) (rt_shippingRefundability (rpr_terms p)) reason = Inr d"
  proof (cases "deriveRefundAmount [order_line ord] 1
      (oq_shipping (or_quote ord)) (oq_other (or_quote ord)) (rt_shippingRefundability (rpr_terms p)) reason")
    case (Inl x)
    then show ?thesis using e der by (simp add: ev line p)
  qed
  have res: "eg_amounts (evaluate_order h a db ord) = Some d"
    "eg_coversWholeOrder (evaluate_order h a db ord)"
    "eg_selectedLineRefs (evaluate_order h a db ord) = [singleOrderLineRef (or_id ord)]"
    "eg_orderLines (evaluate_order h a db ord) = [order_line ord]"
    using der d by (simp_all add: ev line p)
  have am: "0 < ram_total d" "el_requestedAmount a = None \<or> el_requestedAmount a = Some (ram_total d)"
    using e der d by (auto simp: ev line p split: if_split_asm)
  show ?thesis
    using sale pol s p derive_single[OF d] res am by auto
qed

lemma create_refund_row:
  assumes "create_refund_in_tx row selected db = Inr (db', rec)"
  shows "rec_row rec = row \<and> rec_lineRefs rec = map rl_lineRef selected \<and> \<not> refund_conflict db row \<and>
     db' = db\<lparr>refunds := refunds db @ [row],
        refundLines := refundLines db @ map (\<lambda>l. \<lparr>rll_refundId = rf_id row, rll_line = l\<rparr>) selected\<rparr>"
  using assms
  by (auto simp: create_refund_in_tx_def chain_Inr_iff refundRowToRecord_def split: if_split_asm)

text \<open>What a successful request writes, and everything it rests on.\<close>

lemma requestOrderRefund_row:
  assumes "requestOrderRefund h rid q db = Inr (db', rec)"
  shows "\<exists>ord snap st p lines.
     find_order db (rq_orderId q) = Some ord \<and> find_order_snapshot db (rq_orderId q) = Some snap \<and>
     find_settlement db (sr_id snap) = Some st \<and> sale_refusals db ord (Some snap) (Some st) = [] \<and>
     bound_policy h db ord = Some p \<and> policy_refusals ord (Some p) (rq_requestedAt q) = [] \<and>
     oq_other (or_quote ord) = 0 \<and>
     rf_amount (rec_row rec) =
       sale_time_refund (or_quote ord) (rt_shippingRefundability (rpr_terms p)) (rq_reasonCode q) \<and>
     0 < rf_amount (rec_row rec) \<and>
     (rq_requestedAmount q = None \<or> rq_requestedAmount q = Some (rf_amount (rec_row rec))) \<and>
     rf_id (rec_row rec) = rid \<and> rf_orderId (rec_row rec) = rq_orderId q \<and>
     rf_snapshotId (rec_row rec) = sr_id snap \<and> rf_coversWholeOrder (rec_row rec) \<and>
     Some (rf_providerTransactionRef (rec_row rec)) = st_providerTransactionRef st \<and>
     rf_currency (rec_row rec) = oq_currency (or_quote ord) \<and> rf_reasonCode (rec_row rec) = rq_reasonCode q \<and>
     rec_lineRefs rec = [singleOrderLineRef (or_id ord)] \<and>
     rf_status (rec_row rec) = Refund_PENDING \<and> rf_attemptCount (rec_row rec) = 0 \<and>
     refund_row_ok (rec_row rec) \<and>
     \<not> refund_conflict db (rec_row rec) \<and>
     db' = db\<lparr>refunds := refunds db @ [rec_row rec], refundLines := refundLines db @ lines\<rparr>"
proof -
  let ?a = "request_args q"
  have oid: "el_orderId ?a = rq_orderId q" by (simp add: request_args_def)
  obtain e where ev: "evaluateRefundEligibility h ?a db = Inr e" and el: "eg_eligible e"
    using assms by (auto simp: requestOrderRefund_def chain_Inr_iff split: if_split_asm)
  obtain ord where f: "find_order db (rq_orderId q) = Some ord" and e: "e = evaluate_order h ?a db ord"
    using ev el by (auto simp: evaluateRefundEligibility_def Let_def oid not_found_eligibility_def
        split: if_split_asm option.split_asm)
  obtain snap st p d where
    s: "find_order_snapshot db (rq_orderId q) = Some snap" "find_settlement db (sr_id snap) = Some st"
    and sale: "sale_refusals db ord (Some snap) (Some st) = []"
    and pol: "bound_policy h db ord = Some p" "policy_refusals ord (Some p) (rq_requestedAt q) = []"
    and am: "eg_amounts e = Some d"
      "ram_total d = sale_time_refund (or_quote ord) (rt_shippingRefundability (rpr_terms p)) (rq_reasonCode q)"
      "oq_other (or_quote ord) = 0" "0 < ram_total d"
      "rq_requestedAmount q = None \<or> rq_requestedAmount q = Some (ram_total d)"
    and whole: "eg_coversWholeOrder e" "eg_selectedLineRefs e = [singleOrderLineRef (or_id ord)]"
      "eg_orderLines e = [order_line ord]"
    using eligible_order[of db ?a ord h] f el unfolding e by (auto simp: request_args_def)
  have ids: "eg_snapshotId e = Some (sr_id snap)" "eg_currency e = Some (oq_currency (or_quote ord))"
    "eg_providerTransactionRef e = st_providerTransactionRef st"
    using s unfolding e evaluate_order_def Let_def by (simp_all add: oid split: prod.split)
  obtain ref where ref: "st_providerTransactionRef st = Some ref" using sale_refusals_none[OF sale] by blast
  obtain provider pid ver where opts: "eg_provider e = Some provider" "eg_sellerRefundPolicyId e = Some pid"
    "eg_sellerRefundPolicyVersion e = Some ver"
    using assms ev el by (auto simp: requestOrderRefund_def chain_Inr_iff split: option.split_asm)
  let ?row = "new_refund_row rid q e (sr_id snap) provider ref (oq_currency (or_quote ord)) d pid ver"
  have "create_refund_in_tx ?row [order_line ord] db = Inr (db', rec)"
    using assms ev el by (simp add: requestOrderRefund_def ids ref opts am(1) whole)
  from create_refund_row[OF this]
  have row: "rec_row rec = ?row" and nc: "\<not> refund_conflict db (rec_row rec)"
    and refs: "rec_lineRefs rec = [singleOrderLineRef (or_id ord)]"
    and db': "\<exists>lines. db' = db\<lparr>refunds := refunds db @ [rec_row rec], refundLines := refundLines db @ lines\<rparr>"
    by auto
  have "refund_row_ok (rec_row rec)"
    by (simp add: row new_refund_row_def refund_row_ok_def unfinished_def INITIAL_REFUND_STATUS_def refund_maxAttempts_def)
  moreover have "rf_amount (rec_row rec) = ram_total d" "rf_id (rec_row rec) = rid"
    "rf_orderId (rec_row rec) = rq_orderId q" "rf_snapshotId (rec_row rec) = sr_id snap"
    "rf_coversWholeOrder (rec_row rec)" "rf_providerTransactionRef (rec_row rec) = ref"
    "rf_currency (rec_row rec) = oq_currency (or_quote ord)" "rf_reasonCode (rec_row rec) = rq_reasonCode q"
    "rf_status (rec_row rec) = Refund_PENDING" "rf_attemptCount (rec_row rec) = 0"
    using whole by (simp_all add: row new_refund_row_def INITIAL_REFUND_STATUS_def)
  moreover obtain lines where "db' = db\<lparr>refunds := refunds db @ [rec_row rec], refundLines := refundLines db @ lines\<rparr>"
    using db' by blast
  ultimately show ?thesis
    by (intro exI[of _ ord] exI[of _ snap] exI[of _ st] exI[of _ p] exI[of _ lines] conjI)
      (use f s sale pol am ref nc refs in simp_all)
qed

end
