(* ===== verification/Dispute_Service.thy ===== *)
theory Dispute_Service
  imports Refund_Service
begin

text \<open>
  Dispute intake: \<open>src/server/marketplace/transaction-dispute-service.ts\<close>.  One provider observation
  is one transaction: the event ledger absorbs replays, older observations are ingested without
  effect, a decided adjudication is kept, and a loss has its consequences on the reversal, the
  recovery exceptions and the seller's fee.  \<open>dispute_ids\<close> is what the id provider hands out; the
  n-th recovery exception attempted takes the n-th id.
\<close>

record dispute_ids =
  dsi_dispute :: ident
  dsi_event :: ident
  dsi_reversal :: ident
  dsi_fee :: ident
  dsi_precx :: "nat \<Rightarrow> ident"

record dispute_outcome =
  dio_disputeId :: ident
  dio_applied :: bool
  dio_duplicateEvent :: bool
  dio_status :: dispute_status
  dio_fundsState :: dispute_funds
  dio_economicEffect :: dispute_effect
  dio_taxConsequence :: dispute_tax_consequence
  dio_remediationCode :: "dispute_remediation option"
  dio_unattributed :: bool
  dio_reversalId :: "ident option"
  dio_heldObligationIds :: "ident list"
  dio_raisedRecoveryExceptionIds :: "ident list"
  dio_chargebackFeeId :: "ident option"
  dio_closedRecoveryExceptionIds :: "ident list"

definition dispute_rowToRecord :: "dispute_row \<Rightarrow> dispute_row res" where
  "dispute_rowToRecord r = (if TransactionDisputeRecord r then Inr r
     else Inl (DisputeError ''CORRUPT_DISPUTE_RECORD''))"

fun isDisputeError :: "err \<Rightarrow> bool" where
  "isDisputeError (DisputeError _) = True"
| "isDisputeError (DisputeEvidenceRefused _) = True"
| "isDisputeError _ = False"

section \<open>Consequences on the sale\<close>

definition assessSellerChargebackFeeInTx ::
  "ident \<Rightarrow> ident \<Rightarrow> instant \<Rightarrow> ident \<Rightarrow> active_fee option \<Rightarrow> 'a market_tables_scheme \<Rightarrow>
   'a market_tables_scheme \<times> ident option" where
  "assessSellerChargebackFeeInTx disputeId orderId assessedAt newId feePolicy db =
     (case feePolicy of None \<Rightarrow> (db, None)
      | Some fee \<Rightarrow>
          (case find_order db orderId of None \<Rightarrow> (db, None)
           | Some ord \<Rightarrow>
               if list_ex (\<lambda>f. cf_id f = newId \<or> cf_disputeId f = disputeId) (chargebackFees db)
               then (db, None)
               else (db\<lparr>chargebackFees := chargebackFees db @
                      [\<lparr>cf_id = newId, cf_disputeId = disputeId, cf_orderId = orderId,
                        cf_sellerParticipantId = or_sellerParticipantId ord, cf_amount = af_amount fee,
                        cf_currency = af_currency fee, cf_feePolicyId = af_policyId fee,
                        cf_policyVersion = af_policyVersion fee, cf_state = ASSESSED,
                        cf_assessedAt = assessedAt\<rparr>]\<rparr>, Some newId)))"

definition dispute_exception ::
  "ident \<Rightarrow> ident \<Rightarrow> ident \<Rightarrow> ident \<Rightarrow> instant \<Rightarrow> proceeds_obligation \<Rightarrow> recovery_reason \<Rightarrow> recovery_exception" where
  "dispute_exception exceptionId disputeId orderId snapshotId raisedAt ob reason =
     \<lparr>prx_id = exceptionId, prx_refundId = None, prx_disputeId = Some disputeId, prx_causeKind = Cause_DISPUTE,
      prx_orderId = orderId, prx_snapshotId = snapshotId, prx_proceedsObligationId = pob_id ob,
      prx_participantId = pob_participantId ob, prx_party = pob_party ob, prx_amount = pob_amount ob,
      prx_attributableAmount = pob_amount ob, prx_currency = pob_currency ob, prx_reasonCode = reason,
      prx_obligationState = pob_state ob, prx_status = Recovery_OPEN, prx_resolutionCode = None,
      prx_raisedAt = raisedAt, prx_acknowledgedAt = None, prx_resolvedAt = None\<rparr>"

text \<open>A claim whose exception already stands is skipped; its id is spent all the same.\<close>

fun raise_skipping ::
  "(ident \<Rightarrow> proceeds_obligation \<Rightarrow> recovery_reason \<Rightarrow> recovery_exception) \<Rightarrow> (nat \<Rightarrow> ident) \<Rightarrow>
   proceeds_obligation list \<Rightarrow> nat \<Rightarrow> recovery_exception list \<Rightarrow> recovery_exception list \<times> ident list" where
  "raise_skipping mk ids [] n rs = (rs, [])"
| "raise_skipping mk ids (ob # obs) n rs =
     (case recoveryReasonForObligationState (pob_state ob) Cause_DISPUTE of
        None \<Rightarrow> raise_skipping mk ids obs n rs
      | Some reason \<Rightarrow>
          let x = mk (ids n) ob reason in
          if recovery_conflict rs x then raise_skipping mk ids obs (Suc n) rs
          else let (rs', raised) = raise_skipping mk ids obs (Suc n) (rs @ [x]) in (rs', ids n # raised))"

definition raiseDisputeRecoveryExceptionsInTx ::
  "ident \<Rightarrow> ident \<Rightarrow> ident \<Rightarrow> instant \<Rightarrow> (nat \<Rightarrow> ident) \<Rightarrow> 'a market_tables_scheme \<Rightarrow>
   'a market_tables_scheme \<times> ident list" where
  "raiseDisputeRecoveryExceptionsInTx disputeId orderId snapshotId raisedAt ids db =
     (let (rs, raised) = raise_skipping (\<lambda>i ob reason. dispute_exception i disputeId orderId snapshotId raisedAt ob reason)
                           ids (filter (\<lambda>ob. pob_snapshotId ob = snapshotId) (obligations db)) 0 (recoveries db)
      in (db\<lparr>recoveries := rs\<rparr>, raised))"

definition dispute_exception_open :: "ident \<Rightarrow> recovery_exception \<Rightarrow> bool" where
  "dispute_exception_open disputeId x = (prx_disputeId x = Some disputeId \<and> prx_causeKind x = Cause_DISPUTE \<and>
     (prx_status x = Recovery_OPEN \<or> prx_status x = ACKNOWLEDGED))"

definition close_exception :: "instant \<Rightarrow> recovery_exception \<Rightarrow> recovery_exception" where
  "close_exception at x = x\<lparr>prx_status := RESOLVED,
     prx_resolutionCode := Some DISPUTE_RESOLVED_NO_RECOVERY_DUE, prx_resolvedAt := Some at\<rparr>"

definition closeDisputeRecoveryExceptionsInTx ::
  "ident \<Rightarrow> instant \<Rightarrow> 'a market_tables_scheme \<Rightarrow> 'a market_tables_scheme \<times> ident list" where
  "closeDisputeRecoveryExceptionsInTx disputeId at db =
     (db\<lparr>recoveries := update_where (dispute_exception_open disputeId) (close_exception at) (recoveries db)\<rparr>,
      map prx_id (filter (dispute_exception_open disputeId) (recoveries db)))"

definition decideTaxConsequenceInTx ::
  "ident option \<Rightarrow> dispute_status \<Rightarrow> bool \<Rightarrow> 'a market_tables_scheme \<Rightarrow> dispute_tax_consequence" where
  "decideTaxConsequenceInTx orderId status alreadyReversedByRefund db =
     (if status \<noteq> LOST then (if status = WON \<or> status = CLOSED then NO_ACTION_REQUIRED else NOT_ASSESSED)
      else if alreadyReversedByRefund then TaxC_ALREADY_REVERSED_BY_REFUND
      else case orderId of None \<Rightarrow> NOT_ASSESSED
      | Some oid \<Rightarrow>
          (case find_order_tax_transaction db oid of None \<Rightarrow> NO_TAX_TRANSACTION
           | Some t \<Rightarrow>
               if tt_recordingStatus t \<noteq> RECORDED then NO_TAX_TRANSACTION
               else if find_order_tax_reversal db oid \<noteq> None then TaxC_ALREADY_REVERSED_BY_REFUND
               else REVERSAL_REQUIRED_NOT_EXPRESSIBLE))"

text \<open>\<open>buyerChargedTotalMinorUnits\<close> over the columns of the stored row.\<close>

definition row_buyer_total :: "snapshot_row \<Rightarrow> amount" where
  "row_buyer_total s = sr_commercialRetail s + sr_tax s + sr_shipping s + sr_other s"

record consequences =
  cq_effect :: dispute_effect
  cq_reversalId :: "ident option"
  cq_remediation :: "dispute_remediation option"
  cq_held :: "ident list"
  cq_raised :: "ident list"
  cq_fee :: "ident option"
  cq_closed :: "ident list"
  cq_alreadyReversed :: bool

section \<open>One observation\<close>

definition attributed_settlement :: "'a market_tables_scheme \<Rightarrow> dispute_observation \<Rightarrow> settlement_row option" where
  "attributed_settlement db ob =
     (if length (dob_providerTransactionRef ob) > 0
      then List.find (\<lambda>s. st_provider s = Some (dob_provider ob) \<and>
             st_providerTransactionRef s = Some (dob_providerTransactionRef ob)) (settlements db)
      else None)"

text \<open>The refusals computed before anything is written, with the status the row is given.\<close>

definition intake_refusal ::
  "dispute_observation \<Rightarrow> settlement_row option \<Rightarrow> snapshot_row option \<Rightarrow> dispute_remediation option \<times> dispute_status" where
  "intake_refusal ob settlement snapshot =
     (if dob_providerReportedLivemode ob then (Some LIVEMODE_IN_TEST_DEPLOYMENT, Dispute_MANUAL_REMEDIATION)
      else if settlement = None \<or> Option.bind snapshot sr_orderId = None
      then (Some UNATTRIBUTABLE, Dispute_MANUAL_REMEDIATION)
      else if dob_status ob = Dispute_MANUAL_REMEDIATION then (Some UNRECOGNISED_PROVIDER_STATUS, dob_status ob)
      else case snapshot of
        Some s \<Rightarrow> if dob_currency ob \<noteq> sr_currency s then (Some Remediation_CURRENCY_MISMATCH, Dispute_MANUAL_REMEDIATION)
                  else (None, dob_status ob)
      | None \<Rightarrow> (None, dob_status ob))"

definition new_dispute ::
  "ident \<Rightarrow> dispute_observation \<Rightarrow> ident option \<Rightarrow> ident option \<Rightarrow> dispute_status \<Rightarrow> dispute_remediation option \<Rightarrow>
   instant \<Rightarrow> dispute_row" where
  "new_dispute i ob orderId snapshotId status remediation recordedAt =
     \<lparr>dp_id = i, dp_orderId = orderId, dp_snapshotId = snapshotId, dp_provider = dob_provider ob,
      dp_providerMode = dob_providerMode ob, dp_providerDisputeRef = dob_providerDisputeRef ob,
      dp_providerTransactionRef = dob_providerTransactionRef ob,
      dp_providerChargeRef = dob_providerChargeRef ob, dp_disputedAmount = dob_disputedAmount ob,
      dp_currency = dob_currency ob, dp_reasonCode = dob_reasonCode ob, dp_status = status,
      dp_fundsState = (if dob_eventKind ob = FUNDS_WITHDRAWN then WITHDRAWN else NOT_WITHDRAWN),
      dp_taxConsequence = NOT_ASSESSED, dp_economicEffect = Effect_NONE,
      dp_evidenceDueBy = dob_evidenceDueBy ob, dp_responsePermitted = dob_responsePermitted ob,
      dp_evidenceStagedAtProvider = dob_evidenceStagedAtProvider ob,
      dp_evidenceSubmissionCount = dob_evidenceSubmissionCount ob,
      dp_evidenceSubmittedPastDue = dob_evidenceSubmittedPastDue ob,
      dp_chargeStillRefundable = dob_chargeStillRefundable ob, dp_remediationCode = remediation,
      dp_lastProviderEventAt = dob_occurredAt ob, dp_openedAt = dob_openedAt ob,
      dp_fundsWithdrawnAt = (if dob_eventKind ob = FUNDS_WITHDRAWN then Some (dob_occurredAt ob) else None),
      dp_fundsReinstatedAt = None,
      dp_closedAt = (if dob_eventKind ob = Event_CLOSED then Some (dob_occurredAt ob) else None),
      dp_recordedAt = recordedAt, dp_reversalId = None\<rparr>"

definition observed_dispute ::
  "dispute_observation \<Rightarrow> dispute_status \<Rightarrow> dispute_remediation option \<Rightarrow> dispute_row \<Rightarrow> dispute_row" where
  "observed_dispute ob status remediation r =
     r\<lparr>dp_status := status,
       dp_fundsState := (if dob_eventKind ob = FUNDS_WITHDRAWN then WITHDRAWN
                         else if dob_eventKind ob = FUNDS_REINSTATED then REINSTATED else dp_fundsState r),
       dp_fundsWithdrawnAt := (if dob_eventKind ob = FUNDS_WITHDRAWN then Some (dob_occurredAt ob)
                               else dp_fundsWithdrawnAt r),
       dp_fundsReinstatedAt := (if dob_eventKind ob = FUNDS_REINSTATED then Some (dob_occurredAt ob)
                                else dp_fundsReinstatedAt r),
       dp_closedAt := (if dob_eventKind ob = Event_CLOSED then Some (dob_occurredAt ob) else dp_closedAt r),
       dp_evidenceDueBy := dob_evidenceDueBy ob, dp_responsePermitted := dob_responsePermitted ob,
       dp_evidenceStagedAtProvider := dob_evidenceStagedAtProvider ob,
       dp_evidenceSubmissionCount := dob_evidenceSubmissionCount ob,
       dp_evidenceSubmittedPastDue := dob_evidenceSubmittedPastDue ob,
       dp_chargeStillRefundable := dob_chargeStillRefundable ob,
       dp_remediationCode := (if remediation \<noteq> None then remediation else dp_remediationCode r),
       dp_lastProviderEventAt := dob_occurredAt ob\<rparr>"

definition dispute_event_row ::
  "ident \<Rightarrow> ident \<Rightarrow> dispute_observation \<Rightarrow> bool \<Rightarrow> instant \<Rightarrow> dispute_event" where
  "dispute_event_row i disputeId ob applied receivedAt =
     \<lparr>dev_id = i, dev_disputeId = disputeId, dev_provider = dob_provider ob,
      dev_providerEventId = dob_providerEventId ob, dev_eventKind = dob_eventKind ob,
      dev_applied = applied, dev_occurredAt = dob_occurredAt ob, dev_receivedAt = receivedAt\<rparr>"

definition ingest_event :: "dispute_event \<Rightarrow> 'a market_tables_scheme \<Rightarrow> 'a market_tables_scheme res" where
  "ingest_event e db =
     (if list_ex (\<lambda>x. dev_id x = dev_id e \<or>
           (dev_provider x = dev_provider e \<and> dev_providerEventId x = dev_providerEventId e)) (disputeEvents db)
      then Inl (UniqueViolation ''TransactionDisputeEvent'')
      else Inr (db\<lparr>disputeEvents := disputeEvents db @ [e]\<rparr>))"

definition find_dispute_by_ref :: "'a market_tables_scheme \<Rightarrow> dispute_observation \<Rightarrow> dispute_row option" where
  "find_dispute_by_ref db ob = List.find (\<lambda>d. dp_provider d = dob_provider ob \<and>
     dp_providerDisputeRef d = dob_providerDisputeRef ob) (disputes db)"

definition event_known :: "'a market_tables_scheme \<Rightarrow> dispute_observation \<Rightarrow> bool" where
  "event_known db ob = list_ex (\<lambda>e. dev_provider e = dob_provider ob \<and>
     dev_providerEventId e = dob_providerEventId ob) (disputeEvents db)"

text \<open>The answer to a delivery that changes nothing: the stored dispute as it stands.\<close>

definition standing_outcome :: "dispute_row \<Rightarrow> bool \<Rightarrow> dispute_outcome" where
  "standing_outcome r duplicate =
     \<lparr>dio_disputeId = dp_id r, dio_applied = False, dio_duplicateEvent = duplicate,
      dio_status = dp_status r, dio_fundsState = dp_fundsState r,
      dio_economicEffect = dp_economicEffect r, dio_taxConsequence = dp_taxConsequence r,
      dio_remediationCode = dp_remediationCode r, dio_unattributed = (dp_orderId r = None),
      dio_reversalId = dp_reversalId r, dio_heldObligationIds = [],
      dio_raisedRecoveryExceptionIds = [], dio_chargebackFeeId = None, dio_closedRecoveryExceptionIds = []\<rparr>"


text \<open>A loss: exceptions, the fee, and a reversal unless the sale is reversed already or the disputed
  amount is not what the buyer was charged.\<close>

definition chargeback_reversal_input :: "dispute_observation \<Rightarrow> ident \<Rightarrow> instant \<Rightarrow> reversal_input" where
  "chargeback_reversal_input ob snapshotId at =
     \<lparr>rvi_snapshotId = snapshotId, rvi_kind = Kind_CHARGEBACK, rvi_reasonCode = DISPUTED_BY_BUYER,
      rvi_provider = Some ''STRIPE'', rvi_providerReversalRef = Some (dob_providerDisputeRef ob),
      rvi_occurredAt = dob_occurredAt ob, rvi_recordedAt = at\<rparr>"

definition lost_consequences ::
  "active_fee option \<Rightarrow> dispute_ids \<Rightarrow> dispute_observation \<Rightarrow> instant \<Rightarrow> ident \<Rightarrow> ident \<Rightarrow> ident \<Rightarrow>
   snapshot_row option \<Rightarrow> consequences \<Rightarrow> 'a market_tables_scheme \<Rightarrow>
   ('a market_tables_scheme \<times> consequences) res" where
  "lost_consequences fee ids ob at disputeId orderId snapshotId snapshot c db =
     (let (db1, raised) = raiseDisputeRecoveryExceptionsInTx disputeId orderId snapshotId at (dsi_precx ids) db;
          (db2, feeId) = assessSellerChargebackFeeInTx disputeId orderId at (dsi_fee ids) fee db1;
          c' = c\<lparr>cq_raised := raised, cq_fee := feeId\<rparr>
      in if isSnapshotReversedIn db2 snapshotId
         then Inr (db2, c'\<lparr>cq_alreadyReversed := True, cq_effect := Effect_ALREADY_REVERSED_BY_REFUND,
                cq_remediation := (if cq_remediation c = None then Some Remediation_SALE_ALREADY_REVERSED
                                   else cq_remediation c)\<rparr>)
         else if (case snapshot of None \<Rightarrow> False | Some s \<Rightarrow> dob_disputedAmount ob \<noteq> row_buyer_total s)
         then Inr (db2, c'\<lparr>cq_effect := NOT_EXPRESSIBLE, cq_remediation := Some PARTIAL_AMOUNT_NOT_EXPRESSIBLE\<rparr>)
         else chain (recordFullReversalInTx (dsi_reversal ids) (chargeback_reversal_input ob snapshotId at) db2)
                (\<lambda>(db3, reversal). Inr (db3, c'\<lparr>cq_reversalId := Some (trv_id reversal),
                   cq_effect := REVERSED_BY_THIS_DISPUTE\<rparr>)))"

text \<open>The remaining statuses after the first two tests are \<open>WON\<close> and \<open>CLOSED\<close>.\<close>

definition sale_consequences ::
  "active_fee option \<Rightarrow> dispute_ids \<Rightarrow> dispute_observation \<Rightarrow> instant \<Rightarrow> ident \<Rightarrow> ident \<Rightarrow> ident \<Rightarrow>
   snapshot_row option \<Rightarrow> dispute_status \<Rightarrow> consequences \<Rightarrow> 'a market_tables_scheme \<Rightarrow>
   ('a market_tables_scheme \<times> consequences) res" where
  "sale_consequences fee ids ob at disputeId orderId snapshotId snapshot status c0 db =
     (let held = (if isDisputeOpen status \<or> status = LOST
                  then map pob_id (filter (\<lambda>x. pob_snapshotId x = snapshotId \<and> pob_state x = Obligation_PENDING)
                         (obligations db))
                  else []);
          c = c0\<lparr>cq_held := held\<rparr>
      in if isDisputeOpen status
         then let (db1, raised) = raiseDisputeRecoveryExceptionsInTx disputeId orderId snapshotId at (dsi_precx ids) db
              in Inr (db1, c\<lparr>cq_raised := raised\<rparr>)
         else if status = LOST then lost_consequences fee ids ob at disputeId orderId snapshotId snapshot c db
         else let (db1, closed) = closeDisputeRecoveryExceptionsInTx disputeId at db
              in Inr (db1, c\<lparr>cq_closed := closed,
                   cq_effect := (if cq_reversalId c = None then Effect_NONE else cq_effect c)\<rparr>))"

definition conclude_dispute ::
  "dispute_status \<Rightarrow> dispute_tax_consequence \<Rightarrow> dispute_remediation option \<Rightarrow> consequences \<Rightarrow> dispute_row \<Rightarrow> dispute_row" where
  "conclude_dispute status tax remediation c r =
     r\<lparr>dp_status := status, dp_economicEffect := cq_effect c, dp_taxConsequence := tax,
       dp_remediationCode := remediation, dp_reversalId := cq_reversalId c\<rparr>"

definition prior_consequences :: "dispute_row option \<Rightarrow> dispute_remediation option \<Rightarrow> consequences" where
  "prior_consequences existing remediation =
     \<lparr>cq_effect = (case existing of None \<Rightarrow> Effect_NONE | Some r \<Rightarrow> dp_economicEffect r),
      cq_reversalId = (case existing of None \<Rightarrow> None | Some r \<Rightarrow> dp_reversalId r),
      cq_remediation = remediation, cq_held = [], cq_raised = [], cq_fee = None, cq_closed = [],
      cq_alreadyReversed = False\<rparr>"

text \<open>From the ingested event to the final update of the row.\<close>

definition conclude_observation ::
  "active_fee option \<Rightarrow> dispute_ids \<Rightarrow> dispute_observation \<Rightarrow> instant \<Rightarrow> ident \<Rightarrow> dispute_row option \<Rightarrow>
   ident option \<Rightarrow> ident option \<Rightarrow> snapshot_row option \<Rightarrow> dispute_status \<Rightarrow> dispute_remediation option \<Rightarrow>
   'a market_tables_scheme \<Rightarrow> ('a market_tables_scheme \<times> dispute_outcome) res" where
  "conclude_observation fee ids ob at disputeId existing orderId snapshotId snapshot status remediation db =
     chain (case (orderId, snapshotId) of
              (Some oid, Some sid) \<Rightarrow>
                sale_consequences fee ids ob at disputeId oid sid snapshot status (prior_consequences existing remediation) db
            | _ \<Rightarrow> Inr (db, prior_consequences existing remediation)) (\<lambda>(db1, c).
       let tax = decideTaxConsequenceInTx orderId status (cq_alreadyReversed c) db1;
           remediation' = (if tax = REVERSAL_REQUIRED_NOT_EXPRESSIBLE \<and> cq_remediation c = None
                           then Some TAX_CORRECTION_NOT_EXPRESSIBLE else cq_remediation c)
       in if list_ex (\<lambda>d. dp_id d \<noteq> disputeId \<and> cq_reversalId c \<noteq> None \<and> dp_reversalId d = cq_reversalId c) (disputes db1)
          then Inl (UniqueViolation ''TransactionDispute'')
          else Inr (db1\<lparr>disputes := update_where (\<lambda>d. dp_id d = disputeId)
                          (conclude_dispute status tax remediation' c) (disputes db1)\<rparr>,
                 \<lparr>dio_disputeId = disputeId, dio_applied = True, dio_duplicateEvent = False,
                  dio_status = status,
                  dio_fundsState = (if dob_eventKind ob = FUNDS_WITHDRAWN then WITHDRAWN
                    else if dob_eventKind ob = FUNDS_REINSTATED then REINSTATED
                    else case existing of None \<Rightarrow> NOT_WITHDRAWN | Some r \<Rightarrow> dp_fundsState r),
                  dio_economicEffect = cq_effect c, dio_taxConsequence = tax,
                  dio_remediationCode = remediation', dio_unattributed = (orderId = None),
                  dio_reversalId = cq_reversalId c, dio_heldObligationIds = cq_held c,
                  dio_raisedRecoveryExceptionIds = cq_raised c, dio_chargebackFeeId = cq_fee c,
                  dio_closedRecoveryExceptionIds = cq_closed c\<rparr>))"

text \<open>The transaction, under the fee policy read before it.\<close>

definition observe_tx ::
  "active_fee option \<Rightarrow> dispute_ids \<Rightarrow> dispute_observation \<Rightarrow> instant \<Rightarrow> 'a market_tables_scheme \<Rightarrow>
   ('a market_tables_scheme \<times> dispute_outcome) res" where
  "observe_tx fee ids ob at db =
     (let settlement = attributed_settlement db ob;
          snapshotId = map_option st_snapshotId settlement;
          snapshot = Option.bind snapshotId (find_snapshot db);
          orderId = Option.bind snapshot sr_orderId;
          (remediation, status) = intake_refusal ob settlement snapshot
      in case find_dispute_by_ref db ob of
           None \<Rightarrow>
             (case insert_unique dp_id (new_dispute (dsi_dispute ids) ob orderId snapshotId status remediation at) (disputes db) of
                None \<Rightarrow> Inl (UniqueViolation ''TransactionDispute'')
              | Some ds \<Rightarrow>
                  chain (ingest_event (dispute_event_row (dsi_event ids) (dsi_dispute ids) ob True at) (db\<lparr>disputes := ds\<rparr>))
                    (conclude_observation fee ids ob at (dsi_dispute ids) None orderId snapshotId snapshot status remediation))
         | Some existing \<Rightarrow>
             if event_known db ob
             then chain (dispute_rowToRecord existing) (\<lambda>r. Inr (db, standing_outcome r True))
             else if dob_occurredAt ob < dp_lastProviderEventAt existing
             then chain (ingest_event (dispute_event_row (dsi_event ids) (dp_id existing) ob False at) db) (\<lambda>db'.
                  chain (dispute_rowToRecord existing) (\<lambda>r. Inr (db', standing_outcome r False)))
             else
               let nextStatus = (if isValidDisputeStatusTransition (dp_status existing) status then status
                                 else dp_status existing)
               in chain (ingest_event (dispute_event_row (dsi_event ids) (dp_id existing) ob True at)
                      (db\<lparr>disputes := update_where (\<lambda>d. dp_id d = dp_id existing)
                             (observed_dispute ob nextStatus remediation) (disputes db)\<rparr>))
                    (conclude_observation fee ids ob at (dp_id existing) (Some existing) orderId snapshotId
                       snapshot nextStatus remediation))"

definition recordDisputeObservation ::
  "dispute_ids \<Rightarrow> dispute_observation \<Rightarrow> instant \<Rightarrow> 'a market_tables_scheme \<Rightarrow>
   ('a market_tables_scheme \<times> dispute_outcome) res" where
  "recordDisputeObservation ids ob at db =
     (if \<not> DisputeObservation ob then Inl (DisputeError ''INVALID_DISPUTE_INPUT'')
      else rethrow_own isDisputeError (DisputeError ''DISPUTE_PERSISTENCE_FAILURE'')
             (observe_tx (resolveActiveChargebackFeePolicy db) ids ob at db))"

section \<open>Reads\<close>

definition getDispute :: "'a market_tables_scheme \<Rightarrow> ident \<Rightarrow> dispute_row option res" where
  "getDispute db i = (case List.find (\<lambda>d. dp_id d = i) (disputes db) of None \<Rightarrow> Inr None
     | Some row \<Rightarrow> chain (dispute_rowToRecord row) (\<lambda>r. Inr (Some r)))"

definition listDisputesForOrder :: "'a market_tables_scheme \<Rightarrow> ident \<Rightarrow> dispute_row list res" where
  "listDisputesForOrder db oid =
     map_res dispute_rowToRecord (sort_key (\<lambda>d. - dp_openedAt d) (filter (\<lambda>d. dp_orderId d = Some oid) (disputes db)))"

end
