(* ===== verification/Dispute_Facts.thy ===== *)
theory Dispute_Facts
  imports Dispute_Service Refund_Facts
begin

text \<open>
  What one dispute observation may write.  The exceptions it raises keep the unique key of the
  recovery table; the sale, its obligations, the refunds and the policies are never touched; the
  reversal entry is the only accounting it adds.
\<close>

section \<open>Recovery exceptions\<close>

lemma recovery_conflict_key: "\<not> recovery_conflict rs x \<Longrightarrow> exception_key x \<notin> exception_key ` set rs"
  by (auto simp: recovery_conflict_def list_ex_iff exception_key_def)

definition made_for ::
  "(ident \<Rightarrow> proceeds_obligation \<Rightarrow> recovery_reason \<Rightarrow> recovery_exception) \<Rightarrow> proceeds_obligation list \<Rightarrow>
   recovery_exception \<Rightarrow> bool" where
  "made_for mk obs x \<longleftrightarrow> (\<exists>i b w. b \<in> set obs \<and>
     recoveryReasonForObligationState (pob_state b) Cause_DISPUTE = Some w \<and> x = mk i b w)"

lemma made_for_Cons: "made_for mk obs x \<Longrightarrow> made_for mk (b # obs) x"
  unfolding made_for_def by (blast intro: list.set_intros(2))

lemma made_forI:
  "b \<in> set obs \<Longrightarrow> recoveryReasonForObligationState (pob_state b) Cause_DISPUTE = Some w \<Longrightarrow> made_for mk obs (mk i b w)"
  unfolding made_for_def by blast

lemma raise_skipping_rows:
  assumes "raise_skipping mk ids obs n rs = (rs', raised)" and "\<And>i b w. prx_id (mk i b w) = i"
  shows "\<exists>xs. rs' = rs @ xs \<and> raised = map prx_id xs \<and> (\<forall>x\<in>set xs. made_for mk obs x) \<and>
     (unique_on exception_key rs \<longrightarrow> unique_on exception_key rs')"
  using assms(1)
proof (induction obs arbitrary: n rs raised)
  case Nil
  then show ?case by simp
next
  case (Cons b obs)
  show ?case
  proof (cases "recoveryReasonForObligationState (pob_state b) Cause_DISPUTE")
    case None
    then have "raise_skipping mk ids obs n rs = (rs', raised)" using Cons.prems by (simp del: recovery_reason_None)
    from Cons.IH[OF this] show ?thesis using made_for_Cons[of mk obs _ b] by blast
  next
    case (Some w)
    let ?x = "mk (ids n) b w"
    show ?thesis
    proof (cases "recovery_conflict rs ?x")
      case True
      then have "raise_skipping mk ids obs (Suc n) rs = (rs', raised)" using Cons.prems Some by (simp add: Let_def)
      from Cons.IH[OF this] show ?thesis using made_for_Cons[of mk obs _ b] by blast
    next
      case False
      obtain raised' where r: "raise_skipping mk ids obs (Suc n) (rs @ [?x]) = (rs', raised')" "raised = ids n # raised'"
        using Cons.prems Some False by (auto simp: Let_def split: prod.split_asm)
      obtain xs where xs: "rs' = (rs @ [?x]) @ xs" "raised' = map prx_id xs"
        "\<forall>x\<in>set xs. made_for mk obs x"
        "unique_on exception_key (rs @ [?x]) \<longrightarrow> unique_on exception_key rs'"
        using Cons.IH[OF r(1)] by blast
      have u: "unique_on exception_key rs \<longrightarrow> unique_on exception_key rs'"
        using xs(4) recovery_conflict_key[OF False] by simp
      have "made_for mk (b # obs) ?x" using made_forI[OF list.set_intros(1) Some] by blast
      then have each: "\<forall>x\<in>set (?x # xs). made_for mk (b # obs) x"
        using xs(3) made_for_Cons[of mk obs _ b] by simp
      show ?thesis
        by (rule exI[of _ "?x # xs"]) (use xs(1,2) r(2) assms(2) u each in simp)
    qed
  qed
qed

text \<open>Under fresh ids every claim past the gate ends up with an exception of this cause.\<close>

lemma raise_skipping_covers:
  assumes "raise_skipping mk ids obs n rs = (rs', raised)"
    and mk: "\<And>i b w. prx_id (mk i b w) = i" "\<And>i b w. exception_key (mk i b w) = (pob_id b, Cause_DISPUTE)"
    and "\<forall>k\<ge>n. ids k \<notin> prx_id ` set rs" and "inj ids"
  shows "\<forall>b\<in>set obs. pob_state b \<noteq> Obligation_PENDING \<longrightarrow> (pob_id b, Cause_DISPUTE) \<in> exception_key ` set rs'"
  using assms(1,4)
proof (induction obs arbitrary: n rs raised)
  case Nil
  then show ?case by simp
next
  case (Cons b obs)
  have grows: "set rs \<subseteq> set rs'"
    using raise_skipping_rows[OF Cons.prems(1) mk(1)] by auto
  show ?case
  proof (cases "recoveryReasonForObligationState (pob_state b) Cause_DISPUTE")
    case None
    then have "raise_skipping mk ids obs n rs = (rs', raised)" using Cons.prems by (simp del: recovery_reason_None)
    then show ?thesis using Cons.IH Cons.prems(2) recovery_reason_None[THEN iffD1, OF None] by simp
  next
    case (Some w)
    let ?x = "mk (ids n) b w"
    show ?thesis
    proof (cases "recovery_conflict rs ?x")
      case True
      have "prx_id r \<noteq> prx_id ?x" if "r \<in> set rs" for r using that Cons.prems(2) mk(1) by (metis imageI order_refl)
      then have "(pob_id b, Cause_DISPUTE) \<in> exception_key ` set rs"
        using True mk(2)[of "ids n" b w] by (force simp: recovery_conflict_def list_ex_iff exception_key_def)
      then have b: "(pob_id b, Cause_DISPUTE) \<in> exception_key ` set rs'" using grows by blast
      have "raise_skipping mk ids obs (Suc n) rs = (rs', raised)" using Cons.prems Some True by (simp add: Let_def)
      then show ?thesis using Cons.IH Cons.prems(2) b by (simp add: Suc_le_eq)
    next
      case False
      obtain raised' where r: "raise_skipping mk ids obs (Suc n) (rs @ [?x]) = (rs', raised')"
        using Cons.prems Some False by (auto simp: Let_def split: prod.split_asm)
      have "?x \<in> set rs'" using raise_skipping_rows[OF r mk(1)] by auto
      then have b: "(pob_id b, Cause_DISPUTE) \<in> exception_key ` set rs'" using mk(2) by (metis imageI)
      have "\<forall>k\<ge>Suc n. ids k \<notin> prx_id ` set (rs @ [?x])"
        using Cons.prems(2) \<open>inj ids\<close> by (auto simp: mk(1) dest: injD)
      then show ?thesis using Cons.IH[OF r] b by simp
    qed
  qed
qed

section \<open>What is left alone\<close>

definition untouched_by_disputes where
  "untouched_by_disputes db = ((commercialPolicies db, policyVersions db, listings db, listingVersions db, offerVersions db),
     (snapshots db, obligations db, actingAccounts db, participants db, sellerRefundPolicies db, refundPolicyVersions db),
     (feePolicies db, feePolicyVersions db, orders db, taxTransactions db, refunds db, refundLines db, taxReversals db))"

lemma raise_untouched:
  "raiseDisputeRecoveryExceptionsInTx d oid sid at ids db = (db', raised) \<Longrightarrow>
     untouched_by_disputes db' = untouched_by_disputes db"
  by (auto simp: raiseDisputeRecoveryExceptionsInTx_def untouched_by_disputes_def split: prod.split_asm)

lemma assess_untouched:
  "assessSellerChargebackFeeInTx d oid at i fee db = (db', f) \<Longrightarrow>
     untouched_by_disputes db' = untouched_by_disputes db"
  by (auto simp: assessSellerChargebackFeeInTx_def untouched_by_disputes_def split: option.split_asm if_split_asm)

lemma close_untouched:
  "closeDisputeRecoveryExceptionsInTx d at db = (db', closed) \<Longrightarrow>
     untouched_by_disputes db' = untouched_by_disputes db"
  by (auto simp: closeDisputeRecoveryExceptionsInTx_def untouched_by_disputes_def)

lemma reversal_untouched:
  assumes "recordFullReversalInTx rid i db = Inr (db', r)"
  shows "untouched_by_disputes db' = untouched_by_disputes db"
proof -
  obtain sts where "db' = db\<lparr>reversals := reversals db @ [r], settlements := sts\<rparr>"
    using recordFullReversalInTx_row[OF assms] by blast
  then show ?thesis by (simp add: untouched_by_disputes_def)
qed

section \<open>The consequences, case by case\<close>

lemma lost_consequences_writes:
  assumes "lost_consequences fee ids ob at d oid sid snap c db = Inr (db', c')"
  obtains db1 db2 raised f where
    "raiseDisputeRecoveryExceptionsInTx d oid sid at (dsi_precx ids) db = (db1, raised)"
    "assessSellerChargebackFeeInTx d oid at (dsi_fee ids) fee db1 = (db2, f)"
    "db' = db2 \<and> cq_reversalId c' = cq_reversalId c \<and> cq_effect c' \<noteq> REVERSED_BY_THIS_DISPUTE \<or>
     (\<exists>rev. recordFullReversalInTx (dsi_reversal ids) (chargeback_reversal_input ob sid at) db2 = Inr (db', rev) \<and>
        cq_reversalId c' = Some (trv_id rev))"
proof -
  obtain db1 raised where r: "raiseDisputeRecoveryExceptionsInTx d oid sid at (dsi_precx ids) db = (db1, raised)"
    by (cases "raiseDisputeRecoveryExceptionsInTx d oid sid at (dsi_precx ids) db")
  obtain db2 f where f: "assessSellerChargebackFeeInTx d oid at (dsi_fee ids) fee db1 = (db2, f)"
    by (cases "assessSellerChargebackFeeInTx d oid at (dsi_fee ids) fee db1")
  show ?thesis
    by (rule that[OF r f], use assms r f in \<open>auto simp: lost_consequences_def Let_def chain_Inr_iff split: if_split_asm\<close>)
qed

lemma sale_consequences_cases:
  assumes "sale_consequences fee ids ob at d oid sid snap status c0 db = Inr (db', c)"
  obtains (opened) raised where "isDisputeOpen status"
      "raiseDisputeRecoveryExceptionsInTx d oid sid at (dsi_precx ids) db = (db', raised)"
      "cq_reversalId c = cq_reversalId c0" "cq_effect c = cq_effect c0"
  | (lost) c1 where "status = LOST" "cq_reversalId c1 = cq_reversalId c0" "cq_remediation c1 = cq_remediation c0"
      "lost_consequences fee ids ob at d oid sid snap c1 db = Inr (db', c)"
  | (closed) closed where "status = WON \<or> status = CLOSED"
      "closeDisputeRecoveryExceptionsInTx d at db = (db', closed)" "cq_reversalId c = cq_reversalId c0"
      "cq_effect c = (if cq_reversalId c0 = None then Effect_NONE else cq_effect c0)"
proof -
  have "isDisputeOpen status \<or> status = LOST \<or> (\<not> isDisputeOpen status \<and> status \<noteq> LOST \<and> (status = WON \<or> status = CLOSED))"
    by (cases status) (simp_all add: isDisputeOpen_def NON_TERMINAL_DISPUTE_STATUSES_def)
  then show ?thesis
  proof (elim disjE conjE)
    assume o: "isDisputeOpen status"
    show ?thesis
      by (rule opened[OF o, of "cq_raised c"])
         (use assms o in \<open>auto simp: sale_consequences_def Let_def split: prod.split_asm\<close>)
  next
    assume l: "status = LOST"
    then have "\<not> isDisputeOpen status" by (simp add: isDisputeOpen_def NON_TERMINAL_DISPUTE_STATUSES_def)
    then show ?thesis
      by (intro lost[OF l, of "c0\<lparr>cq_held := map pob_id (filter (\<lambda>x. pob_snapshotId x = sid \<and>
            pob_state x = Obligation_PENDING) (obligations db))\<rparr>"])
         (use assms l in \<open>simp_all add: sale_consequences_def Let_def\<close>)
  qed (use assms closed in \<open>auto simp: sale_consequences_def Let_def closeDisputeRecoveryExceptionsInTx_def\<close>)
qed

text \<open>A predicate every single write keeps is kept by the consequences as a whole.\<close>

lemma sale_consequences_keeps:
  assumes "sale_consequences fee ids ob at d oid sid snap status c0 db = Inr (db', c)" and "P db"
    and raise: "\<And>x y raised. P x \<Longrightarrow> raiseDisputeRecoveryExceptionsInTx d oid sid at (dsi_precx ids) x = (y, raised) \<Longrightarrow> P y"
    and fee: "\<And>x y f. P x \<Longrightarrow> assessSellerChargebackFeeInTx d oid at (dsi_fee ids) fee x = (y, f) \<Longrightarrow> P y"
    and rev: "\<And>x y r. P x \<Longrightarrow> recordFullReversalInTx (dsi_reversal ids) (chargeback_reversal_input ob sid at) x = Inr (y, r) \<Longrightarrow> P y"
    and close: "\<And>x y closed. P x \<Longrightarrow> closeDisputeRecoveryExceptionsInTx d at x = (y, closed) \<Longrightarrow> P y"
  shows "P db'"
  using assms(1)
proof (cases rule: sale_consequences_cases)
  case opened
  then show ?thesis using raise \<open>P db\<close> by blast
next
  case (lost c1)
  from lost(4) show ?thesis
    by (rule lost_consequences_writes) (use raise fee rev \<open>P db\<close> in blast)
next
  case closed
  then show ?thesis using close \<open>P db\<close> by blast
qed

section \<open>One observation, case by case\<close>

lemma conclude_observation_writes:
  assumes "conclude_observation fee ids ob at d existing oid sid snap status rem db = Inr (db', out)"
  obtains db1 c tax rem' where
    "db1 = db \<and> c = prior_consequences existing rem \<and> (oid = None \<or> sid = None) \<or>
     (\<exists>o' s. oid = Some o' \<and> sid = Some s \<and>
        sale_consequences fee ids ob at d o' s snap status (prior_consequences existing rem) db = Inr (db1, c))"
    "db' = db1\<lparr>disputes := update_where (\<lambda>x. dp_id x = d) (conclude_dispute status tax rem' c) (disputes db1)\<rparr>"
    "tax = decideTaxConsequenceInTx oid status (cq_alreadyReversed c) db1"
    "\<forall>x\<in>set (disputes db1). dp_id x = d \<or> cq_reversalId c = None \<or> dp_reversalId x \<noteq> cq_reversalId c"
    "dio_status out = status" "dio_reversalId out = cq_reversalId c" "dio_economicEffect out = cq_effect c"
    "dio_disputeId out = d" "dio_taxConsequence out = tax" "dio_applied out"
proof -
  let ?pre = "case (oid, sid) of
      (Some o', Some s) \<Rightarrow> sale_consequences fee ids ob at d o' s snap status (prior_consequences existing rem) db
    | _ \<Rightarrow> Inr (db, prior_consequences existing rem)"
  obtain db1 c where pre: "?pre = Inr (db1, c)"
    using assms unfolding conclude_observation_def by (auto simp: chain_Inr_iff)
  let ?tax = "decideTaxConsequenceInTx oid status (cq_alreadyReversed c) db1"
  have "db1 = db \<and> c = prior_consequences existing rem \<and> (oid = None \<or> sid = None) \<or>
     (\<exists>o' s. oid = Some o' \<and> sid = Some s \<and>
        sale_consequences fee ids ob at d o' s snap status (prior_consequences existing rem) db = Inr (db1, c))"
    using pre by (auto split: option.split_asm)
  moreover note eq = assms[unfolded conclude_observation_def, unfolded pre, unfolded chain.simps Let_def prod.case]
  then have free: "\<not> list_ex (\<lambda>x. dp_id x \<noteq> d \<and> cq_reversalId c \<noteq> None \<and> dp_reversalId x = cq_reversalId c) (disputes db1)"
    by (simp split: if_split_asm)
  moreover note done' = eq[unfolded if_not_P[OF free] sum.inject prod.inject]
  ultimately show ?thesis
    by (intro that[of db1 c ?tax, OF _ done'[THEN conjunct1, symmetric] refl])
       (auto simp: list_ex_iff simp flip: done'[THEN conjunct2])
qed

lemma observe_tx_cases:
  assumes "observe_tx fee ids ob at db = Inr (db', out)"
  obtains (replayed) existing where "find_dispute_by_ref db ob = Some existing" "event_known db ob" "db' = db"
      "out = standing_outcome existing True"
  | (stale) existing where "find_dispute_by_ref db ob = Some existing" "\<not> event_known db ob"
      "dob_occurredAt ob < dp_lastProviderEventAt existing"
      "ingest_event (dispute_event_row (dsi_event ids) (dp_id existing) ob False at) db = Inr db'"
      "out = standing_outcome existing False"
  | (opened) settlement sid snap oid rem status row db1 where
      "find_dispute_by_ref db ob = None" "settlement = attributed_settlement db ob"
      "sid = map_option st_snapshotId settlement" "snap = Option.bind sid (find_snapshot db)"
      "oid = Option.bind snap sr_orderId" "(rem, status) = intake_refusal ob settlement snap"
      "row = new_dispute (dsi_dispute ids) ob oid sid status rem at" "dp_id row \<notin> dp_id ` set (disputes db)"
      "ingest_event (dispute_event_row (dsi_event ids) (dsi_dispute ids) ob True at)
         (db\<lparr>disputes := disputes db @ [row]\<rparr>) = Inr db1"
      "conclude_observation fee ids ob at (dsi_dispute ids) None oid sid snap status rem db1 = Inr (db', out)"
  | (applied) existing settlement sid snap oid rem status next_status db1 where
      "find_dispute_by_ref db ob = Some existing" "\<not> event_known db ob"
      "dp_lastProviderEventAt existing \<le> dob_occurredAt ob" "settlement = attributed_settlement db ob"
      "sid = map_option st_snapshotId settlement" "snap = Option.bind sid (find_snapshot db)"
      "oid = Option.bind snap sr_orderId" "(rem, status) = intake_refusal ob settlement snap"
      "next_status = (if isValidDisputeStatusTransition (dp_status existing) status then status else dp_status existing)"
      "ingest_event (dispute_event_row (dsi_event ids) (dp_id existing) ob True at)
         (db\<lparr>disputes := update_where (\<lambda>x. dp_id x = dp_id existing) (observed_dispute ob next_status rem) (disputes db)\<rparr>)
         = Inr db1"
      "conclude_observation fee ids ob at (dp_id existing) (Some existing) oid sid snap next_status rem db1 = Inr (db', out)"
proof -
  obtain rem status where r: "(rem, status) = intake_refusal ob (attributed_settlement db ob)
      (Option.bind (map_option st_snapshotId (attributed_settlement db ob)) (find_snapshot db))"
    by (metis surj_pair)
  show ?thesis
  proof (cases "find_dispute_by_ref db ob")
    case None
    then show ?thesis using assms opened[OF None refl refl refl refl r refl]
      by (auto simp: observe_tx_def r[symmetric] Let_def chain_Inr_iff insert_unique_def split: if_split_asm option.split_asm)
  next
    case (Some existing)
    consider "event_known db ob" | "\<not> event_known db ob" "dob_occurredAt ob < dp_lastProviderEventAt existing"
      | "\<not> event_known db ob" "dp_lastProviderEventAt existing \<le> dob_occurredAt ob" by linarith
    then show ?thesis
    proof cases
      case 1
      then show ?thesis using assms Some replayed[OF Some 1]
        by (auto simp: observe_tx_def r[symmetric] Let_def chain_Inr_iff dispute_rowToRecord_def split: if_split_asm)
    next
      case 2
      then show ?thesis using assms Some stale[OF Some 2]
        by (auto simp: observe_tx_def r[symmetric] Let_def chain_Inr_iff dispute_rowToRecord_def split: if_split_asm)
    next
      case 3
      then show ?thesis using assms Some applied[OF Some 3 refl refl refl refl r refl]
        by (auto simp: observe_tx_def r[symmetric] Let_def chain_Inr_iff)
    qed
  qed
qed


section \<open>What every observation keeps\<close>

lemma ingest_event_Inr:
  "ingest_event e db = Inr db' \<Longrightarrow> db' = db\<lparr>disputeEvents := disputeEvents db @ [e]\<rparr> \<and>
     (\<forall>x\<in>set (disputeEvents db). dev_id x \<noteq> dev_id e \<and>
        (dev_provider x, dev_providerEventId x) \<noteq> (dev_provider e, dev_providerEventId e))"
  by (auto simp: ingest_event_def list_ex_iff split: if_split_asm)

lemma observe_tx_keeps:
  assumes ok: "observe_tx fee ids ob at db = Inr (db', out)" and start: "P db"
    and dis: "\<And>x ds. P x \<Longrightarrow> P (x\<lparr>disputes := ds\<rparr>)"
    and ev: "\<And>x es. P x \<Longrightarrow> P (x\<lparr>disputeEvents := es\<rparr>)"
    and raise: "\<And>x y d oid sid raised. P x \<Longrightarrow>
        raiseDisputeRecoveryExceptionsInTx d oid sid at (dsi_precx ids) x = (y, raised) \<Longrightarrow> P y"
    and fee: "\<And>x y d oid f. P x \<Longrightarrow> assessSellerChargebackFeeInTx d oid at (dsi_fee ids) fee x = (y, f) \<Longrightarrow> P y"
    and rev: "\<And>x y sid r. P x \<Longrightarrow>
        recordFullReversalInTx (dsi_reversal ids) (chargeback_reversal_input ob sid at) x = Inr (y, r) \<Longrightarrow> P y"
    and close: "\<And>x y d closed. P x \<Longrightarrow> closeDisputeRecoveryExceptionsInTx d at x = (y, closed) \<Longrightarrow> P y"
  shows "P db'"
proof -
  have concl: "P y" if "P x" and c: "conclude_observation fee ids ob at d existing oid sid snap status rem x = Inr (y, out)"
    for x y d existing oid sid snap status rem
    using c
  proof (rule conclude_observation_writes)
    fix db1 c tax rem'
    assume pre: "db1 = x \<and> c = prior_consequences existing rem \<and> (oid = None \<or> sid = None) \<or>
        (\<exists>o' s. oid = Some o' \<and> sid = Some s \<and>
          sale_consequences fee ids ob at d o' s snap status (prior_consequences existing rem) x = Inr (db1, c))"
      and y: "y = db1\<lparr>disputes := update_where (\<lambda>x. dp_id x = d) (conclude_dispute status tax rem' c) (disputes db1)\<rparr>"
    have sale: "P z" if "sale_consequences fee ids ob at d o' s snap status c0 x = Inr (z, c)" for o' s c0 z c
      using that \<open>P x\<close> by (rule sale_consequences_keeps) (fact raise fee rev close)+
    have "P db1" using pre \<open>P x\<close> sale by blast
    then show "P y" unfolding y by (rule dis)
  qed
  show ?thesis using ok
  proof (cases rule: observe_tx_cases)
    case replayed
    then show ?thesis using start by simp
  next
    case stale
    then show ?thesis using ev[OF start] ingest_event_Inr by metis
  next
    case (opened settlement sid snap oid rem status row db1)
    then have "P db1" using ev[OF dis[OF start]] ingest_event_Inr by metis
    then show ?thesis using concl opened(10) by blast
  next
    case (applied existing settlement sid snap oid rem status nxt db1)
    then have "P db1" using ev[OF dis[OF start]] ingest_event_Inr by metis
    then show ?thesis using concl applied(11) by blast
  qed
qed

lemma observe_tx_untouched:
  assumes "observe_tx fee ids ob at db = Inr (db', out)"
  shows "untouched_by_disputes db' = untouched_by_disputes db"
  by (rule observe_tx_keeps[OF assms, where P = "\<lambda>x. untouched_by_disputes x = untouched_by_disputes db"])
     (simp_all add: raise_untouched assess_untouched close_untouched reversal_untouched,
      simp_all add: untouched_by_disputes_def)

lemma recordDisputeObservation_Inr:
  "recordDisputeObservation ids ob at db = Inr (db', out) \<longleftrightarrow>
     DisputeObservation ob \<and> observe_tx (resolveActiveChargebackFeePolicy db) ids ob at db = Inr (db', out)"
  by (simp add: recordDisputeObservation_def)

end
