(* ===== verification/Chargeback_Fee_Facts.thy ===== *)
theory Chargeback_Fee_Facts
  imports Chargeback_Fee_Policy
begin

text \<open>
  Histories of the chargeback fee policy: at most one version governs, and what a recorded version
  says is never changed.  An activation may run on a target read before other activations; the
  invariant holds all the same, the permanence of a retirement does not.
\<close>

definition fpv_facts where
  "fpv_facts v = (fpv_key v, fpv_amount v, fpv_currency v, fpv_effectiveFrom v,
     fpv_recordedByAccountId v, fpv_recordedAt v)"

lemma fee_version_standing [simp]:
  "fpv_seq (retire_fee_version actor at v) = fpv_seq v" "fpv_seq (activate_fee_version pid actor at v) = fpv_seq v"
  "fpv_facts (retire_fee_version actor at v) = fpv_facts v"
  "fpv_facts (activate_fee_version pid actor at v) = fpv_facts v"
  by (simp_all add: retire_fee_version_def activate_fee_version_def fpv_facts_def fpv_key_def)

lemma retire_standing_fee_standing: "retire_standing_fee pid actor at vs =
    version_rows.retire_standing fpv_seq fpv_policyId (\<lambda>v. fpv_status v = Policy_ACTIVE) (retire_fee_version actor at) pid vs"
  by (simp add: retire_standing_fee_def fee_rows.retire_standing_def split: option.split)

lemma retire_standing_fee_map [simp]:
  "map fpv_facts (retire_standing_fee pid actor at vs) = map fpv_facts vs"
  "map fpv_seq (retire_standing_fee pid actor at vs) = map fpv_seq vs"
  by (simp_all add: retire_standing_fee_standing fee_rows.map_retire_standing)

text \<open>One write: a draft (perhaps after creating the policy row), or an activation of a target
  that some earlier read returned.\<close>

inductive fee_policy_step :: "'a fee_policy_tables_scheme \<Rightarrow> 'a fee_policy_tables_scheme \<Rightarrow> bool" where
  fee_recorded: "recordChargebackFeePolicyVersion newId i db = (db', r) \<Longrightarrow> fee_policy_step db db'"
| fee_activated: "v \<in> set (feePolicyVersions db) \<Longrightarrow> fpv_seq target = fpv_seq v \<Longrightarrow> fpv_facts target = fpv_facts v \<Longrightarrow>
     fpv_status target = Policy_DRAFT \<Longrightarrow>
     fee_activation_tx target (fpv_policyId target) actor at db = Inr db' \<Longrightarrow> fee_policy_step db db'"

definition fee_inv :: "'a fee_policy_tables_scheme \<Rightarrow> bool" where
  "fee_inv db \<longleftrightarrow> fee_rows.single_active (feePolicyVersions db) \<and> unique_on fpv_key (feePolicyVersions db) \<and>
     (\<forall>n\<in>set (map fpv_seq (feePolicyVersions db)). n < length (feePolicyVersions db))"

definition fresh_drafts where
  "fresh_drafts i vs new \<longleftrightarrow> new = [] \<or>
     (\<exists>pid. new = [fee_draft pid i (length vs)] \<and> (pid, fvi_policyVersion i) \<notin> fpv_key ` set vs)"

lemma record_fee_draft_row:
  assumes "record_fee_draft pid i db = (db', r)"
  shows "\<exists>new. db' = db\<lparr>feePolicyVersions := feePolicyVersions db @ new\<rparr> \<and> fresh_drafts i (feePolicyVersions db) new"
proof (cases "List.find (\<lambda>v. fpv_key v = (pid, fvi_policyVersion i)) (feePolicyVersions db)")
  case None
  then have "(pid, fvi_policyVersion i) \<notin> fpv_key ` set (feePolicyVersions db)" by (auto simp: find_None_iff)
  moreover have "db' = db\<lparr>feePolicyVersions := feePolicyVersions db @ [fee_draft pid i (length (feePolicyVersions db))]\<rparr>"
    using None assms by (simp add: record_fee_draft_def Let_def)
  ultimately show ?thesis unfolding fresh_drafts_def by blast
next
  case (Some v)
  then show ?thesis using assms
    by (intro exI[of _ "[]"]) (auto simp: record_fee_draft_def fresh_drafts_def)
qed

lemma recordChargebackFeePolicyVersion_row:
  assumes "recordChargebackFeePolicyVersion newId i db = (db', r)"
  shows "\<exists>ps new. db' = db\<lparr>feePolicies := ps, feePolicyVersions := feePolicyVersions db @ new\<rparr> \<and>
     fresh_drafts i (feePolicyVersions db) new"
proof (cases "db' = db")
  case True
  then show ?thesis by (intro exI[of _ "feePolicies db"] exI[of _ "[]"]) (simp add: fresh_drafts_def)
next
  case False
  then obtain db1 pid where e: "ensure_fee_policy newId (fvi_label i) db = Inr (db1, pid)"
    and d: "record_fee_draft pid i db1 = (db', r)"
    using assms by (auto simp: recordChargebackFeePolicyVersion_def split: if_split_asm sum.split_asm)
  have "\<exists>ps. db1 = db\<lparr>feePolicies := ps\<rparr>"
    using e by (auto simp: ensure_fee_policy_def split: option.split_asm intro: exI[of _ "feePolicies db"])
  then obtain ps where db1: "db1 = db\<lparr>feePolicies := ps\<rparr>" by blast
  obtain new where "db' = db1\<lparr>feePolicyVersions := feePolicyVersions db1 @ new\<rparr>" "fresh_drafts i (feePolicyVersions db1) new"
    using record_fee_draft_row[OF d] by blast
  then show ?thesis by (intro exI[of _ ps] exI[of _ new]) (simp add: db1)
qed

lemma fee_activation_tx_row:
  assumes "fee_activation_tx target pid actor at db = Inr db'"
  shows "db' = db\<lparr>feePolicyVersions := update_where (\<lambda>v. fpv_seq v = fpv_seq target)
     (activate_fee_version pid actor at) (retire_standing_fee pid actor at (feePolicyVersions db))\<rparr>"
  using assms by (auto simp: fee_activation_tx_def Let_def split: if_split_asm)

lemma fee_step_frame:
  assumes "fee_policy_step db db'"
  shows "\<exists>ps vs. db' = db\<lparr>feePolicies := ps, feePolicyVersions := vs\<rparr>"
  using assms
proof cases
  case fee_recorded
  then show ?thesis using recordChargebackFeePolicyVersion_row by blast
next
  case fee_activated
  from fee_activation_tx_row[OF this(5)] show ?thesis by (intro exI[of _ "feePolicies db"]) auto
qed

lemma map_fee_keys: "map fpv_key vs = map fst (map fpv_facts vs)"
  by (simp add: fpv_facts_def)

lemma fee_policy_step_inv:
  assumes "fee_policy_step db db'" and "fee_inv db"
  shows "fee_inv db' \<and> (\<exists>new. map fpv_facts (feePolicyVersions db') = map fpv_facts (feePolicyVersions db) @ new)"
  using assms
proof (induction rule: fee_policy_step.induct)
  case (fee_recorded newId i db db' r)
  let ?vs = "feePolicyVersions db"
  obtain new where "feePolicyVersions db' = ?vs @ new" "fresh_drafts i ?vs new"
    using recordChargebackFeePolicyVersion_row[OF fee_recorded.hyps] by auto
  then consider "feePolicyVersions db' = ?vs"
    | pid where "feePolicyVersions db' = ?vs @ [fee_draft pid i (length ?vs)]" "(pid, fvi_policyVersion i) \<notin> fpv_key ` set ?vs"
    by (auto simp: fresh_drafts_def)
  then show ?case
  proof cases
    case 1
    then show ?thesis using fee_recorded.prems by (simp add: fee_inv_def)
  next
    case (2 pid)
    have "fee_rows.single_active (?vs @ [fee_draft pid i (length ?vs)])"
      using fee_recorded.prems by (intro fee_rows.single_active_append) (auto simp: fee_inv_def fee_draft_def)
    then show ?thesis using fee_recorded.prems 2(2) unfolding fee_inv_def 2(1)
      by (auto simp: fee_draft_def fpv_key_def less_Suc_eq)
  qed
next
  case (fee_activated v db target actor at db')
  let ?pid = "fpv_policyId target" and ?vs = "feePolicyVersions db"
  have tab: "feePolicyVersions db' = update_where (\<lambda>w. fpv_seq w = fpv_seq target)
      (activate_fee_version ?pid actor at) (retire_standing_fee ?pid actor at ?vs)"
    using fee_activation_tx_row[OF fee_activated.hyps(5)] by simp
  have same: "map (\<lambda>w. (fpv_seq w, fpv_facts w)) (retire_standing_fee ?pid actor at ?vs) =
      map (\<lambda>w. (fpv_seq w, fpv_facts w)) ?vs"
    by (simp add: retire_standing_fee_standing fee_rows.map_retire_standing)
  have "(fpv_seq v, fpv_facts v) \<in> set (map (\<lambda>w. (fpv_seq w, fpv_facts w)) (retire_standing_fee ?pid actor at ?vs))"
    unfolding same using fee_activated.hyps(1) by auto
  then obtain t where t: "t \<in> set (retire_standing_fee ?pid actor at ?vs)" "fpv_seq t = fpv_seq target"
    "fpv_facts t = fpv_facts target"
    using fee_activated.hyps(2,3) by auto
  have "fpv_policyId t = ?pid" using t(3) by (simp add: fpv_facts_def fpv_key_def)
  moreover have "fee_rows.single_active ?vs" using fee_activated.prems by (simp add: fee_inv_def)
  ultimately have "fee_rows.single_active (feePolicyVersions db')"
    unfolding tab using fee_rows.activation_single[of ?vs t actor at] t(1,2)
    by (simp add: retire_standing_fee_standing)
  moreover have facts: "map fpv_facts (feePolicyVersions db') = map fpv_facts ?vs"
    and seqs: "map fpv_seq (feePolicyVersions db') = map fpv_seq ?vs"
    unfolding tab by (simp_all add: map_update_where)
  moreover have "length (feePolicyVersions db') = length ?vs" using arg_cong[OF seqs, of length] by simp
  ultimately show ?case using fee_activated.prems
    unfolding fee_inv_def seqs unique_on_def map_fee_keys facts by simp
qed

lemma fee_policy_steps_inv:
  assumes "fee_policy_step\<^sup>*\<^sup>* db db'" and "fee_inv db"
  shows "fee_inv db' \<and> (\<exists>new. map fpv_facts (feePolicyVersions db') = map fpv_facts (feePolicyVersions db) @ new)"
  using assms
proof (induction rule: rtranclp_induct)
  case base
  then show ?case by simp
next
  case (step y z)
  then show ?case using fee_policy_step_inv[OF step(2)] by force
qed

text \<open>The operation is one step, or none when the version is in force already.\<close>

lemma activateChargebackFeePolicyVersion_step:
  assumes "activateChargebackFeePolicyVersion ver actor at db = Inr (db', r)"
  shows "fee_policy_step\<^sup>*\<^sup>* db db'"
proof -
  obtain p t where p: "find_fee_policy db = Some p"
    and t: "List.find (\<lambda>v. fpv_key v = (fp_id p, ver)) (feePolicyVersions db) = Some t"
    using assms by (auto simp: activateChargebackFeePolicyVersion_def chain_Inr_iff split: option.split_asm)
  show ?thesis
  proof (cases "db' = db")
    case True
    then show ?thesis by simp
  next
    case False
    then have "fpv_status t = Policy_DRAFT" "fee_activation_tx t (fp_id p) actor at db = Inr db'"
      using assms p t by (cases "fpv_status t"; auto simp: activateChargebackFeePolicyVersion_def chain_Inr_iff)+
    moreover have "t \<in> set (feePolicyVersions db)" "fpv_policyId t = fp_id p"
      using find_Some_set[OF t] by (simp_all add: fpv_key_def)
    ultimately show ?thesis using fee_activated[of t db t actor at db'] by (simp add: r_into_rtranclp)
  qed
qed

text \<open>The version in force is the one every row with that key describes.\<close>

lemma resolved_fee_recorded:
  assumes "resolveActiveChargebackFeePolicy db = Some fee"
  shows "\<exists>v\<in>set (feePolicyVersions db). fpv_status v = Policy_ACTIVE \<and> fpv_key v = (af_policyId fee, af_policyVersion fee) \<and>
     fpv_amount v = af_amount fee \<and> fpv_currency v = af_currency fee"
  using assms
  by (auto simp: resolveActiveChargebackFeePolicy_def fpv_key_def dest!: find_Some_set split: option.split_asm)

text \<open>An activation finds the row by its surrogate key, whatever has happened to it since it was read.\<close>

lemma stale_activation_revives:
  assumes inv: "fee_inv db" and t: "t \<in> set (feePolicyVersions db)" "fpv_status t = Policy_RETIRED"
    and target: "fpv_seq target = fpv_seq t" and ok: "fee_activation_tx target pid actor at db = Inr db'"
  shows "activate_fee_version pid actor at t \<in> set (feePolicyVersions db')"
proof -
  have "v = t" if "v \<in> set (feePolicyVersions db)" "fpv_seq v = fpv_seq t" for v
    using inv that t(1) unique_on_eq[of fpv_seq] by (auto simp: fee_inv_def fee_rows.single_active_def)
  then have "t \<in> set (retire_standing_fee pid actor at (feePolicyVersions db))"
    using t by (auto simp: retire_standing_fee_def set_update_where image_iff dest!: find_Some_set split: option.split)
  then show ?thesis using target by (force simp: fee_activation_tx_row[OF ok] set_update_where)
qed

end
