(* ===== verification/Refund_History.thy ===== *)
theory Refund_History
  imports Refund_Request Dispute_Facts Chargeback_Fee_Facts
begin

text \<open>
  Histories of the refund, tax-reversal and dispute services, with fee-policy changes and reversals by
  another route between their steps.  The invariant says that every refunded Order is backed by its own reversal entry, that
  every tax reversal belongs to a completed refund, and that each stored row agrees with its
  status; each operation preserves it.
\<close>

section \<open>Rows and what backs them\<close>

definition backed :: "transaction_reversal list \<Rightarrow> refund_row \<Rightarrow> bool" where
  "backed revs r \<longleftrightarrow> (\<exists>rev\<in>set revs. rf_reversalId r = Some (trv_id rev) \<and>
     trv_snapshotId rev = rf_snapshotId r \<and> trv_kind rev = Kind_REFUND \<and>
     trv_providerReversalRef rev = rf_providerRefundRef r \<and>
     trv_reasonCode rev = reversalReasonForRefund (rf_reasonCode r))"

lemma backed_mono: "backed revs r \<Longrightarrow> set revs \<subseteq> set revs' \<Longrightarrow> backed revs' r"
  by (auto simp: backed_def)

definition refund_rows_inv :: "transaction_reversal list \<Rightarrow> refund_row list \<Rightarrow> bool" where
  "refund_rows_inv revs rs \<longleftrightarrow> unique_on rf_id rs \<and> unique_on rf_orderId rs \<and> unique_on rf_snapshotId rs \<and>
     (\<forall>r\<in>set rs. refund_row_ok r \<and> (rf_status r = REFUNDED \<longrightarrow> backed revs r))"

definition tax_rows_inv :: "refund_row list \<Rightarrow> tax_reversal_row list \<Rightarrow> bool" where
  "tax_rows_inv rs ts \<longleftrightarrow> unique_on tv_id ts \<and> unique_on tv_orderId ts \<and> unique_on tv_refundId ts \<and>
     (\<forall>t\<in>set ts. tax_row_ok t \<and>
        (\<exists>r\<in>set rs. rf_id r = tv_refundId t \<and> rf_orderId r = tv_orderId t \<and> rf_status r = REFUNDED))"

definition refund_inv :: "'a market_tables_scheme \<Rightarrow> bool" where
  "refund_inv db \<longleftrightarrow> reversal_inv db \<and> refund_rows_inv (reversals db) (refunds db) \<and>
     tax_rows_inv (refunds db) (taxReversals db) \<and> unique_on exception_key (recoveries db)"

definition backed_step :: "transaction_reversal list \<Rightarrow> refund_row \<Rightarrow> refund_row \<Rightarrow> bool" where
  "backed_step revs r r' \<longleftrightarrow> refund_row_step r r' \<and> (rf_status r' = REFUNDED \<longrightarrow> backed revs r')"

lemma quiet_backed: "quiet_step r r' \<Longrightarrow> backed_step revs r r'"
  by (simp add: quiet_step_def backed_step_def)

lemma moved_by_mono: "moved_by R xs ys \<Longrightarrow> (\<And>x y. R x y \<Longrightarrow> S x y) \<Longrightarrow> moved_by S xs ys"
  unfolding moved_by_def by (erule list_all2_mono) auto

lemma moved_keys:
  assumes "moved_by (backed_step revs) rs rs'"
  shows "map rf_id rs' = map rf_id rs" "map rf_orderId rs' = map rf_orderId rs"
    "map rf_snapshotId rs' = map rf_snapshotId rs"
  by (auto intro!: moved_by_map[OF assms] simp: backed_step_def
      immutable_fields_simps[OF refund_step_immutable])

lemma refund_rows_moved:
  assumes inv: "refund_rows_inv revs rs" and mv: "moved_by (backed_step revs') rs rs'"
    and sub: "set revs \<subseteq> set revs'"
  shows "refund_rows_inv revs' rs'"
proof -
  have "refund_row_ok y \<and> (rf_status y = REFUNDED \<longrightarrow> backed revs' y)" if "y \<in> set rs'" for y
  proof -
    obtain x where "x \<in> set rs" "y = x \<or> backed_step revs' x y" using moved_by_mem[OF mv \<open>y \<in> set rs'\<close>] by blast
    then show ?thesis using inv refund_step_ok backed_mono[OF _ sub]
      by (auto simp: refund_rows_inv_def backed_step_def)
  qed
  then show ?thesis using inv moved_keys[OF mv] by (simp add: refund_rows_inv_def unique_on_def)
qed

lemma refund_rows_append:
  assumes "refund_rows_inv revs rs" and "refund_row_ok r" and "rf_status r \<noteq> REFUNDED"
    and "\<forall>x\<in>set rs. rf_id x \<noteq> rf_id r \<and> rf_orderId x \<noteq> rf_orderId r \<and> rf_snapshotId x \<noteq> rf_snapshotId r"
  shows "refund_rows_inv revs (rs @ [r])"
  using assms by (auto simp: refund_rows_inv_def)

text \<open>A completed refund is not moved, so the tax reversals that rest on it keep it.\<close>

lemma tax_rows_refunds_moved:
  assumes "tax_rows_inv rs ts" and "refund_rows_inv revs rs" and mv: "moved_by (backed_step revs') rs rs'"
    and "set rs' \<subseteq> set rs''"
  shows "tax_rows_inv rs'' ts"
proof -
  have keep: "r \<in> set rs''" if "r \<in> set rs" "rf_status r = REFUNDED" for r
  proof -
    obtain y where y: "y \<in> set rs'" "y = r \<or> backed_step revs' r y"
      using moved_by_mem_old[OF mv \<open>r \<in> set rs\<close>] by blast
    moreover have "\<not> refund_row_step r y"
      using assms(2) that by (intro refund_step_terminal) (auto simp: refund_rows_inv_def TERMINAL_REFUND_STATUSES_def)
    ultimately show ?thesis using assms(4) by (auto simp: backed_step_def)
  qed
  then show ?thesis using assms(1) unfolding tax_rows_inv_def by blast
qed

lemma tax_rows_moved:
  assumes inv: "tax_rows_inv rs ts" and mv: "moved_by tax_row_step ts ts'"
  shows "tax_rows_inv rs ts'"
proof -
  have keys: "map tv_id ts' = map tv_id ts" "map tv_orderId ts' = map tv_orderId ts"
    "map tv_refundId ts' = map tv_refundId ts"
    by (auto intro!: moved_by_map[OF mv] dest!: tax_step_immutable simp: immutable_tax_reversal_fields_def)
  have "tax_row_ok y \<and> (\<exists>r\<in>set rs. rf_id r = tv_refundId y \<and> rf_orderId r = tv_orderId y \<and> rf_status r = REFUNDED)"
    if "y \<in> set ts'" for y
  proof -
    obtain x where x: "x \<in> set ts" "y = x \<or> tax_row_step x y" using moved_by_mem[OF mv \<open>y \<in> set ts'\<close>] by blast
    then have "tv_refundId y = tv_refundId x" "tv_orderId y = tv_orderId x"
      using tax_step_immutable[of x y] by (auto simp: immutable_tax_reversal_fields_def)
    then show ?thesis using x inv tax_step_ok by (auto simp: tax_rows_inv_def)
  qed
  then show ?thesis using inv keys by (simp add: tax_rows_inv_def unique_on_def)
qed

lemma reversal_inv_frame [simp]:
  "reversal_inv (db\<lparr>refunds := x\<rparr>) = reversal_inv db"
  "reversal_inv (db\<lparr>taxReversals := y\<rparr>) = reversal_inv db"
  "reversal_inv (db\<lparr>taxTransactions := z\<rparr>) = reversal_inv db"
  "reversal_inv (db\<lparr>refundLines := l\<rparr>) = reversal_inv db"
  "reversal_inv (db\<lparr>recoveries := w\<rparr>) = reversal_inv db"
  "reversal_inv (db\<lparr>disputes := ds\<rparr>) = reversal_inv db"
  "reversal_inv (db\<lparr>disputeEvents := es\<rparr>) = reversal_inv db"
  "reversal_inv (db\<lparr>chargebackFees := fs\<rparr>) = reversal_inv db"
  "reversal_inv (db\<lparr>feePolicies := ps\<rparr>) = reversal_inv db"
  "reversal_inv (db\<lparr>feePolicyVersions := vs\<rparr>) = reversal_inv db"
  by (simp_all add: reversal_inv_def reversal_linked_def find_snapshot_def find_settlement_def)

section \<open>The operations\<close>

lemma quiet_refunds_inv:
  assumes inv: "refund_inv db" and mv: "moved_by quiet_step (refunds db) rs"
  shows "refund_inv (db\<lparr>refunds := rs\<rparr>)"
proof -
  have mb: "moved_by (backed_step (reversals db)) (refunds db) rs"
    using mv by (rule moved_by_mono) (rule quiet_backed)
  have inv': "refund_rows_inv (reversals db) (refunds db)" "tax_rows_inv (refunds db) (taxReversals db)"
    using inv by (simp_all add: refund_inv_def)
  show ?thesis
    using inv refund_rows_moved[OF inv'(1) mb subset_refl] tax_rows_refunds_moved[OF inv'(2,1) mb subset_refl]
    by (simp add: refund_inv_def)
qed

lemma requestOrderRefund_inv:
  assumes inv: "refund_inv db" and ok: "requestOrderRefund h rid q db = Inr (db', rec)"
  shows "refund_inv db'"
proof -
  let ?r = "rec_row rec"
  obtain lines where r: "refund_row_ok ?r" "rf_status ?r = Refund_PENDING" "\<not> refund_conflict db ?r"
    and db': "db' = db\<lparr>refunds := refunds db @ [?r], refundLines := refundLines db @ lines\<rparr>"
    using requestOrderRefund_row[OF ok] by blast
  have inv': "refund_rows_inv (reversals db) (refunds db)" "tax_rows_inv (refunds db) (taxReversals db)"
    using inv by (simp_all add: refund_inv_def)
  have "\<forall>x\<in>set (refunds db). rf_id x \<noteq> rf_id ?r \<and> rf_orderId x \<noteq> rf_orderId ?r \<and>
      rf_snapshotId x \<noteq> rf_snapshotId ?r"
    using r(3) by (simp add: refund_conflict_def list_ex_iff)
  then have rows: "refund_rows_inv (reversals db) (refunds db @ [?r])"
    using inv'(1) r(1,2) by (intro refund_rows_append) simp_all
  have "tax_rows_inv (refunds db @ [?r]) (taxReversals db)"
    by (rule tax_rows_refunds_moved[OF inv'(2,1) moved_by_refl]) auto
  then show ?thesis using inv rows by (simp add: refund_inv_def db')
qed

lemma recordFullReversal_refund_inv:
  assumes inv: "refund_inv db" and ok: "recordFullReversalInTx rid i db = Inr (db', r)"
  shows "refund_inv db'"
proof -
  have sub: "set (reversals db) \<subseteq> set (reversals db')"
    and same: "refunds db' = refunds db" "taxReversals db' = taxReversals db" "recoveries db' = recoveries db"
    using recordFullReversalInTx_row[OF ok] by auto
  have "refund_rows_inv (reversals db) (refunds db)" using inv by (simp add: refund_inv_def)
  then have "refund_rows_inv (reversals db') (refunds db)"
    by (rule refund_rows_moved[OF _ moved_by_refl sub])
  then show ?thesis using inv recordFullReversal_inv[OF _ ok] by (simp add: refund_inv_def same)
qed

lemma refund_inv_refund:
  assumes "refund_inv db" and "find_refund db k = Some e"
  shows "e \<in> set (refunds db)" "rf_id e = k" "unique_on rf_id (refunds db)" "refund_row_ok e"
    "\<And>x. x \<in> set (refunds db) \<Longrightarrow> rf_id x = rf_id e \<Longrightarrow> x = e"
proof -
  show m: "e \<in> set (refunds db)" "rf_id e = k" using find_refund_mem[OF assms(2)] by simp_all
  show u: "unique_on rf_id (refunds db)" and "refund_row_ok e"
    using assms(1) m by (simp_all add: refund_inv_def refund_rows_inv_def)
  show "x = e" if "x \<in> set (refunds db)" "rf_id x = rf_id e" for x
    by (rule unique_on_eq[OF u that(1) m(1) that(2)])
qed

lemma failRefundAttempt_inv:
  assumes inv: "refund_inv db" and e: "find_refund db k = Some e" "rf_lockToken e = Some token"
    and res: "failRefundAttempt e code at db = (db', r)"
  shows "refund_inv db'"
proof -
  have "moved_by quiet_step (refunds db) (refunds db') \<and> db' = db\<lparr>refunds := refunds db'\<rparr>"
    using failRefundAttempt_moves[OF refund_inv_refund(3,1)[OF inv e(1)] e(2) res] by blast
  then show ?thesis using quiet_refunds_inv[OF inv] by metis
qed

lemma tax_rows_append:
  assumes "tax_rows_inv rs ts" and "tax_row_ok t"
    and "\<forall>x\<in>set ts. tv_id x \<noteq> tv_id t \<and> tv_orderId x \<noteq> tv_orderId t \<and> tv_refundId x \<noteq> tv_refundId t"
    and "r \<in> set rs" "rf_id r = tv_refundId t" "rf_orderId r = tv_orderId t" "rf_status r = REFUNDED"
  shows "tax_rows_inv rs (ts @ [t])"
  using assms unfolding tax_rows_inv_def by auto

lemma tax_obligation_ok: "tax_row_ok (tax_obligation i oid rid at t ref)"
  by (simp add: tax_row_ok_def tax_obligation_def tax_maxAttempts_def)


text \<open>Completing the refund \<open>e\<close>: its row moves with the new reversal behind it, and the tax reversal
  the completion commits rests on the completed row.\<close>

lemma finalizeRefundInTx_inv:
  assumes inv: "refund_inv db" and e: "find_refund db k = Some e" "rf_lockToken e = Some token"
    and ref: "ref \<noteq> rf_providerTransactionRef e"
    and ok: "finalizeRefundInTx ids e ref createdAt at db = Inr (db', v)"
  shows "refund_inv db'"
proof -
  note row = refund_inv_refund[OF inv e(1)]
  have inv': "refund_rows_inv (reversals db) (refunds db)" "tax_rows_inv (refunds db) (taxReversals db)"
    "unique_on exception_key (recoveries db)"
    using inv by (simp_all add: refund_inv_def)
  obtain db1 rev taxes xs where
    rv: "recordFullReversalInTx (ids_reversal ids) (refund_reversal_input e ref createdAt at) db = Inr (db1, rev)" and
    taxes: "taxes = (case recorded_tax db (rf_orderId e) of None \<Rightarrow> []
       | Some (t, tref) \<Rightarrow> [tax_obligation (ids_taxReversal ids) (rf_orderId e) (rf_id e) at t tref])" and
    fresh: "\<forall>y\<in>set taxes. \<forall>x\<in>set (taxReversals db). tv_id x \<noteq> tv_id y \<and> tv_orderId x \<noteq> tv_orderId y \<and>
       tv_refundId x \<noteq> tv_refundId y" and
    ex: "unique_on exception_key (recoveries db) \<longrightarrow> unique_on exception_key (recoveries db @ xs)" and
    db': "db' = db1\<lparr>refunds := update_where (\<lambda>r. rf_id r = rf_id e)
         (complete_refund_row e ref createdAt at (trv_id rev)) (refunds db),
       taxReversals := taxReversals db @ taxes, recoveries := recoveries db @ xs\<rparr>"
    using finalizeRefundInTx_rows[OF ok] by blast
  let ?c = "complete_refund_row e ref createdAt at (trv_id rev) e"
  let ?rs = "update_where (\<lambda>r. rf_id r = rf_id e) (complete_refund_row e ref createdAt at (trv_id rev)) (refunds db)"
  have rev: "rev \<in> set (reversals db1)" "set (reversals db) \<subseteq> set (reversals db1)"
    "trv_snapshotId rev = rf_snapshotId e" "trv_kind rev = Kind_REFUND" "trv_providerReversalRef rev = Some ref"
    "trv_reasonCode rev = reversalReasonForRefund (rf_reasonCode e)"
    using recordFullReversalInTx_row[OF rv] by (auto simp: reversal_row_of_def refund_reversal_input_def)
  have step: "backed_step (reversals db1) e ?c"
    using rev refund_row_step.completed[OF e(2) ref] by (auto simp: backed_step_def backed_def complete_refund_row_def)
  then have mv: "moved_by (backed_step (reversals db1)) (refunds db) ?rs"
    using row(5) by (intro moved_by_update) blast
  have c: "?c \<in> set ?rs" "rf_id ?c = rf_id e" "rf_orderId ?c = rf_orderId e" "rf_status ?c = REFUNDED"
    using row(1) by (auto simp: set_update_where complete_refund_row_def)
  have rows: "refund_rows_inv (reversals db1) ?rs" by (rule refund_rows_moved[OF inv'(1) mv rev(2)])
  have old: "tax_rows_inv ?rs (taxReversals db)" by (rule tax_rows_refunds_moved[OF inv'(2,1) mv subset_refl])
  have "tax_rows_inv ?rs (taxReversals db @ taxes)"
  proof (cases "recorded_tax db (rf_orderId e)")
    case None
    then show ?thesis using old by (simp add: taxes)
  next
    case (Some p)
    obtain t tref where p: "p = (t, tref)" by (cases p)
    let ?t = "tax_obligation (ids_taxReversal ids) (rf_orderId e) (rf_id e) at t tref"
    have ts: "taxes = [?t]" by (simp add: taxes Some p)
    have keys: "tv_refundId ?t = rf_id e" "tv_orderId ?t = rf_orderId e" by (simp_all add: tax_obligation_def)
    have "tax_rows_inv ?rs (taxReversals db @ [?t])"
      by (rule tax_rows_append[OF old tax_obligation_ok _ c(1)]) (use fresh ts keys c in simp_all)
    then show ?thesis by (simp add: ts)
  qed
  then show ?thesis
    using inv rows ex recordFullReversal_inv[OF _ rv] inv'(3) by (simp add: refund_inv_def db')
qed

lemma resolveRefundAttempt_inv:
  assumes inv: "refund_inv db" and res: "resolveRefundAttempt ids rid token result at db = (db', r)"
  shows "refund_inv db'"
  using res
proof (cases rule: resolveRefundAttempt_cases)
  case nothing
  then show ?thesis using inv by simp
next
  case failed
  then show ?thesis using failRefundAttempt_inv[OF inv] by blast
next
  case completed
  then show ?thesis using finalizeRefundInTx_inv[OF inv] by blast
qed

lemma claimDueRefunds_inv:
  "refund_inv db \<Longrightarrow> claimDueRefunds token now limit db = (db', r) \<Longrightarrow> refund_inv db'"
  by (metis claimDueRefunds_moves quiet_refunds_inv)

lemma recoverStaleRefundClaims_inv:
  "refund_inv db \<Longrightarrow> recoverStaleRefundClaims now db = (db', n) \<Longrightarrow> refund_inv db'"
  by (metis recoverStaleRefundClaims_moves quiet_refunds_inv)

section \<open>The tax reversals\<close>

lemma moved_taxes_inv:
  assumes inv: "refund_inv db" and mv: "moved_by tax_row_step (taxReversals db) ts"
  shows "refund_inv (db\<lparr>taxReversals := ts\<rparr>)" "refund_inv (db\<lparr>taxReversals := ts, taxTransactions := tt\<rparr>)"
  using inv tax_rows_moved[OF _ mv] by (simp_all add: refund_inv_def)

lemma claimDueTaxReversals_moves:
  assumes "claimDueTaxReversals token now limit db = (db', r)"
  shows "moved_by tax_row_step (taxReversals db) (taxReversals db') \<and>
     db' = db\<lparr>taxReversals := taxReversals db'\<rparr>"
  using assms
  by (auto simp: claimDueTaxReversals_def Let_def claim_stamp_def split: if_split_asm
      intro!: moved_by_update tax_row_step.tax_claimed)

lemma recoverStaleTaxReversalClaims_moves:
  assumes "recoverStaleTaxReversalClaims now db = (db', n)"
  shows "moved_by tax_row_step (taxReversals db) (taxReversals db') \<and>
     db' = db\<lparr>taxReversals := taxReversals db'\<rparr>"
  using assms
  by (auto simp: recoverStaleTaxReversalClaims_def release_stale_def
      intro!: moved_by_update tax_row_step.tax_released)


text \<open>One resolution: nothing, a failure on the row it holds, or a completion that also marks the
  original tax transaction.\<close>

lemma resolveTaxReversalAttempt_cases:
  assumes "resolveTaxReversalAttempt tid token result at db = (db', r)"
  obtains (nothing) "db' = db"
  | (failed) e code where "find_tax_reversal db tid = Some e" "tv_lockToken e = Some token"
      "db' = db\<lparr>taxReversals := update_where (\<lambda>x. tv_id x = tv_id e) (fail_tax_reversal_row e code at) (taxReversals db)\<rparr>"
  | (completed) e ref createdAt where "find_tax_reversal db tid = Some e" "tv_lockToken e = Some token"
      "result = TaxAttempt_REVERSED ref createdAt" "ref \<noteq> tv_originalProviderTaxTransactionRef e"
      "db' = markTaxTransactionReversedInTx (tv_taxTransactionId e) (db\<lparr>taxReversals :=
         update_where (\<lambda>x. tv_id x = tv_id e) (complete_tax_reversal_row e ref createdAt at) (taxReversals db)\<rparr>)"
proof (cases "find_tax_reversal db tid")
  case None
  then have "db' = db" using assms by (simp add: resolveTaxReversalAttempt_def)
  then show ?thesis by (rule nothing)
next
  case (Some e)
  show ?thesis
  proof (cases "tv_lockToken e = Some token")
    case False
    then have "db' = db" using assms Some by (simp add: resolveTaxReversalAttempt_def)
    then show ?thesis by (rule nothing)
  next
    case True
    have rr: "resolve_tax_read e result at db = (db', r)"
      using assms Some True by (simp add: resolveTaxReversalAttempt_def)
    show ?thesis
    proof (cases result)
      case (TaxAttempt_FAILED code)
      then show ?thesis using rr failed[OF Some True]
        by (auto simp: resolve_tax_read_def failTaxReversalAttempt_def Let_def)
    next
      case (TaxAttempt_REVERSED ref createdAt)
      let ?c = "e\<lparr>tv_status := Tax_REVERSED, tv_providerReversalRef := Some ref,
         tv_providerReversalCreatedAt := Some createdAt\<rparr>"
      consider (corrupt) "db' = db"
        | (incoherent) "db' = fst (failTaxReversalAttempt e TX_EVIDENCE_INCONSISTENT at db)"
        | (finished) row where "taxReversalIsCoherent ?c" "finalizeTaxReversalInTx e ref createdAt at db = Inr (db', row)"
        using rr TaxAttempt_REVERSED
        by (auto simp: resolve_tax_read_def Let_def split: sum.split_asm if_split_asm prod.split_asm)
      then show ?thesis
      proof cases
        case corrupt
        then show ?thesis by (rule nothing)
      next
        case incoherent
        then show ?thesis using failed[OF Some True] by (simp add: failTaxReversalAttempt_def Let_def)
      next
        case finished
        then have "ref \<noteq> tv_originalProviderTaxTransactionRef e" by (simp add: taxReversalIsCoherent_def)
        then show ?thesis using completed[OF Some True TaxAttempt_REVERSED] finished(2)
          by (auto simp: finalizeTaxReversalInTx_def Let_def chain_Inr_iff split: if_split_asm)
      qed
    qed
  qed
qed

lemma find_tax_reversal_mem:
  "find_tax_reversal db k = Some r \<Longrightarrow> r \<in> set (taxReversals db) \<and> tv_id r = k"
  by (auto simp: find_tax_reversal_def find_Some_iff)

lemma held_tax_row_moves:
  assumes inv: "refund_inv db" and e: "find_tax_reversal db k = Some e"
    and step: "tax_row_step e (f e)"
  shows "moved_by tax_row_step (taxReversals db) (update_where (\<lambda>x. tv_id x = tv_id e) f (taxReversals db))"
proof (rule moved_by_update)
  fix x assume "x \<in> set (taxReversals db)" "tv_id x = tv_id e"
  then have "x = e" using inv find_tax_reversal_mem[OF e] unique_on_eq[of tv_id "taxReversals db"]
    by (auto simp: refund_inv_def tax_rows_inv_def)
  then show "tax_row_step x (f x)" using step by simp
qed

lemma resolveTaxReversalAttempt_inv:
  assumes inv: "refund_inv db" and res: "resolveTaxReversalAttempt tid token result at db = (db', r)"
  shows "refund_inv db'"
  using res
proof (cases rule: resolveTaxReversalAttempt_cases)
  case nothing
  then show ?thesis using inv by simp
next
  case (failed e code)
  have "moved_by tax_row_step (taxReversals db) (update_where (\<lambda>x. tv_id x = tv_id e)
      (fail_tax_reversal_row e code at) (taxReversals db))"
    by (rule held_tax_row_moves[OF inv failed(1)], rule tax_row_step.tax_failed[OF failed(2)])
  then show ?thesis using moved_taxes_inv(1)[OF inv] failed(3) by simp
next
  case (completed e ref createdAt)
  have "moved_by tax_row_step (taxReversals db) (update_where (\<lambda>x. tv_id x = tv_id e)
      (complete_tax_reversal_row e ref createdAt at) (taxReversals db))"
    by (rule held_tax_row_moves[OF inv completed(1)], rule tax_row_step.tax_completed[OF completed(2,4)])
  then show ?thesis unfolding completed(5) markTaxTransactionReversedInTx_def
    using moved_taxes_inv(2)[OF inv] by simp
qed

lemma claimDueTaxReversals_inv:
  "refund_inv db \<Longrightarrow> claimDueTaxReversals token now limit db = (db', r) \<Longrightarrow> refund_inv db'"
  by (metis claimDueTaxReversals_moves moved_taxes_inv(1))

lemma recoverStaleTaxReversalClaims_inv:
  "refund_inv db \<Longrightarrow> recoverStaleTaxReversalClaims now db = (db', n) \<Longrightarrow> refund_inv db'"
  by (metis recoverStaleTaxReversalClaims_moves moved_taxes_inv(1))

section \<open>The disputes\<close>

lemma refund_inv_frame [simp]:
  "refund_inv (db\<lparr>disputes := ds\<rparr>) = refund_inv db"
  "refund_inv (db\<lparr>disputeEvents := es\<rparr>) = refund_inv db"
  "refund_inv (db\<lparr>chargebackFees := fs\<rparr>) = refund_inv db"
  "refund_inv (db\<lparr>feePolicies := ps\<rparr>) = refund_inv db"
  "refund_inv (db\<lparr>feePolicyVersions := vs\<rparr>) = refund_inv db"
  by (simp_all add: refund_inv_def)

lemma refund_inv_recoveries:
  "refund_inv db \<Longrightarrow> unique_on exception_key rs \<Longrightarrow> refund_inv (db\<lparr>recoveries := rs\<rparr>)"
  by (simp add: refund_inv_def)

lemma raiseDispute_refund_inv:
  assumes inv: "refund_inv db" and ok: "raiseDisputeRecoveryExceptionsInTx d oid sid at ids db = (db', raised)"
  shows "refund_inv db'"
proof -
  let ?mk = "\<lambda>i b w. dispute_exception i d oid sid at b w"
  obtain rs where r: "raise_skipping ?mk ids (filter (\<lambda>b. pob_snapshotId b = sid) (obligations db)) 0 (recoveries db) = (rs, raised)"
    and db': "db' = db\<lparr>recoveries := rs\<rparr>"
    using ok by (auto simp: raiseDisputeRecoveryExceptionsInTx_def split: prod.split_asm)
  have "unique_on exception_key (recoveries db)" using inv by (simp add: refund_inv_def)
  then have "unique_on exception_key rs" using raise_skipping_rows[OF r] by (auto simp: dispute_exception_def)
  then show ?thesis unfolding db' by (rule refund_inv_recoveries[OF inv])
qed

lemma closeDispute_refund_inv:
  assumes inv: "refund_inv db" and ok: "closeDisputeRecoveryExceptionsInTx d at db = (db', closed)"
  shows "refund_inv db'"
proof -
  have "unique_on exception_key (update_where (dispute_exception_open d) (close_exception at) (recoveries db))"
    using inv by (intro unique_on_update_where) (simp_all add: refund_inv_def exception_key_def close_exception_def)
  then show ?thesis using refund_inv_recoveries[OF inv] ok by (auto simp: closeDisputeRecoveryExceptionsInTx_def)
qed

lemma assessFee_refund_inv:
  assumes "refund_inv db" and "assessSellerChargebackFeeInTx d oid at i fee db = (db', f)"
  shows "refund_inv db'"
  using assms by (auto simp: assessSellerChargebackFeeInTx_def split: option.split_asm if_split_asm)

lemma observe_tx_refund_inv:
  assumes inv: "refund_inv db" and ok: "observe_tx fee ids ob at db = Inr (db', out)"
  shows "refund_inv db'"
  using ok inv
  by (rule observe_tx_keeps[where P = refund_inv]) (simp, simp, fact raiseDispute_refund_inv,
    fact assessFee_refund_inv, fact recordFullReversal_refund_inv, fact closeDispute_refund_inv)

section \<open>Histories\<close>

text \<open>One committed step: a request, a worker's claim, recovery or resolution on either queue, a
  dispute observation under whatever fee policy was read before it, a change of the fee policy, or a
  full reversal recorded for another reason.\<close>

inductive market_step :: "content_hash \<Rightarrow> market_tables \<Rightarrow> market_tables \<Rightarrow> bool" for h where
  requested: "requestOrderRefund h rid q db = Inr (db', rec) \<Longrightarrow> market_step h db db'"
| refunds_claimed: "claimDueRefunds token now limit db = (db', r) \<Longrightarrow> market_step h db db'"
| refunds_recovered: "recoverStaleRefundClaims now db = (db', n) \<Longrightarrow> market_step h db db'"
| refund_resolved: "resolveRefundAttempt ids rid token result at db = (db', v) \<Longrightarrow> market_step h db db'"
| taxes_claimed: "claimDueTaxReversals token now limit db = (db', c) \<Longrightarrow> market_step h db db'"
| taxes_recovered: "recoverStaleTaxReversalClaims now db = (db', n) \<Longrightarrow> market_step h db db'"
| tax_resolved: "resolveTaxReversalAttempt tid token tresult at db = (db', tv) \<Longrightarrow> market_step h db db'"
| dispute_observed: "DisputeObservation ob \<Longrightarrow> source_ref (dsi_reversal dids) \<Longrightarrow>
     observe_tx fee dids ob at db = Inr (db', out) \<Longrightarrow> market_step h db db'"
| fee_changed: "fee_policy_step db db' \<Longrightarrow> market_step h db db'"
| reversed_otherwise: "recordFullReversal revid i db = Inr (db', revrow) \<Longrightarrow> market_step h db db'"

lemma market_step_inv:
  assumes "market_step h db db'" and inv: "refund_inv db"
  shows "refund_inv db'"
  using assms(1)
proof cases
  case reversed_otherwise
  then show ?thesis using recordFullReversal_refund_inv[OF inv] by simp
next
  case dispute_observed
  then show ?thesis using observe_tx_refund_inv[OF inv] by blast
next
  case fee_changed
  then show ?thesis using inv fee_step_frame by fastforce
qed (rule requestOrderRefund_inv[OF inv] claimDueRefunds_inv[OF inv] recoverStaleRefundClaims_inv[OF inv]
      resolveRefundAttempt_inv[OF inv] claimDueTaxReversals_inv[OF inv]
      recoverStaleTaxReversalClaims_inv[OF inv] resolveTaxReversalAttempt_inv[OF inv], assumption)+

lemma market_steps_inv:
  assumes "(market_step h)\<^sup>*\<^sup>* db db'" and "refund_inv db"
  shows "refund_inv db'"
  using assms by (induction rule: rtranclp_induct) (auto intro: market_step_inv)

end
