(* ===== verification/Refund_Refinement.thy ===== *)
theory Refund_Refinement
  imports Refund_History
begin

text \<open>
  The service operations implement the row machines of \<open>Refund_Machine\<close>: in any history every refund
  row moves along \<open>refund_row_step\<close> and every tax reversal along \<open>tax_row_step\<close>, and rows are only
  ever added in their initial state.
\<close>

definition refunds_follow :: "refund_row list \<Rightarrow> refund_row list \<Rightarrow> bool" where
  "refunds_follow rs rs' \<longleftrightarrow> (\<exists>ms new. rs' = ms @ new \<and> moved_by refund_row_step rs ms \<and>
     (\<forall>r\<in>set new. rf_status r = Refund_PENDING \<and> rf_attemptCount r = 0))"

lemma refunds_follow_refl [simp]: "refunds_follow rs rs"
  unfolding refunds_follow_def by (intro exI[of _ rs] exI[of _ "[]"]) simp

lemma refunds_follow_moved: "moved_by refund_row_step rs rs' \<Longrightarrow> refunds_follow rs rs'"
  unfolding refunds_follow_def by (intro exI[of _ rs'] exI[of _ "[]"]) simp

lemma refunds_follow_mem:
  assumes "refunds_follow rs rs'" and "r \<in> set rs"
  shows "\<exists>r'\<in>set rs'. r' = r \<or> refund_row_step r r'"
proof -
  obtain ms new where "rs' = ms @ new" and m: "moved_by refund_row_step rs ms"
    using assms(1) by (auto simp: refunds_follow_def)
  then show ?thesis using moved_by_mem_old[OF m assms(2)] by auto
qed

lemma quiet_follow: "moved_by quiet_step rs rs' \<Longrightarrow> refunds_follow rs rs'"
  by (rule refunds_follow_moved, erule moved_by_mono) (simp add: quiet_step_def)

lemma finalizeRefundInTx_follow:
  assumes inv: "refund_inv db" and e: "find_refund db k = Some e" "rf_lockToken e = Some token"
    and ref: "ref \<noteq> rf_providerTransactionRef e"
    and ok: "finalizeRefundInTx ids e ref createdAt at db = Inr (db', v)"
  shows "refunds_follow (refunds db) (refunds db')"
proof -
  obtain db1 and rev :: transaction_reversal and taxes xs where "db' = db1\<lparr>refunds := update_where (\<lambda>r. rf_id r = rf_id e)
      (complete_refund_row e ref createdAt at (trv_id rev)) (refunds db),
      taxReversals := taxReversals db @ taxes, recoveries := recoveries db @ xs\<rparr>"
    using finalizeRefundInTx_rows[OF ok] by blast
  then have "refunds db' = update_where (\<lambda>r. rf_id r = rf_id e)
      (complete_refund_row e ref createdAt at (trv_id rev)) (refunds db)" by simp
  moreover have "x = e" if "x \<in> set (refunds db)" "rf_id x = rf_id e" for x
    by (rule refund_inv_refund(5)[OF inv e(1) that])
  ultimately show ?thesis using refund_row_step.completed[OF e(2) ref]
    by (auto intro!: refunds_follow_moved moved_by_update)
qed

lemma resolveRefundAttempt_follow:
  assumes inv: "refund_inv db" and res: "resolveRefundAttempt ids rid token result at db = (db', r)"
  shows "refunds_follow (refunds db) (refunds db')"
  using res
proof (cases rule: resolveRefundAttempt_cases)
  case (failed e code r')
  then show ?thesis
    using failRefundAttempt_moves[OF refund_inv_refund(3,1)[OF inv failed(1)] failed(2,3)] by (simp add: quiet_follow)
next
  case completed
  then show ?thesis using finalizeRefundInTx_follow[OF inv] by blast
qed simp

lemma requestOrderRefund_follow:
  assumes "requestOrderRefund h rid q db = Inr (db', rec)"
  shows "refunds_follow (refunds db) (refunds db')"
proof -
  obtain lines where "rf_status (rec_row rec) = Refund_PENDING" "rf_attemptCount (rec_row rec) = 0"
    "db' = db\<lparr>refunds := refunds db @ [rec_row rec], refundLines := refundLines db @ lines\<rparr>"
    using requestOrderRefund_row[OF assms] by blast
  then show ?thesis unfolding refunds_follow_def
    by (intro exI[of _ "refunds db"] exI[of _ "[rec_row rec]"]) simp
qed

lemma resolveTaxReversalAttempt_refunds:
  assumes "resolveTaxReversalAttempt tid token result at db = (db', r)"
  shows "refunds db' = refunds db"
  using assms by (cases rule: resolveTaxReversalAttempt_cases) (simp_all add: markTaxTransactionReversedInTx_def)

lemma market_step_follow:
  assumes "market_step h db db'" and inv: "refund_inv db"
  shows "refunds_follow (refunds db) (refunds db')"
  using assms(1)
proof cases
  case refunds_claimed
  then show ?thesis using claimDueRefunds_moves quiet_follow by blast
next
  case refunds_recovered
  then show ?thesis using recoverStaleRefundClaims_moves quiet_follow by blast
next
  case taxes_claimed
  then show ?thesis by (auto simp: claimDueTaxReversals_def Let_def split: if_split_asm)
next
  case taxes_recovered
  then show ?thesis by (auto simp: recoverStaleTaxReversalClaims_def)
next
  case reversed_otherwise
  then show ?thesis using recordFullReversalInTx_row by fastforce
next
  case dispute_observed
  then have "refunds db' = refunds db" using observe_tx_untouched by (fastforce simp: untouched_by_disputes_def)
  then show ?thesis by simp
next
  case fee_changed
  then have "refunds db' = refunds db" using fee_step_frame by fastforce
  then show ?thesis by simp
next
  case tax_resolved
  then have "refunds db' = refunds db" by (rule resolveTaxReversalAttempt_refunds)
  then show ?thesis by simp
qed (rule requestOrderRefund_follow resolveRefundAttempt_follow[OF inv], assumption)+

text \<open>Rows only move along the machine, whatever the services do.\<close>

lemma market_steps_refund:
  assumes "(market_step h)\<^sup>*\<^sup>* db db'" and "refund_inv db" and "r \<in> set (refunds db)"
  shows "\<exists>r'\<in>set (refunds db'). refund_row_step\<^sup>*\<^sup>* r r'"
  using assms
proof (induction rule: rtranclp_induct)
  case base
  then show ?case by blast
next
  case (step y z)
  then obtain ry where ry: "ry \<in> set (refunds y)" "refund_row_step\<^sup>*\<^sup>* r ry" by blast
  have "refund_inv y" by (rule market_steps_inv[OF step.hyps(1) step.prems(1)])
  then obtain rz where "rz \<in> set (refunds z)" "rz = ry \<or> refund_row_step ry rz"
    using refunds_follow_mem[OF market_step_follow[OF step.hyps(2)] ry(1)] by blast
  then show ?case using ry(2) by (metis rtranclp.rtrancl_into_rtrancl)
qed

end
