(* ===== verification/Example_Refund.thy ===== *)
theory Example_Refund
  imports Example_Sale Refund_Refinement
begin

text \<open>
  A paid Order on which the refund properties are exercised: the seller-direct sale of
  \<open>Example_Sale\<close> bound to an Order, settled at the provider, with tax recorded, the seller's claim
  already eligible for payout and refund terms of thirty days that return shipping.
\<close>

definition ex_hash :: content_hash where
  "ex_hash t d = doc_title d"

definition ex_refund_terms :: refund_terms where
  "ex_refund_terms = \<lparr>rt_refundsAllowed = True, rt_eligibilityConditions = [DEFECTIVE_OR_DAMAGED, NOT_DELIVERED],
     rt_refundWindowDays = Some 30, rt_shippingRefundability = ALWAYS_REFUNDED,
     rt_procedureKind = CONTACT_SELLER_SUPPORT\<rparr>"

definition ex_document :: policy_document where
  "ex_document = \<lparr>doc_title = ''Returns'', doc_sections =
     [\<lparr>sec_key = SUMMARY, sec_heading = ''All'', sec_body = ''Yes''\<rparr>,
      \<lparr>sec_key = WINDOW, sec_heading = ''Until'', sec_body = ''30''\<rparr>,
      \<lparr>sec_key = SHIPPING, sec_heading = ''Post'', sec_body = ''Paid''\<rparr>,
      \<lparr>sec_key = PROCEDURE, sec_heading = ''How'', sec_body = ''Write''\<rparr>]\<rparr>"

definition ex_refund_version :: refund_policy_input where
  "ex_refund_version = \<lparr>rpi_policyId = ''srp'', rpi_policyVersion = ''1'', rpi_sellerParticipantId = ''sell'',
     rpi_terms = ex_refund_terms, rpi_document = ex_document, rpi_effectiveFrom = 0,
     rpi_recordedByAccountId = ''acct'', rpi_recordedAt = 0\<rparr>"

definition ex_order :: order_row where
  "ex_order = \<lparr>or_id = ''ord'', or_buyerKind = GUEST_BUYER, or_buyerAccountId = None, or_buyerParticipantId = None,
     or_guestClaimCodeDigest = None, or_claimedByAccountId = None, or_claimedAt = None,
     or_internalListingId = ''l1'', or_listingSourceRecordId = ''ls1'', or_listingSourceRecordVersion = ''1'',
     or_policyId = ''pol'', or_policyVersion = ''1'', or_marketplacePolicy = None,
     or_sellerRefundPolicyId = Some ''srp'', or_sellerRefundPolicyVersion = Some ''1'',
     or_storefrontId = ''sf'', or_internalProductId = ''prod'', or_transactionType = Type_SELLER_DIRECT,
     or_sellerParticipantId = ''sell'', or_promoterParticipantId = None, or_promotedBinding = None,
     or_quote = \<lparr>oq_currency = ''USD'', oq_commercialRetail = 8000, oq_tax = 500, oq_shipping = 300, oq_other = 0\<rparr>,
     or_lifecycle = Order_PAID, or_paymentFailureCode = None, or_placedAt = 140, or_paidAt = Some 150,
     or_failedAt = None, or_cancelledAt = None\<rparr>"

definition ex_claim :: proceeds_obligation where
  "ex_claim = \<lparr>pob_id = ''b1'', pob_snapshotId = ''s1'', pob_participantId = ''sell'',
     pob_party = SELLER, pob_amount = 7300, pob_currency = ''USD'', pob_state = ELIGIBLE,
     pob_accruedAt = 150, pob_becameEligibleAt = Some 160, pob_paidAt = None\<rparr>"

definition ex_tax :: tax_transaction_row where
  "ex_tax = \<lparr>tt_id = ''tax1'', tt_orderId = ''ord'', tt_taxEvidenceId = ''te1'', tt_provider = ''STRIPE_TAX'',
     tt_providerMode = ''TEST'', tt_providerCalculationRef = ''calc_1'',
     tt_providerTaxTransactionRef = Some ''tx_1'', tt_providerReference = ''ord'', tt_currency = ''USD'',
     tt_taxableBasis = 8000, tt_taxAmount = 500, tt_providerTotalAmount = Some 8500, tt_jurisdictionCode = None,
     tt_treatment = TAXABLE, tt_internalProductId = ''prod'', tt_productSourceRecordId = ''ps'',
     tt_productSourceRecordVersion = ''1'', tt_productTaxClassification = PHYSICAL_GOOD, tt_providerTaxCode = None,
     tt_providerConfigVersion = None, tt_calculatedAt = 130, tt_providerTaxTransactionCreatedAt = Some 155,
     tt_recordedAt = 150, tt_lifecycleState = Lifecycle_RECORDED, tt_recordingStatus = RECORDED,
     tt_attemptCount = 1, tt_nextAttemptAt = None, tt_lastFailureCode = None, tt_lastFailureClass = None,
     tt_lockToken = None, tt_lockedAt = None, tt_leaseExpiresAt = None, tt_finalizedAt = Some 155,
     tt_requeueCount = 0, tt_lastRequeuedAt = None\<rparr>"

definition ex_ledger :: market_tables where
  "ex_ledger = \<lparr>commercialPolicies = commercialPolicies ex_books, policyVersions = policyVersions ex_books,
     listings = listings ex_books, listingVersions = listingVersions ex_books,
     offerVersions = offerVersions ex_books, promotionAcceptances = [], promotionAuthorizations = [],
     snapshots = snapshots ex_bound,
     settlements = [\<lparr>st_snapshotId = ''s1'', st_state = FUNDS_RECEIVED, st_provider = Some ''STRIPE'',
        st_providerTransactionRef = Some ''pi_1'', st_providerReferenceRecordedAt = Some 150, st_fundsReceivedAt = Some 150, st_settledAt = None,
        st_reversedAt = None\<rparr>],
     obligations = [ex_claim], recoveries = [], reversals = [],
     actingAccounts = [\<lparr>acc_id = ''acct'', acc_status = Account_ACTIVE, acc_emailVerifiedAt = Some 0, acc_emailVerifiedVia = Some ''SELF_SERVICE_TOKEN''\<rparr>],
     entitlements = [\<lparr>ent_id = ''en1'', ent_accountId = ''acct'', ent_capability = ''commercial-policy:govern'',
        ent_status = Entitlement_ACTIVE, ent_grantedAt = 0, ent_revokedAt = None\<rparr>], entitlementActs = [],
     participants = [\<lparr>pa_id = ''sell'', pa_accountId = ''acct'', pa_status = Part_ACTIVE, pa_marketplaceName = Some ''Ada''\<rparr>],
     notices = [], roleAssignments = [], activations = [], restrictions = [], suspensions = [], closures = [],
     riskReviewIds = [], activeMarketplacePolicyVersion = Some ''1.3.0'',
     sellerRefundPolicies = [\<lparr>srp_id = ''srp'', srp_sellerParticipantId = ''sell'', srp_label = ''Returns'', srp_createdAt = 0\<rparr>],
     refundPolicyVersions = [], feePolicies = [], feePolicyVersions = [], orders = [ex_order], taxTransactions = [ex_tax], refunds = [], refundLines = [],
     taxReversals = [], disputes = [], disputeEvents = [], chargebackFees = []\<rparr>"

definition ex_market :: market_tables where
  "ex_market = ex_ledger\<lparr>refundPolicyVersions := [refund_policy_draft ex_hash ex_refund_version 0]\<rparr>"

definition ex_request :: refund_request where
  "ex_request = \<lparr>rq_orderId = ''ord'', rq_reasonCode = CUSTOMER_REQUEST, rq_requestorKind = OPERATOR,
     rq_requestedByAccountId = Some ''op'', rq_requestedAt = 1000, rq_selectedLineRefs = None, rq_requestedAmount = None\<rparr>"

definition ex_requested :: market_tables where
  "ex_requested = after (requestOrderRefund ex_hash ''rf1'' ex_request ex_market) ex_ledger"

definition ex_claimed :: market_tables where
  "ex_claimed = fst (claimDueRefunds ''w1'' 2000 10 ex_requested)"

definition ex_ids :: refund_ids where
  "ex_ids = \<lparr>ids_reversal = ''rv1'', ids_taxReversal = ''tv1'', ids_precx = (\<lambda>n. ''px'' @ replicate n (CHR ''i''))\<rparr>"

definition ex_refunded :: market_tables where
  "ex_refunded = fst (resolveRefundAttempt ex_ids ''rf1'' ''w1'' (Attempt_REFUNDED ''re_1'' 2100) 2200 ex_claimed)"

definition ex_rec :: "refund_record option" where
  "ex_rec = result (requestOrderRefund ex_hash ''rf1'' ex_request ex_market)"

definition ex_failed :: market_tables where
  "ex_failed = fst (resolveRefundAttempt ex_ids ''rf1'' ''w1'' (Attempt_FAILED RF_PROVIDER_UNAVAILABLE) 2200 ex_claimed)"

definition ex_recorded :: market_tables where
  "ex_recorded = after (recordSellerRefundPolicyVersion ex_hash ex_refund_version ex_ledger) ex_ledger"

definition ex_activated :: market_tables where
  "ex_activated = after (activateSellerRefundPolicyVersion ex_hash ''srp'' ''1'' 10 ''acct'' ex_recorded) ex_ledger"

text \<open>What the runs return.\<close>

lemma ex_recorded_ok:
  "\<exists>r. recordSellerRefundPolicyVersion ex_hash ex_refund_version ex_ledger = Inr (ex_recorded, r)"
  unfolding ex_recorded_def by (rule is_ok_after) code_simp

lemma ex_activated_ok:
  "\<exists>r. activateSellerRefundPolicyVersion ex_hash ''srp'' ''1'' 10 ''acct'' ex_recorded = Inr (ex_activated, r)"
  unfolding ex_activated_def by (rule is_ok_after) code_simp

lemma ex_requested_ok:
  "\<exists>r. requestOrderRefund ex_hash ''rf1'' ex_request ex_market = Inr (ex_requested, r)"
  unfolding ex_requested_def by (rule is_ok_after) code_simp

lemma ex_claimed_ok: "\<exists>r. claimDueRefunds ''w1'' 2000 10 ex_requested = (ex_claimed, r)"
  by (simp add: ex_claimed_def prod_eq_iff)

lemma ex_failed_ok:
  "\<exists>r. resolveRefundAttempt ex_ids ''rf1'' ''w1'' (Attempt_FAILED RF_PROVIDER_UNAVAILABLE) 2200 ex_claimed = (ex_failed, r)"
  by (simp add: ex_failed_def prod_eq_iff)

lemma ex_refunded_ok:
  "\<exists>r. resolveRefundAttempt ex_ids ''rf1'' ''w1'' (Attempt_REFUNDED ''re_1'' 2100) 2200 ex_claimed = (ex_refunded, r)"
  by (simp add: ex_refunded_def prod_eq_iff)

lemma ex_market_inv: "refund_inv ex_market" "refund_policy_inv ex_ledger"
proof -
  have "reversals ex_market = []" "refunds ex_market = []" "taxReversals ex_market = []" "recoveries ex_market = []"
    by (simp_all add: ex_market_def ex_ledger_def)
  then show "refund_inv ex_market"
    by (simp add: refund_inv_def reversal_inv_def refund_rows_inv_def tax_rows_inv_def)
  show "refund_policy_inv ex_ledger"
    by (simp add: refund_policy_inv_def ex_ledger_def refund_terms_rows.single_active_def)
qed

lemma ex_steps: "(market_step ex_hash)\<^sup>*\<^sup>* ex_market ex_requested" "(market_step ex_hash)\<^sup>*\<^sup>* ex_requested ex_refunded"
proof -
  show "(market_step ex_hash)\<^sup>*\<^sup>* ex_market ex_requested"
    using ex_requested_ok market_step.requested by blast
  have "market_step ex_hash ex_requested ex_claimed" using ex_claimed_ok market_step.refunds_claimed by blast
  moreover have "market_step ex_hash ex_claimed ex_refunded" using ex_refunded_ok market_step.refund_resolved by blast
  ultimately show "(market_step ex_hash)\<^sup>*\<^sup>* ex_requested ex_refunded" by (meson rtranclp.simps)
qed

lemma ex_refund_inv: "refund_inv ex_requested" "refund_inv ex_refunded"
  using market_steps_inv ex_market_inv(1) ex_steps by blast+

lemma ex_rows:
  "map rf_status (refunds ex_requested) = [Refund_PENDING]"
  "map rf_status (refunds ex_claimed) = [Refund_IN_PROGRESS]"
  "map rf_status (refunds ex_refunded) = [REFUNDED]"
  "map rf_lockToken (refunds ex_claimed) = [Some ''w1'']"
  by code_simp+

end
