(* ===== verification/Refund_Properties.thy ===== *)
theory Refund_Properties
  imports Example_Refund
begin

text \<open>
  The properties of refunds: the seller's terms, what a request commits, what an attempt may change,
  and what holds of every history.
\<close>

section \<open>The seller's terms\<close>

text \<open>C29: terms once recorded read back the same for ever, whatever is later recorded, activated or
  retired: what an Order bound is what its refund is decided under.\<close>

theorem refund_terms_permanent:
  assumes "refund_policy_inv db" and "recordSellerRefundPolicyVersion h i db = Inr (db1, r)"
    and "(refund_policy_step h)\<^sup>*\<^sup>* db1 db2"
  shows "\<exists>r'. readSellerRefundPolicyVersionIn h db2 (rpi_policyId i) (rpi_policyVersion i) = Inr (Some r') \<and>
     rpr_terms r' = rpi_terms i \<and> rpr_document r' = rpi_document i \<and>
     rpr_contentHash r' = h (rpi_terms i) (rpi_document i)"
  using recorded_terms_permanent[OF assms] by (auto simp: rpr_says_def)

theorem refund_terms_permanent_witness:
  "\<exists>r'. readSellerRefundPolicyVersionIn ex_hash ex_activated ''srp'' ''1'' = Inr (Some r') \<and>
     rpr_terms r' = ex_refund_terms"
proof -
  obtain r where r: "recordSellerRefundPolicyVersion ex_hash ex_refund_version ex_ledger = Inr (ex_recorded, r)"
    using ex_recorded_ok by blast
  have "(refund_policy_step ex_hash)\<^sup>*\<^sup>* ex_recorded ex_activated"
    using ex_activated_ok refund_policy_step.activated by blast
  from refund_terms_permanent[OF ex_market_inv(2) r this] show ?thesis
    by (auto simp: ex_refund_version_def)
qed

lemma ex_policy_steps: "(refund_policy_step ex_hash)\<^sup>*\<^sup>* ex_ledger ex_activated"
proof -
  have "refund_policy_step ex_hash ex_ledger ex_recorded" using ex_recorded_ok refund_policy_step.recorded by blast
  moreover have "refund_policy_step ex_hash ex_recorded ex_activated"
    using ex_activated_ok refund_policy_step.activated by blast
  ultimately show ?thesis by (rule converse_rtranclp_into_rtranclp[OF _ r_into_rtranclp])
qed

text \<open>Over any history of recordings and activations a refund policy has at most one version in
  force.\<close>

theorem single_active_refund_policy:
  assumes "refund_policy_inv db" and "(refund_policy_step h)\<^sup>*\<^sup>* db db'"
  shows "count_where (\<lambda>v. rpv_policyId v = pid \<and> rpv_status v = Policy_ACTIVE) (refundPolicyVersions db') \<le> 1"
proof -
  have sa: "refund_terms_rows.single_active (refundPolicyVersions db')"
    using refund_policy_steps_inv[OF assms(2,1)] by (simp add: refund_policy_inv_def)
  then show ?thesis by (rule refund_terms_rows.single_active_count)
qed

theorem single_active_refund_policy_witness:
  "count_where (\<lambda>v. rpv_policyId v = ''srp'' \<and> rpv_status v = Policy_ACTIVE) (refundPolicyVersions ex_activated) \<le> 1"
  by (rule single_active_refund_policy[OF ex_market_inv(2) ex_policy_steps])

text \<open>A document is accepted exactly when it says what the terms enforce: the required sections,
  one of shipping, one of the window when there is a window, no section twice, and conditions and a
  window only where refunds are given at all.\<close>

theorem document_agrees_iff:
  "documentAgreesWithTerms t d \<longleftrightarrow>
     {SUMMARY, PROCEDURE, SHIPPING} \<subseteq> sec_key ` set (doc_sections d) \<and>
     (rt_refundWindowDays t \<noteq> None \<longrightarrow> WINDOW \<in> sec_key ` set (doc_sections d)) \<and>
     distinct (map sec_key (doc_sections d)) \<and>
     (rt_refundsAllowed t \<longleftrightarrow> rt_eligibilityConditions t \<noteq> []) \<and>
     (rt_refundWindowDays t \<noteq> None \<longrightarrow> rt_refundsAllowed t)"
  using documentAgreesWithTerms_iff .

theorem document_agrees_iff_witness:
  "documentAgreesWithTerms ex_refund_terms ex_document"
  by (subst document_agrees_iff) (simp add: ex_refund_terms_def ex_document_def)

text \<open>A draft is recorded exactly when the actor acts for the seller it names, its terms and document
  are valid and agree, the policy exists and the version is new.  Whose policy it is is not among the
  conditions: one seller's draft can be recorded under another seller's policy.\<close>

theorem policy_draft_recorded_iff:
  "is_ok (recordSellerRefundPolicyVersion h i db) \<longleftrightarrow>
     assertActsForSeller db (rpi_recordedByAccountId i) (rpi_sellerParticipantId i) = Inr () \<and>
     SellerRefundTerms (rpi_terms i) \<and> SellerRefundPolicyDocument (rpi_document i) \<and>
     documentAgreesWithTerms (rpi_terms i) (rpi_document i) \<and>
     rpi_policyId i \<in> srp_id ` set (sellerRefundPolicies db) \<and>
     (rpi_policyId i, rpi_policyVersion i) \<notin> rpv_key ` set (refundPolicyVersions db) \<and>
     version_ref (rpi_policyVersion i) \<and> source_ref (rpi_recordedByAccountId i)"
proof -
  have t: "\<lparr>rt_refundsAllowed = rt_refundsAllowed x, rt_eligibilityConditions = rt_eligibilityConditions x,
      rt_refundWindowDays = rt_refundWindowDays x, rt_shippingRefundability = rt_shippingRefundability x,
      rt_procedureKind = rt_procedureKind x\<rparr> = x" for x :: refund_terms by simp
  have r: "is_ok (refund_policy_rowToRecord h (refund_policy_draft h i n)) \<longleftrightarrow>
      SellerRefundTerms (rpi_terms i) \<and> SellerRefundPolicyDocument (rpi_document i) \<and>
      version_ref (rpi_policyVersion i) \<and> source_ref (rpi_recordedByAccountId i)" for n
    by (simp add: refund_policy_rowToRecord_def refund_policy_draft_def Let_def conditions_roundtrip rpv_terms_def t)
  have k: "rpv_key (refund_policy_draft h i n) = (rpi_policyId i, rpi_policyVersion i)" for n
    by (simp add: rpv_key_def refund_policy_draft_def Let_def)
  show ?thesis
    unfolding recordSellerRefundPolicyVersion_def documentAgreesWithTerms_def
    by (auto simp: is_ok_iff chain_Inr_iff Let_def require_def r[unfolded is_ok_iff] insert_unique_def k
        split: if_split_asm sum.split_asm option.split_asm)
qed

definition ex_rival :: market_tables where
  "ex_rival = ex_ledger\<lparr>actingAccounts := [\<lparr>acc_id = ''riv'', acc_status = Account_ACTIVE, acc_emailVerifiedAt = None, acc_emailVerifiedVia = None\<rparr>],
     participants := [\<lparr>pa_id = ''rival'', pa_accountId = ''riv'', pa_status = Part_ACTIVE, pa_marketplaceName = None\<rparr>]\<rparr>"

theorem policy_draft_recorded_iff_witness:
  "is_ok (recordSellerRefundPolicyVersion ex_hash
     (ex_refund_version\<lparr>rpi_sellerParticipantId := ''rival'', rpi_recordedByAccountId := ''riv''\<rparr>) ex_rival) \<and>
   map srp_sellerParticipantId (sellerRefundPolicies ex_rival) = [''sell'']"
proof -
  have "documentAgreesWithTerms ex_refund_terms ex_document" by code_simp
  then have "is_ok (recordSellerRefundPolicyVersion ex_hash
     (ex_refund_version\<lparr>rpi_sellerParticipantId := ''rival'', rpi_recordedByAccountId := ''riv''\<rparr>) ex_rival)"
    by (subst policy_draft_recorded_iff)
      (simp add: ex_refund_version_def ex_rival_def ex_ledger_def assertActsForSeller_def find_account_def find_account_participant_def Let_def SellerRefundTerms_def
        ex_refund_terms_def SellerRefundPolicyDocument_def ex_document_def SellerRefundPolicySection_def version_ref_def source_ref_def)
  then show ?thesis by (simp add: ex_rival_def ex_ledger_def)
qed

section \<open>The request\<close>

text \<open>C10: a request that is accepted commits exactly one pending refund and touches no other table.
  The Order is paid, the sale is neither refunded, reversed nor in dispute, the bound terms allow it
  within their window, and the amount is the sale-time price and tax, with shipping exactly when the
  terms return it; a caller that names another amount is refused.\<close>

theorem requested_refund_exact:
  assumes "requestOrderRefund h rid q db = Inr (db', rec)"
  shows "\<exists>ord snap p lines. find_order db (rq_orderId q) = Some ord \<and> or_lifecycle ord = Order_PAID \<and>
     find_order_snapshot db (rq_orderId q) = Some snap \<and>
     count_where (\<lambda>r. rf_orderId r = rq_orderId q) (refunds db) = 0 \<and>
     \<not> isSnapshotReversedIn db (sr_id snap) \<and> disputeBlockingRefundIn db (sr_id snap) = None \<and>
     bound_policy h db ord = Some p \<and> rt_refundsAllowed (rpr_terms p) \<and>
     (\<forall>paidAt. or_paidAt ord = Some paidAt \<longrightarrow>
        refundWindowIsOpen (rt_refundWindowDays (rpr_terms p)) paidAt (rq_requestedAt q)) \<and>
     rf_amount (rec_row rec) = oq_commercialRetail (or_quote ord) + oq_tax (or_quote ord) +
       (if shippingIsRefundable (rt_shippingRefundability (rpr_terms p)) (rq_reasonCode q)
        then max 0 (oq_shipping (or_quote ord)) else 0) \<and>
     (rq_requestedAmount q = None \<or> rq_requestedAmount q = Some (rf_amount (rec_row rec))) \<and>
     rf_status (rec_row rec) = Refund_PENDING \<and>
     db' = db\<lparr>refunds := refunds db @ [rec_row rec], refundLines := refundLines db @ lines\<rparr>"
proof -
  obtain ord snap st p lines where r:
    "find_order db (rq_orderId q) = Some ord" "find_order_snapshot db (rq_orderId q) = Some snap"
    "sale_refusals db ord (Some snap) (Some st) = []"
    "bound_policy h db ord = Some p" "policy_refusals ord (Some p) (rq_requestedAt q) = []"
    "rf_amount (rec_row rec) =
       sale_time_refund (or_quote ord) (rt_shippingRefundability (rpr_terms p)) (rq_reasonCode q)"
    "rq_requestedAmount q = None \<or> rq_requestedAmount q = Some (rf_amount (rec_row rec))"
    "rf_status (rec_row rec) = Refund_PENDING"
    "db' = db\<lparr>refunds := refunds db @ [rec_row rec], refundLines := refundLines db @ lines\<rparr>"
    using requestOrderRefund_row[OF assms] by blast
  have s: "or_lifecycle ord = Order_PAID" "count_where (\<lambda>r. rf_orderId r = rq_orderId q) (refunds db) = 0"
    "\<not> isSnapshotReversedIn db (sr_id snap)" "disputeBlockingRefundIn db (sr_id snap) = None"
    using sale_refusals_none[OF r(3)] find_order_id[OF r(1)] by auto
  have p: "rt_refundsAllowed (rpr_terms p)" "\<forall>paidAt. or_paidAt ord = Some paidAt \<longrightarrow>
     refundWindowIsOpen (rt_refundWindowDays (rpr_terms p)) paidAt (rq_requestedAt q)"
    using policy_refusals_none[OF r(5)] by auto
  show ?thesis
    by (intro exI[of _ ord] exI[of _ snap] exI[of _ p] exI[of _ lines] conjI)
      (use r s p in \<open>simp_all add: sale_time_refund_def\<close>)
qed

theorem requested_refund_exact_witness:
  "\<exists>rec. requestOrderRefund ex_hash ''rf1'' ex_request ex_market = Inr (ex_requested, rec) \<and>
     rf_status (rec_row rec) = Refund_PENDING"
  using ex_requested_ok requested_refund_exact by blast

section \<open>One attempt\<close>

text \<open>C5: recording what an attempt did is all or nothing.  A resolution leaves the state as it was, or
  it holds the row's token and rewrites that row alone as failed, or it completes: the reversal entry
  and the reversed settlement, the completed row that names the entry, the tax reversal of the recorded
  tax transaction and a recovery exception for every claim of the sale past the payout gate are
  committed together.\<close>

theorem refund_resolution_atomic:
  assumes "resolveRefundAttempt ids rid token answer at db = (db', r)"
  shows "db' = db \<or>
     (\<exists>e code. find_refund db rid = Some e \<and> rf_lockToken e = Some token \<and>
        db' = db\<lparr>refunds := update_where (\<lambda>x. rf_id x = rid) (fail_refund_row e code at) (refunds db)\<rparr>) \<or>
     (\<exists>e ref createdAt db1 rev taxes xs. find_refund db rid = Some e \<and> rf_lockToken e = Some token \<and>
        answer = Attempt_REFUNDED ref createdAt \<and> ref \<noteq> rf_providerTransactionRef e \<and>
        recordFullReversalInTx (ids_reversal ids) (refund_reversal_input e ref createdAt at) db = Inr (db1, rev) \<and>
        taxes = (case recorded_tax db (rf_orderId e) of None \<Rightarrow> []
          | Some (t, tref) \<Rightarrow> [tax_obligation (ids_taxReversal ids) (rf_orderId e) rid at t tref]) \<and>
        (\<forall>ob\<in>set (obligations db). pob_snapshotId ob = rf_snapshotId e \<longrightarrow> pob_state ob \<noteq> Obligation_PENDING \<longrightarrow>
           (\<exists>x\<in>set xs. prx_proceedsObligationId x = pob_id ob \<and> prx_amount x = pob_amount ob \<and>
              prx_status x = Recovery_OPEN)) \<and>
        db' = db1\<lparr>refunds := update_where (\<lambda>x. rf_id x = rid)
                (complete_refund_row e ref createdAt at (trv_id rev)) (refunds db),
              taxReversals := taxReversals db @ taxes, recoveries := recoveries db @ xs\<rparr>)"
  using assms
proof (cases rule: resolveRefundAttempt_cases)
  case (failed e code r')
  moreover have "rf_id e = rid" using find_refund_mem[OF failed(1)] by simp
  ultimately show ?thesis by (auto simp: failRefundAttempt_def Let_def)
next
  case (completed e ref createdAt v)
  have id: "rf_id e = rid" using find_refund_mem[OF completed(1)] by simp
  obtain db1 rev taxes xs where f:
    "recordFullReversalInTx (ids_reversal ids) (refund_reversal_input e ref createdAt at) db = Inr (db1, rev)"
    "taxes = (case recorded_tax db (rf_orderId e) of None \<Rightarrow> []
       | Some (t, tref) \<Rightarrow> [tax_obligation (ids_taxReversal ids) (rf_orderId e) (rf_id e) at t tref])"
    "raised_for (\<lambda>i ob reason. refund_exception i (rf_id e) (rf_orderId e) (rf_snapshotId e) at ob reason)
       Cause_REFUND (sale_obligations db (rf_snapshotId e)) xs"
    "db' = db1\<lparr>refunds := update_where (\<lambda>r. rf_id r = rf_id e)
         (complete_refund_row e ref createdAt at (trv_id rev)) (refunds db),
       taxReversals := taxReversals db @ taxes, recoveries := recoveries db @ xs\<rparr>"
    using finalizeRefundInTx_rows[OF completed(5)] by blast
  have ex: "\<exists>x\<in>set xs. prx_proceedsObligationId x = pob_id ob \<and> prx_amount x = pob_amount ob \<and>
      prx_status x = Recovery_OPEN"
    if "ob \<in> set (obligations db)" "pob_snapshotId ob = rf_snapshotId e" "pob_state ob \<noteq> Obligation_PENDING" for ob
  proof -
    note pending = that(3)
    have "ob \<in> set (sale_obligations db (rf_snapshotId e))" using that by (simp add: set_sale_obligations)
    then obtain x i reason where "x \<in> set xs"
      "x = refund_exception i (rf_id e) (rf_orderId e) (rf_snapshotId e) at ob reason"
      using f(3) pending unfolding raised_for_def by blast
    then show ?thesis by (auto simp: refund_exception_def intro!: bexI[of _ x])
  qed
  show ?thesis
    by (rule disjI2, rule disjI2, rule exI[of _ e], rule exI[of _ ref], rule exI[of _ createdAt],
        rule exI[of _ db1], rule exI[of _ rev], rule exI[of _ taxes], rule exI[of _ xs])
      (use completed(1-4) f(1) f(2,4)[unfolded id] ex in blast)
qed simp

theorem refund_resolution_atomic_witness:
  "\<exists>rev x t. reversals ex_refunded = [rev] \<and> recoveries ex_refunded = [x] \<and> taxReversals ex_refunded = [t] \<and>
     prx_proceedsObligationId x = ''b1'' \<and> tv_refundId t = ''rf1''"
proof -
  obtain r where "resolveRefundAttempt ex_ids ''rf1'' ''w1'' (Attempt_REFUNDED ''re_1'' 2100) 2200 ex_claimed = (ex_refunded, r)"
    using ex_refunded_ok by blast
  note refund_resolution_atomic[OF this]
  moreover have "map trv_id (reversals ex_refunded) = [''rv1''] \<and>
      map prx_proceedsObligationId (recoveries ex_refunded) = [''b1''] \<and>
      map tv_refundId (taxReversals ex_refunded) = [''rf1'']" by code_simp
  ultimately show ?thesis by (auto simp: map_eq_Cons_conv)
qed

text \<open>Completing a refund records the reversal of the whole sale.  The entry returns everything the
  buyer was charged, shipping included, whatever amount the refund gave back: where the terms withhold
  shipping the entry is larger than the refund it stands for.\<close>

theorem completed_refund_reverses_whole_sale:
  assumes "finalizeRefundInTx ids e ref createdAt at db = Inr (db', v)"
  shows "\<exists>srow snap rev. find_snapshot db (rf_snapshotId e) = Some srow \<and> snapshotRowToRecord srow = Inr snap \<and>
     reversals db' = reversals db @ [rev] \<and> trv_snapshotId rev = rf_snapshotId e \<and>
     rsv_reversalId v = Some (trv_id rev) \<and>
     reversedBuyerTotalMinorUnits (trv_amounts rev) = buyerChargedTotalMinorUnits snap"
proof -
  obtain db1 rev taxes xs where f:
    "recordFullReversalInTx (ids_reversal ids) (refund_reversal_input e ref createdAt at) db = Inr (db1, rev)"
    "db' = db1\<lparr>refunds := update_where (\<lambda>r. rf_id r = rf_id e)
         (complete_refund_row e ref createdAt at (trv_id rev)) (refunds db),
       taxReversals := taxReversals db @ taxes, recoveries := recoveries db @ xs\<rparr>"
    "rsv_reversalId v = Some (trv_id rev)"
    using finalizeRefundInTx_rows[OF assms] by blast
  from recordFullReversalInTx_row[OF f(1)] obtain srow orderId snap where s:
    "find_snapshot db (rf_snapshotId e) = Some srow" "snapshotRowToRecord srow = Inr snap"
    "rev = reversal_row_of (ids_reversal ids) (refund_reversal_input e ref createdAt at) orderId snap"
    "reversals db1 = reversals db @ [rev]"
    by (auto simp: refund_reversal_input_def)
  have "reversedBuyerTotalMinorUnits (trv_amounts rev) = buyerChargedTotalMinorUnits snap"
    using full_reversal_buyer_total by (simp add: s(3) reversal_row_of_def snapshot_reversal_def)
  moreover have "trv_snapshotId rev = rf_snapshotId e" by (simp add: s(3) reversal_row_of_def refund_reversal_input_def)
  ultimately show ?thesis using s f(2,3) by (intro exI[of _ srow] exI[of _ snap] exI[of _ rev]) simp
qed

definition ex_withheld :: market_tables where
  "ex_withheld = ex_market\<lparr>refundPolicyVersions := [refund_policy_draft ex_hash
     (ex_refund_version\<lparr>rpi_terms := ex_refund_terms\<lparr>rt_shippingRefundability := NEVER_REFUNDED\<rparr>\<rparr>) 0]\<rparr>"

definition ex_withheld_claimed :: market_tables where
  "ex_withheld_claimed = fst (claimDueRefunds ''w1'' 2000 10
     (after (requestOrderRefund ex_hash ''rf1'' ex_request ex_withheld) ex_ledger))"

theorem completed_refund_reverses_whole_sale_witness:
  "\<exists>e db' v rev. finalizeRefundInTx ex_ids e ''re_1'' 2100 2200 ex_withheld_claimed = Inr (db', v) \<and>
     e \<in> set (refunds ex_withheld_claimed) \<and> rf_amount e = 8500 \<and> rev \<in> set (reversals db') \<and>
     reversedBuyerTotalMinorUnits (trv_amounts rev) = 8800"
proof -
  let ?e = "hd (refunds ex_withheld_claimed)"
  have c: "case finalizeRefundInTx ex_ids ?e ''re_1'' 2100 2200 ex_withheld_claimed of Inl _ \<Rightarrow> False
     | Inr (d, v) \<Rightarrow> (case find_snapshot ex_withheld_claimed (rf_snapshotId ?e) of None \<Rightarrow> False
         | Some srow \<Rightarrow> (case snapshotRowToRecord srow of Inl _ \<Rightarrow> False
             | Inr snap \<Rightarrow> buyerChargedTotalMinorUnits snap = 8800))" by code_simp
  have e: "refunds ex_withheld_claimed \<noteq> [] \<and> rf_amount ?e = 8500" by code_simp
  from c obtain d v where f: "finalizeRefundInTx ex_ids ?e ''re_1'' 2100 2200 ex_withheld_claimed = Inr (d, v)"
    by (auto split: sum.splits)
  obtain srow snap rev where r: "find_snapshot ex_withheld_claimed (rf_snapshotId ?e) = Some srow"
    "snapshotRowToRecord srow = Inr snap" "reversals d = reversals ex_withheld_claimed @ [rev]"
    "reversedBuyerTotalMinorUnits (trv_amounts rev) = buyerChargedTotalMinorUnits snap"
    using completed_refund_reverses_whole_sale[OF f] by blast
  have "buyerChargedTotalMinorUnits snap = 8800" using c unfolding f r(1) by (simp add: r(2))
  then show ?thesis using f e r(3,4)
    by (intro exI[of _ ?e] exI[of _ d] exI[of _ v] exI[of _ rev]) simp
qed

section \<open>Histories\<close>

text \<open>C1: in every history a refunded Order is backed by its own reversal entry: the entry the row
  names reverses its sale, carries the provider's reference of the refund, and is the sale's only one;
  and the sale's settlement is reversed.\<close>

theorem refunded_order_is_reversed:
  assumes "refund_inv db" and "(market_step h)\<^sup>*\<^sup>* db db'"
    and "r \<in> set (refunds db')" and "rf_status r = REFUNDED"
  shows "\<exists>rev\<in>set (reversals db'). rf_reversalId r = Some (trv_id rev) \<and> trv_snapshotId rev = rf_snapshotId r \<and>
     trv_kind rev = Kind_REFUND \<and> trv_providerReversalRef rev = rf_providerRefundRef r \<and>
     (\<forall>rev'\<in>set (reversals db'). trv_snapshotId rev' = rf_snapshotId r \<longrightarrow> rev' = rev) \<and>
     (\<exists>s. find_settlement db' (rf_snapshotId r) = Some s \<and> st_state s = REVERSED)"
proof -
  have inv: "refund_inv db'" by (rule market_steps_inv[OF assms(2,1)])
  then have "backed (reversals db') r" using assms(3,4) by (simp add: refund_inv_def refund_rows_inv_def)
  then obtain rev where rev: "rev \<in> set (reversals db')" "rf_reversalId r = Some (trv_id rev)"
    "trv_snapshotId rev = rf_snapshotId r" "trv_kind rev = Kind_REFUND"
    "trv_providerReversalRef rev = rf_providerRefundRef r" by (auto simp: backed_def)
  have ri: "reversal_inv db'" using inv by (simp add: refund_inv_def)
  have only: "\<forall>rev'\<in>set (reversals db'). trv_snapshotId rev' = rf_snapshotId r \<longrightarrow> rev' = rev"
  proof (intro ballI impI)
    fix rev' assume that: "rev' \<in> set (reversals db')" "trv_snapshotId rev' = rf_snapshotId r"
    show "rev' = rev" using ri unique_on_eq[OF _ that(1) rev(1), of trv_snapshotId] that(2) rev(3) by (simp add: reversal_inv_def)
  qed
  have "reversal_linked db' rev" using ri rev(1) by (simp add: reversal_inv_def)
  then have "\<exists>s. find_settlement db' (rf_snapshotId r) = Some s \<and> st_state s = REVERSED"
    using rev(3) by (auto simp: reversal_linked_def)
  then show ?thesis using rev only by blast
qed

lemma ex_market_refunded: "(market_step ex_hash)\<^sup>*\<^sup>* ex_market ex_refunded"
  by (rule rtranclp_trans[OF ex_steps])

lemma ex_refunded_cases: "\<exists>r\<in>set (refunds ex_refunded). rf_status r = REFUNDED"
  using ex_rows(3) by (auto simp: map_eq_Cons_conv)

theorem refunded_order_is_reversed_witness:
  "\<exists>r\<in>set (refunds ex_refunded). rf_status r = REFUNDED \<and>
     (\<exists>s. find_settlement ex_refunded (rf_snapshotId r) = Some s \<and> st_state s = REVERSED)"
  using refunded_order_is_reversed[OF ex_market_inv(1) ex_market_refunded] ex_refunded_cases by blast



end
