(* ===== verification/Refund_Retries.thy ===== *)
theory Refund_Retries
  imports Refund_Refinement
begin

text \<open>
  How long a refund can stay unfinished: the attempts it is given, what an abandoned claim costs, and
  when an unfinished row is due again.
\<close>

section \<open>Failing in a row\<close>

record failed_attempt =
  fa_claimedAt :: instant
  fa_token :: ident
  fa_code :: refund_failure
  fa_failedAt :: instant

definition claim_and_fail :: "failed_attempt \<Rightarrow> refund_row \<Rightarrow> refund_row" where
  "claim_and_fail a r = (let c = claim_refund_row (fa_claimedAt a) (fa_token a) r
     in fail_refund_row c (fa_code a) (fa_failedAt a) c)"

fun fail_all :: "failed_attempt list \<Rightarrow> refund_row \<Rightarrow> refund_row" where
  "fail_all [] r = r"
| "fail_all (a # as) r = fail_all as (claim_and_fail a r)"

definition transient :: "failed_attempt \<Rightarrow> bool" where
  "transient a \<longleftrightarrow> classifyRefundFailure (fa_code a) = Class_TRANSIENT"

lemma claim_and_fail_row:
  assumes "transient a"
  shows "rf_attemptCount (claim_and_fail a r) = rf_attemptCount r + 1"
    "rf_nextAttemptAt (claim_and_fail a r) = nextRefundAttemptAt (rf_attemptCount r + 1) (fa_failedAt a)"
    "rf_status (claim_and_fail a r) =
       (if rf_attemptCount r + 1 < refund_maxAttempts then Refund_RETRY_PENDING else Refund_FAILED_PERMANENT)"
  using assms refund_retries.next_spent_iff[of "rf_attemptCount r + 1" "fa_failedAt a"]
  by (auto simp: claim_and_fail_def fail_refund_row_def claim_refund_row_def Let_def transient_def)

lemma fail_all_snoc: "fail_all (as @ [a]) r = claim_and_fail a (fail_all as r)"
  by (induction as arbitrary: r) simp_all

lemma fail_all_count: "list_all transient as \<Longrightarrow> rf_attemptCount (fail_all as r) = rf_attemptCount r + length as"
  by (induction as arbitrary: r) (simp_all add: claim_and_fail_row)

section \<open>Abandoned claims\<close>

definition claim_and_abandon :: "instant \<Rightarrow> ident \<Rightarrow> refund_row \<Rightarrow> refund_row" where
  "claim_and_abandon now token r =
     release_refund_row (now + refund_claimLeaseSeconds * 1000 + 1) (claim_refund_row now token r)"

lemma claim_and_abandon_steps:
  assumes "refund_due now r"
  shows "refund_row_step r (claim_refund_row now token r)"
    "refund_row_step (claim_refund_row now token r) (claim_and_abandon now token r)"
    "refund_due (now + refund_claimLeaseSeconds * 1000 + 1) (claim_and_abandon now token r)"
    "rf_attemptCount (claim_and_abandon now token r) = rf_attemptCount r"
proof -
  show "refund_row_step r (claim_refund_row now token r)" using assms by (rule refund_row_step.claimed)
  have "refund_stale (now + refund_claimLeaseSeconds * 1000 + 1) (claim_refund_row now token r)"
    by (simp add: refund_stale_def claim_refund_row_def)
  then show "refund_row_step (claim_refund_row now token r) (claim_and_abandon now token r)"
    unfolding claim_and_abandon_def by (rule refund_row_step.released)
qed (simp_all add: claim_and_abandon_def refund_row_ops refund_due_def)

lemma abandoned_for_ever:
  assumes "refund_due now r"
  shows "\<exists>now' r'. (refund_row_step ^^ (2 * n)) r r' \<and> refund_due now' r' \<and> rf_attemptCount r' = rf_attemptCount r"
proof (induction n)
  case 0
  then show ?case using assms by auto
next
  case (Suc n)
  then obtain now' r' where r': "(refund_row_step ^^ (2 * n)) r r'" "refund_due now' r'"
    "rf_attemptCount r' = rf_attemptCount r" by blast
  note s = claim_and_abandon_steps[OF r'(2)]
  have "(refund_row_step ^^ Suc (Suc (2 * n))) r (claim_and_abandon now' [] r')"
    by (rule relpowp_Suc_I[OF relpowp_Suc_I[OF r'(1) s(1)] s(2)])
  then show ?case using s(3,4)[of "[]"] r'(3) by (metis mult_Suc_right add_2_eq_Suc)
qed

section \<open>Never stuck\<close>

lemma unfinished_becomes_due:
  assumes "refund_row_ok r" and "rf_status r \<notin> set TERMINAL_REFUND_STATUSES"
  shows "\<exists>t. \<forall>now\<ge>t. refund_due now r \<or>
     (refund_stale now r \<and> refund_due now (release_refund_row now r))"
proof (cases "rf_status r = Refund_IN_PROGRESS")
  case True
  then obtain l where "rf_leaseExpiresAt r = Some l" using assms(1) by (auto simp: refund_row_ok_def)
  then have "\<forall>now\<ge>l + 1. refund_stale now r \<and> refund_due now (release_refund_row now r)"
    using True by (simp add: refund_stale_def refund_due_def release_refund_row_def)
  then show ?thesis by blast
next
  case False
  then have p: "rf_status r = Refund_PENDING \<or> rf_status r = Refund_RETRY_PENDING"
    using assms(2) by (cases "rf_status r") (simp_all add: TERMINAL_REFUND_STATUSES_def)
  then obtain t where "rf_nextAttemptAt r = Some t" "rf_lockToken r = None"
    using assms(1) by (auto simp: refund_row_ok_def unfinished_def)
  then have "\<forall>now\<ge>t. refund_due now r" using p by (simp add: refund_due_def)
  then show ?thesis by blast
qed

section \<open>What a re-check reads\<close>

text \<open>Once an Order has a refund row, its evaluation does not depend on the disputes.\<close>

lemma evaluate_ignores_disputes:
  assumes "r \<in> set (refunds db)" and "rf_orderId r = el_orderId a"
  shows "evaluateRefundEligibility h a (db\<lparr>disputes := ds\<rparr>) = evaluateRefundEligibility h a db"
proof -
  have f: "find_order (db\<lparr>disputes := ds\<rparr>) k = find_order db k" for k by (simp add: find_order_def)
  have "evaluate_order h a (db\<lparr>disputes := ds\<rparr>) ord = evaluate_order h a db ord"
    if "find_order db (el_orderId a) = Some ord" for ord
  proof -
    have ex: "count_where (\<lambda>r. rf_orderId r = or_id ord) (refunds db) \<noteq> 0"
      using assms find_order_id[OF that] by (auto simp: count_where_0_iff)
    have s: "sale_refusals (db\<lparr>disputes := ds\<rparr>) ord snap st = sale_refusals db ord snap st" for snap st
      using ex by (simp add: sale_refusals_def Let_def isSnapshotReversedIn_def split: option.split)
    have b: "bound_policy h (db\<lparr>disputes := ds\<rparr>) ord = bound_policy h db ord"
      by (simp add: bound_policy_def readSellerRefundPolicyVersionIn_def split: option.split)
    have l: "resolveRefundableOrderLines (db\<lparr>disputes := ds\<rparr>) k = resolveRefundableOrderLines db k"
      "find_order_snapshot (db\<lparr>disputes := ds\<rparr>) k = find_order_snapshot db k"
      "find_settlement (db\<lparr>disputes := ds\<rparr>) k = find_settlement db k" for k
      by (simp_all add: resolveRefundableOrderLines_def f find_order_snapshot_def find_settlement_def)
    show ?thesis by (simp only: evaluate_order_def s b l)
  qed
  then show ?thesis by (simp add: evaluateRefundEligibility_def f split: option.split)
qed

text \<open>A failure written from an earlier read rewrites the row whatever it has become.\<close>

lemma stale_failure_overwrites:
  assumes "find_refund db (rf_id e) = Some r"
  shows "find_refund (fst (resolve_read ids e (Attempt_FAILED code) at db)) (rf_id e) =
     Some (fail_refund_row e code at r)"
proof -
  have id: "rf_id (fail_refund_row e code at x) = rf_id x" for x by (simp add: fail_refund_row_def Let_def)
  have "find_refund (db\<lparr>refunds := update_where (\<lambda>r. rf_id r = rf_id e) (fail_refund_row e code at) (refunds db)\<rparr>)
      (rf_id e) = Some (fail_refund_row e code at r)"
    using assms by (simp add: find_refund_def find_update_where_key[where key = rf_id] id)
  then show ?thesis by (simp add: resolve_read_def failRefundAttempt_def Let_def)
qed

end
