(* ===== verification/Refund_Cycle.thy ===== *)
theory Refund_Cycle
  imports Refund_Retries
begin

text \<open>
  One worker cycle is a history: whatever the providers answer, \<open>runRefundCycle\<close> is a sequence of the
  committed steps of \<open>Refund_History\<close>, so it keeps their invariant, and what it reports adds up.
\<close>

definition reached :: "content_hash \<Rightarrow> market_tables \<Rightarrow> market_tables \<Rightarrow> bool" where
  "reached h db db' \<longleftrightarrow> (market_step h)\<^sup>*\<^sup>* db db'"

lemma reached_refl [simp]: "reached h db db"
  by (simp add: reached_def)

lemma reached_trans: "reached h a b \<Longrightarrow> reached h b c \<Longrightarrow> reached h a c"
  unfolding reached_def by (rule rtranclp_trans)

lemma reached_step: "market_step h a b \<Longrightarrow> reached h a b"
  by (simp add: reached_def r_into_rtranclp)

lemma process_refund_reached:
  assumes "process_refund h sha256 port ids record token at db = (db', r)"
  shows "reached h db db'"
proof -
  have "db' = db \<or> (\<exists>out. resolveRefundAttempt ids (rf_id (rec_row record)) token out at db = (db', r))"
    using assms by (auto simp: process_refund_def executeAndResolve_def Let_def split: sum.split_asm option.split_asm)
  then show ?thesis using reached_step[OF market_step.refund_resolved] by auto
qed

lemma process_tax_reached:
  assumes "process_tax_reversal sha256 taxPort record token at db = (db', r)"
  shows "reached h db db'"
proof -
  have "\<exists>out. resolveTaxReversalAttempt (tv_id record) token out at db = (db', r)"
    using assms by (auto simp: process_tax_reversal_def reverseAndResolve_def split: option.split_asm)
  then show ?thesis using reached_step[OF market_step.tax_resolved] by auto
qed

definition finished :: "half_outcome \<Rightarrow> nat" where
  "finished c = ho_executed c + ho_retryScheduled c + ho_permanentlyFailed c"

lemma count_refund_finished:
  "finished (count_refund r c) \<le> finished c + 1 \<and> ho_claimed (count_refund r c) = ho_claimed c \<and>
     ho_conflicts (count_refund r c) = ho_conflicts c"
  by (auto simp: count_refund_def finished_def Let_def split: sum.split option.split)

lemma count_tax_finished:
  "finished (count_tax r c) \<le> finished c + 1 \<and> ho_claimed (count_tax r c) = ho_claimed c \<and>
     ho_conflicts (count_tax r c) = ho_conflicts c"
  by (auto simp: count_tax_def finished_def Let_def split: sum.split option.split)

lemma refund_batch_reached:
  assumes "refund_batch h sha256 port ids at items db c = (db', c')"
  shows "reached h db db' \<and> finished c' \<le> finished c + length items \<and> ho_claimed c' = ho_claimed c"
  using assms
proof (induction items arbitrary: db c)
  case Nil
  then show ?case by simp
next
  case (Cons item rest)
  obtain rc token where item: "item = (rc, token)" by (cases item)
  obtain db1 r where p: "process_refund h sha256 port (ids (rf_id (rec_row rc))) rc token at db = (db1, r)"
    by (cases "process_refund h sha256 port (ids (rf_id (rec_row rc))) rc token at db")
  have "refund_batch h sha256 port ids at rest db1 (count_refund r c) = (db', c')"
    using Cons.prems by (simp add: item p)
  from Cons.IH[OF this] show ?case
    using reached_trans[OF process_refund_reached[OF p]] count_refund_finished[of r c] by auto
qed

lemma tax_batch_reached:
  assumes "tax_batch sha256 taxPort at items db c = (db', c')"
  shows "reached h db db' \<and> finished c' \<le> finished c + length items \<and> ho_claimed c' = ho_claimed c"
  using assms
proof (induction items arbitrary: db c)
  case Nil
  then show ?case by simp
next
  case (Cons item rest)
  obtain rc token where item: "item = (rc, token)" by (cases item)
  obtain db1 r where p: "process_tax_reversal sha256 taxPort rc token at db = (db1, r)"
    by (cases "process_tax_reversal sha256 taxPort rc token at db")
  have "tax_batch sha256 taxPort at rest db1 (count_tax r c) = (db', c')"
    using Cons.prems by (simp add: item p)
  from Cons.IH[OF this] show ?case
    using reached_trans[OF process_tax_reached[OF p]] count_tax_finished[of r c] by auto
qed

lemma runPaymentRefundHalf_reached:
  assumes "runPaymentRefundHalf h sha256 port ids token at limit db = (db', r)"
  shows "reached h db db' \<and> (\<forall>c. r = Inr c \<longrightarrow> finished c \<le> ho_claimed c)"
proof -
  obtain db1 claim where cl: "claimDueRefunds token at limit db = (db1, claim)"
    by (cases "claimDueRefunds token at limit db")
  have s: "reached h db db1" by (rule reached_step[OF market_step.refunds_claimed[OF cl]])
  show ?thesis
  proof (cases claim)
    case (Inl e)
    then show ?thesis using assms s by (auto simp: runPaymentRefundHalf_def cl)
  next
    case (Inr p)
    obtain claimed conflicts where p: "p = (claimed, conflicts)" by (cases p)
    obtain db2 c where b: "refund_batch h sha256 port ids at claimed db1
        (empty_half\<lparr>ho_claimed := length claimed, ho_conflicts := conflicts\<rparr>) = (db2, c)"
      by (cases "refund_batch h sha256 port ids at claimed db1
        (empty_half\<lparr>ho_claimed := length claimed, ho_conflicts := conflicts\<rparr>)")
    then have "db' = db2" "r = Inr c" using assms by (simp_all add: runPaymentRefundHalf_def cl Inr p)
    then show ?thesis using refund_batch_reached[OF b] reached_trans[OF s] by (auto simp: empty_half_def finished_def)
  qed
qed

lemma runTaxReversalHalf_reached:
  assumes "runTaxReversalHalf sha256 taxPort token at limit db = (db', r)"
  shows "reached h db db' \<and> (\<forall>c. r = Inr c \<longrightarrow> finished c \<le> ho_claimed c)"
proof -
  obtain db1 claim where cl: "claimDueTaxReversals token at limit db = (db1, claim)"
    by (cases "claimDueTaxReversals token at limit db")
  have s: "reached h db db1" by (rule reached_step[OF market_step.taxes_claimed[OF cl]])
  show ?thesis
  proof (cases claim)
    case (Inl e)
    then show ?thesis using assms s by (auto simp: runTaxReversalHalf_def cl)
  next
    case (Inr p)
    obtain claimed conflicts where p: "p = (claimed, conflicts)" by (cases p)
    obtain db2 c where b: "tax_batch sha256 taxPort at claimed db1
        (empty_half\<lparr>ho_claimed := length claimed, ho_conflicts := conflicts\<rparr>) = (db2, c)"
      by (cases "tax_batch sha256 taxPort at claimed db1
        (empty_half\<lparr>ho_claimed := length claimed, ho_conflicts := conflicts\<rparr>)")
    then have "db' = db2" "r = Inr c" using assms by (simp_all add: runTaxReversalHalf_def cl Inr p)
    then show ?thesis using tax_batch_reached[OF b, of h] reached_trans[OF s] by (auto simp: empty_half_def finished_def)
  qed
qed

lemma runRefundCycle_reached:
  assumes "runRefundCycle h sha256 port taxPort ids token taxToken at limit db = (db', r)"
  shows "reached h db db' \<and> (\<forall>out. r = Inr out \<longrightarrow> finished (rcy_payment out) \<le> ho_claimed (rcy_payment out) \<and>
     finished (rcy_tax out) \<le> ho_claimed (rcy_tax out))"
proof -
  let ?limit = "max 1 (min (case limit of None \<Rightarrow> 25 | Some n \<Rightarrow> n) 100)"
  obtain db1 n1 where 1: "recoverStaleRefundClaims at db = (db1, n1)" by (cases "recoverStaleRefundClaims at db")
  obtain db2 n2 where 2: "recoverStaleTaxReversalClaims at db1 = (db2, n2)"
    by (cases "recoverStaleTaxReversalClaims at db1")
  obtain db3 p where 3: "runPaymentRefundHalf h sha256 port ids token at ?limit db2 = (db3, p)"
    by (cases "runPaymentRefundHalf h sha256 port ids token at ?limit db2")
  note h = runPaymentRefundHalf_reached[OF 3]
  have s: "reached h db db3"
    using reached_trans[OF reached_step[OF market_step.refunds_recovered[OF 1]]
        reached_trans[OF reached_step[OF market_step.taxes_recovered[OF 2]]]] h by blast
  show ?thesis
  proof (cases p)
    case (Inl e)
    then show ?thesis using assms s by (auto simp: runRefundCycle_def Let_def 1 2 3)
  next
    case (Inr pc)
    obtain db4 t where 4: "runTaxReversalHalf sha256 taxPort taxToken at ?limit db3 = (db4, t)"
      by (cases "runTaxReversalHalf sha256 taxPort taxToken at ?limit db3")
    then have "db' = db4" "r = chain t (\<lambda>t. Inr \<lparr>rcy_payment = pc, rcy_tax = t,
        rcy_staleClaimsRecovered = n1 + n2, rcy_claimConflicts = ho_conflicts pc + ho_conflicts t\<rparr>)"
      using assms by (simp_all add: runRefundCycle_def Let_def 1 2 3 Inr)
    then show ?thesis using runTaxReversalHalf_reached[OF 4, of h] reached_trans[OF s] h
      by (auto simp: chain_Inr_iff Inr)
  qed
qed

end
