(* ===== verification/Refund_Queue_Properties.thy ===== *)
theory Refund_Queue_Properties
  imports Example_Refund Refund_Cycle
begin

text \<open>
  The properties of the refund queue and of the worker that drains it: what rows may do, who holds
  them, how many attempts they get, and what the checks before an attempt do and do not see.
\<close>

section \<open>Rows\<close>



text \<open>A claimed refund is one worker's.  Whatever ids a second worker selected beforehand, its
  update takes none of the rows the first one holds, and until the lease has run out no recovery
  returns them to the pool; every row a worker holds was due when it was claimed.\<close>

theorem refund_claim_exclusive:
  assumes "r \<in> set (claimed_by rf_lockToken t1 (claim_stamp rf_id refund_due claim_refund_row n1 t1 ids1 rows))"
    and "\<forall>q\<in>set rows. rf_lockToken q \<noteq> Some t1" and "t1 \<noteq> t2"
    and "now \<le> n1 + refund_claimLeaseSeconds * 1000"
  shows "r \<in> set (claimed_by rf_lockToken t1 (release_stale refund_stale release_refund_row now
       (claim_stamp rf_id refund_due claim_refund_row n2 t2 ids2
         (claim_stamp rf_id refund_due claim_refund_row n1 t1 ids1 rows)))) \<and>
     r \<notin> set (claimed_by rf_lockToken t2 (claim_stamp rf_id refund_due claim_refund_row n2 t2 ids2
         (claim_stamp rf_id refund_due claim_refund_row n1 t1 ids1 rows))) \<and>
     (\<exists>q\<in>set rows. refund_due n1 q \<and> rf_id q \<in> set ids1 \<and> r = claim_refund_row n1 t1 q)"
proof -
  obtain q where q: "q \<in> set rows" "rf_id q \<in> set ids1" "refund_due n1 q" "r = claim_refund_row n1 t1 q"
    using refund_queue.claimed_was_due[OF assms(1,2)] by blast
  let ?rows = "claim_stamp rf_id refund_due claim_refund_row n2 t2 ids2
      (claim_stamp rf_id refund_due claim_refund_row n1 t1 ids1 rows)"
  have h: "r \<in> set (claimed_by rf_lockToken t1 ?rows)"
    by (rule refund_queue.claim_exclusive[OF assms(1,3,2)])
  then have "claim_refund_row n1 t1 q \<in> set ?rows" and l: "rf_lockToken r = Some t1"
    by (simp_all add: claimed_by_def q(4))
  from refund_queue.live_claim_kept[OF this(1) assms(4)]
  have "r \<in> set (claimed_by rf_lockToken t1 (release_stale refund_stale release_refund_row now ?rows))"
    using l by (simp add: claimed_by_def q(4))
  moreover have "r \<notin> set (claimed_by rf_lockToken t2 ?rows)"
    using refund_queue.claims_disjoint[OF assms(3), of ?rows] h by blast
  ultimately show ?thesis using q by blast
qed

theorem refund_claim_exclusive_witness:
  "\<exists>r. r \<in> set (claimed_by rf_lockToken ''w1'' (claim_stamp rf_id refund_due claim_refund_row 2000 ''w1'' [''rf1''] (refunds ex_requested))) \<and>
     r \<notin> set (claimed_by rf_lockToken ''w2'' (claim_stamp rf_id refund_due claim_refund_row 2001 ''w2'' [''rf1'']
        (claim_stamp rf_id refund_due claim_refund_row 2000 ''w1'' [''rf1''] (refunds ex_requested))))"
proof -
  have "map rf_id (claimed_by rf_lockToken ''w1'' (claim_stamp rf_id refund_due claim_refund_row 2000 ''w1'' [''rf1''] (refunds ex_requested))) = [''rf1'']"
    by code_simp
  then obtain r where r: "r \<in> set (claimed_by rf_lockToken ''w1'' (claim_stamp rf_id refund_due claim_refund_row 2000 ''w1'' [''rf1''] (refunds ex_requested)))"
    by (auto simp: map_eq_Cons_conv)
  have "\<forall>q\<in>set (refunds ex_requested). rf_lockToken q \<noteq> Some ''w1''" by code_simp
  from refund_claim_exclusive[OF r this, of "''w2''" 2000] r show ?thesis
    by (auto simp: refund_claimLeaseSeconds_def)
qed

section \<open>Attempts\<close>

text \<open>C33: the retries end.  A pending refund whose every attempt fails for a passing reason is retried
  after the scheduled delay until the eighth failure, which is final.\<close>

theorem refund_retries_end:
  assumes "rf_attemptCount r = 0" and "list_all transient (as @ [a])" and "length as < 8"
  shows "rf_attemptCount (fail_all (as @ [a]) r) = length as + 1 \<and>
     rf_status (fail_all (as @ [a]) r) = (if length as < 7 then Refund_RETRY_PENDING else Refund_FAILED_PERMANENT) \<and>
     rf_nextAttemptAt (fail_all (as @ [a]) r) =
       (if length as < 7 then Some (fa_failedAt a + refund_backoffSeconds ! length as * 1000) else None)"
proof -
  have c: "rf_attemptCount (fail_all as r) = length as" using fail_all_count[of as r] assms(1,2) by simp
  have t: "transient a" using assms(2) by simp
  show ?thesis
    using claim_and_fail_row[OF t, of "fail_all as r"] assms(3)
    by (auto simp: fail_all_snoc c refund_maxAttempts_def nextRefundAttemptAt_def nextRefundDelaySeconds_def
        refund_backoffSeconds_def min_def)
qed

definition ex_fail :: "nat \<Rightarrow> failed_attempt" where
  "ex_fail n = \<lparr>fa_claimedAt = int n * 100000, fa_token = ''w'', fa_code = RF_PROVIDER_UNAVAILABLE,
     fa_failedAt = int n * 100000 + 5\<rparr>"

theorem refund_retries_end_witness:
  "rf_status (fail_all (map ex_fail [0..<7] @ [ex_fail 7]) (hd (refunds ex_requested))) = Refund_FAILED_PERMANENT"
proof -
  have "rf_attemptCount (hd (refunds ex_requested)) = 0" by code_simp
  moreover have "list_all transient (map ex_fail [0..<7] @ [ex_fail 7])"
    by (simp add: list_all_iff transient_def ex_fail_def classifyRefundFailure_def)
  ultimately show ?thesis
    using refund_retries_end[of "hd (refunds ex_requested)" "map ex_fail [0..<7]" "ex_fail 7"] by simp
qed

text \<open>An unfinished refund is never stuck: from some instant on it is due, or its claim has expired
  and the recovery that precedes every cycle makes it due.\<close>

theorem unfinished_refund_becomes_due:
  assumes "refund_inv db" and "r \<in> set (refunds db)"
    and "rf_status r \<noteq> REFUNDED" and "rf_status r \<noteq> Refund_FAILED_PERMANENT"
  shows "\<exists>t. \<forall>now. t \<le> now \<longrightarrow> refund_due now r \<or>
     (refund_stale now r \<and> refund_due now (release_refund_row now r))"
proof -
  have "refund_row_ok r" using assms(1,2) by (simp add: refund_inv_def refund_rows_inv_def)
  from unfinished_becomes_due[OF this] assms(3,4) show ?thesis by (simp add: TERMINAL_REFUND_STATUSES_def)
qed

theorem unfinished_refund_becomes_due_witness:
  "\<exists>r\<in>set (refunds ex_requested). \<exists>t. \<forall>now. t \<le> now \<longrightarrow> refund_due now r \<or>
     (refund_stale now r \<and> refund_due now (release_refund_row now r))"
proof -
  obtain r where "r \<in> set (refunds ex_requested)" "rf_status r = Refund_PENDING"
    using ex_rows(1) by (auto simp: map_eq_Cons_conv)
  with unfinished_refund_becomes_due[OF ex_refund_inv(1)] show ?thesis by force
qed

text \<open>A claim that is abandoned costs no attempt: a due row can be claimed by a worker that dies,
  released when the lease expires, and claimed again any number of times, with its attempt count and
  so its remaining retries unchanged.\<close>

theorem abandoned_claims_cost_nothing:
  assumes "refund_due now r"
  shows "\<exists>now' r'. (refund_row_step ^^ (2 * n)) r r' \<and> refund_due now' r' \<and> rf_attemptCount r' = rf_attemptCount r"
  using abandoned_for_ever[OF assms] .

theorem abandoned_claims_cost_nothing_witness:
  "\<exists>r\<in>set (refunds ex_requested). \<exists>r'. (refund_row_step ^^ 40) r r' \<and> rf_attemptCount r' = rf_attemptCount r"
proof -
  have "\<exists>r\<in>set (refunds ex_requested). refund_due 2000 r" by code_simp
  then obtain r where "r \<in> set (refunds ex_requested)" "refund_due 2000 r" by blast
  with abandoned_claims_cost_nothing[of 2000 r 20] show ?thesis by auto
qed

section \<open>Before the provider is called\<close>

text \<open>The check before an attempt does not see disputes: once an Order has its refund row the
  re-evaluation gives the same verdict whatever disputes stand on the sale, opened or lost since.\<close>

theorem execution_check_ignores_disputes:
  assumes "r \<in> set (refunds db)" and "rf_orderId r = rf_orderId (rec_row record)"
  shows "verifyExecutableRefund h record (db\<lparr>disputes := ds\<rparr>) = verifyExecutableRefund h record db"
  using evaluate_ignores_disputes[OF assms(1)] assms(2) by (simp add: verifyExecutableRefund_def Let_def)

definition ex_dispute :: dispute_row where
  "ex_dispute = \<lparr>dp_id = ''d1'', dp_orderId = Some ''ord'', dp_snapshotId = Some ''s1'', dp_provider = ''STRIPE'',
     dp_providerMode = ''TEST'', dp_providerDisputeRef = ''dp_1'', dp_providerTransactionRef = ''pi_1'',
     dp_providerChargeRef = None, dp_disputedAmount = 8800, dp_currency = ''USD'', dp_reasonCode = FRAUDULENT,
     dp_status = Dispute_UNDER_REVIEW, dp_fundsState = NOT_WITHDRAWN, dp_taxConsequence = NOT_ASSESSED,
     dp_economicEffect = Effect_NONE, dp_evidenceDueBy = None, dp_responsePermitted = True,
     dp_evidenceStagedAtProvider = False, dp_evidenceSubmissionCount = 0, dp_evidenceSubmittedPastDue = False,
     dp_chargeStillRefundable = True, dp_remediationCode = None, dp_lastProviderEventAt = 1500,
     dp_openedAt = 1500, dp_fundsWithdrawnAt = None, dp_fundsReinstatedAt = None, dp_closedAt = None,
     dp_recordedAt = 1500, dp_reversalId = None\<rparr>"

definition ex_in_dispute :: market_tables where
  "ex_in_dispute = ex_claimed\<lparr>disputes := [ex_dispute]\<rparr>"

definition ex_record :: refund_record where
  "ex_record = \<lparr>rec_row = hd (refunds ex_claimed), rec_lineRefs = lineRefs_of ex_claimed ''rf1''\<rparr>"

theorem execution_check_ignores_disputes_witness:
  "verifyExecutableRefund ex_hash ex_record ex_in_dispute = Inr None \<and>
     disputeBlockingRefundIn ex_in_dispute ''s1'' = Some SALE_DISPUTE_OPEN"
proof -
  have "refunds ex_claimed \<noteq> []" using ex_rows(2) by auto
  then have "hd (refunds ex_claimed) \<in> set (refunds ex_claimed)" by simp
  from execution_check_ignores_disputes[OF this, of ex_record ex_hash "[ex_dispute]"]
  have "verifyExecutableRefund ex_hash ex_record ex_in_dispute = verifyExecutableRefund ex_hash ex_record ex_claimed"
    by (simp add: ex_in_dispute_def ex_record_def)
  moreover have "verifyExecutableRefund ex_hash ex_record ex_claimed = Inr None" by code_simp
  moreover have "disputeBlockingRefundIn ex_in_dispute ''s1'' = Some SALE_DISPUTE_OPEN"
    by (simp add: disputeBlockingRefundIn_def ex_in_dispute_def ex_dispute_def isDisputeOpen_def NON_TERMINAL_DISPUTE_STATUSES_def)
  ultimately show ?thesis by simp
qed

text \<open>C34: a result that is resolved from an earlier read is written whatever the row has become since.
  The lock token is compared on a read that is not part of the write, so a worker whose lease has
  expired can still turn a refund that another worker has completed back into one to be retried.\<close>

theorem stale_failure_reopens_refund:
  assumes "find_refund db (rf_id e) = Some r" and "rf_status r = REFUNDED"
  shows "\<exists>x. find_refund (fst (resolve_read ids e (Attempt_FAILED code) at db)) (rf_id e) = Some x \<and>
     rf_providerRefundRef x = rf_providerRefundRef r \<and> rf_reversalId x = rf_reversalId r \<and>
     rf_status x \<noteq> REFUNDED \<and>
     (classifyRefundFailure code \<noteq> Class_PERMANENT \<and> rf_attemptCount e + 1 < 8 \<longrightarrow>
        rf_status x = Refund_RETRY_PENDING \<and> (\<exists>now. refund_due now x))"
proof -
  have "refund_due t (fail_refund_row e code at r)"
    if "classifyRefundFailure code \<noteq> Class_PERMANENT" "nextRefundAttemptAt (rf_attemptCount e + 1) at = Some t" for t
    using that by (simp add: refund_due_def fail_refund_row_def Let_def)
  moreover have "\<exists>t. nextRefundAttemptAt (rf_attemptCount e + 1) at = Some t" if "rf_attemptCount e + 1 < 8"
    using refund_retries.next_spent_iff[of "rf_attemptCount e + 1" at] that by (auto simp: refund_maxAttempts_def)
  ultimately show ?thesis unfolding stale_failure_overwrites[OF assms(1)]
    by (intro exI[of _ "fail_refund_row e code at r"]) (auto simp: fail_refund_row_def Let_def)
qed

theorem stale_failure_reopens_refund_witness:
  "\<exists>x. find_refund (fst (resolve_read ex_ids (hd (refunds ex_claimed)) (Attempt_FAILED RF_PROVIDER_UNAVAILABLE) 9000 ex_refunded))
        ''rf1'' = Some x \<and> rf_status x = Refund_RETRY_PENDING"
proof -
  have e: "rf_id (hd (refunds ex_claimed)) = ''rf1'' \<and> rf_attemptCount (hd (refunds ex_claimed)) = 0" by code_simp
  have "case find_refund ex_refunded ''rf1'' of None \<Rightarrow> False | Some r \<Rightarrow> rf_status r = REFUNDED" by code_simp
  then obtain r where "find_refund ex_refunded ''rf1'' = Some r" "rf_status r = REFUNDED" by (auto split: option.splits)
  with stale_failure_reopens_refund[of ex_refunded "hd (refunds ex_claimed)" r ex_ids RF_PROVIDER_UNAVAILABLE 9000] e
  show ?thesis by (auto simp: classifyRefundFailure_def)
qed

text \<open>The tax provider is told to reverse only what Monacado can stand behind: a tax reversal passes
  its check exactly when its refund is completed and of the same Order and currency, and the original
  is the recorded transaction it copied, with the same reference, currency, tax and basis.\<close>

theorem reversible_tax_iff:
  "verifyReversibleTaxReversal db t = None \<longleftrightarrow>
     (\<exists>r original. find_refund db (tv_refundId t) = Some r \<and> rf_orderId r = tv_orderId t \<and>
        rf_status r = REFUNDED \<and> rf_currency r = tv_currency t \<and>
        find_tax_transaction db (tv_taxTransactionId t) = Some original \<and> tt_orderId original = tv_orderId t \<and>
        tt_providerTaxTransactionRef original = Some (tv_originalProviderTaxTransactionRef t) \<and>
        tt_recordingStatus original = RECORDED \<and> tt_currency original = tv_currency t \<and>
        tt_taxAmount original = tv_reversedTaxAmount t \<and> tt_taxableBasis original = tv_reversedTaxableBasis t)"
  by (auto simp: verifyReversibleTaxReversal_def split: option.split)

theorem reversible_tax_iff_witness:
  "list_ex (\<lambda>t. verifyReversibleTaxReversal ex_refunded t = None) (taxReversals ex_refunded) \<and>
   (\<exists>t\<in>set (taxReversals ex_refunded). \<exists>r. find_refund ex_refunded (tv_refundId t) = Some r \<and> rf_status r = REFUNDED)"
proof -
  have l: "list_ex (\<lambda>t. verifyReversibleTaxReversal ex_refunded t = None) (taxReversals ex_refunded)" by code_simp
  then obtain t where t: "t \<in> set (taxReversals ex_refunded)" "verifyReversibleTaxReversal ex_refunded t = None"
    by (auto simp: list_ex_iff)
  from t(2)[unfolded reversible_tax_iff] l t(1) show ?thesis by blast
qed

section \<open>The cycle\<close>




end
