(* ===== verification/Dispute_History.thy ===== *)
theory Dispute_History
  imports Refund_Refinement
begin

text \<open>
  Disputes over histories of all the post-sale services.  A dispute row keeps its identity and moves
  only along the status table; a reversal stands only behind a lost dispute; one fee per dispute,
  and only for a lost one; the event ledger never holds an event twice.
\<close>

section \<open>The invariant\<close>

definition charged_back :: "transaction_reversal list \<Rightarrow> string \<Rightarrow> ident \<Rightarrow> bool" where
  "charged_back revs ref v \<longleftrightarrow> (\<exists>rev\<in>set revs. trv_id rev = v \<and> trv_kind rev = Kind_CHARGEBACK \<and>
     trv_reasonCode rev = DISPUTED_BY_BUYER \<and> trv_providerReversalRef rev = Some ref)"

definition standing_ok ::
  "transaction_reversal list \<Rightarrow> string \<Rightarrow> dispute_status \<Rightarrow> dispute_effect \<Rightarrow> ident option \<Rightarrow> bool" where
  "standing_ok revs ref status effect reversal \<longleftrightarrow>
     (\<forall>v. reversal = Some v \<longrightarrow> status = LOST \<and> charged_back revs ref v) \<and>
     (status \<noteq> LOST \<longrightarrow> effect = Effect_NONE) \<and> (effect = REVERSED_BY_THIS_DISPUTE \<longrightarrow> reversal \<noteq> None)"

definition dispute_ok :: "transaction_reversal list \<Rightarrow> dispute_row \<Rightarrow> bool" where
  "dispute_ok revs r \<longleftrightarrow> TransactionDisputeRecord r \<and>
     standing_ok revs (dp_providerDisputeRef r) (dp_status r) (dp_economicEffect r) (dp_reversalId r)"

definition dispute_ref :: "dispute_row \<Rightarrow> string \<times> string" where
  "dispute_ref r = (dp_provider r, dp_providerDisputeRef r)"

definition event_key :: "dispute_event \<Rightarrow> string \<times> string" where
  "event_key e = (dev_provider e, dev_providerEventId e)"

definition fee_backed :: "dispute_row list \<Rightarrow> chargeback_fee \<Rightarrow> bool" where
  "fee_backed ds f \<longleftrightarrow> (\<exists>r\<in>set ds. dp_id r = cf_disputeId f \<and> dp_status r = LOST)"

definition dispute_rows_inv :: "transaction_reversal list \<Rightarrow> dispute_row list \<Rightarrow> bool" where
  "dispute_rows_inv revs ds \<longleftrightarrow> unique_on dp_id ds \<and> unique_on dispute_ref ds \<and> (\<forall>r\<in>set ds. dispute_ok revs r)"

definition dispute_inv :: "'a market_tables_scheme \<Rightarrow> bool" where
  "dispute_inv db \<longleftrightarrow> dispute_rows_inv (reversals db) (disputes db) \<and>
     unique_on event_key (disputeEvents db) \<and> unique_on cf_disputeId (chargebackFees db) \<and>
     (\<forall>f\<in>set (chargebackFees db). fee_backed (disputes db) f) \<and>
     (\<forall>s\<in>set (snapshots db). opt_all source_ref (sr_orderId s)) \<and>
     (\<forall>k\<in>st_snapshotId ` set (settlements db). source_ref k)"

section \<open>Rows over time\<close>

definition dispute_identity where
  "dispute_identity r = ((dp_id r, dp_provider r, dp_providerMode r, dp_providerDisputeRef r),
     (dp_orderId r, dp_snapshotId r, dp_providerTransactionRef r, dp_providerChargeRef r),
     (dp_disputedAmount r, dp_currency r, dp_reasonCode r, dp_openedAt r, dp_recordedAt r))"

definition dispute_follows :: "dispute_row \<Rightarrow> dispute_row \<Rightarrow> bool" where
  "dispute_follows r r' \<longleftrightarrow> dispute_identity r' = dispute_identity r \<and>
     dispute_lifecycle.moves\<^sup>*\<^sup>* (dp_status r) (dp_status r') \<and>
     dp_lastProviderEventAt r \<le> dp_lastProviderEventAt r' \<and>
     (dp_reversalId r \<noteq> None \<longrightarrow> dp_reversalId r' \<noteq> None)"

lemma dispute_follows_refl [simp]: "dispute_follows r r"
  by (simp add: dispute_follows_def)

lemma dispute_follows_trans: "dispute_follows r s \<Longrightarrow> dispute_follows s t \<Longrightarrow> dispute_follows r t"
  unfolding dispute_follows_def by (metis order_trans rtranclp_trans)

definition disputes_follow :: "dispute_row list \<Rightarrow> dispute_row list \<Rightarrow> bool" where
  "disputes_follow ds ds' \<longleftrightarrow> (\<forall>r\<in>set ds. \<exists>r'\<in>set ds'. dispute_follows r r')"

lemma disputes_follow_refl [simp]: "disputes_follow ds ds"
  unfolding disputes_follow_def using dispute_follows_refl by blast

lemma lost_stays: "dispute_follows r r' \<Longrightarrow> dp_status r = LOST \<Longrightarrow> dp_status r' = LOST"
  using dispute_lifecycle.moves_rtranclp_terminal[of LOST]
  by (simp add: dispute_follows_def isDisputeOpen_def NON_TERMINAL_DISPUTE_STATUSES_def)

lemma dispute_follows_id: "dispute_follows r r' \<Longrightarrow> dp_id r' = dp_id r"
  by (simp add: dispute_follows_def dispute_identity_def)

lemma fee_backed_follow:
  assumes "disputes_follow ds ds'" and "fee_backed ds f"
  shows "fee_backed ds' f"
proof -
  obtain r where r: "r \<in> set ds" "dp_id r = cf_disputeId f" "dp_status r = LOST"
    using assms(2) by (auto simp: fee_backed_def)
  then obtain r' where "r' \<in> set ds'" "dispute_follows r r'" using assms(1) by (auto simp: disputes_follow_def)
  then show ?thesis using r lost_stays dispute_follows_id unfolding fee_backed_def by fastforce
qed

text \<open>The write to an existing row before the consequences, and the one after them.\<close>

lemma observed_dispute_follows:
  assumes "dp_lastProviderEventAt r \<le> dob_occurredAt ob"
    and "nxt = (if isValidDisputeStatusTransition (dp_status r) status then status else dp_status r)"
  shows "dispute_follows r (observed_dispute ob nxt rem r)"
proof -
  have "dispute_lifecycle.moves\<^sup>*\<^sup>* (dp_status r) nxt"
    using assms(2) by (auto simp: isValidDisputeStatusTransition_def dispute_lifecycle.moves_def split: if_split_asm)
  then show ?thesis using assms(1)
    by (simp add: dispute_follows_def observed_dispute_def dispute_identity_def)
qed

lemma conclude_dispute_follows:
  assumes "dp_status r = status" and "dp_reversalId r \<noteq> None \<longrightarrow> cq_reversalId c \<noteq> None"
  shows "dispute_follows r (conclude_dispute status tax rem c r)"
  using assms by (simp add: dispute_follows_def conclude_dispute_def dispute_identity_def)

lemma standing_mono:
  "standing_ok revs ref st e v \<Longrightarrow> set revs \<subseteq> set revs' \<Longrightarrow> standing_ok revs' ref st e v"
  unfolding standing_ok_def charged_back_def by blast

lemma dispute_ok_mono: "dispute_ok revs r \<Longrightarrow> set revs \<subseteq> set revs' \<Longrightarrow> dispute_ok revs' r"
  using standing_mono by (auto simp: dispute_ok_def)

text \<open>A dispute that has not been lost has no reversal and no effect, so it is a sound start for a
  move to any status.\<close>

lemma standing_moved:
  assumes "standing_ok revs ref st e v" and "dispute_lifecycle.moves\<^sup>*\<^sup>* st st'"
  shows "standing_ok revs ref st' e v"
proof (cases "st = LOST")
  case True
  then have "st' = LOST" using assms(2) dispute_lifecycle.moves_rtranclp_terminal[of LOST]
    by (simp add: isDisputeOpen_def NON_TERMINAL_DISPUTE_STATUSES_def)
  then show ?thesis using assms(1) True by simp
next
  case False
  then show ?thesis using assms(1) by (auto simp: standing_ok_def)
qed

section \<open>The consequences\<close>

lemma sale_consequences_tables:
  assumes "sale_consequences fee ids ob at d oid sid snap status c0 db = Inr (db', c)"
  shows "disputes db' = disputes db \<and> disputeEvents db' = disputeEvents db \<and> snapshots db' = snapshots db \<and>
     st_snapshotId ` set (settlements db') = st_snapshotId ` set (settlements db) \<and>
     set (reversals db) \<subseteq> set (reversals db') \<and>
     (unique_on cf_disputeId (chargebackFees db) \<longrightarrow> unique_on cf_disputeId (chargebackFees db')) \<and>
     (\<forall>f\<in>set (chargebackFees db'). f \<in> set (chargebackFees db) \<or> cf_disputeId f = d \<and> status = LOST)"
proof -
  let ?P = "\<lambda>x. disputes x = disputes db \<and> disputeEvents x = disputeEvents db \<and> snapshots x = snapshots db \<and>
     st_snapshotId ` set (settlements x) = st_snapshotId ` set (settlements db) \<and>
     set (reversals db) \<subseteq> set (reversals x) \<and>
     (unique_on cf_disputeId (chargebackFees db) \<longrightarrow> unique_on cf_disputeId (chargebackFees x)) \<and>
     (\<forall>f\<in>set (chargebackFees x). f \<in> set (chargebackFees db) \<or> cf_disputeId f = d)"
  have raise: "?P y" if "?P x" "raiseDisputeRecoveryExceptionsInTx d oid sid at (dsi_precx ids) x = (y, raised)" for x y raised
    using that by (auto simp: raiseDisputeRecoveryExceptionsInTx_def split: prod.split_asm)
  have fee: "?P y" if "?P x" "assessSellerChargebackFeeInTx d oid at (dsi_fee ids) fee x = (y, f)" for x y f
    using that by (auto simp: assessSellerChargebackFeeInTx_def list_ex_iff split: option.split_asm if_split_asm)
  have rev: "?P y" if "?P x" "recordFullReversalInTx (dsi_reversal ids) (chargeback_reversal_input ob sid at) x = Inr (y, r)" for x y r
  proof -
    have y: "y = x\<lparr>reversals := reversals x @ [r], settlements := update_where (\<lambda>s. st_snapshotId s = sid)
        (stamp_settlement REVERSED (dob_occurredAt ob)) (settlements x)\<rparr>"
      using recordFullReversalInTx_row[OF that(2)] by (auto simp: chargeback_reversal_input_def)
    have "map st_snapshotId (settlements y) = map st_snapshotId (settlements x)"
      unfolding y by (simp add: map_update_where)
    from arg_cong[OF this, of set] show ?thesis using that(1) by (auto simp: y)
  qed
  have close: "?P y" if "?P x" "closeDisputeRecoveryExceptionsInTx d at x = (y, closed)" for x y closed
    using that by (auto simp: closeDisputeRecoveryExceptionsInTx_def)
  have all: "?P db'" using assms by (rule sale_consequences_keeps[where P = ?P]) (simp, fact raise, fact fee, fact rev, fact close)
  have "chargebackFees db' = chargebackFees db" if "status \<noteq> LOST"
    using assms that
    by (cases rule: sale_consequences_cases)
       (auto simp: raiseDisputeRecoveryExceptionsInTx_def closeDisputeRecoveryExceptionsInTx_def split: prod.split_asm)
  then show ?thesis using all by (cases "status = LOST") simp_all
qed

lemma sale_consequences_standing:
  assumes ok: "sale_consequences fee ids ob at d oid sid snap status c0 db = Inr (db', c)"
    and start: "standing_ok (reversals db) (dob_providerDisputeRef ob) status (cq_effect c0) (cq_reversalId c0)"
  shows "standing_ok (reversals db') (dob_providerDisputeRef ob) status (cq_effect c) (cq_reversalId c) \<and>
     (cq_reversalId c0 \<noteq> None \<longrightarrow> cq_reversalId c \<noteq> None) \<and>
     (cq_reversalId c = cq_reversalId c0 \<or> cq_reversalId c = Some (dsi_reversal ids))"
proof -
  have grow: "set (reversals db) \<subseteq> set (reversals db')" using sale_consequences_tables[OF ok] by blast
  note start' = standing_mono[OF start grow]
  from ok show ?thesis
  proof (cases rule: sale_consequences_cases)
    case opened
    then show ?thesis using start' by simp
  next
    case (lost c1)
    from lost(4) show ?thesis
    proof (rule lost_consequences_writes)
      fix db1 db2 raised f
      assume "db' = db2 \<and> cq_reversalId c = cq_reversalId c1 \<and> cq_effect c \<noteq> REVERSED_BY_THIS_DISPUTE \<or>
        (\<exists>rev. recordFullReversalInTx (dsi_reversal ids) (chargeback_reversal_input ob sid at) db2 = Inr (db', rev) \<and>
          cq_reversalId c = Some (trv_id rev))"
      then show ?thesis
      proof (elim disjE conjE exE)
        assume "cq_reversalId c = cq_reversalId c1" "cq_effect c \<noteq> REVERSED_BY_THIS_DISPUTE"
        then show ?thesis using start' lost(1,2) by (simp add: standing_ok_def)
      next
        fix rev :: transaction_reversal
        assume r: "recordFullReversalInTx (dsi_reversal ids) (chargeback_reversal_input ob sid at) db2 = Inr (db', rev)"
          and c: "cq_reversalId c = Some (trv_id rev)"
        have "rev \<in> set (reversals db')" "trv_id rev = dsi_reversal ids" "trv_kind rev = Kind_CHARGEBACK"
          "trv_reasonCode rev = DISPUTED_BY_BUYER" "trv_providerReversalRef rev = Some (dob_providerDisputeRef ob)"
          using recordFullReversalInTx_row[OF r] by (auto simp: reversal_row_of_def chargeback_reversal_input_def)
        then have "charged_back (reversals db') (dob_providerDisputeRef ob) (trv_id rev)"
          unfolding charged_back_def by blast
        then show ?thesis using c lost(1) \<open>trv_id rev = dsi_reversal ids\<close> by (simp add: standing_ok_def)
      qed
    qed
  next
    case closed
    then have "status \<noteq> LOST" by auto
    then have none: "cq_reversalId c0 = None" using start by (auto simp: standing_ok_def)
    then show ?thesis using closed(3,4) \<open>status \<noteq> LOST\<close> by (simp add: standing_ok_def)
  qed
qed


section \<open>One observation\<close>

lemma dispute_inv_frame [simp]:
  "dispute_inv (db\<lparr>refunds := x1\<rparr>) = dispute_inv db"
  "dispute_inv (db\<lparr>refundLines := x2\<rparr>) = dispute_inv db"
  "dispute_inv (db\<lparr>taxReversals := x3\<rparr>) = dispute_inv db"
  "dispute_inv (db\<lparr>taxTransactions := x4\<rparr>) = dispute_inv db"
  "dispute_inv (db\<lparr>recoveries := x5\<rparr>) = dispute_inv db"
  "dispute_inv (db\<lparr>feePolicies := x6\<rparr>) = dispute_inv db"
  "dispute_inv (db\<lparr>feePolicyVersions := x7\<rparr>) = dispute_inv db"
  by (simp_all add: dispute_inv_def)

lemma dispute_rows_update:
  assumes inv: "dispute_rows_inv revs ds" and sub: "set revs \<subseteq> set revs'"
    and r: "r \<in> set ds" "dispute_follows r (f r)" "dispute_ok revs' (f r)"
    and keys: "\<And>x. dispute_identity (f x) = dispute_identity x"
  shows "dispute_rows_inv revs' (update_where (\<lambda>x. dp_id x = dp_id r) f ds)"
    and "disputes_follow ds (update_where (\<lambda>x. dp_id x = dp_id r) f ds)"
proof -
  have same: "x = r" if "x \<in> set ds" "dp_id x = dp_id r" for x
    using inv that r(1) unique_on_eq[of dp_id ds] by (auto simp: dispute_rows_inv_def)
  have id: "dp_id (f x) = dp_id x" "dispute_ref (f x) = dispute_ref x" for x
    using keys[of x] by (simp_all add: dispute_identity_def dispute_ref_def)
  have "dispute_ok revs' y" if "y \<in> set (update_where (\<lambda>x. dp_id x = dp_id r) f ds)" for y
    using that
  proof (cases rule: in_update_where_E)
    case old
    then show ?thesis using inv dispute_ok_mono[OF _ sub] by (simp add: dispute_rows_inv_def)
  next
    case (new x)
    then show ?thesis using same r(3) by metis
  qed
  then show "dispute_rows_inv revs' (update_where (\<lambda>x. dp_id x = dp_id r) f ds)"
    using inv by (auto simp: dispute_rows_inv_def id intro!: unique_on_update_where)
  show "disputes_follow ds (update_where (\<lambda>x. dp_id x = dp_id r) f ds)"
    unfolding disputes_follow_def
  proof
    fix x assume x: "x \<in> set ds"
    show "\<exists>y\<in>set (update_where (\<lambda>x. dp_id x = dp_id r) f ds). dispute_follows x y"
    proof (cases "dp_id x = dp_id r")
      case True
      then have "f x \<in> set (update_where (\<lambda>x. dp_id x = dp_id r) f ds)" using x by (auto simp: set_update_where)
      then show ?thesis using r(2) same[OF x True] by blast
    next
      case False
      then have "x \<in> set (update_where (\<lambda>x. dp_id x = dp_id r) f ds)" using x by (force simp: set_update_where)
      then show ?thesis using dispute_follows_refl by blast
    qed
  qed
qed

lemma conclude_identity [simp]: "dispute_identity (conclude_dispute st tax rem c x) = dispute_identity x"
  by (simp add: conclude_dispute_def dispute_identity_def)

lemma observed_identity [simp]: "dispute_identity (observed_dispute ob nxt rem x) = dispute_identity x"
  by (simp add: observed_dispute_def dispute_identity_def)

lemma conclude_observation_inv:
  assumes ok: "conclude_observation fee ids ob at (dp_id r) existing oid sid snap (dp_status r) rem db = Inr (db', out)"
    and inv: "dispute_inv db" and r: "r \<in> set (disputes db)" "dp_providerDisputeRef r = dob_providerDisputeRef ob"
    and prior: "cq_effect (prior_consequences existing rem) = dp_economicEffect r"
      "cq_reversalId (prior_consequences existing rem) = dp_reversalId r"
    and id: "source_ref (dsi_reversal ids)"
  shows "dispute_inv db' \<and> disputes_follow (disputes db) (disputes db')"
  using ok
proof (rule conclude_observation_writes)
  fix db1 c tax rem'
  let ?c0 = "prior_consequences existing rem" and ?f = "conclude_dispute (dp_status r) tax rem' c"
  assume pre: "db1 = db \<and> c = ?c0 \<and> (oid = None \<or> sid = None) \<or> (\<exists>o' s. oid = Some o' \<and> sid = Some s \<and>
      sale_consequences fee ids ob at (dp_id r) o' s snap (dp_status r) ?c0 db = Inr (db1, c))"
    and db': "db' = db1\<lparr>disputes := update_where (\<lambda>x. dp_id x = dp_id r) ?f (disputes db1)\<rparr>"
  have rok: "dispute_ok (reversals db) r" using inv r(1) by (simp add: dispute_inv_def dispute_rows_inv_def)
  have "disputes db1 = disputes db \<and> disputeEvents db1 = disputeEvents db \<and> snapshots db1 = snapshots db \<and>
    st_snapshotId ` set (settlements db1) = st_snapshotId ` set (settlements db) \<and>
    set (reversals db) \<subseteq> set (reversals db1) \<and>
    (unique_on cf_disputeId (chargebackFees db) \<longrightarrow> unique_on cf_disputeId (chargebackFees db1)) \<and>
    (\<forall>f\<in>set (chargebackFees db1). f \<in> set (chargebackFees db) \<or> cf_disputeId f = dp_id r \<and> dp_status r = LOST)"
    using pre
  proof (elim disjE exE conjE)
    fix o' s assume "sale_consequences fee ids ob at (dp_id r) o' s snap (dp_status r) ?c0 db = Inr (db1, c)"
    then show ?thesis by (rule sale_consequences_tables)
  qed simp_all
  then have facts: "disputes db1 = disputes db" "disputeEvents db1 = disputeEvents db" "snapshots db1 = snapshots db"
    "st_snapshotId ` set (settlements db1) = st_snapshotId ` set (settlements db)"
    "set (reversals db) \<subseteq> set (reversals db1)" "unique_on cf_disputeId (chargebackFees db1)"
    "\<forall>f\<in>set (chargebackFees db1). f \<in> set (chargebackFees db) \<or> cf_disputeId f = dp_id r \<and> dp_status r = LOST"
    using inv by (simp_all add: dispute_inv_def)
  have st: "standing_ok (reversals db1) (dob_providerDisputeRef ob) (dp_status r) (cq_effect c) (cq_reversalId c) \<and>
      (dp_reversalId r \<noteq> None \<longrightarrow> cq_reversalId c \<noteq> None) \<and>
      (cq_reversalId c = dp_reversalId r \<or> cq_reversalId c = Some (dsi_reversal ids))"
    using pre
  proof (elim disjE exE conjE)
    fix o' s assume "sale_consequences fee ids ob at (dp_id r) o' s snap (dp_status r) ?c0 db = Inr (db1, c)"
    from sale_consequences_standing[OF this] show ?thesis using rok r(2) prior by (simp add: dispute_ok_def)
  qed (use rok r(2) prior in \<open>simp_all add: dispute_ok_def\<close>)
  have fol: "dispute_follows r (?f r)" using st by (intro conclude_dispute_follows) simp_all
  have "dispute_ok (reversals db1) (?f r)"
    using st rok r(2) id by (auto simp: dispute_ok_def conclude_dispute_def TransactionDisputeRecord_def opt_all_def)
  from dispute_rows_update[where f = ?f, OF _ facts(5) r(1) fol this conclude_identity]
  have rows: "dispute_rows_inv (reversals db1) (disputes db')" "disputes_follow (disputes db) (disputes db')"
    using inv facts(1) by (simp_all add: db' dispute_inv_def)
  have "fee_backed (disputes db') f" if "f \<in> set (chargebackFees db1)" for f
    using facts(7) that
  proof (elim ballE disjE conjE)
    assume "f \<in> set (chargebackFees db)"
    then show ?thesis using inv fee_backed_follow[OF rows(2)] by (simp add: dispute_inv_def)
  next
    assume "cf_disputeId f = dp_id r" "dp_status r = LOST"
    then have "fee_backed (disputes db) f" using r(1) by (auto simp: fee_backed_def)
    then show ?thesis by (rule fee_backed_follow[OF rows(2)])
  qed simp
  then show ?thesis using inv rows facts by (simp add: dispute_inv_def db')
qed


lemma ingest_inv:
  assumes inv: "dispute_inv db" and ok: "ingest_event e db = Inr db'"
  shows "dispute_inv db'"
  using inv ingest_event_Inr[OF ok] by (auto simp: dispute_inv_def event_key_def)

lemma dispute_inv_rows:
  assumes "dispute_inv db" and "dispute_rows_inv (reversals db) ds" and "disputes_follow (disputes db) ds"
  shows "dispute_inv (db\<lparr>disputes := ds\<rparr>)"
  using assms fee_backed_follow[OF assms(3)] by (simp add: dispute_inv_def)

lemma find_dispute_by_ref_mem:
  "find_dispute_by_ref db ob = Some r \<Longrightarrow> r \<in> set (disputes db) \<and> dp_provider r = dob_provider ob \<and>
     dp_providerDisputeRef r = dob_providerDisputeRef ob"
  by (auto simp: find_dispute_by_ref_def dest: find_Some_set)

lemma new_dispute_ok:
  assumes "DisputeObservation ob" and "opt_all source_ref oid" and "opt_all source_ref sid"
  shows "dispute_ok revs (new_dispute i ob oid sid status rem at)"
  using assms
  by (simp add: dispute_ok_def new_dispute_def DisputeObservation_def TransactionDisputeRecord_def standing_ok_def opt_all_def)

lemma attribution_refs:
  assumes "dispute_inv db" and "sid = map_option st_snapshotId (attributed_settlement db ob)"
    and "snap = Option.bind sid (find_snapshot db)" and "oid = Option.bind snap sr_orderId"
  shows "opt_all source_ref sid" "opt_all source_ref oid"
proof -
  show "opt_all source_ref sid"
    using assms(1,2) by (auto simp: dispute_inv_def attributed_settlement_def opt_all_def dest!: find_Some_set
        split: option.split if_split_asm)
  show "opt_all source_ref oid"
    using assms(1,3,4) by (auto simp: dispute_inv_def find_snapshot_def dest!: find_Some_set split: bind_splits)
       (auto simp: opt_all_def)
qed

lemma observe_tx_dispute_inv:
  assumes inv: "dispute_inv db" and ob: "DisputeObservation ob" and id: "source_ref (dsi_reversal ids)"
    and ok: "observe_tx fee ids ob at db = Inr (db', out)"
  shows "dispute_inv db' \<and> disputes_follow (disputes db) (disputes db')"
  using ok
proof (cases rule: observe_tx_cases)
  case replayed
  then show ?thesis using inv by simp
next
  case stale
  then show ?thesis using ingest_inv[OF inv] ingest_event_Inr by fastforce
next
  case (opened settlement sid snap oid rem status row db1)
  let ?ds = "disputes db @ [row]"
  have row: "dispute_ok (reversals db) row"
    using new_dispute_ok[OF ob] attribution_refs[OF inv _ opened(4,5)] opened(2,3,7) by blast
  have "dispute_ref row \<notin> dispute_ref ` set (disputes db)"
    using opened(1,7) by (auto simp: find_dispute_by_ref_def find_None_iff dispute_ref_def new_dispute_def)
  then have "dispute_rows_inv (reversals db) ?ds"
    using inv row opened(8) by (simp add: dispute_inv_def dispute_rows_inv_def)
  moreover have fol: "disputes_follow (disputes db) ?ds"
    unfolding disputes_follow_def by (metis UnI1 dispute_follows_refl set_append)
  ultimately have "dispute_inv (db\<lparr>disputes := ?ds\<rparr>)" by (rule dispute_inv_rows[OF inv])
  then have inv1: "dispute_inv db1" using opened(9) by (rule ingest_inv)
  have ds1: "disputes db1 = ?ds" using ingest_event_Inr[OF opened(9)] by simp
  have r: "dp_id row = dsi_dispute ids" "dp_status row = status" "dp_providerDisputeRef row = dob_providerDisputeRef ob"
    "dp_economicEffect row = Effect_NONE" "dp_reversalId row = None"
    by (simp_all add: opened(7) new_dispute_def)
  have "dispute_inv db' \<and> disputes_follow (disputes db1) (disputes db')"
    using conclude_observation_inv[of fee ids ob at row None oid sid snap rem db1 db' out] opened(10) inv1 id
    by (simp add: r ds1 prior_consequences_def)
  then show ?thesis using fol ds1 unfolding disputes_follow_def by (metis dispute_follows_trans)
next
  case (applied existing settlement sid snap oid rem status nxt db1)
  let ?f = "observed_dispute ob nxt rem"
  let ?ds = "update_where (\<lambda>x. dp_id x = dp_id existing) ?f (disputes db)"
  have e: "existing \<in> set (disputes db)" "dp_providerDisputeRef existing = dob_providerDisputeRef ob"
    using find_dispute_by_ref_mem[OF applied(1)] by simp_all
  have eok: "dispute_ok (reversals db) existing" using inv e(1) by (simp add: dispute_inv_def dispute_rows_inv_def)
  have fol: "dispute_follows existing (?f existing)" by (rule observed_dispute_follows[OF applied(3,9)])
  have f: "dp_status (?f existing) = nxt" "dp_id (?f existing) = dp_id existing"
    "dp_economicEffect (?f existing) = dp_economicEffect existing" "dp_reversalId (?f existing) = dp_reversalId existing"
    "dp_providerDisputeRef (?f existing) = dob_providerDisputeRef ob"
    by (simp_all add: observed_dispute_def e(2))
  have "standing_ok (reversals db) (dp_providerDisputeRef existing) nxt (dp_economicEffect existing) (dp_reversalId existing)"
    using standing_moved[of _ _ "dp_status existing"] eok fol f(1) by (simp add: dispute_ok_def dispute_follows_def)
  moreover have "TransactionDisputeRecord (?f existing)"
    using eok ob by (simp add: dispute_ok_def observed_dispute_def TransactionDisputeRecord_def DisputeObservation_def)
  ultimately have "dispute_ok (reversals db) (?f existing)" by (simp add: dispute_ok_def f e(2))
  from dispute_rows_update[where f = ?f, OF _ subset_refl e(1) fol this observed_identity]
  have rows: "dispute_rows_inv (reversals db) ?ds" "disputes_follow (disputes db) ?ds"
    using inv by (simp_all add: dispute_inv_def)
  have "dispute_inv db1" using ingest_inv[OF dispute_inv_rows[OF inv rows] applied(10)] .
  moreover have ds1: "disputes db1 = ?ds" using ingest_event_Inr[OF applied(10)] by simp
  moreover have "?f existing \<in> set ?ds" using e(1) by (auto simp: set_update_where)
  ultimately have "dispute_inv db' \<and> disputes_follow (disputes db1) (disputes db')"
    using conclude_observation_inv[of fee ids ob at "?f existing" "Some existing" oid sid snap rem db1 db' out] applied(11) id
    by (simp add: f prior_consequences_def)
  then show ?thesis using rows(2) ds1 unfolding disputes_follow_def by (metis dispute_follows_trans)
qed


section \<open>Histories\<close>

text \<open>Every other service leaves the dispute tables alone and only adds reversals.\<close>

definition disputes_framed :: "market_tables \<Rightarrow> market_tables \<Rightarrow> bool" where
  "disputes_framed db db' \<longleftrightarrow> disputes db' = disputes db \<and> disputeEvents db' = disputeEvents db \<and>
     chargebackFees db' = chargebackFees db \<and> snapshots db' = snapshots db \<and>
     st_snapshotId ` set (settlements db') = st_snapshotId ` set (settlements db) \<and>
     set (reversals db) \<subseteq> set (reversals db')"

lemma framed_inv:
  assumes "disputes_framed db db'" and "dispute_inv db"
  shows "dispute_inv db'"
proof -
  have "dispute_rows_inv (reversals db') (disputes db)"
    using assms dispute_ok_mono[of "reversals db" _ "reversals db'"]
    by (auto simp: disputes_framed_def dispute_inv_def dispute_rows_inv_def)
  then show ?thesis using assms by (simp add: disputes_framed_def dispute_inv_def)
qed

lemma reversal_framed:
  assumes "recordFullReversalInTx rid i db = Inr (db', r)"
  shows "disputes_framed db db'"
proof -
  have db': "db' = db\<lparr>reversals := reversals db @ [r], settlements := update_where (\<lambda>s. st_snapshotId s = rvi_snapshotId i)
      (stamp_settlement REVERSED (rvi_occurredAt i)) (settlements db)\<rparr>"
    using recordFullReversalInTx_row[OF assms] by blast
  have "map st_snapshotId (settlements db') = map st_snapshotId (settlements db)"
    unfolding db' by (simp add: map_update_where)
  from arg_cong[OF this, of set] show ?thesis by (auto simp: disputes_framed_def db')
qed

lemma resolve_framed:
  assumes "resolveRefundAttempt ids rid token result at db = (db', r)"
  shows "disputes_framed db db'"
  using assms
proof (cases rule: resolveRefundAttempt_cases)
  case nothing
  then show ?thesis by (simp add: disputes_framed_def)
next
  case (failed e code r')
  then show ?thesis by (auto simp: failRefundAttempt_def Let_def disputes_framed_def)
next
  case (completed e ref createdAt v)
  then obtain db1 and rev :: transaction_reversal and taxes xs where
    r: "recordFullReversalInTx (ids_reversal ids) (refund_reversal_input e ref createdAt at) db = Inr (db1, rev)"
    and db': "db' = db1\<lparr>refunds := update_where (\<lambda>r. rf_id r = rf_id e)
      (complete_refund_row e ref createdAt at (trv_id rev)) (refunds db),
      taxReversals := taxReversals db @ taxes, recoveries := recoveries db @ xs\<rparr>"
    using finalizeRefundInTx_rows by blast
  then show ?thesis using reversal_framed[OF r] by (simp add: disputes_framed_def)
qed

lemma market_step_framed:
  assumes "market_step h db db'"
  shows "disputes_framed db db' \<or> (\<exists>ob ids fee at out. DisputeObservation ob \<and> source_ref (dsi_reversal ids) \<and>
     observe_tx fee ids ob at db = Inr (db', out))"
  using assms
proof cases
  case (requested rid q rec)
  from requestOrderRefund_row[OF requested] show ?thesis by (auto simp: disputes_framed_def)
next
  case (refunds_claimed token now limit r)
  then show ?thesis by (auto simp: claimDueRefunds_def Let_def disputes_framed_def split: if_split_asm)
next
  case refunds_recovered
  then show ?thesis by (auto simp: recoverStaleRefundClaims_def disputes_framed_def)
next
  case refund_resolved
  then show ?thesis using resolve_framed by blast
next
  case taxes_claimed
  then show ?thesis by (auto simp: claimDueTaxReversals_def Let_def disputes_framed_def split: if_split_asm)
next
  case taxes_recovered
  then show ?thesis by (auto simp: recoverStaleTaxReversalClaims_def disputes_framed_def)
next
  case tax_resolved
  then have "disputes_framed db db'"
    by (cases rule: resolveTaxReversalAttempt_cases) (simp_all add: markTaxTransactionReversedInTx_def disputes_framed_def)
  then show ?thesis ..
next
  case dispute_observed
  then show ?thesis by blast
next
  case fee_changed
  then show ?thesis using fee_step_frame by (fastforce simp: disputes_framed_def)
next
  case reversed_otherwise
  then show ?thesis using reversal_framed by simp
qed

lemma market_step_disputes:
  assumes "market_step h db db'" and inv: "dispute_inv db"
  shows "dispute_inv db' \<and> disputes_follow (disputes db) (disputes db')"
  using market_step_framed[OF assms(1)]
proof (elim disjE exE conjE)
  assume "disputes_framed db db'"
  then show ?thesis using framed_inv[OF _ inv] by (simp add: disputes_framed_def)
qed (rule observe_tx_dispute_inv[OF inv])

lemma market_steps_disputes:
  assumes "(market_step h)\<^sup>*\<^sup>* db db'" and "dispute_inv db"
  shows "dispute_inv db' \<and> disputes_follow (disputes db) (disputes db')"
  using assms
proof (induction rule: rtranclp_induct)
  case base
  then show ?case by simp
next
  case (step y z)
  then have "dispute_inv z" "disputes_follow (disputes y) (disputes z)" "disputes_follow (disputes db) (disputes y)"
    using market_step_disputes[OF step.hyps(2)] by blast+
  then show ?case unfolding disputes_follow_def by (meson dispute_follows_trans)
qed

end
