(* ===== verification/Dispute_Loss.thy ===== *)
theory Dispute_Loss
  imports Dispute_History
begin

text \<open>
  A decided loss: the whole effect of the observation that brings it, and what a second event about
  the same loss does to the row.
\<close>

section \<open>The first event\<close>

lemma lost_consequences_full:
  assumes ok: "lost_consequences fee ids ob at d oid sid (Some s) c db = Inr (db', c')"
    and "\<not> isSnapshotReversedIn db sid" and "dob_disputedAmount ob = row_buyer_total s"
  obtains db1 db2 raised f rev where
    "raiseDisputeRecoveryExceptionsInTx d oid sid at (dsi_precx ids) db = (db1, raised)"
    "assessSellerChargebackFeeInTx d oid at (dsi_fee ids) fee db1 = (db2, f)"
    "recordFullReversalInTx (dsi_reversal ids) (chargeback_reversal_input ob sid at) db2 = Inr (db', rev)"
    "c' = c\<lparr>cq_raised := raised, cq_fee := f, cq_reversalId := Some (trv_id rev), cq_effect := REVERSED_BY_THIS_DISPUTE\<rparr>"
proof -
  obtain db1 raised where r: "raiseDisputeRecoveryExceptionsInTx d oid sid at (dsi_precx ids) db = (db1, raised)"
    by (cases "raiseDisputeRecoveryExceptionsInTx d oid sid at (dsi_precx ids) db")
  obtain db2 f where f: "assessSellerChargebackFeeInTx d oid at (dsi_fee ids) fee db1 = (db2, f)"
    by (cases "assessSellerChargebackFeeInTx d oid at (dsi_fee ids) fee db1")
  have "reversals db1 = reversals db" "reversals db2 = reversals db1"
    using r f by (auto simp: raiseDisputeRecoveryExceptionsInTx_def assessSellerChargebackFeeInTx_def
        split: prod.split_asm option.split_asm if_split_asm)
  then have "\<not> isSnapshotReversedIn db2 sid" using assms(2) by (simp add: isSnapshotReversedIn_def)
  then show ?thesis using assms(1,3) that[OF r f]
    by (auto simp: lost_consequences_def r f Let_def chain_Inr_iff)
qed

text \<open>What the fee is, given the policy in force and the Order.\<close>

definition assessed_fee :: "ident \<Rightarrow> ident \<Rightarrow> instant \<Rightarrow> ident \<Rightarrow> active_fee \<Rightarrow> order_row \<Rightarrow> chargeback_fee" where
  "assessed_fee newId d at oid fee ord = \<lparr>cf_id = newId, cf_disputeId = d, cf_orderId = oid,
     cf_sellerParticipantId = or_sellerParticipantId ord, cf_amount = af_amount fee, cf_currency = af_currency fee,
     cf_feePolicyId = af_policyId fee, cf_policyVersion = af_policyVersion fee, cf_state = ASSESSED, cf_assessedAt = at\<rparr>"

definition fees_after ::
  "ident \<Rightarrow> ident \<Rightarrow> instant \<Rightarrow> ident \<Rightarrow> active_fee option \<Rightarrow> 'a market_tables_scheme \<Rightarrow> chargeback_fee list" where
  "fees_after newId d at oid fee db = (case (fee, find_order db oid) of
       (Some a, Some ord) \<Rightarrow>
         if \<exists>f\<in>set (chargebackFees db). cf_id f = newId \<or> cf_disputeId f = d then chargebackFees db
         else chargebackFees db @ [assessed_fee newId d at oid a ord]
     | _ \<Rightarrow> chargebackFees db)"

lemma assess_fees_after:
  "assessSellerChargebackFeeInTx d oid at newId fee db = (db', f) \<Longrightarrow>
     db' = db\<lparr>chargebackFees := fees_after newId d at oid fee db\<rparr>"
  by (auto simp: assessSellerChargebackFeeInTx_def fees_after_def assessed_fee_def list_ex_iff split: option.splits if_split_asm)

lemma raise_recoveries:
  "raiseDisputeRecoveryExceptionsInTx d oid sid at ids db = (db', raised) \<Longrightarrow> \<exists>rs. db' = db\<lparr>recoveries := rs\<rparr>"
  by (auto simp: raiseDisputeRecoveryExceptionsInTx_def split: prod.split_asm)

text \<open>Every claim past the gate ends up with an exception of this cause.\<close>

definition claims_covered :: "ident \<Rightarrow> 'a market_tables_scheme \<Rightarrow> bool" where
  "claims_covered sid db \<longleftrightarrow> (\<forall>b\<in>set (obligations db). pob_snapshotId b = sid \<longrightarrow> pob_state b \<noteq> Obligation_PENDING \<longrightarrow>
     (\<exists>x\<in>set (recoveries db). prx_proceedsObligationId x = pob_id b \<and> prx_causeKind x = Cause_DISPUTE))"

definition fresh_exception_ids :: "(nat \<Rightarrow> ident) \<Rightarrow> 'a market_tables_scheme \<Rightarrow> bool" where
  "fresh_exception_ids ids db \<longleftrightarrow> inj ids \<and> (\<forall>n. ids n \<notin> prx_id ` set (recoveries db))"

lemma raise_covers:
  assumes ok: "raiseDisputeRecoveryExceptionsInTx d oid sid at ids db = (db', raised)"
    and fresh: "fresh_exception_ids ids db"
  shows "claims_covered sid db'"
proof -
  let ?mk = "\<lambda>i b w. dispute_exception i d oid sid at b w"
  obtain rs where r: "raise_skipping ?mk ids (filter (\<lambda>b. pob_snapshotId b = sid) (obligations db)) 0 (recoveries db) = (rs, raised)"
    and db': "db' = db\<lparr>recoveries := rs\<rparr>"
    using ok by (auto simp: raiseDisputeRecoveryExceptionsInTx_def split: prod.split_asm)
  have "\<forall>b\<in>set (filter (\<lambda>b. pob_snapshotId b = sid) (obligations db)). pob_state b \<noteq> Obligation_PENDING \<longrightarrow>
      (pob_id b, Cause_DISPUTE) \<in> exception_key ` set rs"
    by (rule raise_skipping_covers[OF r])
       (use fresh in \<open>auto simp: dispute_exception_def exception_key_def fresh_exception_ids_def\<close>)
  then show ?thesis by (fastforce simp: claims_covered_def db' exception_key_def)
qed

lemma snapshot_row_total: "snapshotRowToRecord s = Inr snap \<Longrightarrow> buyerChargedTotalMinorUnits snap = row_buyer_total s"
  by (auto simp: snapshotRowToRecord_def chain_Inr_iff buyerChargedTotalMinorUnits_def row_buyer_total_def
      narrow_amount_def Let_def split: if_split_asm)


lemma conclude_lost:
  assumes ok: "conclude_observation fee ids ob at d existing (Some oid) (Some sid) (Some s) LOST None db = Inr (db', out)"
    and new: "\<not> isSnapshotReversedIn db sid" and amt: "dob_disputedAmount ob = row_buyer_total s"
  obtains rs db2 db3 rev ds where
    "db2 = db\<lparr>recoveries := rs, chargebackFees := fees_after (dsi_fee ids) d at oid fee db\<rparr>"
    "recordFullReversalInTx (dsi_reversal ids) (chargeback_reversal_input ob sid at) db2 = Inr (db3, rev)"
    "db' = db3\<lparr>disputes := ds\<rparr>"
    "fresh_exception_ids (dsi_precx ids) db \<Longrightarrow> claims_covered sid (db\<lparr>recoveries := rs\<rparr>)"
    "dio_status out = LOST" "dio_economicEffect out = REVERSED_BY_THIS_DISPUTE" "dio_reversalId out = Some (trv_id rev)"
    "dio_disputeId out = d" "dio_taxConsequence out = decideTaxConsequenceInTx (Some oid) LOST False db3"
  using ok
proof (rule conclude_observation_writes)
  fix db1 c tax rem'
  let ?c0 = "prior_consequences existing None"
  assume pre: "db1 = db \<and> c = ?c0 \<and> (Some oid = None \<or> Some sid = None) \<or>
      (\<exists>o' s'. Some oid = Some o' \<and> Some sid = Some s' \<and>
        sale_consequences fee ids ob at d o' s' (Some s) LOST ?c0 db = Inr (db1, c))"
    and db': "db' = db1\<lparr>disputes := update_where (\<lambda>x. dp_id x = d) (conclude_dispute LOST tax rem' c) (disputes db1)\<rparr>"
    and tax: "tax = decideTaxConsequenceInTx (Some oid) LOST (cq_alreadyReversed c) db1"
    and o: "dio_status out = LOST" "dio_reversalId out = cq_reversalId c" "dio_economicEffect out = cq_effect c"
      "dio_disputeId out = d" "dio_taxConsequence out = tax"
  let ?c1 = "?c0\<lparr>cq_held := map pob_id (filter (\<lambda>x. pob_snapshotId x = sid \<and> pob_state x = Obligation_PENDING) (obligations db))\<rparr>"
  have "lost_consequences fee ids ob at d oid sid (Some s) ?c1 db = Inr (db1, c)"
    using pre by (simp add: sale_consequences_def Let_def isDisputeOpen_def NON_TERMINAL_DISPUTE_STATUSES_def)
  from this new amt show thesis
  proof (rule lost_consequences_full)
    fix dba db2 raised f and rev :: transaction_reversal
    assume r: "raiseDisputeRecoveryExceptionsInTx d oid sid at (dsi_precx ids) db = (dba, raised)"
      and f: "assessSellerChargebackFeeInTx d oid at (dsi_fee ids) fee dba = (db2, f)"
      and rv: "recordFullReversalInTx (dsi_reversal ids) (chargeback_reversal_input ob sid at) db2 = Inr (db1, rev)"
      and c: "c = ?c1\<lparr>cq_raised := raised, cq_fee := f, cq_reversalId := Some (trv_id rev), cq_effect := REVERSED_BY_THIS_DISPUTE\<rparr>"
    obtain rs where dba: "dba = db\<lparr>recoveries := rs\<rparr>" using raise_recoveries[OF r] by blast
    have "fees_after (dsi_fee ids) d at oid fee dba = fees_after (dsi_fee ids) d at oid fee db"
      by (simp add: dba fees_after_def find_order_def split: option.split)
    then have db2: "db2 = db\<lparr>recoveries := rs, chargebackFees := fees_after (dsi_fee ids) d at oid fee db\<rparr>"
      using assess_fees_after[OF f] by (simp add: dba)
    show thesis
    proof (rule that[OF db2 rv db'])
      show "claims_covered sid (db\<lparr>recoveries := rs\<rparr>)" if "fresh_exception_ids (dsi_precx ids) db"
        using raise_covers[OF r that] by (simp add: dba)
      show "dio_taxConsequence out = decideTaxConsequenceInTx (Some oid) LOST False db1"
        using o tax by (simp add: c prior_consequences_def)
    qed (use o in \<open>simp_all add: c\<close>)
  qed
qed

text \<open>The observation that decides an open or a new dispute against an attributed sale, for the whole
  amount, before anything else reversed the sale.\<close>

definition decides_loss :: "dispute_observation \<Rightarrow> 'a market_tables_scheme \<Rightarrow> ident \<Rightarrow> ident \<Rightarrow> snapshot_row \<Rightarrow> bool" where
  "decides_loss ob db sid oid s \<longleftrightarrow> dob_status ob = LOST \<and> \<not> dob_providerReportedLivemode ob \<and>
     map_option st_snapshotId (attributed_settlement db ob) = Some sid \<and> find_snapshot db sid = Some s \<and>
     sr_orderId s = Some oid \<and> sr_currency s = dob_currency ob \<and> dob_disputedAmount ob = row_buyer_total s \<and>
     \<not> isSnapshotReversedIn db sid \<and>
     (case find_dispute_by_ref db ob of None \<Rightarrow> True | Some r \<Rightarrow> isDisputeOpen (dp_status r))"

lemma decides_loss_refusal:
  assumes "decides_loss ob db sid oid s"
  shows "intake_refusal ob (attributed_settlement db ob) (Some s) = (None, LOST)"
  using assms by (auto simp: decides_loss_def intake_refusal_def)

lemma loss_observed:
  assumes ok: "observe_tx fee ids ob at db = Inr (db', out)" and a: "dio_applied out" and l: "decides_loss ob db sid oid s"
  obtains existing ds es db0 where "db0 = db\<lparr>disputes := ds, disputeEvents := es\<rparr>"
    "conclude_observation fee ids ob at (dio_disputeId out) existing (Some oid) (Some sid) (Some s) LOST None db0 = Inr (db', out)"
proof -
  have sid: "map_option st_snapshotId (attributed_settlement db ob) = Some sid"
    and bound: "Option.bind (Some sid) (find_snapshot db) = Some s" "Option.bind (Some s) sr_orderId = Some oid"
    using l by (simp_all add: decides_loss_def)
  have did: "dio_disputeId out = d"
    if "conclude_observation fee ids ob at d existing (Some oid) (Some sid) (Some s) LOST None db0 = Inr (db', out)" for d existing db0
    using that by (rule conclude_observation_writes)
  show ?thesis using ok
  proof (cases rule: observe_tx_cases)
    case replayed
    then show ?thesis using a by (simp add: standing_outcome_def)
  next
    case stale
    then show ?thesis using a by (simp add: standing_outcome_def)
  next
    case (opened settlement sid' snap oid' rem status row db1)
    have "sid' = Some sid" "snap = Some s" "oid' = Some oid" "rem = None" "status = LOST"
      using opened(2-6) sid bound decides_loss_refusal[OF l] by simp_all
    then have c: "conclude_observation fee ids ob at (dsi_dispute ids) None (Some oid) (Some sid) (Some s) LOST None db1 = Inr (db', out)"
      using opened(10) by simp
    show ?thesis
      by (rule that[of db1]) (use ingest_event_Inr[OF opened(9)] c did[OF c] in simp_all)
  next
    case (applied existing settlement sid' snap oid' rem status nxt db1)
    have eqs: "sid' = Some sid" "snap = Some s" "oid' = Some oid" "rem = None" "status = LOST"
      using applied(4-8) sid bound decides_loss_refusal[OF l] by simp_all
    have "isDisputeOpen (dp_status existing)" using l applied(1) by (simp add: decides_loss_def)
    then have "nxt = LOST" using applied(9) eqs(5)
      by (cases "dp_status existing") (simp_all add: isDisputeOpen_def NON_TERMINAL_DISPUTE_STATUSES_def isValidDisputeStatusTransition_def)
    then have c: "conclude_observation fee ids ob at (dp_id existing) (Some existing) (Some oid) (Some sid) (Some s) LOST None db1 = Inr (db', out)"
      using applied(11) eqs by simp
    show ?thesis
      by (rule that[of db1]) (use ingest_event_Inr[OF applied(10)] c did[OF c] in simp_all)
  qed
qed


section \<open>A second event about the same loss\<close>

text \<open>It finds the reversal this very dispute recorded.\<close>

lemma lost_again:
  assumes ok: "observe_tx fee ids ob at db = Inr (db', out)" and a: "dio_applied out"
    and d: "find_dispute_by_ref db ob = Some r" "dp_status r = LOST"
    and s: "map_option st_snapshotId (attributed_settlement db ob) = Some sid" "find_snapshot db sid = Some s"
      "sr_orderId s = Some oid" and rev: "isSnapshotReversedIn db sid" and u: "r \<in> set (disputes db)"
  shows "\<exists>r'\<in>set (disputes db'). dp_id r' = dp_id r \<and> dp_status r' = LOST \<and>
     dp_economicEffect r' = Effect_ALREADY_REVERSED_BY_REFUND \<and>
     dp_taxConsequence r' = TaxC_ALREADY_REVERSED_BY_REFUND \<and> dp_reversalId r' = dp_reversalId r \<and>
     reversals db' = reversals db"
  using ok
proof (cases rule: observe_tx_cases)
  case replayed
  then show ?thesis using a by (simp add: standing_outcome_def)
next
  case stale
  then show ?thesis using a by (simp add: standing_outcome_def)
next
  case opened
  then show ?thesis using d by simp
next
  case (applied existing settlement sid' snap oid' rem status nxt db1)
  have e: "existing = r" "sid' = Some sid" "snap = Some s" "oid' = Some oid"
    using applied(1,4-7) d s by simp_all
  have nxt: "nxt = LOST" using applied(9) d(2) e(1)
    by (simp add: isValidDisputeStatusTransition_def)
  obtain es where db1: "db1 = db\<lparr>disputes := update_where (\<lambda>x. dp_id x = dp_id r) (observed_dispute ob LOST rem) (disputes db),
      disputeEvents := es\<rparr>"
    using ingest_event_Inr[OF applied(10)] e(1) nxt by simp
  have "conclude_observation fee ids ob at (dp_id r) (Some r) (Some oid) (Some sid) (Some s) LOST rem db1 = Inr (db', out)"
    using applied(11) e nxt by simp
  then show ?thesis
  proof (rule conclude_observation_writes)
    fix db2 c tax rem'
    let ?c0 = "prior_consequences (Some r) rem"
    let ?c1 = "?c0\<lparr>cq_held := map pob_id (filter (\<lambda>x. pob_snapshotId x = sid \<and> pob_state x = Obligation_PENDING) (obligations db1))\<rparr>"
    assume pre: "db2 = db1 \<and> c = ?c0 \<and> (Some oid = None \<or> Some sid = None) \<or>
        (\<exists>o' s'. Some oid = Some o' \<and> Some sid = Some s' \<and>
          sale_consequences fee ids ob at (dp_id r) o' s' (Some s) LOST ?c0 db1 = Inr (db2, c))"
      and db': "db' = db2\<lparr>disputes := update_where (\<lambda>x. dp_id x = dp_id r) (conclude_dispute LOST tax rem' c) (disputes db2)\<rparr>"
      and tax: "tax = decideTaxConsequenceInTx (Some oid) LOST (cq_alreadyReversed c) db2"
    have lost: "lost_consequences fee ids ob at (dp_id r) oid sid (Some s) ?c1 db1 = Inr (db2, c)"
      using pre by (simp add: sale_consequences_def Let_def isDisputeOpen_def NON_TERMINAL_DISPUTE_STATUSES_def)
    obtain dba raised where ra: "raiseDisputeRecoveryExceptionsInTx (dp_id r) oid sid at (dsi_precx ids) db1 = (dba, raised)"
      by (cases "raiseDisputeRecoveryExceptionsInTx (dp_id r) oid sid at (dsi_precx ids) db1")
    obtain dbb f where fe: "assessSellerChargebackFeeInTx (dp_id r) oid at (dsi_fee ids) fee dba = (dbb, f)"
      by (cases "assessSellerChargebackFeeInTx (dp_id r) oid at (dsi_fee ids) fee dba")
    obtain rs where "dba = db1\<lparr>recoveries := rs\<rparr>" using raise_recoveries[OF ra] by blast
    then have same: "reversals dbb = reversals db" "disputes dbb = disputes db1"
      using assess_fees_after[OF fe] by (simp_all add: db1)
    then have "isSnapshotReversedIn dbb sid" using rev by (simp add: isSnapshotReversedIn_def)
    then have c: "db2 = dbb" "cq_effect c = Effect_ALREADY_REVERSED_BY_REFUND" "cq_alreadyReversed c"
      "cq_reversalId c = dp_reversalId r"
      using lost by (auto simp: lost_consequences_def ra fe Let_def prior_consequences_def)
    have "observed_dispute ob LOST rem r \<in> set (disputes db2)" "dp_id (observed_dispute ob LOST rem r) = dp_id r"
      using u by (auto simp: c(1) same db1 set_update_where observed_dispute_def)
    then have "conclude_dispute LOST tax rem' c (observed_dispute ob LOST rem r) \<in> set (disputes db')"
      by (force simp: db' set_update_where)
    moreover have "tax = TaxC_ALREADY_REVERSED_BY_REFUND" using tax c(3) by (simp add: decideTaxConsequenceInTx_def)
    ultimately show ?thesis using c(2,4) same(1)
      by (intro bexI[of _ "conclude_dispute LOST tax rem' c (observed_dispute ob LOST rem r)"])
         (simp_all add: conclude_dispute_def observed_dispute_def db' c(1))
  qed
qed

section \<open>Replays\<close>

lemma conclude_identities:
  assumes "conclude_observation fee ids ob at d existing oid sid snap status rem db = Inr (db', out)"
  shows "map dispute_identity (disputes db') = map dispute_identity (disputes db) \<and> disputeEvents db' = disputeEvents db"
  using assms
proof (rule conclude_observation_writes)
  fix db1 c tax rem'
  assume pre: "db1 = db \<and> c = prior_consequences existing rem \<and> (oid = None \<or> sid = None) \<or>
      (\<exists>o' s. oid = Some o' \<and> sid = Some s \<and>
        sale_consequences fee ids ob at d o' s snap status (prior_consequences existing rem) db = Inr (db1, c))"
    and db': "db' = db1\<lparr>disputes := update_where (\<lambda>x. dp_id x = d) (conclude_dispute status tax rem' c) (disputes db1)\<rparr>"
  have "disputes db1 = disputes db \<and> disputeEvents db1 = disputeEvents db"
    using pre
  proof (elim disjE exE conjE)
    fix o' s assume "sale_consequences fee ids ob at d o' s snap status (prior_consequences existing rem) db = Inr (db1, c)"
    from sale_consequences_tables[OF this] show ?thesis by simp
  qed simp_all
  then show ?thesis by (simp add: db' map_update_where)
qed

definition dispute_known :: "'a market_tables_scheme \<Rightarrow> dispute_observation \<Rightarrow> bool" where
  "dispute_known db ob \<longleftrightarrow> (dob_provider ob, dob_providerDisputeRef ob) \<in> dispute_ref ` set (disputes db)"

lemma dispute_known_iff: "dispute_known db ob \<longleftrightarrow> find_dispute_by_ref db ob \<noteq> None"
  by (force simp: dispute_known_def find_dispute_by_ref_def find_None_iff dispute_ref_def image_iff)

lemma refs_of_identities: "dispute_ref ` set ds = (\<lambda>((a, b, c, e), x). (b, e)) ` set (map dispute_identity ds)"
  by (simp add: image_image dispute_identity_def dispute_ref_def)

lemma observe_tx_known:
  assumes "observe_tx fee ids ob at db = Inr (db', out)"
  shows "event_known db' ob \<and> dispute_known db' ob \<and> set (disputeEvents db) \<subseteq> set (disputeEvents db')"
  using assms
proof (cases rule: observe_tx_cases)
  case replayed
  then show ?thesis by (simp add: dispute_known_iff)
next
  case (stale existing)
  then have "db' = db\<lparr>disputeEvents := disputeEvents db @ [dispute_event_row (dsi_event ids) (dp_id existing) ob False at]\<rparr>"
    using ingest_event_Inr by blast
  then show ?thesis using stale(1)
    by (auto simp: dispute_known_iff find_dispute_by_ref_def event_known_def dispute_event_row_def)
next
  case (opened settlement sid snap oid rem status row db1)
  note i = ingest_event_Inr[OF opened(9)] and c = conclude_identities[OF opened(10)]
  have "dispute_known db1 ob" using i by (simp add: dispute_known_def dispute_ref_def opened(7) new_dispute_def)
  then have "dispute_known db' ob" using c by (simp add: dispute_known_def refs_of_identities del: set_map)
  then show ?thesis using i c by (auto simp: event_known_def dispute_event_row_def list_ex_iff)
next
  case (applied existing settlement sid snap oid rem status nxt db1)
  note i = ingest_event_Inr[OF applied(10)] and c = conclude_identities[OF applied(11)]
  have "map dispute_identity (disputes db1) = map dispute_identity (disputes db)" using i by (simp add: map_update_where)
  moreover have "dispute_known db ob" using applied(1) by (simp add: dispute_known_iff)
  ultimately have "dispute_known db' ob" using c by (simp add: dispute_known_def refs_of_identities del: set_map)
  then show ?thesis using i c by (auto simp: event_known_def dispute_event_row_def list_ex_iff)
qed

lemma market_step_events:
  assumes "market_step h db db'" and "dispute_inv db"
  shows "set (disputeEvents db) \<subseteq> set (disputeEvents db')"
  using market_step_framed[OF assms(1)] observe_tx_known by (force simp: disputes_framed_def)


lemma event_known_mono: "event_known db ob \<Longrightarrow> set (disputeEvents db) \<subseteq> set (disputeEvents db') \<Longrightarrow> event_known db' ob"
  by (auto simp: event_known_def list_ex_iff)

lemma disputes_follow_refs:
  assumes "disputes_follow ds ds'"
  shows "dispute_ref ` set ds \<subseteq> dispute_ref ` set ds'"
proof
  fix k assume "k \<in> dispute_ref ` set ds"
  then obtain r where r: "r \<in> set ds" "k = dispute_ref r" by blast
  obtain r' where "r' \<in> set ds'" "dispute_follows r r'" using assms r(1) by (auto simp: disputes_follow_def)
  moreover have "dispute_ref r' = k" using calculation(2) r(2) by (simp add: dispute_follows_def dispute_identity_def dispute_ref_def)
  ultimately show "k \<in> dispute_ref ` set ds'" by blast
qed

lemma known_persists:
  assumes "(market_step h)\<^sup>*\<^sup>* db db'" and "dispute_inv db"
  shows "(event_known db ob \<longrightarrow> event_known db' ob) \<and> (dispute_known db ob \<longrightarrow> dispute_known db' ob)"
  using assms
proof (induction rule: rtranclp_induct)
  case (step y z)
  have inv: "dispute_inv y" using market_steps_disputes[OF step.hyps(1) step.prems] by simp
  have "disputes_follow (disputes y) (disputes z)" using market_step_disputes[OF step.hyps(2) inv] by simp
  then have "dispute_ref ` set (disputes y) \<subseteq> dispute_ref ` set (disputes z)" by (rule disputes_follow_refs)
  then show ?case
    using step event_known_mono[OF _ market_step_events[OF step.hyps(2) inv]] by (auto simp: dispute_known_def)
qed simp

end
