(* ===== verification/Example_Dispute.thy ===== *)
theory Example_Dispute
  imports Example_Refund Dispute_Loss
begin

text \<open>
  The paid Order of \<open>Example_Refund\<close> disputed at the bank: a fee version recorded and activated, a
  first observation that asks for a response, then the loss, and a second event about that loss.
\<close>

definition ex_fee_input :: fee_version_input where
  "ex_fee_input = \<lparr>fvi_policyVersion = ''1'', fvi_amount = 3000, fvi_currency = ''USD'', fvi_effectiveFrom = 0,
     fvi_recordedByAccountId = ''acct'', fvi_at = 5, fvi_label = None\<rparr>"

definition ex_fee_recorded :: market_tables where
  "ex_fee_recorded = fst (recordChargebackFeePolicyVersion ''fp'' ex_fee_input ex_ledger)"

definition ex_fee_market :: market_tables where
  "ex_fee_market = after (activateChargebackFeePolicyVersion ''1'' ''acct'' 6 ex_fee_recorded) ex_ledger"

definition ex_dispute_ids :: dispute_ids where
  "ex_dispute_ids = \<lparr>dsi_dispute = ''d1'', dsi_event = ''e1'', dsi_reversal = ''cb1'', dsi_fee = ''cf1'',
     dsi_precx = (\<lambda>n. ''px'' @ replicate n (CHR ''i''))\<rparr>"

definition ex_opening :: dispute_observation where
  "ex_opening = \<lparr>dob_provider = ''STRIPE'', dob_providerMode = ''TEST'', dob_providerDisputeRef = ''dp_1'',
     dob_providerEventId = ''evt_1'', dob_providerTransactionRef = ''pi_1'', dob_providerChargeRef = None,
     dob_eventKind = Event_OPENED, dob_disputedAmount = 8800, dob_currency = ''USD'', dob_reasonCode = FRAUDULENT,
     dob_status = NEEDS_RESPONSE, dob_evidenceDueBy = None, dob_responsePermitted = True,
     dob_evidenceStagedAtProvider = False, dob_evidenceSubmissionCount = 0, dob_evidenceSubmittedPastDue = False,
     dob_chargeStillRefundable = True, dob_openedAt = 300, dob_occurredAt = 300, dob_providerReportedLivemode = False\<rparr>"

definition ex_loss :: dispute_observation where
  "ex_loss = ex_opening\<lparr>dob_providerEventId := ''evt_2'', dob_eventKind := Event_CLOSED, dob_status := LOST,
     dob_occurredAt := 900\<rparr>"

definition ex_withdrawal :: dispute_observation where
  "ex_withdrawal = ex_loss\<lparr>dob_providerEventId := ''evt_3'', dob_eventKind := FUNDS_WITHDRAWN, dob_occurredAt := 910\<rparr>"

definition ex_disputed :: market_tables where
  "ex_disputed = after (recordDisputeObservation ex_dispute_ids ex_opening 310 ex_fee_market) ex_ledger"

definition ex_ids2 :: dispute_ids where
  "ex_ids2 = ex_dispute_ids\<lparr>dsi_event := ''e2'', dsi_precx := (\<lambda>n. ''py'' @ replicate n (CHR ''i''))\<rparr>"

definition ex_lost :: market_tables where
  "ex_lost = after (recordDisputeObservation ex_ids2 ex_loss 920 ex_disputed) ex_ledger"

definition ex_ids3 :: dispute_ids where
  "ex_ids3 = ex_dispute_ids\<lparr>dsi_event := ''e3'', dsi_reversal := ''cb3'', dsi_precx := (\<lambda>n. ''pz'' @ replicate n (CHR ''i''))\<rparr>"

definition ex_lost_again :: market_tables where
  "ex_lost_again = after (recordDisputeObservation ex_ids3 ex_withdrawal 930 ex_lost) ex_ledger"

lemma ex_fee_recorded_ok:
  "\<exists>r. recordChargebackFeePolicyVersion ''fp'' ex_fee_input ex_ledger = (ex_fee_recorded, r)"
  by (simp add: ex_fee_recorded_def prod_eq_iff)

lemma ex_fee_market_ok: "resolveActiveChargebackFeePolicy ex_fee_market =
    Some \<lparr>af_policyId = ''fp'', af_policyVersion = ''1'', af_amount = 3000, af_currency = ''USD''\<rparr>"
  by code_simp

lemma ex_disputed_ok: "\<exists>v. recordDisputeObservation ex_dispute_ids ex_opening 310 ex_fee_market = Inr (ex_disputed, v)"
  unfolding ex_disputed_def by (rule is_ok_after) code_simp

lemma ex_lost_ok: "\<exists>v. recordDisputeObservation ex_ids2 ex_loss 920 ex_disputed = Inr (ex_lost, v)"
  unfolding ex_lost_def by (rule is_ok_after) code_simp

lemma ex_lost_again_ok: "\<exists>v. recordDisputeObservation ex_ids3 ex_withdrawal 930 ex_lost = Inr (ex_lost_again, v)"
  unfolding ex_lost_again_def by (rule is_ok_after) code_simp


lemma ex_fee_activated_ok:
  "\<exists>r. activateChargebackFeePolicyVersion ''1'' ''acct'' 6 ex_fee_recorded = Inr (ex_fee_market, r)"
  unfolding ex_fee_market_def by (rule is_ok_after) code_simp

lemma ex_fee_steps: "fee_policy_step ex_ledger ex_fee_recorded" "fee_policy_step\<^sup>*\<^sup>* ex_fee_recorded ex_fee_market"
  using ex_fee_recorded_ok ex_fee_activated_ok fee_recorded activateChargebackFeePolicyVersion_step by blast+

lemma fee_steps_inv:
  assumes "fee_policy_step\<^sup>*\<^sup>* db db'" and "dispute_inv db" and "refund_inv db"
  shows "dispute_inv db' \<and> refund_inv db'"
  using assms
proof (induction rule: rtranclp_induct)
  case (step y z)
  obtain ps vs where "z = y\<lparr>feePolicies := ps, feePolicyVersions := vs\<rparr>" using fee_step_frame[OF step.hyps(2)] by blast
  then show ?case using step by simp
qed simp

lemma ex_fee_market_inv: "dispute_inv ex_fee_market" "refund_inv ex_fee_market"
proof -
  have "list_all (\<lambda>s. opt_all source_ref (sr_orderId s)) (snapshots ex_ledger)" by code_simp
  then have "dispute_inv ex_ledger"
    by (simp add: dispute_inv_def dispute_rows_inv_def list_all_iff) (simp add: ex_ledger_def source_ref_def)
  moreover have "refund_inv ex_ledger"
    by (simp add: refund_inv_def reversal_inv_def refund_rows_inv_def tax_rows_inv_def ex_ledger_def)
  moreover have "fee_policy_step\<^sup>*\<^sup>* ex_ledger ex_fee_market" using ex_fee_steps by (rule converse_rtranclp_into_rtranclp)
  ultimately show "dispute_inv ex_fee_market" "refund_inv ex_fee_market" using fee_steps_inv by blast+
qed

lemma ex_observations:
  "DisputeObservation ex_opening" "DisputeObservation ex_loss" "DisputeObservation ex_withdrawal"
  "source_ref (dsi_reversal ex_dispute_ids)" "source_ref (dsi_reversal ex_ids2)" "source_ref (dsi_reversal ex_ids3)"
  by code_simp+

lemma observed_step:
  assumes "recordDisputeObservation ids ob at db = Inr (db', out)" and "source_ref (dsi_reversal ids)"
  shows "market_step h db db'"
  using assms by (auto simp: recordDisputeObservation_Inr intro: market_step.dispute_observed)

lemma ex_dispute_steps:
  "(market_step h)\<^sup>*\<^sup>* ex_fee_market ex_disputed" "(market_step h)\<^sup>*\<^sup>* ex_disputed ex_lost"
  "(market_step h)\<^sup>*\<^sup>* ex_fee_market ex_lost" "(market_step h)\<^sup>*\<^sup>* ex_lost ex_lost_again"
proof -
  have s: "market_step h ex_fee_market ex_disputed" "market_step h ex_disputed ex_lost" "market_step h ex_lost ex_lost_again"
    using ex_disputed_ok ex_lost_ok ex_lost_again_ok observed_step ex_observations(4-6) by blast+
  then show "(market_step h)\<^sup>*\<^sup>* ex_fee_market ex_disputed" "(market_step h)\<^sup>*\<^sup>* ex_disputed ex_lost"
    "(market_step h)\<^sup>*\<^sup>* ex_lost ex_lost_again" by (simp_all add: r_into_rtranclp)
  show "(market_step h)\<^sup>*\<^sup>* ex_fee_market ex_lost" using s(1,2) by (meson converse_rtranclp_into_rtranclp r_into_rtranclp)
qed

lemma ex_dispute_rows:
  "map (\<lambda>r. (dp_status r, dp_economicEffect r, dp_reversalId r)) (disputes ex_lost) =
     [(LOST, REVERSED_BY_THIS_DISPUTE, Some ''cb1'')]"
  "map (\<lambda>r. (dp_status r, dp_economicEffect r, dp_reversalId r)) (disputes ex_lost_again) =
     [(LOST, Effect_ALREADY_REVERSED_BY_REFUND, Some ''cb1'')]"
  by code_simp+

end
