(* ===== verification/Example_Pair.thy ===== *)
theory Example_Pair
  imports Example_Dispute
begin

text \<open>
  Two paid Orders over the same Listing: the first is refunded, the second is charged back.  A
  dispute that is attributed too late.  Two fee versions, activated in turn around a slow activation.
\<close>

definition ex_pair :: market_tables where
  "ex_pair = ex_market\<lparr>
     snapshots := [hd (snapshots ex_bound), (hd (snapshots ex_bound))\<lparr>sr_id := ''s2'', sr_orderId := Some ''ord2''\<rparr>],
     settlements := [hd (settlements ex_ledger),
       (hd (settlements ex_ledger))\<lparr>st_snapshotId := ''s2'', st_providerTransactionRef := Some ''pi_2''\<rparr>],
     orders := [ex_order, ex_order\<lparr>or_id := ''ord2''\<rparr>]\<rparr>"

definition ex_pair_loss :: dispute_observation where
  "ex_pair_loss = ex_loss\<lparr>dob_providerTransactionRef := ''pi_2''\<rparr>"

definition ex_pair_lost :: market_tables where
  "ex_pair_lost = after (recordDisputeObservation ex_dispute_ids ex_pair_loss 920 ex_pair) ex_ledger"

definition ex_pair_requested :: market_tables where
  "ex_pair_requested = after (requestOrderRefund ex_hash ''rf1'' ex_request ex_pair_lost) ex_ledger"

definition ex_pair_claimed :: market_tables where
  "ex_pair_claimed = fst (claimDueRefunds ''w1'' 2000 10 ex_pair_requested)"

definition ex_pair_ids :: refund_ids where
  "ex_pair_ids = ex_ids\<lparr>ids_precx := (\<lambda>n. ''pr'' @ replicate n (CHR ''i''))\<rparr>"

definition ex_pair_refunded :: market_tables where
  "ex_pair_refunded = fst (resolveRefundAttempt ex_pair_ids ''rf1'' ''w1'' (Attempt_REFUNDED ''re_1'' 2100) 2200 ex_pair_claimed)"

lemma ex_pair_inv: "refund_inv ex_pair" "dispute_inv ex_pair"
proof -
  have rows: "snapshots ex_bound \<noteq> []" "list_all (\<lambda>s. opt_all source_ref (sr_orderId s)) (snapshots ex_bound)" by code_simp+
  have "opt_all source_ref (sr_orderId (hd (snapshots ex_bound)))" using rows by (cases "snapshots ex_bound") auto
  then show "dispute_inv ex_pair"
    by (simp add: dispute_inv_def dispute_rows_inv_def ex_pair_def ex_market_def ex_ledger_def source_ref_def opt_all_def)
  show "refund_inv ex_pair"
    by (simp add: refund_inv_def reversal_inv_def refund_rows_inv_def tax_rows_inv_def ex_pair_def ex_market_def ex_ledger_def)
qed

lemma ex_pair_lost_ok: "\<exists>v. recordDisputeObservation ex_dispute_ids ex_pair_loss 920 ex_pair = Inr (ex_pair_lost, v)"
  unfolding ex_pair_lost_def by (rule is_ok_after) code_simp

lemma ex_pair_requested_ok: "\<exists>v. requestOrderRefund ex_hash ''rf1'' ex_request ex_pair_lost = Inr (ex_pair_requested, v)"
  unfolding ex_pair_requested_def by (rule is_ok_after) code_simp

lemma ex_pair_steps: "(market_step ex_hash)\<^sup>*\<^sup>* ex_pair ex_pair_refunded"
proof -
  have "market_step ex_hash ex_pair ex_pair_lost"
    using ex_pair_lost_ok observed_step ex_observations(4) by blast
  moreover have "market_step ex_hash ex_pair_lost ex_pair_requested"
    using ex_pair_requested_ok market_step.requested by blast
  moreover have "market_step ex_hash ex_pair_requested ex_pair_claimed"
    by (rule market_step.refunds_claimed) (simp add: ex_pair_claimed_def prod_eq_iff)
  moreover have "market_step ex_hash ex_pair_claimed ex_pair_refunded"
    by (rule market_step.refund_resolved) (simp add: ex_pair_refunded_def prod_eq_iff)
  ultimately show ?thesis by (meson converse_rtranclp_into_rtranclp r_into_rtranclp)
qed

section \<open>A late attribution\<close>

definition ex_unknown_sale :: dispute_observation where
  "ex_unknown_sale = ex_opening\<lparr>dob_providerTransactionRef := ''pi_late''\<rparr>"

definition ex_attributable :: dispute_observation where
  "ex_attributable = ex_opening\<lparr>dob_providerEventId := ''evt_2'', dob_eventKind := FUNDS_WITHDRAWN, dob_occurredAt := 305\<rparr>"

definition ex_unattributed :: market_tables where
  "ex_unattributed = after (recordDisputeObservation ex_dispute_ids ex_unknown_sale 310 ex_fee_market) ex_ledger"

definition ex_late_attributed :: market_tables where
  "ex_late_attributed = after (recordDisputeObservation ex_ids2 ex_attributable 320 ex_unattributed) ex_ledger"

lemma ex_unattributed_ok: "\<exists>v. recordDisputeObservation ex_dispute_ids ex_unknown_sale 310 ex_fee_market = Inr (ex_unattributed, v)"
  unfolding ex_unattributed_def by (rule is_ok_after) code_simp

lemma ex_late_ok: "\<exists>v. recordDisputeObservation ex_ids2 ex_attributable 320 ex_unattributed = Inr (ex_late_attributed, v)"
  unfolding ex_late_attributed_def by (rule is_ok_after) code_simp

lemma ex_late_steps:
  "dispute_inv ex_unattributed" "(market_step ex_hash)\<^sup>*\<^sup>* ex_unattributed ex_late_attributed"
proof -
  have "market_step ex_hash ex_fee_market ex_unattributed" "market_step ex_hash ex_unattributed ex_late_attributed"
    using ex_unattributed_ok ex_late_ok observed_step ex_observations(4,5) by blast+
  then show "dispute_inv ex_unattributed" "(market_step ex_hash)\<^sup>*\<^sup>* ex_unattributed ex_late_attributed"
    using market_step_disputes ex_fee_market_inv(1) by blast+
qed

section \<open>A slow activation\<close>

text \<open>The first version is read while it is a draft; then it is activated, a second version is recorded
  and activated, and only then the transaction of the first read runs.\<close>

definition ex_fee_read :: fee_policy_version where
  "ex_fee_read = hd (feePolicyVersions ex_fee_recorded)"

definition ex_fee_second :: market_tables where
  "ex_fee_second = fst (recordChargebackFeePolicyVersion ''fp''
     (ex_fee_input\<lparr>fvi_policyVersion := ''2'', fvi_amount := 2000, fvi_at := 7\<rparr>) ex_fee_market)"

definition ex_fee_replaced :: market_tables where
  "ex_fee_replaced = after (activateChargebackFeePolicyVersion ''2'' ''acct'' 8 ex_fee_second) ex_ledger"

definition ex_fee_revived :: market_tables where
  "ex_fee_revived = (case fee_activation_tx ex_fee_read ''fp'' ''acct'' 9 ex_fee_replaced of Inr db \<Rightarrow> db | Inl _ \<Rightarrow> ex_ledger)"

lemma ex_fee_revived_ok: "fee_activation_tx ex_fee_read ''fp'' ''acct'' 9 ex_fee_replaced = Inr ex_fee_revived"
proof -
  have "(case fee_activation_tx ex_fee_read ''fp'' ''acct'' 9 ex_fee_replaced of Inr db \<Rightarrow> True | Inl _ \<Rightarrow> False)" by code_simp
  then show ?thesis unfolding ex_fee_revived_def by (auto split: sum.split)
qed

lemma ex_fee_inv: "fee_inv ex_ledger"
  by (simp add: fee_inv_def fee_rows.single_active_def ex_ledger_def)

lemma ex_fee_replaced_inv: "fee_inv ex_fee_replaced"
proof -
  have "\<exists>r. activateChargebackFeePolicyVersion ''2'' ''acct'' 8 ex_fee_second = Inr (ex_fee_replaced, r)"
    unfolding ex_fee_replaced_def by (rule is_ok_after) code_simp
  then have "fee_policy_step\<^sup>*\<^sup>* ex_fee_second ex_fee_replaced" using activateChargebackFeePolicyVersion_step by blast
  moreover have "fee_policy_step ex_fee_market ex_fee_second"
    by (rule fee_recorded) (simp add: ex_fee_second_def prod_eq_iff)
  ultimately have "fee_policy_step\<^sup>*\<^sup>* ex_ledger ex_fee_replaced"
    using ex_fee_steps by (meson converse_rtranclp_into_rtranclp rtranclp_trans)
  then show ?thesis using fee_policy_steps_inv ex_fee_inv by blast
qed

end
