(* ===== verification/Dispute_Properties.thy ===== *)
theory Dispute_Properties
  imports Example_Pair
begin

text \<open>
  The properties of dispute intake and of the chargeback fee, with their witnesses on the runs of
  \<open>Example_Dispute\<close>.
\<close>

section \<open>A loss\<close>

text \<open>C6: when an observation decides an open or new dispute against a sale that nothing has reversed
  yet, for exactly what the buyer was charged, one chargeback entry is appended that returns exactly
  the disputed amount and carries the provider's reference and instant; the settlement is reversed;
  the fee is the one of the policy in force, once per dispute; every claim past the payout gate ends
  up with an exception of this cause; the tax consequence is decided from the recorded tax; and the
  sale, its obligations, the Order, the refunds and the policies are not touched.\<close>

theorem lost_dispute_charges_back:
  assumes "recordDisputeObservation ids ob at db = Inr (db', out)" and "dio_applied out"
    and "decides_loss ob db sid oid s"
  shows "dio_status out = LOST \<and> dio_economicEffect out = REVERSED_BY_THIS_DISPUTE \<and>
     untouched_by_disputes db' = untouched_by_disputes db \<and>
     (\<exists>rev snap. snapshotRowToRecord s = Inr snap \<and> reversals db' = reversals db @ [rev] \<and>
        dio_reversalId out = Some (trv_id rev) \<and> trv_snapshotId rev = sid \<and> trv_orderId rev = oid \<and>
        trv_kind rev = Kind_CHARGEBACK \<and> trv_providerReversalRef rev = Some (dob_providerDisputeRef ob) \<and>
        trv_occurredAt rev = dob_occurredAt ob \<and> trv_amounts rev = snapshot_reversal snap \<and>
        reversedBuyerTotalMinorUnits (trv_amounts rev) = dob_disputedAmount ob) \<and>
     (\<exists>st. find_settlement db' sid = Some st \<and> st_state st = REVERSED) \<and>
     chargebackFees db' = fees_after (dsi_fee ids) (dio_disputeId out) at oid (resolveActiveChargebackFeePolicy db) db \<and>
     (fresh_exception_ids (dsi_precx ids) db \<longrightarrow> claims_covered sid db') \<and>
     dio_taxConsequence out = decideTaxConsequenceInTx (Some oid) LOST False db"
proof -
  let ?fee = "resolveActiveChargebackFeePolicy db"
  have ok: "observe_tx ?fee ids ob at db = Inr (db', out)" using assms(1) by (simp add: recordDisputeObservation_Inr)
  obtain existing ds es db0 where db0: "db0 = db\<lparr>disputes := ds, disputeEvents := es\<rparr>"
    and c: "conclude_observation ?fee ids ob at (dio_disputeId out) existing (Some oid) (Some sid) (Some s) LOST None db0 = Inr (db', out)"
    by (rule loss_observed[OF ok assms(2,3)])
  have l: "\<not> isSnapshotReversedIn db0 sid" "dob_disputedAmount ob = row_buyer_total s" "find_snapshot db sid = Some s"
    "sr_orderId s = Some oid"
    using assms(3) by (simp_all add: decides_loss_def db0 isSnapshotReversedIn_def)
  from c l(1,2) show ?thesis
  proof (rule conclude_lost)
    fix rs db2 db3 ds' and rev :: transaction_reversal
    assume db2: "db2 = db0\<lparr>recoveries := rs, chargebackFees := fees_after (dsi_fee ids) (dio_disputeId out) at oid ?fee db0\<rparr>"
      and rv: "recordFullReversalInTx (dsi_reversal ids) (chargeback_reversal_input ob sid at) db2 = Inr (db3, rev)"
      and db': "db' = db3\<lparr>disputes := ds'\<rparr>"
      and cov: "fresh_exception_ids (dsi_precx ids) db0 \<Longrightarrow> claims_covered sid (db0\<lparr>recoveries := rs\<rparr>)"
      and o: "dio_status out = LOST" "dio_economicEffect out = REVERSED_BY_THIS_DISPUTE"
        "dio_reversalId out = Some (trv_id rev)"
        "dio_taxConsequence out = decideTaxConsequenceInTx (Some oid) LOST False db3"
    obtain snap where snap: "snapshotRowToRecord s = Inr snap"
      and r: "rev = reversal_row_of (dsi_reversal ids) (chargeback_reversal_input ob sid at) oid snap"
      and db3: "db3 = db2\<lparr>reversals := reversals db2 @ [rev], settlements := update_where (\<lambda>x. st_snapshotId x = sid)
          (stamp_settlement REVERSED (dob_occurredAt ob)) (settlements db2)\<rparr>"
      and st: "find_settlement db2 sid \<noteq> None"
      using recordFullReversalInTx_row[OF rv] l(3,4)
      by (auto simp: chargeback_reversal_input_def find_snapshot_def db2 db0)
    have "find_settlement db' sid = map_option (stamp_settlement REVERSED (dob_occurredAt ob)) (find_settlement db2 sid)"
      using find_update_where_key[where key = st_snapshotId and f = "stamp_settlement REVERSED (dob_occurredAt ob)" and k = sid and k' = sid and xs = "settlements db2"]
      by (simp add: db' db3 find_settlement_def)
    then have settled: "\<exists>x. find_settlement db' sid = Some x \<and> st_state x = REVERSED"
      using st by auto
    have "fees_after (dsi_fee ids) (dio_disputeId out) at oid ?fee db0 = fees_after (dsi_fee ids) (dio_disputeId out) at oid ?fee db"
      by (simp add: db0 fees_after_def find_order_def split: option.split)
    then have fees: "chargebackFees db' = fees_after (dsi_fee ids) (dio_disputeId out) at oid ?fee db"
      by (simp add: db' db3 db2)
    have total: "reversedBuyerTotalMinorUnits (snapshot_reversal snap) = dob_disputedAmount ob"
      using snapshot_row_total[OF snap] l(2) full_reversal_buyer_total by simp
    have covered: "fresh_exception_ids (dsi_precx ids) db \<longrightarrow> claims_covered sid db'"
      using cov by (simp add: db0 db' db3 db2 fresh_exception_ids_def claims_covered_def)
    have tax: "decideTaxConsequenceInTx (Some oid) LOST False db3 = decideTaxConsequenceInTx (Some oid) LOST False db"
      by (simp add: decideTaxConsequenceInTx_def find_order_tax_transaction_def find_order_tax_reversal_def db3 db2 db0 split: option.split)
    have rows: "reversals db' = reversals db @ [rev]" by (simp add: db' db3 db2 db0)
    have u: "untouched_by_disputes db' = untouched_by_disputes db" by (rule observe_tx_untouched[OF ok])
    have sale: "\<exists>rev snap. snapshotRowToRecord s = Inr snap \<and> reversals db' = reversals db @ [rev] \<and>
        dio_reversalId out = Some (trv_id rev) \<and> trv_snapshotId rev = sid \<and> trv_orderId rev = oid \<and>
        trv_kind rev = Kind_CHARGEBACK \<and> trv_providerReversalRef rev = Some (dob_providerDisputeRef ob) \<and>
        trv_occurredAt rev = dob_occurredAt ob \<and> trv_amounts rev = snapshot_reversal snap \<and>
        reversedBuyerTotalMinorUnits (trv_amounts rev) = dob_disputedAmount ob"
      by (intro exI[of _ rev] exI[of _ snap])
         (use snap rows total o(3) in \<open>simp add: r reversal_row_of_def chargeback_reversal_input_def\<close>)
    show ?thesis using o u sale settled fees covered tax by simp
  qed
qed

lemma ex_decides: "decides_loss ex_loss ex_disputed ''s1'' ''ord'' (hd (snapshots ex_disputed))"
  unfolding decides_loss_def by code_simp

theorem lost_dispute_charges_back_witness:
  "\<exists>out rev. recordDisputeObservation ex_ids2 ex_loss 920 ex_disputed = Inr (ex_lost, out) \<and>
     reversals ex_lost = reversals ex_disputed @ [rev] \<and> reversedBuyerTotalMinorUnits (trv_amounts rev) = 8800"
proof -
  obtain out where ok: "recordDisputeObservation ex_ids2 ex_loss 920 ex_disputed = Inr (ex_lost, out)"
    using ex_lost_ok by blast
  have "(case recordDisputeObservation ex_ids2 ex_loss 920 ex_disputed of Inr (_, v) \<Rightarrow> dio_applied v | _ \<Rightarrow> False)"
    by code_simp
  then have "dio_applied out" by (simp add: ok)
  from lost_dispute_charges_back[OF ok this ex_decides] ok show ?thesis
    by (auto simp: ex_loss_def ex_opening_def)
qed


section \<open>Histories\<close>

text \<open>C25: over any history of the post-sale services a dispute row keeps its identity (what was disputed,
  where it was attributed), its adjudication only moves along the status table, a decided
  adjudication never changes, and the instant of the last applied event never goes back.\<close>

theorem dispute_moves_forward:
  assumes "dispute_inv db" and "(market_step h)\<^sup>*\<^sup>* db db'" and "r \<in> set (disputes db)"
  shows "\<exists>r'\<in>set (disputes db'). dispute_identity r' = dispute_identity r \<and>
     dispute_lifecycle.moves\<^sup>*\<^sup>* (dp_status r) (dp_status r') \<and>
     (\<not> isDisputeOpen (dp_status r) \<longrightarrow> dp_status r' = dp_status r) \<and>
     dp_lastProviderEventAt r \<le> dp_lastProviderEventAt r'"
proof -
  obtain r' where r': "r' \<in> set (disputes db')" "dispute_follows r r'"
    using market_steps_disputes[OF assms(2,1)] assms(3) by (auto simp: disputes_follow_def)
  then show ?thesis
    using dispute_lifecycle.moves_rtranclp_terminal[of "dp_status r" "dp_status r'"]
    by (intro bexI[of _ r']) (auto simp: dispute_follows_def)
qed

lemma ex_disputed_inv: "dispute_inv ex_disputed" "refund_inv ex_disputed" "dispute_inv ex_lost" "refund_inv ex_lost"
  using market_steps_disputes[OF ex_dispute_steps(1) ex_fee_market_inv(1)]
    market_steps_inv[OF ex_dispute_steps(1) ex_fee_market_inv(2)]
    market_steps_disputes[OF ex_dispute_steps(3) ex_fee_market_inv(1)]
    market_steps_inv[OF ex_dispute_steps(3) ex_fee_market_inv(2)] by blast+

theorem dispute_moves_forward_witness:
  "\<exists>r\<in>set (disputes ex_lost). \<exists>r'\<in>set (disputes ex_lost_again).
     dp_status r = LOST \<and> dp_status r' = LOST \<and> dispute_identity r' = dispute_identity r"
proof -
  have "list_ex (\<lambda>r. dp_status r = LOST) (disputes ex_lost)" by code_simp
  then obtain r where r: "r \<in> set (disputes ex_lost)" "dp_status r = LOST" by (auto simp: list_ex_iff)
  show ?thesis
    using dispute_moves_forward[OF ex_disputed_inv(3) ex_dispute_steps(4) r(1)] r
    by (auto simp: isDisputeOpen_def NON_TERMINAL_DISPUTE_STATUSES_def)
qed

text \<open>C26: in every history a dispute names a reversal only when it was lost, and then it is a chargeback
  entry filed under the dispute's own provider reference; a dispute that was not lost has no effect
  on the sale; and every seller fee belongs to a lost dispute, at most one per dispute.\<close>

theorem chargeback_needs_a_loss:
  assumes "dispute_inv db" and "(market_step h)\<^sup>*\<^sup>* db db'"
  shows "(\<forall>r\<in>set (disputes db'). \<forall>v. dp_reversalId r = Some v \<longrightarrow> dp_status r = LOST \<and>
        (\<exists>rev\<in>set (reversals db'). trv_id rev = v \<and> trv_kind rev = Kind_CHARGEBACK \<and>
           trv_reasonCode rev = DISPUTED_BY_BUYER \<and> trv_providerReversalRef rev = Some (dp_providerDisputeRef r))) \<and>
     (\<forall>r\<in>set (disputes db'). dp_status r \<noteq> LOST \<longrightarrow> dp_economicEffect r = Effect_NONE) \<and>
     unique_on cf_disputeId (chargebackFees db') \<and>
     (\<forall>f\<in>set (chargebackFees db'). \<exists>r\<in>set (disputes db'). dp_id r = cf_disputeId f \<and> chargebackFeeAppliesTo (dp_status r))"
  using market_steps_disputes[OF assms(2,1)]
  by (auto simp: dispute_inv_def dispute_rows_inv_def dispute_ok_def standing_ok_def charged_back_def fee_backed_def
      chargebackFeeAppliesTo_def)

theorem chargeback_needs_a_loss_witness:
  "\<exists>r\<in>set (disputes ex_lost). dp_reversalId r = Some ''cb1'' \<and> dp_status r = LOST"
proof -
  have "list_ex (\<lambda>r. dp_reversalId r = Some ''cb1'') (disputes ex_lost)" by code_simp
  then show ?thesis
    using chargeback_needs_a_loss[OF ex_fee_market_inv(1) ex_dispute_steps(3)] by (auto simp: list_ex_iff)
qed




text \<open>C31: no stored dispute ever becomes unreadable: after any history each row passes the record contract
  its reader parses, so \<open>getDispute\<close> and \<open>listDisputesForOrder\<close> answer for every id and every Order
  instead of throwing.\<close>

theorem dispute_records_readable:
  assumes "dispute_inv db" and "(market_step h)\<^sup>*\<^sup>* db db'"
  shows "(\<forall>r\<in>set (disputes db'). TransactionDisputeRecord r) \<and>
     (\<forall>i. getDispute db' i = Inr (List.find (\<lambda>d. dp_id d = i) (disputes db'))) \<and>
     (\<forall>oid. listDisputesForOrder db' oid =
        Inr (sort_key (\<lambda>d. - dp_openedAt d) (filter (\<lambda>d. dp_orderId d = Some oid) (disputes db'))))"
proof -
  have ok: "TransactionDisputeRecord r" if "r \<in> set (disputes db')" for r
    using market_steps_disputes[OF assms(2,1)] that
    by (auto simp: dispute_inv_def dispute_rows_inv_def dispute_ok_def)
  have get: "getDispute db' i = Inr (List.find (\<lambda>d. dp_id d = i) (disputes db'))" for i
    using ok by (auto simp: getDispute_def dispute_rowToRecord_def dest: find_Some_set split: option.split)
  have "map_res dispute_rowToRecord xs = Inr xs" if "set xs \<subseteq> set (disputes db')" for xs
    using that by (induction xs) (auto simp: dispute_rowToRecord_def ok)
  then have "listDisputesForOrder db' oid =
      Inr (sort_key (\<lambda>d. - dp_openedAt d) (filter (\<lambda>d. dp_orderId d = Some oid) (disputes db')))" for oid
    unfolding listDisputesForOrder_def by (simp add: subset_iff)
  then show ?thesis using ok get by blast
qed

theorem dispute_records_readable_witness:
  "\<exists>r. getDispute ex_lost ''d1'' = Inr (Some r) \<and> dp_status r = LOST"
proof -
  have "map_option dp_status (List.find (\<lambda>d. dp_id d = ''d1'') (disputes ex_lost)) = Some LOST" by code_simp
  then show ?thesis
    using dispute_records_readable[OF ex_fee_market_inv(1) ex_dispute_steps(3)] by auto
qed

text \<open>C18: a bank event is absorbed once.  After an observation has been recorded, and whatever happened
  since, another delivery of the same provider event for the same dispute changes nothing and answers
  with the dispute as it stands, marked as a duplicate.\<close>

theorem replayed_event_absorbed:
  assumes "dispute_inv db" and "source_ref (dsi_reversal ids)"
    and "recordDisputeObservation ids ob at db = Inr (db1, out)" and "(market_step h)\<^sup>*\<^sup>* db1 db2"
    and "DisputeObservation again" and "dob_provider again = dob_provider ob"
    and "dob_providerEventId again = dob_providerEventId ob"
    and "dob_providerDisputeRef again = dob_providerDisputeRef ob"
  shows "\<exists>r\<in>set (disputes db2). dispute_ref r = (dob_provider ob, dob_providerDisputeRef ob) \<and>
     recordDisputeObservation ids' again at' db2 = Inr (db2, standing_outcome r True)"
proof -
  have ok: "DisputeObservation ob" "observe_tx (resolveActiveChargebackFeePolicy db) ids ob at db = Inr (db1, out)"
    using assms(3) by (simp_all add: recordDisputeObservation_Inr)
  have inv1: "dispute_inv db1" using observe_tx_dispute_inv[OF assms(1) ok(1) assms(2) ok(2)] by simp
  have "event_known db1 again" "dispute_known db1 again"
    using observe_tx_known[OF ok(2)] assms(6-8) by (simp_all add: event_known_def dispute_known_def)
  then have k: "event_known db2 again" "dispute_known db2 again"
    using known_persists[OF assms(4) inv1] by blast+
  have inv2: "dispute_inv db2" using market_steps_disputes[OF assms(4) inv1] by simp
  obtain r where r: "find_dispute_by_ref db2 again = Some r" using k(2) by (auto simp: dispute_known_iff)
  note m = find_dispute_by_ref_mem[OF r]
  have "TransactionDisputeRecord r"
    using inv2 m by (auto simp: dispute_inv_def dispute_rows_inv_def dispute_ok_def)
  moreover obtain rem status where "intake_refusal again (attributed_settlement db2 again)
      (Option.bind (map_option st_snapshotId (attributed_settlement db2 again)) (find_snapshot db2)) = (rem, status)"
    by (metis surj_pair)
  ultimately have "recordDisputeObservation ids' again at' db2 = Inr (db2, standing_outcome r True)"
    using k(1) r assms(5)
    by (simp add: recordDisputeObservation_def observe_tx_def Let_def dispute_rowToRecord_def)
  then show ?thesis using m assms(6,8) by (auto simp: dispute_ref_def)
qed

theorem replayed_event_absorbed_witness:
  "\<exists>r. recordDisputeObservation ex_ids3 ex_opening 999 ex_lost = Inr (ex_lost, standing_outcome r True) \<and> dp_status r = LOST"
proof -
  obtain v where v: "recordDisputeObservation ex_dispute_ids ex_opening 310 ex_fee_market = Inr (ex_disputed, v)"
    using ex_disputed_ok by blast
  obtain r where r: "r \<in> set (disputes ex_lost)"
    "recordDisputeObservation ex_ids3 ex_opening 999 ex_lost = Inr (ex_lost, standing_outcome r True)"
    using replayed_event_absorbed[OF ex_fee_market_inv(1) ex_observations(4) v ex_dispute_steps(2) ex_observations(1)
        refl refl refl] by blast
  have "list_all (\<lambda>r. dp_status r = LOST) (disputes ex_lost)" by code_simp
  then show ?thesis using r by (auto simp: list_all_iff)
qed

text \<open>The effect of a decided loss does not stay on record.  A later event about the same lost dispute
  meets the reversal this dispute itself made, and rewrites its own row: the effect and the tax
  consequence become "already reversed by a refund", although the row still names its own
  chargeback entry and no entry was added.\<close>

theorem second_loss_event_overwrites:
  assumes "recordDisputeObservation ids ob at db = Inr (db', out)" and "dio_applied out"
    and "find_dispute_by_ref db ob = Some r" and "dp_status r = LOST" and "dp_economicEffect r = REVERSED_BY_THIS_DISPUTE"
    and "map_option st_snapshotId (attributed_settlement db ob) = Some sid" and "find_snapshot db sid = Some s"
    and "sr_orderId s = Some oid" and "isSnapshotReversedIn db sid"
  shows "\<exists>r'\<in>set (disputes db'). dp_id r' = dp_id r \<and> dp_status r' = LOST \<and>
     dp_economicEffect r' = Effect_ALREADY_REVERSED_BY_REFUND \<and>
     dp_taxConsequence r' = TaxC_ALREADY_REVERSED_BY_REFUND \<and> dp_reversalId r' = dp_reversalId r \<and>
     reversals db' = reversals db"
proof -
  have "observe_tx (resolveActiveChargebackFeePolicy db) ids ob at db = Inr (db', out)"
    using assms(1) by (simp add: recordDisputeObservation_Inr)
  then show ?thesis
    using lost_again assms(2-4,6-9) find_dispute_by_ref_mem[OF assms(3)] by blast
qed

theorem second_loss_event_overwrites_witness:
  "\<exists>r'\<in>set (disputes ex_lost_again). dp_status r' = LOST \<and> dp_reversalId r' = Some ''cb1'' \<and>
     dp_economicEffect r' = Effect_ALREADY_REVERSED_BY_REFUND \<and> refunds ex_lost_again = []"
proof -
  obtain out where ok: "recordDisputeObservation ex_ids3 ex_withdrawal 930 ex_lost = Inr (ex_lost_again, out)"
    using ex_lost_again_ok by blast
  have "(case recordDisputeObservation ex_ids3 ex_withdrawal 930 ex_lost of Inr (_, v) \<Rightarrow> dio_applied v | _ \<Rightarrow> False)"
    by code_simp
  then have a: "dio_applied out" by (simp add: ok)
  have "map_option (\<lambda>r. (dp_status r, dp_economicEffect r, dp_reversalId r)) (find_dispute_by_ref ex_lost ex_withdrawal) =
      Some (LOST, REVERSED_BY_THIS_DISPUTE, Some ''cb1'')" by code_simp
  then obtain r where r: "find_dispute_by_ref ex_lost ex_withdrawal = Some r" "dp_status r = LOST"
    "dp_economicEffect r = REVERSED_BY_THIS_DISPUTE" "dp_reversalId r = Some ''cb1''" by auto
  have "map_option (\<lambda>s. sr_orderId s) (find_snapshot ex_lost ''s1'') = Some (Some ''ord'')" by code_simp
  then obtain s where s: "find_snapshot ex_lost ''s1'' = Some s" "sr_orderId s = Some ''ord''" by auto
  have t: "map_option st_snapshotId (attributed_settlement ex_lost ex_withdrawal) = Some ''s1''"
    "isSnapshotReversedIn ex_lost ''s1''" "refunds ex_lost_again = []" by code_simp+
  show ?thesis using second_loss_event_overwrites[OF ok a r(1-3) t(1) s t(2)] r(4) t(3) by auto
qed

text \<open>Attribution is decided once, at the first event.  A dispute recorded without a snapshot keeps none
  over any history, although each later event is attributed afresh and acts on the sale it resolves
  to; since the refund check looks disputes up by snapshot, its answer is as if the dispute were not
  there.\<close>

theorem unattributed_dispute_never_blocks:
  assumes "dispute_inv db" and "(market_step h)\<^sup>*\<^sup>* db db'" and "r \<in> set (disputes db)" and "dp_snapshotId r = None"
  shows "\<exists>r'\<in>set (disputes db'). dp_id r' = dp_id r \<and> dp_orderId r' = dp_orderId r \<and> dp_snapshotId r' = None \<and>
     (\<forall>sid. disputeBlockingRefundIn db' sid =
        disputeBlockingRefundIn (db'\<lparr>disputes := filter (\<lambda>d. dp_id d \<noteq> dp_id r) (disputes db')\<rparr>) sid)"
proof -
  have inv: "dispute_inv db'" and "disputes_follow (disputes db) (disputes db')"
    using market_steps_disputes[OF assms(2,1)] by simp_all
  then obtain r' where r': "r' \<in> set (disputes db')" "dispute_follows r r'"
    using assms(3) by (auto simp: disputes_follow_def)
  then have i: "dp_id r' = dp_id r" "dp_orderId r' = dp_orderId r" "dp_snapshotId r' = None"
    using assms(4) by (auto simp: dispute_follows_def dispute_identity_def)
  have "dp_snapshotId d = None" if "d \<in> set (disputes db')" "dp_id d = dp_id r" for d
    using inv that r'(1) i unique_on_eq[of dp_id "disputes db'" d r']
    by (auto simp: dispute_inv_def dispute_rows_inv_def)
  then have "filter (\<lambda>d. dp_snapshotId d = Some sid) (filter (\<lambda>d. dp_id d \<noteq> dp_id r) (disputes db')) =
      filter (\<lambda>d. dp_snapshotId d = Some sid) (disputes db')" for sid
    by (auto simp: filter_filter intro!: filter_cong)
  then show ?thesis using r'(1) i by (auto simp: disputeBlockingRefundIn_def intro!: bexI[of _ r'])
qed

theorem unattributed_dispute_never_blocks_witness:
  "(\<exists>r\<in>set (disputes ex_late_attributed). dp_snapshotId r = None \<and> isDisputeOpen (dp_status r)) \<and>
   (\<forall>sid. disputeBlockingRefundIn ex_late_attributed sid = None) \<and>
   (\<exists>out. recordDisputeObservation ex_ids2 ex_attributable 320 ex_unattributed = Inr (ex_late_attributed, out) \<and>
      dio_applied out \<and> \<not> dio_unattributed out)"
proof -
  have "list_ex (\<lambda>r. dp_id r = ''d1'' \<and> dp_snapshotId r = None) (disputes ex_unattributed)" by code_simp
  then obtain r where r: "r \<in> set (disputes ex_unattributed)" "dp_id r = ''d1''" "dp_snapshotId r = None"
    by (auto simp: list_ex_iff)
  have rows: "filter (\<lambda>d. dp_id d \<noteq> ''d1'') (disputes ex_late_attributed) = []"
    "list_all (\<lambda>r. isDisputeOpen (dp_status r)) (disputes ex_late_attributed)" by code_simp+
  obtain r' where r': "r' \<in> set (disputes ex_late_attributed)" "dp_snapshotId r' = None"
    "\<forall>sid. disputeBlockingRefundIn ex_late_attributed sid = None"
    using unattributed_dispute_never_blocks[OF ex_late_steps(1,2) r(1,3)] r(2) rows(1)
    by (auto simp: disputeBlockingRefundIn_def)
  have "(case recordDisputeObservation ex_ids2 ex_attributable 320 ex_unattributed of
      Inr (_, v) \<Rightarrow> dio_applied v \<and> \<not> dio_unattributed v | _ \<Rightarrow> False)" by code_simp
  then show ?thesis using ex_late_ok r' rows(2) by (auto simp: list_all_iff)
qed

section \<open>The seller's fee\<close>

text \<open>At most one fee version is in force over any history of drafts and activations, even activations
  decided on an earlier read; what was recorded under a version is never changed; so the fee a lost
  dispute is charged is the amount that was recorded for that version when it was drafted.\<close>

theorem fee_in_force_as_recorded:
  assumes "fee_inv db" and "fee_policy_step\<^sup>*\<^sup>* db db'"
  shows "count_where (\<lambda>v. fpv_policyId v = p \<and> fpv_status v = Policy_ACTIVE) (feePolicyVersions db') \<le> 1 \<and>
     (\<exists>new. map fpv_facts (feePolicyVersions db') = map fpv_facts (feePolicyVersions db) @ new) \<and>
     (\<forall>fee v. resolveActiveChargebackFeePolicy db' = Some fee \<and> v \<in> set (feePolicyVersions db) \<and>
        fpv_key v = (af_policyId fee, af_policyVersion fee) \<longrightarrow> af_amount fee = fpv_amount v \<and> af_currency fee = fpv_currency v)"
proof -
  have inv: "fee_inv db'" and facts: "\<exists>new. map fpv_facts (feePolicyVersions db') = map fpv_facts (feePolicyVersions db) @ new"
    using fee_policy_steps_inv[OF assms(2,1)] by simp_all
  have "af_amount fee = fpv_amount v \<and> af_currency fee = fpv_currency v"
    if fee: "resolveActiveChargebackFeePolicy db' = Some fee" "v \<in> set (feePolicyVersions db)"
      "fpv_key v = (af_policyId fee, af_policyVersion fee)" for fee v
  proof -
    obtain w where w: "w \<in> set (feePolicyVersions db')" "fpv_key w = (af_policyId fee, af_policyVersion fee)"
      "fpv_amount w = af_amount fee" "fpv_currency w = af_currency fee"
      using resolved_fee_recorded[OF fee(1)] by blast
    obtain new where "map fpv_facts (feePolicyVersions db') = map fpv_facts (feePolicyVersions db) @ new" using facts by blast
    moreover have "fpv_facts v \<in> set (map fpv_facts (feePolicyVersions db))" using fee(2) by simp
    ultimately have "fpv_facts v \<in> set (map fpv_facts (feePolicyVersions db'))" by simp
    then obtain v' where v': "v' \<in> set (feePolicyVersions db')" "fpv_facts v' = fpv_facts v" by auto
    then have "v' = w"
      using inv w(1,2) fee(3) unique_on_eq[of fpv_key "feePolicyVersions db'" v' w] by (simp add: fee_inv_def fpv_facts_def)
    then show ?thesis using v'(2) w(3,4) by (simp add: fpv_facts_def)
  qed
  moreover have "count_where (\<lambda>v. fpv_policyId v = p \<and> fpv_status v = Policy_ACTIVE) (feePolicyVersions db') \<le> 1"
    using inv fee_rows.single_active_count[of "feePolicyVersions db'" p] by (simp add: fee_inv_def)
  ultimately show ?thesis using facts by blast
qed

theorem fee_in_force_as_recorded_witness:
  "(\<exists>fee. resolveActiveChargebackFeePolicy ex_fee_market = Some fee \<and> af_amount fee = 3000) \<and> feePolicyVersions ex_fee_recorded \<noteq> []"
proof -
  have inv: "fee_inv ex_fee_recorded"
    using fee_policy_step_inv[OF ex_fee_steps(1)] ex_fee_inv by blast
  have "list_ex (\<lambda>v. fpv_key v = (''fp'', ''1'') \<and> fpv_amount v = 3000) (feePolicyVersions ex_fee_recorded)" by code_simp
  then obtain v where v: "v \<in> set (feePolicyVersions ex_fee_recorded)" "fpv_key v = (''fp'', ''1'')" "fpv_amount v = 3000"
    by (auto simp: list_ex_iff)
  then show ?thesis
    using fee_in_force_as_recorded[OF inv ex_fee_steps(2)] ex_fee_market_ok by fastforce
qed

text \<open>Retirement of a fee version is not final.  An activation that read its version as a draft before
  another activation put it in force and a third retired it brings it back: the version is active
  again, with the retirement still on its row, and it is the one that is resolved.\<close>

theorem stale_activation_revives_fee:
  assumes "fee_inv db" and "t \<in> set (feePolicyVersions db)" and "fpv_status t = Policy_RETIRED"
    and "fpv_seq target = fpv_seq t" and "fee_activation_tx target pid actor at db = Inr db'"
  shows "\<exists>v\<in>set (feePolicyVersions db'). fpv_key v = fpv_key t \<and> fpv_status v = Policy_ACTIVE \<and>
     fpv_activeMarker v = Some pid \<and> fpv_retiredAt v = fpv_retiredAt t"
proof -
  have "activate_fee_version pid actor at t \<in> set (feePolicyVersions db')"
    by (rule stale_activation_revives[OF assms])
  then show ?thesis
    by (intro bexI[of _ "activate_fee_version pid actor at t"]) (simp_all add: activate_fee_version_def fpv_key_def)
qed

theorem stale_activation_revives_fee_witness:
  "\<exists>v\<in>set (feePolicyVersions ex_fee_revived). fpv_key v = (''fp'', ''1'') \<and> fpv_status v = Policy_ACTIVE \<and> fpv_retiredAt v = Some 8"
proof -
  have "list_ex (\<lambda>v. fpv_key v = (''fp'', ''1'') \<and> fpv_status v = Policy_RETIRED \<and> fpv_retiredAt v = Some 8 \<and> fpv_seq v = fpv_seq ex_fee_read)
      (feePolicyVersions ex_fee_replaced)" by code_simp
  then obtain t where t: "t \<in> set (feePolicyVersions ex_fee_replaced)" "fpv_status t = Policy_RETIRED"
    "fpv_key t = (''fp'', ''1'')" "fpv_retiredAt t = Some 8" "fpv_seq ex_fee_read = fpv_seq t"
    by (auto simp: list_ex_iff)
  show ?thesis
    using stale_activation_revives_fee[OF ex_fee_replaced_inv t(1,2,5) ex_fee_revived_ok] t(3,4) by auto
qed

end
