(* ===== verification/Entitlement_Governance.thy ===== *)
theory Entitlement_Governance
  imports Internal_Authorization
begin

text \<open>
  Who may hold what: \<open>src/contracts/account/entitlement-governance.ts\<close> and
  \<open>src/server/account/entitlement-governance-service.ts\<close>.  The first governor is bootstrapped once;
  every later change is made by a governor, on a short list of capabilities, and each change is one
  act in a ledger beside the current-state row.  The row locks of the source serialise the
  transactions, which the model has as its steps.
\<close>

section \<open>The contract\<close>

definition FIRST_GRANT_BOOTSTRAP_CAPABILITIES :: "string list" where
  "FIRST_GRANT_BOOTSTRAP_CAPABILITIES = [''entitlement:govern'']"

definition ENTITLEMENT_GOVERNED_CAPABILITIES :: "string list" where
  "ENTITLEMENT_GOVERNED_CAPABILITIES = [''commercial-policy:govern'', ''marketplace-policy:govern'',
     ''product:tax-classify'', ''participant:commerce-approve'', ''risk-policy:govern'']"

definition FIRST_GRANT_REQUIRED_VERIFICATION :: string where
  "FIRST_GRANT_REQUIRED_VERIFICATION = ''SELF_SERVICE_TOKEN''"

definition isFirstGrantBootstrapCapability :: "string \<Rightarrow> bool" where
  "isFirstGrantBootstrapCapability c = (c \<in> set FIRST_GRANT_BOOTSTRAP_CAPABILITIES)"

definition isEntitlementGovernedCapability :: "string \<Rightarrow> bool" where
  "isEntitlementGovernedCapability c = (c \<in> set ENTITLEMENT_GOVERNED_CAPABILITIES)"

section \<open>Writing a change\<close>

definition refused :: "string \<Rightarrow> err" where
  "refused code = EntitlementGovernanceRefused code"

definition governance_failure :: err where
  "governance_failure = EntitlementGovernanceFailure"

definition actRowToRecord :: "entitlement_act \<Rightarrow> entitlement_act res" where
  "actRowToRecord r = (if AccountCapability (act_capability r) then Inr r else Inl ZodError)"

definition countActiveHolders :: "'a account_tables_scheme \<Rightarrow> string \<Rightarrow> nat" where
  "countActiveHolders db capability =
     count_where (\<lambda>e. ent_capability e = capability \<and> ent_status e = Entitlement_ACTIVE) (entitlements db)"

definition entitlement_key :: "entitlement \<Rightarrow> ident \<times> string" where
  "entitlement_key e = (ent_accountId e, ent_capability e)"

definition find_entitlement :: "'a account_tables_scheme \<Rightarrow> ident \<Rightarrow> string \<Rightarrow> entitlement option" where
  "find_entitlement db accountId capability =
     List.find (\<lambda>e. entitlement_key e = (accountId, capability)) (entitlements db)"

definition upsert_grant ::
  "ident \<Rightarrow> ident \<Rightarrow> string \<Rightarrow> instant \<Rightarrow> entitlement list \<Rightarrow> entitlement list res" where
  "upsert_grant newId accountId capability at es =
     (if (accountId, capability) \<in> entitlement_key ` set es
      then Inr (update_where (\<lambda>e. entitlement_key e = (accountId, capability))
             (\<lambda>e. e\<lparr>ent_status := Entitlement_ACTIVE, ent_grantedAt := at, ent_revokedAt := None\<rparr>) es)
      else (case insert_unique ent_id \<lparr>ent_id = newId, ent_accountId = accountId, ent_capability = capability,
                 ent_status = Entitlement_ACTIVE, ent_grantedAt = at, ent_revokedAt = None\<rparr> es of
              None \<Rightarrow> Inl (UniqueViolation ''AccountEntitlement'')
            | Some es' \<Rightarrow> Inr es'))"

definition write_revocation :: "ident \<Rightarrow> string \<Rightarrow> instant \<Rightarrow> entitlement list \<Rightarrow> entitlement list" where
  "write_revocation accountId capability at es =
     update_where (\<lambda>e. entitlement_key e = (accountId, capability))
       (\<lambda>e. e\<lparr>ent_status := Entitlement_REVOKED, ent_revokedAt := Some at\<rparr>) es"

record governance_ids =
  gid_act :: ident
  gid_entitlement :: ident

definition governance_act ::
  "ident \<Rightarrow> ident \<Rightarrow> string \<Rightarrow> act_action \<Rightarrow> act_basis \<Rightarrow> ident option \<Rightarrow> instant \<Rightarrow> entitlement_act" where
  "governance_act i accountId capability action basis actor at =
     \<lparr>act_id = i, act_accountId = accountId, act_capability = capability, act_action = action,
      act_basis = basis, act_actorAccountId = actor,
      act_firstGrantForCapability = (if basis = BOOTSTRAP_FIRST_GRANT then Some capability else None),
      act_actedAt = at\<rparr>"

text \<open>The unique indexes of the ledger: the act's id, and the marker of the once-ever first grant.\<close>

definition act_conflict :: "entitlement_act list \<Rightarrow> entitlement_act \<Rightarrow> err option" where
  "act_conflict acts a =
     (if list_ex (\<lambda>x. act_firstGrantForCapability a \<noteq> None \<and>
            act_firstGrantForCapability x = act_firstGrantForCapability a) acts
      then Some (UniqueViolation ''firstGrantForCapability'')
      else if list_ex (\<lambda>x. act_id x = act_id a) acts then Some (UniqueViolation ''AccountEntitlementAct'')
      else None)"

definition writeChange ::
  "governance_ids \<Rightarrow> ident \<Rightarrow> string \<Rightarrow> act_action \<Rightarrow> act_basis \<Rightarrow> ident option \<Rightarrow> instant \<Rightarrow>
   'a account_tables_scheme \<Rightarrow> ('a account_tables_scheme \<times> entitlement_act) res" where
  "writeChange ids accountId capability action basis actor at db =
     (let a = governance_act (gid_act ids) accountId capability action basis actor at in
      case act_conflict (entitlementActs db) a of
        Some e \<Rightarrow> Inl e
      | None \<Rightarrow>
          chain (case action of
                   Act_GRANT \<Rightarrow> upsert_grant (gid_entitlement ids) accountId capability at (entitlements db)
                 | Act_REVOKE \<Rightarrow> Inr (write_revocation accountId capability at (entitlements db))) (\<lambda>es.
          chain (actRowToRecord a) (\<lambda>r.
            Inr (db\<lparr>entitlements := es, entitlementActs := entitlementActs db @ [a]\<rparr>, r))))"

section \<open>Operations\<close>

datatype bootstrap_outcome = GRANTED | ALREADY_BOOTSTRAPPED

fun isGovernanceRefusal :: "err \<Rightarrow> bool" where
  "isGovernanceRefusal (EntitlementGovernanceRefused _) = True"
| "isGovernanceRefusal _ = False"

definition bootstrap_tx ::
  "governance_ids \<Rightarrow> ident \<Rightarrow> string \<Rightarrow> instant \<Rightarrow> 'a account_tables_scheme \<Rightarrow>
   ('a account_tables_scheme \<times> bootstrap_outcome \<times> entitlement_act) res" where
  "bootstrap_tx ids accountId capability at db =
     (case find_account db accountId of
        None \<Rightarrow> Inl (refused ''ACCOUNT_NOT_FOUND'')
      | Some account \<Rightarrow>
          let marker = List.find (\<lambda>a. act_firstGrantForCapability a = Some capability) (entitlementActs db) in
          if (case marker of None \<Rightarrow> False | Some m \<Rightarrow> act_accountId m \<noteq> accountId)
          then Inl (refused ''FIRST_GRANT_ALREADY_CLAIMED'')
          else if acc_status account \<noteq> Account_ACTIVE then Inl (refused ''ACCOUNT_DISABLED'')
          else if acc_emailVerifiedAt account = None \<or>
                  acc_emailVerifiedVia account \<noteq> Some FIRST_GRANT_REQUIRED_VERIFICATION
          then Inl (refused ''EMAIL_NOT_SELF_VERIFIED'')
          else case marker of
            Some m \<Rightarrow>
              (case find_entitlement db accountId capability of
                 Some held \<Rightarrow>
                   if ent_status held = Entitlement_ACTIVE
                   then chain (actRowToRecord m) (\<lambda>r. Inr (db, ALREADY_BOOTSTRAPPED, r))
                   else Inl (refused ''FIRST_GRANT_ALREADY_CLAIMED'')
               | None \<Rightarrow> Inl (refused ''FIRST_GRANT_ALREADY_CLAIMED''))
          | None \<Rightarrow>
              if countActiveHolders db capability > 0 then Inl (refused ''CAPABILITY_ALREADY_HELD'')
              else chain (writeChange ids accountId capability Act_GRANT BOOTSTRAP_FIRST_GRANT None at db)
                     (\<lambda>(db', a). Inr (db', GRANTED, a)))"

text \<open>The \<open>catch\<close>: a refusal passes, the marker conflict is the loser of a concurrent bootstrap.\<close>

fun bootstrap_catch :: "'b res \<Rightarrow> 'b res" where
  "bootstrap_catch (Inr x) = Inr x"
| "bootstrap_catch (Inl e) =
     (if isGovernanceRefusal e then Inl e
      else if e = UniqueViolation ''firstGrantForCapability'' then Inl (refused ''FIRST_GRANT_ALREADY_CLAIMED'')
      else Inl governance_failure)"

definition bootstrapFirstEntitlement ::
  "governance_ids \<Rightarrow> ident \<Rightarrow> string \<Rightarrow> instant \<Rightarrow> 'a account_tables_scheme \<Rightarrow>
   ('a account_tables_scheme \<times> bootstrap_outcome \<times> entitlement_act) res" where
  "bootstrapFirstEntitlement ids accountId capability at db =
     (if \<not> (1 \<le> length capability \<and> length capability \<le> 64) then Inl InvalidEntitlementGovernanceInput
      else if \<not> isFirstGrantBootstrapCapability capability then Inl (refused ''CAPABILITY_NOT_BOOTSTRAPPABLE'')
      else bootstrap_catch (bootstrap_tx ids accountId capability at db))"

definition assertGovernedPreconditions :: "'a account_tables_scheme \<Rightarrow> ident \<Rightarrow> ident \<Rightarrow> unit res" where
  "assertGovernedPreconditions db actorAccountId accountId =
     (if \<not> isInternallyAuthorized (canGovernEntitlements (resolveInternalAuthorizationSubject db actorAccountId))
      then Inl (refused ''ACTOR_NOT_AUTHORIZED'')
      else case find_account db accountId of
        None \<Rightarrow> Inl (refused ''ACCOUNT_NOT_FOUND'')
      | Some target \<Rightarrow> if acc_status target \<noteq> Account_ACTIVE then Inl (refused ''ACCOUNT_DISABLED'') else Inr ())"

definition grantEntitlementAsGovernor ::
  "governance_ids \<Rightarrow> ident \<Rightarrow> ident \<Rightarrow> string \<Rightarrow> instant \<Rightarrow> 'a account_tables_scheme \<Rightarrow>
   ('a account_tables_scheme \<times> entitlement_act) res" where
  "grantEntitlementAsGovernor ids actorAccountId accountId capability at db =
     (if \<not> (1 \<le> length capability \<and> length capability \<le> 64) then Inl InvalidEntitlementGovernanceInput
      else if \<not> isEntitlementGovernedCapability capability then Inl (refused ''CAPABILITY_NOT_GOVERNABLE'')
      else rethrow_own isGovernanceRefusal governance_failure
        (chain (assertGovernedPreconditions db actorAccountId accountId) (\<lambda>_.
           if map_option ent_status (find_entitlement db accountId capability) = Some Entitlement_ACTIVE
           then Inl (refused ''ENTITLEMENT_ALREADY_ACTIVE'')
           else writeChange ids accountId capability Act_GRANT GOVERNED (Some actorAccountId) at db)))"

definition revokeEntitlementAsGovernor ::
  "governance_ids \<Rightarrow> ident \<Rightarrow> ident \<Rightarrow> string \<Rightarrow> instant \<Rightarrow> 'a account_tables_scheme \<Rightarrow>
   ('a account_tables_scheme \<times> entitlement_act) res" where
  "revokeEntitlementAsGovernor ids actorAccountId accountId capability at db =
     (if \<not> (1 \<le> length capability \<and> length capability \<le> 64) then Inl InvalidEntitlementGovernanceInput
      else let isMeta = (capability = ENTITLEMENT_GOVERN_CAPABILITY) in
      if \<not> isMeta \<and> \<not> isEntitlementGovernedCapability capability then Inl (refused ''CAPABILITY_NOT_GOVERNABLE'')
      else rethrow_own isGovernanceRefusal governance_failure
        (chain (assertGovernedPreconditions db actorAccountId accountId) (\<lambda>_.
           if map_option ent_status (find_entitlement db accountId capability) \<noteq> Some Entitlement_ACTIVE
           then Inl (refused ''ENTITLEMENT_NOT_ACTIVE'')
           else if isMeta
           then (if countActiveHolders db ENTITLEMENT_GOVERN_CAPABILITY \<le> 1
                 then Inl (refused ''LAST_ENTITLEMENT_GOVERNOR'') else Inl (refused ''CAPABILITY_NOT_GOVERNABLE''))
           else writeChange ids accountId capability Act_REVOKE GOVERNED (Some actorAccountId) at db)))"

section \<open>Reads\<close>

record governance_inspection =
  gin_exists :: bool
  gin_status :: "account_status option"
  gin_emailVerifiedVia :: "string option"
  gin_holdsCapability :: bool
  gin_activeHolderCount :: nat
  gin_firstGrantAccountId :: "ident option"

definition inspectEntitlementGovernance :: "'a account_tables_scheme \<Rightarrow> ident \<Rightarrow> string \<Rightarrow> governance_inspection" where
  "inspectEntitlementGovernance db accountId capability =
     (let account = find_account db accountId; known = AccountCapability capability in
      \<lparr>gin_exists = (account \<noteq> None), gin_status = map_option acc_status account,
       gin_emailVerifiedVia = Option.bind account acc_emailVerifiedVia,
       gin_holdsCapability = (known \<and> map_option ent_status (find_entitlement db accountId capability) = Some Entitlement_ACTIVE),
       gin_activeHolderCount = (if known then countActiveHolders db capability else 0),
       gin_firstGrantAccountId = (if known then map_option act_accountId
          (List.find (\<lambda>a. act_firstGrantForCapability a = Some capability) (entitlementActs db)) else None)\<rparr>)"

definition listEntitlementActs :: "'a account_tables_scheme \<Rightarrow> ident \<Rightarrow> entitlement_act list res" where
  "listEntitlementActs db accountId =
     map_res actRowToRecord (sort_key act_actedAt (filter (\<lambda>a. act_accountId a = accountId) (entitlementActs db)))"

end
