(* ===== verification/Entitlement_Facts.thy ===== *)
theory Entitlement_Facts
  imports Entitlement_Governance
begin

text \<open>
  What entitlement governance promises.  The authority in force is the set of (account, capability)
  pairs with a live row.  A step is one committed operation of the service, or any change of the
  accounts themselves (registration, verification, disabling), which governance does not control.
  The service implements an abstract machine on that set; the ledger of acts, replayed, gives the
  set; and the first governor is the only one there ever is.
\<close>

section \<open>The abstract machine\<close>

type_synonym authority = "(ident \<times> string) set"

definition authority_of :: "'a account_tables_scheme \<Rightarrow> authority" where
  "authority_of db = {(a, c). holds (entitlements db) a c}"

inductive authority_step :: "authority \<Rightarrow> authority \<Rightarrow> bool" where
  first_governor: "(\<forall>b. (b, ENTITLEMENT_GOVERN_CAPABILITY) \<notin> S) \<Longrightarrow>
     authority_step S (insert (a, ENTITLEMENT_GOVERN_CAPABILITY) S)"
| governor_grants: "(g, ENTITLEMENT_GOVERN_CAPABILITY) \<in> S \<Longrightarrow> isEntitlementGovernedCapability c \<Longrightarrow> (a, c) \<notin> S \<Longrightarrow>
     authority_step S (insert (a, c) S)"
| governor_revokes: "(g, ENTITLEMENT_GOVERN_CAPABILITY) \<in> S \<Longrightarrow> isEntitlementGovernedCapability c \<Longrightarrow> (a, c) \<in> S \<Longrightarrow>
     authority_step S (S - {(a, c)})"

section \<open>The machine of the service\<close>

inductive governance_step :: "'a account_tables_scheme \<Rightarrow> 'a account_tables_scheme \<Rightarrow> bool" where
  bootstrapped: "bootstrapFirstEntitlement ids a c at db = Inr (db', out, act) \<Longrightarrow> governance_step db db'"
| granted: "grantEntitlementAsGovernor ids g a c at db = Inr (db', act) \<Longrightarrow> governance_step db db'"
| revoked: "revokeEntitlementAsGovernor ids g a c at db = Inr (db', act) \<Longrightarrow> governance_step db db'"
| accounts_change: "governance_step db (db\<lparr>actingAccounts := as\<rparr>)"

text \<open>Replaying the ledger.\<close>

definition apply_act :: "entitlement_act \<Rightarrow> authority \<Rightarrow> authority" where
  "apply_act x S = (case act_action x of
     Act_GRANT \<Rightarrow> insert (act_accountId x, act_capability x) S
   | Act_REVOKE \<Rightarrow> S - {(act_accountId x, act_capability x)})"

definition replay :: "entitlement_act list \<Rightarrow> authority" where
  "replay acts = fold apply_act acts {}"

lemma replay_append [simp]: "replay (acts @ [x]) = apply_act x (replay acts)"
  by (simp add: replay_def)

lemma replay_Nil [simp]: "replay [] = {}"
  by (simp add: replay_def)

section \<open>Each write\<close>

lemma governable_known:
  "isEntitlementGovernedCapability c \<Longrightarrow> c \<noteq> ENTITLEMENT_GOVERN_CAPABILITY \<and> AccountCapability c"
  by (auto simp: isEntitlementGovernedCapability_def ENTITLEMENT_GOVERNED_CAPABILITIES_def
      ENTITLEMENT_GOVERN_CAPABILITY_def AccountCapability_def ACCOUNT_CAPABILITIES_def)

lemma bootstrappable_iff: "isFirstGrantBootstrapCapability c \<longleftrightarrow> c = ENTITLEMENT_GOVERN_CAPABILITY"
  by (simp add: isFirstGrantBootstrapCapability_def FIRST_GRANT_BOOTSTRAP_CAPABILITIES_def
      ENTITLEMENT_GOVERN_CAPABILITY_def)

lemma holds_iff:
  "holds es a c \<longleftrightarrow> (\<exists>e\<in>set es. entitlement_key e = (a, c) \<and> ent_status e = Entitlement_ACTIVE)"
  by (auto simp: holds_def list_ex_iff entitlement_key_def)

lemma holds_update_where:
  assumes "\<And>e. entitlement_key (f e) = entitlement_key e" and "\<And>e. ent_status (f e) = s"
  shows "holds (update_where (\<lambda>e. entitlement_key e = k) f es) b d \<longleftrightarrow>
    (if (b, d) = k then k \<in> entitlement_key ` set es \<and> s = Entitlement_ACTIVE else holds es b d)"
proof -
  have *: "holds xs b d \<longleftrightarrow> list_ex (\<lambda>e. entitlement_key e = (b, d) \<and> ent_status e = Entitlement_ACTIVE) xs" for xs
    by (auto simp: holds_iff list_ex_iff)
  show ?thesis unfolding * by (induction es) (auto simp: update_where_def assms)
qed

lemma upsert_grant_holds:
  assumes "upsert_grant i a c at es = Inr es'"
  shows "holds es' b d \<longleftrightarrow> (b, d) = (a, c) \<or> holds es b d"
proof (cases "(a, c) \<in> entitlement_key ` set es")
  case True
  then have es': "es' = update_where (\<lambda>e. entitlement_key e = (a, c))
       (\<lambda>e. e\<lparr>ent_status := Entitlement_ACTIVE, ent_grantedAt := at, ent_revokedAt := None\<rparr>) es"
    using assms by (simp add: upsert_grant_def)
  show ?thesis unfolding es'
    by (subst holds_update_where[where s = Entitlement_ACTIVE]) (use True in \<open>auto simp: entitlement_key_def\<close>)
next
  case False
  then show ?thesis using assms
    by (auto simp: upsert_grant_def holds_iff insert_unique_Some_iff entitlement_key_def split: option.splits)
qed

lemma upsert_grant_unique:
  assumes "upsert_grant i a c at es = Inr es'" and "unique_on entitlement_key es"
  shows "unique_on entitlement_key es'"
  using assms
  by (auto simp: upsert_grant_def insert_unique_Some_iff entitlement_key_def
      split: option.splits if_splits intro!: unique_on_update_where)

lemma write_revocation_holds:
  "holds (write_revocation a c at es) b d \<longleftrightarrow> (b, d) \<noteq> (a, c) \<and> holds es b d"
  unfolding write_revocation_def
  by (subst holds_update_where[where s = Entitlement_REVOKED]) (auto simp: entitlement_key_def)

lemma write_revocation_unique:
  "unique_on entitlement_key es \<Longrightarrow> unique_on entitlement_key (write_revocation a c at es)"
  by (simp add: write_revocation_def unique_on_update_where entitlement_key_def)

lemma find_entitlement_active:
  assumes "unique_on entitlement_key (entitlements db)"
  shows "map_option ent_status (find_entitlement db a c) = Some Entitlement_ACTIVE \<longleftrightarrow> (a, c) \<in> authority_of db"
proof
  assume "map_option ent_status (find_entitlement db a c) = Some Entitlement_ACTIVE"
  then show "(a, c) \<in> authority_of db"
    by (auto simp: find_entitlement_def authority_of_def holds_iff dest: find_Some_set)
next
  assume "(a, c) \<in> authority_of db"
  then obtain e where "e \<in> set (entitlements db)" "entitlement_key e = (a, c)" "ent_status e = Entitlement_ACTIVE"
    by (auto simp: authority_of_def holds_iff)
  then show "map_option ent_status (find_entitlement db a c) = Some Entitlement_ACTIVE"
    using find_unique[OF assms, of e] by (simp add: find_entitlement_def)
qed

lemma no_active_holder_iff: "countActiveHolders db c = 0 \<longleftrightarrow> (\<forall>b. (b, c) \<notin> authority_of db)"
  by (auto simp: countActiveHolders_def count_where_0_iff authority_of_def holds_def list_ex_iff)

lemma writeChange_facts:
  assumes "writeChange ids a c action basis actor at db = Inr (db', x)"
  shows "x = governance_act (gid_act ids) a c action basis actor at"
    and "act_conflict (entitlementActs db) x = None"
    and "entitlementActs db' = entitlementActs db @ [x]"
    and "actingAccounts db' = actingAccounts db"
    and "authority_of db' = apply_act x (authority_of db)"
    and "unique_on entitlement_key (entitlements db) \<Longrightarrow> unique_on entitlement_key (entitlements db')"
proof -
  note w = assms[unfolded writeChange_def Let_def]
  show x: "x = governance_act (gid_act ids) a c action basis actor at"
    using w by (auto simp: actRowToRecord_def split: option.splits if_splits)
  show "act_conflict (entitlementActs db) x = None"
    using w x by (auto split: option.splits)
  obtain es where es: "(case action of Act_GRANT \<Rightarrow> upsert_grant (gid_entitlement ids) a c at (entitlements db)
      | Act_REVOKE \<Rightarrow> Inr (write_revocation a c at (entitlements db))) = Inr es"
    and db': "db' = db\<lparr>entitlements := es, entitlementActs := entitlementActs db @ [x]\<rparr>"
    using w x by (auto split: option.splits)
  show "entitlementActs db' = entitlementActs db @ [x]" "actingAccounts db' = actingAccounts db"
    using db' by simp_all
  show "authority_of db' = apply_act x (authority_of db)"
    using es upsert_grant_holds[of "gid_entitlement ids" a c at "entitlements db" es]
    by (cases action) (auto simp: x db' authority_of_def apply_act_def governance_act_def write_revocation_holds)
  show "unique_on entitlement_key (entitlements db) \<Longrightarrow> unique_on entitlement_key (entitlements db')"
    using es by (cases action) (auto simp: db' upsert_grant_unique write_revocation_unique)
qed

section \<open>What a committed operation is\<close>

lemma bootstrapFirstEntitlement_cases:
  assumes "bootstrapFirstEntitlement ids a c at db = Inr (db', out, act)"
  obtains (again) "db' = db" "out = ALREADY_BOOTSTRAPPED" "act \<in> set (entitlementActs db)" "act_accountId act = a"
      "act_firstGrantForCapability act = Some ENTITLEMENT_GOVERN_CAPABILITY"
    | (first) "c = ENTITLEMENT_GOVERN_CAPABILITY" "out = GRANTED"
      "\<forall>b. (b, ENTITLEMENT_GOVERN_CAPABILITY) \<notin> authority_of db"
      "writeChange ids a c Act_GRANT BOOTSTRAP_FIRST_GRANT None at db = Inr (db', act)"
      "\<exists>x. find_account db a = Some x \<and> acc_status x = Account_ACTIVE \<and>
           acc_emailVerifiedVia x = Some FIRST_GRANT_REQUIRED_VERIFICATION"
proof -
  have c: "c = ENTITLEMENT_GOVERN_CAPABILITY"
    using assms by (auto simp: bootstrapFirstEntitlement_def bootstrappable_iff split: if_splits)
  have tx: "bootstrap_tx ids a c at db = Inr (db', out, act)"
    using assms by (cases "bootstrap_tx ids a c at db")
      (auto simp: bootstrapFirstEntitlement_def split: if_splits)
  show thesis
  proof (cases "List.find (\<lambda>x. act_firstGrantForCapability x = Some c) (entitlementActs db)")
    case None
    then show thesis using tx c
      by (auto simp: bootstrap_tx_def no_active_holder_iff split: option.splits if_splits intro: first)
  next
    case (Some m)
    then show thesis using tx c find_Some_set[OF Some]
      by (auto simp: bootstrap_tx_def actRowToRecord_def split: option.splits if_splits intro: again)
  qed
qed

lemma assertGovernedPreconditions_Inr:
  assumes "assertGovernedPreconditions db g a = Inr u"
  shows "(g, ENTITLEMENT_GOVERN_CAPABILITY) \<in> authority_of db"
    and "\<exists>x. find_account db g = Some x \<and> acc_status x = Account_ACTIVE"
    and "\<exists>x. find_account db a = Some x \<and> acc_status x = Account_ACTIVE"
  using assms
  by (auto simp: assertGovernedPreconditions_def canGovernEntitlements_def authorized_iff authority_of_def
      split: if_splits option.splits)

lemma grantEntitlementAsGovernor_facts:
  assumes "grantEntitlementAsGovernor ids g a c at db = Inr (db', act)"
    and "unique_on entitlement_key (entitlements db)"
  shows "isEntitlementGovernedCapability c" and "(g, ENTITLEMENT_GOVERN_CAPABILITY) \<in> authority_of db"
    and "(a, c) \<notin> authority_of db"
    and "writeChange ids a c Act_GRANT GOVERNED (Some g) at db = Inr (db', act)"
proof -
  show "isEntitlementGovernedCapability c" "writeChange ids a c Act_GRANT GOVERNED (Some g) at db = Inr (db', act)"
    using assms(1) by (auto simp: grantEntitlementAsGovernor_def split: if_splits)
  have "map_option ent_status (find_entitlement db a c) \<noteq> Some Entitlement_ACTIVE"
    using assms(1) by (auto simp: grantEntitlementAsGovernor_def split: if_splits)
  then show "(a, c) \<notin> authority_of db" using find_entitlement_active[OF assms(2)] by blast
  show "(g, ENTITLEMENT_GOVERN_CAPABILITY) \<in> authority_of db"
    using assms(1) assertGovernedPreconditions_Inr(1)
    by (auto simp: grantEntitlementAsGovernor_def split: if_splits)
qed

lemma revokeEntitlementAsGovernor_facts:
  assumes "revokeEntitlementAsGovernor ids g a c at db = Inr (db', act)"
    and "unique_on entitlement_key (entitlements db)"
  shows "isEntitlementGovernedCapability c" and "(g, ENTITLEMENT_GOVERN_CAPABILITY) \<in> authority_of db"
    and "(a, c) \<in> authority_of db"
    and "writeChange ids a c Act_REVOKE GOVERNED (Some g) at db = Inr (db', act)"
proof -
  show "isEntitlementGovernedCapability c" "writeChange ids a c Act_REVOKE GOVERNED (Some g) at db = Inr (db', act)"
    using assms(1) by (auto simp: revokeEntitlementAsGovernor_def Let_def split: if_splits)
  have "map_option ent_status (find_entitlement db a c) = Some Entitlement_ACTIVE"
    using assms(1) by (auto simp: revokeEntitlementAsGovernor_def Let_def split: if_splits)
  then show "(a, c) \<in> authority_of db" using find_entitlement_active[OF assms(2)] by blast
  show "(g, ENTITLEMENT_GOVERN_CAPABILITY) \<in> authority_of db"
    using assms(1) assertGovernedPreconditions_Inr(1)
    by (auto simp: revokeEntitlementAsGovernor_def Let_def split: if_splits)
qed

section \<open>Invariant\<close>

definition governance_start :: "'a account_tables_scheme \<Rightarrow> bool" where
  "governance_start db = (entitlements db = [] \<and> entitlementActs db = [])"

definition first_grant_of :: "'a account_tables_scheme \<Rightarrow> ident \<Rightarrow> bool" where
  "first_grant_of db g = (\<exists>m\<in>set (entitlementActs db). act_basis m = BOOTSTRAP_FIRST_GRANT \<and> act_accountId m = g)"

definition act_ok :: "'a account_tables_scheme \<Rightarrow> entitlement_act \<Rightarrow> bool" where
  "act_ok db x = (case act_basis x of
     BOOTSTRAP_FIRST_GRANT \<Rightarrow> act_action x = Act_GRANT \<and> act_capability x = ENTITLEMENT_GOVERN_CAPABILITY \<and>
       act_actorAccountId x = None \<and> act_firstGrantForCapability x = Some ENTITLEMENT_GOVERN_CAPABILITY
   | GOVERNED \<Rightarrow> isEntitlementGovernedCapability (act_capability x) \<and> act_firstGrantForCapability x = None \<and>
       (\<exists>g. act_actorAccountId x = Some g \<and> first_grant_of db g))"

definition governance_ok :: "'a account_tables_scheme \<Rightarrow> bool" where
  "governance_ok db =
     (unique_on entitlement_key (entitlements db) \<and> authority_of db = replay (entitlementActs db) \<and>
      (\<forall>x\<in>set (entitlementActs db). act_ok db x) \<and> unique_on act_id (entitlementActs db) \<and>
      (\<forall>g h. first_grant_of db g \<longrightarrow> first_grant_of db h \<longrightarrow> g = h) \<and>
      (\<forall>g. (g, ENTITLEMENT_GOVERN_CAPABILITY) \<in> authority_of db \<longleftrightarrow> first_grant_of db g))"

lemma governance_okD:
  assumes "governance_ok db"
  shows "unique_on entitlement_key (entitlements db)" and "authority_of db = replay (entitlementActs db)"
    and "x \<in> set (entitlementActs db) \<Longrightarrow> act_ok db x"
    and "first_grant_of db g \<Longrightarrow> first_grant_of db h \<Longrightarrow> g = h"
    and "(g, ENTITLEMENT_GOVERN_CAPABILITY) \<in> authority_of db \<longleftrightarrow> first_grant_of db g"
  using assms by (auto simp: governance_ok_def)

lemma governance_ok_start: "governance_start db \<Longrightarrow> governance_ok db"
  by (auto simp: governance_ok_def governance_start_def authority_of_def holds_def first_grant_of_def)

lemma first_grant_append:
  assumes "entitlementActs db' = entitlementActs db @ [x]"
  shows "first_grant_of db' g \<longleftrightarrow> first_grant_of db g \<or> (act_basis x = BOOTSTRAP_FIRST_GRANT \<and> act_accountId x = g)"
  using assms by (auto simp: first_grant_of_def)

lemma act_ok_append:
  assumes "entitlementActs db' = entitlementActs db @ [x]" and "act_ok db y"
  shows "act_ok db' y"
  using assms(2) by (auto simp: act_ok_def first_grant_append[OF assms(1)] split: act_basis.splits)

lemma governed_change_ok:
  assumes "governance_ok db" and "writeChange ids a c action GOVERNED (Some g) at db = Inr (db', x)"
    and "isEntitlementGovernedCapability c" and "(g, ENTITLEMENT_GOVERN_CAPABILITY) \<in> authority_of db"
  shows "governance_ok db'"
proof -
  note ok = governance_okD[OF assms(1)] and w = writeChange_facts[OF assms(2)]
  have x: "act_basis x = GOVERNED" "act_capability x = c" "act_actorAccountId x = Some g"
    "act_firstGrantForCapability x = None"
    by (simp_all add: w(1) governance_act_def)
  have fg: "first_grant_of db' h \<longleftrightarrow> first_grant_of db h" for h
    using first_grant_append[OF w(3)] x by simp
  have c: "c \<noteq> ENTITLEMENT_GOVERN_CAPABILITY" using governable_known[OF assms(3)] by simp
  have gov: "(h, ENTITLEMENT_GOVERN_CAPABILITY) \<in> authority_of db' \<longleftrightarrow> (h, ENTITLEMENT_GOVERN_CAPABILITY) \<in> authority_of db"
    for h using c x by (auto simp: w(5) apply_act_def split: act_action.splits)
  have ids: "unique_on act_id (entitlementActs db')"
    using assms(1) w(2) by (auto simp: governance_ok_def w(3) act_conflict_def list_ex_iff split: if_splits)
  have "act_ok db' x" using x assms(3,4) ok(5) fg by (simp add: act_ok_def)
  then have acts: "act_ok db' y" if "y \<in> set (entitlementActs db')" for y
    using that ok(3) act_ok_append[OF w(3)] by (auto simp: w(3))
  have "authority_of db' = replay (entitlementActs db')" by (simp add: w(3,5) ok(2))
  then show ?thesis unfolding governance_ok_def
    using w(6)[OF ok(1)] acts ids fg gov ok(4,5) by blast
qed

lemma first_grant_ok:
  assumes "governance_ok db" and "\<forall>b. (b, ENTITLEMENT_GOVERN_CAPABILITY) \<notin> authority_of db"
    and "writeChange ids a ENTITLEMENT_GOVERN_CAPABILITY Act_GRANT BOOTSTRAP_FIRST_GRANT None at db = Inr (db', x)"
  shows "governance_ok db'"
proof -
  note ok = governance_okD[OF assms(1)] and w = writeChange_facts[OF assms(3)]
  have x: "act_basis x = BOOTSTRAP_FIRST_GRANT" "act_capability x = ENTITLEMENT_GOVERN_CAPABILITY"
    "act_actorAccountId x = None" "act_action x = Act_GRANT" "act_accountId x = a"
    "act_firstGrantForCapability x = Some ENTITLEMENT_GOVERN_CAPABILITY"
    by (simp_all add: w(1) governance_act_def)
  have none: "\<not> first_grant_of db h" for h using ok(5) assms(2) by blast
  have fg: "first_grant_of db' h \<longleftrightarrow> h = a" for h
    using first_grant_append[OF w(3)] x none by auto
  have gov: "(h, ENTITLEMENT_GOVERN_CAPABILITY) \<in> authority_of db' \<longleftrightarrow> h = a" for h
    using x assms(2) by (auto simp: w(5) apply_act_def)
  have ids: "unique_on act_id (entitlementActs db')"
    using assms(1) w(2) by (auto simp: governance_ok_def w(3) act_conflict_def list_ex_iff split: if_splits)
  have "act_ok db' x" using x by (simp add: act_ok_def)
  then have acts: "act_ok db' y" if "y \<in> set (entitlementActs db')" for y
    using that ok(3) act_ok_append[OF w(3)] by (auto simp: w(3))
  have rep: "authority_of db' = replay (entitlementActs db')" by (simp add: w(3,5) ok(2))
  show ?thesis unfolding governance_ok_def fg gov
    using w(6)[OF ok(1)] rep acts ids by simp
qed

lemma accounts_change_acts [simp]:
  "first_grant_of (db\<lparr>actingAccounts := as\<rparr>) = first_grant_of db"
  "act_ok (db\<lparr>actingAccounts := as\<rparr>) = act_ok db"
proof -
  show fg: "first_grant_of (db\<lparr>actingAccounts := as\<rparr>) = first_grant_of db"
    by (rule ext) (simp add: first_grant_of_def)
  show "act_ok (db\<lparr>actingAccounts := as\<rparr>) = act_ok db"
    by (rule ext, rename_tac x, case_tac "act_basis x") (simp_all add: act_ok_def fg)
qed

lemma accounts_change_same [simp]:
  "authority_of (db\<lparr>actingAccounts := as\<rparr>) = authority_of db"
  "governance_ok (db\<lparr>actingAccounts := as\<rparr>) = governance_ok db"
  by (simp_all add: governance_ok_def) (simp_all add: authority_of_def)

section \<open>Steps and histories\<close>

lemma governance_step_facts:
  assumes "governance_step db db'" and "governance_ok db"
  shows "governance_ok db'"
    and "authority_of db' = authority_of db \<or> authority_step (authority_of db) (authority_of db')"
    and "\<exists>new. entitlementActs db' = entitlementActs db @ new"
proof -
  note u = governance_okD(1)[OF assms(2)]
  have "governance_ok db' \<and> (authority_of db' = authority_of db \<or> authority_step (authority_of db) (authority_of db'))
      \<and> (\<exists>new. entitlementActs db' = entitlementActs db @ new)"
    using assms(1)
  proof cases
    case (bootstrapped ids a c at out act)
    from bootstrapped(1) show ?thesis
    proof (cases rule: bootstrapFirstEntitlement_cases)
      case again
      then show ?thesis using assms(2) by simp
    next
      case first
      note w = writeChange_facts[OF first(4)]
      have "authority_of db' = insert (a, ENTITLEMENT_GOVERN_CAPABILITY) (authority_of db)"
        using first(1) by (simp add: w(5) w(1) apply_act_def governance_act_def)
      then show ?thesis using first_governor[OF first(3)] first_grant_ok[OF assms(2) first(3)] first(1,4) w(3) by auto
    qed
  next
    case (granted ids g a c at act)
    note f = grantEntitlementAsGovernor_facts[OF granted(1) u] and w = writeChange_facts[OF grantEntitlementAsGovernor_facts(4)[OF granted(1) u]]
    have "authority_of db' = insert (a, c) (authority_of db)" by (simp add: w(5) w(1) apply_act_def governance_act_def)
    then show ?thesis using governor_grants[OF f(2,1,3)] governed_change_ok[OF assms(2) f(4,1,2)] w(3) by auto
  next
    case (revoked ids g a c at act)
    note f = revokeEntitlementAsGovernor_facts[OF revoked(1) u] and w = writeChange_facts[OF revokeEntitlementAsGovernor_facts(4)[OF revoked(1) u]]
    have "authority_of db' = authority_of db - {(a, c)}" by (simp add: w(5) w(1) apply_act_def governance_act_def)
    then show ?thesis using governor_revokes[OF f(2,1,3)] governed_change_ok[OF assms(2) f(4,1,2)] w(3) by auto
  next
    case (accounts_change as)
    then show ?thesis using assms(2) by simp
  qed
  then show "governance_ok db'"
    and "authority_of db' = authority_of db \<or> authority_step (authority_of db) (authority_of db')"
    and "\<exists>new. entitlementActs db' = entitlementActs db @ new" by blast+
qed

lemma governance_history:
  assumes "governance_step\<^sup>*\<^sup>* db db'" and "governance_ok db"
  shows "governance_ok db' \<and> authority_step\<^sup>*\<^sup>* (authority_of db) (authority_of db') \<and>
    (\<exists>new. entitlementActs db' = entitlementActs db @ new)"
  using assms
proof (induction rule: rtranclp_induct)
  case (step y z)
  note f = governance_step_facts[OF step.hyps(2)] and ih = step.IH[OF step.prems]
  have "authority_step\<^sup>*\<^sup>* (authority_of db) (authority_of z)"
    using ih f(2) by (metis rtranclp.rtrancl_into_rtrancl)
  then show ?case using ih f by (metis append.assoc)
qed auto

lemma first_grant_history:
  assumes "governance_step\<^sup>*\<^sup>* db db'" and "governance_ok db" and "first_grant_of db g"
  shows "first_grant_of db' g"
  using governance_history[OF assms(1,2)] assms(3) by (auto simp: first_grant_of_def)

text \<open>Every live pair was put there by an act of the ledger.\<close>

lemma replay_traced: "(a, c) \<in> replay acts \<Longrightarrow>
    \<exists>x\<in>set acts. act_action x = Act_GRANT \<and> act_accountId x = a \<and> act_capability x = c"
proof (induction acts rule: rev_induct)
  case (snoc y ys)
  then show ?case by (auto simp: apply_act_def split: act_action.splits)
qed simp

end
