(* ===== verification/Entitlement_Properties.thy ===== *)
theory Entitlement_Properties
  imports Entitlement_Facts Example_Sale
begin

text \<open>
  The properties of entitlement governance, over every history of the service from a database that
  has granted nothing yet, and the company of three accounts they are exercised on.
\<close>

section \<open>A company\<close>

definition ex_account :: "ident \<Rightarrow> acting_account" where
  "ex_account i = \<lparr>acc_id = i, acc_status = Account_ACTIVE, acc_emailVerifiedAt = Some 0,
     acc_emailVerifiedVia = Some ''SELF_SERVICE_TOKEN''\<rparr>"

definition ex_company :: account_tables where
  "ex_company = reversal_tables.extend ex_books
     \<lparr>actingAccounts = [ex_account ''root'', ex_account ''ann'', ex_account ''bob''], entitlements = [],
      entitlementActs = []\<rparr>"

definition ex_gids :: "ident \<Rightarrow> governance_ids" where
  "ex_gids i = \<lparr>gid_act = ''act'' @ i, gid_entitlement = ''ent'' @ i\<rparr>"

definition ex_founded :: account_tables where
  "ex_founded = after (bootstrapFirstEntitlement (ex_gids ''1'') ''root'' ''entitlement:govern'' 10 ex_company) ex_company"

definition ex_delegated :: account_tables where
  "ex_delegated = after (grantEntitlementAsGovernor (ex_gids ''2'') ''root'' ''ann'' ''commercial-policy:govern'' 20 ex_founded) ex_company"


lemma ex_founded_step: "governance_step ex_company ex_founded"
proof -
  have "\<exists>v. bootstrapFirstEntitlement (ex_gids ''1'') ''root'' ''entitlement:govern'' 10 ex_company = Inr (ex_founded, v)"
    unfolding ex_founded_def by (rule is_ok_after) code_simp
  then show ?thesis using bootstrapped by (metis prod.collapse)
qed

lemma ex_delegated_step: "governance_step ex_founded ex_delegated"
proof -
  have "\<exists>v. grantEntitlementAsGovernor (ex_gids ''2'') ''root'' ''ann'' ''commercial-policy:govern'' 20 ex_founded = Inr (ex_delegated, v)"
    unfolding ex_delegated_def by (rule is_ok_after) code_simp
  then show ?thesis using granted by blast
qed


lemma ex_company_start: "governance_start ex_company"
  by (simp add: governance_start_def ex_company_def reversal_tables.defs)

lemma ex_governance_history:
  "governance_step\<^sup>*\<^sup>* ex_company ex_founded" "governance_step\<^sup>*\<^sup>* ex_founded ex_delegated"
  "governance_step\<^sup>*\<^sup>* ex_company ex_delegated"
  using ex_founded_step ex_delegated_step by (blast intro: rtranclp.intros)+

section \<open>Properties\<close>



text \<open>C12: there is one governor for ever.  Once an account holds \<open>entitlement:govern\<close>, in every later
  state that account and no other holds it: no grant, revocation or second bootstrap, and no change
  of any account, adds a governor or removes the one there is.\<close>

theorem one_governor_for_ever:
  assumes "governance_start db0" and "governance_step\<^sup>*\<^sup>* db0 db" and "governance_step\<^sup>*\<^sup>* db db'"
    and "holds (entitlements db) g ENTITLEMENT_GOVERN_CAPABILITY"
  shows "holds (entitlements db') h ENTITLEMENT_GOVERN_CAPABILITY \<longleftrightarrow> h = g"
proof -
  have ok: "governance_ok db" using governance_history[OF assms(2) governance_ok_start[OF assms(1)]] by blast
  have ok': "governance_ok db'" using governance_history[OF assms(3) ok] by blast
  have "first_grant_of db g" using governance_okD(5)[OF ok, of g] assms(4) by (simp add: authority_of_def)
  then have "first_grant_of db' g" by (rule first_grant_history[OF assms(3) ok])
  then show ?thesis using governance_okD(4)[OF ok'] governance_okD(5)[OF ok', of h] by (auto simp: authority_of_def)
qed

theorem one_governor_for_ever_witness:
  "\<forall>h. holds (entitlements ex_delegated) h ENTITLEMENT_GOVERN_CAPABILITY \<longleftrightarrow> h = ''root''"
proof -
  have "holds (entitlements ex_founded) ''root'' ENTITLEMENT_GOVERN_CAPABILITY" by code_simp
  from one_governor_for_ever[OF ex_company_start ex_governance_history(1,2) this] show ?thesis by blast
qed

text \<open>C35: the ledger is a complete account of who holds what.  In every reachable state an account
  holds a capability exactly when replaying the acts, in the order they were written, says it does,
  and the acts of an earlier state are a prefix of those of a later one.\<close>

theorem ledger_replays_to_entitlements:
  assumes "governance_start db0" and "governance_step\<^sup>*\<^sup>* db0 db" and "governance_step\<^sup>*\<^sup>* db db'"
  shows "{(a, c). holds (entitlements db') a c} = replay (entitlementActs db') \<and>
    (\<exists>new. entitlementActs db' = entitlementActs db @ new)"
proof -
  have ok: "governance_ok db" using governance_history[OF assms(2) governance_ok_start[OF assms(1)]] by blast
  then show ?thesis using governance_history[OF assms(3) ok] governance_okD(2)[of db'] by (simp add: authority_of_def)
qed

theorem ledger_replays_to_entitlements_witness:
  "{(a, c). holds (entitlements ex_delegated) a c} = replay (entitlementActs ex_delegated) \<and>
     (\<exists>new. entitlementActs ex_delegated = entitlementActs ex_founded @ new)"
  by (rule ledger_replays_to_entitlements[OF ex_company_start ex_governance_history(1,2)])

text \<open>Whoever is allowed a privileged operation was given it, on the record.  If the decision for a
  capability allows an account in a reachable state, the account is enabled, and an act of the
  ledger grants it that capability: the bootstrap when it is \<open>entitlement:govern\<close>, and otherwise a
  governed act naming as its actor the account the bootstrap made governor.\<close>

theorem privileged_operation_was_granted:
  assumes "governance_start db0" and "governance_step\<^sup>*\<^sup>* db0 db"
    and "isInternallyAuthorized (evaluateInternalCapability c (resolveInternalAuthorizationSubject db a))"
  shows "(\<exists>x. find_account db a = Some x \<and> acc_status x = Account_ACTIVE) \<and>
    (\<exists>m\<in>set (entitlementActs db). act_basis m = BOOTSTRAP_FIRST_GRANT \<and>
       (\<exists>x\<in>set (entitlementActs db). act_action x = Act_GRANT \<and> act_accountId x = a \<and> act_capability x = c \<and>
          (if c = ENTITLEMENT_GOVERN_CAPABILITY then x = m
           else act_basis x = GOVERNED \<and> act_actorAccountId x = Some (act_accountId m))))"
proof -
  have ok: "governance_ok db" using governance_history[OF assms(2) governance_ok_start[OF assms(1)]] by blast
  note g = governance_okD[OF ok]
  have acc: "\<exists>x. find_account db a = Some x \<and> acc_status x = Account_ACTIVE"
    and "(a, c) \<in> replay (entitlementActs db)"
    using assms(3) g(2) by (auto simp: authorized_iff authority_of_def)
  then obtain x where x: "x \<in> set (entitlementActs db)" "act_action x = Act_GRANT" "act_accountId x = a" "act_capability x = c"
    using replay_traced by blast
  note wf = g(3)[OF x(1)]
  show ?thesis
  proof (cases "act_basis x")
    case BOOTSTRAP_FIRST_GRANT
    then show ?thesis using wf x acc by (auto simp: act_ok_def)
  next
    case GOVERNED
    then obtain h where h: "act_actorAccountId x = Some h" "first_grant_of db h" "c \<noteq> ENTITLEMENT_GOVERN_CAPABILITY"
      using wf x(4) governable_known by (auto simp: act_ok_def)
    from h(2) obtain m where "m \<in> set (entitlementActs db)" "act_basis m = BOOTSTRAP_FIRST_GRANT" "act_accountId m = h"
      by (auto simp: first_grant_of_def)
    then show ?thesis using x acc h(1,3) GOVERNED by auto
  qed
qed

theorem privileged_operation_was_granted_witness:
  "\<exists>x\<in>set (entitlementActs ex_delegated). act_action x = Act_GRANT \<and> act_accountId x = ''ann'' \<and>
     act_actorAccountId x = Some ''root''"
proof -
  have a: "isInternallyAuthorized (evaluateInternalCapability ''commercial-policy:govern''
      (resolveInternalAuthorizationSubject ex_delegated ''ann''))" by code_simp
  have b: "list_all (\<lambda>m. act_basis m = BOOTSTRAP_FIRST_GRANT \<longrightarrow> act_accountId m = ''root'') (entitlementActs ex_delegated)"
    by code_simp
  show ?thesis
    using privileged_operation_was_granted[OF ex_company_start ex_governance_history(3) a] b
    by (fastforce simp: list_all_iff ENTITLEMENT_GOVERN_CAPABILITY_def)
qed

end
