(* ===== verification/Participant_Admission.thy ===== *)
theory Participant_Admission
  imports Participation
begin

text \<open>
  How a participant comes to be admitted: \<open>src/server/marketplace/participant-service.ts\<close> (creation,
  role grants, the drafting statuses) and \<open>src/server/marketplace/activation-service.ts\<close> (submission
  and the governed review).

  The provider's readiness (\<open>readReadinessIn\<close>), the profile's completeness, the terms still to be
  accepted and the support contact are read from tables of other services; an operation takes what
  was read as an argument.
\<close>

section \<open>Participants and roles\<close>

definition insert_participant :: "participant_row \<Rightarrow> 'a participation_tables_scheme \<Rightarrow> 'a participation_tables_scheme res" where
  "insert_participant p db =
     (if pa_marketplaceName p \<noteq> None \<and> pa_marketplaceName p \<in> pa_marketplaceName ` set (participants db)
      then Inl (UniqueViolation ''marketplaceName'')
      else if pa_accountId p \<in> pa_accountId ` set (participants db) \<or> pa_id p \<in> pa_id ` set (participants db)
      then Inl (UniqueViolation ''MarketplaceParticipant'')
      else if find_account db (pa_accountId p) = None then Inl (part_err ''FOREIGN_KEY'')
      else Inr (db\<lparr>participants := participants db @ [p]\<rparr>))"

definition draft_participant :: "ident \<Rightarrow> ident \<Rightarrow> string \<Rightarrow> participant_row" where
  "draft_participant i accountId name =
     \<lparr>pa_id = i, pa_accountId = accountId, pa_status = Part_DRAFT, pa_marketplaceName = Some name\<rparr>"

definition role_key :: "role_row \<Rightarrow> ident \<times> marketplace_role" where
  "role_key r = (mra_participantId r, mra_role r)"

definition grantRoleInTx ::
  "ident \<Rightarrow> ident \<Rightarrow> marketplace_role \<Rightarrow> instant \<Rightarrow> 'a participation_tables_scheme \<Rightarrow> 'a participation_tables_scheme res" where
  "grantRoleInTx i participantId role at db =
     (let status = initialRoleAssignmentStatus role;
          r = \<lparr>mra_id = i, mra_participantId = participantId, mra_role = role, mra_status = status, mra_grantedAt = at,
               mra_activatedAt = (if status = RoleSt_ACTIVE then Some at else None), mra_revokedAt = None\<rparr> in
      if role_key r \<in> role_key ` set (roleAssignments db) \<or> i \<in> mra_id ` set (roleAssignments db)
      then Inl (UniqueViolation ''MarketplaceRoleAssignment'')
      else Inr (db\<lparr>roleAssignments := roleAssignments db @ [r]\<rparr>))"

fun grant_roles ::
  "(nat \<Rightarrow> ident) \<Rightarrow> nat \<Rightarrow> ident \<Rightarrow> marketplace_role list \<Rightarrow> instant \<Rightarrow> 'a participation_tables_scheme \<Rightarrow>
   'a participation_tables_scheme res" where
  "grant_roles ids n participantId [] at db = Inr db"
| "grant_roles ids n participantId (r # rs) at db =
     chain (grantRoleInTx (ids n) participantId r at db) (\<lambda>db1. grant_roles ids (n + 1) participantId rs at db1)"

record participant_snapshot =
  psn_participant :: participant_row
  psn_roles :: "role_row list"

definition read_participant_snapshot :: "ident \<Rightarrow> 'a participation_tables_scheme \<Rightarrow> participant_snapshot res" where
  "read_participant_snapshot participantId db =
     (case find_participant db participantId of None \<Rightarrow> Inl (part_err ''PARTICIPANT_NOT_FOUND'')
      | Some p \<Rightarrow> Inr \<lparr>psn_participant = p,
                      psn_roles = filter (\<lambda>r. mra_participantId r = participantId) (roleAssignments db)\<rparr>)"

record participant_ids =
  pid_participant :: ident
  pid_role :: "nat \<Rightarrow> ident"
  pid_candidate :: "nat \<Rightarrow> nat \<Rightarrow> string"

fun participant_create_catch :: "'b res \<Rightarrow> 'b res" where
  "participant_create_catch (Inr x) = Inr x"
| "participant_create_catch (Inl e) =
     (if e = UniqueViolation ''marketplaceName'' then Inl (part_err ''PARTICIPANT_PERSISTENCE_FAILURE'')
      else if e = UniqueViolation ''MarketplaceParticipant'' \<or> e = UniqueViolation ''MarketplaceRoleAssignment''
      then Inl (part_err ''DUPLICATE_PARTICIPANT'')
      else if e = part_err ''FOREIGN_KEY'' then Inl (part_err ''ACCOUNT_NOT_FOUND_FOR_PARTICIPANT'')
      else if own_codes [''PARTICIPANT_NOT_FOUND'', ''CORRUPT_PARTICIPANT_RECORD'', ''PARTICIPANT_ONBOARDING_CLOSED''] e then Inl e
      else Inl (part_err ''PARTICIPANT_PERSISTENCE_FAILURE''))"

text \<open>Creation with a freshly allocated public name, and the requested roles in the same transaction.\<close>

definition create_named_participant ::
  "participant_ids \<Rightarrow> ident \<Rightarrow> 'a participation_tables_scheme \<Rightarrow> 'a participation_tables_scheme res" where
  "create_named_participant ids accountId db =
     chain (allocateMarketplaceNameIn (pid_candidate ids) (map pa_marketplaceName (participants db))) (\<lambda>name.
       insert_participant (draft_participant (pid_participant ids) accountId name) db)"

definition createDraftParticipant ::
  "participant_ids \<Rightarrow> ident \<Rightarrow> marketplace_role list \<Rightarrow> instant \<Rightarrow> 'a participation_tables_scheme \<Rightarrow>
   ('a participation_tables_scheme \<times> participant_snapshot) res" where
  "createDraftParticipant ids accountId initialRoles at db =
     (if length initialRoles > 3 then Inl (part_err ''INVALID_PARTICIPANT_INPUT'')
      else participant_create_catch
        (chain (create_named_participant ids accountId db) (\<lambda>db1.
         chain (grant_roles (pid_role ids) 0 (pid_participant ids) (uniq initialRoles) at db1) (\<lambda>db2.
         chain (read_participant_snapshot (pid_participant ids) db2) (\<lambda>s. Inr (db2, s))))))"

definition assignParticipantRole ::
  "ident \<Rightarrow> ident \<Rightarrow> marketplace_role \<Rightarrow> instant \<Rightarrow> 'a participation_tables_scheme \<Rightarrow>
   ('a participation_tables_scheme \<times> participant_snapshot) res" where
  "assignParticipantRole i participantId role at db =
     (if find_participant db participantId = None then Inl (part_err ''PARTICIPANT_NOT_FOUND'')
      else participant_create_catch
        (chain (if (participantId, role) \<in> role_key ` set (roleAssignments db) then Inr db
                else grantRoleInTx i participantId role at db) (\<lambda>db1.
         chain (read_participant_snapshot participantId db1) (\<lambda>s. Inr (db1, s)))))"

definition beginParticipantOnboarding ::
  "participant_ids \<Rightarrow> ident \<Rightarrow> marketplace_role list \<Rightarrow> instant \<Rightarrow> 'a participation_tables_scheme \<Rightarrow>
   ('a participation_tables_scheme \<times> participant_snapshot) res" where
  "beginParticipantOnboarding ids accountId roles at db =
     (if \<not> (1 \<le> length roles \<and> length roles \<le> 2 \<and> list_all (\<lambda>r. r \<noteq> Role_BUYER) roles)
      then Inl (part_err ''INVALID_PARTICIPANT_INPUT'')
      else participant_create_catch
        (chain (case find_account_participant db accountId of
                  None \<Rightarrow> chain (create_named_participant ids accountId db) (\<lambda>db1. Inr (db1, pid_participant ids))
                | Some p \<Rightarrow> if \<not> isDraftWritableParticipantStatus (pa_status p)
                           then Inl (part_err ''PARTICIPANT_ONBOARDING_CLOSED'') else Inr (db, pa_id p)) (\<lambda>(db1, pid).
         chain (grant_roles (pid_role ids) 0 pid
                  (filter (\<lambda>r. (pid, r) \<notin> role_key ` set (roleAssignments db1)) (uniq roles)) at db1) (\<lambda>db2.
         chain (read_participant_snapshot pid db2) (\<lambda>s. Inr (db2, s))))))"

definition advanceParticipantStatus ::
  "ident \<Rightarrow> participant_status \<Rightarrow> 'a participation_tables_scheme \<Rightarrow>
   ('a participation_tables_scheme \<times> participant_snapshot) res" where
  "advanceParticipantStatus participantId target db =
     (if \<not> isDraftWritableParticipantStatus target then Inl (part_err ''ACTIVATION_NOT_PERMITTED_IN_PHASE'')
      else case find_participant db participantId of None \<Rightarrow> Inl (part_err ''PARTICIPANT_NOT_FOUND'')
      | Some p \<Rightarrow>
          if pa_status p = UNDER_REVIEW then Inl (part_err ''ACTIVATION_NOT_PERMITTED_IN_PHASE'')
          else if \<not> isValidParticipantTransition (pa_status p) target then Inl (part_err ''INVALID_PARTICIPANT_TRANSITION'')
          else let db1 = set_status participantId target db in
            chain (read_participant_snapshot participantId db1) (\<lambda>s. Inr (db1, s)))"

section \<open>Submission\<close>

definition role_pairs :: "'a participation_tables_scheme \<Rightarrow> ident \<Rightarrow> (marketplace_role \<times> role_status) list" where
  "role_pairs db p = map (\<lambda>r. (mra_role r, mra_status r)) (filter (\<lambda>r. mra_participantId r = p) (roleAssignments db))"

text \<open>\<open>None\<close> allows; \<open>Some\<close> is the reason code of the refusal.\<close>

definition canSubmitActivation ::
  "acting_account option \<Rightarrow> (participant_status \<times> (marketplace_role \<times> role_status) list) option \<Rightarrow> string option" where
  "canSubmitActivation account participant =
     (case account of None \<Rightarrow> Some ''ACCOUNT_REQUIRED''
      | Some a \<Rightarrow> if acc_status a \<noteq> Account_ACTIVE then Some ''ACCOUNT_DISABLED''
      else case participant of None \<Rightarrow> Some ''PARTICIPANT_REQUIRED''
      | Some (status, roles) \<Rightarrow>
          (case status of
             PROFILE_COMPLETE \<Rightarrow> if has_activatable_role roles then None else Some ''NO_ACTIVATABLE_ROLE''
           | Part_DRAFT \<Rightarrow> Some ''PROFILE_NOT_COMPLETE''
           | PROFILE_INCOMPLETE \<Rightarrow> Some ''PROFILE_NOT_COMPLETE''
           | UNDER_REVIEW \<Rightarrow> Some ''ACTIVATION_ALREADY_SUBMITTED''
           | Part_ACTIVE \<Rightarrow> Some ''ACTIVATION_ALREADY_COMPLETE''
           | _ \<Rightarrow> Some ''PARTICIPANT_STATUS_NOT_ELIGIBLE''))"

definition advanceRoles ::
  "ident \<Rightarrow> (role_status \<Rightarrow> role_status option) \<Rightarrow> instant option \<Rightarrow> 'a participation_tables_scheme \<Rightarrow> 'a participation_tables_scheme" where
  "advanceRoles p nxt activatedAt db =
     db\<lparr>roleAssignments := map (\<lambda>r.
          if mra_participantId r \<noteq> p then r
          else case nxt (mra_status r) of None \<Rightarrow> r
          | Some t \<Rightarrow> if \<not> isValidRoleAssignmentTransition (mra_status r) t then r
                     else r\<lparr>mra_status := t, mra_activatedAt :=
                       (if t = RoleSt_ACTIVE \<and> activatedAt \<noteq> None then activatedAt else mra_activatedAt r)\<rparr>)
        (roleAssignments db)\<rparr>"

definition assertPhaseWritable :: "participant_status \<Rightarrow> unit res" where
  "assertPhaseWritable s =
     (if requiresRestrictionScope s then Inl (part_err ''RESTRICTION_SCOPE_NOT_AVAILABLE_IN_PHASE'')
      else if \<not> isActivationPhaseWritableParticipantStatus s then Inl (part_err ''ACTIVATION_NOT_PERMITTED_IN_PHASE'')
      else Inr ())"

record activation_snapshot =
  asn_participantStatus :: participant_status
  asn_activation :: activation_row

definition readActivationSnapshotInTx :: "ident \<Rightarrow> ident \<Rightarrow> 'a participation_tables_scheme \<Rightarrow> activation_snapshot res" where
  "readActivationSnapshotInTx participantId activationId db =
     (case find_participant db participantId of None \<Rightarrow> Inl (part_err ''PARTICIPANT_NOT_FOUND'')
      | Some p \<Rightarrow> (case List.find (\<lambda>a. av_id a = activationId) (activations db) of
                    None \<Rightarrow> Inl (part_err ''ACTIVATION_NOT_SUBMITTED'')
                  | Some a \<Rightarrow> Inr \<lparr>asn_participantStatus = pa_status p, asn_activation = a\<rparr>))"

definition activation_domain_errors :: "string list" where
  "activation_domain_errors = [''PARTICIPANT_NOT_FOUND'', ''CORRUPT_PARTICIPANT_RECORD'', ''ACTIVATION_NOT_SUBMITTED'',
     ''ACTIVATION_ALREADY_DECIDED'', ''ACTIVATION_PREREQUISITES_NOT_MET'', ''PARTICIPANT_SUSPENDED'',
     ''ACTIVATION_REVIEWER_NOT_AUTHORIZED'', ''ACTIVATION_SELF_REVIEW_NOT_PERMITTED'', ''INCOHERENT_ACTIVATION_DECISION'',
     ''ACTIVATION_NOT_PERMITTED_IN_PHASE'', ''RESTRICTION_SCOPE_NOT_AVAILABLE_IN_PHASE'',
     ''INVALID_PARTICIPANT_TRANSITION'', ''AMBIGUOUS_PAYMENT_READINESS'']"

fun submit_catch :: "'b res \<Rightarrow> 'b res" where
  "submit_catch (Inr x) = Inr x"
| "submit_catch (Inl e) =
     (if own_codes activation_domain_errors e then Inl e
      else if e = UniqueViolation ''ParticipantActivation'' then Inl (part_err ''ACTIVATION_ALREADY_DECIDED'')
      else Inl (part_err ''PARTICIPANT_PERSISTENCE_FAILURE''))"

definition new_activation :: "ident \<Rightarrow> ident \<Rightarrow> instant \<Rightarrow> activation_row" where
  "new_activation i participantId at =
     \<lparr>av_id = i, av_participantId = participantId, av_submittedAt = at, av_decision = None, av_decidedAt = None,
      av_decidedByActorId = None, av_decisionReasonCode = None, av_undecidedForParticipantId = Some participantId\<rparr>"

definition insert_activation :: "activation_row \<Rightarrow> 'a participation_tables_scheme \<Rightarrow> 'a participation_tables_scheme res" where
  "insert_activation r db =
     (if list_ex (\<lambda>x. av_undecidedForParticipantId r \<noteq> None \<and> av_undecidedForParticipantId x = av_undecidedForParticipantId r)
           (activations db) \<or> av_id r \<in> av_id ` set (activations db)
      then Inl (UniqueViolation ''ParticipantActivation'')
      else Inr (db\<lparr>activations := activations db @ [r]\<rparr>))"

definition submitParticipantForActivation ::
  "ident \<Rightarrow> payment_readiness res \<Rightarrow> ident \<Rightarrow> instant \<Rightarrow> 'a participation_tables_scheme \<Rightarrow>
   ('a participation_tables_scheme \<times> activation_snapshot) res" where
  "submitParticipantForActivation activationId readiness participantId at db =
     submit_catch
       (case find_participant db participantId of None \<Rightarrow> Inl (part_err ''PARTICIPANT_NOT_FOUND'')
        | Some p \<Rightarrow>
            chain readiness (\<lambda>_.
            case canSubmitActivation (find_account db (pa_accountId p)) (Some (pa_status p, role_pairs db participantId)) of
              Some reason \<Rightarrow> Inl (part_err ''ACTIVATION_PREREQUISITES_NOT_MET'')
            | None \<Rightarrow>
                chain (assertPhaseWritable UNDER_REVIEW) (\<lambda>_.
                if \<not> isValidParticipantTransition (pa_status p) UNDER_REVIEW
                then Inl (part_err ''INVALID_PARTICIPANT_TRANSITION'')
                else
                  chain (insert_activation (new_activation activationId participantId at)
                    (advanceRoles participantId roleStatusOnActivationSubmission None
                      (set_status participantId UNDER_REVIEW db))) (\<lambda>db1.
                  chain (readActivationSnapshotInTx participantId activationId db1) (\<lambda>s. Inr (db1, s))))))"

section \<open>The review\<close>

record approval_evidence =
  ae_profileComplete :: bool
  ae_paymentReadiness :: "payment_readiness res"
  ae_outstandingPolicyAudiences :: "marketplace_role list"
  ae_hasVerifiedSupportContact :: bool

definition assertNotSuspended :: "'a participation_tables_scheme \<Rightarrow> ident \<Rightarrow> unit res" where
  "assertNotSuspended db p = require (activeSuspensionCount db p = 0) (part_err ''PARTICIPANT_SUSPENDED'')"

definition assertApprovable ::
  "approval_evidence \<Rightarrow> 'a participation_tables_scheme \<Rightarrow> ident \<Rightarrow> participant_status \<Rightarrow> unit res" where
  "assertApprovable ev db participantId status =
     chain (ae_paymentReadiness ev) (\<lambda>readiness.
       require (evaluateActivationApproval
           \<lparr>api_participantStatus = status, api_profileComplete = ae_profileComplete ev,
            api_roles = role_pairs db participantId, api_paymentReadiness = readiness,
            api_outstandingPolicyAudiences = ae_outstandingPolicyAudiences ev,
            api_hasVerifiedSupportContact = ae_hasVerifiedSupportContact ev\<rparr> = [])
         (part_err ''ACTIVATION_PREREQUISITES_NOT_MET''))"

definition reconcileApprovedStatusInTx :: "ident \<Rightarrow> 'a participation_tables_scheme \<Rightarrow> 'a participation_tables_scheme" where
  "reconcileApprovedStatusInTx participantId db =
     (let n = activeRestrictionCount db participantId;
          nxt = reconcileParticipantStatusForRestrictions Part_ACTIVE n in
      if nxt \<noteq> Some RESTRICTED then db
      else if \<not> restrictedStatusIsSupported n then db
      else if \<not> isValidParticipantTransition Part_ACTIVE RESTRICTED then db
      else set_status participantId RESTRICTED db)"

record decide_input =
  di_participantId :: ident
  di_decision :: activation_decision
  di_decisionReasonCode :: activation_reason
  di_reviewerAccountId :: ident
  di_decidedAt :: instant

definition decide_activation :: "decide_input \<Rightarrow> activation_row \<Rightarrow> activation_row" where
  "decide_activation i r =
     r\<lparr>av_decision := Some (di_decision i), av_decidedAt := Some (di_decidedAt i),
       av_decidedByActorId := Some (di_reviewerAccountId i), av_decisionReasonCode := Some (di_decisionReasonCode i),
       av_undecidedForParticipantId := None\<rparr>"

definition canReviewParticipantActivation :: "internal_subject option \<Rightarrow> authorization_decision" where
  "canReviewParticipantActivation = evaluateInternalCapability ''activation:review''"

definition find_undecided :: "'a participation_tables_scheme \<Rightarrow> ident \<Rightarrow> activation_row option" where
  "find_undecided db p = List.find (\<lambda>a. av_undecidedForParticipantId a = Some p) (activations db)"

definition decide_tx ::
  "approval_evidence \<Rightarrow> decide_input \<Rightarrow> 'a participation_tables_scheme \<Rightarrow>
   ('a participation_tables_scheme \<times> activation_snapshot) res" where
  "decide_tx ev i db =
     (case find_participant db (di_participantId i) of None \<Rightarrow> Inl (part_err ''PARTICIPANT_NOT_FOUND'')
      | Some p \<Rightarrow>
          if pa_accountId p = di_reviewerAccountId i then Inl (part_err ''ACTIVATION_SELF_REVIEW_NOT_PERMITTED'')
          else case find_undecided db (di_participantId i) of None \<Rightarrow> Inl (part_err ''ACTIVATION_NOT_SUBMITTED'')
          | Some pending \<Rightarrow>
              chain (if di_decision i = Review_APPROVED
                     then chain (assertNotSuspended db (di_participantId i)) (\<lambda>_.
                          assertApprovable ev db (di_participantId i) (pa_status p))
                     else Inr ()) (\<lambda>_.
              let claims = (\<lambda>r. av_id r = av_id pending \<and> av_undecidedForParticipantId r = Some (di_participantId i)) in
              if count_where claims (activations db) \<noteq> 1 then Inl (part_err ''ACTIVATION_ALREADY_DECIDED'')
              else
                let db1 = db\<lparr>activations := update_where claims (decide_activation i) (activations db)\<rparr> in
                chain (case participantStatusAfterDecision (di_decision i) of None \<Rightarrow> Inr db1
                       | Some nxt \<Rightarrow>
                           chain (assertPhaseWritable nxt) (\<lambda>_.
                           if \<not> isValidParticipantTransition (pa_status p) nxt
                           then Inl (part_err ''INVALID_PARTICIPANT_TRANSITION'')
                           else let db2 = set_status (di_participantId i) nxt db1 in
                                Inr (if nxt = Part_ACTIVE then reconcileApprovedStatusInTx (di_participantId i) db2 else db2))) (\<lambda>db3.
                let db4 = (if di_decision i = Review_APPROVED
                           then advanceRoles (di_participantId i) roleStatusOnActivationApproval (Some (di_decidedAt i)) db3 else db3) in
                chain (readActivationSnapshotInTx (di_participantId i) (av_id pending) db4) (\<lambda>s. Inr (db4, s)))))"

definition decideParticipantActivation ::
  "approval_evidence \<Rightarrow> decide_input \<Rightarrow> 'a participation_tables_scheme \<Rightarrow>
   ('a participation_tables_scheme \<times> activation_snapshot) res" where
  "decideParticipantActivation ev i db =
     (if \<not> isInternallyAuthorized (canReviewParticipantActivation (resolveInternalAuthorizationSubject db (di_reviewerAccountId i)))
      then Inl (part_err ''ACTIVATION_REVIEWER_NOT_AUTHORIZED'')
      else if \<not> isCoherentDecisionReason (di_decision i) (di_decisionReasonCode i)
      then Inl (part_err ''INCOHERENT_ACTIVATION_DECISION'')
      else rethrow_own (own_codes activation_domain_errors) (part_err ''PARTICIPANT_PERSISTENCE_FAILURE'') (decide_tx ev i db))"

definition getParticipantActivationHistory :: "ident \<Rightarrow> 'a participation_tables_scheme \<Rightarrow> activation_row list" where
  "getParticipantActivationHistory participantId db =
     rev (sort_key av_submittedAt (sort_key av_id (filter (\<lambda>a. av_participantId a = participantId) (activations db))))"

end
