(* ===== verification/Participation_Facts.thy ===== *)
theory Participation_Facts
  imports Participant_Admission Entitlement_Facts
begin

text \<open>
  What each service does to a participant's standing.  The standing of a participant is its status
  together with the numbers of its active restrictions and suspensions; every operation is stated
  as its effect on these three, and the invariant of the next theory is a condition on them.
\<close>

section \<open>Standing\<close>

definition status_of :: "'a notice_tables_scheme \<Rightarrow> ident \<Rightarrow> participant_status option" where
  "status_of db p = map_option pa_status (find_participant db p)"

lemma find_map_key:
  assumes "\<And>x. key (g x) = key x"
  shows "List.find (\<lambda>x. key x = k) (map g xs) = map_option g (List.find (\<lambda>x. key x = k) xs)"
  by (induction xs) (auto simp: assms)

lemma find_update_key:
  assumes "\<And>x. key (f x) = key x"
  shows "List.find (\<lambda>x. key x = k) (update_where P f xs) =
    map_option (\<lambda>x. if P x then f x else x) (List.find (\<lambda>x. key x = k) xs)"
  unfolding update_where_def by (rule find_map_key) (simp add: assms)

lemma find_participant_id: "find_participant db p = Some r \<Longrightarrow> pa_id r = p"
  by (auto simp: find_participant_def dest: find_Some_set)

lemma status_of_Some: "find_participant db p = Some r \<Longrightarrow> status_of db p = Some (pa_status r)"
  by (simp add: status_of_def)

lemma status_set_status:
  "status_of (set_status p s db) q = (if q = p then map_option (\<lambda>_. s) (status_of db q) else status_of db q)"
proof -
  have "find_participant (set_status p s db) q =
      map_option (\<lambda>r. if pa_id r = p then r\<lparr>pa_status := s\<rparr> else r) (find_participant db q)"
    unfolding find_participant_def set_status_def
    using find_update_key[of pa_id "\<lambda>r. r\<lparr>pa_status := s\<rparr>" q "\<lambda>r. pa_id r = p" "participants db"] by simp
  then show ?thesis
    by (cases "find_participant db q") (auto simp: status_of_def dest: find_participant_id)
qed

lemma set_status_frame [simp]:
  "restrictions (set_status p s db) = restrictions db" "suspensions (set_status p s db) = suspensions db"
  "closures (set_status p s db) = closures db" "activations (set_status p s db) = activations db"
  "map pa_id (participants (set_status p s db)) = map pa_id (participants db)"
  by (simp_all add: set_status_def map_update_where)

lemma status_guarded:
  "status_of (guarded_status p source b target db) q =
    (if q = p \<and> (activeRestrictionCount db p > 0) = b \<and> activeSuspensionCount db p = 0
     then map_option (\<lambda>s. if s = source then target else s) (status_of db q) else status_of db q)"
proof -
  have "find_participant (guarded_status p source b target db) q =
      map_option (\<lambda>r. if pa_id r = p \<and> pa_status r = source \<and> (activeRestrictionCount db p > 0) = b \<and>
          activeSuspensionCount db p = 0 then r\<lparr>pa_status := target\<rparr> else r) (find_participant db q)"
    unfolding find_participant_def guarded_status_def
    by simp (rule find_update_key, simp)
  then show ?thesis
    by (cases "find_participant db q") (auto simp: status_of_def dest: find_participant_id)
qed

lemma guarded_frame [simp]:
  "restrictions (guarded_status p s b t db) = restrictions db" "suspensions (guarded_status p s b t db) = suspensions db"
  "closures (guarded_status p s b t db) = closures db" "activations (guarded_status p s b t db) = activations db"
  "activeRestrictionCount (guarded_status p s b t db) = activeRestrictionCount db"
  "activeSuspensionCount (guarded_status p s b t db) = activeSuspensionCount db"
  "map pa_id (participants (guarded_status p s b t db)) = map pa_id (participants db)"
  by (simp_all add: guarded_status_def map_update_where activeRestrictionCount_def activeSuspensionCount_def fun_eq_iff)

text \<open>The two writes together converge on the status the rows warrant.\<close>

definition converge :: "nat \<Rightarrow> nat \<Rightarrow> participant_status \<Rightarrow> participant_status" where
  "converge nr ns s =
     (if ns \<noteq> 0 then s else if s = Part_ACTIVE \<and> nr > 0 then RESTRICTED
      else if s = RESTRICTED \<and> nr = 0 then Part_ACTIVE else s)"

lemma status_reconcile:
  "status_of (reconcileStatusInTx p cur db) q =
    (if q = p \<and> isAdmittedParticipantStatus cur
     then map_option (converge (activeRestrictionCount db p) (activeSuspensionCount db p)) (status_of db q)
     else status_of db q)"
proof (cases "isAdmittedParticipantStatus cur \<and> q = p")
  case True
  then show ?thesis
    by (cases "status_of db p") (auto simp: reconcileStatusInTx_def status_guarded converge_def)
next
  case False
  then show ?thesis by (auto simp: reconcileStatusInTx_def status_guarded)
qed

lemma reconcile_frame [simp]:
  "restrictions (reconcileStatusInTx p cur db) = restrictions db"
  "suspensions (reconcileStatusInTx p cur db) = suspensions db"
  "closures (reconcileStatusInTx p cur db) = closures db"
  "activations (reconcileStatusInTx p cur db) = activations db"
  "map pa_id (participants (reconcileStatusInTx p cur db)) = map pa_id (participants db)"
  by (simp_all add: reconcileStatusInTx_def)

section \<open>Notices\<close>

text \<open>Raising a notice touches nothing but the notices.\<close>

definition same_standing :: "'a participation_tables_scheme \<Rightarrow> 'a participation_tables_scheme \<Rightarrow> bool" where
  "same_standing db db' = (participants db' = participants db \<and> restrictions db' = restrictions db \<and>
     suspensions db' = suspensions db \<and> closures db' = closures db \<and> activations db' = activations db)"

lemma same_standing_status: "same_standing db db' \<Longrightarrow> status_of db' = status_of db"
  by (simp add: same_standing_def status_of_def find_participant_def fun_eq_iff)

lemma same_standing_counts:
  "same_standing db db' \<Longrightarrow> activeRestrictionCount db' = activeRestrictionCount db"
  "same_standing db db' \<Longrightarrow> activeSuspensionCount db' = activeSuspensionCount db"
  by (simp_all add: same_standing_def activeRestrictionCount_def activeSuspensionCount_def fun_eq_iff)

lemma upsert_frame:
  fixes db :: "'a participation_tables_scheme"
  assumes "upsertObligationInTx f db = Inr (db', r)"
  shows "same_standing db db'"
  using assms by (auto simp: upsertObligationInTx_def insert_notice_def chain_Inr_iff same_standing_def
      split: option.splits if_splits)

lemma decision_notice_frame:
  assumes "recordParticipantDecisionNoticeInTx o1 p d c at db = Inr db'"
  shows "same_standing db db'"
  using assms upsert_frame by (fastforce simp: recordParticipantDecisionNoticeInTx_def chain_Inr_iff)

section \<open>Restrictions\<close>

text \<open>A \<open>catch\<close> lets a result through.\<close>

lemma catches_Inr [simp]:
  "impose_catch r = Inr x \<longleftrightarrow> r = Inr x" "suspend_catch r = Inr x \<longleftrightarrow> r = Inr x" "closure_catch r = Inr x \<longleftrightarrow> r = Inr x"
  "submit_catch r = Inr x \<longleftrightarrow> r = Inr x" "participant_create_catch r = Inr x \<longleftrightarrow> r = Inr x"
  "create_catch r' = Inr y \<longleftrightarrow> r' = Inr y"
  by (cases r; auto split: if_splits; fail | cases r'; auto split: if_splits)+

lemma imposeParticipantRestriction_facts:
  assumes "imposeParticipantRestriction i ob inp db = Inr (db', s)"
  obtains p g db2 where "find_participant db (ii_participantId inp) = Some p" and "pa_accountId p \<noteq> ii_actingAccountId inp"
    and "\<not> isTerminalParticipantStatus (pa_status p)" and "isEnforceableRestrictionScope (ii_scope inp)"
    and "isInternallyAuthorized (canRestrictParticipant (resolveInternalAuthorizationSubject db (ii_actingAccountId inp)))"
    and "risk_derived_reason (ii_reasonCode inp) \<longrightarrow> activeMarketplacePolicyVersion db = Some ''1.3.0'' \<and> g = Some ''1.3.0''"
    and "insert_restriction (new_restriction i inp g) db = Inr db2"
    and "same_standing (reconcileStatusInTx (ii_participantId inp) (pa_status p) db2) db'"
  using assms
  by (cases "find_participant db (ii_participantId inp)")
    (auto simp: imposeParticipantRestriction_def assertRestrictionAuthority_def chain_Inr_iff
      assertParticipantMitigationAuthorizedInTx_def policyVersionAuthorizesParticipantMitigation_def
      split: if_split_asm intro: that dest: decision_notice_frame)

lemma liftParticipantRestriction_facts:
  assumes "liftParticipantRestriction ob i reason actor at db = Inr (db', s)"
  obtains r p where "find_restriction db i = Some r" and "find_participant db (pr_participantId r) = Some p"
    and "pa_accountId p \<noteq> actor"
    and "isInternallyAuthorized (canRestrictParticipant (resolveInternalAuthorizationSubject db actor))"
    and "count_where (\<lambda>r. pr_id r = i \<and> pr_status r = Mitigation_ACTIVE) (restrictions db) = 1"
    and "same_standing (reconcileStatusInTx (pr_participantId r) (pa_status p)
          (lift_restriction_row i at actor reason db)) db'"
  using assms
  by (auto simp: liftParticipantRestriction_def assertRestrictionAuthority_def chain_Inr_iff Let_def
      split: option.splits if_splits intro: that dest: decision_notice_frame)

section \<open>Suspensions\<close>

lemma suspendParticipant_facts:
  assumes "suspendParticipant i ob inp db = Inr (db', s)"
  obtains p g db1 where "find_participant db (si_participantId inp) = Some p" and "pa_accountId p \<noteq> si_actingAccountId inp"
    and "pa_status p \<noteq> SUSPENDED" and "pa_status p \<noteq> Part_CLOSED"
    and "activeMarketplacePolicyVersion db = Some ''1.3.0''"
    and "isInternallyAuthorized (canSuspendParticipant (resolveInternalAuthorizationSubject db (si_actingAccountId inp)))"
    and "insert_suspension (new_suspension i inp (pa_status p) g) db = Inr db1"
    and "same_standing (suspend_status (si_participantId inp) (pa_status p) db1) db'"
  using assms unfolding suspendParticipant_def
  by (cases "find_participant db (si_participantId inp)")
    (auto simp: chain_Inr_iff assertSuspensionAuthority_def
      assertParticipantMitigationAuthorizedInTx_def policyVersionAuthorizesParticipantMitigation_def
      split: if_split_asm intro: that dest: decision_notice_frame)

lemma reinstateParticipant_facts:
  assumes "reinstateParticipant ob i reason actor at db = Inr (db', s)"
  obtains r p where "find_suspension db i = Some r" and "find_participant db (ps_participantId r) = Some p"
    and "pa_accountId p \<noteq> actor"
    and "count_where (\<lambda>r. ps_id r = i \<and> ps_status r = Mitigation_ACTIVE) (suspensions db) = 1"
    and "same_standing (reinstate_status (ps_participantId r) (pa_status p) (ps_statusBeforeSuspension r)
          (lift_suspension_row i at actor reason db)) db'"
  using assms unfolding reinstateParticipant_def Let_def
  by (auto simp: chain_Inr_iff split: option.splits if_split_asm intro: that dest: decision_notice_frame)

section \<open>Closure\<close>

lemma closeParticipant_facts:
  assumes "closeParticipant i ob pid actor reason at db = Inr (db', r)"
  obtains p where "find_participant db pid = Some p" and "pa_accountId p = actor" and "pa_status p \<noteq> Part_CLOSED"
    and "r = \<lparr>pc_id = i, pc_participantId = pid, pc_closedByAccountId = actor,
              pc_reasonCode = reason, pc_statusBeforeClosure = pa_status p, pc_closedAt = at\<rparr>"
    and "pid \<notin> pc_participantId ` set (closures db)"
    and "same_standing (set_status pid Part_CLOSED (db\<lparr>closures := closures db @ [r]\<rparr>)) db'"
  using assms unfolding closeParticipant_def Let_def
  by (auto simp: chain_Inr_iff permitsClosure_def split: option.splits if_split_asm
      intro: that dest: decision_notice_frame)

section \<open>Admission\<close>

lemma grant_roles_frame:
  assumes "grant_roles ids n p rs at db = Inr db'"
  shows "same_standing db db'"
  using assms
proof (induction rs arbitrary: n db)
  case (Cons r rs)
  then show ?case
    by (fastforce simp: chain_Inr_iff grantRoleInTx_def Let_def same_standing_def split: if_splits)
qed (simp add: same_standing_def)

lemma same_standing_trans: "same_standing a b \<Longrightarrow> same_standing b c \<Longrightarrow> same_standing a c"
  by (simp add: same_standing_def)

lemma same_standing_refl [simp]: "same_standing db db"
  by (simp add: same_standing_def)

text \<open>A creation adds one participant, in \<open>DRAFT\<close>, under a fresh id and with a fresh, well-formed
  public name; nothing else of anyone's standing moves.\<close>

definition adds_draft :: "participant_row \<Rightarrow> 'a participation_tables_scheme \<Rightarrow> 'a participation_tables_scheme \<Rightarrow> bool" where
  "adds_draft p db db' = (participants db' = participants db @ [p] \<and> pa_status p = Part_DRAFT \<and>
     pa_id p \<notin> pa_id ` set (participants db) \<and> pa_accountId p \<notin> pa_accountId ` set (participants db) \<and>
     (\<exists>n. pa_marketplaceName p = Some n \<and> isMarketplaceName n \<and> Some n \<notin> pa_marketplaceName ` set (participants db)) \<and>
     restrictions db' = restrictions db \<and> suspensions db' = suspensions db \<and> closures db' = closures db \<and>
     activations db' = activations db)"

lemma adds_draft_same: "adds_draft p db db1 \<Longrightarrow> same_standing db1 db' \<Longrightarrow> adds_draft p db db'"
  by (simp add: adds_draft_def same_standing_def)

lemma create_named_adds:
  assumes "create_named_participant ids a db = Inr db'"
  shows "\<exists>p. adds_draft p db db'"
  using assms allocated_name
  by (fastforce simp: create_named_participant_def insert_participant_def draft_participant_def chain_Inr_iff
      adds_draft_def split: if_splits)

lemma createDraftParticipant_facts:
  assumes "createDraftParticipant ids a rs at db = Inr (db', s)"
  shows "\<exists>p. adds_draft p db db'"
  using assms create_named_adds[of ids a db] grant_roles_frame adds_draft_same
  by (fastforce simp: createDraftParticipant_def chain_Inr_iff split: if_splits)

lemma assignParticipantRole_facts:
  assumes "assignParticipantRole i p r at db = Inr (db', s)"
  shows "same_standing db db'"
  using assms
  by (auto simp: assignParticipantRole_def chain_Inr_iff grantRoleInTx_def Let_def same_standing_def split: if_splits)

lemma beginParticipantOnboarding_facts:
  assumes "beginParticipantOnboarding ids a rs at db = Inr (db', s)"
  shows "same_standing db db' \<or> (\<exists>p. adds_draft p db db')"
proof -
  obtain db1 pid where one: "(case find_account_participant db a of
                  None \<Rightarrow> chain (create_named_participant ids a db) (\<lambda>db1. Inr (db1, pid_participant ids))
                | Some p \<Rightarrow> if \<not> isDraftWritableParticipantStatus (pa_status p)
                           then Inl (part_err ''PARTICIPANT_ONBOARDING_CLOSED'') else Inr (db, pa_id p)) = Inr (db1, pid)"
    and two: "\<exists>xs. grant_roles (pid_role ids) 0 pid xs at db1 = Inr db'"
    using assms by (auto simp: beginParticipantOnboarding_def chain_Inr_iff split: if_split_asm)
  have "same_standing db1 db'" using two grant_roles_frame by blast
  moreover have "db1 = db \<or> (\<exists>p. adds_draft p db db1)"
    using one create_named_adds by (fastforce simp: chain_Inr_iff split: option.splits if_splits)
  ultimately show ?thesis using adds_draft_same by blast
qed

lemma advanceParticipantStatus_facts:
  assumes "advanceParticipantStatus p target db = Inr (db', s)"
  obtains r where "find_participant db p = Some r" and "pa_status r \<noteq> UNDER_REVIEW"
    and "isDraftWritableParticipantStatus target" and "isValidParticipantTransition (pa_status r) target"
    and "db' = set_status p target db"
  using assms by (auto simp: advanceParticipantStatus_def chain_Inr_iff Let_def split: option.splits if_splits)

lemma advanceRoles_frame [simp]: "same_standing db (advanceRoles p f a db)"
  by (simp add: advanceRoles_def same_standing_def)

lemma submitParticipantForActivation_facts:
  assumes "submitParticipantForActivation i readiness p at db = Inr (db', s)"
  obtains r where "find_participant db p = Some r" and "pa_status r = PROFILE_COMPLETE"
    and "\<forall>x\<in>set (activations db). av_undecidedForParticipantId x \<noteq> Some p" and "i \<notin> av_id ` set (activations db)"
    and "same_standing ((set_status p UNDER_REVIEW db)\<lparr>activations := activations db @ [new_activation i p at]\<rparr>) db'"
proof -
  obtain r where r: "find_participant db p = Some r"
    using assms by (auto simp: submitParticipantForActivation_def split: option.splits)
  let ?d = "advanceRoles p roleStatusOnActivationSubmission None (set_status p UNDER_REVIEW db)"
  have ok: "canSubmitActivation (find_account db (pa_accountId r)) (Some (pa_status r, role_pairs db p)) = None"
    and ins: "insert_activation (new_activation i p at) ?d = Inr db'"
    using assms r
    by (auto simp: submitParticipantForActivation_def chain_Inr_iff split: option.splits if_split_asm)
  have "pa_status r = PROFILE_COMPLETE"
    using ok by (auto simp: canSubmitActivation_def split: option.splits if_splits participant_status.splits)
  moreover have d: "activations ?d = activations db" by (simp add: advanceRoles_def)
  ultimately show thesis
    using that[OF r] ins by (auto simp: insert_activation_def new_activation_def list_ex_iff same_standing_def advanceRoles_def
        set_status_def split: if_splits)
qed

text \<open>The review: the undecided row of the participant is decided; an approval of a participant that is
  under review and not suspended admits it, restricted when a restriction stands.\<close>

lemma reconcileApproved_eq:
  "reconcileApprovedStatusInTx p db = (if activeRestrictionCount db p > 0 then set_status p RESTRICTED db else db)"
  by (simp add: reconcileApprovedStatusInTx_def Let_def reconcileParticipantStatusForRestrictions_def
      restrictedStatusIsSupported_def isValidParticipantTransition_def)

definition decided_row :: "'a participation_tables_scheme \<Rightarrow> decide_input \<Rightarrow> activation_row \<Rightarrow> 'a participation_tables_scheme" where
  "decided_row db i pending = db\<lparr>activations := update_where
     (\<lambda>r. av_id r = av_id pending \<and> av_undecidedForParticipantId r = Some (di_participantId i))
     (decide_activation i) (activations db)\<rparr>"

definition reviewed_status :: "'a participation_tables_scheme \<Rightarrow> decide_input \<Rightarrow> participant_status option" where
  "reviewed_status db i = (case di_decision i of
     Review_APPROVED \<Rightarrow> Some (if activeRestrictionCount db (di_participantId i) > 0 then RESTRICTED else Part_ACTIVE)
   | MORE_INFORMATION_REQUIRED \<Rightarrow> Some PROFILE_INCOMPLETE
   | Review_REJECTED \<Rightarrow> None)"

lemma set_status_twice [simp]: "set_status p t (set_status p s db) = set_status p t db"
  by (auto simp: set_status_def update_where_def)

lemma same_standing_sym: "same_standing a b \<Longrightarrow> same_standing b a"
  by (simp add: same_standing_def)

lemma decideParticipantActivation_facts:
  assumes "decideParticipantActivation ev i db = Inr (db', s)"
  obtains p pending where "find_participant db (di_participantId i) = Some p"
    and "pa_accountId p \<noteq> di_reviewerAccountId i"
    and "isInternallyAuthorized (canReviewParticipantActivation (resolveInternalAuthorizationSubject db (di_reviewerAccountId i)))"
    and "find_undecided db (di_participantId i) = Some pending"
    and "di_decision i = Review_APPROVED \<longrightarrow> pa_status p = UNDER_REVIEW \<and> activeSuspensionCount db (di_participantId i) = 0"
    and "di_decision i = MORE_INFORMATION_REQUIRED \<longrightarrow> isValidParticipantTransition (pa_status p) PROFILE_INCOMPLETE"
    and "same_standing (case reviewed_status db i of None \<Rightarrow> decided_row db i pending
           | Some t \<Rightarrow> set_status (di_participantId i) t (decided_row db i pending)) db'"
proof -
  have auth: "isInternallyAuthorized (canReviewParticipantActivation (resolveInternalAuthorizationSubject db (di_reviewerAccountId i)))"
    and tx: "decide_tx ev i db = Inr (db', s)"
    using assms by (auto simp: decideParticipantActivation_def split: if_split_asm)
  obtain p where p: "find_participant db (di_participantId i) = Some p"
    using tx by (auto simp: decide_tx_def split: option.splits)
  have self: "pa_accountId p \<noteq> di_reviewerAccountId i"
    using tx p by (auto simp: decide_tx_def split: if_splits)
  obtain pending where pend: "find_undecided db (di_participantId i) = Some pending"
    using tx p self by (auto simp: decide_tx_def split: option.splits)
  note d = tx[unfolded decide_tx_def p option.case if_not_P[OF self] pend Let_def]
  have c: "activeRestrictionCount (set_status (di_participantId i) t (decided_row db i pending)) (di_participantId i) =
      activeRestrictionCount db (di_participantId i)" for t
    by (simp add: activeRestrictionCount_def decided_row_def)
  show thesis
  proof (cases "di_decision i")
    case Review_APPROVED
    have "pa_status p = UNDER_REVIEW \<and> activeSuspensionCount db (di_participantId i) = 0"
      using d Review_APPROVED
      by (auto simp: chain_Inr_iff assertNotSuspended_def assertApprovable_def evaluateActivationApproval_Nil split: if_splits)
    moreover have "same_standing (set_status (di_participantId i)
        (if activeRestrictionCount db (di_participantId i) > 0 then RESTRICTED else Part_ACTIVE) (decided_row db i pending)) db'"
      using d Review_APPROVED c
      by (auto simp: chain_Inr_iff reconcileApproved_eq decided_row_def[symmetric] split: if_splits)
    ultimately show thesis using that[OF p self auth pend] Review_APPROVED by (simp add: reviewed_status_def)
  next
    case MORE_INFORMATION_REQUIRED
    then have "isValidParticipantTransition (pa_status p) PROFILE_INCOMPLETE"
      and "same_standing (set_status (di_participantId i) PROFILE_INCOMPLETE (decided_row db i pending)) db'"
      using d by (auto simp: chain_Inr_iff decided_row_def[symmetric] split: if_splits)
    then show thesis using that[OF p self auth pend] MORE_INFORMATION_REQUIRED by (simp add: reviewed_status_def)
  next
    case Review_REJECTED
    then have "same_standing (decided_row db i pending) db'"
      using d by (auto simp: chain_Inr_iff decided_row_def[symmetric] split: if_splits)
    then show thesis using that[OF p self auth pend] Review_REJECTED by (simp add: reviewed_status_def)
  qed
qed

end
