(* ===== verification/Participation_History.thy ===== *)
theory Participation_History
  imports Participation_Facts
begin

text \<open>
  Histories of the services that decide standing.  A step is one committed operation, a notice of
  any kind, or a change of what these services only read (accounts, entitlements, the policy in
  force, recorded risk reviews).  The invariant says what a status rests on.
\<close>

section \<open>Counting\<close>

lemma count_update_one:
  assumes "unique_on key xs" and "r \<in> set xs" and "P r" and "\<And>x. x \<in> set xs \<Longrightarrow> P x \<Longrightarrow> key x = key r"
  shows "count_where Q (update_where P f xs) + (if Q r then 1 else 0) = count_where Q xs + (if Q (f r) then 1 else 0)"
  using assms
proof (induction xs)
  case (Cons a xs)
  show ?case
  proof (cases "P a")
    case True
    then have "key a = key r" using Cons.prems(4) by simp
    then have ar: "a = r" using unique_on_eq[OF Cons.prems(1), of a r] Cons.prems(2) by simp
    have "update_where P f xs = xs"
    proof (rule update_where_none)
      fix x assume "x \<in> set xs"
      then have "key x \<in> key ` set xs" by (rule imageI)
      then have "key x \<noteq> key r" using Cons.prems(1) ar by (metis distinct.simps(2) list.map(2) set_map unique_on_def)
      then show "\<not> P x" using Cons.prems(4)[of x] \<open>x \<in> set xs\<close> by auto
    qed
    then have "update_where P f (a # xs) = f r # xs" using True ar by (simp add: update_where_def)
    then show ?thesis using ar by simp
  next
    case False
    then have rin: "r \<in> set xs" using Cons.prems(2,3) by auto
    have "count_where Q (update_where P f xs) + (if Q r then 1 else 0) = count_where Q xs + (if Q (f r) then 1 else 0)"
    proof (rule Cons.IH)
      show "unique_on key xs" using Cons.prems(1) by (simp add: unique_on_def)
      show "r \<in> set xs" by (rule rin)
      show "P r" by (rule Cons.prems(3))
      show "key x = key r" if "x \<in> set xs" "P x" for x using Cons.prems(4)[of x] that by simp
    qed
    then show ?thesis using False by (simp add: update_where_def)
  qed
qed simp

lemma found_active_row:
  assumes "unique_on key xs" and "List.find (\<lambda>x. key x = k) xs = Some r" and "count_where (\<lambda>x. key x = k \<and> A x) xs = 1"
  shows "A r \<and> r \<in> set xs \<and> key r = k"
proof -
  have r: "r \<in> set xs" "key r = k" using assms(2) by (auto dest: find_Some_set)
  obtain y where "y \<in> set xs" "key y = k" "A y"
    using assms(3) count_where_pos_iff[of "\<lambda>x. key x = k \<and> A x" xs] by auto
  then show ?thesis using unique_on_eq[OF assms(1), of y r] r by simp
qed

section \<open>Invariant\<close>

definition status_supported :: "participant_status \<Rightarrow> nat \<Rightarrow> nat \<Rightarrow> bool" where
  "status_supported s nr ns = (case s of
     Part_ACTIVE \<Rightarrow> nr = 0 \<and> ns = 0 | RESTRICTED \<Rightarrow> nr > 0 \<and> ns = 0 | SUSPENDED \<Rightarrow> ns > 0 | _ \<Rightarrow> True)"

definition standing_supported :: "'a participation_tables_scheme \<Rightarrow> bool" where
  "standing_supported db = (\<forall>p s. status_of db p = Some s \<longrightarrow>
     status_supported s (activeRestrictionCount db p) (activeSuspensionCount db p))"

definition suspension_rows_ok :: "'a participation_tables_scheme \<Rightarrow> bool" where
  "suspension_rows_ok db = (unique_on ps_id (suspensions db) \<and> unique_on pr_id (restrictions db) \<and>
     (\<forall>s\<in>set (suspensions db). ps_activeForParticipantId s =
        (if ps_status s = Mitigation_ACTIVE then Some (ps_participantId s) else None)) \<and>
     (\<forall>p. activeSuspensionCount db p \<le> 1) \<and>
     (\<forall>s\<in>set (suspensions db). ps_status s = Mitigation_ACTIVE \<and> status_of db (ps_participantId s) = Some SUSPENDED \<longrightarrow>
        isAdmittedParticipantStatus (ps_statusBeforeSuspension s)))"

definition closures_ok :: "'a participation_tables_scheme \<Rightarrow> bool" where
  "closures_ok db = (\<forall>p. status_of db p = Some Part_CLOSED \<longleftrightarrow> p \<in> pc_participantId ` set (closures db))"

definition account_of :: "'a notice_tables_scheme \<Rightarrow> ident \<Rightarrow> ident option" where
  "account_of db p = map_option pa_accountId (find_participant db p)"

definition approved_by_another :: "'a participation_tables_scheme \<Rightarrow> ident \<Rightarrow> bool" where
  "approved_by_another db p = (\<exists>a\<in>set (activations db). av_participantId a = p \<and> av_decision a = Some Review_APPROVED \<and>
     (\<exists>rv. av_decidedByActorId a = Some rv \<and> account_of db p \<noteq> Some rv))"

definition admissions_ok :: "'a participation_tables_scheme \<Rightarrow> bool" where
  "admissions_ok db = (unique_on av_id (activations db) \<and>
     (\<forall>a\<in>set (activations db). av_undecidedForParticipantId a = (if av_decision a = None then Some (av_participantId a) else None)) \<and>
     (\<forall>p s. status_of db p = Some s \<and> s \<in> {Part_ACTIVE, RESTRICTED, SUSPENDED} \<longrightarrow> approved_by_another db p))"

definition participation_inv :: "'a participation_tables_scheme \<Rightarrow> bool" where
  "participation_inv db = (standing_supported db \<and> suspension_rows_ok db \<and> closures_ok db \<and> admissions_ok db)"

section \<open>Steps\<close>

inductive participation_step :: "'a participation_tables_scheme \<Rightarrow> 'a participation_tables_scheme \<Rightarrow> bool" where
  created: "createDraftParticipant ids a rs at db = Inr (db', x1) \<Longrightarrow> participation_step db db'"
| onboarded: "beginParticipantOnboarding ids a rs at db = Inr (db', x2) \<Longrightarrow> participation_step db db'"
| role_assigned: "assignParticipantRole i p r at db = Inr (db', x3) \<Longrightarrow> participation_step db db'"
| advanced: "advanceParticipantStatus p t db = Inr (db', x4) \<Longrightarrow> participation_step db db'"
| submitted: "submitParticipantForActivation i rd p at db = Inr (db', x5) \<Longrightarrow> participation_step db db'"
| review_decided: "decideParticipantActivation ev di db = Inr (db', x6) \<Longrightarrow> participation_step db db'"
| restricted: "imposeParticipantRestriction i ob ii db = Inr (db', x7) \<Longrightarrow> participation_step db db'"
| restriction_lifted: "liftParticipantRestriction ob i rl actor at db = Inr (db', x8) \<Longrightarrow> participation_step db db'"
| suspended: "suspendParticipant i ob si db = Inr (db', x9) \<Longrightarrow> participation_step db db'"
| reinstated: "reinstateParticipant ob i sl actor at db = Inr (db', x10) \<Longrightarrow> participation_step db db'"
| closed: "closeParticipant i ob p actor cr at db = Inr (db', x11) \<Longrightarrow> participation_step db db'"
| surroundings: "same_standing db db' \<Longrightarrow> participation_step db db'"

text \<open>What a step does to one participant: the status moves along the table or stays.\<close>

definition counts_of :: "'a participation_tables_scheme \<Rightarrow> ident \<Rightarrow> nat \<times> nat" where
  "counts_of db p = (activeRestrictionCount db p, activeSuspensionCount db p)"

lemma account_set_status [simp]: "account_of (set_status p s db) q = account_of db q"
proof -
  have "find_participant (set_status p s db) q =
      map_option (\<lambda>r. if pa_id r = p then r\<lparr>pa_status := s\<rparr> else r) (find_participant db q)"
    unfolding find_participant_def set_status_def
    using find_update_key[of pa_id "\<lambda>r. r\<lparr>pa_status := s\<rparr>" q "\<lambda>r. pa_id r = p" "participants db"] by simp
  then show ?thesis by (cases "find_participant db q") (auto simp: account_of_def)
qed

lemma account_guarded [simp]: "account_of (guarded_status p s b t db) q = account_of db q"
proof -
  have "find_participant (guarded_status p s b t db) q =
      map_option (\<lambda>r. if pa_id r = p \<and> pa_status r = s \<and> (activeRestrictionCount db p > 0) = b \<and>
          activeSuspensionCount db p = 0 then r\<lparr>pa_status := t\<rparr> else r) (find_participant db q)"
    unfolding find_participant_def guarded_status_def
    by simp (rule find_update_key, simp)
  then show ?thesis by (cases "find_participant db q") (auto simp: account_of_def)
qed

lemma account_reconcile [simp]: "account_of (reconcileStatusInTx p c db) q = account_of db q"
  by (simp add: reconcileStatusInTx_def)

lemma same_standing_account: "same_standing db db' \<Longrightarrow> account_of db' = account_of db"
  by (simp add: same_standing_def account_of_def find_participant_def fun_eq_iff)

lemma same_standing_inv:
  assumes "same_standing db db'"
  shows "participation_inv db' \<longleftrightarrow> participation_inv db"
  using assms same_standing_status[OF assms] same_standing_counts[OF assms] same_standing_account[OF assms]
  by (simp add: participation_inv_def standing_supported_def suspension_rows_ok_def closures_ok_def admissions_ok_def
      approved_by_another_def same_standing_def)

lemma participation_invD:
  assumes "participation_inv db"
  shows "status_of db p = Some s \<Longrightarrow> status_supported s (activeRestrictionCount db p) (activeSuspensionCount db p)"
    and "unique_on ps_id (suspensions db)" and "unique_on pr_id (restrictions db)" and "unique_on av_id (activations db)"
    and "x \<in> set (suspensions db) \<Longrightarrow> ps_activeForParticipantId x =
        (if ps_status x = Mitigation_ACTIVE then Some (ps_participantId x) else None)"
    and "activeSuspensionCount db p \<le> 1"
    and "x \<in> set (suspensions db) \<Longrightarrow> ps_status x = Mitigation_ACTIVE \<Longrightarrow> status_of db (ps_participantId x) = Some SUSPENDED \<Longrightarrow>
        isAdmittedParticipantStatus (ps_statusBeforeSuspension x)"
    and "status_of db p = Some Part_CLOSED \<longleftrightarrow> p \<in> pc_participantId ` set (closures db)"
    and "a \<in> set (activations db) \<Longrightarrow> av_undecidedForParticipantId a = (if av_decision a = None then Some (av_participantId a) else None)"
    and "status_of db p = Some s \<Longrightarrow> s \<in> {Part_ACTIVE, RESTRICTED, SUSPENDED} \<Longrightarrow> approved_by_another db p"
  using assms by (auto simp: participation_inv_def standing_supported_def suspension_rows_ok_def closures_ok_def admissions_ok_def)

text \<open>The invariant after an operation that leaves the closures and activations alone: it suffices to
  look at the participant it is about.\<close>

lemma participation_inv_one:
  assumes inv: "participation_inv db"
    and other: "\<And>q. q \<noteq> p \<Longrightarrow> status_of db' q = status_of db q \<and> activeRestrictionCount db' q = activeRestrictionCount db q \<and>
        activeSuspensionCount db' q = activeSuspensionCount db q"
    and same: "closures db' = closures db" "activations db' = activations db" "\<And>q. account_of db' q = account_of db q"
    and uniq: "unique_on ps_id (suspensions db')" "unique_on pr_id (restrictions db')"
    and rows: "\<And>x. x \<in> set (suspensions db') \<Longrightarrow> ps_activeForParticipantId x =
        (if ps_status x = Mitigation_ACTIVE then Some (ps_participantId x) else None)"
    and one: "activeSuspensionCount db' p \<le> 1"
    and before: "\<And>x. x \<in> set (suspensions db') \<Longrightarrow> ps_status x = Mitigation_ACTIVE \<Longrightarrow>
        status_of db' (ps_participantId x) = Some SUSPENDED \<Longrightarrow> isAdmittedParticipantStatus (ps_statusBeforeSuspension x)"
    and supp: "\<And>s. status_of db' p = Some s \<Longrightarrow> status_supported s (activeRestrictionCount db' p) (activeSuspensionCount db' p)"
    and closed: "status_of db' p = Some Part_CLOSED \<longleftrightarrow> status_of db p = Some Part_CLOSED"
    and adm: "\<And>s. status_of db' p = Some s \<Longrightarrow> s \<in> {Part_ACTIVE, RESTRICTED, SUSPENDED} \<Longrightarrow>
        \<exists>t\<in>{Part_ACTIVE, RESTRICTED, SUSPENDED}. status_of db p = Some t"
  shows "participation_inv db'"
proof -
  note d = participation_invD[OF inv]
  have "standing_supported db'"
    unfolding standing_supported_def
  proof (intro allI impI)
    fix q s assume "status_of db' q = Some s"
    then show "status_supported s (activeRestrictionCount db' q) (activeSuspensionCount db' q)"
      using d(1)[of q s] other[of q] supp by (cases "q = p") auto
  qed
  moreover have "suspension_rows_ok db'"
    unfolding suspension_rows_ok_def
  proof (intro conjI allI)
    fix q show "activeSuspensionCount db' q \<le> 1" using d(6)[of q] other[of q] one by (cases "q = p") auto
  qed (use uniq rows before in auto)
  moreover have "closures_ok db'"
    unfolding closures_ok_def
  proof
    fix q show "status_of db' q = Some Part_CLOSED \<longleftrightarrow> q \<in> pc_participantId ` set (closures db')"
      using d(8)[of q] other[of q] closed by (cases "q = p") (auto simp: same)
  qed
  moreover have "admissions_ok db'"
    unfolding admissions_ok_def
  proof (intro conjI allI impI)
    fix q s assume "status_of db' q = Some s \<and> s \<in> {Part_ACTIVE, RESTRICTED, SUSPENDED}"
    then have "\<exists>t\<in>{Part_ACTIVE, RESTRICTED, SUSPENDED}. status_of db q = Some t"
      using other[of q] adm by (cases "q = p") auto
    then have "approved_by_another db q" using d(10) by blast
    then show "approved_by_another db' q" by (simp add: approved_by_another_def same)
  qed (use d(4,9) in \<open>auto simp: same\<close>)
  ultimately show ?thesis by (simp add: participation_inv_def)
qed

section \<open>Preservation\<close>

lemma activeRestrictionCount_append:
  "restrictions db' = restrictions db @ [r] \<Longrightarrow> pr_status r = Mitigation_ACTIVE \<Longrightarrow>
   activeRestrictionCount db' q = activeRestrictionCount db q + (if q = pr_participantId r then 1 else 0)"
  by (simp add: activeRestrictionCount_def)

lemma activeSuspensionCount_append:
  "suspensions db' = suspensions db @ [r] \<Longrightarrow> ps_status r = Mitigation_ACTIVE \<Longrightarrow>
   activeSuspensionCount db' q = activeSuspensionCount db q + (if q = ps_participantId r then 1 else 0)"
  by (simp add: activeSuspensionCount_def)

lemma status_of_participants: "participants db' = participants db \<Longrightarrow> status_of db' = status_of db"
  by (simp add: status_of_def find_participant_def fun_eq_iff)

lemma account_of_participants: "participants db' = participants db \<Longrightarrow> account_of db' = account_of db"
  by (simp add: account_of_def find_participant_def fun_eq_iff)

lemma counts_reconcile [simp]:
  "activeRestrictionCount (reconcileStatusInTx p c db) = activeRestrictionCount db"
  "activeSuspensionCount (reconcileStatusInTx p c db) = activeSuspensionCount db"
  by (simp_all add: reconcileStatusInTx_def)

lemma counts_set_status [simp]:
  "activeRestrictionCount (set_status p s db) = activeRestrictionCount db"
  "activeSuspensionCount (set_status p s db) = activeSuspensionCount db"
  by (simp_all add: activeRestrictionCount_def activeSuspensionCount_def fun_eq_iff)

lemma converge_supported:
  "ns = 0 \<Longrightarrow> isAdmittedParticipantStatus s \<Longrightarrow> status_supported (converge nr ns s) nr ns"
  by (auto simp: converge_def status_supported_def isAdmittedParticipantStatus_def)

lemma not_admitted_supported:
  "\<not> isAdmittedParticipantStatus s \<Longrightarrow> status_supported s nr ns \<Longrightarrow> status_supported s nr' ns"
  by (cases s) (auto simp: status_supported_def isAdmittedParticipantStatus_def)

text \<open>Restrictions change the number of active restrictions of one participant and converge its status.\<close>

lemma restriction_change_inv:
  assumes inv: "participation_inv db" and cur: "status_of db p = Some cur"
    and parts: "participants db1 = participants db" "suspensions db1 = suspensions db" "closures db1 = closures db"
      "activations db1 = activations db"
    and uniq: "unique_on pr_id (restrictions db1)"
    and counts: "\<And>q. q \<noteq> p \<Longrightarrow> activeRestrictionCount db1 q = activeRestrictionCount db q"
  shows "participation_inv (reconcileStatusInTx p cur db1)" (is "participation_inv ?db")
proof -
  note d = participation_invD[OF inv]
  have st1: "status_of db1 = status_of db" by (rule status_of_participants) (simp add: parts)
  have ns: "activeSuspensionCount db1 = activeSuspensionCount db"
    by (simp add: activeSuspensionCount_def parts fun_eq_iff)
  have st: "status_of ?db p = Some (if isAdmittedParticipantStatus cur
      then converge (activeRestrictionCount db1 p) (activeSuspensionCount db p) cur else cur)"
    using cur by (simp add: status_reconcile st1 ns)
  have sus0: "isAdmittedParticipantStatus cur \<Longrightarrow> activeSuspensionCount db p = 0"
    using d(1)[OF cur] by (auto simp: isAdmittedParticipantStatus_def status_supported_def)
  show ?thesis
  proof (rule participation_inv_one[OF inv, where p = p])
    show "status_of ?db q = status_of db q \<and> activeRestrictionCount ?db q = activeRestrictionCount db q \<and>
        activeSuspensionCount ?db q = activeSuspensionCount db q" if "q \<noteq> p" for q
      using that counts by (simp add: status_reconcile st1 ns)
    show "account_of ?db q = account_of db q" for q
      by (simp add: account_of_participants[of db1 db] parts)
    show "status_supported s (activeRestrictionCount ?db p) (activeSuspensionCount ?db p)" if "status_of ?db p = Some s" for s
    proof (cases "isAdmittedParticipantStatus cur")
      case True
      then show ?thesis
        using converge_supported[OF sus0[OF True] True, of "activeRestrictionCount db1 p"] that st by (simp add: ns)
    next
      case False
      then show ?thesis using d(1)[OF cur] that st not_admitted_supported[OF False] by (simp add: ns)
    qed
    show "status_of ?db p = Some Part_CLOSED \<longleftrightarrow> status_of db p = Some Part_CLOSED"
      using st cur by (auto simp: converge_def isAdmittedParticipantStatus_def)
    show "\<exists>t\<in>{Part_ACTIVE, RESTRICTED, SUSPENDED}. status_of db p = Some t"
      if "status_of ?db p = Some s" "s \<in> {Part_ACTIVE, RESTRICTED, SUSPENDED}" for s
      using that st cur by (auto simp: isAdmittedParticipantStatus_def split: if_splits)
    show "isAdmittedParticipantStatus (ps_statusBeforeSuspension x)"
      if "x \<in> set (suspensions ?db)" "ps_status x = Mitigation_ACTIVE" "status_of ?db (ps_participantId x) = Some SUSPENDED" for x
      using that d(7)[of x] st cur by (cases "ps_participantId x = p")
        (auto simp: parts status_reconcile st1 converge_def isAdmittedParticipantStatus_def split: if_splits)
  qed (use d(2,5,6) uniq in \<open>auto simp: parts ns\<close>)
qed

lemma imposed_inv:
  assumes "participation_inv db" and "imposeParticipantRestriction i ob inp db = Inr (db', s)"
  shows "participation_inv db'"
proof -
  from imposeParticipantRestriction_facts[OF assms(2)]
  obtain p g db1 where p: "find_participant db (ii_participantId inp) = Some p"
    and ins: "insert_restriction (new_restriction i inp g) db = Inr db1"
    and same: "same_standing (reconcileStatusInTx (ii_participantId inp) (pa_status p) db1) db'" .
  have db1: "db1 = db\<lparr>restrictions := restrictions db @ [new_restriction i inp g]\<rparr>"
    and fresh: "i \<notin> pr_id ` set (restrictions db)"
    using ins by (auto simp: insert_restriction_def new_restriction_def split: if_splits)
  have "participation_inv (reconcileStatusInTx (ii_participantId inp) (pa_status p) db1)"
  proof (rule restriction_change_inv[OF assms(1)])
    show "status_of db (ii_participantId inp) = Some (pa_status p)" by (rule status_of_Some[OF p])
    show "unique_on pr_id (restrictions db1)"
      using participation_invD(3)[OF assms(1)] fresh by (simp add: db1 new_restriction_def)
    show "activeRestrictionCount db1 q = activeRestrictionCount db q" if "q \<noteq> ii_participantId inp" for q
      using that by (simp add: db1 activeRestrictionCount_def new_restriction_def)
  qed (simp_all add: db1)
  then show ?thesis using same_standing_inv[OF same] by simp
qed

lemma lifted_inv:
  assumes "participation_inv db" and "liftParticipantRestriction ob i reason actor at db = Inr (db', s)"
  shows "participation_inv db'"
proof -
  from liftParticipantRestriction_facts[OF assms(2)]
  obtain r p where r: "find_restriction db i = Some r" and p: "find_participant db (pr_participantId r) = Some p"
    and one: "count_where (\<lambda>r. pr_id r = i \<and> pr_status r = Mitigation_ACTIVE) (restrictions db) = 1"
    and same: "same_standing (reconcileStatusInTx (pr_participantId r) (pa_status p) (lift_restriction_row i at actor reason db)) db'" .
  note u = participation_invD(3)[OF assms(1)]
  have row: "pr_status r = Mitigation_ACTIVE \<and> r \<in> set (restrictions db) \<and> pr_id r = i"
    using found_active_row[OF u r[unfolded find_restriction_def] one] .
  let ?l = "lift_restriction_row i at actor reason db"
  have "participation_inv (reconcileStatusInTx (pr_participantId r) (pa_status p) ?l)"
  proof (rule restriction_change_inv[OF assms(1)])
    show "status_of db (pr_participantId r) = Some (pa_status p)" by (rule status_of_Some[OF p])
    show "unique_on pr_id (restrictions ?l)"
      by (simp add: lift_restriction_row_def unique_on_update_where[OF u] lift_restriction_def)
    show "activeRestrictionCount ?l q = activeRestrictionCount db q" if "q \<noteq> pr_participantId r" for q
      using count_update_one[OF u, of r "\<lambda>r. pr_id r = i \<and> pr_status r = Mitigation_ACTIVE"
          "\<lambda>r. pr_participantId r = q \<and> pr_status r = Mitigation_ACTIVE" "lift_restriction at actor reason"] row that
      by (simp add: activeRestrictionCount_def lift_restriction_row_def lift_restriction_def)
  qed (simp_all add: lift_restriction_row_def)
  then show ?thesis using same_standing_inv[OF same] by simp
qed

lemma active_suspension_counted:
  "x \<in> set (suspensions db) \<Longrightarrow> ps_status x = Mitigation_ACTIVE \<Longrightarrow> activeSuspensionCount db (ps_participantId x) > 0"
  by (auto simp: activeSuspensionCount_def count_where_pos_iff)

lemma suspended_inv:
  assumes inv: "participation_inv db" and op: "suspendParticipant i ob inp db = Inr (db', s)"
  shows "participation_inv db'"
proof -
  let ?p = "si_participantId inp"
  from suspendParticipant_facts[OF op]
  obtain p g db1 where p: "find_participant db ?p = Some p" and ne: "pa_status p \<noteq> SUSPENDED" "pa_status p \<noteq> Part_CLOSED"
    and ins: "insert_suspension (new_suspension i inp (pa_status p) g) db = Inr db1"
    and same: "same_standing (suspend_status ?p (pa_status p) db1) db'" .
  note d = participation_invD[OF inv]
  let ?r = "new_suspension i inp (pa_status p) g"
  have db1: "db1 = db\<lparr>suspensions := suspensions db @ [?r]\<rparr>" and fresh: "i \<notin> ps_id ` set (suspensions db)"
    and free: "\<forall>x\<in>set (suspensions db). ps_activeForParticipantId x \<noteq> Some ?p"
    using ins by (auto simp: insert_suspension_def new_suspension_def list_ex_iff split: if_splits)
  have zero: "activeSuspensionCount db ?p = 0"
    using free d(5) by (auto simp: activeSuspensionCount_def count_where_0_iff)
  have one: "activeSuspensionCount db1 q = activeSuspensionCount db q + (if q = ?p then 1 else 0)" for q
    by (simp add: db1 activeSuspensionCount_def new_suspension_def)
  have nr: "activeRestrictionCount db1 = activeRestrictionCount db"
    by (simp add: db1 activeRestrictionCount_def fun_eq_iff)
  have st1: "status_of db1 = status_of db" by (rule status_of_participants) (simp add: db1)
  have cur: "status_of db ?p = Some (pa_status p)" by (rule status_of_Some[OF p])
  let ?db = "suspend_status ?p (pa_status p) db1"
  have eq: "?db = (if isAdmittedParticipantStatus (pa_status p) then set_status ?p SUSPENDED db1 else db1)"
    using one[of ?p] by (auto simp: suspend_status_def suspendedStatusIsSupported_def isAdmittedParticipantStatus_def
        isValidParticipantTransition_def)
  have st: "status_of ?db q = (if q = ?p then Some (if isAdmittedParticipantStatus (pa_status p) then SUSPENDED else pa_status p)
      else status_of db q)" for q
    using cur by (simp add: eq status_set_status st1)
  have fr: "suspensions ?db = suspensions db @ [?r]" "restrictions ?db = restrictions db" "closures ?db = closures db"
    "activations ?db = activations db"
    unfolding eq by (simp_all add: db1)
  have c: "activeSuspensionCount ?db = activeSuspensionCount db1" "activeRestrictionCount ?db = activeRestrictionCount db"
    by (simp_all add: eq nr)
  have "participation_inv ?db"
  proof (rule participation_inv_one[OF inv, where p = ?p])
    show "status_of ?db q = status_of db q \<and> activeRestrictionCount ?db q = activeRestrictionCount db q \<and>
        activeSuspensionCount ?db q = activeSuspensionCount db q" if "q \<noteq> ?p" for q
      using that by (simp add: st c one)
    show "account_of ?db q = account_of db q" for q
      using account_of_participants[of db1 db] unfolding eq by (simp add: db1)
    show "activeSuspensionCount ?db ?p \<le> 1" by (simp add: c one zero)
    show "status_supported s (activeRestrictionCount ?db ?p) (activeSuspensionCount ?db ?p)" if "status_of ?db ?p = Some s" for s
      using that ne by (auto simp: st c one status_supported_def isAdmittedParticipantStatus_def split: if_splits participant_status.splits)
    show "status_of ?db ?p = Some Part_CLOSED \<longleftrightarrow> status_of db ?p = Some Part_CLOSED" using cur ne by (simp add: st)
    show "\<exists>t\<in>{Part_ACTIVE, RESTRICTED, SUSPENDED}. status_of db ?p = Some t"
      if "status_of ?db ?p = Some s" "s \<in> {Part_ACTIVE, RESTRICTED, SUSPENDED}" for s
      using that cur by (auto simp: st isAdmittedParticipantStatus_def split: if_splits)
    show "isAdmittedParticipantStatus (ps_statusBeforeSuspension x)"
      if x: "x \<in> set (suspensions ?db)" "ps_status x = Mitigation_ACTIVE" "status_of ?db (ps_participantId x) = Some SUSPENDED" for x
    proof (cases "x = ?r")
      case True
      then show ?thesis using x(3) ne by (auto simp: st new_suspension_def split: if_splits)
    next
      case False
      then have "x \<in> set (suspensions db)" using x(1) by (simp add: fr)
      moreover have "ps_participantId x \<noteq> ?p" using active_suspension_counted[OF \<open>x \<in> set (suspensions db)\<close> x(2)] zero by auto
      ultimately show ?thesis using d(7)[of x] x by (simp add: st)
    qed
    show "ps_activeForParticipantId x = (if ps_status x = Mitigation_ACTIVE then Some (ps_participantId x) else None)"
      if "x \<in> set (suspensions ?db)" for x
      using that d(5)[of x] by (auto simp: fr new_suspension_def)
    show "unique_on ps_id (suspensions ?db)" using d(2) fresh by (simp add: fr new_suspension_def)
  qed (use d(3) in \<open>simp_all add: fr\<close>)
  then show ?thesis using same_standing_inv[OF same] by simp
qed

lemma reinstated_inv:
  assumes inv: "participation_inv db" and op: "reinstateParticipant ob i reason actor at db = Inr (db', s)"
  shows "participation_inv db'"
proof -
  from reinstateParticipant_facts[OF op]
  obtain r p where r: "find_suspension db i = Some r" and p: "find_participant db (ps_participantId r) = Some p"
    and cnt: "count_where (\<lambda>r. ps_id r = i \<and> ps_status r = Mitigation_ACTIVE) (suspensions db) = 1"
    and same: "same_standing (reinstate_status (ps_participantId r) (pa_status p) (ps_statusBeforeSuspension r)
          (lift_suspension_row i at actor reason db)) db'" .
  let ?p = "ps_participantId r" and ?l = "lift_suspension_row i at actor reason db"
  note d = participation_invD[OF inv]
  have row: "ps_status r = Mitigation_ACTIVE" "r \<in> set (suspensions db)" "ps_id r = i"
    using found_active_row[OF d(2) r[unfolded find_suspension_def] cnt] by auto
  have cnts: "activeSuspensionCount ?l q + (if q = ?p then 1 else 0) = activeSuspensionCount db q" for q
    using count_update_one[OF d(2), of r "\<lambda>r. ps_id r = i \<and> ps_status r = Mitigation_ACTIVE"
          "\<lambda>r. ps_participantId r = q \<and> ps_status r = Mitigation_ACTIVE" "lift_suspension at actor reason"] row
    by (auto simp: activeSuspensionCount_def lift_suspension_row_def lift_suspension_def)
  have zero: "activeSuspensionCount ?l ?p = 0" using cnts[of ?p] d(6)[of ?p] by simp
  have ns: "activeSuspensionCount db ?p > 0" by (rule active_suspension_counted[OF row(2,1)])
  have nr: "activeRestrictionCount ?l = activeRestrictionCount db"
    by (simp add: lift_suspension_row_def activeRestrictionCount_def fun_eq_iff)
  have st1: "status_of ?l = status_of db" by (rule status_of_participants) (simp add: lift_suspension_row_def)
  have cur: "status_of db ?p = Some (pa_status p)" by (rule status_of_Some[OF p])
  let ?db = "reinstate_status ?p (pa_status p) (ps_statusBeforeSuspension r) ?l"
  let ?t = "if activeRestrictionCount db ?p > 0 then RESTRICTED else Part_ACTIVE"
  have eq: "?db = (if pa_status p = SUSPENDED then set_status ?p ?t ?l else ?l)"
    using d(7)[OF row(2,1)] cur
    by (auto simp: reinstate_status_def reinstatementTargetStatus_def Let_def nr isAdmittedParticipantStatus_def
        isValidParticipantTransition_def)
  have st: "status_of ?db q = (if q = ?p then Some (if pa_status p = SUSPENDED then ?t else pa_status p) else status_of db q)" for q
    using cur by (simp add: eq status_set_status st1)
  have fr: "suspensions ?db = suspensions ?l" "restrictions ?db = restrictions db" "closures ?db = closures db"
    "activations ?db = activations db"
    unfolding eq by (simp_all add: lift_suspension_row_def)
  have c: "activeSuspensionCount ?db = activeSuspensionCount ?l" "activeRestrictionCount ?db = activeRestrictionCount db"
    by (simp_all add: eq nr)
  have old: "x \<in> set (suspensions db) \<and> ps_participantId x \<noteq> ?p"
    if x: "x \<in> set (suspensions ?db)" "ps_status x = Mitigation_ACTIVE" for x
  proof -
    have "x \<in> set (suspensions ?l)" using x(1) by (simp add: fr)
    moreover have "activeSuspensionCount ?l (ps_participantId x) > 0"
      by (rule active_suspension_counted) (use x fr in simp_all)
    ultimately show ?thesis using zero x(2)
      by (auto simp: lift_suspension_row_def set_update_where lift_suspension_def split: if_splits)
  qed
  have "participation_inv ?db"
  proof (rule participation_inv_one[OF inv, where p = ?p])
    show "status_of ?db q = status_of db q \<and> activeRestrictionCount ?db q = activeRestrictionCount db q \<and>
        activeSuspensionCount ?db q = activeSuspensionCount db q" if "q \<noteq> ?p" for q
      using that cnts[of q] by (simp add: st c)
    show "account_of ?db q = account_of db q" for q
      using account_of_participants[of ?l db] unfolding eq by (simp add: lift_suspension_row_def)
    show "activeSuspensionCount ?db ?p \<le> 1" by (simp add: c zero)
    show "status_supported s (activeRestrictionCount ?db ?p) (activeSuspensionCount ?db ?p)" if "status_of ?db ?p = Some s" for s
      using that d(1)[OF cur] ns by (auto simp: st c zero status_supported_def split: if_splits participant_status.splits)
    show "status_of ?db ?p = Some Part_CLOSED \<longleftrightarrow> status_of db ?p = Some Part_CLOSED" using cur by (simp add: st)
    show "\<exists>t\<in>{Part_ACTIVE, RESTRICTED, SUSPENDED}. status_of db ?p = Some t"
      if "status_of ?db ?p = Some s" "s \<in> {Part_ACTIVE, RESTRICTED, SUSPENDED}" for s
      using that cur by (auto simp: st split: if_splits)
    show "isAdmittedParticipantStatus (ps_statusBeforeSuspension x)"
      if "x \<in> set (suspensions ?db)" "ps_status x = Mitigation_ACTIVE" "status_of ?db (ps_participantId x) = Some SUSPENDED" for x
      using old[OF that(1,2)] d(7)[of x] that by (simp add: st)
    show "ps_activeForParticipantId x = (if ps_status x = Mitigation_ACTIVE then Some (ps_participantId x) else None)"
      if x: "x \<in> set (suspensions ?db)" for x
    proof -
      have "x \<in> set (suspensions ?l)" using x by (simp add: fr)
      then show ?thesis using d(5) by (auto simp: lift_suspension_row_def set_update_where lift_suspension_def split: if_splits)
    qed
    show "unique_on ps_id (suspensions ?db)"
      unfolding fr by (simp add: lift_suspension_row_def unique_on_update_where[OF d(2)] lift_suspension_def)
  qed (use d(3) in \<open>simp_all add: fr\<close>)
  then show ?thesis using same_standing_inv[OF same] by simp
qed

lemma closed_inv:
  assumes inv: "participation_inv db" and op: "closeParticipant i ob pid actor reason at db = Inr (db', r)"
  shows "participation_inv db'"
proof -
  from closeParticipant_facts[OF op]
  obtain p where p: "find_participant db pid = Some p"
    and r: "r = \<lparr>pc_id = i, pc_participantId = pid, pc_closedByAccountId = actor,
              pc_reasonCode = reason, pc_statusBeforeClosure = pa_status p, pc_closedAt = at\<rparr>"
    and same: "same_standing (set_status pid Part_CLOSED (db\<lparr>closures := closures db @ [r]\<rparr>)) db'" .
  have pr: "pc_participantId r = pid" by (simp add: r)
  let ?c = "db\<lparr>closures := closures db @ [r]\<rparr>"
  let ?db = "set_status pid Part_CLOSED ?c"
  note d = participation_invD[OF inv]
  have st: "status_of ?db q = (if q = pid then Some Part_CLOSED else status_of db q)" for q
    using status_of_Some[OF p] status_of_participants[of ?c db] by (simp add: status_set_status)
  have acc: "account_of ?c = account_of db" by (rule account_of_participants) simp
  have c: "activeRestrictionCount ?c = activeRestrictionCount db" "activeSuspensionCount ?c = activeSuspensionCount db"
    by (simp_all add: activeRestrictionCount_def activeSuspensionCount_def fun_eq_iff)
  have "standing_supported ?db"
    using d(1) by (auto simp: standing_supported_def st c status_supported_def)
  moreover have "suspension_rows_ok ?db"
    using d(2,3,5,6,7) by (auto simp: suspension_rows_ok_def st c split: if_splits)
  moreover have "closures_ok ?db" using d(8) pr by (auto simp: closures_ok_def st)
  moreover have "admissions_ok ?db"
    using d(4,9,10) by (auto simp: admissions_ok_def st approved_by_another_def acc split: if_splits)
  ultimately have "participation_inv ?db" by (simp add: participation_inv_def)
  then show ?thesis using same_standing_inv[OF same] by simp
qed

lemma draft_status:
  assumes "adds_draft p db db'"
  shows "status_of db' q = (if q = pa_id p then Some Part_DRAFT else status_of db q)"
    and "q \<noteq> pa_id p \<Longrightarrow> account_of db' q = account_of db q" and "status_of db (pa_id p) = None"
proof -
  have none: "find_participant db (pa_id p) = None"
    unfolding find_participant_def find_None_iff
    using assms by (metis adds_draft_def image_eqI)
  show "status_of db' q = (if q = pa_id p then Some Part_DRAFT else status_of db q)"
    using assms none by (auto simp: adds_draft_def status_of_def find_participant_def find_append split: option.split)
  show "q \<noteq> pa_id p \<Longrightarrow> account_of db' q = account_of db q"
    using assms by (auto simp: adds_draft_def account_of_def find_participant_def find_append split: option.split)
  show "status_of db (pa_id p) = None" using none by (simp add: status_of_def)
qed

lemma drafted_inv:
  assumes inv: "participation_inv db" and op: "adds_draft p db db'"
  shows "participation_inv db'"
proof -
  note d = participation_invD[OF inv] and st = draft_status[OF op]
  have fr: "suspensions db' = suspensions db" "restrictions db' = restrictions db" "closures db' = closures db"
    "activations db' = activations db"
    using op by (simp_all add: adds_draft_def)
  have c: "activeRestrictionCount db' = activeRestrictionCount db" "activeSuspensionCount db' = activeSuspensionCount db"
    by (simp_all add: activeRestrictionCount_def activeSuspensionCount_def fun_eq_iff fr)
  have "standing_supported db'"
    using d(1) by (auto simp: standing_supported_def st(1) c status_supported_def)
  moreover have "suspension_rows_ok db'"
    using d(2,3,5,6,7) by (auto simp: suspension_rows_ok_def st(1) c fr split: if_splits)
  moreover have "closures_ok db'" using d(8) d(8)[of "pa_id p"] st(3) by (auto simp: closures_ok_def st(1) fr)
  moreover have "admissions_ok db'"
    unfolding admissions_ok_def
  proof (intro conjI allI impI)
    fix q s assume a: "status_of db' q = Some s \<and> s \<in> {Part_ACTIVE, RESTRICTED, SUSPENDED}"
    then have ne: "q \<noteq> pa_id p" by (auto simp: st(1) split: if_splits)
    then have "approved_by_another db q" using a d(10)[of q s] by (simp add: st(1))
    then show "approved_by_another db' q" by (simp add: approved_by_another_def fr st(2)[OF ne])
  qed (use d(4,9) in \<open>auto simp: fr\<close>)
  ultimately show ?thesis by (simp add: participation_inv_def)
qed

lemma advanced_inv:
  assumes inv: "participation_inv db" and op: "advanceParticipantStatus pid target db = Inr (db', s)"
  shows "participation_inv db'"
proof -
  from advanceParticipantStatus_facts[OF op]
  obtain r where r: "find_participant db pid = Some r" and t: "isDraftWritableParticipantStatus target"
    and v: "isValidParticipantTransition (pa_status r) target" and db': "db' = set_status pid target db" .
  note d = participation_invD[OF inv]
  have src: "pa_status r \<in> {Part_DRAFT, PROFILE_INCOMPLETE, PROFILE_COMPLETE, UNDER_REVIEW}"
    using t v by (cases "pa_status r") (auto simp: isDraftWritableParticipantStatus_def isValidParticipantTransition_def)
  have st: "status_of db' q = (if q = pid then Some target else status_of db q)" for q
    using status_of_Some[OF r] by (simp add: db' status_set_status)
  show ?thesis
  proof (rule participation_inv_one[OF inv, where p = pid])
    show "status_supported s (activeRestrictionCount db' pid) (activeSuspensionCount db' pid)" if "status_of db' pid = Some s" for s
      using that t by (auto simp: st isDraftWritableParticipantStatus_def status_supported_def)
    show "status_of db' pid = Some Part_CLOSED \<longleftrightarrow> status_of db pid = Some Part_CLOSED"
      using t src status_of_Some[OF r] by (auto simp: st isDraftWritableParticipantStatus_def)
    show "\<exists>t\<in>{Part_ACTIVE, RESTRICTED, SUSPENDED}. status_of db pid = Some t"
      if "status_of db' pid = Some s" "s \<in> {Part_ACTIVE, RESTRICTED, SUSPENDED}" for s
      using that t by (auto simp: st isDraftWritableParticipantStatus_def)
    show "isAdmittedParticipantStatus (ps_statusBeforeSuspension x)"
      if "x \<in> set (suspensions db')" "ps_status x = Mitigation_ACTIVE" "status_of db' (ps_participantId x) = Some SUSPENDED" for x
      using that d(7)[of x] t by (auto simp: db' status_set_status isDraftWritableParticipantStatus_def split: if_splits)
  qed (use d(2,3,5,6) in \<open>auto simp: st db' status_set_status\<close>)
qed

lemma new_activation_simps [simp]:
  "av_id (new_activation i p at) = i" "av_participantId (new_activation i p at) = p"
  "av_decision (new_activation i p at) = None" "av_undecidedForParticipantId (new_activation i p at) = Some p"
  by (simp_all add: new_activation_def)

lemma submitted_inv:
  assumes inv: "participation_inv db" and op: "submitParticipantForActivation i rd pid at db = Inr (db', s)"
  shows "participation_inv db'"
proof -
  from submitParticipantForActivation_facts[OF op]
  obtain r where r: "find_participant db pid = Some r" and src: "pa_status r = PROFILE_COMPLETE"
    and fresh: "i \<notin> av_id ` set (activations db)"
    and same: "same_standing ((set_status pid UNDER_REVIEW db)\<lparr>activations := activations db @ [new_activation i pid at]\<rparr>) db'" .
  let ?u = "set_status pid UNDER_REVIEW db"
  let ?db = "?u\<lparr>activations := activations db @ [new_activation i pid at]\<rparr>"
  note d = participation_invD[OF inv]
  have st: "status_of ?db q = (if q = pid then Some UNDER_REVIEW else status_of db q)" for q
    using status_of_Some[OF r] status_of_participants[of ?db ?u] by (simp add: status_set_status)
  have acc: "account_of ?db q = account_of db q" for q
    using account_of_participants[of ?db ?u] by simp
  have c: "activeRestrictionCount ?db = activeRestrictionCount db" "activeSuspensionCount ?db = activeSuspensionCount db"
    by (simp_all add: activeRestrictionCount_def activeSuspensionCount_def fun_eq_iff)
  have "standing_supported ?db"
    using d(1) by (auto simp: standing_supported_def st c status_supported_def)
  moreover have "suspension_rows_ok ?db"
    using d(2,3,5,6,7) by (auto simp: suspension_rows_ok_def st c split: if_splits)
  moreover have "closures_ok ?db"
    using d(8) d(8)[of pid] status_of_Some[OF r] src by (auto simp: closures_ok_def st)
  moreover have "admissions_ok ?db"
    using d(4,9,10) fresh by (auto simp: admissions_ok_def st approved_by_another_def acc split: if_splits)
  ultimately have "participation_inv ?db" by (simp add: participation_inv_def)
  then show ?thesis using same_standing_inv[OF same] by simp
qed

text \<open>The review decides one undecided row, and no decided one.\<close>

lemma decided_row_facts:
  assumes inv: "participation_inv db" and pend: "find_undecided db (di_participantId i) = Some pending"
  shows "pending \<in> set (activations db)" and "av_participantId pending = di_participantId i"
    and "participants (decided_row db i pending) = participants db"
    and "restrictions (decided_row db i pending) = restrictions db" "suspensions (decided_row db i pending) = suspensions db"
      "closures (decided_row db i pending) = closures db"
    and "unique_on av_id (activations (decided_row db i pending))"
    and "a \<in> set (activations (decided_row db i pending)) \<longleftrightarrow>
      a = decide_activation i pending \<or> (a \<in> set (activations db) \<and> a \<noteq> pending)"
    and "a \<in> set (activations (decided_row db i pending)) \<Longrightarrow> av_undecidedForParticipantId a =
      (if av_decision a = None then Some (av_participantId a) else None)"
proof -
  note d = participation_invD[OF inv]
  have p: "pending \<in> set (activations db)" "av_undecidedForParticipantId pending = Some (di_participantId i)"
    using pend by (auto simp: find_undecided_def dest: find_Some_set)
  show "pending \<in> set (activations db)" by (rule p(1))
  show "av_participantId pending = di_participantId i" using p(2) d(9)[OF p(1)] by (simp split: if_splits)
  show "participants (decided_row db i pending) = participants db" "restrictions (decided_row db i pending) = restrictions db"
    "suspensions (decided_row db i pending) = suspensions db" "closures (decided_row db i pending) = closures db"
    by (simp_all add: decided_row_def)
  show "unique_on av_id (activations (decided_row db i pending))"
    by (simp add: decided_row_def unique_on_update_where[OF d(4)] decide_activation_def)
  have only: "av_id x = av_id pending \<and> av_undecidedForParticipantId x = Some (di_participantId i) \<longleftrightarrow> x = pending"
    if "x \<in> set (activations db)" for x
    using that p unique_on_eq[OF d(4), of x pending] by auto
  have new: "decide_activation i pending \<noteq> pending"
    using p(2) by (auto simp: decide_activation_def dest: arg_cong[where f = av_undecidedForParticipantId])
  show iff: "a \<in> set (activations (decided_row db i pending)) \<longleftrightarrow>
      a = decide_activation i pending \<or> (a \<in> set (activations db) \<and> a \<noteq> pending)" for a
    using only p(1) by (auto simp: decided_row_def set_update_where image_iff)
  show "a \<in> set (activations (decided_row db i pending)) \<Longrightarrow> av_undecidedForParticipantId a =
      (if av_decision a = None then Some (av_participantId a) else None)"
    using d(9)[of a] by (auto simp: iff decide_activation_def)
qed

lemma decided_row_approved:
  assumes inv: "participation_inv db" and pend: "find_undecided db (di_participantId i) = Some pending"
    and acc: "account_of db (di_participantId i) = Some a" and ne: "a \<noteq> di_reviewerAccountId i"
  shows "approved_by_another db q \<Longrightarrow> approved_by_another (decided_row db i pending) q"
    and "di_decision i = Review_APPROVED \<Longrightarrow> approved_by_another (decided_row db i pending) (di_participantId i)"
proof -
  note r = decided_row_facts[OF inv pend]
  have acc': "account_of (decided_row db i pending) = account_of db" by (rule account_of_participants) (rule r(3))
  have u: "av_decision pending = None"
    using participation_invD(9)[OF inv r(1)] pend by (auto simp: find_undecided_def dest: find_Some_set split: if_splits)
  show "approved_by_another db q \<Longrightarrow> approved_by_another (decided_row db i pending) q"
    using u unfolding approved_by_another_def acc' by (metis r(8) option.distinct(1))
  show "approved_by_another (decided_row db i pending) (di_participantId i)" if "di_decision i = Review_APPROVED"
    unfolding approved_by_another_def acc'
    by (rule bexI[of _ "decide_activation i pending"]) (use that acc ne r(2) in \<open>auto simp: r(8) decide_activation_def\<close>)
qed

lemma decided_inv:
  assumes inv: "participation_inv db" and op: "decideParticipantActivation ev i db = Inr (db', s)"
  shows "participation_inv db'"
proof -
  let ?p = "di_participantId i"
  from decideParticipantActivation_facts[OF op]
  obtain p pending where p: "find_participant db ?p = Some p" and ne: "pa_accountId p \<noteq> di_reviewerAccountId i"
    and pend: "find_undecided db ?p = Some pending"
    and app: "di_decision i = Review_APPROVED \<longrightarrow> pa_status p = UNDER_REVIEW \<and> activeSuspensionCount db ?p = 0"
    and more: "di_decision i = MORE_INFORMATION_REQUIRED \<longrightarrow> isValidParticipantTransition (pa_status p) PROFILE_INCOMPLETE"
    and same: "same_standing (case reviewed_status db i of None \<Rightarrow> decided_row db i pending
           | Some t \<Rightarrow> set_status ?p t (decided_row db i pending)) db'" .
  let ?d = "decided_row db i pending"
  let ?db = "case reviewed_status db i of None \<Rightarrow> ?d | Some t \<Rightarrow> set_status ?p t ?d"
  note d = participation_invD[OF inv] and r = decided_row_facts[OF inv pend]
  have acc: "account_of db ?p = Some (pa_accountId p)" using p by (simp add: account_of_def)
  note ap = decided_row_approved[OF inv pend acc ne]
  have cur: "status_of db ?p = Some (pa_status p)" by (rule status_of_Some[OF p])
  have st1: "status_of ?d = status_of db" by (rule status_of_participants) (rule r(3))
  have acc1: "account_of ?d = account_of db" by (rule account_of_participants) (rule r(3))
  have c1: "activeRestrictionCount ?d = activeRestrictionCount db" "activeSuspensionCount ?d = activeSuspensionCount db"
    by (simp_all add: activeRestrictionCount_def activeSuspensionCount_def fun_eq_iff r)
  define new where "new = (case reviewed_status db i of None \<Rightarrow> pa_status p | Some t \<Rightarrow> t)"
  have st: "status_of ?db q = (if q = ?p then Some new else status_of db q)" for q
    using cur by (auto simp: new_def status_set_status st1 split: option.split)
  have fr: "restrictions ?db = restrictions db" "suspensions ?db = suspensions db" "closures ?db = closures db"
    "activations ?db = activations ?d" "account_of ?db q = account_of db q" for q
    by (auto simp: r acc1 split: option.split)
  have c: "activeRestrictionCount ?db = activeRestrictionCount db" "activeSuspensionCount ?db = activeSuspensionCount db"
    by (auto simp: c1 split: option.split)
  have src: "di_decision i = MORE_INFORMATION_REQUIRED \<Longrightarrow> pa_status p \<noteq> Part_CLOSED"
    using more by (auto simp: isValidParticipantTransition_def)
  have new_cases: "(di_decision i = Review_APPROVED \<and> new = (if activeRestrictionCount db ?p > 0 then RESTRICTED else Part_ACTIVE)) \<or>
      (di_decision i = MORE_INFORMATION_REQUIRED \<and> new = PROFILE_INCOMPLETE) \<or> new = pa_status p"
    by (cases "di_decision i") (auto simp: new_def reviewed_status_def)
  have "standing_supported ?db"
    using d(1)[OF cur] d(1) new_cases app
    by (auto simp: standing_supported_def st c status_supported_def split: if_splits)
  moreover have "suspension_rows_ok ?db"
    using d(2,3,5,6,7) new_cases cur by (auto simp: suspension_rows_ok_def st c fr split: if_splits)
  moreover have "closures_ok ?db"
    using d(8) d(8)[of ?p] new_cases cur app src by (auto simp: closures_ok_def st fr split: if_splits)
  moreover have "admissions_ok ?db"
    unfolding admissions_ok_def
  proof (intro conjI ballI allI impI)
    show "unique_on av_id (activations ?db)" unfolding fr by (rule r(7))
    show "av_undecidedForParticipantId a = (if av_decision a = None then Some (av_participantId a) else None)"
      if "a \<in> set (activations ?db)" for a using that r(9)[of a] unfolding fr by simp
    fix q t assume a: "status_of ?db q = Some t \<and> t \<in> {Part_ACTIVE, RESTRICTED, SUSPENDED}"
    have "approved_by_another ?d q"
    proof (cases "q = ?p")
      case True
      then have "t = new" using a by (simp add: st)
      then consider "di_decision i = Review_APPROVED" | "t = pa_status p" using new_cases a by auto
      then show ?thesis
      proof cases
        case 1
        then show ?thesis using ap(2) True by simp
      next
        case 2
        then show ?thesis using ap(1)[OF d(10)[of q t]] a True cur by simp
      qed
    next
      case False
      then show ?thesis using ap(1)[OF d(10)[of q t]] a by (simp add: st)
    qed
    then show "approved_by_another ?db q" by (simp add: approved_by_another_def fr acc1)
  qed
  ultimately have "participation_inv ?db" by (simp add: participation_inv_def)
  then show ?thesis using same_standing_inv[OF same] by simp
qed

section \<open>Histories\<close>

lemma participation_step_inv:
  assumes "participation_step db db'" and "participation_inv db"
  shows "participation_inv db'"
  using assms
proof cases
  case created
  then show ?thesis using createDraftParticipant_facts drafted_inv assms(2) by blast
next
  case onboarded
  then show ?thesis using beginParticipantOnboarding_facts drafted_inv assms(2) same_standing_inv by blast
next
  case role_assigned
  then show ?thesis using assignParticipantRole_facts assms(2) same_standing_inv by blast
next
  case surroundings
  then show ?thesis using assms(2) same_standing_inv by blast
qed (use assms(2) in \<open>blast intro: advanced_inv submitted_inv decided_inv imposed_inv lifted_inv suspended_inv
      reinstated_inv closed_inv\<close>)+

lemma participation_steps_inv:
  "participation_step\<^sup>*\<^sup>* db db' \<Longrightarrow> participation_inv db \<Longrightarrow> participation_inv db'"
  by (induction rule: rtranclp_induct) (auto intro: participation_step_inv)

definition participation_start :: "'a participation_tables_scheme \<Rightarrow> bool" where
  "participation_start db = (participants db = [] \<and> restrictions db = [] \<and> suspensions db = [] \<and> closures db = [] \<and>
     activations db = [])"

lemma participation_start_inv: "participation_start db \<Longrightarrow> participation_inv db"
  by (simp add: participation_start_def participation_inv_def standing_supported_def suspension_rows_ok_def closures_ok_def
      admissions_ok_def status_of_def find_participant_def activeSuspensionCount_def)

end
