(* ===== verification/Participation_Moves.thy ===== *)
theory Participation_Moves
  imports Participation_History
begin

text \<open>What each operation of the participation services does to the status of every participant: it leaves
  the status alone or moves it along the table of \<^verbatim>\<open>participant-lifecycle.ts\<close>, and it brings a
  participant into standing only by an approved review.\<close>

section \<open>Moves\<close>

text \<open>What one operation does to the status of each participant.\<close>

definition in_standing :: "participant_status \<Rightarrow> bool" where
  "in_standing s = (s \<in> {Part_ACTIVE, RESTRICTED, SUSPENDED})"

lemma converge_moves: "converge nr ns s = s \<or> isValidParticipantTransition s (converge nr ns s) \<and> in_standing s"
  by (auto simp: converge_def isValidParticipantTransition_def in_standing_def)

lemma reconciled_status:
  assumes "status_of db p = Some t" and "status_of db q = Some s"
  shows "status_of (reconcileStatusInTx p t db) q = Some s \<or>
    (\<exists>nr ns. status_of (reconcileStatusInTx p t db) q = Some (converge nr ns s))"
proof (cases "q = p")
  case True
  then show ?thesis
    using assms status_reconcile[of p t db] by (auto intro: exI[of _ "activeRestrictionCount db p"])
next
  case False
  then show ?thesis using assms by (simp add: status_reconcile)
qed

lemma imposed_status:
  assumes "imposeParticipantRestriction i ob inp db = Inr (db', x)" and "status_of db q = Some s"
  shows "status_of db' q = Some s \<or> (\<exists>nr ns. status_of db' q = Some (converge nr ns s))"
proof -
  from imposeParticipantRestriction_facts[OF assms(1)] obtain p g db1 where p: "find_participant db (ii_participantId inp) = Some p"
    and ins: "insert_restriction (new_restriction i inp g) db = Inr db1"
    and same: "same_standing (reconcileStatusInTx (ii_participantId inp) (pa_status p) db1) db'" .
  have "status_of db1 = status_of db"
    by (rule status_of_participants) (use ins in \<open>auto simp: insert_restriction_def split: if_splits\<close>)
  then show ?thesis
    using same_standing_status[OF same] reconciled_status assms(2) status_of_Some[OF p] by metis
qed

lemma lifted_status:
  assumes "liftParticipantRestriction ob i reason actor at db = Inr (db', x)" and "status_of db q = Some s"
  shows "status_of db' q = Some s \<or> (\<exists>nr ns. status_of db' q = Some (converge nr ns s))"
proof -
  from liftParticipantRestriction_facts[OF assms(1)] obtain r p where r: "find_restriction db i = Some r" and p: "find_participant db (pr_participantId r) = Some p"
    and one: "count_where (\<lambda>r. pr_id r = i \<and> pr_status r = Mitigation_ACTIVE) (restrictions db) = 1"
    and same: "same_standing (reconcileStatusInTx (pr_participantId r) (pa_status p) (lift_restriction_row i at actor reason db)) db'" .
  have "status_of (lift_restriction_row i at actor reason db) = status_of db"
    by (rule status_of_participants) (simp add: lift_restriction_row_def)
  then show ?thesis
    using same_standing_status[OF same] reconciled_status assms(2) status_of_Some[OF p] by metis
qed

lemma suspended_status:
  assumes "suspendParticipant i ob inp db = Inr (db', x)" and "status_of db q = Some s"
  shows "status_of db' q = Some s \<or> (status_of db' q = Some SUSPENDED \<and> isAdmittedParticipantStatus s)"
proof -
  from suspendParticipant_facts[OF assms(1)] obtain p g db1 where p: "find_participant db (si_participantId inp) = Some p"
    and ins: "insert_suspension (new_suspension i inp (pa_status p) g) db = Inr db1"
    and same: "same_standing (suspend_status (si_participantId inp) (pa_status p) db1) db'" .
  have "status_of db1 = status_of db"
    by (rule status_of_participants) (use ins in \<open>auto simp: insert_suspension_def split: if_splits\<close>)
  then show ?thesis
    using same_standing_status[OF same] assms(2) status_of_Some[OF p] by (auto simp: suspend_status_def status_set_status)
qed

lemma reinstated_status:
  assumes "reinstateParticipant ob i reason actor at db = Inr (db', x)" and "status_of db q = Some s"
  shows "status_of db' q = Some s \<or> (s = SUSPENDED \<and> (\<exists>t. status_of db' q = Some t \<and> isValidParticipantTransition SUSPENDED t))"
proof -
  from reinstateParticipant_facts[OF assms(1)] obtain r p where r: "find_suspension db i = Some r" and p: "find_participant db (ps_participantId r) = Some p"
    and cnt: "count_where (\<lambda>r. ps_id r = i \<and> ps_status r = Mitigation_ACTIVE) (suspensions db) = 1"
    and same: "same_standing (reinstate_status (ps_participantId r) (pa_status p) (ps_statusBeforeSuspension r)
          (lift_suspension_row i at actor reason db)) db'" .
  have "status_of (lift_suspension_row i at actor reason db) = status_of db"
    by (rule status_of_participants) (simp add: lift_suspension_row_def)
  then show ?thesis
    using same_standing_status[OF same] assms(2) status_of_Some[OF p]
    by (auto simp: reinstate_status_def reinstatementTargetStatus_def Let_def status_set_status split: option.splits if_splits)
qed

lemma closed_status:
  assumes "closeParticipant i ob pid actor reason at db = Inr (db', r)" and "status_of db q = Some s"
  shows "status_of db' q = Some s \<or> (status_of db' q = Some Part_CLOSED \<and> s \<noteq> Part_CLOSED)"
proof -
  from closeParticipant_facts[OF assms(1)] obtain p where p: "find_participant db pid = Some p" and ne: "pa_status p \<noteq> Part_CLOSED"
    and same: "same_standing (set_status pid Part_CLOSED (db\<lparr>closures := closures db @ [r]\<rparr>)) db'" .
  have "status_of (db\<lparr>closures := closures db @ [r]\<rparr>) = status_of db" by (rule status_of_participants) simp
  then show ?thesis
    using same_standing_status[OF same] assms(2) status_of_Some[OF p] ne by (auto simp: status_set_status)
qed

lemma decided_status:
  assumes "decideParticipantActivation ev i db = Inr (db', x)" and "status_of db q = Some s"
  shows "status_of db' q = Some s \<or>
    (q = di_participantId i \<and> find_undecided db q \<noteq> None \<and>
     ((di_decision i = Review_APPROVED \<and> s = UNDER_REVIEW \<and> (\<exists>t\<in>{Part_ACTIVE, RESTRICTED}. status_of db' q = Some t)) \<or>
      (di_decision i = MORE_INFORMATION_REQUIRED \<and> isValidParticipantTransition s PROFILE_INCOMPLETE \<and>
       status_of db' q = Some PROFILE_INCOMPLETE)))"
proof -
  from decideParticipantActivation_facts[OF assms(1)] obtain p pending where p: "find_participant db (di_participantId i) = Some p" and u: "find_undecided db (di_participantId i) = Some pending"
    and app: "di_decision i = Review_APPROVED \<longrightarrow> pa_status p = UNDER_REVIEW \<and> activeSuspensionCount db (di_participantId i) = 0"
    and more: "di_decision i = MORE_INFORMATION_REQUIRED \<longrightarrow> isValidParticipantTransition (pa_status p) PROFILE_INCOMPLETE"
    and same: "same_standing (case reviewed_status db i of None \<Rightarrow> decided_row db i pending
           | Some t \<Rightarrow> set_status (di_participantId i) t (decided_row db i pending)) db'" .
  have "status_of (decided_row db i pending) = status_of db" by (rule status_of_participants) (simp add: decided_row_def)
  then show ?thesis
    using same_standing_status[OF same] assms(2) status_of_Some[OF p] app more u
    by (cases "di_decision i") (auto simp: reviewed_status_def status_set_status)
qed

lemma submitted_status:
  assumes "submitParticipantForActivation i rd p at db = Inr (db', x)" and "status_of db q = Some s"
  shows "status_of db' q = Some s \<or> (q = p \<and> s = PROFILE_COMPLETE \<and> status_of db' q = Some UNDER_REVIEW)"
proof -
  from submitParticipantForActivation_facts[OF assms(1)] obtain r where r: "find_participant db p = Some r" "pa_status r = PROFILE_COMPLETE"
    and same: "same_standing ((set_status p UNDER_REVIEW db)\<lparr>activations := activations db @ [new_activation i p at]\<rparr>) db'" .
  have "status_of ((set_status p UNDER_REVIEW db)\<lparr>activations := activations db @ [new_activation i p at]\<rparr>) =
      status_of (set_status p UNDER_REVIEW db)" by (rule status_of_participants) simp
  then show ?thesis
    using same_standing_status[OF same] assms(2) status_of_Some[OF r(1)] r(2) by (auto simp: status_set_status)
qed

lemma advanced_status:
  assumes "advanceParticipantStatus p t db = Inr (db', x)" and "status_of db q = Some s"
  shows "status_of db' q = Some s \<or> (q = p \<and> s \<noteq> UNDER_REVIEW \<and> isDraftWritableParticipantStatus t \<and>
    isValidParticipantTransition s t \<and> status_of db' q = Some t)"
proof -
  from advanceParticipantStatus_facts[OF assms(1)] obtain r where r: "find_participant db p = Some r" "pa_status r \<noteq> UNDER_REVIEW" "isDraftWritableParticipantStatus t"
    "isValidParticipantTransition (pa_status r) t" "db' = set_status p t db" .
  then show ?thesis using assms(2) status_of_Some[OF r(1)] by (auto simp: status_set_status)
qed

lemma drafted_status: "adds_draft p db db' \<Longrightarrow> status_of db q = Some s \<Longrightarrow> status_of db' q = Some s"
  using draft_status[of p db db'] by auto

definition admitted_by_review :: "'a participation_tables_scheme \<Rightarrow> 'a participation_tables_scheme \<Rightarrow> ident \<Rightarrow> bool" where
  "admitted_by_review db db' q = (\<exists>ev i x. decideParticipantActivation ev i db = Inr (db', x) \<and> di_participantId i = q \<and>
     di_decision i = Review_APPROVED \<and>
     isInternallyAuthorized (canReviewParticipantActivation (resolveInternalAuthorizationSubject db (di_reviewerAccountId i))) \<and>
     account_of db q \<noteq> Some (di_reviewerAccountId i))"

definition permitted_move :: "'a participation_tables_scheme \<Rightarrow> 'a participation_tables_scheme \<Rightarrow> ident \<Rightarrow>
    participant_status \<Rightarrow> participant_status \<Rightarrow> bool" where
  "permitted_move db db' q s t = ((t = s \<or> isValidParticipantTransition s t) \<and>
     (in_standing t \<and> \<not> in_standing s \<longrightarrow> admitted_by_review db db' q))"

lemma permitted_same [simp, intro]: "permitted_move db db' q s s"
  by (simp add: permitted_move_def)

lemma converge_permitted: "permitted_move db db' q s (converge nr ns s)"
  using converge_moves[of nr ns s] by (auto simp: permitted_move_def converge_def in_standing_def)

lemma reviewer_facts:
  assumes "decideParticipantActivation ev i db = Inr (db', x)"
  shows "isInternallyAuthorized (canReviewParticipantActivation (resolveInternalAuthorizationSubject db (di_reviewerAccountId i)))"
    and "account_of db (di_participantId i) \<noteq> Some (di_reviewerAccountId i)"
proof -
  from decideParticipantActivation_facts[OF assms] obtain p where "find_participant db (di_participantId i) = Some p"
    "pa_accountId p \<noteq> di_reviewerAccountId i" .
  then show "account_of db (di_participantId i) \<noteq> Some (di_reviewerAccountId i)" by (simp add: account_of_def)
  from decideParticipantActivation_facts[OF assms]
  show "isInternallyAuthorized (canReviewParticipantActivation (resolveInternalAuthorizationSubject db (di_reviewerAccountId i)))" .
qed

lemma participation_step_moves:
  assumes step: "participation_step db db'" and cur: "status_of db q = Some s"
  shows "\<exists>t. status_of db' q = Some t \<and> permitted_move db db' q s t"
  using step
proof cases
  case (review_decided ev i x)
  from decided_status[OF review_decided(1) cur] show ?thesis
  proof (elim disjE conjE bexE)
    fix t assume t: "q = di_participantId i" "di_decision i = Review_APPROVED" "s = UNDER_REVIEW"
      "t \<in> {Part_ACTIVE, RESTRICTED}" "status_of db' q = Some t"
    have "admitted_by_review db db' q"
      using review_decided(1) reviewer_facts[OF review_decided(1)] t(1,2) unfolding admitted_by_review_def by blast
    then show ?thesis using t by (auto simp: permitted_move_def isValidParticipantTransition_def)
  qed (auto simp: permitted_move_def in_standing_def)
next
  case (restricted i ob inp x)
  then show ?thesis using imposed_status[OF restricted(1) cur] converge_permitted by blast
next
  case (restriction_lifted ob i rl actor at x)
  then show ?thesis using lifted_status[OF restriction_lifted(1) cur] converge_permitted by blast
next
  case (suspended i ob inp x)
  then show ?thesis using suspended_status[OF suspended(1) cur]
    by (auto simp: permitted_move_def isAdmittedParticipantStatus_def in_standing_def isValidParticipantTransition_def)
next
  case (reinstated ob i sl actor at x)
  then show ?thesis using reinstated_status[OF reinstated(1) cur] by (auto simp: permitted_move_def in_standing_def)
next
  case (closed i ob p actor cr at x)
  then show ?thesis using closed_status[OF closed(1) cur]
    by (cases s) (auto simp: permitted_move_def in_standing_def isValidParticipantTransition_def)
next
  case (submitted i rd p at x)
  then show ?thesis using submitted_status[OF submitted(1) cur]
    by (auto simp: permitted_move_def in_standing_def isValidParticipantTransition_def)
next
  case (advanced p t x)
  then show ?thesis using advanced_status[OF advanced(1) cur]
    by (auto simp: permitted_move_def in_standing_def isDraftWritableParticipantStatus_def)
next
  case (created ids a rs x)
  then obtain p where "adds_draft p db db'" using createDraftParticipant_facts by blast
  then show ?thesis using drafted_status[OF _ cur] permitted_same by blast
next
  case (onboarded ids a rs x)
  from beginParticipantOnboarding_facts[OF onboarded(1)] have "status_of db' q = Some s"
  proof
    assume "same_standing db db'"
    then show ?thesis using cur by (simp add: same_standing_status)
  next
    assume "\<exists>p. adds_draft p db db'"
    then show ?thesis using drafted_status[OF _ cur] by blast
  qed
  then show ?thesis by blast
next
  case (role_assigned i p r x)
  then show ?thesis using same_standing_status[OF assignParticipantRole_facts[OF role_assigned(1)]] cur by simp
next
  case surroundings
  then show ?thesis using same_standing_status[of db db'] cur by simp
qed

section \<open>The undecided row\<close>

text \<open>A step leaves the activation rows alone, decides the pending one, or adds the one a submission
  writes for a participant whose profile was complete and that had none pending.\<close>

definition activation_change :: "'a participation_tables_scheme \<Rightarrow> activation_row list \<Rightarrow> bool" where
  "activation_change db xs = (xs = activations db \<or>
     (\<exists>P i. xs = update_where P (decide_activation i) (activations db)) \<or>
     (\<exists>i q at. xs = activations db @ [new_activation i q at] \<and> status_of db q = Some PROFILE_COMPLETE \<and>
        (\<forall>a\<in>set (activations db). av_undecidedForParticipantId a \<noteq> Some q)))"

lemma activation_change_same [simp, intro]: "activation_change db (activations db)"
  by (simp add: activation_change_def)

lemma same_standing_activations: "same_standing db db' \<Longrightarrow> activations db' = activations db"
  by (simp add: same_standing_def)

lemma set_status_activations [simp]: "activations (set_status p t db) = activations db"
  by (simp add: set_status_def)

lemma restricted_activations:
  assumes "imposeParticipantRestriction i ob inp db = Inr (db', x)"
  shows "activations db' = activations db"
proof -
  from imposeParticipantRestriction_facts[OF assms] obtain p g db1
    where p: "find_participant db (ii_participantId inp) = Some p"
    and "insert_restriction (new_restriction i inp g) db = Inr db1"
    and same: "same_standing (reconcileStatusInTx (ii_participantId inp) (pa_status p) db1) db'" .
  then have "activations db1 = activations db" by (auto simp: insert_restriction_def split: if_splits)
  then show ?thesis using same_standing_activations[OF same] by simp
qed

lemma lifted_activations:
  assumes "liftParticipantRestriction ob i reason actor at db = Inr (db', x)"
  shows "activations db' = activations db"
proof -
  from liftParticipantRestriction_facts[OF assms] obtain r p where r: "find_restriction db i = Some r"
    and p: "find_participant db (pr_participantId r) = Some p"
    and one: "count_where (\<lambda>r. pr_id r = i \<and> pr_status r = Mitigation_ACTIVE) (restrictions db) = 1"
    and same: "same_standing (reconcileStatusInTx (pr_participantId r) (pa_status p) (lift_restriction_row i at actor reason db)) db'" .
  show ?thesis using same_standing_activations[OF same] by (simp add: lift_restriction_row_def)
qed

lemma suspended_activations:
  assumes "suspendParticipant i ob inp db = Inr (db', x)"
  shows "activations db' = activations db"
proof -
  from suspendParticipant_facts[OF assms] obtain p g db1
    where p: "find_participant db (si_participantId inp) = Some p"
    and "insert_suspension (new_suspension i inp (pa_status p) g) db = Inr db1"
    and same: "same_standing (suspend_status (si_participantId inp) (pa_status p) db1) db'" .
  then have "activations db1 = activations db" by (auto simp: insert_suspension_def split: if_splits)
  then show ?thesis using same_standing_activations[OF same] by (simp add: suspend_status_def)
qed

lemma reinstated_activations:
  assumes "reinstateParticipant ob i reason actor at db = Inr (db', x)"
  shows "activations db' = activations db"
proof -
  from reinstateParticipant_facts[OF assms] obtain r p where r: "find_suspension db i = Some r"
    and p: "find_participant db (ps_participantId r) = Some p"
    and cnt: "count_where (\<lambda>r. ps_id r = i \<and> ps_status r = Mitigation_ACTIVE) (suspensions db) = 1"
    and same: "same_standing (reinstate_status (ps_participantId r) (pa_status p) (ps_statusBeforeSuspension r)
          (lift_suspension_row i at actor reason db)) db'" .
  show ?thesis using same_standing_activations[OF same]
    by (simp add: reinstate_status_def lift_suspension_row_def split: option.split)
qed

lemma closed_activations:
  assumes "closeParticipant i ob pid actor reason at db = Inr (db', r)"
  shows "activations db' = activations db"
proof -
  from closeParticipant_facts[OF assms] obtain p
    where same: "same_standing (set_status pid Part_CLOSED (db\<lparr>closures := closures db @ [r]\<rparr>)) db'" .
  show ?thesis using same_standing_activations[OF same] by simp
qed

lemma decided_activations:
  assumes "decideParticipantActivation ev i db = Inr (db', x)"
  shows "activation_change db (activations db')"
proof -
  from decideParticipantActivation_facts[OF assms] obtain p pending
    where same: "same_standing (case reviewed_status db i of None \<Rightarrow> decided_row db i pending
           | Some t \<Rightarrow> set_status (di_participantId i) t (decided_row db i pending)) db'" .
  have "activations db' = activations (decided_row db i pending)"
    using same_standing_activations[OF same] by (simp split: option.split_asm)
  then show ?thesis by (auto simp: activation_change_def decided_row_def)
qed

lemma submitted_activations:
  assumes "submitParticipantForActivation i rd p at db = Inr (db', x)"
  shows "activation_change db (activations db')"
proof -
  from submitParticipantForActivation_facts[OF assms] obtain r where r: "find_participant db p = Some r" "pa_status r = PROFILE_COMPLETE"
    and none: "\<forall>x\<in>set (activations db). av_undecidedForParticipantId x \<noteq> Some p"
    and same: "same_standing ((set_status p UNDER_REVIEW db)\<lparr>activations := activations db @ [new_activation i p at]\<rparr>) db'" .
  have "activations db' = activations db @ [new_activation i p at]" using same_standing_activations[OF same] by simp
  then have "\<exists>i' q at'. activations db' = activations db @ [new_activation i' q at'] \<and> status_of db q = Some PROFILE_COMPLETE \<and>
        (\<forall>a\<in>set (activations db). av_undecidedForParticipantId a \<noteq> Some q)"
    using status_of_Some[OF r(1)] r(2) none by metis
  then show ?thesis unfolding activation_change_def by blast
qed

lemma adds_draft_activations: "adds_draft p db db' \<Longrightarrow> activations db' = activations db"
  by (auto simp: adds_draft_def)

lemma participation_step_activations:
  assumes "participation_step db db'"
  shows "activation_change db (activations db')"
  using assms
proof cases
  case (created ids a rs x)
  then show ?thesis using createDraftParticipant_facts adds_draft_activations by (metis activation_change_same)
next
  case (onboarded ids a rs x)
  then show ?thesis using beginParticipantOnboarding_facts adds_draft_activations same_standing_activations
    by (metis activation_change_same)
next
  case (role_assigned i p r x)
  then show ?thesis using same_standing_activations[OF assignParticipantRole_facts[OF role_assigned(1)]] by simp
next
  case (advanced p t x)
  from advanceParticipantStatus_facts[OF advanced(1)] have "activations db' = activations db" by (metis set_status_activations)
  then show ?thesis by simp
next
  case (review_decided ev i x)
  then show ?thesis by (rule decided_activations)
next
  case (submitted i rd p at x)
  then show ?thesis by (rule submitted_activations)
next
  case (restricted i ob inp x)
  then show ?thesis using restricted_activations[OF restricted(1)] by simp
next
  case (restriction_lifted ob i rl actor at x)
  then show ?thesis using lifted_activations[OF restriction_lifted(1)] by simp
next
  case (suspended i ob inp x)
  then show ?thesis using suspended_activations[OF suspended(1)] by simp
next
  case (reinstated ob i sl actor at x)
  then show ?thesis using reinstated_activations[OF reinstated(1)] by simp
next
  case (closed i ob p actor cr at x)
  then show ?thesis using closed_activations[OF closed(1)] by simp
next
  case surroundings
  then show ?thesis using same_standing_activations[of db db'] by simp
qed

text \<open>So at most one row is pending for a participant.\<close>

definition one_pending :: "'a participation_tables_scheme \<Rightarrow> bool" where
  "one_pending db = (\<forall>a\<in>set (activations db). \<forall>b\<in>set (activations db). \<forall>q.
     av_undecidedForParticipantId a = Some q \<longrightarrow> av_undecidedForParticipantId b = Some q \<longrightarrow> a = b)"

lemma one_pending_change:
  assumes "one_pending db" and "activation_change db (activations db')"
  shows "one_pending db'"
proof -
  consider (same) "activations db' = activations db"
    | (decided) P i where "activations db' = update_where P (decide_activation i) (activations db)"
    | (added) i q at where "activations db' = activations db @ [new_activation i q at]"
        "\<forall>a\<in>set (activations db). av_undecidedForParticipantId a \<noteq> Some q"
    using assms(2) unfolding activation_change_def by blast
  then show ?thesis
  proof cases
    case same
    then show ?thesis using assms(1) by (simp add: one_pending_def)
  next
    case decided
    then have "a \<in> set (activations db)" if "a \<in> set (activations db')" "av_undecidedForParticipantId a = Some q" for a q
      using that by (auto simp: update_where_def decide_activation_def split: if_split_asm)
    then show ?thesis using assms(1) unfolding one_pending_def by blast
  next
    case added
    show ?thesis
      unfolding one_pending_def
    proof (intro ballI allI impI)
      fix a b p
      assume ab: "a \<in> set (activations db')" "b \<in> set (activations db')" "av_undecidedForParticipantId a = Some p"
        "av_undecidedForParticipantId b = Some p"
      show "a = b"
      proof (cases "p = q")
        case True
        then show ?thesis using ab added by auto
      next
        case False
        then have "a \<in> set (activations db)" "b \<in> set (activations db)" using ab added by (auto simp: new_activation_def)
        then show ?thesis using ab(3,4) assms(1) unfolding one_pending_def by blast
      qed
    qed
  qed
qed

lemma participation_steps_pending:
  "participation_step\<^sup>*\<^sup>* db db' \<Longrightarrow> one_pending db \<Longrightarrow> one_pending db'"
  by (induction rule: rtranclp_induct) (auto intro: one_pending_change participation_step_activations)

lemma participation_start_pending: "participation_start db \<Longrightarrow> one_pending db"
  by (simp add: participation_start_def one_pending_def)

section \<open>A participant under review with nothing to decide\<close>

definition stranded :: "'a participation_tables_scheme \<Rightarrow> ident \<Rightarrow> bool" where
  "stranded db p = (status_of db p = Some UNDER_REVIEW \<and> find_undecided db p = None)"

lemma find_undecided_None:
  "find_undecided db p = None \<longleftrightarrow> (\<forall>a\<in>set (activations db). av_undecidedForParticipantId a \<noteq> Some p)"
  by (auto simp: find_undecided_def find_None_iff)

lemma stranded_status:
  assumes st: "stranded db p" and step: "participation_step db db'"
  shows "status_of db' p = Some UNDER_REVIEW \<or> status_of db' p = Some Part_CLOSED"
proof -
  have cur: "status_of db p = Some UNDER_REVIEW" and none: "find_undecided db p = None" using st by (simp_all add: stranded_def)
  have conv: "converge nr ns UNDER_REVIEW = UNDER_REVIEW" for nr ns by (simp add: converge_def)
  show ?thesis
    using step
  proof cases
    case (review_decided ev i x)
    show ?thesis using decided_status[OF review_decided(1) cur] none by auto
  next
    case (restricted i ob inp x)
    show ?thesis using imposed_status[OF restricted(1) cur] conv by auto
  next
    case (restriction_lifted ob i rl actor at x)
    show ?thesis using lifted_status[OF restriction_lifted(1) cur] conv by auto
  next
    case (suspended i ob inp x)
    show ?thesis using suspended_status[OF suspended(1) cur] by (auto simp: isAdmittedParticipantStatus_def)
  next
    case (reinstated ob i sl actor at x)
    show ?thesis using reinstated_status[OF reinstated(1) cur] by auto
  next
    case (closed i ob q actor cr at x)
    show ?thesis using closed_status[OF closed(1) cur] by auto
  next
    case (submitted i rd q at x)
    show ?thesis using submitted_status[OF submitted(1) cur] by auto
  next
    case (advanced q t x)
    show ?thesis using advanced_status[OF advanced(1) cur] by auto
  next
    case (created ids a rs x)
    then obtain q where "adds_draft q db db'" using createDraftParticipant_facts by blast
    then show ?thesis using drafted_status[OF _ cur] by blast
  next
    case (onboarded ids a rs x)
    then show ?thesis using beginParticipantOnboarding_facts[OF onboarded(1)] drafted_status[OF _ cur] same_standing_status cur
      by metis
  next
    case (role_assigned i q r x)
    then show ?thesis using same_standing_status[OF assignParticipantRole_facts[OF role_assigned(1)]] cur by simp
  next
    case surroundings
    then show ?thesis using same_standing_status[of db db'] cur by simp
  qed
qed

lemma stranded_step:
  assumes "stranded db p" and "participation_step db db'"
  shows "stranded db' p \<or> status_of db' p = Some Part_CLOSED"
proof -
  have "find_undecided db' p = None"
    using participation_step_activations[OF assms(2)] assms(1)
    by (auto simp: activation_change_def stranded_def find_undecided_None update_where_def decide_activation_def new_activation_def)
  then show ?thesis using stranded_status[OF assms] by (auto simp: stranded_def)
qed

lemma closed_step:
  assumes "status_of db p = Some Part_CLOSED" and "participation_step db db'"
  shows "status_of db' p = Some Part_CLOSED"
  using participation_step_moves[OF assms(2,1)] by (auto simp: permitted_move_def isValidParticipantTransition_def)

lemma stranded_for_ever:
  assumes "participation_step\<^sup>*\<^sup>* db db'" and "stranded db p"
  shows "stranded db' p \<or> status_of db' p = Some Part_CLOSED"
  using assms by (induction rule: rtranclp_induct) (auto dest: stranded_step closed_step)

text \<open>How a participant gets there, and what it is refused from then on.\<close>

lemma rejection_strands:
  assumes inv: "one_pending db" and op: "decideParticipantActivation ev i db = Inr (db', x)"
    and rej: "di_decision i = Review_REJECTED" and cur: "status_of db (di_participantId i) = Some UNDER_REVIEW"
  shows "stranded db' (di_participantId i)"
proof -
  let ?p = "di_participantId i"
  from decideParticipantActivation_facts[OF op] obtain p pending where u: "find_undecided db ?p = Some pending"
    and same: "same_standing (case reviewed_status db i of None \<Rightarrow> decided_row db i pending
           | Some t \<Rightarrow> set_status ?p t (decided_row db i pending)) db'" .
  have same: "same_standing (decided_row db i pending) db'" using same rej by (simp add: reviewed_status_def)
  have acts: "activations db' = update_where (\<lambda>r. av_id r = av_id pending \<and> av_undecidedForParticipantId r = Some ?p)
      (decide_activation i) (activations db)"
    using same_standing_activations[OF same] by (simp add: decided_row_def)
  have "status_of (decided_row db i pending) = status_of db" by (rule status_of_participants) (simp add: decided_row_def)
  then have st: "status_of db' ?p = Some UNDER_REVIEW" using same_standing_status[OF same] cur by simp
  have only: "av_id a = av_id pending" if "a \<in> set (activations db)" "av_undecidedForParticipantId a = Some ?p" for a
  proof -
    have "pending \<in> set (activations db)" "av_undecidedForParticipantId pending = Some ?p"
      using u by (auto simp: find_undecided_def dest: find_Some_set)
    then have "a = pending" using inv that unfolding one_pending_def by blast
    then show ?thesis by simp
  qed
  have "find_undecided db' ?p = None"
    unfolding find_undecided_None acts
  proof
    fix a
    assume "a \<in> set (update_where (\<lambda>r. av_id r = av_id pending \<and> av_undecidedForParticipantId r = Some ?p)
      (decide_activation i) (activations db))"
    then show "av_undecidedForParticipantId a \<noteq> Some ?p"
      using only by (auto simp: update_where_def decide_activation_def split: if_split_asm)
  qed
  then show ?thesis using st by (simp add: stranded_def)
qed

lemma stranded_refusals:
  assumes "stranded db p"
  shows "\<not> is_ok (submitParticipantForActivation aid rd p at db)"
    and "di_participantId i = p \<Longrightarrow> \<not> is_ok (decideParticipantActivation ev i db)"
    and "\<not> is_ok (advanceParticipantStatus p t db)"
proof -
  have st: "status_of db p = Some UNDER_REVIEW" and none: "find_undecided db p = None" using assms by (simp_all add: stranded_def)
  show "\<not> is_ok (submitParticipantForActivation aid rd p at db)"
  proof
    assume "is_ok (submitParticipantForActivation aid rd p at db)"
    then obtain db' x where op: "submitParticipantForActivation aid rd p at db = Inr (db', x)"
      by (cases "submitParticipantForActivation aid rd p at db") auto
    from submitParticipantForActivation_facts[OF op] obtain r where "find_participant db p = Some r" "pa_status r = PROFILE_COMPLETE" .
    then show False using st by (simp add: status_of_Some)
  qed
  show "\<not> is_ok (decideParticipantActivation ev i db)" if p: "di_participantId i = p"
  proof
    assume "is_ok (decideParticipantActivation ev i db)"
    then obtain db' x where op: "decideParticipantActivation ev i db = Inr (db', x)"
      by (cases "decideParticipantActivation ev i db") auto
    from decideParticipantActivation_facts[OF op] obtain pt pending where "find_undecided db (di_participantId i) = Some pending" .
    then show False using none p by simp
  qed
  show "\<not> is_ok (advanceParticipantStatus p t db)"
  proof
    assume "is_ok (advanceParticipantStatus p t db)"
    then obtain db' x where op: "advanceParticipantStatus p t db = Inr (db', x)"
      by (cases "advanceParticipantStatus p t db") auto
    from advanceParticipantStatus_facts[OF op] obtain r where "find_participant db p = Some r" "pa_status r \<noteq> UNDER_REVIEW" .
    then show False using st by (simp add: status_of_Some)
  qed
qed

end
