(* ===== verification/Notice_Facts.thy ===== *)
theory Notice_Facts
  imports Notification_Obligation
begin

text \<open>
  What the obligation key identifies, and what a repeated emission leaves.  The key is the six
  components joined by a separator none of them may contain, so it can be taken apart again; the two
  optional components are written as the absent marker when they are missing.
\<close>

text \<open>How the optional fields of an input are checked, for evaluation.\<close>

lemma pred_option_eval [code]: "pred_option P None = True" "pred_option P (Some x) = P x"
  by simp_all

section \<open>Joining\<close>

text \<open>The first component ends at the first separator.\<close>

lemma append_at_separator:
  assumes "c \<notin> set x" and "c \<notin> set y" and "x @ c # u = y @ c # v"
  shows "x = y \<and> u = v"
  using assms
proof (induction x arbitrary: y)
  case Nil
  then show ?case by (cases y) auto
next
  case (Cons a x)
  then show ?case by (cases y) auto
qed

lemma join_with_inject:
  assumes "length xs = length ys" and "list_all (\<lambda>x. c \<notin> set x) xs" and "list_all (\<lambda>x. c \<notin> set x) ys"
    and "join_with c xs = join_with c ys"
  shows "xs = ys"
  using assms
proof (induction xs ys rule: list_induct2)
  case (Cons x xs y ys)
  show ?case
  proof (cases xs)
    case Nil
    then show ?thesis using Cons by simp
  next
    case (Cons x' xs')
    then obtain y' ys' where ys: "ys = y' # ys'" using \<open>length xs = length ys\<close> by (cases ys) auto
    have "x @ c # join_with c xs = y @ c # join_with c ys" using Cons.prems(3) Cons ys by simp
    then have "x = y" "join_with c xs = join_with c ys"
      using append_at_separator[of c x y] Cons.prems(1,2) by auto
    then show ?thesis using Cons.IH Cons.prems(1,2) by simp
  qed
qed simp

lemma notification_key_components:
  assumes "notificationObligationKey f = Inr k" and "notificationObligationKey g = Inr k'"
  shows "k = k' \<longleftrightarrow> key_components f = key_components g"
proof
  assume "k = k'"
  then have j: "join_with KEY_SEPARATOR (key_components f) = join_with KEY_SEPARATOR (key_components g)"
    and s: "list_all (\<lambda>x. KEY_SEPARATOR \<notin> set x) (key_components f)" "list_all (\<lambda>x. KEY_SEPARATOR \<notin> set x) (key_components g)"
    using assms by (auto simp: notificationObligationKey_def list_ex_iff list_all_iff split: if_splits)
  show "key_components f = key_components g"
    by (rule join_with_inject[OF _ s j]) (simp add: key_components_def)
next
  assume "key_components f = key_components g"
  then show "k = k'" using assms by (auto simp: notificationObligationKey_def split: if_splits)
qed

section \<open>Emission\<close>

text \<open>An emission leaves the first row with its key where it is, and finds it there.\<close>

definition raised :: "notice_fields \<Rightarrow> 'a notice_tables_scheme \<Rightarrow> notice_row \<Rightarrow> bool" where
  "raised f db r = (\<exists>k. notificationObligationKey f = Inr k \<and> find_notice_key db k = Some r \<and> obligationRowToRecord r = Inr r)"

definition only_notices :: "'a notice_tables_scheme \<Rightarrow> 'a notice_tables_scheme \<Rightarrow> bool" where
  "only_notices db db' = (\<exists>ns. db' = db\<lparr>notices := notices db @ ns\<rparr>)"

lemma only_notices_refl [simp, intro]: "only_notices db db"
  unfolding only_notices_def by (rule exI[of _ "[]"]) simp

lemma only_notices_trans: "only_notices a b \<Longrightarrow> only_notices b c \<Longrightarrow> only_notices a c"
  by (auto simp: only_notices_def)

lemma raised_stays: "only_notices db db' \<Longrightarrow> raised f db r \<Longrightarrow> raised f db' r"
  by (auto simp: only_notices_def raised_def find_notice_key_def find_append)

lemma obligationRowToRecord_same: "obligationRowToRecord r = Inr x \<Longrightarrow> x = r"
  by (auto simp: obligationRowToRecord_def split: if_splits)

lemma upsert_raises:
  assumes "upsertObligationInTx f db = Inr (db', r)"
  shows "only_notices db db' \<and> raised f db' r"
proof -
  obtain d where d: "obligationData f = Inr d" using assms by (auto simp: upsertObligationInTx_def chain_Inr_iff)
  then have k: "notificationObligationKey f = Inr (nr_obligationKey d)" by (auto simp: obligationData_def chain_Inr_iff)
  show ?thesis
  proof (cases "find_notice_key db (nr_obligationKey d)")
    case None
    then have "db' = db\<lparr>notices := notices db @ [d]\<rparr>" "obligationRowToRecord d = Inr r"
      using assms d by (auto simp: upsertObligationInTx_def chain_Inr_iff insert_notice_def split: if_splits)
    moreover have "r = d" using calculation(2) by (rule obligationRowToRecord_same)
    ultimately show ?thesis
      using None k by (auto simp: raised_def only_notices_def find_notice_key_def find_append)
  next
    case (Some e)
    then have "db' = db" "obligationRowToRecord e = Inr r"
      using assms d by (auto simp: upsertObligationInTx_def chain_Inr_iff)
    moreover have "r = e" using calculation(2) by (rule obligationRowToRecord_same)
    ultimately show ?thesis using Some k by (auto simp: raised_def)
  qed
qed

text \<open>The id an emission would mint does not matter once its key is raised.\<close>

lemma upsert_again:
  assumes "raised f db r" and "key_components g = key_components f"
  shows "upsertObligationInTx g db = Inr (db, r)"
proof -
  have "notificationObligationKey g = notificationObligationKey f"
    using assms(2) by (simp add: notificationObligationKey_def)
  then show ?thesis
    using assms(1) by (auto simp: raised_def upsertObligationInTx_def obligationData_def chain_Inr_iff)
qed

definition id_blind :: "(ident \<Rightarrow> 'n \<Rightarrow> notice_fields) \<Rightarrow> bool" where
  "id_blind mk = (\<forall>i j x. key_components (mk i x) = key_components (mk j x))"

lemma upsert_notices_raise:
  assumes "upsert_notices ids n mk xs db = Inr (db', rs)" and "id_blind mk"
  shows "only_notices db db' \<and> list_all2 (\<lambda>x r. \<forall>i. raised (mk i x) db' r) xs rs"
  using assms(1)
proof (induction xs arbitrary: n db rs)
  case (Cons x xs)
  then obtain db1 r rs' where one: "upsertObligationInTx (mk (ids n) x) db = Inr (db1, r)"
    and rest: "upsert_notices ids (n + 1) mk xs db1 = Inr (db', rs')" and rs: "rs = r # rs'"
    by (auto simp: chain_Inr_iff)
  have a: "only_notices db db1" "raised (mk (ids n) x) db1 r" using upsert_raises[OF one] by auto
  have b: "only_notices db1 db'" "list_all2 (\<lambda>x r. \<forall>i. raised (mk i x) db' r) xs rs'" using Cons.IH[OF rest] by auto
  have "raised (mk i x) db' r" for i
    using raised_stays[OF b(1) a(2)] assms(2) unfolding raised_def id_blind_def notificationObligationKey_def
    by (metis (no_types, lifting))
  then show ?case using only_notices_trans[OF a(1) b(1)] b(2) rs by simp
qed simp

lemma upsert_notices_again:
  assumes "list_all2 (\<lambda>x r. \<forall>i. raised (mk i x) db r) xs rs"
  shows "upsert_notices ids n mk xs db = Inr (db, rs)"
  using assms
proof (induction xs rs arbitrary: n rule: list_all2_induct)
  case (Cons x xs r rs)
  have "upsertObligationInTx (mk (ids n) x) db = Inr (db, r)"
    by (rule upsert_again[of "mk (ids n) x"]) (use Cons in simp_all)
  then show ?case using Cons.IH by simp
qed simp

lemma offer_change_blind: "id_blind (\<lambda>i. offer_change_notice i c)"
  by (simp add: id_blind_def key_components_def offer_change_notice_def)

lemma only_notices_reads:
  assumes "only_notices db db'"
  shows "affectedPromotersInTx db' = affectedPromotersInTx db" and "offerVersions db' = offerVersions db"
  using assms by (auto simp: only_notices_def affectedPromotersInTx_def listing_current_def fun_eq_iff)

end
