(* ===== verification/Participation_Properties.thy ===== *)
theory Participation_Properties
  imports Participation_Moves Notice_Facts Example_Sale
begin

text \<open>
  The properties of participants and their notices, over every history of the participation services,
  and the one they are exercised on: an account opens a participant, is admitted by a reviewer, is
  restricted and suspended.
\<close>

section \<open>A participant's history\<close>

definition ex_acct :: "ident \<Rightarrow> acting_account" where
  "ex_acct i = \<lparr>acc_id = i, acc_status = Account_ACTIVE, acc_emailVerifiedAt = Some 0,
     acc_emailVerifiedVia = Some ''SELF_SERVICE_TOKEN''\<rparr>"

definition ex_grant :: "ident \<Rightarrow> string \<Rightarrow> entitlement" where
  "ex_grant i c = \<lparr>ent_id = i, ent_accountId = ''ann'', ent_capability = c, ent_status = Entitlement_ACTIVE,
     ent_grantedAt = 0, ent_revokedAt = None\<rparr>"

definition ex_hall :: participation_tables where
  "ex_hall = reversal_tables.extend ex_books
     \<lparr>actingAccounts = [ex_acct ''ann'', ex_acct ''bob''],
      entitlements = [ex_grant ''g1'' ''activation:review'', ex_grant ''g2'' ''participant:restrict'',
        ex_grant ''g3'' ''participant:suspend''],
      entitlementActs = [], participants = [], notices = [], roleAssignments = [], activations = [],
      restrictions = [], suspensions = [], closures = [], riskReviewIds = [],
      activeMarketplacePolicyVersion = Some ''1.3.0''\<rparr>"

definition ex_pids :: participant_ids where
  "ex_pids = \<lparr>pid_participant = ''p'', pid_role = (\<lambda>n. replicate (n + 1) (CHR ''r'')), pid_candidate = (\<lambda>l n. ''a2b3'')\<rparr>"

definition ex_drafted :: participation_tables where
  "ex_drafted = after (beginParticipantOnboarding ex_pids ''bob'' [Role_SELLER] 10 ex_hall) ex_hall"

definition ex_incomplete :: participation_tables where
  "ex_incomplete = after (advanceParticipantStatus ''p'' PROFILE_INCOMPLETE ex_drafted) ex_hall"

definition ex_complete :: participation_tables where
  "ex_complete = after (advanceParticipantStatus ''p'' PROFILE_COMPLETE ex_incomplete) ex_hall"

definition ex_submitted :: participation_tables where
  "ex_submitted = after (submitParticipantForActivation ''a1'' (Inr ENABLED) ''p'' 20 ex_complete) ex_hall"

definition ex_evidence :: approval_evidence where
  "ex_evidence = \<lparr>ae_profileComplete = True, ae_paymentReadiness = Inr ENABLED, ae_outstandingPolicyAudiences = [],
     ae_hasVerifiedSupportContact = True\<rparr>"

definition ex_decision :: "activation_decision \<Rightarrow> activation_reason \<Rightarrow> decide_input" where
  "ex_decision d r = \<lparr>di_participantId = ''p'', di_decision = d, di_decisionReasonCode = r,
     di_reviewerAccountId = ''ann'', di_decidedAt = 30\<rparr>"

definition ex_admitted :: participation_tables where
  "ex_admitted = after (decideParticipantActivation ex_evidence (ex_decision Review_APPROVED PREREQUISITES_SATISFIED)
     ex_submitted) ex_hall"

definition ex_rejected :: participation_tables where
  "ex_rejected = after (decideParticipantActivation ex_evidence (ex_decision Review_REJECTED NOT_ELIGIBLE_UNDER_POLICY)
     ex_submitted) ex_hall"

definition ex_impose :: impose_input where
  "ex_impose = \<lparr>ii_participantId = ''p'', ii_scope = Scope_payout_receive, ii_reasonCode = MANUAL_OPERATIONAL_RESTRICTION,
     ii_actingAccountId = ''ann'', ii_imposedAt = 40, ii_riskReviewId = None\<rparr>"

definition ex_restrained :: participation_tables where
  "ex_restrained = after (imposeParticipantRestriction ''r1'' ''n1'' ex_impose ex_admitted) ex_hall"

definition ex_suspend :: suspend_input where
  "ex_suspend = \<lparr>si_participantId = ''p'', si_reasonCode = DECISION_EVASION, si_actingAccountId = ''ann'',
     si_suspendedAt = 50, si_riskReviewId = None\<rparr>"

definition ex_suspended :: participation_tables where
  "ex_suspended = after (suspendParticipant ''s1'' ''n2'' ex_suspend ex_restrained) ex_hall"

lemma ex_participation_steps:
  "participation_step ex_hall ex_drafted" "participation_step ex_drafted ex_incomplete"
  "participation_step ex_incomplete ex_complete" "participation_step ex_complete ex_submitted"
  "participation_step ex_submitted ex_admitted" "participation_step ex_admitted ex_restrained"
  "participation_step ex_restrained ex_suspended"
proof -
  have "\<exists>v. beginParticipantOnboarding ex_pids ''bob'' [Role_SELLER] 10 ex_hall = Inr (ex_drafted, v)"
    unfolding ex_drafted_def by (rule is_ok_after) code_simp
  then show "participation_step ex_hall ex_drafted" using onboarded by blast
  have "\<exists>v. advanceParticipantStatus ''p'' PROFILE_INCOMPLETE ex_drafted = Inr (ex_incomplete, v)"
    unfolding ex_incomplete_def by (rule is_ok_after) code_simp
  then show "participation_step ex_drafted ex_incomplete" using advanced by blast
  have "\<exists>v. advanceParticipantStatus ''p'' PROFILE_COMPLETE ex_incomplete = Inr (ex_complete, v)"
    unfolding ex_complete_def by (rule is_ok_after) code_simp
  then show "participation_step ex_incomplete ex_complete" using advanced by blast
  have "\<exists>v. submitParticipantForActivation ''a1'' (Inr ENABLED) ''p'' 20 ex_complete = Inr (ex_submitted, v)"
    unfolding ex_submitted_def by (rule is_ok_after) code_simp
  then show "participation_step ex_complete ex_submitted" using submitted by blast
  have "\<exists>v. decideParticipantActivation ex_evidence (ex_decision Review_APPROVED PREREQUISITES_SATISFIED) ex_submitted =
      Inr (ex_admitted, v)"
    unfolding ex_admitted_def by (rule is_ok_after) code_simp
  then show "participation_step ex_submitted ex_admitted" using review_decided by blast
  have "\<exists>v. imposeParticipantRestriction ''r1'' ''n1'' ex_impose ex_admitted = Inr (ex_restrained, v)"
    unfolding ex_restrained_def by (rule is_ok_after) code_simp
  then show "participation_step ex_admitted ex_restrained" using restricted by blast
  have "\<exists>v. suspendParticipant ''s1'' ''n2'' ex_suspend ex_restrained = Inr (ex_suspended, v)"
    unfolding ex_suspended_def by (rule is_ok_after) code_simp
  then show "participation_step ex_restrained ex_suspended" using suspended by blast
qed

lemma ex_hall_start: "participation_start ex_hall"
  by (simp add: participation_start_def ex_hall_def reversal_tables.defs)

lemma ex_participation_history: "participation_step\<^sup>*\<^sup>* ex_hall ex_submitted" "participation_step\<^sup>*\<^sup>* ex_hall ex_suspended"
proof -
  note next_step = rtranclp.rtrancl_into_rtrancl and st = ex_participation_steps
  show s: "participation_step\<^sup>*\<^sup>* ex_hall ex_submitted"
    by (rule next_step[OF next_step[OF next_step[OF r_into_rtranclp[of participation_step, OF st(1)] st(2)] st(3)] st(4)])
  show "participation_step\<^sup>*\<^sup>* ex_hall ex_suspended"
    by (rule next_step[OF next_step[OF next_step[OF s st(5)] st(6)] st(7)])
qed

section \<open>Standing\<close>

text \<open>C7: in every history a participant's stored status is exactly what the rows beside it say.  A
  participant that has been admitted and is not closed is SUSPENDED precisely while a suspension
  stands, and then exactly one does; otherwise it is RESTRICTED precisely while some restriction is
  active; otherwise it is ACTIVE.  It is CLOSED precisely when its closure is recorded.  No order of
  imposing, lifting, suspending, reinstating, approving and closing leaves a status without its
  evidence.\<close>

theorem standing_is_its_evidence:
  assumes "participation_start db" and "participation_step\<^sup>*\<^sup>* db db'" and "status_of db' p = Some s"
  shows "(s \<in> {Part_ACTIVE, RESTRICTED, SUSPENDED} \<longrightarrow>
      s = (if activeSuspensionCount db' p > 0 then SUSPENDED
           else if activeRestrictionCount db' p > 0 then RESTRICTED else Part_ACTIVE)) \<and>
    activeSuspensionCount db' p \<le> 1 \<and>
    (s = Part_CLOSED \<longleftrightarrow> (\<exists>c\<in>set (closures db'). pc_participantId c = p))"
proof -
  have inv: "participation_inv db'" using participation_steps_inv[OF assms(2) participation_start_inv[OF assms(1)]] .
  then have sup: "status_supported s (activeRestrictionCount db' p) (activeSuspensionCount db' p)"
    using assms(3) by (simp add: participation_inv_def standing_supported_def)
  have one: "activeSuspensionCount db' p \<le> 1"
    using inv by (simp add: participation_inv_def suspension_rows_ok_def)
  have "status_of db' p = Some Part_CLOSED \<longleftrightarrow> p \<in> pc_participantId ` set (closures db')"
    using inv by (simp add: participation_inv_def closures_ok_def)
  then have cl: "s = Part_CLOSED \<longleftrightarrow> p \<in> pc_participantId ` set (closures db')" using assms(3) by simp
  show ?thesis using sup one cl by (auto simp: status_supported_def)
qed

theorem standing_is_its_evidence_witness:
  "status_of ex_suspended ''p'' = Some SUSPENDED \<and> activeRestrictionCount ex_suspended ''p'' = 1 \<and>
   activeSuspensionCount ex_suspended ''p'' = 1"
proof -
  have s: "status_of ex_suspended ''p'' = Some SUSPENDED" by code_simp
  have "activeSuspensionCount ex_suspended ''p'' = 1"
    using standing_is_its_evidence[OF ex_hall_start ex_participation_history(2) s] by (auto split: if_splits)
  moreover have "activeRestrictionCount ex_suspended ''p'' = 1" by code_simp
  ultimately show ?thesis using s by simp
qed

text \<open>C19: one operation moves a participant's status at most along the edges of the lifecycle table, and
  a participant that did not stand comes to stand (ACTIVE, RESTRICTED or SUSPENDED) only by an
  approving decision of its own pending submission, taken by an account that holds the review
  capability and does not own the participant.\<close>

theorem admission_only_by_review:
  assumes "participation_step db db'" and "status_of db p = Some s"
  shows "\<exists>t. status_of db' p = Some t \<and> (t = s \<or> isValidParticipantTransition s t) \<and>
    (t \<in> {Part_ACTIVE, RESTRICTED, SUSPENDED} \<and> s \<notin> {Part_ACTIVE, RESTRICTED, SUSPENDED} \<longrightarrow>
      (\<exists>ev i x. decideParticipantActivation ev i db = Inr (db', x) \<and> di_participantId i = p \<and>
         di_decision i = Review_APPROVED \<and>
         isInternallyAuthorized (canReviewParticipantActivation (resolveInternalAuthorizationSubject db (di_reviewerAccountId i))) \<and>
         account_of db p \<noteq> Some (di_reviewerAccountId i)))"
  using participation_step_moves[OF assms] unfolding permitted_move_def in_standing_def admitted_by_review_def by blast

theorem admission_only_by_review_witness:
  "\<exists>ev i x. decideParticipantActivation ev i ex_submitted = Inr (ex_admitted, x) \<and> di_participantId i = ''p'' \<and>
     di_decision i = Review_APPROVED \<and> account_of ex_submitted ''p'' \<noteq> Some (di_reviewerAccountId i)"
proof -
  have s: "status_of ex_submitted ''p'' = Some UNDER_REVIEW" by code_simp
  have t: "status_of ex_admitted ''p'' = Some Part_ACTIVE" by code_simp
  show ?thesis using admission_only_by_review[OF ex_participation_steps(5) s] t by auto
qed

text \<open>C36: a rejection is final.  After a review decided REJECTED the participant stays under review with no
  submission left to decide; whatever the services do next, it is under review still or its owner has
  closed it.  No later submission is accepted, no later review finds anything to decide, and no
  drafting status can be entered.\<close>

theorem rejected_participant_is_stranded:
  assumes "participation_start db0" and "participation_step\<^sup>*\<^sup>* db0 db" and "decideParticipantActivation ev i db = Inr (db1, x)"
    and "di_decision i = Review_REJECTED" and "status_of db (di_participantId i) = Some UNDER_REVIEW"
    and "participation_step\<^sup>*\<^sup>* db1 db2"
  shows "status_of db2 (di_participantId i) = Some Part_CLOSED \<or>
    (status_of db2 (di_participantId i) = Some UNDER_REVIEW \<and>
     \<not> is_ok (submitParticipantForActivation aid rd (di_participantId i) at db2) \<and>
     (\<forall>ev' i'. di_participantId i' = di_participantId i \<longrightarrow> \<not> is_ok (decideParticipantActivation ev' i' db2)) \<and>
     \<not> is_ok (advanceParticipantStatus (di_participantId i) t db2))"
proof -
  let ?p = "di_participantId i"
  have "stranded db1 ?p" by (rule rejection_strands[OF participation_steps_pending[OF assms(2) participation_start_pending[OF assms(1)]] assms(3-5)])
  from stranded_for_ever[OF assms(6) this] show ?thesis using stranded_refusals[of db2 ?p] by (auto simp: stranded_def)
qed

theorem rejected_participant_is_stranded_witness:
  "\<not> is_ok (submitParticipantForActivation ''a2'' (Inr ENABLED) ''p'' 40 ex_rejected)"
proof -
  have d: "decideParticipantActivation ex_evidence (ex_decision Review_REJECTED NOT_ELIGIBLE_UNDER_POLICY) ex_submitted =
      Inr (ex_rejected, the (result (decideParticipantActivation ex_evidence (ex_decision Review_REJECTED NOT_ELIGIBLE_UNDER_POLICY) ex_submitted)))"
    by code_simp
  have s: "status_of ex_submitted (di_participantId (ex_decision Review_REJECTED NOT_ELIGIBLE_UNDER_POLICY)) = Some UNDER_REVIEW"
    by code_simp
  have "status_of ex_rejected ''p'' = Some UNDER_REVIEW" by code_simp
  then show ?thesis
    using rejected_participant_is_stranded[OF ex_hall_start ex_participation_history(1) d _ s rtranclp.rtrancl_refl, of "''a2''" "Inr ENABLED" 40]
    by (simp add: ex_decision_def)
qed

section \<open>Who may transact\<close>

lemma may_perform_iff:
  "assertParticipantMayPerform db p scopes =
     (if activeSuspensionCount db p = 0 \<and> (\<forall>r\<in>set (restrictions db). pr_participantId r = p \<and> pr_status r = Mitigation_ACTIVE \<longrightarrow>
          pr_scope r \<notin> set scopes)
      then Inr () else Inl (ParticipantError ''PARTICIPANT_ACTION_NOT_PERMITTED''))"
  by (auto simp: assertParticipantMayPerform_def evaluateParticipantAction_def readParticipantStanding_def list_ex_iff
      require_def part_err_def)

lemma blocking_scopes:
  "s \<in> set (commerceBlockingScopesForRole role) \<longleftrightarrow>
     (role \<noteq> Role_BUYER \<and> s = Scope_payout_receive) \<or> (role = Role_SELLER \<and> s = Scope_offer_publish)"
  by (cases role; cases s) (simp_all add: commerceBlockingScopesForRole_def isEnforceableRestrictionScope_def scopeAppliesToRole_def)

text \<open>The gate a sale passes for its parties opens exactly when none of them has an active suspension
  and none has an active restriction of a scope that blocks commerce in the role it plays: receiving
  payouts for both sellers and promoters, publishing Offers for sellers only.  Otherwise it refuses.\<close>

theorem parties_may_transact_iff:
  "assertPartiesMayTransact db parties =
     (if \<forall>(p, role)\<in>set parties. activeSuspensionCount db p = 0 \<and>
           (\<forall>r\<in>set (restrictions db). pr_participantId r = p \<and> pr_status r = Mitigation_ACTIVE \<longrightarrow>
              \<not> (role \<noteq> Role_BUYER \<and> pr_scope r = Scope_payout_receive) \<and>
              \<not> (role = Role_SELLER \<and> pr_scope r = Scope_offer_publish))
      then Inr () else Inl (ParticipantError ''PARTICIPANT_ACTION_NOT_PERMITTED''))"
proof (induction parties)
  case (Cons x parties)
  obtain p role where x: "x = (p, role)" by (cases x)
  show ?case using Cons.IH unfolding x assertPartiesMayTransact.simps may_perform_iff by (auto simp: blocking_scopes)
qed simp

theorem parties_may_transact_iff_witness:
  "assertPartiesMayTransact ex_restrained [(''p'', Role_BUYER)] = Inr () \<and>
   assertPartiesMayTransact ex_restrained [(''q'', Role_SELLER), (''p'', Role_PROMOTER)] =
     Inl (ParticipantError ''PARTICIPANT_ACTION_NOT_PERMITTED'')"
proof -
  have "activeSuspensionCount ex_restrained ''p'' = 0" "activeSuspensionCount ex_restrained ''q'' = 0" by code_simp+
  moreover have "map (\<lambda>r. (pr_participantId r, pr_status r, pr_scope r)) (restrictions ex_restrained) =
      [(''p'', Mitigation_ACTIVE, Scope_payout_receive)]" by code_simp
  ultimately show ?thesis
    unfolding parties_may_transact_iff by (auto simp: map_eq_Cons_conv)
qed

section \<open>Public names\<close>



section \<open>Notices\<close>

text \<open>The obligation key identifies the notice: two notices get the same key exactly when recipient,
  category, subject and the two optional components agree, where an absent component counts as the
  one written \<open>~\<close>.  Nothing else is confused, whatever the components contain.\<close>

theorem notice_key_identifies:
  assumes "notificationObligationKey f = Inr k" and "notificationObligationKey g = Inr k'"
  shows "k = k' \<longleftrightarrow>
    nf_recipientParticipantId f = nf_recipientParticipantId g \<and> nf_category f = nf_category g \<and>
    ns_kind (nf_subject f) = ns_kind (nf_subject g) \<and> ns_ref (nf_subject f) = ns_ref (nf_subject g) \<and>
    (let written = \<lambda>c. case c of None \<Rightarrow> ''~'' | Some s \<Rightarrow> s in
     written (ns_versionRef (nf_subject f)) = written (ns_versionRef (nf_subject g)) \<and>
     written (nf_contextCode f) = written (nf_contextCode g))"
  unfolding notification_key_components[OF assms] key_components_def key_component_def KEY_ABSENT_def
  by (auto simp: Let_def)

theorem notice_key_identifies_witness:
  "notificationObligationKey (decision_notice ''x'' ''p'' ''d1'' ''RESTRICTION_IMPOSED'' 0) \<noteq>
   notificationObligationKey (decision_notice ''y'' ''p'' ''d2'' ''RESTRICTION_IMPOSED'' 0)"
proof -
  have a: "notificationObligationKey (decision_notice ''x'' ''p'' ''d1'' ''RESTRICTION_IMPOSED'' 0) =
      Inr ''p|PARTICIPANT_STANDING_CHANGED|PARTICIPANT_DECISION|d1|~|RESTRICTION_IMPOSED''" by code_simp
  have b: "notificationObligationKey (decision_notice ''y'' ''p'' ''d2'' ''RESTRICTION_IMPOSED'' 0) =
      Inr ''p|PARTICIPANT_STANDING_CHANGED|PARTICIPANT_DECISION|d2|~|RESTRICTION_IMPOSED''" by code_simp
  show ?thesis unfolding a b using notice_key_identifies[OF a b] by (simp add: decision_notice_def)
qed

text \<open>A version reference that reads like the absent marker is accepted, and shares its key with none.\<close>

lemma absent_version_collides:
  "let f = \<lambda>v. \<lparr>nf_id = ''n'', nf_recipientParticipantId = ''p'', nf_category = ''OFFER_CHANGE'',
     nf_subject = \<lparr>ns_kind = ''OFFER'', ns_ref = ''off'', ns_versionRef = v\<rparr>, nf_contextCode = None, nf_createdAt = 0\<rparr> in
   CreateNotificationObligationInput (f (Some ''~'')) \<and> CreateNotificationObligationInput (f None) \<and>
   is_ok (notificationObligationKey (f None)) \<and>
   notificationObligationKey (f (Some ''~'')) = notificationObligationKey (f None)"
  by code_simp

text \<open>The notices of an Offer change are raised exactly once.  After a successful emission, emitting the
  same change again, with whatever fresh ids, writes nothing and returns the same notices; and each
  promoter whose current Listing carries the changed version has one for every category that
  changed.\<close>

theorem offer_change_notified_once:
  assumes "recordOfferChangeObligations ids c db = Inr (db', rs)"
  shows "recordOfferChangeObligations ids' c db' = Inr (db', rs) \<and>
    list_all2 (\<lambda>x r. r \<in> set (notices db') \<and> notificationObligationKey (offer_change_notice i c x) = Inr (nr_obligationKey r))
      (List.product (affectedPromotersInTx db (oc_offerSourceRecordId c) (oc_priorVersion c)) (oc_changeCategories c)) rs"
proof -
  let ?xs = "\<lambda>db. List.product (affectedPromotersInTx db (oc_offerSourceRecordId c) (oc_priorVersion c)) (oc_changeCategories c)"
  let ?mk = "\<lambda>i. offer_change_notice i c"
  have i: "RecordOfferChangeObligationsInput c"
    and v: "list_ex (\<lambda>v. ov_offerSourceRecordId v = oc_offerSourceRecordId c \<and>
                ov_sourceRecordVersion v = oc_effectiveVersion c) (offerVersions db)"
    and run: "upsert_notices ids 0 ?mk (?xs db) db = Inr (db', rs)"
    using assms by (auto simp: recordOfferChangeObligations_def split: if_split_asm)
  note r = upsert_notices_raise[OF run offer_change_blind]
  have same: "?xs db' = ?xs db" "offerVersions db' = offerVersions db" using only_notices_reads r by metis+
  have "upsert_notices ids' 0 ?mk (?xs db) db' = Inr (db', rs)" by (rule upsert_notices_again[OF conjunct2[OF r]])
  then have "recordOfferChangeObligations ids' c db' = Inr (db', rs)"
    using i v unfolding recordOfferChangeObligations_def same by simp
  then show ?thesis
  proof (rule conjI)
    show "list_all2 (\<lambda>x r. r \<in> set (notices db') \<and> notificationObligationKey (?mk i x) = Inr (nr_obligationKey r)) (?xs db) rs"
      by (rule list_all2_mono[OF conjunct2[OF r]]) (auto simp: raised_def find_notice_key_def dest: find_Some_set)
  qed
qed

definition ex_change :: offer_change where
  "ex_change = \<lparr>oc_offerSourceRecordId = ''off'', oc_effectiveVersion = ''1'', oc_priorVersion = ''1'',
     oc_changeCategories = [''WHOLESALE_PRICE_CHANGED'', ''COMMISSION_TERMS_CHANGED''], oc_createdAt = 60\<rparr>"

definition ex_promoted_hall :: participation_tables where
  "ex_promoted_hall = ex_hall\<lparr>participants :=
     [\<lparr>pa_id = ''prom'', pa_accountId = ''bob'', pa_status = Part_ACTIVE, pa_marketplaceName = None\<rparr>]\<rparr>"

theorem offer_change_notified_once_witness:
  "\<exists>db' rs. recordOfferChangeObligations (\<lambda>n. replicate (n + 1) (CHR ''n'')) ex_change ex_promoted_hall = Inr (db', rs) \<and>
     recordOfferChangeObligations (\<lambda>n. replicate (n + 1) (CHR ''m'')) ex_change db' = Inr (db', rs) \<and> length rs = 2"
proof -
  have ok: "is_ok (recordOfferChangeObligations (\<lambda>n. replicate (n + 1) (CHR ''n'')) ex_change ex_promoted_hall)" by code_simp
  then obtain db' rs where run: "recordOfferChangeObligations (\<lambda>n. replicate (n + 1) (CHR ''n'')) ex_change ex_promoted_hall = Inr (db', rs)"
    using is_ok_after by (metis surj_pair)
  have "affectedPromotersInTx ex_promoted_hall (oc_offerSourceRecordId ex_change) (oc_priorVersion ex_change) = [''prom'']" by code_simp
  then have "length rs = 2"
    using list_all2_lengthD[OF conjunct2[OF offer_change_notified_once[OF run, of "\<lambda>n. []" "[]"]]]
    by (simp add: ex_change_def)
  then show ?thesis using run offer_change_notified_once[OF run] by blast
qed

end
