(* ===== verification/Sale_Tables.thy ===== *)
theory Sale_Tables
  imports Market_Tables
begin

text \<open>
  What a completed sale leaves behind, beside its accounting: the purchase evidence and the review
  authority (\<open>src/contracts/marketplace/purchase-evidence.ts\<close>, \<open>review-authority.ts\<close>), the record
  mappers of \<open>src/server/marketplace/order-mapper.ts\<close>, and the obligation to report its tax
  (\<open>commitTaxTransactionObligationInTx\<close> of \<open>src/server/tax/tax-transaction-service.ts\<close>).  The record
  of an Order is its row: a mapper checks the row and hands it back.
\<close>

section \<open>Purchase evidence and review authority\<close>

datatype purchase_provenance = Provenance_NONE | UNVERIFIED | VERIFIED

record purchase_evidence =
  pev_id :: ident
  pev_orderId :: ident
  pev_purchaseProvenance :: purchase_provenance
  pev_submitter :: buyer_kind
  pev_internalProductId :: ident
  pev_sellerParticipantId :: ident
  pev_establishedAt :: instant

datatype review_kind = PRODUCT_REVIEW | SELLER_REVIEW

datatype submission_state = Submission_SUBMITTED | Submission_EDITED | Submission_WITHDRAWN

datatype review_authority_status = Authority_ACTIVE | INVALIDATED

record review_authority =
  rva_id :: ident
  rva_reviewSubmissionId :: ident
  rva_orderId :: ident
  rva_purchaseEvidenceId :: ident
  rva_reviewKind :: review_kind
  rva_reviewSubjectRef :: string
  rva_submitter :: buyer_kind
  rva_purchaseProvenance :: purchase_provenance
  rva_submissionState :: submission_state
  rva_status :: review_authority_status

record review_eligibility =
  rve_eligible :: bool
  rve_blockers :: "review_blocker list"

definition evaluatePurchaseReviewEligibility :: "bool \<Rightarrow> bool \<Rightarrow> bool \<Rightarrow> review_eligibility" where
  "evaluatePurchaseReviewEligibility orderCompleted purchaseEvidenceExists authorityAlreadyExists =
     (let blockers = (if orderCompleted then [] else [ORDER_NOT_COMPLETED]) @
                     (if purchaseEvidenceExists then [] else [PURCHASE_EVIDENCE_MISSING]) @
                     (if authorityAlreadyExists then [REVIEW_ALREADY_AUTHORIZED] else [])
      in \<lparr>rve_eligible = (length blockers = 0), rve_blockers = blockers\<rparr>)"

fun reviewSubjectRefFor :: "review_kind \<Rightarrow> ident \<Rightarrow> ident \<Rightarrow> string" where
  "reviewSubjectRefFor PRODUCT_REVIEW internalProductId sellerParticipantId = internalProductId"
| "reviewSubjectRefFor SELLER_REVIEW internalProductId sellerParticipantId = sellerParticipantId"

lemma review_eligible_iff:
  "rve_eligible (evaluatePurchaseReviewEligibility c e a) \<longleftrightarrow> c \<and> e \<and> \<not> a"
  by (simp add: evaluatePurchaseReviewEligibility_def Let_def)

section \<open>Tables\<close>

record sale_tables = market_tables +
  taxEvidences :: "tax_evidence_row list"
  purchaseEvidences :: "purchase_evidence list"
  reviewAuthorities :: "review_authority list"

definition find_tax_evidence :: "'a sale_tables_scheme \<Rightarrow> ident \<Rightarrow> tax_evidence_row option" where
  "find_tax_evidence db oid = List.find (\<lambda>e. txe_orderId e = oid) (taxEvidences db)"

definition find_purchase_evidence :: "'a sale_tables_scheme \<Rightarrow> ident \<Rightarrow> purchase_evidence option" where
  "find_purchase_evidence db oid = List.find (\<lambda>e. pev_orderId e = oid) (purchaseEvidences db)"

definition find_review_authority :: "'a sale_tables_scheme \<Rightarrow> ident \<Rightarrow> review_kind \<Rightarrow> review_authority option" where
  "find_review_authority db oid kind =
     List.find (\<lambda>a. rva_orderId a = oid \<and> rva_reviewKind a = kind) (reviewAuthorities db)"

definition find_obligation :: "'a reversal_tables_scheme \<Rightarrow> ident \<Rightarrow> proceeds_obligation option" where
  "find_obligation db i = List.find (\<lambda>ob. pob_id ob = i) (obligations db)"

section \<open>Record mappers\<close>

definition order_err :: "string \<Rightarrow> err" where
  "order_err c = OrderError c"

definition GuestClaimCodeDigest :: "string \<Rightarrow> bool" where
  "GuestClaimCodeDigest d = (length d = 64 \<and> list_all (\<lambda>c. c \<in> set ''0123456789abcdef'') d)"

fun buyer_columns_ok :: "buyer_kind \<Rightarrow> ident option \<Rightarrow> string option \<Rightarrow> bool" where
  "buyer_columns_ok GUEST_BUYER _ digest = (case digest of None \<Rightarrow> False | Some d \<Rightarrow> GuestClaimCodeDigest d)"
| "buyer_columns_ok ACCOUNT_BUYER accountId _ = (accountId \<noteq> None)"

definition OrderRecord :: "order_row \<Rightarrow> bool" where
  "OrderRecord r = (buyer_columns_ok (or_buyerKind r) (or_buyerAccountId r) (or_guestClaimCodeDigest r) \<and>
     source_ref (or_listingSourceRecordId r) \<and> version_ref (or_listingSourceRecordVersion r) \<and>
     version_ref (or_policyVersion r) \<and> OrderQuote (or_quote r))"

definition orderRowToRecord :: "order_row \<Rightarrow> order_row res" where
  "orderRowToRecord r = (if OrderRecord r then Inr r else Inl (order_err ''CORRUPT_ORDER_RECORD''))"

definition ProceedsObligationRecord :: "proceeds_obligation \<Rightarrow> bool" where
  "ProceedsObligationRecord ob = (Amount (pob_amount ob) \<and> CurrencyCode (pob_currency ob))"

definition proceedsObligationRowToRecord :: "proceeds_obligation \<Rightarrow> proceeds_obligation res" where
  "proceedsObligationRowToRecord ob =
     (if ProceedsObligationRecord ob then Inr ob else Inl (order_err ''CORRUPT_ORDER_RECORD''))"

definition reviewAuthorityRowToRecord :: "review_authority \<Rightarrow> review_authority res" where
  "reviewAuthorityRowToRecord a =
     (if source_ref (rva_reviewSubjectRef a) then Inr a else Inl (order_err ''CORRUPT_ORDER_RECORD''))"

lemma mapped_row [simp]:
  "orderRowToRecord r = Inr x \<longleftrightarrow> OrderRecord r \<and> x = r"
  "proceedsObligationRowToRecord ob = Inr y \<longleftrightarrow> ProceedsObligationRecord ob \<and> y = ob"
  "reviewAuthorityRowToRecord a = Inr z \<longleftrightarrow> source_ref (rva_reviewSubjectRef a) \<and> z = a"
  by (auto simp: orderRowToRecord_def proceedsObligationRowToRecord_def reviewAuthorityRowToRecord_def)

section \<open>The obligation to report a sale's tax\<close>

definition taxTransactionRowToRecord :: "tax_transaction_row \<Rightarrow> tax_transaction_row res" where
  "taxTransactionRowToRecord r =
     (if OrderTaxTransactionRecord r then Inr r else Inl (TaxError ''CORRUPT_TAX_TRANSACTION''))"

lemma taxTransactionRowToRecord_Inr [simp]:
  "taxTransactionRowToRecord r = Inr x \<longleftrightarrow> OrderTaxTransactionRecord r \<and> x = r"
  by (auto simp: taxTransactionRowToRecord_def)

text \<open>The evidence of an Order placed before the provider's facts were recorded reports nothing.\<close>

definition reportable_tax ::
  "tax_evidence_row \<Rightarrow> (string \<times> string \<times> string \<times> product_tax_classification) option" where
  "reportable_tax e =
     (case (txe_providerMode e, txe_productSourceRecordId e, txe_productSourceRecordVersion e,
            txe_productTaxClassification e) of
        (Some m, Some p, Some v, Some c) \<Rightarrow> Some (m, p, v, c)
      | _ \<Rightarrow> None)"

definition tax_transaction_of ::
  "ident \<Rightarrow> tax_evidence_row \<Rightarrow> string \<times> string \<times> string \<times> product_tax_classification \<Rightarrow> ident \<Rightarrow> ident \<Rightarrow>
   amount \<Rightarrow> instant \<Rightarrow> tax_transaction_row" where
  "tax_transaction_of tid e facts orderId productId basis at =
     (case facts of (mode, source, version, classification) \<Rightarrow>
     \<lparr>tt_id = tid, tt_orderId = orderId, tt_taxEvidenceId = txe_id e, tt_provider = txe_provider e,
      tt_providerMode = mode, tt_providerCalculationRef = txe_providerCalculationRef e,
      tt_providerTaxTransactionRef = None, tt_providerReference = orderId, tt_currency = txe_currency e,
      tt_taxableBasis = basis, tt_taxAmount = txe_taxAmount e, tt_providerTotalAmount = None,
      tt_jurisdictionCode = txe_jurisdictionCode e, tt_treatment = txe_treatment e,
      tt_internalProductId = productId, tt_productSourceRecordId = source,
      tt_productSourceRecordVersion = version, tt_productTaxClassification = classification,
      tt_providerTaxCode = txe_providerTaxCode e, tt_providerConfigVersion = txe_providerConfigVersion e,
      tt_calculatedAt = txe_calculatedAt e, tt_providerTaxTransactionCreatedAt = None, tt_recordedAt = at,
      tt_lifecycleState = Lifecycle_RECORDED, tt_recordingStatus = Recording_PENDING, tt_attemptCount = 0,
      tt_nextAttemptAt = Some at, tt_lastFailureCode = None, tt_lastFailureClass = None,
      tt_lockToken = None, tt_lockedAt = None, tt_leaseExpiresAt = None, tt_finalizedAt = None,
      tt_requeueCount = 0, tt_lastRequeuedAt = None\<rparr>)"

definition insert_tax_transaction ::
  "tax_transaction_row \<Rightarrow> 'a market_tables_scheme \<Rightarrow> 'a market_tables_scheme res" where
  "insert_tax_transaction r db =
     (if list_ex (\<lambda>t. tt_id t = tt_id r \<or> tt_orderId t = tt_orderId r \<or> tt_taxEvidenceId t = tt_taxEvidenceId r)
           (taxTransactions db)
      then Inl (UniqueViolation ''OrderTaxTransaction'')
      else Inr (db\<lparr>taxTransactions := taxTransactions db @ [r]\<rparr>))"

definition commitTaxTransactionObligationInTx ::
  "ident \<Rightarrow> ident \<Rightarrow> amount \<Rightarrow> instant \<Rightarrow> 'a sale_tables_scheme \<Rightarrow>
   ('a sale_tables_scheme \<times> tax_transaction_row option) res" where
  "commitTaxTransactionObligationInTx tid orderId basis at db =
     (case find_tax_evidence db orderId of None \<Rightarrow> Inr (db, None)
      | Some evidence \<Rightarrow>
          (case reportable_tax evidence of None \<Rightarrow> Inr (db, None)
           | Some facts \<Rightarrow>
               (case find_order db orderId of None \<Rightarrow> Inr (db, None)
                | Some ord \<Rightarrow>
                    let row = tax_transaction_of tid evidence facts orderId (or_internalProductId ord) basis at in
                    chain (insert_tax_transaction row db) (\<lambda>db'.
                    chain (taxTransactionRowToRecord row) (\<lambda>r. Inr (db', Some r))))))"

end
