(* ===== verification/Order_Service.thy ===== *)
theory Order_Service
  imports Sale_Tables
begin

text \<open>
  \<open>src/server/marketplace/order-service.ts\<close>: reading an Order, charging the buyer through the payment
  port, recording what the provider answered, cancelling, the guest's claim, the standing of what a
  sale owes, and the review one purchase licenses; \<open>finalizeConfirmedPayment\<close> of
  \<open>src/server/payments/executable-checkout-service.ts\<close>, which applies a provider's confirmation.

  \<open>recordPaymentResult\<close> reads the Order outside the transaction that then writes it, so the two are two
  definitions here: \<open>record_result_on\<close> is everything after the read, on the record that was read.
\<close>

section \<open>Errors\<close>

definition ORDER_DOMAIN_ERRORS :: "string list" where
  "ORDER_DOMAIN_ERRORS = [''INVALID_ORDER_INPUT'', ''ORDER_NOT_FOUND'', ''LISTING_NOT_FOUND'', ''LISTING_NOT_PURCHASABLE'',
     ''ORDER_CURRENCY_MISMATCH'', ''NO_EFFECTIVE_COMMERCIAL_POLICY'', ''BUYER_ACCOUNT_NOT_FOUND'',
     ''SELLER_NOT_RESOLVABLE'', ''INVALID_ORDER_TRANSITION'', ''PAYMENT_RESULT_CONFLICT'', ''ORDER_NOT_COMPLETED'',
     ''GUEST_CLAIM_REFUSED'', ''NOT_A_GUEST_ORDER'', ''INVALID_PROCEEDS_OBLIGATION_TRANSITION'',
     ''PROCEEDS_OBLIGATION_NOT_FOUND'', ''CORRUPT_ORDER_RECORD'']"

fun isOrderDomainError :: "err \<Rightarrow> bool" where
  "isOrderDomainError (OrderError c) = (c \<in> set ORDER_DOMAIN_ERRORS)"
| "isOrderDomainError (QuoteSnapshotMismatchError _) = True"
| "isOrderDomainError (ReviewNotEligibleError _) = True"
| "isOrderDomainError (ProceedsPayoutHeldError _) = True"
| "isOrderDomainError _ = False"

definition order_catch :: "'b res \<Rightarrow> 'b res" where
  "order_catch r = rethrow_own isOrderDomainError (order_err ''ORDER_PERSISTENCE_FAILURE'') r"

lemma order_catch_Inr [simp]: "order_catch r = Inr x \<longleftrightarrow> r = Inr x"
  by (simp add: order_catch_def)

section \<open>Reads\<close>

definition getOrder :: "'a market_tables_scheme \<Rightarrow> ident \<Rightarrow> order_row res" where
  "getOrder db oid = order_catch
     (case find_order db oid of None \<Rightarrow> Inl (order_err ''ORDER_NOT_FOUND'') | Some r \<Rightarrow> orderRowToRecord r)"

definition listProceedsObligations :: "'a reversal_tables_scheme \<Rightarrow> ident \<Rightarrow> proceeds_obligation list res" where
  "listProceedsObligations db sid = order_catch
     (map_res proceedsObligationRowToRecord
       (party_order (filter (\<lambda>ob. pob_snapshotId ob = sid) (obligations db))))"

definition getPurchaseEvidence :: "'a sale_tables_scheme \<Rightarrow> ident \<Rightarrow> purchase_evidence res" where
  "getPurchaseEvidence db oid =
     (case find_purchase_evidence db oid of None \<Rightarrow> Inl (order_err ''ORDER_NOT_COMPLETED'') | Some e \<Rightarrow> Inr e)"

section \<open>Charging the buyer\<close>

datatype payment_result = Payment_SUCCEEDED string string | Payment_FAILED payment_failure_code

fun BuyerPaymentResult :: "payment_result \<Rightarrow> bool" where
  "BuyerPaymentResult (Payment_SUCCEEDED provider ref) = (provider = ''STRIPE'' \<and> ProviderTransactionRef ref)"
| "BuyerPaymentResult (Payment_FAILED _) = True"

record payment_request =
  bpr_orderId :: ident
  bpr_provider :: string
  bpr_currency :: currency
  bpr_amount :: amount
  bpr_idempotencyKey :: string
  bpr_collectShippingAddress :: bool

definition BuyerPaymentRequest :: "payment_request \<Rightarrow> bool" where
  "BuyerPaymentRequest q = (bpr_provider q = ''STRIPE'' \<and> CurrencyCode (bpr_currency q) \<and> 1 \<le> bpr_amount q \<and>
     bpr_amount q \<le> MAX_MINOR_UNIT_AMOUNT \<and> source_ref (bpr_idempotencyKey q))"

definition payment_request_of :: "order_row \<Rightarrow> string \<Rightarrow> bool \<Rightarrow> payment_request" where
  "payment_request_of ord provider collect =
     \<lparr>bpr_orderId = or_id ord, bpr_provider = provider, bpr_currency = oq_currency (or_quote ord),
      bpr_amount = quotedBuyerTotalMinorUnits (or_quote ord), bpr_idempotencyKey = or_id ord,
      bpr_collectShippingAddress = collect\<rparr>"

text \<open>The port is the provider's adapter: a parameter, which may throw.\<close>

definition executeOrderPayment ::
  "(payment_request \<Rightarrow> payment_result res) \<Rightarrow> order_row \<Rightarrow> string \<Rightarrow> payment_result res" where
  "executeOrderPayment port ord provider =
     (let request = payment_request_of ord provider False in
      if \<not> BuyerPaymentRequest request then Inl ZodError
      else chain (port request) (\<lambda>answer. if BuyerPaymentResult answer then Inr answer else Inl ZodError))"

definition initiateOrderPayment ::
  "(payment_request \<Rightarrow> 'i res) \<Rightarrow> ('i \<Rightarrow> bool) \<Rightarrow> order_row \<Rightarrow> string \<Rightarrow> bool \<Rightarrow> 'i res" where
  "initiateOrderPayment port initiation_ok ord provider collect =
     (let request = payment_request_of ord provider collect in
      if \<not> BuyerPaymentRequest request then Inl ZodError
      else chain (port request) (\<lambda>answer. if initiation_ok answer then Inr answer else Inl ZodError))"

section \<open>Recording a completed sale\<close>

definition requireQuoteMatchesSnapshot :: "order_row \<Rightarrow> snapshot_record \<Rightarrow> unit res" where
  "requireQuoteMatchesSnapshot ord s =
     (let q = or_quote ord; p = snap_passThrough s;
          mismatched =
            (if snap_commercialRetail s \<noteq> oq_commercialRetail q then [''commercialRetailAmountMinorUnits''] else []) @
            (if snap_currency s \<noteq> oq_currency q then [''currency''] else []) @
            (if pt_tax p \<noteq> oq_tax q then [''taxAmountMinorUnits''] else []) @
            (if pt_shipping p \<noteq> oq_shipping q then [''shippingAmountMinorUnits''] else []) @
            (if pt_other p \<noteq> oq_other q then [''otherPassThroughAmountMinorUnits''] else [])
      in if mismatched \<noteq> [] then Inl (QuoteSnapshotMismatchError mismatched) else Inr ())"

record sale_ids =
  sid_snapshot :: ident
  sid_obligation :: "nat \<Rightarrow> ident"
  sid_taxTransaction :: ident
  sid_evidence :: ident
  sid_notice :: "nat \<Rightarrow> ident"

record completed_sale =
  cs_order :: order_row
  cs_snapshotId :: ident
  cs_obligations :: "proceeds_obligation list"
  cs_evidence :: purchase_evidence

definition sale_snapshot_input :: "order_row \<Rightarrow> promoted_sale_binding option \<Rightarrow> instant \<Rightarrow> snapshot_input" where
  "sale_snapshot_input ord binding at =
     \<lparr>sni_internalListingId = or_internalListingId ord,
      sni_listingSourceRecordVersion = or_listingSourceRecordVersion ord,
      sni_policyId = or_policyId ord, sni_policyVersion = or_policyVersion ord,
      sni_currency = oq_currency (or_quote ord), sni_tax = oq_tax (or_quote ord),
      sni_shipping = oq_shipping (or_quote ord), sni_other = oq_other (or_quote ord),
      sni_occurredAt = or_placedAt ord, sni_recordedAt = at, sni_promotedBinding = binding\<rparr>"

text \<open>The snapshot is bound to its Order, whose id is unique among snapshots.\<close>

definition bind_snapshot :: "ident \<Rightarrow> ident \<Rightarrow> 'a accounting_tables_scheme \<Rightarrow> 'a accounting_tables_scheme res" where
  "bind_snapshot sid oid db =
     (if list_ex (\<lambda>s. sr_orderId s = Some oid \<and> sr_id s \<noteq> sid) (snapshots db)
      then Inl (UniqueViolation ''TransactionEconomicSnapshot'')
      else Inr (db\<lparr>snapshots := update_where (\<lambda>s. sr_id s = sid) (\<lambda>s. s\<lparr>sr_orderId := Some oid\<rparr>) (snapshots db)\<rparr>))"

text \<open>One provider transaction settles one sale: the pair is unique among settlements.\<close>

definition attach_payment ::
  "ident \<Rightarrow> string \<Rightarrow> string \<Rightarrow> instant \<Rightarrow> 'a accounting_tables_scheme \<Rightarrow> 'a accounting_tables_scheme res" where
  "attach_payment sid provider ref at db =
     (if list_ex (\<lambda>s. provider_key s = Some (provider, ref) \<and> st_snapshotId s \<noteq> sid) (settlements db)
      then Inl (UniqueViolation ''TransactionSettlement'')
      else Inr (db\<lparr>settlements := update_where (\<lambda>s. st_snapshotId s = sid)
             (\<lambda>s. s\<lparr>st_provider := Some provider, st_providerTransactionRef := Some ref,
                    st_providerReferenceRecordedAt := Some at\<rparr>) (settlements db)\<rparr>))"

definition claim_participant :: "order_row \<Rightarrow> proceeds_party \<Rightarrow> ident option" where
  "claim_participant ord party = (if party = SELLER then Some (or_sellerParticipantId ord) else or_promoterParticipantId ord)"

definition obligation_of ::
  "ident \<Rightarrow> order_row \<Rightarrow> snapshot_record \<Rightarrow> ident \<Rightarrow> proceeds_party \<Rightarrow> amount \<Rightarrow> proceeds_obligation" where
  "obligation_of i ord s participantId party amt =
     \<lparr>pob_id = i, pob_snapshotId = snap_snapshotId s, pob_participantId = participantId, pob_party = party,
      pob_amount = amt, pob_currency = snap_currency s, pob_state = Obligation_PENDING,
      pob_accruedAt = or_placedAt ord, pob_becameEligibleAt = None, pob_paidAt = None\<rparr>"

definition insert_obligation :: "proceeds_obligation \<Rightarrow> 'a reversal_tables_scheme \<Rightarrow> 'a reversal_tables_scheme res" where
  "insert_obligation ob db =
     (if list_ex (\<lambda>x. pob_id x = pob_id ob \<or>
           (pob_snapshotId x = pob_snapshotId ob \<and> pob_party x = pob_party ob)) (obligations db)
      then Inl (UniqueViolation ''ProceedsObligation'')
      else Inr (db\<lparr>obligations := obligations db @ [ob]\<rparr>))"

fun create_obligations ::
  "(nat \<Rightarrow> ident) \<Rightarrow> nat \<Rightarrow> order_row \<Rightarrow> snapshot_record \<Rightarrow> (proceeds_party \<times> amount) list \<Rightarrow>
   'a reversal_tables_scheme \<Rightarrow> ('a reversal_tables_scheme \<times> proceeds_obligation list) res" where
  "create_obligations ids n ord s [] db = Inr (db, [])"
| "create_obligations ids n ord s ((party, amt) # claims) db =
     (case claim_participant ord party of
        None \<Rightarrow> Inl (order_err ''SELLER_NOT_RESOLVABLE'')
      | Some participantId \<Rightarrow>
          let ob = obligation_of (ids n) ord s participantId party amt in
          chain (insert_obligation ob db) (\<lambda>db1.
          chain (proceedsObligationRowToRecord ob) (\<lambda>r.
          chain (create_obligations ids (n + 1) ord s claims db1) (\<lambda>(db2, rs). Inr (db2, r # rs)))))"

definition purchase_evidence_of :: "ident \<Rightarrow> order_row \<Rightarrow> instant \<Rightarrow> purchase_evidence" where
  "purchase_evidence_of i ord at =
     \<lparr>pev_id = i, pev_orderId = or_id ord, pev_purchaseProvenance = VERIFIED, pev_submitter = or_buyerKind ord,
      pev_internalProductId = or_internalProductId ord, pev_sellerParticipantId = or_sellerParticipantId ord,
      pev_establishedAt = at\<rparr>"

definition insert_purchase_evidence :: "purchase_evidence \<Rightarrow> 'a sale_tables_scheme \<Rightarrow> 'a sale_tables_scheme res" where
  "insert_purchase_evidence e db =
     (if list_ex (\<lambda>x. pev_id x = pev_id e \<or> pev_orderId x = pev_orderId e) (purchaseEvidences db)
      then Inl (UniqueViolation ''PurchaseEvidence'')
      else Inr (db\<lparr>purchaseEvidences := purchaseEvidences db @ [e]\<rparr>))"

definition order_notice :: "ident \<Rightarrow> ident \<Rightarrow> string \<Rightarrow> string \<Rightarrow> ident \<Rightarrow> instant \<Rightarrow> notice_fields" where
  "order_notice i recipient category kind oid at =
     \<lparr>nf_id = i, nf_recipientParticipantId = recipient, nf_category = category,
      nf_subject = \<lparr>ns_kind = kind, ns_ref = oid, ns_versionRef = None\<rparr>, nf_contextCode = None, nf_createdAt = at\<rparr>"

text \<open>Who is owed a notice of a sale: the seller, and the promoter of a promoted sale.\<close>

definition sale_recipients :: "order_row \<Rightarrow> ident list" where
  "sale_recipients ord = or_sellerParticipantId ord #
     (case or_promoterParticipantId ord of None \<Rightarrow> [] | Some p \<Rightarrow> [p])"

definition update_order ::
  "ident \<Rightarrow> (order_row \<Rightarrow> order_row) \<Rightarrow> 'a market_tables_scheme \<Rightarrow> ('a market_tables_scheme \<times> order_row) res" where
  "update_order oid f db =
     (case find_order db oid of None \<Rightarrow> Inl (RecordNotFound ''Order'')
      | Some row \<Rightarrow> chain (orderRowToRecord (f row)) (\<lambda>r.
          Inr (db\<lparr>orders := update_where (\<lambda>x. or_id x = oid) f (orders db)\<rparr>, r)))"

definition mark_paid :: "instant \<Rightarrow> order_row \<Rightarrow> order_row" where
  "mark_paid at r = r\<lparr>or_lifecycle := Order_PAID, or_paidAt := Some at\<rparr>"

definition mark_payment_failed :: "payment_failure_code \<Rightarrow> instant \<Rightarrow> order_row \<Rightarrow> order_row" where
  "mark_payment_failed code at r =
     r\<lparr>or_lifecycle := PAYMENT_FAILED, or_paymentFailureCode := Some code, or_failedAt := Some at\<rparr>"

definition mark_cancelled :: "instant \<Rightarrow> order_row \<Rightarrow> order_row" where
  "mark_cancelled at r = r\<lparr>or_lifecycle := CANCELLED, or_cancelledAt := Some at\<rparr>"

definition completed_sale_tx ::
  "order_row \<Rightarrow> string \<Rightarrow> string \<Rightarrow> instant \<Rightarrow> sale_ids \<Rightarrow> 'a sale_tables_scheme \<Rightarrow>
   ('a sale_tables_scheme \<times> completed_sale) res" where
  "completed_sale_tx ord provider ref at ids db =
     (case find_order db (or_id ord) of
        None \<Rightarrow> Inl (RecordNotFound ''Order'')
      | Some row \<Rightarrow>
          chain (recordTransactionEconomicSnapshotInTx (sid_snapshot ids)
                   (sale_snapshot_input ord (or_promotedBinding row) at) db) (\<lambda>(db1, snapshot).
          chain (requireQuoteMatchesSnapshot ord snapshot) (\<lambda>_.
          chain (bind_snapshot (snap_snapshotId snapshot) (or_id ord) db1) (\<lambda>db2.
          chain (attach_payment (snap_snapshotId snapshot) provider ref at db2) (\<lambda>db3.
          chain (create_obligations (sid_obligation ids) 0 ord snapshot
                   (deriveProceedsClaims (snap_economics snapshot)) db3) (\<lambda>(db4, obs).
          chain (commitTaxTransactionObligationInTx (sid_taxTransaction ids) (or_id ord)
                   (oq_commercialRetail (or_quote ord) + oq_shipping (or_quote ord)) at db4) (\<lambda>(db5, _).
          let evidence = purchase_evidence_of (sid_evidence ids) ord at in
          chain (insert_purchase_evidence evidence db5) (\<lambda>db6.
          chain (upsert_notices (sid_notice ids) 0
                   (\<lambda>i p. order_notice i p ''SALE_RECORDED'' ''ORDER'' (or_id ord) at) (sale_recipients ord) db6) (\<lambda>(db7, _).
          chain (update_order (or_id ord) (mark_paid at) db7) (\<lambda>(db8, r).
          Inr (db8, \<lparr>cs_order = r, cs_snapshotId = snap_snapshotId snapshot, cs_obligations = obs,
                     cs_evidence = evidence\<rparr>)))))))))))"

definition recordCompletedSale ::
  "order_row \<Rightarrow> string \<Rightarrow> string \<Rightarrow> instant \<Rightarrow> sale_ids \<Rightarrow> 'a sale_tables_scheme \<Rightarrow>
   ('a sale_tables_scheme \<times> completed_sale) res" where
  "recordCompletedSale ord provider ref at ids db =
     (if \<not> isValidOrderLifecycleTransition (or_lifecycle ord) Order_PAID
      then Inl (order_err ''INVALID_ORDER_TRANSITION'')
      else order_catch (completed_sale_tx ord provider ref at ids db))"

section \<open>Recording a payment result\<close>

text \<open>Only a participant can be told of a failed payment.\<close>

definition buyer_recipient :: "order_row \<Rightarrow> ident option" where
  "buyer_recipient ord = (if or_buyerKind ord = ACCOUNT_BUYER then or_buyerParticipantId ord else None)"

definition recordPaymentFailure ::
  "order_row \<Rightarrow> payment_failure_code \<Rightarrow> instant \<Rightarrow> sale_ids \<Rightarrow> 'a sale_tables_scheme \<Rightarrow>
   ('a sale_tables_scheme \<times> order_row) res" where
  "recordPaymentFailure ord code at ids db =
     (if \<not> isValidOrderLifecycleTransition (or_lifecycle ord) PAYMENT_FAILED
      then Inl (order_err ''INVALID_ORDER_TRANSITION'')
      else order_catch
        (chain (update_order (or_id ord) (mark_payment_failed code at) db) (\<lambda>(db1, r).
           case buyer_recipient ord of
             None \<Rightarrow> Inr (db1, r)
           | Some p \<Rightarrow>
               chain (upsertObligationInTx (order_notice (sid_notice ids 0) p ''PAYMENT_FAILED'' ''PAYMENT'' (or_id ord) at) db1)
                 (\<lambda>(db2, _). Inr (db2, r)))))"

text \<open>The replay branch: the sale recorded under this provider transaction, or a conflict.\<close>

definition replayed_sale ::
  "order_row \<Rightarrow> string \<Rightarrow> string \<Rightarrow> 'a sale_tables_scheme \<Rightarrow> completed_sale res" where
  "replayed_sale ord provider ref db =
     (case find_order_snapshot db (or_id ord) of
        None \<Rightarrow> Inl (order_err ''CORRUPT_ORDER_RECORD'')
      | Some existing \<Rightarrow>
          if map_option (\<lambda>s. (st_provider s, st_providerTransactionRef s)) (find_settlement db (sr_id existing)) \<noteq>
             Some (Some provider, Some ref)
          then Inl (order_err ''PAYMENT_RESULT_CONFLICT'')
          else case find_purchase_evidence db (or_id ord) of
            None \<Rightarrow> Inl (order_err ''CORRUPT_ORDER_RECORD'')
          | Some e \<Rightarrow> chain (listProceedsObligations db (sr_id existing)) (\<lambda>obs.
              Inr \<lparr>cs_order = ord, cs_snapshotId = sr_id existing, cs_obligations = obs, cs_evidence = e\<rparr>))"

fun record_result_on ::
  "order_row \<Rightarrow> payment_result \<Rightarrow> instant \<Rightarrow> sale_ids \<Rightarrow> 'a sale_tables_scheme \<Rightarrow>
   ('a sale_tables_scheme \<times> order_row \<times> completed_sale option) res" where
  "record_result_on ord (Payment_FAILED code) at ids db =
     (if or_lifecycle ord = Order_PAID then Inl (order_err ''PAYMENT_RESULT_CONFLICT'')
      else chain (recordPaymentFailure ord code at ids db) (\<lambda>(db', failed). Inr (db', failed, None)))"
| "record_result_on ord (Payment_SUCCEEDED provider ref) at ids db =
     (if or_lifecycle ord = Order_PAID
      then chain (replayed_sale ord provider ref db) (\<lambda>sale. Inr (db, ord, Some sale))
      else chain (recordCompletedSale ord provider ref at ids db) (\<lambda>(db', sale). Inr (db', cs_order sale, Some sale)))"

definition recordPaymentResult ::
  "ident \<Rightarrow> payment_result \<Rightarrow> instant \<Rightarrow> sale_ids \<Rightarrow> 'a sale_tables_scheme \<Rightarrow>
   ('a sale_tables_scheme \<times> order_row \<times> completed_sale option) res" where
  "recordPaymentResult oid answer at ids db =
     (if \<not> BuyerPaymentResult answer then Inl (order_err ''INVALID_ORDER_INPUT'')
      else chain (getOrder db oid) (\<lambda>ord. record_result_on ord answer at ids db))"

section \<open>Cancelling and claiming\<close>

definition cancelOrder ::
  "ident \<Rightarrow> instant \<Rightarrow> 'a sale_tables_scheme \<Rightarrow> ('a sale_tables_scheme \<times> order_row) res" where
  "cancelOrder oid at db = order_catch
     (case find_order db oid of None \<Rightarrow> Inl (order_err ''ORDER_NOT_FOUND'')
      | Some current \<Rightarrow>
          if \<not> isValidOrderLifecycleTransition (or_lifecycle current) CANCELLED
          then Inl (order_err ''INVALID_ORDER_TRANSITION'')
          else update_order oid (mark_cancelled at) db)"

text \<open>\<open>digest_of\<close> is the SHA-256 of Node's \<open>crypto\<close>, in hex.\<close>

definition claimGuestOrder ::
  "(string \<Rightarrow> string) \<Rightarrow> ident \<Rightarrow> string \<Rightarrow> ident \<Rightarrow> instant \<Rightarrow> 'a sale_tables_scheme \<Rightarrow>
   ('a sale_tables_scheme \<times> order_row) res" where
  "claimGuestOrder digest_of oid code accountId at db =
     (if \<not> source_ref code then Inl (order_err ''INVALID_ORDER_INPUT'')
      else order_catch
        (case List.find (\<lambda>r. or_guestClaimCodeDigest r = Some (digest_of code)) (orders db) of
           None \<Rightarrow> Inl (order_err ''GUEST_CLAIM_REFUSED'')
         | Some current \<Rightarrow>
             if or_id current \<noteq> oid then Inl (order_err ''GUEST_CLAIM_REFUSED'')
             else if or_buyerKind current \<noteq> GUEST_BUYER then Inl (order_err ''NOT_A_GUEST_ORDER'')
             else if or_claimedByAccountId current \<noteq> None then Inl (order_err ''GUEST_CLAIM_REFUSED'')
             else if find_account db accountId = None then Inl (order_err ''GUEST_CLAIM_REFUSED'')
             else update_order oid (\<lambda>r. r\<lparr>or_claimedByAccountId := Some accountId, or_claimedAt := Some at\<rparr>) db))"

section \<open>Proceeds obligations\<close>

text \<open>What holds a claim back from becoming payable, in the order it is asked.\<close>

definition payout_hold :: "'a market_tables_scheme \<Rightarrow> proceeds_obligation \<Rightarrow> string option" where
  "payout_hold db current =
     (let standing = readParticipantStanding db (pob_participantId current) in
      if psg_suspended standing then Some ''PARTICIPANT_SUSPENDED''
      else if Scope_payout_receive \<in> set (psg_activeScopes standing) then Some ''PARTICIPANT_PAYOUT_RESTRICTED''
      else if count_where (\<lambda>r. trv_snapshotId r = pob_snapshotId current) (reversals db) > 0 then Some ''SALE_REVERSED''
      else if count_where (\<lambda>d. dp_snapshotId d = Some (pob_snapshotId current) \<and>
                dp_status d \<in> set NON_TERMINAL_DISPUTE_STATUSES) (disputes db) > 0 then Some ''SALE_DISPUTED''
      else None)"

definition advance_obligation :: "obligation_state \<Rightarrow> instant \<Rightarrow> proceeds_obligation \<Rightarrow> proceeds_obligation" where
  "advance_obligation to at ob =
     (if to = ELIGIBLE then ob\<lparr>pob_state := to, pob_becameEligibleAt := Some at\<rparr>
      else ob\<lparr>pob_state := to, pob_paidAt := Some at\<rparr>)"

definition advanceProceedsObligation ::
  "ident \<Rightarrow> obligation_state \<Rightarrow> instant \<Rightarrow> 'a market_tables_scheme \<Rightarrow> ('a market_tables_scheme \<times> proceeds_obligation) res" where
  "advanceProceedsObligation i to at db = order_catch
     (case find_obligation db i of None \<Rightarrow> Inl (order_err ''PROCEEDS_OBLIGATION_NOT_FOUND'')
      | Some current \<Rightarrow>
          if \<not> isValidProceedsObligationTransition (pob_state current) to
          then Inl (order_err ''INVALID_PROCEEDS_OBLIGATION_TRANSITION'')
          else case (if to = ELIGIBLE then payout_hold db current else None) of
            Some reason \<Rightarrow> Inl (ProceedsPayoutHeldError reason)
          | None \<Rightarrow> chain (proceedsObligationRowToRecord (advance_obligation to at current)) (\<lambda>r.
              Inr (db\<lparr>obligations := update_where (\<lambda>x. pob_id x = i) (advance_obligation to at) (obligations db)\<rparr>, r)))"

section \<open>Reviews\<close>

definition purchase_eligibility :: "'a sale_tables_scheme \<Rightarrow> order_row \<Rightarrow> review_kind \<Rightarrow> review_eligibility" where
  "purchase_eligibility db ord kind =
     evaluatePurchaseReviewEligibility (or_lifecycle ord = Order_PAID)
       (find_purchase_evidence db (or_id ord) \<noteq> None) (find_review_authority db (or_id ord) kind \<noteq> None)"

definition evaluateReviewEligibility :: "'a sale_tables_scheme \<Rightarrow> ident \<Rightarrow> review_kind \<Rightarrow> review_eligibility res" where
  "evaluateReviewEligibility db oid kind = order_catch
     (case find_order db oid of None \<Rightarrow> Inl (order_err ''ORDER_NOT_FOUND'')
      | Some ord \<Rightarrow> Inr (purchase_eligibility db ord kind))"

definition review_authority_of :: "ident \<Rightarrow> ident \<Rightarrow> ident \<Rightarrow> review_kind \<Rightarrow> purchase_evidence \<Rightarrow> review_authority" where
  "review_authority_of i submissionId oid kind e =
     \<lparr>rva_id = i, rva_reviewSubmissionId = submissionId, rva_orderId = oid, rva_purchaseEvidenceId = pev_id e,
      rva_reviewKind = kind,
      rva_reviewSubjectRef = reviewSubjectRefFor kind (pev_internalProductId e) (pev_sellerParticipantId e),
      rva_submitter = pev_submitter e, rva_purchaseProvenance = pev_purchaseProvenance e,
      rva_submissionState = Submission_SUBMITTED, rva_status = Authority_ACTIVE\<rparr>"

definition insert_review_authority :: "review_authority \<Rightarrow> 'a sale_tables_scheme \<Rightarrow> 'a sale_tables_scheme res" where
  "insert_review_authority a db =
     (if list_ex (\<lambda>x. rva_id x = rva_id a \<or> rva_reviewSubmissionId x = rva_reviewSubmissionId a \<or>
           (rva_orderId x = rva_orderId a \<and> rva_reviewKind x = rva_reviewKind a)) (reviewAuthorities db)
      then Inl (UniqueViolation ''ReviewSubmissionAuthority'')
      else Inr (db\<lparr>reviewAuthorities := reviewAuthorities db @ [a]\<rparr>))"

definition authorizeReviewSubmission ::
  "ident \<Rightarrow> ident \<Rightarrow> ident \<Rightarrow> review_kind \<Rightarrow> 'a sale_tables_scheme \<Rightarrow> ('a sale_tables_scheme \<times> review_authority) res" where
  "authorizeReviewSubmission i submissionId oid kind db = order_catch
     (case find_order db oid of None \<Rightarrow> Inl (order_err ''ORDER_NOT_FOUND'')
      | Some ord \<Rightarrow>
          let eligibility = purchase_eligibility db ord kind in
          if \<not> rve_eligible eligibility then Inl (ReviewNotEligibleError (rve_blockers eligibility))
          else case find_purchase_evidence db oid of
            None \<Rightarrow> Inl (order_err ''ORDER_NOT_COMPLETED'')
          | Some e \<Rightarrow>
              let a = review_authority_of i submissionId oid kind e in
              chain (insert_review_authority a db) (\<lambda>db'. chain (reviewAuthorityRowToRecord a) (\<lambda>r. Inr (db', r))))"

section \<open>A provider's confirmation\<close>

datatype confirmation = Payment_reported payment_result | Payment_abandoned

datatype confirmation_disposition = SALE_RECORDED | FAILURE_RECORDED | ORDER_EXPIRED | ALREADY_RECORDED

definition finalizeConfirmedPayment ::
  "ident \<Rightarrow> confirmation \<Rightarrow> instant \<Rightarrow> sale_ids \<Rightarrow> 'a sale_tables_scheme \<Rightarrow>
   ('a sale_tables_scheme \<times> confirmation_disposition \<times> order_row \<times> completed_sale option) res" where
  "finalizeConfirmedPayment oid c at ids db =
     chain (getOrder db oid) (\<lambda>existing.
       case c of
         Payment_abandoned \<Rightarrow>
           if or_lifecycle existing \<noteq> PENDING_PAYMENT then Inr (db, ALREADY_RECORDED, existing, None)
           else chain (cancelOrder oid at db) (\<lambda>(db', r). Inr (db', ORDER_EXPIRED, r, None))
       | Payment_reported answer \<Rightarrow>
           if or_lifecycle existing = PAYMENT_FAILED \<and> (case answer of Payment_FAILED _ \<Rightarrow> True | _ \<Rightarrow> False)
           then Inr (db, ALREADY_RECORDED, existing, None)
           else chain (recordPaymentResult oid answer at ids db) (\<lambda>(db', r, sale).
             Inr (db', if or_lifecycle existing = Order_PAID then ALREADY_RECORDED
                       else if sale = None then FAILURE_RECORDED else SALE_RECORDED, r, sale)))"

end
