(* ===== verification/Order_Facts.thy ===== *)
theory Order_Facts
  imports Order_Service Notice_Facts
begin

text \<open>
  What each operation on an Order writes, stated once: a completed sale appends one snapshot, one
  settlement, its obligations, the purchase evidence, at most one tax obligation and notices, and
  rewrites the Order's row; the other operations rewrite one row of one table.
\<close>

section \<open>Order rows\<close>

lemma update_order_Inr:
  "update_order oid f db = Inr (db', r) \<longleftrightarrow>
     (\<exists>row. find_order db oid = Some row \<and> OrderRecord (f row) \<and> r = f row \<and>
            db' = db\<lparr>orders := update_where (\<lambda>x. or_id x = oid) f (orders db)\<rparr>)"
  by (auto simp: update_order_def chain_Inr_iff split: option.split)

lemma getOrder_Inr [simp]:
  "getOrder db oid = Inr r \<longleftrightarrow> find_order db oid = Some r \<and> OrderRecord r"
  by (auto simp: getOrder_def split: option.split)

lemma find_order_set: "find_order db oid = Some r \<Longrightarrow> r \<in> set (orders db) \<and> or_id r = oid"
  by (auto simp: find_order_def dest: find_Some_set)

lemma find_order_updated:
  assumes "\<And>x. or_id (f x) = or_id x"
  shows "find_order (db\<lparr>orders := update_where (\<lambda>x. or_id x = oid) f (orders db)\<rparr>) k =
    (if k = oid then map_option f (find_order db oid) else find_order db k)"
  by (simp add: find_order_def find_update_where_key[where key = or_id, OF assms])

lemma marked_ids [simp]:
  "or_id (mark_paid at r) = or_id r" "or_id (mark_payment_failed code at r) = or_id r"
  "or_id (mark_cancelled at r) = or_id r"
  by (simp_all add: mark_paid_def mark_payment_failed_def mark_cancelled_def)

lemma marked_lifecycles [simp]:
  "or_lifecycle (mark_paid at r) = Order_PAID" "or_lifecycle (mark_payment_failed code at r) = PAYMENT_FAILED"
  "or_lifecycle (mark_cancelled at r) = CANCELLED"
  by (simp_all add: mark_paid_def mark_payment_failed_def mark_cancelled_def)

lemma marked_records [simp]:
  "OrderRecord (mark_paid at r) = OrderRecord r" "OrderRecord (mark_payment_failed code at r) = OrderRecord r"
  "OrderRecord (mark_cancelled at r) = OrderRecord r"
  by (simp_all add: OrderRecord_def mark_paid_def mark_payment_failed_def mark_cancelled_def)

lemma valid_order_moves [simp]:
  "isValidOrderLifecycleTransition s Order_PAID \<longleftrightarrow> s = PENDING_PAYMENT"
  "isValidOrderLifecycleTransition s PAYMENT_FAILED \<longleftrightarrow> s = PENDING_PAYMENT"
  "isValidOrderLifecycleTransition s CANCELLED \<longleftrightarrow> s = PENDING_PAYMENT \<or> s = PAYMENT_FAILED"
  by (cases s; simp add: isValidOrderLifecycleTransition_def)+

section \<open>The writes of a sale\<close>

lemma requireQuoteMatchesSnapshot_Inr [simp]:
  "requireQuoteMatchesSnapshot ord s = Inr u \<longleftrightarrow>
     snap_commercialRetail s = oq_commercialRetail (or_quote ord) \<and> snap_currency s = oq_currency (or_quote ord) \<and>
     pt_tax (snap_passThrough s) = oq_tax (or_quote ord) \<and>
     pt_shipping (snap_passThrough s) = oq_shipping (or_quote ord) \<and>
     pt_other (snap_passThrough s) = oq_other (or_quote ord)"
  by (auto simp: requireQuoteMatchesSnapshot_def Let_def)

lemma bind_snapshot_Inr:
  "bind_snapshot sid oid db = Inr db' \<longleftrightarrow>
     (\<forall>s\<in>set (snapshots db). sr_orderId s = Some oid \<longrightarrow> sr_id s = sid) \<and>
     db' = db\<lparr>snapshots := update_where (\<lambda>s. sr_id s = sid) (\<lambda>s. s\<lparr>sr_orderId := Some oid\<rparr>) (snapshots db)\<rparr>"
  by (auto simp: bind_snapshot_def list_ex_iff)

definition paid_settlement :: "string \<Rightarrow> string \<Rightarrow> instant \<Rightarrow> settlement_row \<Rightarrow> settlement_row" where
  "paid_settlement provider ref at s =
     s\<lparr>st_provider := Some provider, st_providerTransactionRef := Some ref, st_providerReferenceRecordedAt := Some at\<rparr>"

lemma attach_payment_Inr:
  "attach_payment sid provider ref at db = Inr db' \<longleftrightarrow>
     (\<forall>s\<in>set (settlements db). provider_key s = Some (provider, ref) \<longrightarrow> st_snapshotId s = sid) \<and>
     db' = db\<lparr>settlements := update_where (\<lambda>s. st_snapshotId s = sid) (paid_settlement provider ref at) (settlements db)\<rparr>"
  by (auto simp: attach_payment_def list_ex_iff paid_settlement_def[abs_def])

text \<open>The obligations of a sale: one per claim, each owed to the claim's own party.\<close>

definition sale_obligation :: "order_row \<Rightarrow> snapshot_record \<Rightarrow> proceeds_obligation \<Rightarrow> bool" where
  "sale_obligation ord s ob = (pob_snapshotId ob = snap_snapshotId s \<and>
     claim_participant ord (pob_party ob) = Some (pob_participantId ob) \<and> pob_currency ob = snap_currency s \<and>
     pob_state ob = Obligation_PENDING \<and> pob_accruedAt ob = or_placedAt ord \<and>
     pob_becameEligibleAt ob = None \<and> pob_paidAt ob = None \<and> ProceedsObligationRecord ob)"

lemma create_obligations_rows:
  assumes "create_obligations ids n ord s claims db = Inr (db', obs)"
  shows "db' = db\<lparr>obligations := obligations db @ obs\<rparr>"
    and "map (\<lambda>ob. (pob_party ob, pob_amount ob)) obs = claims" and "list_all (sale_obligation ord s) obs"
proof -
  have "db' = db\<lparr>obligations := obligations db @ obs\<rparr> \<and> map (\<lambda>ob. (pob_party ob, pob_amount ob)) obs = claims \<and>
    list_all (sale_obligation ord s) obs"
    using assms
  proof (induction claims arbitrary: n db obs)
    case (Cons c claims)
    obtain party amt where c: "c = (party, amt)" by (cases c)
    from Cons.prems obtain p where p: "claim_participant ord party = Some p"
      by (auto simp: c split: option.split_asm)
    let ?ob = "obligation_of (ids n) ord s p party amt"
    from Cons.prems p obtain db1 rs where ins: "insert_obligation ?ob db = Inr db1" and valid: "ProceedsObligationRecord ?ob"
      and rest: "create_obligations ids (n + 1) ord s claims db1 = Inr (db', rs)" and obs: "obs = ?ob # rs"
      by (auto simp: c Let_def chain_Inr_iff)
    have "db1 = db\<lparr>obligations := obligations db @ [?ob]\<rparr>" using ins by (simp add: insert_obligation_def split: if_splits)
    with Cons.IH[OF rest] obs p valid show ?case by (simp add: c obligation_of_def sale_obligation_def)
  qed simp
  then show "db' = db\<lparr>obligations := obligations db @ obs\<rparr>"
    and "map (\<lambda>ob. (pob_party ob, pob_amount ob)) obs = claims" and "list_all (sale_obligation ord s) obs" by simp_all
qed

text \<open>What a sale reports to the tax provider: nothing when its evidence cannot be reported.\<close>

definition sale_tax ::
  "ident \<Rightarrow> order_row \<Rightarrow> order_row \<Rightarrow> instant \<Rightarrow> 'a sale_tables_scheme \<Rightarrow> tax_transaction_row list" where
  "sale_tax tid row ord at db =
     (case find_tax_evidence db (or_id ord) of None \<Rightarrow> []
      | Some e \<Rightarrow> (case reportable_tax e of None \<Rightarrow> []
          | Some facts \<Rightarrow> [tax_transaction_of tid e facts (or_id ord) (or_internalProductId row)
              (oq_commercialRetail (or_quote ord) + oq_shipping (or_quote ord)) at]))"

lemma commitTaxTransactionObligationInTx_rows:
  assumes "commitTaxTransactionObligationInTx tid (or_id ord)
      (oq_commercialRetail (or_quote ord) + oq_shipping (or_quote ord)) at db = Inr (db', t)"
    and "find_order db (or_id ord) = Some row"
  shows "db' = db\<lparr>taxTransactions := taxTransactions db @ sale_tax tid row ord at db\<rparr>"
    and "list_all OrderTaxTransactionRecord (sale_tax tid row ord at db)"
  using assms
  by (auto simp: commitTaxTransactionObligationInTx_def sale_tax_def chain_Inr_iff Let_def insert_tax_transaction_def
      split: option.split_asm if_splits)

lemma insert_purchase_evidence_Inr:
  "insert_purchase_evidence e db = Inr db' \<longleftrightarrow>
     (\<forall>x\<in>set (purchaseEvidences db). pev_id x \<noteq> pev_id e \<and> pev_orderId x \<noteq> pev_orderId e) \<and>
     db' = db\<lparr>purchaseEvidences := purchaseEvidences db @ [e]\<rparr>"
  by (auto simp: insert_purchase_evidence_def list_ex_iff)

lemma order_notice_blind: "id_blind (\<lambda>i p. order_notice i p category kind oid at)"
  by (simp add: id_blind_def key_components_def order_notice_def)

lemma raised_blind:
  assumes "raised (mk i x) db r" and "id_blind mk"
  shows "raised (mk j x) db r"
  using assms unfolding raised_def id_blind_def notificationObligationKey_def by (metis (no_types, lifting))

text \<open>Everything a sale writes, in one state.\<close>

definition sale_effect ::
  "ident \<Rightarrow> snapshot_row \<Rightarrow> settlement_row \<Rightarrow> proceeds_obligation list \<Rightarrow> tax_transaction_row list \<Rightarrow> purchase_evidence \<Rightarrow>
   notice_row list \<Rightarrow> instant \<Rightarrow> 'a sale_tables_scheme \<Rightarrow> 'a sale_tables_scheme" where
  "sale_effect oid s st obs ts e ns at db =
     db\<lparr>snapshots := snapshots db @ [s], settlements := settlements db @ [st],
        obligations := obligations db @ obs, taxTransactions := taxTransactions db @ ts,
        purchaseEvidences := purchaseEvidences db @ [e], notices := notices db @ ns,
        orders := update_where (\<lambda>x. or_id x = oid) (mark_paid at) (orders db)\<rparr>"

lemma update_where_appended:
  assumes "\<And>y. y \<in> set xs \<Longrightarrow> \<not> P y"
  shows "update_where P f (xs @ [x]) = xs @ [if P x then f x else x]"
  using assms by (simp add: update_where_def map_idI)

definition sale_snapshot_row :: "order_row \<Rightarrow> order_row \<Rightarrow> instant \<Rightarrow> ident \<Rightarrow> ident \<Rightarrow> transaction_economics \<Rightarrow> snapshot_row" where
  "sale_snapshot_row ord row at sid lsr e =
     (snapshot_row_of (sale_snapshot_input ord (or_promotedBinding row) at) sid lsr
        (oq_commercialRetail (or_quote ord)) e)\<lparr>sr_orderId := Some (or_id ord)\<rparr>"

lemma recordCompletedSale_writes:
  assumes "recordCompletedSale ord provider ref at ids db = Inr (db', sale)"
  obtains row lv policy e rec obs ns rs where
    "or_lifecycle ord = PENDING_PAYMENT" and "find_order db (or_id ord) = Some row"
    and "readExactListingVersion db (or_internalListingId ord) (or_listingSourceRecordVersion ord) = Inr lv"
    and "readExactPolicy db (or_policyId ord) (or_policyVersion ord) = Inr policy"
    and "computeEconomics db lv policy (oq_currency (or_quote ord)) (or_placedAt ord) (or_promotedBinding row) =
           Inr (oq_commercialRetail (or_quote ord), e)"
    and "reconcileTransactionEconomics (oq_commercialRetail (or_quote ord)) e = Inr ()"
    and "sid_snapshot ids \<notin> sr_id ` set (snapshots db)" and "sid_snapshot ids \<notin> st_snapshotId ` set (settlements db)"
    and "\<forall>s\<in>set (snapshots db). sr_orderId s \<noteq> Some (or_id ord)"
    and "\<forall>s\<in>set (settlements db). provider_key s \<noteq> Some (provider, ref)"
    and "\<forall>x\<in>set (purchaseEvidences db). pev_orderId x \<noteq> or_id ord"
    and "map (\<lambda>ob. (pob_party ob, pob_amount ob)) obs = deriveProceedsClaims e"
    and "list_all (sale_obligation ord rec) obs" and "snap_snapshotId rec = sid_snapshot ids"
    and "snap_currency rec = oq_currency (or_quote ord)"
    and "db' = sale_effect (or_id ord) (sale_snapshot_row ord row at (sid_snapshot ids) (lv_listingSourceRecordId lv) e)
           (paid_settlement provider ref at (new_settlement (sid_snapshot ids))) obs
           (sale_tax (sid_taxTransaction ids) row ord at db) (purchase_evidence_of (sid_evidence ids) ord at) ns at db"
    and "list_all2 (\<lambda>p n. \<forall>i. raised (order_notice i p ''SALE_RECORDED'' ''ORDER'' (or_id ord) at) db' n) (sale_recipients ord) rs"
    and "sale = \<lparr>cs_order = mark_paid at row, cs_snapshotId = sid_snapshot ids, cs_obligations = obs,
           cs_evidence = purchase_evidence_of (sid_evidence ids) ord at\<rparr>"
    and "OrderRecord (mark_paid at row)"
proof -
  let ?sid = "sid_snapshot ids" and ?oid = "or_id ord" and ?q = "or_quote ord"
  let ?e = "purchase_evidence_of (sid_evidence ids) ord at"
  let ?mk = "\<lambda>i p. order_notice i p ''SALE_RECORDED'' ''ORDER'' ?oid at"
  have pending: "or_lifecycle ord = PENDING_PAYMENT" and tx: "completed_sale_tx ord provider ref at ids db = Inr (db', sale)"
    using assms by (auto simp: recordCompletedSale_def split: if_splits)
  from tx obtain row where row: "find_order db ?oid = Some row"
    by (auto simp: completed_sale_tx_def split: option.split_asm)
  let ?i = "sale_snapshot_input ord (or_promotedBinding row) at"
  from tx row obtain db1 rec db2 db3 db4 obs db5 t db6 db7 rs r where
    one: "recordTransactionEconomicSnapshotInTx ?sid ?i db = Inr (db1, rec)"
    and quote: "requireQuoteMatchesSnapshot ord rec = Inr ()"
    and bound: "bind_snapshot (snap_snapshotId rec) ?oid db1 = Inr db2"
    and paid: "attach_payment (snap_snapshotId rec) provider ref at db2 = Inr db3"
    and owed: "create_obligations (sid_obligation ids) 0 ord rec (deriveProceedsClaims (snap_economics rec)) db3 = Inr (db4, obs)"
    and taxed: "commitTaxTransactionObligationInTx (sid_taxTransaction ids) ?oid (oq_commercialRetail ?q + oq_shipping ?q) at db4 =
        Inr (db5, t)"
    and evid: "insert_purchase_evidence ?e db5 = Inr db6"
    and told: "upsert_notices (sid_notice ids) 0 ?mk (sale_recipients ord) db6 = Inr (db7, rs)"
    and written: "update_order ?oid (mark_paid at) db7 = Inr (db', r)"
    and sale: "sale = \<lparr>cs_order = r, cs_snapshotId = snap_snapshotId rec, cs_obligations = obs, cs_evidence = ?e\<rparr>"
    unfolding completed_sale_tx_def Let_def by (auto simp: chain_Inr_iff split_def)
  from recordTransactionEconomicSnapshotInTx_row[OF one] obtain lv policy retail e where
    lv: "readExactListingVersion db (or_internalListingId ord) (or_listingSourceRecordVersion ord) = Inr lv"
    and policy: "readExactPolicy db (or_policyId ord) (or_policyVersion ord) = Inr policy"
    and comp: "computeEconomics db lv policy (oq_currency ?q) (or_placedAt ord) (or_promotedBinding row) = Inr (retail, e)"
    and recon: "reconcileTransactionEconomics retail e = Inr ()"
    and fresh: "?sid \<notin> sr_id ` set (snapshots db)" "?sid \<notin> st_snapshotId ` set (settlements db)"
    and db1: "db1 = db\<lparr>snapshots := snapshots db @ [snapshot_row_of ?i ?sid (lv_listingSourceRecordId lv) retail e],
              settlements := settlements db @ [new_settlement ?sid]\<rparr>"
    and rec: "snapshotRowToRecord (snapshot_row_of ?i ?sid (lv_listingSourceRecordId lv) retail e) = Inr rec"
    by (auto simp: sale_snapshot_input_def)
  note fields = snapshot_row_of_record[OF rec reconcile_ok_sum(3)[OF recon]]
  have retail: "retail = oq_commercialRetail ?q" using fields(6) quote by simp
  let ?row = "snapshot_row_of ?i ?sid (lv_listingSourceRecordId lv) retail e"
  have ids1: "sr_id ?row = ?sid" "sr_orderId ?row = None" "st_snapshotId (new_settlement ?sid) = ?sid"
    "provider_key (new_settlement ?sid) = None"
    by (simp_all add: snapshot_row_of_def new_settlement_def provider_key_def)
  have not_sid: "x \<in> set (snapshots db) \<Longrightarrow> sr_id x \<noteq> ?sid" "y \<in> set (settlements db) \<Longrightarrow> st_snapshotId y \<noteq> ?sid" for x y
    using fresh by (metis imageI)+
  have free: "\<forall>s\<in>set (snapshots db). sr_orderId s \<noteq> Some ?oid"
    and db2: "db2 = db\<lparr>snapshots := snapshots db @ [?row\<lparr>sr_orderId := Some ?oid\<rparr>],
              settlements := settlements db @ [new_settlement ?sid]\<rparr>"
    using bound not_sid(1) ids1 by (auto simp: bind_snapshot_Inr fields(1) db1 update_where_appended)
  let ?st = "paid_settlement provider ref at (new_settlement ?sid)"
  have unpaid: "\<forall>s\<in>set (settlements db). provider_key s \<noteq> Some (provider, ref)"
    and db3: "db3 = db\<lparr>snapshots := snapshots db @ [?row\<lparr>sr_orderId := Some ?oid\<rparr>], settlements := settlements db @ [?st]\<rparr>"
    using paid not_sid(2) ids1 by (auto simp: attach_payment_Inr fields(1) db2 update_where_appended)
  note obs = create_obligations_rows[OF owed]
  have row4: "find_order db4 ?oid = Some row" using row by (simp add: obs(1) db3 find_order_def)
  note tax = commitTaxTransactionObligationInTx_rows[OF taxed row4]
  have same_tax: "sale_tax (sid_taxTransaction ids) row ord at db4 = sale_tax (sid_taxTransaction ids) row ord at db"
    by (simp add: sale_tax_def find_tax_evidence_def obs(1) db3)
  have db5: "db5 = db4\<lparr>taxTransactions := taxTransactions db4 @ sale_tax (sid_taxTransaction ids) row ord at db\<rparr>"
    using tax(1) same_tax by simp
  have noev: "\<forall>x\<in>set (purchaseEvidences db). pev_orderId x \<noteq> ?oid"
    and db6: "db6 = db5\<lparr>purchaseEvidences := purchaseEvidences db5 @ [?e]\<rparr>"
    using evid by (auto simp: insert_purchase_evidence_Inr db5 obs(1) db3 purchase_evidence_of_def)
  from upsert_notices_raise[OF told order_notice_blind] obtain ns where
    db7: "db7 = db6\<lparr>notices := notices db6 @ ns\<rparr>" and raised7: "list_all2 (\<lambda>p n. \<forall>i. raised (?mk i p) db7 n) (sale_recipients ord) rs"
    by (auto simp: only_notices_def)
  from written obtain row' where row': "find_order db7 ?oid = Some row'" and ok: "OrderRecord (mark_paid at row')" and r: "r = mark_paid at row'"
    and db': "db' = db7\<lparr>orders := update_where (\<lambda>x. or_id x = ?oid) (mark_paid at) (orders db7)\<rparr>"
    by (auto simp: update_order_Inr)
  have "row' = row" using row' row by (simp add: db7 db6 db5 obs(1) db3 find_order_def)
  with ok r have ok: "OrderRecord (mark_paid at row)" and r: "r = mark_paid at row" by simp_all
  have final: "db' = sale_effect ?oid (sale_snapshot_row ord row at ?sid (lv_listingSourceRecordId lv) e) ?st obs
      (sale_tax (sid_taxTransaction ids) row ord at db) ?e ns at db"
    unfolding sale_effect_def db' db7 db6 db5 obs(1) db3 by (simp add: sale_snapshot_row_def retail)
  have raised8: "list_all2 (\<lambda>p n. \<forall>i. raised (?mk i p) db' n) (sale_recipients ord) rs"
    using raised7 by (simp add: raised_def find_notice_key_def db')
  show thesis
    by (rule that[OF pending row lv policy comp[unfolded retail] recon[unfolded retail] fresh free unpaid noev
          obs(2)[unfolded fields(8)] obs(3) fields(1) _ final raised8 _ ok])
       (use quote sale r fields(1) in auto)
qed

section \<open>The other operations\<close>

lemma answered_sale:
  "recordPaymentResult oid (Payment_SUCCEEDED provider ref) at ids db = Inr (db', ord', out) \<Longrightarrow> \<exists>sale. out = Some sale"
  by (auto simp: recordPaymentResult_def chain_Inr_iff split: if_splits)

lemma recordPaymentFailure_writes:
  assumes "recordPaymentFailure ord code at ids db = Inr (db', r)"
  obtains row ns where "or_lifecycle ord = PENDING_PAYMENT" and "find_order db (or_id ord) = Some row"
    and "r = mark_payment_failed code at row" and "OrderRecord r"
    and "db' = db\<lparr>orders := update_where (\<lambda>x. or_id x = or_id ord) (mark_payment_failed code at) (orders db),
           notices := notices db @ ns\<rparr>"
    and "\<forall>p. buyer_recipient ord = Some p \<longrightarrow>
           (\<exists>n. \<forall>i. raised (order_notice i p ''PAYMENT_FAILED'' ''PAYMENT'' (or_id ord) at) db' n)"
    and "buyer_recipient ord = None \<Longrightarrow> ns = []"
proof -
  let ?oid = "or_id ord"
  have pending: "or_lifecycle ord = PENDING_PAYMENT" using assms by (auto simp: recordPaymentFailure_def split: if_splits)
  from assms obtain db1 where up: "update_order ?oid (mark_payment_failed code at) db = Inr (db1, r)"
    and told: "case buyer_recipient ord of None \<Rightarrow> db' = db1
       | Some p \<Rightarrow> \<exists>n. upsertObligationInTx (order_notice (sid_notice ids 0) p ''PAYMENT_FAILED'' ''PAYMENT'' ?oid at) db1 = Inr (db', n)"
    by (cases "buyer_recipient ord") (auto simp: recordPaymentFailure_def chain_Inr_iff split: if_splits)
  from up obtain row where row: "find_order db ?oid = Some row" "OrderRecord (mark_payment_failed code at row)"
    "r = mark_payment_failed code at row"
    and db1: "db1 = db\<lparr>orders := update_where (\<lambda>x. or_id x = ?oid) (mark_payment_failed code at) (orders db)\<rparr>"
    by (auto simp: update_order_Inr)
  show thesis
  proof (cases "buyer_recipient ord")
    case None
    then show thesis using told row db1 pending by (intro that[of row "[]"]) auto
  next
    case (Some p)
    then obtain n where u: "upsertObligationInTx (order_notice (sid_notice ids 0) p ''PAYMENT_FAILED'' ''PAYMENT'' ?oid at) db1 = Inr (db', n)"
      using told by auto
    from upsert_raises[OF u] obtain ns where db': "db' = db1\<lparr>notices := notices db1 @ ns\<rparr>"
      and ra: "raised (order_notice (sid_notice ids 0) p ''PAYMENT_FAILED'' ''PAYMENT'' ?oid at) db' n"
      by (auto simp: only_notices_def)
    have "raised (order_notice i p ''PAYMENT_FAILED'' ''PAYMENT'' ?oid at) db' n" for i
      using raised_blind[where mk = "\<lambda>i p. order_notice i p ''PAYMENT_FAILED'' ''PAYMENT'' ?oid at", OF ra order_notice_blind] .
    then show thesis using Some row db1 db' pending by (intro that[of row ns]) auto
  qed
qed

lemma cancelOrder_writes:
  assumes "cancelOrder oid at db = Inr (db', r)"
  obtains row where "find_order db oid = Some row" and "or_lifecycle row \<in> {PENDING_PAYMENT, PAYMENT_FAILED}"
    and "r = mark_cancelled at row" and "OrderRecord r"
    and "db' = db\<lparr>orders := update_where (\<lambda>x. or_id x = oid) (mark_cancelled at) (orders db)\<rparr>"
  using assms that by (auto simp: cancelOrder_def update_order_Inr split: option.split_asm if_splits)

end
