(* ===== verification/Checkout.thy ===== *)
theory Checkout
  imports Order_Facts
begin

text \<open>
  Pricing and placing an Order: \<open>prepareCheckout\<close> of \<open>src/server/marketplace/checkout-service.ts\<close> and
  \<open>placeOrder\<close> of \<open>src/server/marketplace/order-service.ts\<close>.  The Listing's buyer eligibility, the gate
  on package-based promoted commerce, the seller an Offer version names and the storefront a Listing
  version sits in are read from records the development does not model; they are the arguments of
  \<open>checkout_reads\<close>, and every statement holds whatever they answer.
\<close>

section \<open>Preparing a checkout\<close>

record checkout_input =
  coi_internalListingId :: ident
  coi_buyerAccountId :: "ident option"
  coi_tax :: amount
  coi_shipping :: amount
  coi_other :: amount
  coi_currency :: currency
  coi_productAvailable :: bool
  coi_placedAt :: instant

definition PlaceOrderInput :: "checkout_input \<Rightarrow> bool" where
  "PlaceOrderInput v = (Amount (coi_tax v) \<and> Amount (coi_shipping v) \<and> Amount (coi_other v) \<and> CurrencyCode (coi_currency v))"

record promoted_commerce =
  pco_eligible :: bool
  pco_bound :: "promoted_sale_binding option"
  pco_sellerParticipantId :: "ident option"
  pco_promoterParticipantId :: "ident option"
  pco_listingSourceRecordVersion :: string

record checkout_reads =
  cor_requirePurchasable :: "listing_version \<Rightarrow> bool \<Rightarrow> instant \<Rightarrow> unit res"
  cor_promotedCommerce :: "listing_version \<Rightarrow> acquisition_policy \<Rightarrow> instant \<Rightarrow> promoted_commerce res"
  cor_offerSeller :: "offer_version \<Rightarrow> ident"
  cor_storefrontId :: "listing_version \<Rightarrow> ident"

record prepared_checkout =
  pch_listingSourceRecordId :: ident
  pch_listingSourceRecordVersion :: string
  pch_policyId :: ident
  pch_policyVersion :: string
  pch_storefrontId :: ident
  pch_internalProductId :: ident
  pch_transactionType :: transaction_type
  pch_sellerParticipantId :: ident
  pch_promoterParticipantId :: "ident option"
  pch_promotedBinding :: "promoted_sale_binding option"
  pch_quote :: order_quote
  pch_buyerTotal :: amount

definition readCurrentListingVersion ::
  "'a accounting_tables_scheme \<Rightarrow> ident \<Rightarrow> (listing_version \<times> ident \<times> string) res" where
  "readCurrentListingVersion db lid =
     (case List.find (\<lambda>l. lr_internalListingId l = lid) (listings db) of
        None \<Rightarrow> Inl (order_err ''LISTING_NOT_FOUND'')
      | Some l \<Rightarrow>
          (case List.find (\<lambda>v. lv_listingSourceRecordId v = lr_listingSourceRecordId l \<and>
                               lv_sourceRecordVersion v = lr_currentSourceRecordVersion l) (listingVersions db) of
             None \<Rightarrow> Inl (order_err ''LISTING_NOT_FOUND'')
           | Some v \<Rightarrow> Inr (v, lr_listingSourceRecordId l, lr_currentSourceRecordVersion l)))"

fun as_order_refusal :: "'b res \<Rightarrow> 'b res" where
  "as_order_refusal (Inl (CommercialPolicyError c)) =
     Inl (if c = ''NoActiveCommercialPolicyError'' \<or> c = ''CommercialPolicyNotFoundError''
          then order_err ''NO_EFFECTIVE_COMMERCIAL_POLICY'' else CommercialPolicyError c)"
| "as_order_refusal r = r"

definition resolveEffectivePolicy ::
  "'a policy_tables_scheme \<Rightarrow> ident \<Rightarrow> (ident \<times> string \<times> acquisition_policy) res" where
  "resolveEffectivePolicy db pid = as_order_refusal
     (chain (getEffectiveCommercialPolicyVersion db pid) (\<lambda>v.
      chain (toWholesaleAcquisitionPolicy v) (\<lambda>p. Inr (pv_policyId v, pv_policyVersion v, p))))"

definition resolveSaleCounterparties ::
  "(offer_version \<Rightarrow> ident) \<Rightarrow> 'a accounting_tables_scheme \<Rightarrow> listing_version \<Rightarrow> (ident \<times> ident option) res" where
  "resolveSaleCounterparties offerSeller db lv =
     (case lv_placement lv of
        SellerDirectPlacement _ \<Rightarrow> Inr (lv_controllingParticipantId lv, None)
      | PromotedPlacement _ d _ \<Rightarrow>
          (case List.find (\<lambda>v. ov_offerSourceRecordId v = aod_offerSourceRecordId d \<and>
                               ov_sourceRecordVersion v = aod_acceptedVersion d) (offerVersions db) of
             None \<Rightarrow> Inl (order_err ''SELLER_NOT_RESOLVABLE'')
           | Some offer \<Rightarrow> Inr (offerSeller offer, Some (lv_controllingParticipantId lv)))
      | PackagePromotedPlacement _ \<Rightarrow> Inl (order_err ''SELLER_NOT_RESOLVABLE''))"

text \<open>The parties and the authority of the sale.\<close>

definition checkout_parties ::
  "checkout_reads \<Rightarrow> 'a accounting_tables_scheme \<Rightarrow> listing_version \<Rightarrow> string \<Rightarrow> acquisition_policy \<Rightarrow> instant \<Rightarrow>
   (ident \<times> ident option \<times> promoted_sale_binding option) res" where
  "checkout_parties w db lv version policy at =
     (if isPackagePromotedPlacement (lv_placement lv) then
        chain (cor_promotedCommerce w lv policy at) (\<lambda>commerce.
          case (pco_bound commerce, pco_sellerParticipantId commerce) of
            (Some b, Some seller) \<Rightarrow>
              if \<not> pco_eligible commerce then Inl (order_err ''LISTING_NOT_PURCHASABLE'')
              else if pco_listingSourceRecordVersion commerce \<noteq> version then Inl (order_err ''LISTING_NOT_PURCHASABLE'')
              else Inr (seller, pco_promoterParticipantId commerce, Some b)
          | _ \<Rightarrow> Inl (order_err ''LISTING_NOT_PURCHASABLE''))
      else chain (resolveSaleCounterparties (cor_offerSeller w) db lv) (\<lambda>(seller, promoter). Inr (seller, promoter, None)))"

definition quoted_retail :: "listing_placement \<Rightarrow> retail_price \<Rightarrow> instant \<Rightarrow> amount res" where
  "quoted_retail pl retail at =
     (case pl of SellerDirectPlacement p \<Rightarrow> chain (effectiveSellerRetailPrice p at) (\<lambda>eff. Inr (ep_effectivePriceMinorUnits eff))
      | _ \<Rightarrow> Inr (rp_minorUnits retail))"

fun checkout_type :: "listing_placement \<Rightarrow> transaction_type" where
  "checkout_type (SellerDirectPlacement _) = Type_SELLER_DIRECT"
| "checkout_type _ = Type_PROMOTED"

definition checkout_catch :: "'b res \<Rightarrow> 'b res" where
  "checkout_catch r = rethrow_own (\<lambda>e. e \<in> order_err ` {''INVALID_ORDER_INPUT'', ''LISTING_NOT_FOUND'', ''LISTING_NOT_PURCHASABLE'',
     ''ORDER_CURRENCY_MISMATCH'', ''NO_EFFECTIVE_COMMERCIAL_POLICY'', ''SELLER_NOT_RESOLVABLE''})
     (order_err ''ORDER_PERSISTENCE_FAILURE'') r"

definition prepareCheckout ::
  "checkout_reads \<Rightarrow> checkout_input \<Rightarrow> ident \<Rightarrow> 'a accounting_tables_scheme \<Rightarrow> prepared_checkout res" where
  "prepareCheckout w v policyId db =
     (if \<not> PlaceOrderInput v then Inl (order_err ''INVALID_ORDER_INPUT'')
      else checkout_catch
        (chain (readCurrentListingVersion db (coi_internalListingId v)) (\<lambda>(lv, lsr, version).
         chain (cor_requirePurchasable w lv (coi_productAvailable v) (coi_placedAt v)) (\<lambda>_.
           case placement_retail (lv_placement lv) of
             None \<Rightarrow> Inl (order_err ''LISTING_NOT_PURCHASABLE'')
           | Some retail \<Rightarrow>
               if rp_currency retail \<noteq> coi_currency v then Inl (order_err ''ORDER_CURRENCY_MISMATCH'')
               else
                 chain (resolveEffectivePolicy db policyId) (\<lambda>(boundPolicyId, policyVersion, policy).
                   if wap_currency policy \<noteq> coi_currency v then Inl (order_err ''ORDER_CURRENCY_MISMATCH'')
                   else
                     chain (quoted_retail (lv_placement lv) retail (coi_placedAt v)) (\<lambda>quoted.
                     chain (checkout_parties w db lv version policy (coi_placedAt v)) (\<lambda>(seller, promoter, binding).
                       let quote = \<lparr>oq_currency = coi_currency v, oq_commercialRetail = quoted, oq_tax = coi_tax v,
                                    oq_shipping = coi_shipping v, oq_other = coi_other v\<rparr>
                       in Inr \<lparr>pch_listingSourceRecordId = lsr, pch_listingSourceRecordVersion = version,
                               pch_policyId = boundPolicyId, pch_policyVersion = policyVersion,
                               pch_storefrontId = cor_storefrontId w lv, pch_internalProductId = lv_internalProductId lv,
                               pch_transactionType = checkout_type (lv_placement lv), pch_sellerParticipantId = seller,
                               pch_promoterParticipantId = promoter, pch_promotedBinding = binding, pch_quote = quote,
                               pch_buyerTotal = quotedBuyerTotalMinorUnits quote\<rparr>)))))))"

section \<open>Placing an Order\<close>

record placed_order =
  plo_order :: order_row
  plo_guestClaimCode :: "string option"
  plo_buyerTotal :: amount

definition new_order ::
  "ident \<Rightarrow> checkout_input \<Rightarrow> prepared_checkout \<Rightarrow> buyer_kind \<Rightarrow> ident option \<Rightarrow> ident option \<Rightarrow> string option \<Rightarrow> order_row" where
  "new_order i v p kind accountId participantId digest =
     \<lparr>or_id = i, or_buyerKind = kind, or_buyerAccountId = accountId, or_buyerParticipantId = participantId,
      or_guestClaimCodeDigest = digest, or_claimedByAccountId = None, or_claimedAt = None,
      or_internalListingId = coi_internalListingId v, or_listingSourceRecordId = pch_listingSourceRecordId p,
      or_listingSourceRecordVersion = pch_listingSourceRecordVersion p, or_policyId = pch_policyId p,
      or_policyVersion = pch_policyVersion p, or_marketplacePolicy = None, or_sellerRefundPolicyId = None,
      or_sellerRefundPolicyVersion = None, or_storefrontId = pch_storefrontId p,
      or_internalProductId = pch_internalProductId p, or_transactionType = pch_transactionType p,
      or_sellerParticipantId = pch_sellerParticipantId p, or_promoterParticipantId = pch_promoterParticipantId p,
      or_promotedBinding = pch_promotedBinding p, or_quote = pch_quote p, or_lifecycle = PENDING_PAYMENT,
      or_paymentFailureCode = None, or_placedAt = coi_placedAt v, or_paidAt = None, or_failedAt = None,
      or_cancelledAt = None\<rparr>"

definition insert_order :: "order_row \<Rightarrow> 'a market_tables_scheme \<Rightarrow> 'a market_tables_scheme res" where
  "insert_order r db =
     (if list_ex (\<lambda>x. or_id x = or_id r \<or>
           (or_guestClaimCodeDigest r \<noteq> None \<and> or_guestClaimCodeDigest x = or_guestClaimCodeDigest r)) (orders db)
      then Inl (UniqueViolation ''Order'')
      else Inr (db\<lparr>orders := orders db @ [r]\<rparr>))"

text \<open>A guest is known by the digest of the code drawn for the Order; an account buyer by the account
  and by the participant that account already is, if it is one.\<close>

definition order_buyer ::
  "(string \<Rightarrow> string) \<Rightarrow> string \<Rightarrow> ident option \<Rightarrow> 'a notice_tables_scheme \<Rightarrow>
   (buyer_kind \<times> ident option \<times> ident option \<times> string option) res" where
  "order_buyer digest_of code buyer db =
     (case buyer of
        None \<Rightarrow> Inr (GUEST_BUYER, None, None, Some (digest_of code))
      | Some accountId \<Rightarrow>
          if find_account db accountId = None then Inl (order_err ''BUYER_ACCOUNT_NOT_FOUND'')
          else Inr (ACCOUNT_BUYER, Some accountId, map_option pa_id (find_account_participant db accountId), None))"

definition placeOrder ::
  "checkout_reads \<Rightarrow> (string \<Rightarrow> string) \<Rightarrow> ident \<Rightarrow> string \<Rightarrow> checkout_input \<Rightarrow> ident \<Rightarrow> 'a sale_tables_scheme \<Rightarrow>
   ('a sale_tables_scheme \<times> placed_order) res" where
  "placeOrder w digest_of i code v policyId db =
     (if \<not> PlaceOrderInput v then Inl (order_err ''INVALID_ORDER_INPUT'')
      else chain (prepareCheckout w v policyId db) (\<lambda>prepared.
        order_catch
          (chain (order_buyer digest_of code (coi_buyerAccountId v) db) (\<lambda>(kind, accountId, participantId, digest).
             let row = new_order i v prepared kind accountId participantId digest in
             chain (insert_order row db) (\<lambda>db'.
             chain (orderRowToRecord row) (\<lambda>r.
               Inr (db', \<lparr>plo_order = r,
                          plo_guestClaimCode = (if coi_buyerAccountId v = None then Some code else None),
                          plo_buyerTotal = pch_buyerTotal prepared\<rparr>)))))))"

section \<open>What was placed\<close>

lemma prepareCheckout_quote:
  assumes "prepareCheckout w v policyId db = Inr p"
  obtains lv retail where "readExactListingVersion db (coi_internalListingId v) (pch_listingSourceRecordVersion p) = Inr lv"
    and "placement_retail (lv_placement lv) = Some retail"
    and "quoted_retail (lv_placement lv) retail (coi_placedAt v) = Inr (oq_commercialRetail (pch_quote p))"
    and "oq_currency (pch_quote p) = coi_currency v" and "oq_tax (pch_quote p) = coi_tax v"
    and "oq_shipping (pch_quote p) = coi_shipping v" and "oq_other (pch_quote p) = coi_other v"
    and "pch_buyerTotal p = quotedBuyerTotalMinorUnits (pch_quote p)"
  using assms that
  by (auto simp: prepareCheckout_def checkout_catch_def chain_Inr_iff readCurrentListingVersion_def readExactListingVersion_def Let_def
      split: if_splits option.split_asm)

lemma placeOrder_row:
  assumes "placeOrder w digest_of i code v policyId db = Inr (db', out)"
  obtains p kind accountId participantId digest where "prepareCheckout w v policyId db = Inr p"
    and "order_buyer digest_of code (coi_buyerAccountId v) db = Inr (kind, accountId, participantId, digest)"
    and "plo_order out = new_order i v p kind accountId participantId digest"
    and "plo_buyerTotal out = pch_buyerTotal p"
    and "OrderRecord (plo_order out)"
    and "db' = db\<lparr>orders := orders db @ [plo_order out]\<rparr>"
    and "\<forall>x\<in>set (orders db). or_id x \<noteq> i \<and> (digest \<noteq> None \<longrightarrow> or_guestClaimCodeDigest x \<noteq> digest)"
proof -
  from assms obtain p kind accountId participantId digest where p: "prepareCheckout w v policyId db = Inr p"
    and buyer: "order_buyer digest_of code (coi_buyerAccountId v) db = Inr (kind, accountId, participantId, digest)"
    and ins: "insert_order (new_order i v p kind accountId participantId digest) db = Inr db'"
    and ok: "OrderRecord (new_order i v p kind accountId participantId digest)"
    and out: "plo_order out = new_order i v p kind accountId participantId digest" "plo_buyerTotal out = pch_buyerTotal p"
    unfolding placeOrder_def Let_def by (auto simp: chain_Inr_iff split: if_split_asm)
  have ids: "or_id (new_order i v p kind accountId participantId digest) = i"
    "or_guestClaimCodeDigest (new_order i v p kind accountId participantId digest) = digest"
    by (simp_all add: new_order_def)
  show thesis
    by (rule that[OF p buyer out]) (use ins ok out in \<open>auto simp: insert_order_def list_ex_iff ids split: if_splits\<close>)
qed

lemma new_order_fields:
  "or_id (new_order i v p kind accountId participantId digest) = i"
  "or_lifecycle (new_order i v p kind accountId participantId digest) = PENDING_PAYMENT"
  "or_guestClaimCodeDigest (new_order i v p kind accountId participantId digest) = digest"
  "or_buyerKind (new_order i v p kind accountId participantId digest) = kind"
  "or_claimedByAccountId (new_order i v p kind accountId participantId digest) = None"
  "or_quote (new_order i v p kind accountId participantId digest) = pch_quote p"
  "or_internalListingId (new_order i v p kind accountId participantId digest) = coi_internalListingId v"
  "or_listingSourceRecordVersion (new_order i v p kind accountId participantId digest) = pch_listingSourceRecordVersion p"
  "or_placedAt (new_order i v p kind accountId participantId digest) = coi_placedAt v"
  by (simp_all add: new_order_def)

text \<open>The economics of the exact version an Order binds are computed on the price it quotes.\<close>

lemma compute_quoted:
  assumes "computeEconomics db lv policy cur at b = Inr (amt, e)" and "placement_retail (lv_placement lv) = Some retail"
    and "quoted_retail (lv_placement lv) retail at = Inr q"
  shows "amt = q"
proof -
  have direct: "compute_direct p policy at = Inr (amt, e) \<Longrightarrow> effectiveSellerRetailPrice p at = Inr eff \<Longrightarrow>
      amt = ep_effectivePriceMinorUnits eff" for p eff
    by (auto simp: compute_direct_def calculateSellerDirectEconomics_def chain_Inr_iff Let_def split: if_split_asm)
  have promoted: "compute_promoted r cur w wcur com policy ob = Inr (amt, e) \<Longrightarrow> amt = r" for r w wcur com ob
    by (auto simp: compute_promoted_def chain_Inr_iff)
  show ?thesis
    using assms direct promoted
    by (cases "lv_placement lv") (auto simp: computeEconomics_def Let_def quoted_retail_def chain_Inr_iff split: if_split_asm option.split_asm)
qed

end
