(* ===== verification/Order_History.thy ===== *)
theory Order_History
  imports Checkout
begin

text \<open>
  Histories of the Order service.  A worker reads an Order outside the transaction in which it then
  records the payment result, so a history is over the tables together with the reads that workers
  hold: a read is added by \<open>getOrder\<close> and may be acted on at any later time.  What the rest of the
  program does between two steps is a step of its own, limited by what it leaves alone: the Orders,
  the snapshots and their provider evidence, what a sale owes, and the purchase evidence.
\<close>

section \<open>Steps\<close>

text \<open>What is owed, without where its payout stands.\<close>

definition owed_facts :: "proceeds_obligation \<Rightarrow> (ident \<times> ident \<times> ident) \<times> proceeds_party \<times> amount \<times> currency" where
  "owed_facts ob = ((pob_id ob, pob_snapshotId ob, pob_participantId ob), pob_party ob, pob_amount ob, pob_currency ob)"

definition payment_facts :: "settlement_row \<Rightarrow> ident \<times> string option \<times> string option" where
  "payment_facts s = (st_snapshotId s, st_provider s, st_providerTransactionRef s)"

definition leaves_sales_alone :: "'a sale_tables_scheme \<Rightarrow> 'a sale_tables_scheme \<Rightarrow> bool" where
  "leaves_sales_alone db db' \<longleftrightarrow> orders db' = orders db \<and> snapshots db' = snapshots db \<and>
     map payment_facts (settlements db') = map payment_facts (settlements db) \<and>
     map owed_facts (obligations db') = map owed_facts (obligations db) \<and>
     purchaseEvidences db' = purchaseEvidences db \<and> reviewAuthorities db' = reviewAuthorities db"

type_synonym 'a shop = "'a sale_tables_scheme \<times> order_row list"

inductive order_step :: "'a shop \<Rightarrow> 'a shop \<Rightarrow> bool" where
  placed: "placeOrder w digest_of i code v policyId db = Inr (db', out) \<Longrightarrow> order_step (db, held) (db', held)"
| read: "getOrder db oid = Inr r \<Longrightarrow> order_step (db, held) (db, r # held)"
| recorded: "ord \<in> set held \<Longrightarrow> BuyerPaymentResult answer \<Longrightarrow> record_result_on ord answer at ids db = Inr (db', out) \<Longrightarrow>
    order_step (db, held) (db', held)"
| cancelled: "cancelOrder oid at db = Inr (db', r) \<Longrightarrow> order_step (db, held) (db', held)"
| claimed: "claimGuestOrder digest_of oid code acct at db = Inr (db', r) \<Longrightarrow> order_step (db, held) (db', held)"
| advanced: "advanceProceedsObligation i to at db = Inr (db', ob) \<Longrightarrow> order_step (db, held) (db', held)"
| authorized: "authorizeReviewSubmission i sub oid kind db = Inr (db', a) \<Longrightarrow> order_step (db, held) (db', held)"
| elsewhere: "leaves_sales_alone db db' \<Longrightarrow> order_step (db, held) (db', held)"

section \<open>What a history preserves\<close>

text \<open>What an Order was placed for, and by whom; nothing rewrites it.\<close>

definition order_facts where
  "order_facts r =
     ((or_id r, or_buyerKind r, or_buyerAccountId r, or_buyerParticipantId r, or_guestClaimCodeDigest r),
      (or_internalListingId r, or_listingSourceRecordId r, or_listingSourceRecordVersion r),
      (or_policyId r, or_policyVersion r, or_internalProductId r, or_transactionType r),
      (or_sellerParticipantId r, or_promoterParticipantId r, or_promotedBinding r, or_quote r, or_placedAt r))"

text \<open>One completed sale of an Order: the snapshot bound to it is of the quote the buyer was shown,
  its settlement names the charge, what it owes is what its economics say, and the purchase is in
  evidence.\<close>

definition quoted_snapshot :: "order_row \<Rightarrow> snapshot_row \<Rightarrow> bool" where
  "quoted_snapshot ord s \<longleftrightarrow>
     sr_orderId s = Some (or_id ord) \<and> sr_commercialRetail s = oq_commercialRetail (or_quote ord) \<and>
     sr_currency s = oq_currency (or_quote ord) \<and> sr_tax s = oq_tax (or_quote ord) \<and>
     sr_shipping s = oq_shipping (or_quote ord) \<and> sr_other s = oq_other (or_quote ord)"

definition owes :: "'a sale_tables_scheme \<Rightarrow> order_row \<Rightarrow> snapshot_row \<Rightarrow> proceeds_party \<times> amount \<Rightarrow> bool" where
  "owes db ord s claim \<longleftrightarrow> (\<exists>ob\<in>set (obligations db). pob_snapshotId ob = sr_id s \<and> pob_party ob = fst claim \<and>
     pob_amount ob = snd claim \<and> Some (pob_participantId ob) = claim_participant ord (fst claim))"

definition sale_owed :: "'a sale_tables_scheme \<Rightarrow> order_row \<Rightarrow> snapshot_row \<Rightarrow> bool" where
  "sale_owed db ord s \<longleftrightarrow> (\<exists>e. sr_economics s = economicsToColumns e \<and>
     reconcileTransactionEconomics (oq_commercialRetail (or_quote ord)) e = Inr () \<and>
     (\<forall>claim\<in>set (deriveProceedsClaims e). owes db ord s claim))"

definition sale_charged :: "'a sale_tables_scheme \<Rightarrow> snapshot_row \<Rightarrow> bool" where
  "sale_charged db s \<longleftrightarrow> (\<exists>st\<in>set (settlements db). st_snapshotId st = sr_id s \<and> st_provider st \<noteq> None \<and>
     st_providerTransactionRef st \<noteq> None)"

definition sale_evidenced :: "'a sale_tables_scheme \<Rightarrow> order_row \<Rightarrow> bool" where
  "sale_evidenced db ord \<longleftrightarrow> (\<exists>ev\<in>set (purchaseEvidences db). pev_orderId ev = or_id ord \<and>
     pev_purchaseProvenance ev = VERIFIED \<and> pev_sellerParticipantId ev = or_sellerParticipantId ord \<and>
     pev_internalProductId ev = or_internalProductId ord)"

definition whole_sale :: "'a sale_tables_scheme \<Rightarrow> order_row \<Rightarrow> snapshot_row \<Rightarrow> bool" where
  "whole_sale db ord s \<longleftrightarrow> quoted_snapshot ord s \<and> sale_owed db ord s \<and> sale_charged db s \<and> sale_evidenced db ord"

definition bound_once :: "'a accounting_tables_scheme \<Rightarrow> bool" where
  "bound_once db \<longleftrightarrow> (\<forall>s\<in>set (snapshots db). \<forall>t\<in>set (snapshots db).
     sr_orderId s \<noteq> None \<longrightarrow> sr_orderId s = sr_orderId t \<longrightarrow> s = t)"

definition evidenced_once :: "'a sale_tables_scheme \<Rightarrow> bool" where
  "evidenced_once db \<longleftrightarrow> (\<forall>x\<in>set (purchaseEvidences db). \<forall>y\<in>set (purchaseEvidences db).
     pev_orderId x = pev_orderId y \<longrightarrow> x = y)"

definition paid_are_whole :: "'a sale_tables_scheme \<Rightarrow> bool" where
  "paid_are_whole db \<longleftrightarrow> (\<forall>ord\<in>set (orders db). or_lifecycle ord = Order_PAID \<longrightarrow>
     (\<exists>s\<in>set (snapshots db). whole_sale db ord s))"

definition reads_current :: "'a sale_tables_scheme \<Rightarrow> order_row list \<Rightarrow> bool" where
  "reads_current db held \<longleftrightarrow> (\<forall>r\<in>set held. \<exists>row\<in>set (orders db). order_facts row = order_facts r)"

text \<open>Only a guest Order carries a digest, and no two carry the same.\<close>

definition guests_known :: "order_row list \<Rightarrow> bool" where
  "guests_known os \<longleftrightarrow> (\<forall>x\<in>set os. (or_guestClaimCodeDigest x \<noteq> None) = (or_buyerKind x = GUEST_BUYER)) \<and>
     (\<forall>x\<in>set os. \<forall>y\<in>set os. or_guestClaimCodeDigest x \<noteq> None \<longrightarrow>
        or_guestClaimCodeDigest x = or_guestClaimCodeDigest y \<longrightarrow> or_id x = or_id y)"

definition sales_inv :: "'a shop \<Rightarrow> bool" where
  "sales_inv sh \<longleftrightarrow> unique_on or_id (orders (fst sh)) \<and> guests_known (orders (fst sh)) \<and> bound_once (fst sh) \<and> evidenced_once (fst sh) \<and>
     paid_are_whole (fst sh) \<and> reads_current (fst sh) (snd sh)"

lemma once_cong:
  "snapshots db' = snapshots db \<Longrightarrow> bound_once db' = bound_once db"
  "purchaseEvidences sdb' = purchaseEvidences sdb \<Longrightarrow> evidenced_once sdb' = evidenced_once sdb"
  by (simp_all only: bound_once_def evidenced_once_def)

lemma order_facts_eqs:
  assumes "order_facts ord' = order_facts ord"
  shows "or_id ord' = or_id ord" "or_quote ord' = or_quote ord" "or_sellerParticipantId ord' = or_sellerParticipantId ord"
    "or_internalProductId ord' = or_internalProductId ord" "claim_participant ord' = claim_participant ord"
    "or_placedAt ord' = or_placedAt ord" "or_buyerKind ord' = or_buyerKind ord"
  using assms by (simp_all add: order_facts_def claim_participant_def fun_eq_iff)

lemma guests_knownI:
  assumes "guests_known os"
    and "\<And>y. y \<in> set os' \<Longrightarrow> \<exists>x\<in>set os. or_guestClaimCodeDigest y = or_guestClaimCodeDigest x \<and>
           or_buyerKind y = or_buyerKind x \<and> or_id y = or_id x"
  shows "guests_known os'"
  unfolding guests_known_def
proof (intro conjI ballI impI)
  fix y assume "y \<in> set os'"
  from assms(2)[OF this] obtain x where "x \<in> set os" "or_guestClaimCodeDigest y = or_guestClaimCodeDigest x"
    "or_buyerKind y = or_buyerKind x" by blast
  then show "(or_guestClaimCodeDigest y \<noteq> None) = (or_buyerKind y = GUEST_BUYER)"
    using assms(1) by (simp add: guests_known_def)
next
  fix y z assume yz: "y \<in> set os'" "z \<in> set os'" "or_guestClaimCodeDigest y \<noteq> None"
    "or_guestClaimCodeDigest y = or_guestClaimCodeDigest z"
  from assms(2)[OF yz(1)] obtain x where x: "x \<in> set os" "or_guestClaimCodeDigest y = or_guestClaimCodeDigest x" "or_id y = or_id x"
    by blast
  from assms(2)[OF yz(2)] obtain w where w: "w \<in> set os" "or_guestClaimCodeDigest z = or_guestClaimCodeDigest w" "or_id z = or_id w"
    by blast
  have "or_id x = or_id w" using assms(1) x w yz(3,4) unfolding guests_known_def by metis
  then show "or_id y = or_id z" using x w by simp
qed

lemma guests_rewritten:
  assumes "guests_known os" and "\<And>x. order_facts (f x) = order_facts x"
  shows "guests_known (update_where P f os)"
proof (rule guests_knownI[OF assms(1)])
  fix y assume "y \<in> set (update_where P f os)"
  then obtain x where "x \<in> set os" "order_facts y = order_facts x"
    by (cases rule: in_update_where_E) (use assms(2) in auto)
  then show "\<exists>x\<in>set os. or_guestClaimCodeDigest y = or_guestClaimCodeDigest x \<and> or_buyerKind y = or_buyerKind x \<and> or_id y = or_id x"
    by (intro bexI[of _ x]) (simp_all add: order_facts_def)
qed

lemma guests_added:
  assumes "guests_known os" and "(or_guestClaimCodeDigest r \<noteq> None) = (or_buyerKind r = GUEST_BUYER)"
    and "or_guestClaimCodeDigest r \<noteq> None \<Longrightarrow> or_guestClaimCodeDigest r \<notin> or_guestClaimCodeDigest ` set os"
  shows "guests_known (os @ [r])"
  unfolding guests_known_def
proof (intro conjI ballI impI)
  fix y assume "y \<in> set (os @ [r])"
  then show "(or_guestClaimCodeDigest y \<noteq> None) = (or_buyerKind y = GUEST_BUYER)"
    using assms(1,2) by (auto simp: guests_known_def)
next
  fix y z assume yz: "y \<in> set (os @ [r])" "z \<in> set (os @ [r])" "or_guestClaimCodeDigest y \<noteq> None"
    "or_guestClaimCodeDigest y = or_guestClaimCodeDigest z"
  then consider "y \<in> set os" "z \<in> set os" | "y = r" "z = r" | "y = r" "z \<in> set os" | "y \<in> set os" "z = r" by auto
  then show "or_id y = or_id z"
  proof cases
    case 1 then show ?thesis using assms(1) yz(3,4) unfolding guests_known_def by metis
  next
    case 3 then show ?thesis using assms(3) yz(3,4) by (metis imageI)
  next
    case 4 then show ?thesis using assms(3) yz(3,4) by (metis imageI)
  qed simp
qed

lemma whole_sale_facts:
  assumes "whole_sale db ord s" and "order_facts ord' = order_facts ord"
  shows "whole_sale db ord' s"
  using assms(1)
  unfolding whole_sale_def quoted_snapshot_def sale_owed_def owes_def sale_evidenced_def order_facts_eqs[OF assms(2)] .

lemma image_witness: "f ` A \<subseteq> f ` B \<Longrightarrow> x \<in> A \<Longrightarrow> \<exists>y\<in>B. f y = f x"
  by (metis imageE imageI subsetD)

lemma owes_mono:
  assumes "owes db ord s claim" and "owed_facts ` set (obligations db) \<subseteq> owed_facts ` set (obligations db')"
  shows "owes db' ord s claim"
proof -
  from assms(1) obtain ob where ob: "ob \<in> set (obligations db)" "pob_snapshotId ob = sr_id s" "pob_party ob = fst claim"
    "pob_amount ob = snd claim" "Some (pob_participantId ob) = claim_participant ord (fst claim)" by (auto simp: owes_def)
  from image_witness[OF assms(2) ob(1)] obtain ob' where "ob' \<in> set (obligations db')" "owed_facts ob' = owed_facts ob" by blast
  with ob show ?thesis unfolding owes_def owed_facts_def by (intro bexI[of _ ob']) auto
qed

lemma sale_charged_mono:
  assumes "sale_charged db s" and "payment_facts ` set (settlements db) \<subseteq> payment_facts ` set (settlements db')"
  shows "sale_charged db' s"
proof -
  from assms(1) obtain st where st: "st \<in> set (settlements db)" "st_snapshotId st = sr_id s" "st_provider st \<noteq> None"
    "st_providerTransactionRef st \<noteq> None" by (auto simp: sale_charged_def)
  from image_witness[OF assms(2) st(1)] obtain st' where "st' \<in> set (settlements db')" "payment_facts st' = payment_facts st" by blast
  with st show ?thesis unfolding sale_charged_def payment_facts_def by (intro bexI[of _ st']) auto
qed

lemma whole_sale_mono:
  assumes "whole_sale db ord s" and "owed_facts ` set (obligations db) \<subseteq> owed_facts ` set (obligations db')"
    and "payment_facts ` set (settlements db) \<subseteq> payment_facts ` set (settlements db')"
    and "set (purchaseEvidences db) \<subseteq> set (purchaseEvidences db')"
  shows "whole_sale db' ord s"
proof -
  have "sale_owed db' ord s"
    using assms(1) owes_mono[OF _ assms(2)] unfolding whole_sale_def sale_owed_def by meson
  moreover have "sale_charged db' s" using assms(1) sale_charged_mono[OF _ assms(3)] by (simp add: whole_sale_def)
  moreover have "sale_evidenced db' ord" using assms(1,4) unfolding whole_sale_def sale_evidenced_def by blast
  ultimately show ?thesis using assms(1) by (simp add: whole_sale_def)
qed

section \<open>Steps that rewrite an Order's row\<close>

lemma rewritten_sales:
  assumes inv: "sales_inv (db, held)" and f: "\<And>x. order_facts (f x) = order_facts x"
    and life: "\<And>x. x \<in> set (orders db) \<Longrightarrow> or_id x = oid \<Longrightarrow> or_lifecycle (f x) = Order_PAID \<Longrightarrow> or_lifecycle x = Order_PAID"
    and db': "orders db' = update_where (\<lambda>x. or_id x = oid) f (orders db)" "snapshots db' = snapshots db"
      "settlements db' = settlements db" "obligations db' = obligations db" "purchaseEvidences db' = purchaseEvidences db"
  shows "sales_inv (db', held)"
proof -
  have id: "or_id (f x) = or_id x" for x using f[of x] by (simp add: order_facts_def)
  have whole: "\<exists>s\<in>set (snapshots db'). whole_sale db' ord s" if o: "ord \<in> set (orders db')" "or_lifecycle ord = Order_PAID" for ord
  proof -
    from o(1) obtain x where x: "x \<in> set (orders db)" "or_lifecycle x = Order_PAID" "order_facts ord = order_facts x"
      unfolding db'(1) using life o(2) f by (elim in_update_where_E) auto
    then obtain s where s: "s \<in> set (snapshots db)" "whole_sale db x s" using inv by (auto simp: sales_inv_def paid_are_whole_def)
    then have "whole_sale db' ord s"
      using whole_sale_facts[OF whole_sale_mono[of db x s db'] x(3)] db' by simp
    then show ?thesis using s(1) db'(2) by auto
  qed
  have held: "\<exists>row\<in>set (orders db'). order_facts row = order_facts r" if "r \<in> set held" for r
  proof -
    from inv that obtain row where "row \<in> set (orders db)" "order_facts row = order_facts r" by (auto simp: sales_inv_def reads_current_def)
    then show ?thesis unfolding db'(1) set_update_where using f by (intro bexI[of _ "if or_id row = oid then f row else row"]) auto
  qed
  have "unique_on or_id (orders db')" using inv unique_on_update_where[of or_id "orders db"] id by (simp add: sales_inv_def db'(1))
  moreover have "bound_once db'" "evidenced_once db'" using inv once_cong(1)[of db' db] once_cong(2)[of db' db] db'
    by (simp_all add: sales_inv_def)
  moreover have "paid_are_whole db'" "reads_current db' held" using whole held by (auto simp: paid_are_whole_def reads_current_def)
  moreover have "guests_known (orders db')" using inv guests_rewritten[OF _ f] by (simp add: sales_inv_def db'(1))
  ultimately show ?thesis by (simp add: sales_inv_def)
qed

lemma marked_facts [simp]:
  "order_facts (mark_paid at r) = order_facts r" "order_facts (mark_payment_failed code at r) = order_facts r"
  "order_facts (mark_cancelled at r) = order_facts r"
  "order_facts (r\<lparr>or_claimedByAccountId := a, or_claimedAt := t\<rparr>) = order_facts r"
  by (simp_all add: order_facts_def mark_paid_def mark_payment_failed_def mark_cancelled_def)

section \<open>A completed sale is whole\<close>

lemma sale_snapshot_fields:
  "sr_id (sale_snapshot_row ord row at sid lsr e) = sid"
  "sr_orderId (sale_snapshot_row ord row at sid lsr e) = Some (or_id ord)"
  "sr_economics (sale_snapshot_row ord row at sid lsr e) = economicsToColumns e"
  "quoted_snapshot ord (sale_snapshot_row ord row at sid lsr e)"
  by (simp_all add: sale_snapshot_row_def quoted_snapshot_def snapshot_row_of_def sale_snapshot_input_def)

lemma sale_effect_fields:
  "orders (sale_effect oid s st obs ts e ns at db) = update_where (\<lambda>x. or_id x = oid) (mark_paid at) (orders db)"
  "snapshots (sale_effect oid s st obs ts e ns at db) = snapshots db @ [s]"
  "settlements (sale_effect oid s st obs ts e ns at db) = settlements db @ [st]"
  "obligations (sale_effect oid s st obs ts e ns at db) = obligations db @ obs"
  "taxTransactions (sale_effect oid s st obs ts e ns at db) = taxTransactions db @ ts"
  "purchaseEvidences (sale_effect oid s st obs ts e ns at db) = purchaseEvidences db @ [e]"
  "reviewAuthorities (sale_effect oid s st obs ts e ns at db) = reviewAuthorities db"
  "taxEvidences (sale_effect oid s st obs ts e ns at db) = taxEvidences db"
  "reversals (sale_effect oid s st obs ts e ns at db) = reversals db"
  "refunds (sale_effect oid s st obs ts e ns at db) = refunds db"
  "disputes (sale_effect oid s st obs ts e ns at db) = disputes db"
  by (simp_all add: sale_effect_def)

lemma paid_settlement_fields:
  "st_snapshotId (paid_settlement provider ref at s) = st_snapshotId s"
  "st_provider (paid_settlement provider ref at s) = Some provider"
  "st_providerTransactionRef (paid_settlement provider ref at s) = Some ref"
  "st_state (paid_settlement provider ref at s) = st_state s"
  "provider_key (paid_settlement provider ref at s) = Some (provider, ref)"
  by (simp_all add: paid_settlement_def provider_key_def)

lemma sale_is_whole:
  assumes "recordCompletedSale ord provider ref at ids db = Inr (db', sale)"
  obtains s row where "whole_sale db' ord s" and "snapshots db' = snapshots db @ [s]" and "sr_id s = sid_snapshot ids"
    and "\<forall>t\<in>set (snapshots db). sr_orderId t \<noteq> Some (or_id ord)"
    and "orders db' = update_where (\<lambda>x. or_id x = or_id ord) (mark_paid at) (orders db)"
    and "purchaseEvidences db' = purchaseEvidences db @ [purchase_evidence_of (sid_evidence ids) ord at]"
    and "\<forall>x\<in>set (purchaseEvidences db). pev_orderId x \<noteq> or_id ord"
    and "set (obligations db) \<subseteq> set (obligations db')" and "set (settlements db) \<subseteq> set (settlements db')"
    and "reviewAuthorities db' = reviewAuthorities db" and "find_order db (or_id ord) = Some row"
proof -
  let ?sid = "sid_snapshot ids" and ?ev = "purchase_evidence_of (sid_evidence ids) ord at"
  show thesis
  proof (rule recordCompletedSale_writes[OF assms])
    fix row lv policy e rec obs ns rs
    assume row: "find_order db (or_id ord) = Some row"
      and recon: "reconcileTransactionEconomics (oq_commercialRetail (or_quote ord)) e = Inr ()"
      and free: "\<forall>s\<in>set (snapshots db). sr_orderId s \<noteq> Some (or_id ord)"
      and noev: "\<forall>x\<in>set (purchaseEvidences db). pev_orderId x \<noteq> or_id ord"
      and obs: "map (\<lambda>ob. (pob_party ob, pob_amount ob)) obs = deriveProceedsClaims e"
        "list_all (sale_obligation ord rec) obs" "snap_snapshotId rec = ?sid"
      and db': "db' = sale_effect (or_id ord) (sale_snapshot_row ord row at ?sid (lv_listingSourceRecordId lv) e)
           (paid_settlement provider ref at (new_settlement ?sid)) obs (sale_tax (sid_taxTransaction ids) row ord at db) ?ev ns at db"
    let ?s = "sale_snapshot_row ord row at ?sid (lv_listingSourceRecordId lv) e"
    let ?st = "paid_settlement provider ref at (new_settlement ?sid)"
    note eff = sale_effect_fields[of "or_id ord" ?s ?st obs "sale_tax (sid_taxTransaction ids) row ord at db" ?ev ns at db,
        folded db']
    have "owes db' ord ?s claim" if claim: "claim \<in> set (deriveProceedsClaims e)" for claim
    proof -
      from claim obtain ob where "ob \<in> set obs" "claim = (pob_party ob, pob_amount ob)" unfolding obs(1)[symmetric] by auto
      then show ?thesis using obs(2,3)
        by (auto simp: owes_def eff sale_snapshot_fields sale_obligation_def list_all_iff intro!: bexI[of _ ob])
    qed
    then have "sale_owed db' ord ?s" using recon unfolding sale_owed_def sale_snapshot_fields by blast
    moreover have "sale_charged db' ?s"
      by (simp add: sale_charged_def eff sale_snapshot_fields paid_settlement_fields new_settlement_def)
    moreover have "sale_evidenced db' ord" by (simp add: sale_evidenced_def eff purchase_evidence_of_def)
    ultimately have "whole_sale db' ord ?s" by (simp add: whole_sale_def sale_snapshot_fields)
    then show thesis
      by (rule that[OF _ eff(2) sale_snapshot_fields(1) free eff(1) eff(6) noev _ _ eff(7) row]) (auto simp: eff)
  qed
qed

lemma completed_sale_inv:
  assumes inv: "sales_inv (db, held)" and "ord \<in> set held"
    and ok: "recordCompletedSale ord provider ref at ids db = Inr (db', sale)"
  shows "sales_inv (db', held)"
proof -
  from sale_is_whole[OF ok] obtain s row where whole: "whole_sale db' ord s" and snaps: "snapshots db' = snapshots db @ [s]"
    and "sr_id s = sid_snapshot ids" and free: "\<forall>t\<in>set (snapshots db). sr_orderId t \<noteq> Some (or_id ord)"
    and ords: "orders db' = update_where (\<lambda>x. or_id x = or_id ord) (mark_paid at) (orders db)"
    and evs: "purchaseEvidences db' = purchaseEvidences db @ [purchase_evidence_of (sid_evidence ids) ord at]"
    and noev: "\<forall>x\<in>set (purchaseEvidences db). pev_orderId x \<noteq> or_id ord"
    and more: "set (obligations db) \<subseteq> set (obligations db')" "set (settlements db) \<subseteq> set (settlements db')"
    and "reviewAuthorities db' = reviewAuthorities db" and "find_order db (or_id ord) = Some row" .
  have uniq: "unique_on or_id (orders db)" and pw: "paid_are_whole db" and rc: "reads_current db held"
    using inv by (simp_all add: sales_inv_def)
  have bound: "sr_orderId s = Some (or_id ord)" using whole by (simp add: whole_sale_def quoted_snapshot_def)
  from rc assms(2) obtain row' where row': "row' \<in> set (orders db)" "order_facts row' = order_facts ord"
    by (auto simp: reads_current_def)
  have "\<exists>t\<in>set (snapshots db'). whole_sale db' x t" if x: "x \<in> set (orders db')" "or_lifecycle x = Order_PAID" for x
    using x(1) unfolding ords
  proof (cases rule: in_update_where_E)
    case old
    then obtain t where "t \<in> set (snapshots db)" "whole_sale db x t" using pw x(2) by (auto simp: paid_are_whole_def)
    then show ?thesis using whole_sale_mono[of db x t db'] more evs snaps by auto
  next
    case (new y)
    then have "y = row'" using row' uniq unique_on_eq order_facts_eqs(1)[OF row'(2)] by metis
    then have "order_facts x = order_facts ord" using new row' by simp
    then show ?thesis using whole_sale_facts[OF whole] snaps by auto
  qed
  then have "paid_are_whole db'" by (auto simp: paid_are_whole_def)
  moreover have "reads_current db' held"
  proof -
    have "\<exists>z\<in>set (orders db'). order_facts z = order_facts y" if "y \<in> set (orders db)" for y
      unfolding ords set_update_where using that by (intro bexI[of _ "if or_id y = or_id ord then mark_paid at y else y"]) auto
    then show ?thesis using rc unfolding reads_current_def by metis
  qed
  moreover have "bound_once db'" using inv free bound unfolding sales_inv_def bound_once_def snaps by auto
  moreover have "evidenced_once db'"
    using inv noev unfolding sales_inv_def evidenced_once_def evs by (auto simp: purchase_evidence_of_def)
  moreover have "unique_on or_id (orders db')" using uniq by (simp add: ords unique_on_update_where)
  moreover have "guests_known (orders db')" using inv by (simp add: sales_inv_def ords guests_rewritten)
  ultimately show ?thesis by (simp add: sales_inv_def)
qed

section \<open>Every step keeps it\<close>

lemma framed_sales:
  assumes inv: "sales_inv (db, held)"
    and same: "orders db' = orders db" "snapshots db' = snapshots db" "purchaseEvidences db' = purchaseEvidences db"
      "map payment_facts (settlements db') = map payment_facts (settlements db)"
      "map owed_facts (obligations db') = map owed_facts (obligations db)"
  shows "sales_inv (db', held)"
proof -
  have img: "payment_facts ` set (settlements db) \<subseteq> payment_facts ` set (settlements db')"
    "owed_facts ` set (obligations db) \<subseteq> owed_facts ` set (obligations db')"
    using same(4,5) by (metis order_refl set_map)+
  have "paid_are_whole db'"
    using inv whole_sale_mono[OF _ img(2,1)] same(1,2,3) unfolding sales_inv_def paid_are_whole_def by fastforce
  moreover have "reads_current db' held" using inv same(1) by (simp add: sales_inv_def reads_current_def)
  moreover have "bound_once db'" "evidenced_once db'"
    using inv once_cong(1)[OF same(2)] once_cong(2)[OF same(3)] by (simp_all add: sales_inv_def)
  ultimately show ?thesis using inv same(1) by (simp add: sales_inv_def)
qed

lemma placed_sales:
  assumes inv: "sales_inv (db, held)" and db': "db' = db\<lparr>orders := orders db @ [r]\<rparr>"
    and r: "or_id r \<notin> or_id ` set (orders db)" "or_lifecycle r \<noteq> Order_PAID"
      "(or_guestClaimCodeDigest r \<noteq> None) = (or_buyerKind r = GUEST_BUYER)"
      "or_guestClaimCodeDigest r \<noteq> None \<Longrightarrow> or_guestClaimCodeDigest r \<notin> or_guestClaimCodeDigest ` set (orders db)"
  shows "sales_inv (db', held)"
proof -
  have "paid_are_whole db'"
    using inv r(2) whole_sale_mono[of db _ _ db'] unfolding sales_inv_def paid_are_whole_def db' by fastforce
  moreover have "reads_current db' held" using inv by (auto simp: sales_inv_def reads_current_def db')
  moreover have "bound_once db'" "evidenced_once db'"
    using inv once_cong(1)[of db' db] once_cong(2)[of db' db] by (simp_all add: sales_inv_def db')
  moreover have "unique_on or_id (orders db')" using inv r(1) by (simp add: sales_inv_def db')
  moreover have "guests_known (orders db')" using inv guests_added[OF _ r(3,4)] by (simp add: sales_inv_def db')
  ultimately show ?thesis by (simp add: sales_inv_def)
qed

lemma advanceProceedsObligation_Inr:
  "advanceProceedsObligation i to at db = Inr (db', ob) \<longleftrightarrow>
     (\<exists>cur. find_obligation db i = Some cur \<and> isValidProceedsObligationTransition (pob_state cur) to \<and>
        (to = ELIGIBLE \<longrightarrow> payout_hold db cur = None) \<and> ob = advance_obligation to at cur \<and> ProceedsObligationRecord ob \<and>
        db' = db\<lparr>obligations := update_where (\<lambda>x. pob_id x = i) (advance_obligation to at) (obligations db)\<rparr>)"
  by (auto simp: advanceProceedsObligation_def chain_Inr_iff split: option.split if_split_asm)

lemma advance_obligation_facts [simp]: "owed_facts (advance_obligation to at ob) = owed_facts ob"
  by (simp add: advance_obligation_def owed_facts_def)

lemma claimGuestOrder_Inr:
  "claimGuestOrder digest_of oid code acct at db = Inr (db', r) \<longleftrightarrow>
     source_ref code \<and> (\<exists>cur. List.find (\<lambda>r. or_guestClaimCodeDigest r = Some (digest_of code)) (orders db) = Some cur \<and>
       or_id cur = oid \<and> or_buyerKind cur = GUEST_BUYER \<and> or_claimedByAccountId cur = None \<and> find_account db acct \<noteq> None \<and>
       update_order oid (\<lambda>r. r\<lparr>or_claimedByAccountId := Some acct, or_claimedAt := Some at\<rparr>) db = Inr (db', r))"
  by (auto simp: claimGuestOrder_def split: option.split_asm if_splits)

lemma authorizeReviewSubmission_Inr:
  "authorizeReviewSubmission i sub oid kind db = Inr (db', a) \<longleftrightarrow>
     (\<exists>ord e. find_order db oid = Some ord \<and> or_lifecycle ord = Order_PAID \<and> find_purchase_evidence db oid = Some e \<and>
        find_review_authority db oid kind = None \<and> a = review_authority_of i sub oid kind e \<and> source_ref (rva_reviewSubjectRef a) \<and>
        (\<forall>x\<in>set (reviewAuthorities db). rva_id x \<noteq> i \<and> rva_reviewSubmissionId x \<noteq> sub) \<and>
        db' = db\<lparr>reviewAuthorities := reviewAuthorities db @ [a]\<rparr>)"
proof -
  have ins: "insert_review_authority x db = Inr d \<longleftrightarrow>
      (\<forall>y\<in>set (reviewAuthorities db). rva_id y \<noteq> rva_id x \<and> rva_reviewSubmissionId y \<noteq> rva_reviewSubmissionId x \<and>
         \<not> (rva_orderId y = rva_orderId x \<and> rva_reviewKind y = rva_reviewKind x)) \<and>
      d = db\<lparr>reviewAuthorities := reviewAuthorities db @ [x]\<rparr>" for x d
    by (auto simp: insert_review_authority_def list_ex_iff)
  have free: "find_review_authority db oid kind = None \<longleftrightarrow>
      (\<forall>y\<in>set (reviewAuthorities db). \<not> (rva_orderId y = oid \<and> rva_reviewKind y = kind))"
    by (auto simp: find_review_authority_def find_None_iff)
  have fields: "rva_id (review_authority_of i sub oid kind e) = i" "rva_reviewSubmissionId (review_authority_of i sub oid kind e) = sub"
    "rva_orderId (review_authority_of i sub oid kind e) = oid" "rva_reviewKind (review_authority_of i sub oid kind e) = kind" for e
    by (simp_all add: review_authority_of_def)
  have oid: "find_order db oid = Some ord \<Longrightarrow> or_id ord = oid" for ord by (auto dest: find_order_set)
  show ?thesis
    by (cases "find_order db oid"; cases "find_purchase_evidence db oid")
       (auto simp: authorizeReviewSubmission_def purchase_eligibility_def review_eligible_iff Let_def chain_Inr_iff ins fields free oid
          split: if_splits)
qed

lemma order_step_inv:
  assumes "order_step s s'" and "sales_inv s"
  shows "sales_inv s'"
  using assms
proof (induction rule: order_step.induct)
  case (placed w digest_of i code v policyId db db' out held)
  from placeOrder_row[OF placed(1)] obtain p k a q d where out: "plo_order out = new_order i v p k a q d"
    and buyer: "order_buyer digest_of code (coi_buyerAccountId v) db = Inr (k, a, q, d)"
    and db': "db' = db\<lparr>orders := orders db @ [plo_order out]\<rparr>"
    and fresh: "\<forall>x\<in>set (orders db). or_id x \<noteq> i \<and> (d \<noteq> None \<longrightarrow> or_guestClaimCodeDigest x \<noteq> d)"
    by metis
  have kind: "(d \<noteq> None) = (k = GUEST_BUYER)" using buyer by (auto simp: order_buyer_def split: option.split_asm if_splits)
  show ?case by (rule placed_sales[OF placed(2) db']) (use fresh kind in \<open>auto simp: out new_order_fields\<close>)
next
  case (read db oid r held)
  then have "r \<in> set (orders db)" by (auto dest: find_order_set)
  with read(2) show ?case by (auto simp: sales_inv_def reads_current_def)
next
  case (recorded ord held answer at ids db db' out)
  show ?case
  proof (cases answer)
    case (Payment_SUCCEEDED provider ref)
    show ?thesis
    proof (cases "or_lifecycle ord = Order_PAID")
      case True
      then show ?thesis using recorded(3,4) by (auto simp: Payment_SUCCEEDED chain_Inr_iff)
    next
      case False
      then obtain sale where "recordCompletedSale ord provider ref at ids db = Inr (db', sale)"
        using recorded(3) by (auto simp: Payment_SUCCEEDED chain_Inr_iff)
      then show ?thesis using completed_sale_inv[OF recorded(4,1)] by blast
    qed
  next
    case (Payment_FAILED code)
    then obtain r where "recordPaymentFailure ord code at ids db = Inr (db', r)"
      using recorded(3) by (auto simp: chain_Inr_iff split: if_splits)
    then show ?thesis
      by (rule recordPaymentFailure_writes)
         (rule rewritten_sales[OF recorded(4), where f = "mark_payment_failed code at" and oid = "or_id ord"]; simp)
  qed
next
  case (cancelled oid at db db' r held)
  from cancelled(1) show ?case
    by (rule cancelOrder_writes) (rule rewritten_sales[OF cancelled(2), where f = "mark_cancelled at" and oid = oid]; simp)
next
  case (claimed digest_of oid code acct at db db' r held)
  then show ?case
    by (auto simp: claimGuestOrder_Inr update_order_Inr
        intro!: rewritten_sales[OF claimed(2), where f = "\<lambda>r. r\<lparr>or_claimedByAccountId := Some acct, or_claimedAt := Some at\<rparr>" and oid = oid])
next
  case (advanced i to at db db' ob held)
  then show ?case
    by (auto simp: advanceProceedsObligation_Inr map_update_where intro!: framed_sales[OF advanced(2)])
next
  case (authorized i sub oid kind db db' a held)
  then show ?case by (auto simp: authorizeReviewSubmission_Inr intro!: framed_sales[OF authorized(2)])
next
  case (elsewhere db db' held)
  show ?case by (rule framed_sales[OF elsewhere(2)]) (use elsewhere(1) in \<open>simp_all add: leaves_sales_alone_def\<close>)
qed

lemma order_steps_inv: "order_step\<^sup>*\<^sup>* s s' \<Longrightarrow> sales_inv s \<Longrightarrow> sales_inv s'"
  by (induction rule: rtranclp_induct) (auto intro: order_step_inv)

section \<open>Orders keep what they were placed for\<close>

text \<open>A step adds Orders and rewrites them in place; what an Order was placed for, and a claim once
  made, are never rewritten.\<close>

definition keeps_order :: "order_row \<Rightarrow> order_row \<Rightarrow> bool" where
  "keeps_order x y \<longleftrightarrow> order_facts y = order_facts x \<and>
     (or_claimedByAccountId x \<noteq> None \<longrightarrow>
        or_claimedByAccountId y = or_claimedByAccountId x \<and> or_claimedAt y = or_claimedAt x)"

definition keeps_orders :: "'a market_tables_scheme \<Rightarrow> 'a market_tables_scheme \<Rightarrow> bool" where
  "keeps_orders db db' \<longleftrightarrow> (\<forall>x\<in>set (orders db). \<exists>y\<in>set (orders db'). keeps_order x y)"

lemma keeps_order_refl [simp]: "keeps_order x x"
  by (simp add: keeps_order_def)

lemma keeps_order_trans: "keeps_order x y \<Longrightarrow> keeps_order y z \<Longrightarrow> keeps_order x z"
  by (auto simp: keeps_order_def)

lemma keeps_orders_same [simp]: "orders db' = orders db \<Longrightarrow> keeps_orders db db'"
  by (auto simp: keeps_orders_def intro!: bexI[of _ x for x])

lemma keeps_orders_trans: "keeps_orders a b \<Longrightarrow> keeps_orders b c \<Longrightarrow> keeps_orders a c"
  unfolding keeps_orders_def by (meson keeps_order_trans)

lemma keeps_orders_rewrite:
  assumes "orders db' = update_where P f (orders db)" and "\<And>x. x \<in> set (orders db) \<Longrightarrow> P x \<Longrightarrow> keeps_order x (f x)"
  shows "keeps_orders db db'"
  unfolding keeps_orders_def assms(1) set_update_where
proof
  fix x assume "x \<in> set (orders db)"
  then show "\<exists>y\<in>(\<lambda>x. if P x then f x else x) ` set (orders db). keeps_order x y"
    using assms(2) by (intro bexI[of _ "if P x then f x else x"]) auto
qed

lemma keeps_order_marks [simp]:
  "keeps_order r (mark_paid at r)" "keeps_order r (mark_payment_failed code at r)" "keeps_order r (mark_cancelled at r)"
  by (simp_all add: keeps_order_def) (simp_all add: mark_paid_def mark_payment_failed_def mark_cancelled_def)

lemma claim_keeps:
  assumes "claimGuestOrder digest_of oid code acct at db = Inr (db', r)" and "unique_on or_id (orders db)"
  shows "keeps_orders db db'"
proof -
  let ?f = "\<lambda>r. r\<lparr>or_claimedByAccountId := Some acct, or_claimedAt := Some at\<rparr>"
  from assms(1) obtain cur where cur: "cur \<in> set (orders db)" "or_id cur = oid" "or_claimedByAccountId cur = None"
    and db': "orders db' = update_where (\<lambda>x. or_id x = oid) ?f (orders db)"
    by (auto simp: claimGuestOrder_Inr update_order_Inr dest: find_Some_set)
  show ?thesis
  proof (rule keeps_orders_rewrite[OF db'])
    fix x assume "x \<in> set (orders db)" "or_id x = oid"
    then have "x = cur" using cur assms(2) unique_on_eq by metis
    then show "keeps_order x (?f x)" using cur(3) by (simp add: keeps_order_def)
  qed
qed

lemma result_keeps:
  assumes "record_result_on ord answer at ids db = Inr (db', out)"
  shows "keeps_orders db db'"
proof (cases answer)
  case (Payment_SUCCEEDED provider ref)
  show ?thesis
  proof (cases "or_lifecycle ord = Order_PAID")
    case True
    then show ?thesis using assms by (auto simp: Payment_SUCCEEDED chain_Inr_iff)
  next
    case False
    then obtain sale where "recordCompletedSale ord provider ref at ids db = Inr (db', sale)"
      using assms by (auto simp: Payment_SUCCEEDED chain_Inr_iff)
    then show ?thesis by (rule sale_is_whole) (rule keeps_orders_rewrite, assumption, simp)
  qed
next
  case (Payment_FAILED code)
  then obtain r where "recordPaymentFailure ord code at ids db = Inr (db', r)"
    using assms by (auto simp: chain_Inr_iff split: if_splits)
  then show ?thesis
    by (rule recordPaymentFailure_writes) (rule keeps_orders_rewrite[where f = "mark_payment_failed code at"]; simp)
qed

lemma order_step_keeps:
  assumes "order_step s s'" and "sales_inv s"
  shows "keeps_orders (fst s) (fst s')"
  using assms
proof (induction rule: order_step.induct)
  case (placed w digest_of i code v policyId db db' out held)
  from placeOrder_row[OF placed(1)] have "db' = db\<lparr>orders := orders db @ [plo_order out]\<rparr>" by metis
  then show ?case by (auto simp: keeps_orders_def intro!: bexI[of _ x for x])
next
  case (recorded ord held answer at ids db db' out)
  then show ?case using result_keeps by simp
next
  case (cancelled oid at db db' r held)
  then show ?case
    by (auto elim!: cancelOrder_writes intro!: keeps_orders_rewrite[where f = "mark_cancelled at" and P = "\<lambda>x. or_id x = oid"])
next
  case (claimed digest_of oid code acct at db db' r held)
  then show ?case using claim_keeps by (auto simp: sales_inv_def)
next
  case (advanced i to at db db' ob held)
  then show ?case by (auto simp: advanceProceedsObligation_Inr)
next
  case (authorized i sub oid kind db db' a held)
  then show ?case by (auto simp: authorizeReviewSubmission_Inr)
next
  case (elsewhere db db' held)
  then show ?case by (simp add: leaves_sales_alone_def)
qed simp

lemma order_steps_keep:
  assumes "order_step\<^sup>*\<^sup>* s s'" and "sales_inv s"
  shows "keeps_orders (fst s) (fst s')"
  using assms
proof (induction rule: rtranclp_induct)
  case (step y z)
  then show ?case using keeps_orders_trans order_step_keeps[OF step(2) order_steps_inv[OF step(1,4)]] by blast
qed simp

end
