(* ===== verification/Order_Serial.thy ===== *)
theory Order_Serial
  imports Order_History
begin

text \<open>
  Histories in which a payment result is recorded on the Order as it stands, with no step between the
  read and the transaction: then a completed sale and a \<open>PAID\<close> Order are the same thing.  Also the
  review authorities, whose invariant does not depend on how reads are timed.
\<close>

section \<open>Serial histories\<close>

inductive serial_step :: "'a sale_tables_scheme \<Rightarrow> 'a sale_tables_scheme \<Rightarrow> bool" where
  placed: "placeOrder w digest_of i code v policyId db = Inr (db', out) \<Longrightarrow> serial_step db db'"
| answered: "recordPaymentResult oid answer at ids db = Inr (db', out) \<Longrightarrow> serial_step db db'"
| cancelled: "cancelOrder oid at db = Inr (db', r) \<Longrightarrow> serial_step db db'"
| claimed: "claimGuestOrder digest_of oid code acct at db = Inr (db', r) \<Longrightarrow> serial_step db db'"
| advanced: "advanceProceedsObligation i to at db = Inr (db', ob) \<Longrightarrow> serial_step db db'"
| authorized: "authorizeReviewSubmission i sub oid kind db = Inr (db', a) \<Longrightarrow> serial_step db db'"
| elsewhere: "leaves_sales_alone db db' \<Longrightarrow> serial_step db db'"

definition sold_are_paid :: "'a sale_tables_scheme \<Rightarrow> bool" where
  "sold_are_paid db \<longleftrightarrow> (\<forall>oid. (\<exists>s\<in>set (snapshots db). sr_orderId s = Some oid) \<or>
       (\<exists>e\<in>set (purchaseEvidences db). pev_orderId e = oid) \<longrightarrow>
     (\<exists>ord\<in>set (orders db). or_id ord = oid \<and> or_lifecycle ord = Order_PAID))"

definition serial_inv :: "'a sale_tables_scheme \<Rightarrow> bool" where
  "serial_inv db \<longleftrightarrow> sales_inv (db, []) \<and> sold_are_paid db"

text \<open>A serial step is a step of the interleaved histories that starts with its own read.\<close>

lemma drop_reads: "sales_inv (db, held) \<Longrightarrow> sales_inv (db, [])"
  by (simp add: sales_inv_def reads_current_def)

lemma serial_step_sales:
  assumes "serial_step db db'" and "sales_inv (db, [])"
  shows "sales_inv (db', [])"
  using assms
proof (induction rule: serial_step.induct)
  case (answered oid answer at ids db db' out)
  then obtain ord where v: "BuyerPaymentResult answer" and r: "getOrder db oid = Inr ord"
    and ok: "record_result_on ord answer at ids db = Inr (db', out)"
    by (auto simp: recordPaymentResult_def chain_Inr_iff split: if_splits)
  have "order_step (db, [ord]) (db', [ord])" by (rule order_step.recorded[OF _ v ok]) simp
  then show ?case using order_step_inv[OF order_step.read[OF r] answered(2)] order_step_inv drop_reads by blast
qed (blast intro: order_step_inv order_step.intros)+

lemma paid_stays:
  assumes inv: "unique_on or_id (orders db)" "sold_are_paid db"
    and db': "orders db' = update_where (\<lambda>x. or_id x = oid) f (orders db)" "snapshots db' = snapshots db"
      "purchaseEvidences db' = purchaseEvidences db"
    and f: "\<And>x. or_id (f x) = or_id x" "\<And>x. x \<in> set (orders db) \<Longrightarrow> or_id x = oid \<Longrightarrow> or_lifecycle x = Order_PAID \<Longrightarrow>
      or_lifecycle (f x) = Order_PAID"
  shows "sold_are_paid db'"
  unfolding sold_are_paid_def db'(2,3)
proof (intro allI impI)
  fix k assume "(\<exists>s\<in>set (snapshots db). sr_orderId s = Some k) \<or> (\<exists>e\<in>set (purchaseEvidences db). pev_orderId e = k)"
  then obtain x where "x \<in> set (orders db)" "or_id x = k" "or_lifecycle x = Order_PAID"
    using inv(2) unfolding sold_are_paid_def by blast
  then show "\<exists>ord\<in>set (orders db'). or_id ord = k \<and> or_lifecycle ord = Order_PAID"
    unfolding db'(1) set_update_where using f by (intro bexI[of _ "if or_id x = oid then f x else x"]) auto
qed

lemma find_order_unique:
  assumes "unique_on or_id (orders db)" and "find_order db oid = Some r" and "x \<in> set (orders db)" and "or_id x = oid"
  shows "x = r"
  using assms find_order_set[OF assms(2)] unique_on_eq by metis

lemma sold_cong:
  "orders db' = orders db \<Longrightarrow> snapshots db' = snapshots db \<Longrightarrow> purchaseEvidences db' = purchaseEvidences db \<Longrightarrow>
   sold_are_paid db \<Longrightarrow> sold_are_paid db'"
  unfolding sold_are_paid_def by simp

lemma answered_sold:
  assumes inv: "unique_on or_id (orders db)" "sold_are_paid db" and ok: "recordPaymentResult oid answer at ids db = Inr (db', out)"
  shows "sold_are_paid db'"
proof -
  from ok obtain ord where r: "find_order db oid = Some ord" and act: "record_result_on ord answer at ids db = Inr (db', out)"
    by (auto simp: recordPaymentResult_def chain_Inr_iff split: if_splits)
  have oid: "or_id ord = oid" using r by (auto dest: find_order_set)
  show ?thesis
  proof (cases answer)
    case (Payment_FAILED code)
    then obtain x where "recordPaymentFailure ord code at ids db = Inr (db', x)"
      using act by (auto simp: chain_Inr_iff split: if_splits)
    then show ?thesis
    proof (rule recordPaymentFailure_writes)
      fix row ns assume pending: "or_lifecycle ord = PENDING_PAYMENT"
        and db': "db' = db\<lparr>orders := update_where (\<lambda>x. or_id x = or_id ord) (mark_payment_failed code at) (orders db),
           notices := notices db @ ns\<rparr>"
      show ?thesis
        by (rule paid_stays[OF inv, where f = "mark_payment_failed code at" and oid = oid])
           (use db' oid pending find_order_unique[OF inv(1) r] in auto)
    qed
  next
    case (Payment_SUCCEEDED provider ref)
    show ?thesis
    proof (cases "or_lifecycle ord = Order_PAID")
      case True
      then show ?thesis using act inv by (auto simp: Payment_SUCCEEDED chain_Inr_iff)
    next
      case False
      then obtain sale where "recordCompletedSale ord provider ref at ids db = Inr (db', sale)"
        using act by (auto simp: Payment_SUCCEEDED chain_Inr_iff)
      then show ?thesis
      proof (rule sale_is_whole)
        fix s row assume whole: "whole_sale db' ord s" and snaps: "snapshots db' = snapshots db @ [s]"
          and ords: "orders db' = update_where (\<lambda>x. or_id x = or_id ord) (mark_paid at) (orders db)"
          and evs: "purchaseEvidences db' = purchaseEvidences db @ [purchase_evidence_of (sid_evidence ids) ord at]"
        have bound: "sr_orderId s = Some oid" using whole by (simp add: whole_sale_def quoted_snapshot_def oid)
        have sold: "\<exists>x\<in>set (orders db'). or_id x = k \<and> or_lifecycle x = Order_PAID"
          if "k = oid \<or> (\<exists>x\<in>set (orders db). or_id x = k \<and> or_lifecycle x = Order_PAID)" for k
        proof -
          from that obtain x where x: "x \<in> set (orders db)" "or_id x = k" "k = oid \<or> or_lifecycle x = Order_PAID"
            using find_order_set[OF r] by blast
          then show ?thesis unfolding ords set_update_where oid
            by (intro bexI[of _ "if or_id x = oid then mark_paid at x else x"]) auto
        qed
        show ?thesis unfolding sold_are_paid_def snaps evs
          using inv(2) sold bound unfolding sold_are_paid_def by (auto simp: purchase_evidence_of_def oid)
      qed
    qed
  qed
qed

lemma serial_step_sold:
  assumes "serial_step db db'" and inv: "unique_on or_id (orders db)" "sold_are_paid db"
  shows "sold_are_paid db'"
  using assms
proof (induction rule: serial_step.induct)
  case (placed w digest_of i code v policyId db db' out)
  from placeOrder_row[OF placed(1)] have "db' = db\<lparr>orders := orders db @ [plo_order out]\<rparr>" by metis
  then show ?case using placed(3) by (auto simp: sold_are_paid_def)
next
  case (answered oid answer at ids db db' out)
  then show ?case using answered_sold by blast
next
  case (cancelled oid at db db' r)
  from cancelled(1) show ?case
  proof (rule cancelOrder_writes)
    fix row assume row: "find_order db oid = Some row" "or_lifecycle row \<in> {PENDING_PAYMENT, PAYMENT_FAILED}"
      and db': "db' = db\<lparr>orders := update_where (\<lambda>x. or_id x = oid) (mark_cancelled at) (orders db)\<rparr>"
    show ?case
      by (rule paid_stays[OF cancelled(2,3), where f = "mark_cancelled at" and oid = oid])
         (use row db' find_order_unique[OF cancelled(2) row(1)] in auto)
  qed
next
  case (claimed digest_of oid code acct at db db' r)
  then have db': "db' = db\<lparr>orders := update_where (\<lambda>x. or_id x = oid)
      (\<lambda>r. r\<lparr>or_claimedByAccountId := Some acct, or_claimedAt := Some at\<rparr>) (orders db)\<rparr>"
    by (auto simp: claimGuestOrder_Inr update_order_Inr)
  show ?case
    by (rule paid_stays[OF claimed(2,3), where f = "\<lambda>r. r\<lparr>or_claimedByAccountId := Some acct, or_claimedAt := Some at\<rparr>" and oid = oid])
       (simp_all add: db')
next
  case (advanced i to at db db' ob)
  then show ?case by (auto simp: advanceProceedsObligation_Inr intro: sold_cong)
next
  case (authorized i sub oid kind db db' a)
  then show ?case by (auto simp: authorizeReviewSubmission_Inr intro: sold_cong)
next
  case (elsewhere db db')
  then show ?case by (auto simp: leaves_sales_alone_def intro: sold_cong)
qed

lemma serial_steps_inv: "serial_step\<^sup>*\<^sup>* db db' \<Longrightarrow> serial_inv db \<Longrightarrow> serial_inv db'"
proof (induction rule: rtranclp_induct)
  case (step y z)
  then have "serial_inv y" by blast
  then show ?case
    using serial_step_sales[OF step(2)] serial_step_sold[OF step(2)] by (simp add: serial_inv_def sales_inv_def)
qed

section \<open>Review authorities\<close>

definition authority_grounded :: "'a sale_tables_scheme \<Rightarrow> review_authority \<Rightarrow> bool" where
  "authority_grounded db a \<longleftrightarrow> (\<exists>e\<in>set (purchaseEvidences db). pev_id e = rva_purchaseEvidenceId a \<and>
     pev_orderId e = rva_orderId a \<and> rva_submitter a = pev_submitter e \<and> rva_purchaseProvenance a = pev_purchaseProvenance e \<and>
     rva_reviewSubjectRef a = reviewSubjectRefFor (rva_reviewKind a) (pev_internalProductId e) (pev_sellerParticipantId e))"

definition reviews_inv :: "'a sale_tables_scheme \<Rightarrow> bool" where
  "reviews_inv db \<longleftrightarrow> unique_on (\<lambda>a. (rva_orderId a, rva_reviewKind a)) (reviewAuthorities db) \<and>
     (\<forall>a\<in>set (reviewAuthorities db). authority_grounded db a) \<and>
     (\<forall>e\<in>set (purchaseEvidences db). pev_purchaseProvenance e = VERIFIED)"

lemma reviews_frame:
  assumes "reviews_inv db" and "reviewAuthorities db' = reviewAuthorities db"
    and "purchaseEvidences db' = purchaseEvidences db @ es" and "\<forall>e\<in>set es. pev_purchaseProvenance e = VERIFIED"
  shows "reviews_inv db'"
  using assms by (auto simp: reviews_inv_def authority_grounded_def)

lemma order_step_reviews:
  assumes "order_step s s'" and "reviews_inv (fst s)"
  shows "reviews_inv (fst s')"
  using assms
proof (induction rule: order_step.induct)
  case (placed w digest_of i code v policyId db db' out held)
  from placeOrder_row[OF placed(1)] have "db' = db\<lparr>orders := orders db @ [plo_order out]\<rparr>" by metis
  then show ?case using placed(2) reviews_frame[of db db' "[]"] by simp
next
  case (recorded ord held answer at ids db db' out)
  show ?case
  proof (cases answer)
    case (Payment_FAILED code)
    then obtain x where "recordPaymentFailure ord code at ids db = Inr (db', x)"
      using recorded(3) by (auto simp: chain_Inr_iff split: if_splits)
    then show ?thesis
      by (rule recordPaymentFailure_writes) (use recorded(4) reviews_frame[of db db' "[]"] in simp)
  next
    case (Payment_SUCCEEDED provider ref)
    show ?thesis
    proof (cases "or_lifecycle ord = Order_PAID")
      case True
      then show ?thesis using recorded by (auto simp: Payment_SUCCEEDED chain_Inr_iff)
    next
      case False
      then obtain sale where "recordCompletedSale ord provider ref at ids db = Inr (db', sale)"
        using recorded(3) by (auto simp: Payment_SUCCEEDED chain_Inr_iff)
      then show ?thesis
        by (rule sale_is_whole)
           (use recorded(4) reviews_frame[of db db' "[purchase_evidence_of (sid_evidence ids) ord at]"] in \<open>simp add: purchase_evidence_of_def\<close>)
    qed
  qed
next
  case (cancelled oid at db db' r held)
  from cancelled(1) show ?case
    by (rule cancelOrder_writes) (use cancelled(2) reviews_frame[of db db' "[]"] in simp)
next
  case (claimed digest_of oid code acct at db db' r held)
  then show ?case using reviews_frame[of db db' "[]"] by (auto simp: claimGuestOrder_Inr update_order_Inr)
next
  case (advanced i to at db db' ob held)
  then show ?case using reviews_frame[of db db' "[]"] by (auto simp: advanceProceedsObligation_Inr)
next
  case (authorized i sub oid kind db db' a held)
  then obtain e where e: "find_purchase_evidence db oid = Some e" and free: "find_review_authority db oid kind = None"
    and a: "a = review_authority_of i sub oid kind e" and db': "db' = db\<lparr>reviewAuthorities := reviewAuthorities db @ [a]\<rparr>"
    by (auto simp: authorizeReviewSubmission_Inr)
  have "e \<in> set (purchaseEvidences db)" "pev_orderId e = oid" using e by (auto simp: find_purchase_evidence_def dest: find_Some_set)
  then have "authority_grounded db' a" by (auto simp: authority_grounded_def a db' review_authority_of_def)
  moreover have "(rva_orderId a, rva_reviewKind a) \<notin> (\<lambda>a. (rva_orderId a, rva_reviewKind a)) ` set (reviewAuthorities db)"
    using free by (auto simp: a review_authority_of_def find_review_authority_def find_None_iff)
  ultimately show ?case using authorized(2) by (auto simp: reviews_inv_def authority_grounded_def db')
next
  case (elsewhere db db' held)
  then show ?case using reviews_frame[of db db' "[]"] by (simp add: leaves_sales_alone_def)
qed simp

lemma order_steps_reviews:
  "order_step\<^sup>*\<^sup>* s s' \<Longrightarrow> reviews_inv (fst s) \<Longrightarrow> reviews_inv (fst s')"
  by (induction rule: rtranclp_induct) (auto intro: order_step_reviews)

section \<open>Openings\<close>

text \<open>A shop before its first Order.\<close>

definition shop_opens :: "'a sale_tables_scheme \<Rightarrow> bool" where
  "shop_opens db \<longleftrightarrow> orders db = [] \<and> snapshots db = [] \<and> purchaseEvidences db = [] \<and> reviewAuthorities db = []"

lemma shop_opens_inv:
  assumes "shop_opens db"
  shows "sales_inv (db, [])" and "serial_inv db" and "reviews_inv db"
  using assms
  by (simp_all add: shop_opens_def serial_inv_def sales_inv_def sold_are_paid_def reviews_inv_def guests_known_def bound_once_def
      evidenced_once_def paid_are_whole_def reads_current_def)

text \<open>Serial histories are interleaved histories, with the reads left behind.\<close>

lemma serial_interleaved:
  assumes "serial_step\<^sup>*\<^sup>* db db'"
  shows "\<exists>held'. order_step\<^sup>*\<^sup>* (db, held) (db', held')"
  using assms
proof (induction rule: rtranclp_induct)
  case (step y z)
  then obtain h where h: "order_step\<^sup>*\<^sup>* (db, held) (y, h)" by blast
  from step(2) have "\<exists>h'. order_step\<^sup>*\<^sup>* (y, h) (z, h')"
  proof (cases rule: serial_step.cases)
    case (answered oid answer at ids out)
    then obtain ord where v: "BuyerPaymentResult answer" and r: "getOrder y oid = Inr ord"
      and ok: "record_result_on ord answer at ids y = Inr (z, out)"
      by (auto simp: recordPaymentResult_def chain_Inr_iff split: if_splits)
    have "order_step (y, ord # h) (z, ord # h)" by (rule order_step.recorded[OF _ v ok]) simp
    then show ?thesis using order_step.read[OF r, of h] by (meson rtranclp.rtrancl_into_rtrancl rtranclp.rtrancl_refl)
  qed (blast intro: order_step.intros)+
  with h show ?case by (meson rtranclp_trans)
qed blast

end
