(* ===== verification/Example_Order.thy ===== *)
theory Example_Order
  imports Order_Serial Example_Sale
begin

text \<open>
  A shop on which the Order properties are exercised: the Listings of \<open>Example_Sale\<close>, a guest buying
  the seller-direct one inside its sale window and an account holder buying the promoted one.
\<close>

definition ex_open_shop :: sale_tables where
  "ex_open_shop = \<lparr>commercialPolicies = commercialPolicies ex_books, policyVersions = policyVersions ex_books,
     listings = listings ex_books, listingVersions = listingVersions ex_books,
     offerVersions = offerVersions ex_books, promotionAcceptances = [], promotionAuthorizations = [],
     snapshots = [], settlements = [], obligations = [], recoveries = [], reversals = [],
     actingAccounts = [\<lparr>acc_id = ''acct'', acc_status = Account_ACTIVE, acc_emailVerifiedAt = Some 0, acc_emailVerifiedVia = None\<rparr>],
     entitlements = [], entitlementActs = [],
     participants = [\<lparr>pa_id = ''sell'', pa_accountId = ''own'', pa_status = Part_ACTIVE, pa_marketplaceName = Some ''Ada''\<rparr>,
       \<lparr>pa_id = ''prom'', pa_accountId = ''pro'', pa_status = Part_ACTIVE, pa_marketplaceName = Some ''Bob''\<rparr>],
     notices = [], roleAssignments = [], activations = [], restrictions = [], suspensions = [], closures = [],
     riskReviewIds = [], activeMarketplacePolicyVersion = Some ''1.3.0'',
     sellerRefundPolicies = [], refundPolicyVersions = [], feePolicies = [], feePolicyVersions = [], orders = [],
     taxTransactions = [], refunds = [], refundLines = [], taxReversals = [], disputes = [], disputeEvents = [],
     chargebackFees = [], taxEvidences = [], purchaseEvidences = [], reviewAuthorities = []\<rparr>"

definition ex_reads :: checkout_reads where
  "ex_reads = \<lparr>cor_requirePurchasable = (\<lambda>_ _ _. Inr ()), cor_promotedCommerce = (\<lambda>_ _ _. Inl ZodError),
     cor_offerSeller = (\<lambda>_. ''sell''), cor_storefrontId = (\<lambda>_. ''sf'')\<rparr>"

definition ex_digest :: "string \<Rightarrow> string" where
  "ex_digest code = take 64 (code @ replicate 64 (CHR ''0''))"

definition ex_basket :: "ident \<Rightarrow> ident option \<Rightarrow> checkout_input" where
  "ex_basket lid buyer = \<lparr>coi_internalListingId = lid, coi_buyerAccountId = buyer, coi_tax = 500, coi_shipping = 300,
     coi_other = 0, coi_currency = ''USD'', coi_productAvailable = True, coi_placedAt = 140\<rparr>"

definition ex_one :: sale_tables where
  "ex_one = after (placeOrder ex_reads ex_digest ''o1'' ''a1'' (ex_basket ''l1'' None) ''pol'' ex_open_shop) ex_open_shop"

definition ex_two :: sale_tables where
  "ex_two = after (placeOrder ex_reads ex_digest ''o2'' ''a2'' (ex_basket ''l2'' (Some ''acct'')) ''pol'' ex_one) ex_open_shop"

definition ex_evidence :: tax_evidence_row where
  "ex_evidence = \<lparr>txe_id = ''te1'', txe_orderId = ''o1'', txe_provider = ''STRIPE_TAX'', txe_providerMode = Some ''TEST'',
     txe_providerCalculationRef = ''calc_1'', txe_providerCalculationExpiresAt = Some 9000, txe_currency = ''USD'',
     txe_taxAmount = 500, txe_basisAmount = 8300, txe_treatment = TAXABLE, txe_jurisdictionCode = None,
     txe_productSourceRecordId = Some ''ps'', txe_productSourceRecordVersion = Some ''1'',
     txe_productTaxClassification = Some PHYSICAL_GOOD, txe_providerTaxCode = Some ''txcd'', txe_providerConfigVersion = Some ''v1'',
     txe_calculatedAt = 130, txe_recordedAt = 130, txe_buyerSnapshotId = None\<rparr>"

definition ex_taxed :: sale_tables where
  "ex_taxed = ex_two\<lparr>taxEvidences := [ex_evidence]\<rparr>"

definition ex_sale_ids :: "string \<Rightarrow> sale_ids" where
  "ex_sale_ids k = \<lparr>sid_snapshot = ''s'' @ k, sid_obligation = (\<lambda>n. ''b'' @ k @ replicate n (CHR ''i'')), sid_taxTransaction = ''t'' @ k,
     sid_evidence = ''e'' @ k, sid_notice = (\<lambda>n. ''n'' @ k @ replicate n (CHR ''i''))\<rparr>"

definition ex_paid :: sale_tables where
  "ex_paid = after (recordPaymentResult ''o1'' (Payment_SUCCEEDED ''STRIPE'' ''pi_1'') 150 (ex_sale_ids ''1'') ex_taxed) ex_open_shop"

definition ex_both :: sale_tables where
  "ex_both = after (recordPaymentResult ''o2'' (Payment_SUCCEEDED ''STRIPE'' ''pi_2'') 160 (ex_sale_ids ''2'') ex_paid) ex_open_shop"

definition ex_taken :: sale_tables where
  "ex_taken = after (claimGuestOrder ex_digest ''o1'' ''a1'' ''acct'' 170 ex_both) ex_open_shop"

definition ex_reviewing :: sale_tables where
  "ex_reviewing = after (authorizeReviewSubmission ''ra1'' ''rs1'' ''o1'' SELLER_REVIEW ex_taken) ex_open_shop"

definition ex_payable :: sale_tables where
  "ex_payable = after (advanceProceedsObligation ''b2i'' ELIGIBLE 200 ex_reviewing) ex_open_shop"

lemma ex_one_ok: "\<exists>r. placeOrder ex_reads ex_digest ''o1'' ''a1'' (ex_basket ''l1'' None) ''pol'' ex_open_shop = Inr (ex_one, r)"
  unfolding ex_one_def by (rule is_ok_after) code_simp

lemma ex_two_ok: "\<exists>r. placeOrder ex_reads ex_digest ''o2'' ''a2'' (ex_basket ''l2'' (Some ''acct'')) ''pol'' ex_one = Inr (ex_two, r)"
  unfolding ex_two_def by (rule is_ok_after) code_simp

lemma ex_paid_ok:
  "\<exists>r. recordPaymentResult ''o1'' (Payment_SUCCEEDED ''STRIPE'' ''pi_1'') 150 (ex_sale_ids ''1'') ex_taxed = Inr (ex_paid, r)"
  unfolding ex_paid_def by (rule is_ok_after) code_simp

lemma ex_both_ok:
  "\<exists>r. recordPaymentResult ''o2'' (Payment_SUCCEEDED ''STRIPE'' ''pi_2'') 160 (ex_sale_ids ''2'') ex_paid = Inr (ex_both, r)"
  unfolding ex_both_def by (rule is_ok_after) code_simp

lemma ex_taken_ok: "\<exists>r. claimGuestOrder ex_digest ''o1'' ''a1'' ''acct'' 170 ex_both = Inr (ex_taken, r)"
  unfolding ex_taken_def by (rule is_ok_after) code_simp

lemma ex_reviewing_ok: "\<exists>r. authorizeReviewSubmission ''ra1'' ''rs1'' ''o1'' SELLER_REVIEW ex_taken = Inr (ex_reviewing, r)"
  unfolding ex_reviewing_def by (rule is_ok_after) code_simp

lemma ex_payable_ok: "\<exists>r. advanceProceedsObligation ''b2i'' ELIGIBLE 200 ex_reviewing = Inr (ex_payable, r)"
  unfolding ex_payable_def by (rule is_ok_after) code_simp

lemma ex_open_shop_opens: "shop_opens ex_open_shop"
  by (simp add: shop_opens_def ex_open_shop_def)

lemma ex_serial: "serial_step\<^sup>*\<^sup>* ex_open_shop ex_both"
proof -
  from ex_one_ok obtain r1 where r1: "placeOrder ex_reads ex_digest ''o1'' ''a1'' (ex_basket ''l1'' None) ''pol'' ex_open_shop = Inr (ex_one, r1)" ..
  from ex_two_ok obtain r2 where r2: "placeOrder ex_reads ex_digest ''o2'' ''a2'' (ex_basket ''l2'' (Some ''acct'')) ''pol'' ex_one = Inr (ex_two, r2)" ..
  from ex_paid_ok obtain r3 where
    r3: "recordPaymentResult ''o1'' (Payment_SUCCEEDED ''STRIPE'' ''pi_1'') 150 (ex_sale_ids ''1'') ex_taxed = Inr (ex_paid, r3)" ..
  from ex_both_ok obtain r4 where
    r4: "recordPaymentResult ''o2'' (Payment_SUCCEEDED ''STRIPE'' ''pi_2'') 160 (ex_sale_ids ''2'') ex_paid = Inr (ex_both, r4)" ..
  have quiet: "leaves_sales_alone ex_two ex_taxed" by (simp add: leaves_sales_alone_def ex_taxed_def)
  note a = r_into_rtranclp[of serial_step, OF serial_step.placed[OF r1]]
  note b = rtranclp.rtrancl_into_rtrancl[OF a serial_step.placed[OF r2]]
  note c = rtranclp.rtrancl_into_rtrancl[OF b serial_step.elsewhere[OF quiet]]
  note d = rtranclp.rtrancl_into_rtrancl[OF c serial_step.answered[OF r3]]
  show ?thesis by (rule rtranclp.rtrancl_into_rtrancl[OF d serial_step.answered[OF r4]])
qed

end
