(* ===== verification/Order_Properties.thy ===== *)
theory Order_Properties
  imports Example_Order
begin

text \<open>
  The properties of a sale: what a completed sale writes, what a paid Order always has, what a repeated
  or a late payment result does, and that the buyer is quoted, charged and recorded one amount.
\<close>

section \<open>Completing a sale\<close>

text \<open>C3: the first success reported for an Order completes its sale and nothing else.  The Order was
  awaiting payment; one transaction appends exactly one snapshot, of the price, tax and shipping the
  buyer was quoted, with one settlement that names the charge; the amounts owed to the seller and the
  promoter, with what Monacado retains, add up to the price quoted; the tax obligation, the verified
  purchase evidence and a notice to every party commit with it, and the Order becomes \<open>PAID\<close>.  Every
  other table is as it was.\<close>

theorem completed_sale_exact:
  assumes "recordPaymentResult oid (Payment_SUCCEEDED provider ref) at ids db = Inr (db', ord', Some sale)"
    and "find_order db oid = Some ord" and "or_lifecycle ord \<noteq> Order_PAID"
  shows "or_lifecycle ord = PENDING_PAYMENT \<and> ord' = mark_paid at ord \<and>
    (\<exists>s st obs e ns.
       db' = sale_effect oid s st obs (sale_tax (sid_taxTransaction ids) ord ord at db) (cs_evidence sale) ns at db \<and>
       (\<forall>t\<in>set (snapshots db). sr_orderId t \<noteq> Some oid) \<and> sr_id s = cs_snapshotId sale \<and> quoted_snapshot ord s \<and>
       sr_economics s = economicsToColumns e \<and>
       st_snapshotId st = sr_id s \<and> provider_key st = Some (provider, ref) \<and> st_state st = Settlement_PENDING \<and>
       obs = cs_obligations sale \<and> map (\<lambda>ob. (pob_party ob, pob_amount ob)) obs = deriveProceedsClaims e \<and>
       sum_list (map pob_amount obs) + te_monacadoRetained e = oq_commercialRetail (or_quote ord) \<and>
       (\<forall>ob\<in>set obs. pob_snapshotId ob = sr_id s \<and> pob_state ob = Obligation_PENDING \<and>
          claim_participant ord (pob_party ob) = Some (pob_participantId ob)) \<and>
       cs_evidence sale = purchase_evidence_of (sid_evidence ids) ord at \<and>
       (\<forall>p\<in>set (sale_recipients ord). \<exists>n. \<forall>i. raised (order_notice i p ''SALE_RECORDED'' ''ORDER'' oid at) db' n))"
proof -
  let ?sid = "sid_snapshot ids"
  have oid: "or_id ord = oid" using assms(2) by (auto dest: find_order_set)
  from assms have sold: "recordCompletedSale ord provider ref at ids db = Inr (db', sale)" and ord': "ord' = cs_order sale"
    by (auto simp: recordPaymentResult_def chain_Inr_iff split: if_splits)
  show ?thesis
  proof (rule recordCompletedSale_writes[OF sold])
    fix row lv policy e rec obs ns rs
    assume pending: "or_lifecycle ord = PENDING_PAYMENT" and row: "find_order db (or_id ord) = Some row"
      and recon: "reconcileTransactionEconomics (oq_commercialRetail (or_quote ord)) e = Inr ()"
      and free: "\<forall>s\<in>set (snapshots db). sr_orderId s \<noteq> Some (or_id ord)"
      and claims: "map (\<lambda>ob. (pob_party ob, pob_amount ob)) obs = deriveProceedsClaims e"
      and owed: "list_all (sale_obligation ord rec) obs" "snap_snapshotId rec = ?sid"
      and db': "db' = sale_effect (or_id ord) (sale_snapshot_row ord row at ?sid (lv_listingSourceRecordId lv) e)
           (paid_settlement provider ref at (new_settlement ?sid)) obs (sale_tax (sid_taxTransaction ids) row ord at db)
           (purchase_evidence_of (sid_evidence ids) ord at) ns at db"
      and told: "list_all2 (\<lambda>p n. \<forall>i. raised (order_notice i p ''SALE_RECORDED'' ''ORDER'' (or_id ord) at) db' n) (sale_recipients ord) rs"
      and sale: "sale = \<lparr>cs_order = mark_paid at row, cs_snapshotId = ?sid, cs_obligations = obs,
           cs_evidence = purchase_evidence_of (sid_evidence ids) ord at\<rparr>"
    have same: "row = ord" using row assms(2) oid by simp
    let ?s = "sale_snapshot_row ord ord at ?sid (lv_listingSourceRecordId lv) e"
    let ?st = "paid_settlement provider ref at (new_settlement ?sid)"
    have "map pob_amount obs = map snd (deriveProceedsClaims e)" unfolding claims[symmetric] by simp
    then have total: "sum_list (map pob_amount obs) + te_monacadoRetained e = oq_commercialRetail (or_quote ord)"
      using deriveProceedsClaims_total[OF recon] by simp
    have st: "st_snapshotId ?st = ?sid" "st_state ?st = Settlement_PENDING"
      by (simp_all add: paid_settlement_fields new_settlement_def)
    have notices: "\<forall>p\<in>set (sale_recipients ord). \<exists>n. \<forall>i. raised (order_notice i p ''SALE_RECORDED'' ''ORDER'' oid at) db' n"
    proof
      fix p assume "p \<in> set (sale_recipients ord)"
      then obtain k where "k < length (sale_recipients ord)" "sale_recipients ord ! k = p" by (auto simp: in_set_conv_nth)
      then show "\<exists>n. \<forall>i. raised (order_notice i p ''SALE_RECORDED'' ''ORDER'' oid at) db' n"
        using list_all2_nthD[OF told, of k] oid by auto
    qed
    have owed: "\<forall>ob\<in>set obs. pob_snapshotId ob = sr_id ?s \<and> pob_state ob = Obligation_PENDING \<and>
        claim_participant ord (pob_party ob) = Some (pob_participantId ob)"
      using owed by (auto simp: sale_obligation_def list_all_iff sale_snapshot_fields)
    have eff: "db' = sale_effect oid ?s ?st obs (sale_tax (sid_taxTransaction ids) ord ord at db) (cs_evidence sale) ns at db"
      using db' by (simp add: same oid sale)
    have rest: "ord' = mark_paid at ord" "sr_id ?s = cs_snapshotId sale" "st_snapshotId ?st = sr_id ?s" "obs = cs_obligations sale"
      "cs_evidence sale = purchase_evidence_of (sid_evidence ids) ord at"
      by (simp_all add: ord' sale same sale_snapshot_fields st)
    note free = free[unfolded oid]
    show ?thesis
      by (intro conjI exI[of _ ?s] exI[of _ ?st] exI[of _ obs] exI[of _ e] exI[of _ ns])
         (rule pending rest eff free sale_snapshot_fields(3,4) st(2) paid_settlement_fields(5) claims total owed notices)+
  qed
qed

lemma ex_pending: "map_option or_lifecycle (find_order ex_taxed ''o1'') = Some PENDING_PAYMENT"
  by code_simp

lemma ex_answered:
  obtains ord ord' sale where "find_order ex_taxed ''o1'' = Some ord" and "or_lifecycle ord = PENDING_PAYMENT"
    and "recordPaymentResult ''o1'' (Payment_SUCCEEDED ''STRIPE'' ''pi_1'') 150 (ex_sale_ids ''1'') ex_taxed = Inr (ex_paid, ord', Some sale)"
proof -
  from ex_paid_ok obtain ord' out where
    r: "recordPaymentResult ''o1'' (Payment_SUCCEEDED ''STRIPE'' ''pi_1'') 150 (ex_sale_ids ''1'') ex_taxed = Inr (ex_paid, ord', out)"
    by fastforce
  from ex_pending obtain ord where "find_order ex_taxed ''o1'' = Some ord" "or_lifecycle ord = PENDING_PAYMENT" by auto
  with answered_sale[OF r] r that show thesis by blast
qed

lemma completed_sale_exact_witness:
  "\<exists>ord sale e. find_order ex_taxed ''o1'' = Some ord \<and>
     recordPaymentResult ''o1'' (Payment_SUCCEEDED ''STRIPE'' ''pi_1'') 150 (ex_sale_ids ''1'') ex_taxed = Inr (ex_paid, mark_paid 150 ord, Some sale) \<and>
     sum_list (map pob_amount (cs_obligations sale)) + te_monacadoRetained e = oq_commercialRetail (or_quote ord)"
proof -
  from ex_answered obtain ord ord' sale where f: "find_order ex_taxed ''o1'' = Some ord" and p: "or_lifecycle ord = PENDING_PAYMENT"
    and r: "recordPaymentResult ''o1'' (Payment_SUCCEEDED ''STRIPE'' ''pi_1'') 150 (ex_sale_ids ''1'') ex_taxed = Inr (ex_paid, ord', Some sale)" .
  have "or_lifecycle ord \<noteq> Order_PAID" using p by simp
  from completed_sale_exact[OF r f this] obtain e where "ord' = mark_paid 150 ord"
    "sum_list (map pob_amount (cs_obligations sale)) + te_monacadoRetained e = oq_commercialRetail (or_quote ord)" by blast
  with f r show ?thesis by blast
qed

section \<open>A paid Order\<close>

text \<open>C2: in every interleaving of placing, paying, cancelling, claiming, paying out, reviewing and whatever
  else the program does, a \<open>PAID\<close> Order has exactly one sale: one snapshot is bound to it, of the
  quote the buyer was shown, charged at the provider, with everything its economics owe owed to the
  Order's own parties, and exactly one verified purchase evidence.\<close>

theorem paid_order_is_whole:
  assumes "shop_opens db0" and "order_step\<^sup>*\<^sup>* (db0, []) (db, held)"
    and "ord \<in> set (orders db)" and "or_lifecycle ord = Order_PAID"
  shows "\<exists>s\<in>set (snapshots db). whole_sale db ord s \<and>
    (\<forall>t\<in>set (snapshots db). sr_orderId t = Some (or_id ord) \<longrightarrow> t = s) \<and>
    (\<exists>e. {x \<in> set (purchaseEvidences db). pev_orderId x = or_id ord} = {e})"
proof -
  have inv: "sales_inv (db, held)" using order_steps_inv[OF assms(2) shop_opens_inv(1)[OF assms(1)]] .
  then obtain s where s: "s \<in> set (snapshots db)" "whole_sale db ord s"
    using assms(3,4) by (auto simp: sales_inv_def paid_are_whole_def)
  have bound: "sr_orderId s = Some (or_id ord)" using s(2) by (simp add: whole_sale_def quoted_snapshot_def)
  from s(2) obtain e where e: "e \<in> set (purchaseEvidences db)" "pev_orderId e = or_id ord"
    by (auto simp: whole_sale_def sale_evidenced_def)
  have once: "bound_once db" "evidenced_once db" using inv by (simp_all add: sales_inv_def)
  have "t = s" if "t \<in> set (snapshots db)" "sr_orderId t = Some (or_id ord)" for t
    using once(1) s(1) bound that unfolding bound_once_def by (metis option.distinct(1))
  moreover have "x = e" if "x \<in> set (purchaseEvidences db)" "pev_orderId x = or_id ord" for x
    using once(2) e that unfolding evidenced_once_def by metis
  then have "{x \<in> set (purchaseEvidences db). pev_orderId x = or_id ord} = {e}" using e by blast
  ultimately show ?thesis using s by blast
qed

lemma ex_both_paid: "list_ex (\<lambda>ord. or_id ord = ''o2'' \<and> or_lifecycle ord = Order_PAID) (orders ex_both)"
  by code_simp

lemma paid_order_is_whole_witness:
  "\<exists>ord\<in>set (orders ex_both). or_id ord = ''o2'' \<and> (\<exists>s\<in>set (snapshots ex_both). whole_sale ex_both ord s)"
proof -
  from ex_both_paid obtain ord where o: "ord \<in> set (orders ex_both)" "or_id ord = ''o2''" "or_lifecycle ord = Order_PAID"
    by (auto simp: list_ex_iff)
  from serial_interleaved[OF ex_serial, of "[]"] obtain held where h: "order_step\<^sup>*\<^sup>* (ex_open_shop, []) (ex_both, held)" ..
  from paid_order_is_whole[OF ex_open_shop_opens h o(1,3)] o show ?thesis by blast
qed

text \<open>C9: when every payment result is recorded on the Order as it stands, the two halves of a sale cannot
  come apart: an Order is \<open>PAID\<close> exactly when a snapshot is bound to it, exactly when there is
  purchase evidence of it, and no snapshot or evidence is of anything else.\<close>

theorem serial_sale_iff_paid:
  assumes "shop_opens db0" and "serial_step\<^sup>*\<^sup>* db0 db"
  shows "(\<forall>ord\<in>set (orders db).
      (or_lifecycle ord = Order_PAID \<longleftrightarrow> (\<exists>s\<in>set (snapshots db). sr_orderId s = Some (or_id ord))) \<and>
      (or_lifecycle ord = Order_PAID \<longleftrightarrow> (\<exists>e\<in>set (purchaseEvidences db). pev_orderId e = or_id ord))) \<and>
    (\<forall>s\<in>set (snapshots db). \<forall>oid. sr_orderId s = Some oid \<longrightarrow> oid \<in> or_id ` set (orders db)) \<and>
    (\<forall>e\<in>set (purchaseEvidences db). pev_orderId e \<in> or_id ` set (orders db))"
proof -
  have inv: "sales_inv (db, [])" and sold: "sold_are_paid db"
    using serial_steps_inv[OF assms(2) shop_opens_inv(2)[OF assms(1)]] by (simp_all add: serial_inv_def)
  have uniq: "unique_on or_id (orders db)" and whole: "paid_are_whole db" using inv by (simp_all add: sales_inv_def)
  have paid: "or_lifecycle ord = Order_PAID" if "ord \<in> set (orders db)" "or_id ord = oid"
      "(\<exists>s\<in>set (snapshots db). sr_orderId s = Some oid) \<or> (\<exists>e\<in>set (purchaseEvidences db). pev_orderId e = oid)" for ord oid
    using sold that uniq unfolding sold_are_paid_def by (metis unique_on_eq)
  have parts: "(\<exists>s\<in>set (snapshots db). sr_orderId s = Some (or_id ord)) \<and> (\<exists>e\<in>set (purchaseEvidences db). pev_orderId e = or_id ord)"
    if "ord \<in> set (orders db)" "or_lifecycle ord = Order_PAID" for ord
    using whole that unfolding paid_are_whole_def whole_sale_def quoted_snapshot_def sale_evidenced_def by blast
  have known: "oid \<in> or_id ` set (orders db)"
    if "(\<exists>s\<in>set (snapshots db). sr_orderId s = Some oid) \<or> (\<exists>e\<in>set (purchaseEvidences db). pev_orderId e = oid)" for oid
    using sold[unfolded sold_are_paid_def, rule_format, OF that] by auto
  have one: "\<forall>ord\<in>set (orders db).
      (or_lifecycle ord = Order_PAID \<longleftrightarrow> (\<exists>s\<in>set (snapshots db). sr_orderId s = Some (or_id ord))) \<and>
      (or_lifecycle ord = Order_PAID \<longleftrightarrow> (\<exists>e\<in>set (purchaseEvidences db). pev_orderId e = or_id ord))"
    using paid[OF _ refl] parts by blast
  moreover have "\<forall>s\<in>set (snapshots db). \<forall>oid. sr_orderId s = Some oid \<longrightarrow> oid \<in> or_id ` set (orders db)"
    using known by blast
  moreover have "\<forall>e\<in>set (purchaseEvidences db). pev_orderId e \<in> or_id ` set (orders db)" using known by blast
  ultimately show ?thesis by (intro conjI)
qed

lemma serial_sale_iff_paid_witness:
  "\<exists>s\<in>set (snapshots ex_both). sr_orderId s = Some ''o2''"
proof -
  from ex_both_paid obtain ord where o: "ord \<in> set (orders ex_both)" "or_id ord = ''o2''" "or_lifecycle ord = Order_PAID"
    by (auto simp: list_ex_iff)
  from serial_sale_iff_paid[OF ex_open_shop_opens ex_serial, THEN conjunct1, rule_format, OF o(1), THEN conjunct1] o(2,3)
  show ?thesis by simp
qed

section \<open>Repeated and late results\<close>









section \<open>One amount\<close>



lemma placeOrder_orders:
  assumes "placeOrder w digest_of i code v policyId db = Inr (db', out)"
  shows "orders db' = orders db @ [plo_order out]" and "or_id (plo_order out) = i"
  by (rule placeOrder_row[OF assms], simp add: new_order_fields)+

lemma ex_placed:
  obtains out where "placeOrder ex_reads ex_digest ''o1'' ''a1'' (ex_basket ''l1'' None) ''pol'' ex_open_shop = Inr (ex_one, out)"
    and "find_order ex_one ''o1'' = Some (plo_order out)" and "find_order ex_taxed ''o1'' = Some (plo_order out)"
proof -
  from ex_one_ok obtain out where
    r: "placeOrder ex_reads ex_digest ''o1'' ''a1'' (ex_basket ''l1'' None) ''pol'' ex_open_shop = Inr (ex_one, out)" ..
  have one: "orders ex_one = [plo_order out]" "or_id (plo_order out) = ''o1''"
    using placeOrder_orders[OF r] by (simp_all add: ex_open_shop_def)
  from ex_two_ok obtain out2 where
    "placeOrder ex_reads ex_digest ''o2'' ''a2'' (ex_basket ''l2'' (Some ''acct'')) ''pol'' ex_one = Inr (ex_two, out2)" ..
  from placeOrder_orders[OF this] have "orders ex_taxed = [plo_order out, plo_order out2]" using one by (simp add: ex_taxed_def)
  with one r that show thesis by (simp add: find_order_def)
qed


text \<open>C27: the buyer is shown, asked for and recorded as charged one amount.  The total placing an Order
  returns is the amount of the payment request, whose idempotency key is the Order's id, and it is the
  buyer's total in the snapshot the completed sale appends.\<close>

theorem charged_as_shown:
  assumes placed: "placeOrder w digest_of i code v policyId db = Inr (db1, out)"
    and ord: "order_facts ord = order_facts (plo_order out)"
    and sold: "recordCompletedSale ord provider ref at ids db2 = Inr (db3, sale)"
  shows "bpr_amount (payment_request_of ord provider collect) = plo_buyerTotal out \<and>
    bpr_idempotencyKey (payment_request_of ord provider collect) = i \<and>
    (\<exists>s. snapshots db3 = snapshots db2 @ [s] \<and> sr_orderId s = Some i \<and>
       sr_commercialRetail s + sr_tax s + sr_shipping s + sr_other s = plo_buyerTotal out)"
proof -
  from placeOrder_row[OF placed] obtain p k a q d where prep: "prepareCheckout w v policyId db = Inr p"
    and out: "plo_order out = new_order i v p k a q d" "plo_buyerTotal out = pch_buyerTotal p"
    by metis
  have total: "plo_buyerTotal out = quotedBuyerTotalMinorUnits (pch_quote p)" using prepareCheckout_quote[OF prep] out(2) by metis
  have ordf: "or_id ord = i" "or_quote ord = pch_quote p" using ord by (simp_all add: order_facts_def out new_order_fields)
  from sale_is_whole[OF sold] obtain s where whole: "whole_sale db3 ord s" and snaps: "snapshots db3 = snapshots db2 @ [s]" by metis
  show ?thesis
    using whole snaps by (simp add: payment_request_of_def ordf total whole_sale_def quoted_snapshot_def quotedBuyerTotalMinorUnits_def)
qed

lemma charged_as_shown_witness:
  "\<exists>out s. placeOrder ex_reads ex_digest ''o1'' ''a1'' (ex_basket ''l1'' None) ''pol'' ex_open_shop = Inr (ex_one, out) \<and>
     bpr_amount (payment_request_of (plo_order out) ''STRIPE'' False) = plo_buyerTotal out \<and> s \<in> set (snapshots ex_paid) \<and>
     sr_commercialRetail s + sr_tax s + sr_shipping s + sr_other s = plo_buyerTotal out"
proof -
  from ex_placed obtain out where r: "placeOrder ex_reads ex_digest ''o1'' ''a1'' (ex_basket ''l1'' None) ''pol'' ex_open_shop = Inr (ex_one, out)"
    and g: "find_order ex_taxed ''o1'' = Some (plo_order out)" by metis
  from ex_answered obtain ord ord' sale where f: "find_order ex_taxed ''o1'' = Some ord" and p: "or_lifecycle ord = PENDING_PAYMENT"
    and a: "recordPaymentResult ''o1'' (Payment_SUCCEEDED ''STRIPE'' ''pi_1'') 150 (ex_sale_ids ''1'') ex_taxed = Inr (ex_paid, ord', Some sale)" .
  have "ord = plo_order out" using f g by simp
  with a f p have "recordCompletedSale (plo_order out) ''STRIPE'' ''pi_1'' 150 (ex_sale_ids ''1'') ex_taxed = Inr (ex_paid, sale)"
    by (auto simp: recordPaymentResult_def chain_Inr_iff split: if_splits)
  from charged_as_shown[OF r refl this, of False] obtain s where
    "bpr_amount (payment_request_of (plo_order out) ''STRIPE'' False) = plo_buyerTotal out" "snapshots ex_paid = snapshots ex_taxed @ [s]"
    "sr_commercialRetail s + sr_tax s + sr_shipping s + sr_other s = plo_buyerTotal out" by blast
  then show ?thesis using r by (intro exI[of _ out] exI[of _ s]) simp
qed

end
