(* ===== verification/Order_Rights_Properties.thy ===== *)
theory Order_Rights_Properties
  imports Order_Properties
begin

text \<open>
  What follows from a sale: when a claim on its proceeds becomes payable, who may take over a guest's
  Order, and which reviews one purchase licenses.
\<close>

section \<open>Payout\<close>

text \<open>C14: a claim becomes payable exactly when it is pending, its party has neither an active suspension
  nor an active restriction of \<open>payout:receive\<close>, its sale has not been reversed, and no dispute on the
  sale is still open; then only its own state and instant change.  Recording that a payable claim was
  paid asks none of this.\<close>

theorem payout_eligible_iff:
  "(advanceProceedsObligation i ELIGIBLE at db = Inr (db', ob) \<longleftrightarrow>
     (\<exists>cur. find_obligation db i = Some cur \<and> pob_state cur = Obligation_PENDING \<and> ProceedsObligationRecord cur \<and>
        (\<forall>x\<in>set (suspensions db). ps_participantId x = pob_participantId cur \<longrightarrow> ps_status x \<noteq> Mitigation_ACTIVE) \<and>
        (\<forall>x\<in>set (restrictions db). pr_participantId x = pob_participantId cur \<and> pr_scope x = Scope_payout_receive \<longrightarrow>
           pr_status x \<noteq> Mitigation_ACTIVE) \<and>
        (\<forall>x\<in>set (reversals db). trv_snapshotId x \<noteq> pob_snapshotId cur) \<and>
        (\<forall>x\<in>set (disputes db). dp_snapshotId x = Some (pob_snapshotId cur) \<longrightarrow> \<not> isDisputeOpen (dp_status x)) \<and>
        ob = cur\<lparr>pob_state := ELIGIBLE, pob_becameEligibleAt := Some at\<rparr> \<and>
        db' = db\<lparr>obligations := update_where (\<lambda>x. pob_id x = i)
                  (\<lambda>x. x\<lparr>pob_state := ELIGIBLE, pob_becameEligibleAt := Some at\<rparr>) (obligations db)\<rparr>)) \<and>
   (is_ok (advanceProceedsObligation i PAID_OUT at db) \<longleftrightarrow>
     (\<exists>cur. find_obligation db i = Some cur \<and> pob_state cur = ELIGIBLE \<and> ProceedsObligationRecord cur))"
proof -
  have hold: "payout_hold db cur = None \<longleftrightarrow>
      (\<forall>x\<in>set (suspensions db). ps_participantId x = pob_participantId cur \<longrightarrow> ps_status x \<noteq> Mitigation_ACTIVE) \<and>
      (\<forall>x\<in>set (restrictions db). pr_participantId x = pob_participantId cur \<and> pr_scope x = Scope_payout_receive \<longrightarrow>
         pr_status x \<noteq> Mitigation_ACTIVE) \<and>
      (\<forall>x\<in>set (reversals db). trv_snapshotId x \<noteq> pob_snapshotId cur) \<and>
      (\<forall>x\<in>set (disputes db). dp_snapshotId x = Some (pob_snapshotId cur) \<longrightarrow> \<not> isDisputeOpen (dp_status x))" for cur
    by (auto simp: payout_hold_def Let_def readParticipantStanding_def activeSuspensionCount_def count_where_pos_iff
        count_where_0_iff isDisputeOpen_def image_iff)
  have adv: "advance_obligation ELIGIBLE at = (\<lambda>x. x\<lparr>pob_state := ELIGIBLE, pob_becameEligibleAt := Some at\<rparr>)"
    by (simp add: advance_obligation_def fun_eq_iff)
  have rec: "ProceedsObligationRecord (advance_obligation to at cur) = ProceedsObligationRecord cur" for to cur
    by (simp add: advance_obligation_def ProceedsObligationRecord_def)
  have rec': "ProceedsObligationRecord (cur\<lparr>pob_state := ELIGIBLE, pob_becameEligibleAt := Some at\<rparr>) = ProceedsObligationRecord cur" for cur
    by (simp add: ProceedsObligationRecord_def)
  have valid: "isValidProceedsObligationTransition s ELIGIBLE \<longleftrightarrow> s = Obligation_PENDING"
    "isValidProceedsObligationTransition s PAID_OUT \<longleftrightarrow> s = ELIGIBLE" for s
    by (cases s; simp add: isValidProceedsObligationTransition_def)+
  have "is_ok (advanceProceedsObligation i PAID_OUT at db) \<longleftrightarrow>
      (\<exists>cur. find_obligation db i = Some cur \<and> pob_state cur = ELIGIBLE \<and> ProceedsObligationRecord cur)"
    by (auto simp: is_ok_iff advanceProceedsObligation_Inr valid rec)
  then show ?thesis
    unfolding advanceProceedsObligation_Inr valid hold by (intro conjI) (auto simp: adv rec')
qed

lemma payout_eligible_iff_witness:
  "\<exists>cur. find_obligation ex_reviewing ''b2i'' = Some cur \<and> pob_state cur = Obligation_PENDING \<and>
     (\<forall>x\<in>set (reversals ex_reviewing). trv_snapshotId x \<noteq> pob_snapshotId cur)"
proof -
  from ex_payable_ok obtain ob where "advanceProceedsObligation ''b2i'' ELIGIBLE 200 ex_reviewing = Inr (ex_payable, ob)" ..
  with payout_eligible_iff[of "''b2i''" 200 ex_reviewing ex_payable ob] show ?thesis by blast
qed

section \<open>A guest's Order\<close>

text \<open>C23: a guest's Order is taken over once, by whoever first presents the code whose digest it carries
  and names an existing account.  Whatever happens afterwards the Order stays a guest's purchase
  claimed by that account, and every other attempt, with whatever code and for whatever account, is
  refused in the same words.\<close>

theorem guest_claim_sole:
  assumes start: "shop_opens db0" "order_step\<^sup>*\<^sup>* (db0, []) (db1, h1)"
    and claim: "claimGuestOrder digest_of oid code acct at db1 = Inr (db2, r)"
    and later: "order_step\<^sup>*\<^sup>* (db2, h1) (db3, h3)"
  shows "(\<exists>row\<in>set (orders db1). or_id row = oid \<and> or_guestClaimCodeDigest row = Some (digest_of code) \<and>
      or_claimedByAccountId row = None) \<and> find_account db1 acct \<noteq> None \<and>
    (\<exists>row\<in>set (orders db3). or_id row = oid \<and> or_buyerKind row = GUEST_BUYER \<and> or_claimedByAccountId row = Some acct \<and>
       or_claimedAt row = Some at) \<and>
    (\<forall>code' acct' at'. source_ref code' \<longrightarrow>
       claimGuestOrder digest_of oid code' acct' at' db3 = Inl (order_err ''GUEST_CLAIM_REFUSED''))"
proof -
  have inv1: "sales_inv (db1, h1)" using order_steps_inv[OF start(2) shop_opens_inv(1)[OF start(1)]] .
  have inv2: "sales_inv (db2, h1)" using order_step_inv[OF order_step.claimed[OF claim] inv1] .
  have inv3: "sales_inv (db3, h3)" using order_steps_inv[OF later inv2] .
  let ?f = "\<lambda>r. r\<lparr>or_claimedByAccountId := Some acct, or_claimedAt := Some at\<rparr>"
  from claim obtain cur where cur: "cur \<in> set (orders db1)" "or_guestClaimCodeDigest cur = Some (digest_of code)"
      "or_id cur = oid" "or_buyerKind cur = GUEST_BUYER" "or_claimedByAccountId cur = None" "find_account db1 acct \<noteq> None"
    and db2: "orders db2 = update_where (\<lambda>x. or_id x = oid) ?f (orders db1)"
    by (auto simp: claimGuestOrder_Inr update_order_Inr dest: find_Some_set)
  have "?f cur \<in> set (orders db2)" using cur by (auto simp: db2 set_update_where image_iff intro!: bexI[of _ cur])
  then obtain row where row: "row \<in> set (orders db3)" "keeps_order (?f cur) row"
    using order_steps_keep[OF later inv2] by (auto simp: keeps_orders_def)
  then have kept: "or_id row = oid" "or_buyerKind row = GUEST_BUYER" "or_claimedByAccountId row = Some acct" "or_claimedAt row = Some at"
    using cur by (simp_all add: keeps_order_def order_facts_def)
  have refused: "claimGuestOrder digest_of oid code' acct' at' db3 = Inl (order_err ''GUEST_CLAIM_REFUSED'')"
    if "source_ref code'" for code' acct' at'
  proof (cases "List.find (\<lambda>r. or_guestClaimCodeDigest r = Some (digest_of code')) (orders db3)")
    case None
    then show ?thesis using that by (simp add: claimGuestOrder_def order_catch_def order_err_def ORDER_DOMAIN_ERRORS_def)
  next
    case (Some c)
    then have c: "c \<in> set (orders db3)" "or_guestClaimCodeDigest c = Some (digest_of code')" by (auto dest: find_Some_set)
    have guest: "or_buyerKind c = GUEST_BUYER" using inv3 c by (auto simp: sales_inv_def guests_known_def)
    have "or_claimedByAccountId c \<noteq> None" if "or_id c = oid"
    proof -
      have "c = row" using inv3 c(1) row(1) that kept(1) unique_on_eq unfolding sales_inv_def by (metis fst_conv)
      then show ?thesis using kept(3) by simp
    qed
    then show ?thesis
      using that Some guest by (auto simp: claimGuestOrder_def order_catch_def order_err_def ORDER_DOMAIN_ERRORS_def)
  qed
  show ?thesis
    using cur row kept refused by (intro conjI bexI[of _ cur] bexI[of _ row] allI impI) simp_all
qed

lemma guest_claim_sole_witness:
  "claimGuestOrder ex_digest ''o1'' ''a1'' ''other'' 999 ex_taken = Inl (order_err ''GUEST_CLAIM_REFUSED'')"
proof -
  from ex_taken_ok obtain r where c: "claimGuestOrder ex_digest ''o1'' ''a1'' ''acct'' 170 ex_both = Inr (ex_taken, r)" ..
  from serial_interleaved[OF ex_serial, of "[]"] obtain held where h: "order_step\<^sup>*\<^sup>* (ex_open_shop, []) (ex_both, held)" ..
  have "source_ref ''a1''" by (simp add: source_ref_def)
  with guest_claim_sole[OF ex_open_shop_opens h c rtranclp.rtrancl_refl] show ?thesis by blast
qed

section \<open>Reviews\<close>

text \<open>C28: one purchase licenses at most one review of each kind.  In every history each authority is the
  only one of its Order and kind, was drawn from verified evidence of that very purchase, and is about
  the product bought or the seller it was bought from, as its kind says.\<close>

theorem review_authority_sole:
  assumes "shop_opens db0" and "order_step\<^sup>*\<^sup>* (db0, []) (db, held)" and "a \<in> set (reviewAuthorities db)"
  shows "{b \<in> set (reviewAuthorities db). rva_orderId b = rva_orderId a \<and> rva_reviewKind b = rva_reviewKind a} = {a} \<and>
    (\<exists>e\<in>set (purchaseEvidences db). pev_id e = rva_purchaseEvidenceId a \<and> pev_orderId e = rva_orderId a \<and>
       rva_purchaseProvenance a = VERIFIED \<and> rva_submitter a = pev_submitter e \<and>
       rva_reviewSubjectRef a = (if rva_reviewKind a = PRODUCT_REVIEW then pev_internalProductId e else pev_sellerParticipantId e))"
proof -
  have inv: "reviews_inv db" using order_steps_reviews[OF assms(2)] shop_opens_inv(3)[OF assms(1)] by simp
  then have u: "unique_on (\<lambda>a. (rva_orderId a, rva_reviewKind a)) (reviewAuthorities db)" by (simp add: reviews_inv_def)
  have "b = a" if "b \<in> set (reviewAuthorities db)" "rva_orderId b = rva_orderId a" "rva_reviewKind b = rva_reviewKind a" for b
    using unique_on_eq[OF u that(1) assms(3)] that(2,3) by simp
  then have sole: "{b \<in> set (reviewAuthorities db). rva_orderId b = rva_orderId a \<and> rva_reviewKind b = rva_reviewKind a} = {a}"
    using assms(3) by blast
  from inv assms(3) obtain e where e: "e \<in> set (purchaseEvidences db)" "pev_id e = rva_purchaseEvidenceId a"
    "pev_orderId e = rva_orderId a" "rva_submitter a = pev_submitter e" "rva_purchaseProvenance a = pev_purchaseProvenance e"
    "rva_reviewSubjectRef a = reviewSubjectRefFor (rva_reviewKind a) (pev_internalProductId e) (pev_sellerParticipantId e)"
    unfolding reviews_inv_def authority_grounded_def by blast
  have v: "pev_purchaseProvenance e = VERIFIED" using e(1) inv by (simp add: reviews_inv_def)
  have subject: "rva_reviewSubjectRef a =
      (if rva_reviewKind a = PRODUCT_REVIEW then pev_internalProductId e else pev_sellerParticipantId e)"
    using e(6) by (cases "rva_reviewKind a") simp_all
  show ?thesis
    using sole e v subject by (intro conjI bexI[of _ e]) simp_all
qed

lemma ex_reviewed: "list_ex (\<lambda>a. rva_orderId a = ''o1'' \<and> rva_reviewKind a = SELLER_REVIEW) (reviewAuthorities ex_reviewing)"
  by code_simp

lemma review_authority_sole_witness:
  "\<exists>a\<in>set (reviewAuthorities ex_reviewing). rva_orderId a = ''o1'' \<and> rva_purchaseProvenance a = VERIFIED"
proof -
  from ex_taken_ok obtain r where c: "claimGuestOrder ex_digest ''o1'' ''a1'' ''acct'' 170 ex_both = Inr (ex_taken, r)" ..
  from ex_reviewing_ok obtain x where v: "authorizeReviewSubmission ''ra1'' ''rs1'' ''o1'' SELLER_REVIEW ex_taken = Inr (ex_reviewing, x)" ..
  from serial_interleaved[OF ex_serial, of "[]"] obtain held where h: "order_step\<^sup>*\<^sup>* (ex_open_shop, []) (ex_both, held)" ..
  note h1 = rtranclp.rtrancl_into_rtrancl[OF h order_step.claimed[OF c]]
  note h2 = rtranclp.rtrancl_into_rtrancl[OF h1 order_step.authorized[OF v]]
  from ex_reviewed obtain a where a: "a \<in> set (reviewAuthorities ex_reviewing)" "rva_orderId a = ''o1''" by (auto simp: list_ex_iff)
  from review_authority_sole[OF ex_open_shop_opens h2 a(1)] a show ?thesis by blast
qed

section \<open>A cancelled Order\<close>

text \<open>The read that precedes a sale is not taken again either: a success recorded from a read made before
  the Order was cancelled completes the sale of a cancelled Order.\<close>

definition ex_cancelled :: sale_tables where
  "ex_cancelled = after (cancelOrder ''o1'' 145 ex_taxed) ex_open_shop"

lemma stale_success_sells_cancelled:
  "map_option or_lifecycle (find_order ex_cancelled ''o1'') = Some CANCELLED \<and>
   map_option (\<lambda>ord. map_option or_lifecycle (find_order
       (after (record_result_on ord (Payment_SUCCEEDED ''STRIPE'' ''pi_1'') 150 (ex_sale_ids ''1'') ex_cancelled) ex_open_shop) ''o1''))
     (find_order ex_taxed ''o1'') = Some (Some Order_PAID)"
  by code_simp

end
