(* ===== verification/Tax_Evidence.thy ===== *)
theory Tax_Evidence
  imports Sale_Tables
begin

text \<open>
  Why an Order was charged the tax it was charged: the quote of \<open>src/contracts/marketplace/tax-calculation.ts\<close>,
  the guard every tax engine answers through (\<open>src/server/tax/tax-port-guard.ts\<close>), and the evidence row
  one Order gets (\<open>src/server/tax/tax-evidence-service.ts\<close>).  The engine is a parameter.
\<close>

section \<open>Requests and quotes\<close>

datatype delivery_mode = Delivery_DIGITAL | Delivery_PHYSICAL

record product_tax_basis =
  ptb_internalProductId :: ident
  ptb_sourceRecordId :: string
  ptb_sourceRecordVersion :: string
  ptb_taxClassification :: product_tax_classification
  ptb_deliveryMode :: delivery_mode

text \<open>\<open>PHYSICAL_GOOD\<close> delivered digitally is the one contradiction between the two facts.\<close>

definition taxClassificationAgreesWithDelivery :: "product_tax_classification \<Rightarrow> delivery_mode \<Rightarrow> bool" where
  "taxClassificationAgreesWithDelivery classification mode =
     (\<not> (classification = PHYSICAL_GOOD \<and> mode = Delivery_DIGITAL))"

definition ProductTaxBasis :: "product_tax_basis \<Rightarrow> bool" where
  "ProductTaxBasis b = (source_ref (ptb_internalProductId b) \<and> source_ref (ptb_sourceRecordId b) \<and>
     version_ref (ptb_sourceRecordVersion b))"

record tax_destination =
  txd_countryCode :: string
  txd_regionCode :: "string option"
  txd_postalCode :: "string option"

definition upper_case :: string where
  "upper_case = ''ABCDEFGHIJKLMNOPQRSTUVWXYZ''"

definition TaxDestination :: "tax_destination \<Rightarrow> bool" where
  "TaxDestination d = (length (txd_countryCode d) = 2 \<and> list_all (\<lambda>c. c \<in> set upper_case) (txd_countryCode d) \<and>
     opt_all (\<lambda>r. 1 \<le> length r \<and> length r \<le> 8 \<and> list_all (\<lambda>c. c \<in> set (upper_case @ ''0123456789-'')) r)
       (txd_regionCode d) \<and>
     opt_all (\<lambda>c. 1 \<le> length c \<and> length c \<le> 32) (txd_postalCode d))"

definition taxDestinationJurisdictionCode :: "tax_destination \<Rightarrow> string" where
  "taxDestinationJurisdictionCode d =
     (case txd_regionCode d of None \<Rightarrow> txd_countryCode d | Some r \<Rightarrow> txd_countryCode d @ ''-'' @ r)"

record tax_request =
  txq_currency :: currency
  txq_commercialRetail :: amount
  txq_shipping :: amount
  txq_internalProductId :: ident
  txq_sellerParticipantId :: ident
  txq_destination :: "tax_destination option"
  txq_product :: "product_tax_basis option"
  txq_idempotencyKey :: "string option"
  txq_at :: instant

definition TaxCalculationRequest :: "tax_request \<Rightarrow> bool" where
  "TaxCalculationRequest q = (CurrencyCode (txq_currency q) \<and> Amount (txq_commercialRetail q) \<and> Amount (txq_shipping q) \<and>
     source_ref (txq_internalProductId q) \<and> source_ref (txq_sellerParticipantId q) \<and>
     opt_all TaxDestination (txq_destination q) \<and> opt_all ProductTaxBasis (txq_product q) \<and>
     opt_all (\<lambda>k. 1 \<le> length k \<and> length k \<le> 255) (txq_idempotencyKey q))"

record tax_quote =
  txo_provider :: string
  txo_providerMode :: string
  txo_providerCalculationRef :: string
  txo_currency :: currency
  txo_taxAmount :: amount
  txo_basisAmount :: amount
  txo_treatment :: tax_treatment
  txo_jurisdictionCode :: "string option"
  txo_productTaxBasis :: "product_tax_basis option"
  txo_providerTaxCode :: "string option"
  txo_providerConfigVersion :: "string option"
  txo_calculatedAt :: instant
  txo_expiresAt :: "instant option"

definition TaxQuote :: "tax_quote \<Rightarrow> bool" where
  "TaxQuote q = (txo_provider q \<in> set TAX_PROVIDERS \<and> txo_providerMode q \<in> set TAX_PROVIDER_MODES \<and>
     source_ref (txo_providerCalculationRef q) \<and> CurrencyCode (txo_currency q) \<and> Amount (txo_taxAmount q) \<and>
     Amount (txo_basisAmount q) \<and> opt_all TaxJurisdictionCode (txo_jurisdictionCode q) \<and>
     opt_all ProductTaxBasis (txo_productTaxBasis q) \<and> opt_all version_ref (txo_providerTaxCode q) \<and>
     opt_all version_ref (txo_providerConfigVersion q))"

definition isProductionTaxProvider :: "string \<Rightarrow> bool" where
  "isProductionTaxProvider p = (p \<in> set [''STRIPE_TAX''])"

definition taxQuoteIsCoherent :: "tax_quote \<Rightarrow> bool" where
  "taxQuoteIsCoherent q =
     (if txo_treatment q \<noteq> TAXABLE then txo_taxAmount q = 0 else txo_taxAmount q \<le> txo_basisAmount q)"

definition taxQuoteIsUsableAt :: "tax_quote \<Rightarrow> instant \<Rightarrow> bool" where
  "taxQuoteIsUsableAt q at = (case txo_expiresAt q of None \<Rightarrow> True | Some t \<Rightarrow> at < t)"

definition productionTaxQuoteIssues :: "tax_quote \<Rightarrow> string list" where
  "productionTaxQuoteIssues q =
     (if \<not> isProductionTaxProvider (txo_provider q) then []
      else (if txo_productTaxBasis q = None then [''productTaxBasis''] else []) @
           (if txo_providerTaxCode q = None then [''providerTaxCode''] else []) @
           (if txo_providerConfigVersion q = None then [''providerConfigVersion''] else []))"

section \<open>The guard\<close>

definition product_basis_mismatches :: "product_tax_basis \<Rightarrow> product_tax_basis \<Rightarrow> string list" where
  "product_basis_mismatches expected actual =
     (if ptb_internalProductId actual \<noteq> ptb_internalProductId expected then [''internalProductId''] else []) @
     (if ptb_sourceRecordId actual \<noteq> ptb_sourceRecordId expected then [''sourceRecordId''] else []) @
     (if ptb_sourceRecordVersion actual \<noteq> ptb_sourceRecordVersion expected then [''sourceRecordVersion''] else []) @
     (if ptb_taxClassification actual \<noteq> ptb_taxClassification expected then [''taxClassification''] else []) @
     (if ptb_deliveryMode actual \<noteq> ptb_deliveryMode expected then [''deliveryMode''] else [])"

definition guarded_quote :: "tax_request \<Rightarrow> tax_quote \<Rightarrow> tax_quote res" where
  "guarded_quote request quote =
     (if \<not> TaxQuote quote then Inl ZodError
      else if \<not> taxQuoteIsCoherent quote then Inl (TaxError ''INCOHERENT_TAX_QUOTE'')
      else if txo_currency quote \<noteq> txq_currency request then Inl (TaxError ''INCOHERENT_TAX_QUOTE'')
      else if txo_basisAmount quote \<noteq> txq_commercialRetail request + txq_shipping request
        then Inl (TaxError ''INCOHERENT_TAX_QUOTE'')
      else if (case (txq_product request, txo_productTaxBasis quote) of
                 (None, _) \<Rightarrow> False | (Some _, None) \<Rightarrow> True
               | (Some expected, Some actual) \<Rightarrow> product_basis_mismatches expected actual \<noteq> [])
        then Inl (TaxError ''TAX_PRODUCT_BASIS_MISMATCH'')
      else if \<not> taxQuoteIsUsableAt quote (txq_at request) then Inl (TaxError ''TAX_QUOTE_EXPIRED'')
      else if productionTaxQuoteIssues quote \<noteq> [] then Inl (TaxError ''TAX_PROVIDER_NOT_CONFIGURED'')
      else Inr quote)"

definition guardTaxPort :: "(tax_request \<Rightarrow> tax_quote res) \<Rightarrow> tax_request \<Rightarrow> tax_quote res" where
  "guardTaxPort port request =
     (if \<not> TaxCalculationRequest request then Inl ZodError
      else chain (port request) (guarded_quote request))"

lemma product_basis_mismatches_Nil: "product_basis_mismatches b c = [] \<longleftrightarrow> c = b"
  by (cases b; cases c) (auto simp: product_basis_mismatches_def)

section \<open>Evidence\<close>

definition OrderTaxEvidenceRecord :: "tax_evidence_row \<Rightarrow> bool" where
  "OrderTaxEvidenceRecord e =
     (source_ref (txe_orderId e) \<and> txe_provider e \<in> set TAX_PROVIDERS \<and>
      opt_all (\<lambda>m. m \<in> set TAX_PROVIDER_MODES) (txe_providerMode e) \<and> source_ref (txe_providerCalculationRef e) \<and>
      CurrencyCode (txe_currency e) \<and> Amount (txe_taxAmount e) \<and> Amount (txe_basisAmount e) \<and>
      opt_all TaxJurisdictionCode (txe_jurisdictionCode e) \<and> opt_all source_ref (txe_productSourceRecordId e) \<and>
      opt_all version_ref (txe_productSourceRecordVersion e) \<and> opt_all version_ref (txe_providerTaxCode e) \<and>
      opt_all version_ref (txe_providerConfigVersion e) \<and> opt_all source_ref (txe_buyerSnapshotId e))"

definition taxEvidenceRowToRecord :: "tax_evidence_row \<Rightarrow> tax_evidence_row res" where
  "taxEvidenceRowToRecord e = (if OrderTaxEvidenceRecord e then Inr e else Inl (TaxError ''CORRUPT_TAX_EVIDENCE''))"

definition tax_basis_mismatches :: "order_row \<Rightarrow> tax_quote \<Rightarrow> string list" where
  "tax_basis_mismatches ord quote =
     (if txo_currency quote \<noteq> oq_currency (or_quote ord) then [''currency''] else []) @
     (if txo_taxAmount quote \<noteq> oq_tax (or_quote ord) then [''taxAmountMinorUnits''] else []) @
     (if txo_basisAmount quote \<noteq> oq_commercialRetail (or_quote ord) + oq_shipping (or_quote ord)
      then [''basisAmountMinorUnits''] else [])"

definition requireTaxQuoteMatchesOrder :: "order_row \<Rightarrow> tax_quote \<Rightarrow> instant option \<Rightarrow> unit res" where
  "requireTaxQuoteMatchesOrder ord quote at =
     (if tax_basis_mismatches ord quote \<noteq> [] then Inl (TaxError ''TAX_BASIS_MISMATCH'')
      else if (case txo_productTaxBasis quote of None \<Rightarrow> False
               | Some b \<Rightarrow> ptb_internalProductId b \<noteq> or_internalProductId ord)
        then Inl (TaxError ''TAX_PRODUCT_BASIS_MISMATCH'')
      else if productionTaxQuoteIssues quote \<noteq> [] then Inl (TaxError ''TAX_PROVIDER_NOT_CONFIGURED'')
      else if (case at of None \<Rightarrow> False | Some t \<Rightarrow> \<not> taxQuoteIsUsableAt quote t)
        then Inl (TaxError ''TAX_QUOTE_EXPIRED'')
      else Inr ())"

definition tax_evidence_of :: "ident \<Rightarrow> order_row \<Rightarrow> tax_quote \<Rightarrow> instant \<Rightarrow> ident option \<Rightarrow> tax_evidence_row" where
  "tax_evidence_of i ord quote at snapshotId =
     \<lparr>txe_id = i, txe_orderId = or_id ord, txe_provider = txo_provider quote,
      txe_providerMode = Some (txo_providerMode quote),
      txe_providerCalculationRef = txo_providerCalculationRef quote,
      txe_providerCalculationExpiresAt = txo_expiresAt quote, txe_currency = txo_currency quote,
      txe_taxAmount = txo_taxAmount quote, txe_basisAmount = txo_basisAmount quote,
      txe_treatment = txo_treatment quote, txe_jurisdictionCode = txo_jurisdictionCode quote,
      txe_productSourceRecordId = map_option ptb_sourceRecordId (txo_productTaxBasis quote),
      txe_productSourceRecordVersion = map_option ptb_sourceRecordVersion (txo_productTaxBasis quote),
      txe_productTaxClassification = map_option ptb_taxClassification (txo_productTaxBasis quote),
      txe_providerTaxCode = txo_providerTaxCode quote, txe_providerConfigVersion = txo_providerConfigVersion quote,
      txe_calculatedAt = txo_calculatedAt quote, txe_recordedAt = at, txe_buyerSnapshotId = snapshotId\<rparr>"

text \<open>An Order has one evidence row; a second request for it is answered with the row that stands.
  The row is stored before it is read back, so one the reader refuses stays stored.\<close>

definition recordOrderTaxEvidence ::
  "ident \<Rightarrow> order_row \<Rightarrow> tax_quote \<Rightarrow> instant \<Rightarrow> ident option \<Rightarrow> 'a sale_tables_scheme \<Rightarrow>
   'a sale_tables_scheme \<times> (tax_evidence_row \<times> bool) res" where
  "recordOrderTaxEvidence i ord quote at snapshotId db =
     (case requireTaxQuoteMatchesOrder ord quote (Some at) of
        Inl e \<Rightarrow> (db, Inl e)
      | Inr _ \<Rightarrow>
          (let row = tax_evidence_of i ord quote at snapshotId in
           if list_ex (\<lambda>e. txe_id e = i \<or> txe_orderId e = or_id ord) (taxEvidences db)
           then (db, case find_tax_evidence db (or_id ord) of
                       None \<Rightarrow> Inl (TaxError ''TAX_EVIDENCE_PERSISTENCE_FAILURE'')
                     | Some existing \<Rightarrow> chain (taxEvidenceRowToRecord existing) (\<lambda>e. Inr (e, True)))
           else (db\<lparr>taxEvidences := taxEvidences db @ [row]\<rparr>,
                 chain (taxEvidenceRowToRecord row) (\<lambda>e. Inr (e, False)))))"

definition getOrderTaxEvidence :: "'a sale_tables_scheme \<Rightarrow> ident \<Rightarrow> tax_evidence_row option res" where
  "getOrderTaxEvidence db oid =
     (case find_tax_evidence db oid of None \<Rightarrow> Inr None
      | Some e \<Rightarrow> chain (taxEvidenceRowToRecord e) (\<lambda>r. Inr (Some r)))"

definition hasTaxEvidenceIn :: "'a sale_tables_scheme \<Rightarrow> ident \<Rightarrow> bool" where
  "hasTaxEvidenceIn db oid = (count_where (\<lambda>e. txe_orderId e = oid) (taxEvidences db) > 0)"

text \<open>A quote that matches the Order is of the amounts the Order was quoted.\<close>

lemma requireTaxQuoteMatchesOrder_Inr:
  "requireTaxQuoteMatchesOrder ord quote (Some at) = Inr () \<longleftrightarrow>
     txo_currency quote = oq_currency (or_quote ord) \<and> txo_taxAmount quote = oq_tax (or_quote ord) \<and>
     txo_basisAmount quote = oq_commercialRetail (or_quote ord) + oq_shipping (or_quote ord) \<and>
     (\<forall>b. txo_productTaxBasis quote = Some b \<longrightarrow> ptb_internalProductId b = or_internalProductId ord) \<and>
     productionTaxQuoteIssues quote = [] \<and> taxQuoteIsUsableAt quote at"
  by (auto simp: requireTaxQuoteMatchesOrder_def tax_basis_mismatches_def split: option.split)

lemma recordOrderTaxEvidence_new:
  assumes "recordOrderTaxEvidence i ord quote at snapshotId db = (db', Inr (e, False))"
  shows "requireTaxQuoteMatchesOrder ord quote (Some at) = Inr ()" and "e = tax_evidence_of i ord quote at snapshotId"
    and "OrderTaxEvidenceRecord e" and "db' = db\<lparr>taxEvidences := taxEvidences db @ [e]\<rparr>"
    and "\<forall>x\<in>set (taxEvidences db). txe_id x \<noteq> i \<and> txe_orderId x \<noteq> or_id ord"
  using assms
  by (auto simp: recordOrderTaxEvidence_def taxEvidenceRowToRecord_def chain_Inr_iff Let_def list_ex_iff
      split: sum.split_asm if_split_asm option.split_asm)

lemma recordOrderTaxEvidence_frame:
  assumes "recordOrderTaxEvidence i ord quote at snapshotId db = (db', r)"
  shows "db' = db\<lparr>taxEvidences := taxEvidences db'\<rparr>" and "\<exists>new. taxEvidences db' = taxEvidences db @ new"
    and "taxTransactions db' = taxTransactions db"
  using assms by (auto simp: recordOrderTaxEvidence_def Let_def split: sum.split_asm if_split_asm)

end
