(* ===== verification/Tax_Recording.thy ===== *)
theory Tax_Recording
  imports Tax_Evidence
begin

text \<open>
  Reporting a sale's tax: the queue of \<open>src/server/tax/tax-transaction-service.ts\<close> after the sale has
  committed its obligation, one recorder cycle of \<open>src/server/tax/tax-transaction-recorder.ts\<close>, and the
  operator's requeue and backlog of \<open>src/server/tax/tax-recording-operations-service.ts\<close>.  The provider is
  the argument \<open>port\<close> and the hash of the idempotency key is \<open>sha256\<close>; both may be anything.

  Resolving an attempt and requeueing read a row and then update it by id alone, outside a transaction;
  what follows the read is a definition of its own, on the row that was read.
\<close>

section \<open>Claim\<close>

definition recording_due :: "instant \<Rightarrow> tax_transaction_row \<Rightarrow> bool" where
  "recording_due now r = ((tt_recordingStatus r = Recording_PENDING \<or> tt_recordingStatus r = Recording_RETRY_PENDING) \<and>
     (case tt_nextAttemptAt r of None \<Rightarrow> False | Some t \<Rightarrow> t \<le> now) \<and> tt_lockToken r = None)"

definition claim_recording_row :: "instant \<Rightarrow> ident \<Rightarrow> tax_transaction_row \<Rightarrow> tax_transaction_row" where
  "claim_recording_row now token r = r\<lparr>tt_recordingStatus := Recording_IN_PROGRESS, tt_lockToken := Some token,
     tt_lockedAt := Some now, tt_leaseExpiresAt := Some (now + recording_claimLeaseSeconds * 1000)\<rparr>"

definition recording_stale :: "instant \<Rightarrow> tax_transaction_row \<Rightarrow> bool" where
  "recording_stale now r = (tt_recordingStatus r = Recording_IN_PROGRESS \<and>
     (case tt_leaseExpiresAt r of None \<Rightarrow> False | Some t \<Rightarrow> t < now))"

definition release_recording_row :: "instant \<Rightarrow> tax_transaction_row \<Rightarrow> tax_transaction_row" where
  "release_recording_row now r = r\<lparr>tt_recordingStatus := Recording_RETRY_PENDING, tt_lockToken := None,
     tt_lockedAt := None, tt_leaseExpiresAt := None, tt_nextAttemptAt := Some now\<rparr>"

definition claimDueTaxTransactions ::
  "ident \<Rightarrow> instant \<Rightarrow> int \<Rightarrow> 'a market_tables_scheme \<Rightarrow>
   'a market_tables_scheme \<times> ((tax_transaction_row \<times> ident) list \<times> nat) res" where
  "claimDueTaxTransactions lockToken now limit db =
     (let eligible = claim_select tt_id recording_due tt_nextAttemptAt now limit (taxTransactions db) in
      if eligible = [] then (db, Inr ([], 0))
      else
        let db' = db\<lparr>taxTransactions := claim_stamp tt_id recording_due claim_recording_row now lockToken
                     eligible (taxTransactions db)\<rparr>;
            claimed = claimed_by tt_lockToken lockToken (taxTransactions db')
        in (db', chain (map_res taxTransactionRowToRecord claimed) (\<lambda>records.
                   Inr (map (\<lambda>r. (r, lockToken)) records, length eligible - length claimed))))"

definition recoverStaleTaxTransactionClaims ::
  "instant \<Rightarrow> 'a market_tables_scheme \<Rightarrow> 'a market_tables_scheme \<times> nat" where
  "recoverStaleTaxTransactionClaims now db =
     (db\<lparr>taxTransactions := release_stale recording_stale release_recording_row now (taxTransactions db)\<rparr>,
      count_where (recording_stale now) (taxTransactions db))"

section \<open>Resolve\<close>

datatype recording_outcome = Recording_SUCCEEDED string instant amount | Recording_FAILED tax_recording_failure

definition TAX_TRANSACTION_PERSISTENCE_FAILURE :: err where
  "TAX_TRANSACTION_PERSISTENCE_FAILURE = TaxError ''TAX_TRANSACTION_PERSISTENCE_FAILURE''"

definition fail_recording_row ::
  "tax_transaction_row \<Rightarrow> tax_recording_failure \<Rightarrow> instant \<Rightarrow> tax_transaction_row \<Rightarrow> tax_transaction_row" where
  "fail_recording_row existing code at r =
     (let failureClass = classifyTaxRecordingFailure code;
          attemptCount = tt_attemptCount existing + 1;
          retryAt = (if failureClass = TRClass_PERMANENT then None else nextTaxRecordingAttemptAt attemptCount at);
          terminal = (retryAt = None)
      in r\<lparr>tt_recordingStatus := (if terminal then Recording_FAILED_PERMANENT else Recording_RETRY_PENDING),
           tt_attemptCount := attemptCount, tt_nextAttemptAt := retryAt,
           tt_lastFailureCode := Some code, tt_lastFailureClass := Some failureClass,
           tt_lockToken := None, tt_lockedAt := None, tt_leaseExpiresAt := None,
           tt_finalizedAt := (if terminal then Some at else None)\<rparr>)"

definition complete_recording_row ::
  "tax_transaction_row \<Rightarrow> string \<Rightarrow> instant \<Rightarrow> amount \<Rightarrow> instant \<Rightarrow> tax_transaction_row \<Rightarrow> tax_transaction_row" where
  "complete_recording_row existing ref createdAt gross at r =
     r\<lparr>tt_recordingStatus := RECORDED, tt_providerTaxTransactionRef := Some ref,
       tt_providerTaxTransactionCreatedAt := Some createdAt, tt_providerTotalAmount := Some gross,
       tt_attemptCount := tt_attemptCount existing + 1, tt_nextAttemptAt := None, tt_lockToken := None,
       tt_lockedAt := None, tt_leaseExpiresAt := None, tt_finalizedAt := Some at\<rparr>"

text \<open>An update by id, and the row read back as a record; what is written stays if the reader refuses it.\<close>

definition update_tax_transaction ::
  "err \<Rightarrow> ident \<Rightarrow> (tax_transaction_row \<Rightarrow> tax_transaction_row) \<Rightarrow> 'a market_tables_scheme \<Rightarrow>
   'a market_tables_scheme \<times> tax_transaction_row res" where
  "update_tax_transaction absent i f db =
     (case find_tax_transaction db i of
        None \<Rightarrow> (db, Inl absent)
      | Some row \<Rightarrow> (db\<lparr>taxTransactions := update_where (\<lambda>r. tt_id r = i) f (taxTransactions db)\<rparr>,
                      taxTransactionRowToRecord (f row)))"

definition failAttempt ::
  "tax_transaction_row \<Rightarrow> tax_recording_failure \<Rightarrow> instant \<Rightarrow> 'a market_tables_scheme \<Rightarrow>
   'a market_tables_scheme \<times> tax_transaction_row res" where
  "failAttempt existing code at db =
     update_tax_transaction TAX_TRANSACTION_PERSISTENCE_FAILURE (tt_id existing) (fail_recording_row existing code at) db"

definition resolve_recording_read ::
  "tax_transaction_row \<Rightarrow> recording_outcome \<Rightarrow> instant \<Rightarrow> 'a market_tables_scheme \<Rightarrow>
   'a market_tables_scheme \<times> tax_transaction_row res" where
  "resolve_recording_read existing result at db =
     (case result of
        Recording_FAILED code \<Rightarrow> failAttempt existing code at db
      | Recording_SUCCEEDED ref createdAt gross \<Rightarrow>
          (case taxTransactionRowToRecord (existing\<lparr>tt_recordingStatus := RECORDED,
                  tt_providerTaxTransactionRef := Some ref, tt_providerTotalAmount := Some gross\<rparr>) of
             Inl e \<Rightarrow> (db, Inl e)
           | Inr candidate \<Rightarrow>
               if \<not> taxTransactionIsCoherent candidate then failAttempt existing TR_EVIDENCE_INCONSISTENT at db
               else update_tax_transaction TAX_TRANSACTION_PERSISTENCE_FAILURE (tt_id existing)
                      (complete_recording_row existing ref createdAt gross at) db))"

definition resolveTaxTransactionAttempt ::
  "ident \<Rightarrow> ident \<Rightarrow> recording_outcome \<Rightarrow> instant \<Rightarrow> 'a market_tables_scheme \<Rightarrow>
   'a market_tables_scheme \<times> tax_transaction_row option res" where
  "resolveTaxTransactionAttempt taxTransactionId lockToken result at db =
     (case find_tax_transaction db taxTransactionId of None \<Rightarrow> (db, Inr None)
      | Some existing \<Rightarrow>
          if tt_lockToken existing \<noteq> Some lockToken then (db, Inr None)
          else (let (db', r) = resolve_recording_read existing result at db in (db', chain r (\<lambda>x. Inr (Some x)))))"

section \<open>Reads\<close>

definition getTaxTransactionForOrder :: "'a market_tables_scheme \<Rightarrow> ident \<Rightarrow> tax_transaction_row option res" where
  "getTaxTransactionForOrder db oid =
     (case find_order_tax_transaction db oid of None \<Rightarrow> Inr None
      | Some row \<Rightarrow> chain (taxTransactionRowToRecord row) (\<lambda>r. Inr (Some r)))"

text \<open>Oldest first, at most five hundred.\<close>

definition oldest_recorded :: "int \<Rightarrow> tax_transaction_row list \<Rightarrow> tax_transaction_row list" where
  "oldest_recorded n rows = take (nat n) (sort_key tt_recordedAt rows)"

definition listUnreportedTaxTransactions ::
  "int option \<Rightarrow> 'a market_tables_scheme \<Rightarrow> tax_transaction_row list res" where
  "listUnreportedTaxTransactions limit db =
     map_res taxTransactionRowToRecord
       (oldest_recorded (max 1 (min (case limit of None \<Rightarrow> 100 | Some n \<Rightarrow> n) 500))
         (filter (\<lambda>r. tt_recordingStatus r \<noteq> RECORDED) (taxTransactions db)))"

definition getEvidenceForTaxTransaction ::
  "'a sale_tables_scheme \<Rightarrow> tax_transaction_row \<Rightarrow> tax_evidence_row option res" where
  "getEvidenceForTaxTransaction db record = getOrderTaxEvidence db (tt_orderId record)"

section \<open>The recorder\<close>

definition verifyRecordableTaxTransaction ::
  "'a sale_tables_scheme \<Rightarrow> tax_transaction_row \<Rightarrow> instant \<Rightarrow> tax_recording_failure option" where
  "verifyRecordableTaxTransaction db record now =
     (case find_order db (tt_orderId record) of
        None \<Rightarrow> Some TR_EVIDENCE_INCONSISTENT
      | Some ord \<Rightarrow>
          if or_lifecycle ord \<noteq> Order_PAID then Some TR_EVIDENCE_INCONSISTENT
          else (case find_tax_evidence db (tt_orderId record) of
             None \<Rightarrow> Some TR_EVIDENCE_INCONSISTENT
           | Some e \<Rightarrow>
               if txe_providerCalculationRef e \<noteq> tt_providerCalculationRef record then Some TR_EVIDENCE_INCONSISTENT
               else if txe_currency e \<noteq> tt_currency record then Some TR_EVIDENCE_INCONSISTENT
               else if txe_taxAmount e \<noteq> tt_taxAmount record then Some TR_EVIDENCE_INCONSISTENT
               else if txe_basisAmount e \<noteq> tt_taxableBasis record then Some TR_EVIDENCE_INCONSISTENT
               else if oq_tax (or_quote ord) \<noteq> tt_taxAmount record then Some TR_EVIDENCE_INCONSISTENT
               else if oq_currency (or_quote ord) \<noteq> tt_currency record then Some TR_EVIDENCE_INCONSISTENT
               else if (case txe_providerCalculationExpiresAt e of None \<Rightarrow> False | Some t \<Rightarrow> t \<le> now)
                 then Some TR_CALCULATION_EXPIRED
               else None))"

record recording_request =
  rrq_providerCalculationRef :: string
  rrq_providerReference :: string
  rrq_idempotencyKey :: string

definition taxTransactionIdempotencyKey :: "(string \<Rightarrow> string \<Rightarrow> string) \<Rightarrow> ident \<Rightarrow> string \<Rightarrow> string" where
  "taxTransactionIdempotencyKey sha256 orderId calculationRef = ''mon-taxtx-'' @ sha256 orderId calculationRef"

definition recording_request_of :: "(string \<Rightarrow> string \<Rightarrow> string) \<Rightarrow> tax_transaction_row \<Rightarrow> recording_request" where
  "recording_request_of sha256 r =
     \<lparr>rrq_providerCalculationRef = tt_providerCalculationRef r, rrq_providerReference = tt_providerReference r,
      rrq_idempotencyKey = taxTransactionIdempotencyKey sha256 (tt_orderId r) (tt_providerCalculationRef r)\<rparr>"

text \<open>The port may throw; the row then stays claimed and is counted nowhere.\<close>

definition process_recording ::
  "(string \<Rightarrow> string \<Rightarrow> string) \<Rightarrow> (recording_request \<Rightarrow> recording_outcome res) \<Rightarrow> tax_transaction_row \<Rightarrow> ident \<Rightarrow> instant \<Rightarrow>
   'a sale_tables_scheme \<Rightarrow> 'a sale_tables_scheme \<times> tax_transaction_row option res" where
  "process_recording sha256 port record lockToken at db =
     (case verifyRecordableTaxTransaction db record at of
        Some refusal \<Rightarrow> resolveTaxTransactionAttempt (tt_id record) lockToken (Recording_FAILED refusal) at db
      | None \<Rightarrow>
          (case port (recording_request_of sha256 record) of
             Inl e \<Rightarrow> (db, Inl e)
           | Inr outcome \<Rightarrow> resolveTaxTransactionAttempt (tt_id record) lockToken outcome at db))"

record recording_counts =
  rct_claimed :: nat
  rct_recorded :: nat
  rct_retryScheduled :: nat
  rct_permanentlyFailed :: nat
  rct_staleClaimsRecovered :: nat
  rct_claimConflicts :: nat

definition count_recording :: "tax_transaction_row option res \<Rightarrow> recording_counts \<Rightarrow> recording_counts" where
  "count_recording r c =
     (case r of Inl _ \<Rightarrow> c | Inr None \<Rightarrow> c
      | Inr (Some v) \<Rightarrow>
          if tt_recordingStatus v = RECORDED then c\<lparr>rct_recorded := rct_recorded c + 1\<rparr>
          else if tt_recordingStatus v = Recording_FAILED_PERMANENT
            then c\<lparr>rct_permanentlyFailed := rct_permanentlyFailed c + 1\<rparr>
          else c\<lparr>rct_retryScheduled := rct_retryScheduled c + 1\<rparr>)"

fun recording_batch ::
  "(string \<Rightarrow> string \<Rightarrow> string) \<Rightarrow> (recording_request \<Rightarrow> recording_outcome res) \<Rightarrow> instant \<Rightarrow>
   (tax_transaction_row \<times> ident) list \<Rightarrow> 'a sale_tables_scheme \<Rightarrow> recording_counts \<Rightarrow>
   'a sale_tables_scheme \<times> recording_counts" where
  "recording_batch sha256 port at [] db c = (db, c)"
| "recording_batch sha256 port at ((record, token) # rest) db c =
     (let (db', r) = process_recording sha256 port record token at db
      in recording_batch sha256 port at rest db' (count_recording r c))"

definition runTaxTransactionRecordingCycle ::
  "(string \<Rightarrow> string \<Rightarrow> string) \<Rightarrow> (recording_request \<Rightarrow> recording_outcome res) \<Rightarrow> ident \<Rightarrow> instant \<Rightarrow> int option \<Rightarrow>
   'a sale_tables_scheme \<Rightarrow> 'a sale_tables_scheme \<times> recording_counts res" where
  "runTaxTransactionRecordingCycle sha256 port token at limitArg db =
     (let limit = max 1 (min (case limitArg of None \<Rightarrow> 25 | Some n \<Rightarrow> n) 100);
          (db1, stale) = recoverStaleTaxTransactionClaims at db;
          (db2, claim) = claimDueTaxTransactions token at limit db1
      in case claim of Inl e \<Rightarrow> (db2, Inl e)
         | Inr (claimed, conflicts) \<Rightarrow>
             (let (db3, c) = recording_batch sha256 port at claimed db2
                    \<lparr>rct_claimed = length claimed, rct_recorded = 0, rct_retryScheduled = 0, rct_permanentlyFailed = 0,
                     rct_staleClaimsRecovered = stale, rct_claimConflicts = conflicts\<rparr>
              in (db3, Inr c)))"

section \<open>The operator\<close>

definition REQUEUEABLE_FAILURE_CODES :: "tax_recording_failure list" where
  "REQUEUEABLE_FAILURE_CODES = [TR_PROVIDER_UNAVAILABLE, TR_PROVIDER_NOT_CONFIGURED, TR_PROVIDER_REJECTED,
     TR_PROVIDER_MODE_NOT_PERMITTED, TR_UNSPECIFIED_FAILURE]"

definition isRequeueableFailure :: "tax_recording_failure option \<Rightarrow> bool" where
  "isRequeueableFailure code = (case code of None \<Rightarrow> False | Some c \<Rightarrow> c \<in> set REQUEUEABLE_FAILURE_CODES)"

datatype operator_action =
    Action_NONE | AWAIT_SCHEDULED_CYCLE | AWAIT_IN_FLIGHT_ATTEMPT | CORRECT_CONFIGURATION_THEN_REQUEUE
  | REQUEUE_AFTER_PROVIDER_RECOVERY | OPERATOR_TAX_ADJUSTMENT_REQUIRED | RECONCILE_PROVIDER_TRANSACTION
  | INVESTIGATE_RECORD_DIVERGENCE

definition operatorActionFor :: "tax_recording_status \<Rightarrow> tax_recording_failure option \<Rightarrow> operator_action" where
  "operatorActionFor status code =
     (case status of
        RECORDED \<Rightarrow> Action_NONE
      | Recording_IN_PROGRESS \<Rightarrow> AWAIT_IN_FLIGHT_ATTEMPT
      | Recording_PENDING \<Rightarrow> AWAIT_SCHEDULED_CYCLE
      | Recording_RETRY_PENDING \<Rightarrow> AWAIT_SCHEDULED_CYCLE
      | Recording_FAILED_PERMANENT \<Rightarrow>
          (case code of
             Some TR_CALCULATION_EXPIRED \<Rightarrow> OPERATOR_TAX_ADJUSTMENT_REQUIRED
           | Some TR_DUPLICATE_REFERENCE \<Rightarrow> RECONCILE_PROVIDER_TRANSACTION
           | Some TR_EVIDENCE_INCONSISTENT \<Rightarrow> INVESTIGATE_RECORD_DIVERGENCE
           | Some TR_PROVIDER_UNAVAILABLE \<Rightarrow> REQUEUE_AFTER_PROVIDER_RECOVERY
           | _ \<Rightarrow> CORRECT_CONFIGURATION_THEN_REQUEUE))"

definition age_seconds :: "instant \<Rightarrow> instant \<Rightarrow> int" where
  "age_seconds from to = max 0 ((to - from) div 1000)"

record recording_inspection =
  rin_orderId :: ident
  rin_taxTransactionId :: ident
  rin_recordingStatus :: tax_recording_status
  rin_attemptCount :: nat
  rin_requeueCount :: nat
  rin_lastFailureCode :: "tax_recording_failure option"
  rin_nextAttemptAt :: "instant option"
  rin_providerCalculationRef :: string
  rin_providerTaxTransactionRef :: "string option"
  rin_action :: operator_action
  rin_requeueable :: bool
  rin_ageSeconds :: int

definition inspection_of :: "instant \<Rightarrow> bool \<Rightarrow> tax_transaction_row \<Rightarrow> recording_inspection" where
  "inspection_of at requeueable r =
     \<lparr>rin_orderId = tt_orderId r, rin_taxTransactionId = tt_id r, rin_recordingStatus = tt_recordingStatus r,
      rin_attemptCount = tt_attemptCount r, rin_requeueCount = tt_requeueCount r,
      rin_lastFailureCode = tt_lastFailureCode r, rin_nextAttemptAt = tt_nextAttemptAt r,
      rin_providerCalculationRef = tt_providerCalculationRef r,
      rin_providerTaxTransactionRef = tt_providerTaxTransactionRef r,
      rin_action = operatorActionFor (tt_recordingStatus r) (tt_lastFailureCode r),
      rin_requeueable = requeueable, rin_ageSeconds = age_seconds (tt_recordedAt r) at\<rparr>"

definition inspectStuckTaxRecordings ::
  "instant \<Rightarrow> int option \<Rightarrow> bool \<Rightarrow> 'a market_tables_scheme \<Rightarrow> recording_inspection list res" where
  "inspectStuckTaxRecordings at limit includeRetrying db =
     map_res (\<lambda>row. chain (taxTransactionRowToRecord row) (\<lambda>r.
         Inr (inspection_of at (tt_recordingStatus r = Recording_FAILED_PERMANENT \<and>
                                isRequeueableFailure (tt_lastFailureCode r)) r)))
       (oldest_recorded (max 1 (min (case limit of None \<Rightarrow> 50 | Some n \<Rightarrow> n) 200))
         (filter (\<lambda>r. if includeRetrying then tt_recordingStatus r \<noteq> RECORDED
                      else tt_recordingStatus r = Recording_FAILED_PERMANENT) (taxTransactions db)))"

definition requeue_recording_row :: "tax_transaction_row \<Rightarrow> instant \<Rightarrow> tax_transaction_row \<Rightarrow> tax_transaction_row" where
  "requeue_recording_row existing at r =
     r\<lparr>tt_recordingStatus := Recording_RETRY_PENDING, tt_nextAttemptAt := Some at, tt_attemptCount := 0,
       tt_finalizedAt := None, tt_requeueCount := tt_requeueCount existing + 1, tt_lastRequeuedAt := Some at\<rparr>"

definition requeue_refusal :: "tax_transaction_row \<Rightarrow> string option" where
  "requeue_refusal existing =
     (if tt_recordingStatus existing \<noteq> Recording_FAILED_PERMANENT then Some ''NOT_TERMINAL''
      else if \<not> isRequeueableFailure (tt_lastFailureCode existing) then Some ''FAILURE_NOT_REQUEUEABLE''
      else None)"

definition requeue_read ::
  "tax_transaction_row \<Rightarrow> instant \<Rightarrow> 'a market_tables_scheme \<Rightarrow> 'a market_tables_scheme \<times> recording_inspection res" where
  "requeue_read existing at db =
     (case requeue_refusal existing of
        Some reason \<Rightarrow> (db, Inl (TaxError ''TAX_REQUEUE_REFUSED''))
      | None \<Rightarrow>
          (let (db', r) = update_tax_transaction (TaxError ''TAX_REQUEUE_FAILED'') (tt_id existing)
                           (requeue_recording_row existing at) db
           in (db', chain r (\<lambda>row. Inr (inspection_of at False row)))))"

definition requeueTaxRecording ::
  "ident \<Rightarrow> instant \<Rightarrow> 'a market_tables_scheme \<Rightarrow> 'a market_tables_scheme \<times> recording_inspection res" where
  "requeueTaxRecording i at db =
     (case find_tax_transaction db i of
        None \<Rightarrow> (db, Inl (TaxError ''TAX_REQUEUE_REFUSED''))
      | Some existing \<Rightarrow> requeue_read existing at db)"

definition countDueTaxRecordingsIn :: "'a market_tables_scheme \<Rightarrow> instant \<Rightarrow> nat" where
  "countDueTaxRecordingsIn db at =
     count_where (\<lambda>r. (tt_recordingStatus r = Recording_PENDING \<or> tt_recordingStatus r = Recording_RETRY_PENDING) \<and>
       (case tt_nextAttemptAt r of None \<Rightarrow> False | Some t \<Rightarrow> t \<le> at)) (taxTransactions db)"

section \<open>Backlog and readiness\<close>

record recording_backlog =
  rbk_pending :: nat
  rbk_retryPending :: nat
  rbk_inProgress :: nat
  rbk_recorded :: nat
  rbk_permanentlyFailed :: nat
  rbk_dueNow :: nat
  rbk_expiredClaims :: nat
  rbk_oldestUnresolvedAgeSeconds :: "int option"
  rbk_paidOrdersMissingTaxTransaction :: nat
  rbk_calculationExpired :: nat

definition unresolved :: "tax_transaction_row \<Rightarrow> bool" where
  "unresolved r = (tt_recordingStatus r \<in> {Recording_PENDING, Recording_IN_PROGRESS, Recording_RETRY_PENDING})"

definition summarizeTaxRecordingBacklog :: "instant \<Rightarrow> 'a market_tables_scheme \<Rightarrow> recording_backlog" where
  "summarizeTaxRecordingBacklog at db =
     (let rows = taxTransactions db; in_status = (\<lambda>s. count_where (\<lambda>r. tt_recordingStatus r = s) rows) in
      \<lparr>rbk_pending = in_status Recording_PENDING, rbk_retryPending = in_status Recording_RETRY_PENDING,
       rbk_inProgress = in_status Recording_IN_PROGRESS, rbk_recorded = in_status RECORDED,
       rbk_permanentlyFailed = in_status Recording_FAILED_PERMANENT, rbk_dueNow = countDueTaxRecordingsIn db at,
       rbk_expiredClaims = count_where (recording_stale at) rows,
       rbk_oldestUnresolvedAgeSeconds =
         (case sort_key tt_recordedAt (filter unresolved rows) of [] \<Rightarrow> None
          | r # _ \<Rightarrow> Some (age_seconds (tt_recordedAt r) at)),
       rbk_paidOrdersMissingTaxTransaction =
         count_where (\<lambda>ord. or_lifecycle ord = Order_PAID \<and> find_order_tax_transaction db (or_id ord) = None) (orders db),
       rbk_calculationExpired =
         count_where (\<lambda>r. tt_recordingStatus r = Recording_FAILED_PERMANENT \<and>
           tt_lastFailureCode r = Some TR_CALCULATION_EXPIRED) rows\<rparr>)"

definition maxOverdueSeconds :: int where "maxOverdueSeconds = 36 * 60 * 60"

definition backlogIsHealthy :: "recording_backlog \<Rightarrow> bool" where
  "backlogIsHealthy b =
     (if rbk_permanentlyFailed b > 0 then False
      else if rbk_paidOrdersMissingTaxTransaction b > 0 then False
      else case rbk_oldestUnresolvedAgeSeconds b of None \<Rightarrow> True | Some age \<Rightarrow> age \<le> maxOverdueSeconds)"

datatype tax_operations_blocker =
    TAX_RECORDING_PERMANENT_FAILURES | TAX_RECORDING_OVERDUE | PAID_ORDERS_MISSING_TAX_TRANSACTION

definition evaluateTaxOperationsReadiness ::
  "instant \<Rightarrow> 'a market_tables_scheme \<Rightarrow> bool \<times> tax_operations_blocker list" where
  "evaluateTaxOperationsReadiness at db =
     (let backlog = summarizeTaxRecordingBacklog at db;
          blockers = (if rbk_permanentlyFailed backlog > 0 then [TAX_RECORDING_PERMANENT_FAILURES] else []) @
                     (if rbk_paidOrdersMissingTaxTransaction backlog > 0 then [PAID_ORDERS_MISSING_TAX_TRANSACTION] else []) @
                     (case rbk_oldestUnresolvedAgeSeconds backlog of None \<Rightarrow> []
                      | Some age \<Rightarrow> if age > maxOverdueSeconds then [TAX_RECORDING_OVERDUE] else [])
      in (length blockers = 0, blockers))"

end
