(* ===== verification/Tax_Recording_Facts.thy ===== *)
theory Tax_Recording_Facts
  imports Tax_Recording
begin

text \<open>
  What the recording operations do to a row.  \<open>report_moves held\<close> is the machine of one tax transaction;
  \<open>held\<close> are the reads on which an attempt or a requeue may have been decided.  The lease-queue contract
  is interpreted on this queue, every operation is shown to move each row by the machine, and the machine
  keeps the sale-time facts and the contract of a row.
\<close>

interpretation recording_queue: lease_queue tt_id recording_due recording_stale tt_lockToken
  claim_recording_row release_recording_row "recording_claimLeaseSeconds * 1000"
  by unfold_locales
    (auto simp: claim_recording_row_def release_recording_row_def recording_due_def recording_stale_def)

section \<open>The machine of a row\<close>

definition recorded_candidate :: "tax_transaction_row \<Rightarrow> string \<Rightarrow> amount \<Rightarrow> tax_transaction_row" where
  "recorded_candidate q ref gross =
     q\<lparr>tt_recordingStatus := RECORDED, tt_providerTaxTransactionRef := Some ref, tt_providerTotalAmount := Some gross\<rparr>"

inductive report_moves :: "tax_transaction_row set \<Rightarrow> tax_transaction_row \<Rightarrow> tax_transaction_row \<Rightarrow> bool" for held where
  kept: "report_moves held r r"
| claimed: "recording_due now r \<Longrightarrow> report_moves held r (claim_recording_row now token r)"
| released: "recording_stale now r \<Longrightarrow> report_moves held r (release_recording_row now r)"
| failed: "q \<in> held \<Longrightarrow> tt_id q = tt_id r \<Longrightarrow> tt_lockToken q \<noteq> None \<Longrightarrow>
    report_moves held r (fail_recording_row q code at r)"
| completed: "q \<in> held \<Longrightarrow> tt_id q = tt_id r \<Longrightarrow> tt_lockToken q \<noteq> None \<Longrightarrow>
    OrderTaxTransactionRecord (recorded_candidate q ref gross) \<Longrightarrow>
    taxTransactionIsCoherent (recorded_candidate q ref gross) \<Longrightarrow>
    report_moves held r (complete_recording_row q ref createdAt gross at r)"
| requeued: "q \<in> held \<Longrightarrow> tt_id q = tt_id r \<Longrightarrow> requeue_refusal q = None \<Longrightarrow>
    report_moves held r (requeue_recording_row q at r)"

inductive_cases report_movesE: "report_moves held r r'"

lemmas recording_row_ops = claim_recording_row_def release_recording_row_def fail_recording_row_def
  complete_recording_row_def requeue_recording_row_def Let_def

definition report_open :: "tax_transaction_row \<Rightarrow> bool" where
  "report_open r \<longleftrightarrow> tt_recordingStatus r \<noteq> RECORDED \<and> tt_recordingStatus r \<noteq> Recording_FAILED_PERMANENT"

definition report_ok :: "tax_transaction_row \<Rightarrow> bool" where
  "report_ok r \<longleftrightarrow> OrderTaxTransactionRecord r \<and> taxTransactionIsCoherent r \<and>
     (report_open r \<longrightarrow> tt_attemptCount r < recording_maxAttempts \<and> tt_nextAttemptAt r \<noteq> None) \<and>
     (\<not> report_open r \<longrightarrow> tt_lockToken r = None \<and> tt_nextAttemptAt r = None) \<and>
     (tt_recordingStatus r = Recording_FAILED_PERMANENT \<longrightarrow> tt_lastFailureCode r \<noteq> None)"

lemma report_ok_locked: "report_ok q \<Longrightarrow> tt_lockToken q \<noteq> None \<Longrightarrow> tt_attemptCount q < recording_maxAttempts"
  by (cases "report_open q") (simp_all add: report_ok_def)

lemma report_ok_attempts: "report_ok r \<Longrightarrow> tt_attemptCount r \<le> recording_maxAttempts"
  by (simp add: report_ok_def OrderTaxTransactionRecord_def)

lemma report_moves_keeps:
  "report_moves held r r' \<Longrightarrow> immutable_tax_transaction_fields r' = immutable_tax_transaction_fields r"
  by (erule report_movesE) (simp_all add: recording_row_ops immutable_tax_transaction_fields_def)

lemma immutable_eqD:
  assumes "immutable_tax_transaction_fields q = immutable_tax_transaction_fields r"
  shows "tt_id q = tt_id r" and "tt_orderId q = tt_orderId r" and "tt_taxEvidenceId q = tt_taxEvidenceId r"
    and "tt_taxableBasis q = tt_taxableBasis r" and "tt_taxAmount q = tt_taxAmount r"
    and "tt_providerCalculationRef q = tt_providerCalculationRef r" and "tt_providerReference q = tt_providerReference r"
    and "tt_currency q = tt_currency r"
  using assms by (simp_all add: immutable_tax_transaction_fields_def)

lemma failed_next_pending:
  assumes "nextTaxRecordingAttemptAt n at = Some t"
  shows "n < recording_maxAttempts"
  using recording_retries.next_pending[of n at] assms by simp

lemma fail_recording_ok:
  assumes "report_ok r" and "tt_attemptCount q < recording_maxAttempts"
  shows "report_ok (fail_recording_row q code at r)"
proof -
  let ?next = "if classifyTaxRecordingFailure code = TRClass_PERMANENT then None
    else nextTaxRecordingAttemptAt (tt_attemptCount q + 1) at"
  have "tt_attemptCount q + 1 < recording_maxAttempts" if "?next \<noteq> None"
    using that failed_next_pending by (auto split: if_split_asm)
  then show ?thesis
    using assms unfolding fail_recording_row_def Let_def
    by (cases ?next) (simp_all add: report_ok_def report_open_def OrderTaxTransactionRecord_def taxTransactionIsCoherent_def)
qed

lemma complete_recording_ok:
  assumes "report_ok r" and "tt_attemptCount q < recording_maxAttempts"
    and "immutable_tax_transaction_fields q = immutable_tax_transaction_fields r"
    and "OrderTaxTransactionRecord (recorded_candidate q ref gross)" and "taxTransactionIsCoherent (recorded_candidate q ref gross)"
  shows "report_ok (complete_recording_row q ref createdAt gross at r)"
proof -
  have ref: "source_ref ref" "Amount gross" "gross = tt_taxableBasis r + tt_taxAmount r"
    using assms(4,5) immutable_eqD[OF assms(3)]
    by (simp_all add: recorded_candidate_def OrderTaxTransactionRecord_def taxTransactionIsCoherent_def opt_all_def)
  then show ?thesis
    using assms(1,2) by (simp add: complete_recording_row_def report_ok_def report_open_def OrderTaxTransactionRecord_def
        taxTransactionIsCoherent_def opt_all_def)
qed

lemma report_moves_ok:
  assumes "report_moves held r r'" and "report_ok r"
    and "\<And>q. q \<in> held \<Longrightarrow> tt_id q = tt_id r \<Longrightarrow>
      report_ok q \<and> immutable_tax_transaction_fields q = immutable_tax_transaction_fields r"
  shows "report_ok r'"
  using assms(1)
proof (cases rule: report_moves.cases)
  case kept
  then show ?thesis using assms(2) by simp
next
  case (claimed now token)
  then have "report_open r" by (auto simp: recording_due_def report_open_def)
  then show ?thesis
    using assms(2) by (simp add: claimed claim_recording_row_def report_ok_def report_open_def OrderTaxTransactionRecord_def
        taxTransactionIsCoherent_def)
next
  case (released now)
  then have "report_open r" by (auto simp: recording_stale_def report_open_def)
  then show ?thesis
    using assms(2) by (simp add: released release_recording_row_def report_ok_def report_open_def OrderTaxTransactionRecord_def
        taxTransactionIsCoherent_def)
next
  case (failed q code at)
  then have "tt_attemptCount q < recording_maxAttempts" using assms(3) report_ok_locked by blast
  then show ?thesis unfolding failed(1) by (rule fail_recording_ok[OF assms(2)])
next
  case (completed q ref gross createdAt at)
  then have "tt_attemptCount q < recording_maxAttempts" using assms(3) report_ok_locked by blast
  then show ?thesis
    unfolding completed(1) using completed assms(3) by (intro complete_recording_ok[OF assms(2)]) auto
next
  case (requeued q at)
  then show ?thesis
    using assms(2) by (simp add: requeue_recording_row_def report_ok_def report_open_def OrderTaxTransactionRecord_def
        taxTransactionIsCoherent_def recording_maxAttempts_def)
qed

section \<open>The operations\<close>

text \<open>An operation that only moves reports.\<close>

definition moves_reports ::
  "tax_transaction_row set \<Rightarrow> 'a market_tables_scheme \<Rightarrow> 'a market_tables_scheme \<Rightarrow> bool" where
  "moves_reports held db db' \<longleftrightarrow> (\<exists>rows. db' = db\<lparr>taxTransactions := rows\<rparr> \<and> list_all2 (report_moves held) (taxTransactions db) rows)"

lemma moves_reports_update_where:
  assumes "\<And>r. r \<in> set (taxTransactions db) \<Longrightarrow> P r \<Longrightarrow> report_moves held r (f r)"
  shows "moves_reports held db (db\<lparr>taxTransactions := update_where P f (taxTransactions db)\<rparr>)"
proof -
  have "list_all2 (report_moves held) (taxTransactions db) (update_where P f (taxTransactions db))"
    unfolding update_where_def list_all2_map2 using assms by (auto intro!: list.rel_refl_strong report_moves.kept)
  then show ?thesis by (auto simp: moves_reports_def)
qed

lemma moves_reports_refl [simp]: "moves_reports held db db"
  using moves_reports_update_where[of db "\<lambda>_. False"] by (simp add: update_where_none)

lemma claimDueTaxTransactions_moves:
  assumes "claimDueTaxTransactions token now limit db = (db', r)"
  shows "moves_reports held db db'"
proof -
  have "moves_reports held db (db\<lparr>taxTransactions := claim_stamp tt_id recording_due claim_recording_row now token ids (taxTransactions db)\<rparr>)" for ids
    unfolding claim_stamp_def by (rule moves_reports_update_where) (simp add: report_moves.claimed)
  then show ?thesis using assms by (auto simp: claimDueTaxTransactions_def Let_def split: if_split_asm)
qed

lemma recoverStaleTaxTransactionClaims_moves:
  assumes "recoverStaleTaxTransactionClaims now db = (db', n)"
  shows "moves_reports held db db'"
proof -
  have "moves_reports held db (db\<lparr>taxTransactions := release_stale recording_stale release_recording_row now (taxTransactions db)\<rparr>)"
    unfolding release_stale_def by (rule moves_reports_update_where) (simp add: report_moves.released)
  then show ?thesis using assms by (auto simp: recoverStaleTaxTransactionClaims_def)
qed

lemma update_tax_transaction_moves:
  assumes "update_tax_transaction e (tt_id q) f db = (db', out)"
    and "\<And>r. r \<in> set (taxTransactions db) \<Longrightarrow> tt_id r = tt_id q \<Longrightarrow> report_moves held r (f r)"
  shows "moves_reports held db db'"
proof -
  have "moves_reports held db (db\<lparr>taxTransactions := update_where (\<lambda>r. tt_id r = tt_id q) f (taxTransactions db)\<rparr>)"
    by (rule moves_reports_update_where) (rule assms(2))
  then show ?thesis using assms(1) by (auto simp: update_tax_transaction_def split: option.split_asm)
qed

lemma resolve_recording_read_moves:
  assumes "resolve_recording_read q out at db = (db', r)" and "q \<in> held" and "tt_lockToken q \<noteq> None"
  shows "moves_reports held db db'"
proof -
  have fails: "moves_reports held db d" if "failAttempt q code at db = (d, x)" for code d x
    using that unfolding failAttempt_def
    by (rule update_tax_transaction_moves) (use assms(2,3) in \<open>simp add: report_moves.failed\<close>)
  show ?thesis
  proof (cases out)
    case (Recording_FAILED code)
    then show ?thesis using assms(1) fails by (simp add: resolve_recording_read_def)
  next
    case (Recording_SUCCEEDED ref createdAt gross)
    let ?c = "recorded_candidate q ref gross"
    have completes: "moves_reports held db d"
      if "OrderTaxTransactionRecord ?c" "taxTransactionIsCoherent ?c"
        "update_tax_transaction e (tt_id q) (complete_recording_row q ref createdAt gross at) db = (d, x)" for e d x
      using that(3) by (rule update_tax_transaction_moves) (use assms(2,3) that(1,2) in \<open>simp add: report_moves.completed\<close>)
    show ?thesis
      using assms(1) fails completes
      by (auto simp: resolve_recording_read_def Recording_SUCCEEDED taxTransactionRowToRecord_def recorded_candidate_def[symmetric]
          split: if_split_asm)
  qed
qed

lemma resolveTaxTransactionAttempt_moves:
  assumes "resolveTaxTransactionAttempt i token out at db = (db', r)"
    and "\<And>q. find_tax_transaction db i = Some q \<Longrightarrow> q \<in> held"
  shows "moves_reports held db db'"
proof (cases "find_tax_transaction db i")
  case None
  then show ?thesis using assms(1) by (simp add: resolveTaxTransactionAttempt_def)
next
  case (Some q)
  obtain d x where d: "resolve_recording_read q out at db = (d, x)" by (cases "resolve_recording_read q out at db")
  have "moves_reports held db d" if "tt_lockToken q \<noteq> None"
    using resolve_recording_read_moves[OF d assms(2)[OF Some] that] .
  then show ?thesis using assms(1) by (auto simp: resolveTaxTransactionAttempt_def Some d split: if_split_asm)
qed

lemma requeue_read_moves:
  assumes "requeue_read q at db = (db', r)" and "q \<in> held"
  shows "moves_reports held db db'"
proof (cases "requeue_refusal q")
  case None
  obtain d x where d: "update_tax_transaction (TaxError ''TAX_REQUEUE_FAILED'') (tt_id q) (requeue_recording_row q at) db = (d, x)"
    by (cases "update_tax_transaction (TaxError ''TAX_REQUEUE_FAILED'') (tt_id q) (requeue_recording_row q at) db")
  have "moves_reports held db d"
    by (rule update_tax_transaction_moves[OF d]) (use assms(2) None in \<open>simp add: report_moves.requeued\<close>)
  then show ?thesis using assms(1) by (simp add: requeue_read_def None d)
next
  case (Some reason)
  then show ?thesis using assms(1) by (simp add: requeue_read_def)
qed

lemma requeueTaxRecording_moves:
  assumes "requeueTaxRecording i at db = (db', r)" and "\<And>q. find_tax_transaction db i = Some q \<Longrightarrow> q \<in> held"
  shows "moves_reports held db db'"
  using assms requeue_read_moves by (auto simp: requeueTaxRecording_def split: option.split_asm)

section \<open>The operator's requeue\<close>

text \<open>The advice to requeue and the check of a requeue agree on the reports the queue keeps.\<close>

lemma advised_iff:
  assumes "report_ok r"
  shows "requeue_refusal r = None \<longleftrightarrow> operatorActionFor (tt_recordingStatus r) (tt_lastFailureCode r)
    \<in> {CORRECT_CONFIGURATION_THEN_REQUEUE, REQUEUE_AFTER_PROVIDER_RECOVERY}"
proof (cases "tt_recordingStatus r = Recording_FAILED_PERMANENT")
  case True
  then obtain code where "tt_lastFailureCode r = Some code" using assms by (auto simp: report_ok_def)
  with True show ?thesis
    by (cases code) (simp_all add: requeue_refusal_def isRequeueableFailure_def REQUEUEABLE_FAILURE_CODES_def operatorActionFor_def)
next
  case False
  then show ?thesis by (cases "tt_recordingStatus r") (simp_all add: requeue_refusal_def operatorActionFor_def)
qed

lemma requeue_read_writes:
  assumes "report_ok r" and "find_tax_transaction db (tt_id q) = Some r" and "requeue_refusal q = None"
  shows "requeue_read q at db =
    (db\<lparr>taxTransactions := update_where (\<lambda>r. tt_id r = tt_id q) (requeue_recording_row q at) (taxTransactions db)\<rparr>,
     Inr (inspection_of at False (requeue_recording_row q at r)))"
proof -
  have "OrderTaxTransactionRecord (requeue_recording_row q at r)"
    using assms(1) by (simp add: requeue_recording_row_def report_ok_def OrderTaxTransactionRecord_def recording_maxAttempts_def)
  then show ?thesis using assms(2,3) by (simp add: requeue_read_def update_tax_transaction_def taxTransactionRowToRecord_def)
qed

end
