(* ===== verification/Tax_Recording_History.thy ===== *)
theory Tax_Recording_History
  imports Tax_Recording_Facts
begin

text \<open>
  Histories of the recording queue.  \<open>reporting_step\<close> is over the tables with the rows that workers and
  operators have read and may still act on; a sale's transaction appears as the commit of its obligation
  and an \<open>elsewhere\<close> step.  \<open>serial_report_step\<close> has the operations whole, each deciding on the row as it
  stands.
\<close>

section \<open>Steps\<close>

definition relabelled :: "tax_transaction_row \<Rightarrow> tax_transaction_row \<Rightarrow> bool" where
  "relabelled r r' \<longleftrightarrow> (\<exists>l. r' = r\<lparr>tt_lifecycleState := l\<rparr>)"

text \<open>The rest of the program moves at most the lifecycle state of a report, which a reversal marks.\<close>

definition leaves_reports_alone :: "'a sale_tables_scheme \<Rightarrow> 'a sale_tables_scheme \<Rightarrow> bool" where
  "leaves_reports_alone db db' \<longleftrightarrow> taxEvidences db' = taxEvidences db \<and>
     list_all2 relabelled (taxTransactions db) (taxTransactions db')"

inductive reporting_step ::
  "'a sale_tables_scheme \<times> tax_transaction_row list \<Rightarrow> 'a sale_tables_scheme \<times> tax_transaction_row list \<Rightarrow> bool" where
  evidenced: "recordOrderTaxEvidence i ord quote at snap db = (db', out) \<Longrightarrow> reporting_step (db, held) (db', held)"
| committed: "commitTaxTransactionObligationInTx tid oid basis at db = Inr (db', t) \<Longrightarrow> reporting_step (db, held) (db', held)"
| claimed: "claimDueTaxTransactions token now limit db = (db', c) \<Longrightarrow> reporting_step (db, held) (db', held)"
| recovered: "recoverStaleTaxTransactionClaims now db = (db', n) \<Longrightarrow> reporting_step (db, held) (db', held)"
| read: "find_tax_transaction db i = Some q \<Longrightarrow> reporting_step (db, held) (db, q # held)"
| resolved: "q \<in> set held \<Longrightarrow> tt_lockToken q \<noteq> None \<Longrightarrow> resolve_recording_read q answer at db = (db', r) \<Longrightarrow>
    reporting_step (db, held) (db', held)"
| requeued: "q \<in> set held \<Longrightarrow> requeue_read q at db = (db', r) \<Longrightarrow> reporting_step (db, held) (db', held)"
| elsewhere: "leaves_reports_alone db db' \<Longrightarrow> reporting_step (db, held) (db', held)"

inductive serial_report_step :: "'a sale_tables_scheme \<Rightarrow> 'a sale_tables_scheme \<Rightarrow> bool" where
  evidenced: "recordOrderTaxEvidence i ord quote at snap db = (db', out) \<Longrightarrow> serial_report_step db db'"
| committed: "commitTaxTransactionObligationInTx tid oid basis at db = Inr (db', t) \<Longrightarrow> serial_report_step db db'"
| claimed: "claimDueTaxTransactions token now limit db = (db', c) \<Longrightarrow> serial_report_step db db'"
| recovered: "recoverStaleTaxTransactionClaims now db = (db', n) \<Longrightarrow> serial_report_step db db'"
| resolved: "resolveTaxTransactionAttempt i token answer at db = (db', r) \<Longrightarrow> serial_report_step db db'"
| requeued: "requeueTaxRecording i at db = (db', r) \<Longrightarrow> serial_report_step db db'"
| elsewhere: "leaves_reports_alone db db' \<Longrightarrow> serial_report_step db db'"

section \<open>The invariant\<close>

text \<open>A report is of the calculation its Order was charged under.\<close>

definition evidenced_by :: "tax_transaction_row \<Rightarrow> tax_evidence_row \<Rightarrow> bool" where
  "evidenced_by r e \<longleftrightarrow> txe_orderId e = tt_orderId r \<and> txe_id e = tt_taxEvidenceId r \<and> txe_provider e = tt_provider r \<and>
     txe_providerCalculationRef e = tt_providerCalculationRef r \<and> txe_currency e = tt_currency r \<and>
     txe_taxAmount e = tt_taxAmount r \<and> tt_providerReference r = tt_orderId r"

definition reports_inv :: "'a sale_tables_scheme \<times> tax_transaction_row list \<Rightarrow> bool" where
  "reports_inv s \<longleftrightarrow> (case s of (db, held) \<Rightarrow>
     unique_on tt_id (taxTransactions db) \<and> unique_on tt_orderId (taxTransactions db) \<and> unique_on txe_orderId (taxEvidences db) \<and>
     (\<forall>r\<in>set (taxTransactions db). report_ok r \<and> (\<exists>e\<in>set (taxEvidences db). evidenced_by r e)) \<and>
     (\<forall>q\<in>set held. report_ok q \<and>
        (\<exists>r\<in>set (taxTransactions db). immutable_tax_transaction_fields q = immutable_tax_transaction_fields r)))"

lemma evidenced_by_cong:
  "immutable_tax_transaction_fields q = immutable_tax_transaction_fields r \<Longrightarrow> evidenced_by q e \<longleftrightarrow> evidenced_by r e"
  by (auto simp: evidenced_by_def immutable_tax_transaction_fields_def)

lemma map_rel_eq: "list_all2 R xs ys \<Longrightarrow> (\<And>x y. x \<in> set xs \<Longrightarrow> R x y \<Longrightarrow> f y = f x) \<Longrightarrow> map f ys = map f xs"
  by (induction rule: list_all2_induct) auto

lemma list_all2_in: "list_all2 R xs ys \<Longrightarrow> y \<in> set ys \<Longrightarrow> \<exists>x\<in>set xs. R x y"
  by (induction rule: list_all2_induct) auto

lemma list_all2_in_left: "list_all2 R xs ys \<Longrightarrow> x \<in> set xs \<Longrightarrow> \<exists>y\<in>set ys. R x y"
  by (induction rule: list_all2_induct) auto

lemma relabelled_keeps:
  assumes "relabelled r r'"
  shows "immutable_tax_transaction_fields r' = immutable_tax_transaction_fields r" and "report_ok r \<Longrightarrow> report_ok r'"
proof -
  from assms obtain l where r': "r' = r\<lparr>tt_lifecycleState := l\<rparr>" by (auto simp: relabelled_def)
  show "immutable_tax_transaction_fields r' = immutable_tax_transaction_fields r"
    by (simp add: r' immutable_tax_transaction_fields_def)
  show "report_ok r \<Longrightarrow> report_ok r'"
    by (simp add: r' report_ok_def report_open_def OrderTaxTransactionRecord_def taxTransactionIsCoherent_def)
qed

text \<open>One lemma carries every operation that only changes rows in place.\<close>

lemma reports_inv_in_place:
  assumes "reports_inv (db, held)" and "taxEvidences db' = taxEvidences db"
    and rel: "list_all2 R (taxTransactions db) (taxTransactions db')"
    and keeps: "\<And>r r'. r \<in> set (taxTransactions db) \<Longrightarrow> R r r' \<Longrightarrow>
      immutable_tax_transaction_fields r' = immutable_tax_transaction_fields r"
    and ok: "\<And>r r'. r \<in> set (taxTransactions db) \<Longrightarrow> R r r' \<Longrightarrow> report_ok r \<Longrightarrow> report_ok r'"
  shows "reports_inv (db', held)"
proof -
  have facts: "map immutable_tax_transaction_fields (taxTransactions db') = map immutable_tax_transaction_fields (taxTransactions db)"
    by (rule map_rel_eq[OF rel]) (rule keeps)
  have ids: "map tt_id (taxTransactions db') = map tt_id (taxTransactions db)"
    "map tt_orderId (taxTransactions db') = map tt_orderId (taxTransactions db)"
    by (rule map_rel_eq[OF rel], drule keeps, assumption, erule immutable_eqD)+
  have rows: "report_ok r' \<and> (\<exists>e\<in>set (taxEvidences db'). evidenced_by r' e)" if "r' \<in> set (taxTransactions db')" for r'
  proof -
    from list_all2_in[OF rel that] obtain r where r: "r \<in> set (taxTransactions db)" "R r r'" by blast
    then have "report_ok r" "\<exists>e\<in>set (taxEvidences db). evidenced_by r e" using assms(1) by (simp_all add: reports_inv_def)
    then show ?thesis using ok[OF r] assms(2) evidenced_by_cong[OF keeps[OF r]] by simp
  qed
  have held: "\<exists>r'\<in>set (taxTransactions db'). immutable_tax_transaction_fields q = immutable_tax_transaction_fields r'"
    if "q \<in> set held" for q
  proof -
    have "immutable_tax_transaction_fields q \<in> set (map immutable_tax_transaction_fields (taxTransactions db))"
      using assms(1) that by (auto simp: reports_inv_def)
    then show ?thesis unfolding facts[symmetric] by auto
  qed
  show ?thesis
    using assms(1,2) rows held ids by (simp add: reports_inv_def unique_on_def)
qed

lemma moves_reports_inv:
  assumes "reports_inv (db, held)" and "moves_reports Q db db'"
    and "\<And>q. q \<in> Q \<Longrightarrow> q \<in> set held \<or> q \<in> set (taxTransactions db)"
  shows "reports_inv (db', held)"
proof -
  from assms(2) obtain rows where db': "db' = db\<lparr>taxTransactions := rows\<rparr>"
    and rel: "list_all2 (report_moves Q) (taxTransactions db) rows" by (auto simp: moves_reports_def)
  have known: "report_ok q \<and> immutable_tax_transaction_fields q = immutable_tax_transaction_fields r"
    if "q \<in> Q" "tt_id q = tt_id r" "r \<in> set (taxTransactions db)" for q r
  proof -
    note at = that and inv = assms(1)[unfolded reports_inv_def prod.case]
    have "report_ok q \<and> (\<exists>r2\<in>set (taxTransactions db). immutable_tax_transaction_fields q = immutable_tax_transaction_fields r2)"
      using inv assms(3)[OF at(1)] by blast
    then obtain r2 where r2: "r2 \<in> set (taxTransactions db)" "immutable_tax_transaction_fields q = immutable_tax_transaction_fields r2"
      and ok: "report_ok q" by blast
    have "r2 = r"
      using unique_on_eq[OF conjunct1[OF inv] r2(1) at(3)] at(2) immutable_eqD(1)[OF r2(2)] by simp
    with r2 ok show ?thesis by simp
  qed
  show ?thesis
  proof (rule reports_inv_in_place[OF assms(1)])
    show "taxEvidences db' = taxEvidences db" by (simp add: db')
    show "list_all2 (report_moves Q) (taxTransactions db) (taxTransactions db')" using rel by (simp add: db')
    show "report_moves Q r r' \<Longrightarrow> immutable_tax_transaction_fields r' = immutable_tax_transaction_fields r" for r r'
      by (rule report_moves_keeps)
    show "report_ok r'" if "r \<in> set (taxTransactions db)" "report_moves Q r r'" "report_ok r" for r r'
      by (rule report_moves_ok[OF that(2,3)]) (rule known[OF _ _ that(1)])
  qed
qed

lemma commit_rows:
  assumes "commitTaxTransactionObligationInTx tid oid basis at db = Inr (db', t)"
  obtains "db' = db" | row e facts ord where "db' = db\<lparr>taxTransactions := taxTransactions db @ [row]\<rparr>"
    and "find_tax_evidence db oid = Some e" and "reportable_tax e = Some facts" and "find_order db oid = Some ord"
    and "row = tax_transaction_of tid e facts oid (or_internalProductId ord) basis at" and "OrderTaxTransactionRecord row"
    and "\<forall>x\<in>set (taxTransactions db). tt_id x \<noteq> tt_id row \<and> tt_orderId x \<noteq> tt_orderId row"
proof (cases "\<exists>e facts ord. find_tax_evidence db oid = Some e \<and> reportable_tax e = Some facts \<and> find_order db oid = Some ord")
  case False
  then have "db' = db"
    using assms by (auto simp: commitTaxTransactionObligationInTx_def split: option.split_asm)
  then show thesis by (rule that(1))
next
  case True
  then obtain e facts ord where found: "find_tax_evidence db oid = Some e" "reportable_tax e = Some facts" "find_order db oid = Some ord"
    by blast
  let ?row = "tax_transaction_of tid e facts oid (or_internalProductId ord) basis at"
  have ins: "insert_tax_transaction ?row db = Inr db'" and ok: "OrderTaxTransactionRecord ?row"
    using assms by (auto simp: commitTaxTransactionObligationInTx_def found Let_def chain_Inr_iff)
  have "db' = db\<lparr>taxTransactions := taxTransactions db @ [?row]\<rparr>"
    and "\<forall>x\<in>set (taxTransactions db). tt_id x \<noteq> tt_id ?row \<and> tt_orderId x \<noteq> tt_orderId ?row"
    using ins by (auto simp: insert_tax_transaction_def list_ex_iff split: if_split_asm)
  then show thesis using that(2)[OF _ found refl ok] by blast
qed

lemma committed_report:
  assumes "e \<in> set (taxEvidences db)" and "txe_orderId e = oid" and "reportable_tax e = Some facts"
    and "OrderTaxTransactionRecord (tax_transaction_of tid e facts oid productId basis at)"
  shows "report_ok (tax_transaction_of tid e facts oid productId basis at)"
    and "evidenced_by (tax_transaction_of tid e facts oid productId basis at) e"
  using assms
  by (auto simp: report_ok_def report_open_def taxTransactionIsCoherent_def tax_transaction_of_def evidenced_by_def
      recording_maxAttempts_def split: prod.split)

lemma reports_inv_committed:
  assumes "reports_inv (db, held)" and "commitTaxTransactionObligationInTx tid oid basis at db = Inr (db', t)"
  shows "reports_inv (db', held)"
proof (cases rule: commit_rows[OF assms(2)])
  case 1
  then show ?thesis using assms(1) by simp
next
  case (2 row e facts ord)
  have e: "e \<in> set (taxEvidences db)" "txe_orderId e = oid" using 2(2) by (auto simp: find_tax_evidence_def dest: find_Some_set)
  note new = committed_report[OF e 2(3), of tid "or_internalProductId ord" basis at, folded 2(5), OF 2(6)]
  show ?thesis
    using assms(1) new e(1) 2(7) by (auto simp: reports_inv_def 2(1))
qed

lemma reports_inv_evidenced:
  assumes "reports_inv (db, held)" and "recordOrderTaxEvidence i ord quote at snap db = (db', out)"
  shows "reports_inv (db', held)"
proof -
  have "db' = db \<or> (db' = db\<lparr>taxEvidences := taxEvidences db @ [tax_evidence_of i ord quote at snap]\<rparr> \<and>
      or_id ord \<notin> txe_orderId ` set (taxEvidences db))"
    using assms(2) by (auto simp: recordOrderTaxEvidence_def Let_def list_ex_iff split: sum.split_asm if_split_asm)
  moreover have "txe_orderId (tax_evidence_of i ord quote at snap) = or_id ord" by (simp add: tax_evidence_of_def)
  ultimately show ?thesis
  proof (elim disjE conjE)
    assume "db' = db\<lparr>taxEvidences := taxEvidences db @ [tax_evidence_of i ord quote at snap]\<rparr>"
      and "or_id ord \<notin> txe_orderId ` set (taxEvidences db)" and "txe_orderId (tax_evidence_of i ord quote at snap) = or_id ord"
    then show ?thesis using assms(1) by (simp add: reports_inv_def)
  next
    assume "db' = db"
    then show ?thesis using assms(1) by simp
  qed
qed

lemma reports_inv_elsewhere:
  assumes "reports_inv (db, held)" and "leaves_reports_alone db db'"
  shows "reports_inv (db', held)"
proof (rule reports_inv_in_place[OF assms(1)])
  show "taxEvidences db' = taxEvidences db" and "list_all2 relabelled (taxTransactions db) (taxTransactions db')"
    using assms(2) by (simp_all add: leaves_reports_alone_def)
qed (rule relabelled_keeps, assumption+)+

lemma reporting_step_inv: "reporting_step s s' \<Longrightarrow> reports_inv s \<Longrightarrow> reports_inv s'"
proof (induction rule: reporting_step.induct)
  case (evidenced i ord quote at snap db db' out held)
  show ?case by (rule reports_inv_evidenced[OF evidenced(2,1)])
next
  case (committed tid oid basis at db db' t held)
  show ?case by (rule reports_inv_committed[OF committed(2,1)])
next
  case (claimed token now limit db db' c held)
  show ?case by (rule moves_reports_inv[OF claimed(2) claimDueTaxTransactions_moves[OF claimed(1), of "{}"]]) simp
next
  case (recovered now db db' n held)
  show ?case by (rule moves_reports_inv[OF recovered(2) recoverStaleTaxTransactionClaims_moves[OF recovered(1), of "{}"]]) simp
next
  case (read db i q held)
  have "q \<in> set (taxTransactions db)" using read(1) by (auto simp: find_tax_transaction_def dest: find_Some_set)
  then show ?case using read(2) by (auto simp: reports_inv_def)
next
  case (resolved q held answer at db db' r)
  show ?case
    by (rule moves_reports_inv[OF resolved(4) resolve_recording_read_moves[OF resolved(3), of "{q}"]]) (use resolved(1,2) in simp_all)
next
  case (requeued q held at db db' r)
  show ?case by (rule moves_reports_inv[OF requeued(3) requeue_read_moves[OF requeued(2), of "{q}"]]) (use requeued(1) in simp_all)
next
  case (elsewhere db db' held)
  show ?case by (rule reports_inv_elsewhere[OF elsewhere(2,1)])
qed

lemma reporting_steps_inv: "reporting_step\<^sup>*\<^sup>* s s' \<Longrightarrow> reports_inv s \<Longrightarrow> reports_inv s'"
  by (induction rule: rtranclp_induct) (simp_all add: reporting_step_inv)

section \<open>Facts of a history\<close>

text \<open>A report keeps its sale-time facts, whatever was read when.\<close>

lemma reporting_step_keeps:
  assumes "reporting_step s s'"
  shows "\<exists>new. map immutable_tax_transaction_fields (taxTransactions (fst s')) =
    map immutable_tax_transaction_fields (taxTransactions (fst s)) @ new"
proof -
  have moved: ?thesis if "moves_reports Q (fst s) (fst s')" for Q
    using that map_rel_eq[of "report_moves Q" _ _ immutable_tax_transaction_fields] report_moves_keeps
    by (auto simp: moves_reports_def)
  from assms show ?thesis
  proof (cases rule: reporting_step.cases)
    case (evidenced i ord quote at snap db db' out held)
    then show ?thesis using recordOrderTaxEvidence_frame(3)[OF evidenced(3)] by simp
  next
    case (committed tid oid basis at db db' t held)
    then show ?thesis by (cases rule: commit_rows[OF committed(3)]) auto
  next
    case (claimed token now limit db db' c held)
    then show ?thesis using moved[OF claimDueTaxTransactions_moves] by simp
  next
    case (recovered now db db' n held)
    then show ?thesis using moved[OF recoverStaleTaxTransactionClaims_moves] by simp
  next
    case (resolved q held answer at db db' r)
    then show ?thesis using moved[OF resolve_recording_read_moves] by simp
  next
    case (requeued q held at db db' r)
    then show ?thesis using moved[OF requeue_read_moves] by simp
  next
    case (elsewhere db db' held)
    then show ?thesis
      using map_rel_eq[of relabelled _ _ immutable_tax_transaction_fields] relabelled_keeps(1)
      by (auto simp: leaves_reports_alone_def)
  qed simp
qed

lemma reporting_steps_keep:
  assumes "reporting_step\<^sup>*\<^sup>* s s'"
  shows "\<exists>new. map immutable_tax_transaction_fields (taxTransactions (fst s')) =
    map immutable_tax_transaction_fields (taxTransactions (fst s)) @ new"
  using assms
proof (induction rule: rtranclp_induct)
  case (step t u)
  then show ?case using reporting_step_keeps[OF step(2)] by auto
qed simp

section \<open>Serial histories\<close>

text \<open>How a report moves when nothing stale is written: a recorded one is final, a failed one waits for
  its requeue, and within one round attempts only grow.\<close>

definition report_progress :: "tax_transaction_row \<Rightarrow> tax_transaction_row \<Rightarrow> bool" where
  "report_progress r r' \<longleftrightarrow> tt_id r' = tt_id r \<and> tt_requeueCount r \<le> tt_requeueCount r' \<and>
     (tt_requeueCount r' = tt_requeueCount r \<longrightarrow> tt_attemptCount r \<le> tt_attemptCount r') \<and>
     (tt_recordingStatus r = RECORDED \<longrightarrow> relabelled r r') \<and>
     (tt_recordingStatus r = Recording_FAILED_PERMANENT \<and> tt_requeueCount r' = tt_requeueCount r \<longrightarrow> relabelled r r')"

lemma relabelled_refl [simp]: "relabelled r r"
  by (simp add: relabelled_def) (metis tax_transaction_row.surjective tax_transaction_row.update_convs(24))

lemma relabelled_fields:
  assumes "relabelled r r'"
  shows "tt_recordingStatus r' = tt_recordingStatus r" and "tt_requeueCount r' = tt_requeueCount r"
    and "tt_attemptCount r' = tt_attemptCount r" and "tt_id r' = tt_id r"
  using assms by (auto simp: relabelled_def)

lemma relabelled_trans: "relabelled a b \<Longrightarrow> relabelled b c \<Longrightarrow> relabelled a c"
  by (auto simp: relabelled_def)

lemma relabelled_progress: "relabelled r r' \<Longrightarrow> report_progress r r'"
  using relabelled_fields[of r r'] by (simp add: report_progress_def)

lemma report_progress_trans:
  assumes "report_progress a b" and "report_progress b c"
  shows "report_progress a c"
proof -
  have "relabelled a c" if "tt_recordingStatus a = RECORDED"
  proof -
    have ab: "relabelled a b" using assms(1) that by (simp add: report_progress_def)
    then have "relabelled b c" using assms(2) that relabelled_fields(1)[OF ab] by (simp add: report_progress_def)
    with ab show ?thesis by (rule relabelled_trans)
  qed
  moreover have "relabelled a c" if "tt_recordingStatus a = Recording_FAILED_PERMANENT" "tt_requeueCount c = tt_requeueCount a"
  proof -
    have "tt_requeueCount b = tt_requeueCount a" using assms that(2) by (simp add: report_progress_def)
    then have ab: "relabelled a b" using assms(1) that(1) by (simp add: report_progress_def)
    then have "relabelled b c" using assms(2) that relabelled_fields(1,2)[OF ab] by (simp add: report_progress_def)
    with ab show ?thesis by (rule relabelled_trans)
  qed
  ultimately show ?thesis using assms by (auto simp: report_progress_def)
qed

lemma report_moves_self:
  assumes "report_moves Q r r'" and "\<And>q. q \<in> Q \<Longrightarrow> tt_id q = tt_id r \<Longrightarrow> q = r"
  shows "report_moves {r} r r'"
  using assms(1)
proof (cases rule: report_moves.cases)
  case (failed q code at)
  then show ?thesis using assms(2)[OF failed(2,3)] report_moves.failed[of q "{r}"] by simp
next
  case (completed q ref gross createdAt at)
  then show ?thesis using assms(2)[OF completed(2,3)] report_moves.completed[of q "{r}"] by simp
next
  case (requeued q at)
  then show ?thesis using assms(2)[OF requeued(2,3)] report_moves.requeued[of q "{r}"] by simp
qed (simp_all add: report_moves.kept report_moves.claimed report_moves.released)

lemma report_moves_progress:
  assumes "report_moves {r} r r'" and "report_ok r"
  shows "report_progress r r'"
  using assms(1)
proof (cases rule: report_moves.cases)
  case kept
  then show ?thesis by (simp add: relabelled_progress)
next
  case (claimed now token)
  then show ?thesis by (auto simp: report_progress_def recording_row_ops recording_due_def)
next
  case (released now)
  then show ?thesis by (auto simp: report_progress_def recording_row_ops recording_stale_def)
next
  case (failed q code at)
  then have "report_open r" using assms(2) by (auto simp: report_ok_def)
  then show ?thesis using failed by (simp add: report_progress_def recording_row_ops report_open_def)
next
  case (completed q ref gross createdAt at)
  then have "report_open r" using assms(2) by (auto simp: report_ok_def)
  then show ?thesis using completed by (simp add: report_progress_def recording_row_ops report_open_def)
next
  case (requeued q at)
  then show ?thesis by (auto simp: report_progress_def recording_row_ops requeue_refusal_def split: if_split_asm)
qed

definition reports_advance :: "'a sale_tables_scheme \<Rightarrow> 'a sale_tables_scheme \<Rightarrow> bool" where
  "reports_advance db db' \<longleftrightarrow> (\<forall>r\<in>set (taxTransactions db). \<exists>r'\<in>set (taxTransactions db'). report_progress r r')"

lemma moves_reports_advance:
  assumes "reports_inv (db, held)" and "moves_reports Q db db'" and "\<And>q. q \<in> Q \<Longrightarrow> q \<in> set (taxTransactions db)"
  shows "reports_advance db db'"
  unfolding reports_advance_def
proof
  fix r assume r: "r \<in> set (taxTransactions db)"
  have u: "unique_on tt_id (taxTransactions db)" and ok: "report_ok r" using assms(1) r by (simp_all add: reports_inv_def)
  have rel: "list_all2 (report_moves Q) (taxTransactions db) (taxTransactions db')" using assms(2) by (auto simp: moves_reports_def)
  from list_all2_in_left[OF rel r] obtain r' where r': "r' \<in> set (taxTransactions db')" "report_moves Q r r'" by blast
  have "report_moves {r} r r'" using r'(2) by (rule report_moves_self) (use unique_on_eq[OF u _ r] assms(3) in blast)
  then show "\<exists>r'\<in>set (taxTransactions db'). report_progress r r'" using report_moves_progress ok r'(1) by blast
qed

lemma found_report: "find_tax_transaction db i = Some q \<Longrightarrow> q \<in> set (taxTransactions db)"
  by (auto simp: find_tax_transaction_def dest: find_Some_set)

lemma reports_advance_sub: "set (taxTransactions db) \<subseteq> set (taxTransactions db') \<Longrightarrow> reports_advance db db'"
  unfolding reports_advance_def using relabelled_progress[OF relabelled_refl] by blast

lemma serial_report_step_inv:
  assumes "serial_report_step db db'" and inv: "reports_inv (db, [])"
  shows "reports_inv (db', []) \<and> reports_advance db db'"
proof -
  have moved: ?thesis if "moves_reports Q db db'" "\<And>q. q \<in> Q \<Longrightarrow> q \<in> set (taxTransactions db)" for Q
    using moves_reports_inv[OF inv that(1)] moves_reports_advance[OF inv that] that(2) by blast
  from assms(1) show ?thesis
  proof (cases rule: serial_report_step.cases)
    case (evidenced i ord quote at snap out)
    then show ?thesis
      using reports_inv_evidenced[OF inv evidenced] recordOrderTaxEvidence_frame(3)[OF evidenced] reports_advance_sub[of db db'] by simp
  next
    case (committed tid oid basis at t)
    have "set (taxTransactions db) \<subseteq> set (taxTransactions db')" by (cases rule: commit_rows[OF committed]) auto
    then show ?thesis using reports_inv_committed[OF inv committed] reports_advance_sub by blast
  next
    case (claimed token now limit c)
    show ?thesis by (rule moved[OF claimDueTaxTransactions_moves[OF claimed, of "{}"]]) simp
  next
    case (recovered now n)
    show ?thesis by (rule moved[OF recoverStaleTaxTransactionClaims_moves[OF recovered, of "{}"]]) simp
  next
    case (resolved i token answer at r)
    show ?thesis
      by (rule moved[OF resolveTaxTransactionAttempt_moves[OF resolved, of "set_option (find_tax_transaction db i)"]])
         (auto dest: found_report)
  next
    case (requeued i at r)
    show ?thesis
      by (rule moved[OF requeueTaxRecording_moves[OF requeued, of "set_option (find_tax_transaction db i)"]])
         (auto dest: found_report)
  next
    case elsewhere
    have "reports_advance db db'"
      using list_all2_in_left[of relabelled "taxTransactions db" "taxTransactions db'"] elsewhere relabelled_progress
      unfolding reports_advance_def leaves_reports_alone_def by meson
    then show ?thesis using reports_inv_elsewhere[OF inv elsewhere] by simp
  qed
qed

lemma serial_report_steps_inv:
  assumes "serial_report_step\<^sup>*\<^sup>* db db'" and "reports_inv (db, [])"
  shows "reports_inv (db', []) \<and> reports_advance db db'"
  using assms
proof (induction rule: rtranclp_induct)
  case base
  then show ?case using reports_advance_sub by blast
next
  case (step d e)
  then have inv: "reports_inv (d, [])" and adv: "reports_advance db d" by simp_all
  from serial_report_step_inv[OF step(2) inv] have "reports_inv (e, [])" "reports_advance d e" by simp_all
  with adv show ?case unfolding reports_advance_def by (meson report_progress_trans)
qed

text \<open>A serial history is a history in which every read is acted on at once.\<close>

lemma serial_report_step_reads:
  assumes "serial_report_step db db'"
  shows "\<exists>new. reporting_step\<^sup>*\<^sup>* (db, held) (db', new @ held)"
proof -
  have whole: ?thesis if "reporting_step (db, held) (db', held)" using that by (intro exI[of _ "[]"]) auto
  have same: ?thesis if "db' = db" using that by (intro exI[of _ "[]"]) simp
  have acted: ?thesis if "find_tax_transaction db i = Some q" "reporting_step (db, q # held) (db', q # held)" for i q
    using reporting_step.read[OF that(1), of held] that(2) by (intro exI[of _ "[q]"]) (auto intro: converse_rtranclp_into_rtranclp)
  from assms show ?thesis
  proof (cases rule: serial_report_step.cases)
    case (resolved i token answer at r)
    show ?thesis
    proof (cases "\<exists>q. find_tax_transaction db i = Some q \<and> tt_lockToken q = Some token")
      case True
      then obtain q where q: "find_tax_transaction db i = Some q" "tt_lockToken q = Some token" by blast
      then obtain x where "resolve_recording_read q answer at db = (db', x)"
        using resolved by (auto simp: resolveTaxTransactionAttempt_def split: prod.split_asm)
      with q show ?thesis by (intro acted[OF q(1)] reporting_step.resolved) simp_all
    next
      case False
      then show ?thesis
        using resolved by (intro same) (auto simp: resolveTaxTransactionAttempt_def split: option.split_asm if_split_asm)
    qed
  next
    case (requeued i at r)
    show ?thesis
    proof (cases "find_tax_transaction db i")
      case None
      then show ?thesis using requeued by (intro same) (simp add: requeueTaxRecording_def)
    next
      case (Some q)
      then have "requeue_read q at db = (db', r)" using requeued by (simp add: requeueTaxRecording_def)
      then show ?thesis by (intro acted[OF Some] reporting_step.requeued) simp_all
    qed
  qed (rule whole, blast intro: reporting_step.intros)+
qed

lemma serial_report_steps_reads:
  assumes "serial_report_step\<^sup>*\<^sup>* db db'"
  shows "\<exists>new. reporting_step\<^sup>*\<^sup>* (db, held) (db', new @ held)"
  using assms
proof (induction rule: rtranclp_induct)
  case base
  show ?case by (rule exI[of _ "[]"]) simp
next
  case (step d e)
  from step(3) obtain h where h: "reporting_step\<^sup>*\<^sup>* (db, held) (d, h @ held)" ..
  obtain h' where "reporting_step\<^sup>*\<^sup>* (d, h @ held) (e, (h' @ h) @ held)" using serial_report_step_reads[OF step(2)] by fastforce
  with h show ?case by (meson rtranclp_trans)
qed

section \<open>A cycle is a history\<close>

lemma process_recording_serial:
  assumes "process_recording sha256 port record token at db = (db', r)"
  shows "serial_report_step\<^sup>*\<^sup>* db db'"
proof -
  have "db' = db \<or> (\<exists>out. resolveTaxTransactionAttempt (tt_id record) token out at db = (db', r))"
    using assms by (auto simp: process_recording_def split: option.split_asm sum.split_asm)
  then show ?thesis using serial_report_step.resolved by blast
qed

definition rct_finished :: "recording_counts \<Rightarrow> nat" where
  "rct_finished c = rct_recorded c + rct_retryScheduled c + rct_permanentlyFailed c"

lemma count_recording_finished:
  "rct_finished (count_recording r c) \<le> rct_finished c + 1 \<and> rct_claimed (count_recording r c) = rct_claimed c \<and>
   rct_staleClaimsRecovered (count_recording r c) = rct_staleClaimsRecovered c"
  by (auto simp: count_recording_def rct_finished_def split: sum.split option.split)

lemma recording_batch_serial:
  assumes "recording_batch sha256 port at items db c = (db', c')"
  shows "serial_report_step\<^sup>*\<^sup>* db db' \<and> rct_finished c' \<le> rct_finished c + length items \<and> rct_claimed c' = rct_claimed c \<and>
    rct_staleClaimsRecovered c' = rct_staleClaimsRecovered c"
  using assms
proof (induction items arbitrary: db c)
  case (Cons item rest)
  obtain rec token where item: "item = (rec, token)" by (cases item)
  obtain db1 r where p: "process_recording sha256 port rec token at db = (db1, r)"
    by (cases "process_recording sha256 port rec token at db")
  have "recording_batch sha256 port at rest db1 (count_recording r c) = (db', c')" using Cons.prems by (simp add: item p)
  from Cons.IH[OF this] show ?case
    using process_recording_serial[OF p] count_recording_finished[of r c] by auto
qed simp

lemma runTaxTransactionRecordingCycle_serial:
  assumes "runTaxTransactionRecordingCycle sha256 port token at limit db = (db', r)"
  shows "serial_report_step\<^sup>*\<^sup>* db db' \<and>
    (\<forall>c. r = Inr c \<longrightarrow> rct_finished c \<le> rct_claimed c \<and>
       rct_staleClaimsRecovered c = count_where (recording_stale at) (taxTransactions db))"
proof -
  let ?limit = "max 1 (min (case limit of None \<Rightarrow> 25 | Some n \<Rightarrow> n) 100)"
  obtain db1 n where 1: "recoverStaleTaxTransactionClaims at db = (db1, n)" by (cases "recoverStaleTaxTransactionClaims at db")
  obtain db2 cl where 2: "claimDueTaxTransactions token at ?limit db1 = (db2, cl)"
    by (cases "claimDueTaxTransactions token at ?limit db1")
  have n: "n = count_where (recording_stale at) (taxTransactions db)" using 1 by (simp add: recoverStaleTaxTransactionClaims_def)
  have s: "serial_report_step\<^sup>*\<^sup>* db db2"
    using serial_report_step.recovered[OF 1] serial_report_step.claimed[OF 2] by auto
  show ?thesis
  proof (cases cl)
    case (Inl e)
    then show ?thesis using assms s by (auto simp: runTaxTransactionRecordingCycle_def Let_def 1 2)
  next
    case (Inr p)
    obtain claimed conflicts where p: "p = (claimed, conflicts)" by (cases p)
    let ?c = "\<lparr>rct_claimed = length claimed, rct_recorded = 0, rct_retryScheduled = 0, rct_permanentlyFailed = 0,
      rct_staleClaimsRecovered = n, rct_claimConflicts = conflicts\<rparr>"
    obtain db3 c where b: "recording_batch sha256 port at claimed db2 ?c = (db3, c)"
      by (cases "recording_batch sha256 port at claimed db2 ?c")
    then have "db' = db3" "r = Inr c" using assms by (simp_all add: runTaxTransactionRecordingCycle_def Let_def 1 2 Inr p)
    then show ?thesis using recording_batch_serial[OF b] s n by (auto simp: rct_finished_def)
  qed
qed

text \<open>Every row a cycle claims is readable, so the cycle answers.\<close>

lemma claimDueTaxTransactions_answers:
  assumes "reports_inv (db, [])" and "claimDueTaxTransactions token now limit db = (db', c)"
  shows "\<exists>claimed conflicts. c = Inr (claimed, conflicts)"
proof -
  have "reports_inv (db', [])" by (rule reporting_step_inv[OF reporting_step.claimed[OF assms(2)] assms(1)])
  then have ok: "\<forall>r\<in>set (taxTransactions db'). taxTransactionRowToRecord r = Inr r" by (simp add: reports_inv_def report_ok_def)
  have "map_res taxTransactionRowToRecord (claimed_by tt_lockToken token (taxTransactions db')) =
      Inr (claimed_by tt_lockToken token (taxTransactions db'))"
    by (rule map_res_all) (use ok in \<open>simp add: claimed_by_def\<close>)
  then show ?thesis using assms(2) by (auto simp: claimDueTaxTransactions_def Let_def split: if_split_asm)
qed

lemma recording_cycle_answers:
  assumes "reports_inv (db, [])" and "runTaxTransactionRecordingCycle sha256 port token at limit db = (db', r)"
  shows "\<exists>c. r = Inr c"
proof -
  let ?limit = "max 1 (min (case limit of None \<Rightarrow> 25 | Some n \<Rightarrow> n) 100)"
  obtain db1 n where 1: "recoverStaleTaxTransactionClaims at db = (db1, n)" by (cases "recoverStaleTaxTransactionClaims at db")
  obtain db2 cl where 2: "claimDueTaxTransactions token at ?limit db1 = (db2, cl)"
    by (cases "claimDueTaxTransactions token at ?limit db1")
  have "reports_inv (db1, [])" by (rule reporting_step_inv[OF reporting_step.recovered[OF 1] assms(1)])
  from claimDueTaxTransactions_answers[OF this 2] show ?thesis
    using assms(2) by (auto simp: runTaxTransactionRecordingCycle_def Let_def 1 2 split: prod.split_asm)
qed

end
