(* ===== verification/Example_Report.thy ===== *)
theory Example_Report
  imports Tax_Recording_History Example_Order
begin

text \<open>
  The report of one sale, reached by the operations: the evidence of the quote the Order was charged under,
  the sale, a claim, an attempt the provider refuses, an operator's requeue, and the attempt that succeeds.
\<close>

definition ex_sent :: "string \<Rightarrow> string \<Rightarrow> string" where
  "ex_sent oid calc = oid @ calc"

definition ex_quote :: tax_quote where
  "ex_quote = \<lparr>txo_provider = ''STRIPE_TAX'', txo_providerMode = ''TEST'', txo_providerCalculationRef = ''calc_1'',
     txo_currency = ''USD'', txo_taxAmount = 500, txo_basisAmount = 8300, txo_treatment = TAXABLE,
     txo_jurisdictionCode = None,
     txo_productTaxBasis = Some \<lparr>ptb_internalProductId = ''prod'', ptb_sourceRecordId = ''ps'', ptb_sourceRecordVersion = ''1'',
        ptb_taxClassification = PHYSICAL_GOOD, ptb_deliveryMode = Delivery_PHYSICAL\<rparr>,
     txo_providerTaxCode = Some ''txcd'', txo_providerConfigVersion = Some ''v1'', txo_calculatedAt = 130,
     txo_expiresAt = Some 9000\<rparr>"

definition ex_claimed_report :: sale_tables where
  "ex_claimed_report = fst (claimDueTaxTransactions ''w1'' 200 25 ex_paid)"

definition ex_failed_report :: sale_tables where
  "ex_failed_report = fst (resolveTaxTransactionAttempt ''t1'' ''w1'' (Recording_FAILED TR_PROVIDER_MODE_NOT_PERMITTED) 210 ex_claimed_report)"

definition ex_requeued_report :: sale_tables where
  "ex_requeued_report = fst (requeueTaxRecording ''t1'' 300 ex_failed_report)"

definition ex_reclaimed_report :: sale_tables where
  "ex_reclaimed_report = fst (claimDueTaxTransactions ''w2'' 310 25 ex_requeued_report)"

definition ex_reported :: sale_tables where
  "ex_reported = fst (resolveTaxTransactionAttempt ''t1'' ''w2'' (Recording_SUCCEEDED ''tx_1'' 315 8800) 320 ex_reclaimed_report)"

lemma ex_quote_matches:
  "map_option (\<lambda>ord. (requireTaxQuoteMatchesOrder ord ex_quote (Some 130), tax_evidence_of ''te1'' ord ex_quote 130 None))
     (find_order ex_two ''o1'') = Some (Inr (), ex_evidence)"
  by code_simp

lemma ex_no_evidence: "taxEvidences ex_two = []" and ex_evidence_ok: "OrderTaxEvidenceRecord ex_evidence"
  by code_simp+

lemma ex_evidenced:
  assumes "find_order ex_two ''o1'' = Some ord"
  shows "recordOrderTaxEvidence ''te1'' ord ex_quote 130 None ex_two = (ex_taxed, Inr (ex_evidence, False))"
  using ex_quote_matches assms ex_no_evidence ex_evidence_ok
  by (simp add: recordOrderTaxEvidence_def taxEvidenceRowToRecord_def ex_taxed_def)

text \<open>The answer that commits the sale of \<open>o1\<close>, with the Order before and after it.\<close>

lemma ex_unpaid: "map_option or_lifecycle (find_order ex_taxed ''o1'') = Some PENDING_PAYMENT"
  by code_simp

lemma ex_order_kept: "map_option order_facts (find_order ex_paid ''o1'') = map_option order_facts (find_order ex_taxed ''o1'') \<and>
    map_option or_id (find_order ex_two ''o1'') = Some ''o1''"
  by code_simp

lemma ex_answered_order:
  obtains ord ord' sale where "find_order ex_two ''o1'' = Some ord" and "find_order ex_taxed ''o1'' = Some ord"
    and "or_id ord = ''o1''" and "recordCompletedSale ord ''STRIPE'' ''pi_1'' 150 (ex_sale_ids ''1'') ex_taxed = Inr (ex_paid, sale)"
    and "find_order ex_paid ''o1'' = Some ord'" and "order_facts ord' = order_facts ord"
proof -
  from ex_order_kept obtain ord where two: "find_order ex_two ''o1'' = Some ord" and id: "or_id ord = ''o1''" by auto
  then have taxed: "find_order ex_taxed ''o1'' = Some ord" by (simp add: ex_taxed_def find_order_def)
  from ex_paid_ok obtain ord1 out where
    r: "recordPaymentResult ''o1'' (Payment_SUCCEEDED ''STRIPE'' ''pi_1'') 150 (ex_sale_ids ''1'') ex_taxed = Inr (ex_paid, ord1, out)"
    by fastforce
  have "or_lifecycle ord = PENDING_PAYMENT" using ex_unpaid taxed by simp
  then obtain sale where "recordCompletedSale ord ''STRIPE'' ''pi_1'' 150 (ex_sale_ids ''1'') ex_taxed = Inr (ex_paid, sale)"
    using r taxed by (auto simp: recordPaymentResult_def chain_Inr_iff split: if_splits)
  moreover obtain ord' where "find_order ex_paid ''o1'' = Some ord'" "order_facts ord' = order_facts ord"
    using ex_order_kept taxed by auto
  ultimately show thesis using that[OF two taxed id] by blast
qed

lemma ex_paid_reports:
  "list_all (\<lambda>r. report_ok r \<and> list_ex (evidenced_by r) (taxEvidences ex_paid)) (taxTransactions ex_paid) \<and>
   length (taxTransactions ex_paid) = 1 \<and> length (taxEvidences ex_paid) = 1"
  by code_simp

lemma ex_paid_reports_inv: "reports_inv (ex_paid, [])"
proof -
  obtain r e where one: "taxTransactions ex_paid = [r]" "taxEvidences ex_paid = [e]"
    using ex_paid_reports by (auto simp: length_Suc_conv)
  show ?thesis using ex_paid_reports by (simp add: reports_inv_def one unique_on_def)
qed

text \<open>From a shop that has charged no tax: the evidence, the report and the sale around it.\<close>

lemma ex_report_committed:
  "(case commitTaxTransactionObligationInTx ''t1'' ''o1'' 8300 150 ex_taxed of Inl _ \<Rightarrow> False
    | Inr (db, _) \<Rightarrow> taxTransactions db = taxTransactions ex_paid \<and> taxEvidences db = taxEvidences ex_paid)"
  by code_simp

lemma ex_two_opens: "taxTransactions ex_two = []" "taxEvidences ex_two = []"
  by code_simp+

lemma ex_report_opened: "serial_report_step\<^sup>*\<^sup>* ex_two ex_paid"
proof -
  from ex_answered_order obtain ord where ord: "find_order ex_two ''o1'' = Some ord" by blast
  have "serial_report_step ex_two ex_taxed" by (rule serial_report_step.evidenced[OF ex_evidenced[OF ord]])
  moreover from ex_report_committed obtain db t where db: "commitTaxTransactionObligationInTx ''t1'' ''o1'' 8300 150 ex_taxed = Inr (db, t)"
    "taxTransactions db = taxTransactions ex_paid" "taxEvidences db = taxEvidences ex_paid"
    by (auto split: sum.split_asm)
  then have "serial_report_step ex_taxed db" using serial_report_step.committed by blast
  moreover have "serial_report_step db ex_paid"
    by (rule serial_report_step.elsewhere) (simp add: leaves_reports_alone_def db list.rel_refl)
  ultimately show ?thesis by simp
qed

lemma ex_report_serial:
  "serial_report_step\<^sup>*\<^sup>* ex_paid ex_failed_report" "serial_report_step\<^sup>*\<^sup>* ex_failed_report ex_reported"
proof -
  have "serial_report_step ex_paid ex_claimed_report"
    unfolding ex_claimed_report_def using serial_report_step.claimed by (metis prod.collapse)
  moreover have "serial_report_step ex_claimed_report ex_failed_report"
    unfolding ex_failed_report_def using serial_report_step.resolved by (metis prod.collapse)
  ultimately show "serial_report_step\<^sup>*\<^sup>* ex_paid ex_failed_report" by simp
  have "serial_report_step ex_failed_report ex_requeued_report"
    unfolding ex_requeued_report_def using serial_report_step.requeued by (metis prod.collapse)
  moreover have "serial_report_step ex_requeued_report ex_reclaimed_report"
    unfolding ex_reclaimed_report_def using serial_report_step.claimed by (metis prod.collapse)
  moreover have "serial_report_step ex_reclaimed_report ex_reported"
    unfolding ex_reported_def using serial_report_step.resolved by (metis prod.collapse)
  ultimately show "serial_report_step\<^sup>*\<^sup>* ex_failed_report ex_reported" by simp
qed

lemma ex_report_inv: "reports_inv (ex_failed_report, [])" "reports_inv (ex_reported, [])"
proof -
  show f: "reports_inv (ex_failed_report, [])" using serial_report_steps_inv[OF ex_report_serial(1) ex_paid_reports_inv] ..
  show "reports_inv (ex_reported, [])" using serial_report_steps_inv[OF ex_report_serial(2) f] ..
qed

text \<open>The refused report as an operator reads it, and the report once it is recorded.\<close>

lemma ex_stuck: "map_option (\<lambda>r. (tt_id r, requeue_refusal r)) (find_tax_transaction ex_failed_report ''t1'') = Some (''t1'', None)"
  by code_simp

lemma ex_recorded: "map_option tt_recordingStatus (find_tax_transaction ex_reported ''t1'') = Some RECORDED"
  by code_simp

lemma ex_advised: "map_option (\<lambda>r. operatorActionFor (tt_recordingStatus r) (tt_lastFailureCode r))
    (find_tax_transaction ex_failed_report ''t1'') = Some CORRECT_CONFIGURATION_THEN_REQUEUE"
  by code_simp

end
