(* ===== verification/Tax_Recording_Properties.thy ===== *)
theory Tax_Recording_Properties
  imports Example_Report
begin

text \<open>
  The properties of a sale's tax report: that what was charged can be reported, what a report keeps for
  ever, how it moves, what a cycle and a requeue do, and what a requeue decided too late undoes.
\<close>

section \<open>From the quote to the report\<close>

text \<open>C15: tax that was charged can be reported.  If the evidence of an Order's tax was recorded from a quote
  that names its Product, the sale commits one report of exactly the tax charged on exactly retail and
  shipping, due at once; and whatever happens later to the rest of the program, the check before the
  provider is called passes as long as the Order is paid and the calculation has not expired, and
  otherwise says which of the two failed.\<close>

theorem charged_tax_is_reportable:
  assumes evid: "recordOrderTaxEvidence i ord quote t snap (db :: 'a sale_tables_scheme) = (db1, Inr (e, False))"
    and basis: "txo_productTaxBasis quote \<noteq> None"
    and kept: "find_tax_evidence db2 (or_id ord) = Some e"
    and found: "find_order (db2 :: 'a sale_tables_scheme) (or_id ord) = Some ord2" and same: "order_facts ord2 = order_facts ord"
    and sold: "recordCompletedSale ord2 provider ref at ids db2 = Inr (db3, sale)"
  shows "\<exists>r. taxTransactions db3 = taxTransactions db2 @ [r] \<and> tt_orderId r = or_id ord \<and>
    tt_taxAmount r = oq_tax (or_quote ord) \<and>
    tt_taxableBasis r = oq_commercialRetail (or_quote ord) + oq_shipping (or_quote ord) \<and>
    tt_providerCalculationRef r = txo_providerCalculationRef quote \<and> recording_due at r \<and>
    (\<forall>(db4 :: 'a sale_tables_scheme) ord4 now. find_order db4 (or_id ord) = Some ord4 \<and> order_facts ord4 = order_facts ord \<and>
        find_tax_evidence db4 (or_id ord) = Some e \<longrightarrow>
      verifyRecordableTaxTransaction db4 r now =
        (if or_lifecycle ord4 \<noteq> Order_PAID then Some TR_EVIDENCE_INCONSISTENT
         else if taxQuoteIsUsableAt quote now then None else Some TR_CALCULATION_EXPIRED))"
proof -
  note ev = recordOrderTaxEvidence_new[OF evid]
  note match = ev(1)[unfolded requireTaxQuoteMatchesOrder_Inr]
  have ids: "or_id ord2 = or_id ord" "or_quote ord2 = or_quote ord" using same by (simp_all add: order_facts_def)
  obtain b where b: "txo_productTaxBasis quote = Some b" using basis by auto
  have facts: "reportable_tax e = Some (txo_providerMode quote, ptb_sourceRecordId b, ptb_sourceRecordVersion b, ptb_taxClassification b)"
    by (simp add: ev(2) reportable_tax_def tax_evidence_of_def b)
  let ?r = "tax_transaction_of (sid_taxTransaction ids) e
      (txo_providerMode quote, ptb_sourceRecordId b, ptb_sourceRecordVersion b, ptb_taxClassification b)
      (or_id ord) (or_internalProductId ord2) (oq_commercialRetail (or_quote ord) + oq_shipping (or_quote ord)) at"
  have tax: "sale_tax (sid_taxTransaction ids) ord2 ord2 at db2 = [?r]" by (simp add: sale_tax_def ids kept facts)
  have rows: "taxTransactions db3 = taxTransactions db2 @ [?r]"
  proof (rule recordCompletedSale_writes[OF sold])
    fix row lv policy ec rec obs ns rs
    assume "find_order db2 (or_id ord2) = Some row"
      and "db3 = sale_effect (or_id ord2) (sale_snapshot_row ord2 row at (sid_snapshot ids) (lv_listingSourceRecordId lv) ec)
        (paid_settlement provider ref at (new_settlement (sid_snapshot ids))) obs
        (sale_tax (sid_taxTransaction ids) row ord2 at db2) (purchase_evidence_of (sid_evidence ids) ord2 at) ns at db2"
    then show ?thesis using found tax by (simp add: ids sale_effect_def)
  qed
  have fields: "tt_orderId ?r = or_id ord" "tt_taxAmount ?r = txo_taxAmount quote" "tt_currency ?r = txo_currency quote"
    "tt_taxableBasis ?r = oq_commercialRetail (or_quote ord) + oq_shipping (or_quote ord)"
    "tt_providerCalculationRef ?r = txo_providerCalculationRef quote" "recording_due at ?r"
    by (simp_all add: tax_transaction_of_def ev(2) tax_evidence_of_def recording_due_def)
  have verify: "verifyRecordableTaxTransaction db4 ?r now =
        (if or_lifecycle ord4 \<noteq> Order_PAID then Some TR_EVIDENCE_INCONSISTENT
         else if taxQuoteIsUsableAt quote now then None else Some TR_CALCULATION_EXPIRED)"
    if "find_order db4 (or_id ord) = Some ord4" "order_facts ord4 = order_facts ord" "find_tax_evidence db4 (or_id ord) = Some e"
    for db4 :: "'a sale_tables_scheme" and ord4 now
  proof -
    have q: "or_quote ord4 = or_quote ord" using that(2) by (simp add: order_facts_def)
    have x: "txe_providerCalculationRef e = txo_providerCalculationRef quote" "txe_currency e = txo_currency quote"
      "txe_taxAmount e = txo_taxAmount quote" "txe_basisAmount e = txo_basisAmount quote" "txe_providerCalculationExpiresAt e = txo_expiresAt quote"
      by (simp_all add: ev(2) tax_evidence_of_def)
    show ?thesis
      unfolding verifyRecordableTaxTransaction_def fields that(1,3) option.case q x
      using match by (auto simp: taxQuoteIsUsableAt_def split: option.split)
  qed
  show ?thesis
  proof (intro exI[of _ ?r] conjI allI impI)
    show "taxTransactions db3 = taxTransactions db2 @ [?r]" by (rule rows)
  next
    fix db4 :: "'a sale_tables_scheme" and ord4 now
    assume "find_order db4 (or_id ord) = Some ord4 \<and> order_facts ord4 = order_facts ord \<and> find_tax_evidence db4 (or_id ord) = Some e"
    then show "verifyRecordableTaxTransaction db4 ?r now = (if or_lifecycle ord4 \<noteq> Order_PAID then Some TR_EVIDENCE_INCONSISTENT
        else if taxQuoteIsUsableAt quote now then None else Some TR_CALCULATION_EXPIRED)" by (elim conjE) (rule verify)
  qed (use fields match in simp_all)
qed

lemma ex_paid_unexpired:
  "map_option (\<lambda>o'. (or_lifecycle o', find_tax_evidence ex_paid ''o1'' = Some ex_evidence, taxQuoteIsUsableAt ex_quote 8999, taxQuoteIsUsableAt ex_quote 9000))
     (find_order ex_paid ''o1'') = Some (Order_PAID, True, True, False)"
  by code_simp

lemma charged_tax_is_reportable_witness:
  "\<exists>r\<in>set (taxTransactions ex_paid). verifyRecordableTaxTransaction ex_paid r 8999 = None \<and>
     verifyRecordableTaxTransaction ex_paid r 9000 = Some TR_CALCULATION_EXPIRED"
proof -
  obtain ord ord' sale where f: "find_order ex_two ''o1'' = Some ord" "find_order ex_taxed ''o1'' = Some ord"
    and id: "or_id ord = ''o1''" and sold: "recordCompletedSale ord ''STRIPE'' ''pi_1'' 150 (ex_sale_ids ''1'') ex_taxed = Inr (ex_paid, sale)"
    and p: "find_order ex_paid ''o1'' = Some ord'" "order_facts ord' = order_facts ord" using ex_answered_order by blast
  have kept: "find_tax_evidence ex_taxed (or_id ord) = Some ex_evidence" by (simp add: id find_tax_evidence_def ex_taxed_def ex_evidence_def)
  have basis: "txo_productTaxBasis ex_quote \<noteq> None" by (simp add: ex_quote_def)
  from charged_tax_is_reportable[OF ex_evidenced[OF f(1)] basis kept _ refl sold] f(2) id obtain r where
    r: "taxTransactions ex_paid = taxTransactions ex_taxed @ [r]"
    and v: "\<And>(db4 :: sale_tables) ord4 now. find_order db4 ''o1'' = Some ord4 \<Longrightarrow> order_facts ord4 = order_facts ord \<Longrightarrow> find_tax_evidence db4 ''o1'' = Some ex_evidence \<Longrightarrow>
      verifyRecordableTaxTransaction db4 r now = (if or_lifecycle ord4 \<noteq> Order_PAID then Some TR_EVIDENCE_INCONSISTENT
         else if taxQuoteIsUsableAt ex_quote now then None else Some TR_CALCULATION_EXPIRED)" by auto
  have "find_tax_evidence ex_paid ''o1'' = Some ex_evidence" "or_lifecycle ord' = Order_PAID" using ex_paid_unexpired p(1) by simp_all
  with v[OF p] have "verifyRecordableTaxTransaction ex_paid r now =
      (if taxQuoteIsUsableAt ex_quote now then None else Some TR_CALCULATION_EXPIRED)" for now by simp
  moreover have "taxQuoteIsUsableAt ex_quote 8999" "\<not> taxQuoteIsUsableAt ex_quote 9000" using ex_paid_unexpired by auto
  moreover have "r \<in> set (taxTransactions ex_paid)" by (simp add: r)
  ultimately show ?thesis by (intro bexI[of _ r]) simp_all
qed

section \<open>What a report keeps\<close>

text \<open>C4: however recording, committing, claiming, answering and requeueing interleave, and whatever was read
  before it was acted on, a report stays: there is exactly one for its Order, its sale-time facts and the
  request sent to the provider never change, it names the tax evidence of its Order, and it is always
  well-formed, coherent and within the attempts of its round.\<close>

theorem tax_report_permanent:
  assumes "taxTransactions db0 = []" and "taxEvidences db0 = []" and "reporting_step\<^sup>*\<^sup>* (db0, []) (db1, held1)"
    and "reporting_step\<^sup>*\<^sup>* (db1, held1) (db2, held2)" and "r \<in> set (taxTransactions db1)"
  shows "\<exists>r'. {x \<in> set (taxTransactions db2). tt_orderId x = tt_orderId r} = {r'} \<and>
    immutable_tax_transaction_fields r' = immutable_tax_transaction_fields r \<and>
    recording_request_of sha256 r' = recording_request_of sha256 r \<and>
    OrderTaxTransactionRecord r' \<and> taxTransactionIsCoherent r' \<and> tt_attemptCount r' \<le> recording_maxAttempts \<and>
    (\<exists>e\<in>set (taxEvidences db2). evidenced_by r' e)"
proof -
  have "reports_inv (db0, [])" using assms(1,2) by (simp add: reports_inv_def unique_on_def)
  then have inv: "reports_inv (db2, held2)" using reporting_steps_inv assms(3,4) by blast
  obtain new where kept: "map immutable_tax_transaction_fields (taxTransactions db2) =
      map immutable_tax_transaction_fields (taxTransactions db1) @ new" using reporting_steps_keep[OF assms(4)] by auto
  have "immutable_tax_transaction_fields r \<in> set (map immutable_tax_transaction_fields (taxTransactions db2))"
    unfolding kept using assms(5) by simp
  then obtain r' where r': "r' \<in> set (taxTransactions db2)" "immutable_tax_transaction_fields r' = immutable_tax_transaction_fields r"
    unfolding set_map by (elim imageE) simp
  have ok: "report_ok r'" and evid: "\<exists>e\<in>set (taxEvidences db2). evidenced_by r' e"
    and once: "unique_on tt_orderId (taxTransactions db2)" using inv r'(1) by (simp_all add: reports_inv_def)
  have "x = r'" if "x \<in> set (taxTransactions db2)" "tt_orderId x = tt_orderId r" for x
    by (rule unique_on_eq[OF once that(1) r'(1)]) (simp add: that(2) immutable_eqD(2)[OF r'(2)])
  then have "{x \<in> set (taxTransactions db2). tt_orderId x = tt_orderId r} = {r'}"
    using r'(1) immutable_eqD(2)[OF r'(2)] by blast
  moreover have "tt_attemptCount r' \<le> recording_maxAttempts" "OrderTaxTransactionRecord r'" "taxTransactionIsCoherent r'"
    using ok by (simp_all add: report_ok_attempts) (simp_all add: report_ok_def)
  ultimately show ?thesis
    using r'(2) evid immutable_eqD[OF r'(2)] by (intro exI[of _ r']) (simp add: recording_request_of_def)
qed

lemma tax_report_permanent_witness:
  "\<exists>r\<in>set (taxTransactions ex_paid). \<exists>r'. {x \<in> set (taxTransactions ex_reported). tt_orderId x = tt_orderId r} = {r'} \<and>
     recording_request_of ex_sent r' = recording_request_of ex_sent r"
proof -
  obtain h1 where h1: "reporting_step\<^sup>*\<^sup>* (ex_two, []) (ex_paid, h1)" using serial_report_steps_reads[OF ex_report_opened] by blast
  have "serial_report_step\<^sup>*\<^sup>* ex_paid ex_reported" using ex_report_serial by (rule rtranclp_trans)
  then obtain h2 where h2: "reporting_step\<^sup>*\<^sup>* (ex_paid, h1) (ex_reported, h2)" using serial_report_steps_reads by blast
  from ex_paid_reports obtain r where r: "r \<in> set (taxTransactions ex_paid)" by (auto simp: length_Suc_conv)
  from tax_report_permanent[OF ex_two_opens h1 h2 r, of ex_sent] r show ?thesis by blast
qed

text \<open>C16: when every attempt and requeue decides on the report as it stands, a recorded report is final up to
  the lifecycle label a reversal moves, a failed one is left only by a requeue, the rounds are only
  counted up, and within a round so are the attempts.\<close>

theorem recorded_report_is_final:
  assumes "taxTransactions db0 = []" and "taxEvidences db0 = []" and "serial_report_step\<^sup>*\<^sup>* db0 db"
    and "serial_report_step\<^sup>*\<^sup>* db db'" and "r \<in> set (taxTransactions db)"
  shows "\<exists>r'\<in>set (taxTransactions db'). tt_id r' = tt_id r \<and> tt_requeueCount r \<le> tt_requeueCount r' \<and>
    (tt_recordingStatus r = RECORDED \<longrightarrow> (\<exists>l. r' = r\<lparr>tt_lifecycleState := l\<rparr>)) \<and>
    (tt_recordingStatus r = Recording_FAILED_PERMANENT \<longrightarrow>
       (\<exists>l. r' = r\<lparr>tt_lifecycleState := l\<rparr>) \<or> tt_requeueCount r < tt_requeueCount r') \<and>
    (tt_requeueCount r' = tt_requeueCount r \<longrightarrow> tt_attemptCount r \<le> tt_attemptCount r')"
proof -
  have "reports_inv (db0, [])" using assms(1,2) by (simp add: reports_inv_def unique_on_def)
  then have "reports_inv (db, [])" using serial_report_steps_inv[OF assms(3)] by blast
  then have "reports_advance db db'" using serial_report_steps_inv[OF assms(4)] by blast
  then obtain r' where r': "r' \<in> set (taxTransactions db')" "report_progress r r'" using assms(5) by (auto simp: reports_advance_def)
  then show ?thesis by (intro bexI[of _ r']) (auto simp: report_progress_def relabelled_def)
qed

lemma recorded_report_is_final_witness:
  "\<exists>r\<in>set (taxTransactions ex_failed_report). \<exists>r'\<in>set (taxTransactions ex_reported).
     (tt_recordingStatus r = Recording_FAILED_PERMANENT \<longrightarrow>
       (\<exists>l. r' = r\<lparr>tt_lifecycleState := l\<rparr>) \<or> tt_requeueCount r < tt_requeueCount r')"
proof -
  have "serial_report_step\<^sup>*\<^sup>* ex_two ex_failed_report" using ex_report_opened ex_report_serial(1) by (rule rtranclp_trans)
  moreover from ex_stuck obtain r where r: "r \<in> set (taxTransactions ex_failed_report)" by (auto dest: found_report)
  ultimately show ?thesis using recorded_report_is_final[OF ex_two_opens _ ex_report_serial(2) r] r by blast
qed

section \<open>The cycle and the operator\<close>



text \<open>C39: an operator's requeue of a report is accepted exactly when the report has failed for good and the
  advice shown for it is to requeue; a refused one writes nothing.\<close>

theorem requeue_iff_advised:
  assumes "reports_inv (db, [])" and "find_tax_transaction db i = Some r"
  shows "((\<exists>v. snd (requeueTaxRecording i at db) = Inr v) \<longleftrightarrow>
      operatorActionFor (tt_recordingStatus r) (tt_lastFailureCode r)
        \<in> {CORRECT_CONFIGURATION_THEN_REQUEUE, REQUEUE_AFTER_PROVIDER_RECOVERY}) \<and>
    (snd (requeueTaxRecording i at db) = Inl e \<longrightarrow> fst (requeueTaxRecording i at db) = db)"
proof -
  have ok: "report_ok r" using assms found_report by (auto simp: reports_inv_def)
  have id: "find_tax_transaction db (tt_id r) = Some r" using assms(2) by (auto simp: find_tax_transaction_def dest: find_Some_set)
  show ?thesis
  proof (cases "requeue_refusal r")
    case None
    then show ?thesis using requeue_read_writes[OF ok id None] advised_iff[OF ok] by (simp add: requeueTaxRecording_def assms(2))
  next
    case (Some reason)
    then show ?thesis using advised_iff[OF ok] by (auto simp: requeueTaxRecording_def assms(2) requeue_read_def)
  qed
qed

lemma requeue_iff_advised_witness:
  "\<exists>v. snd (requeueTaxRecording ''t1'' 300 ex_failed_report) = Inr v"
proof -
  from ex_stuck obtain r where r: "find_tax_transaction ex_failed_report ''t1'' = Some r" by auto
  have "operatorActionFor (tt_recordingStatus r) (tt_lastFailureCode r) = CORRECT_CONFIGURATION_THEN_REQUEUE"
    using ex_advised r by simp
  then show ?thesis using requeue_iff_advised[OF ex_report_inv(1) r] by simp
qed



end
