(* ===== verification/Spec2Isabelle.thy ===== *)
theory Spec2Isabelle
  imports Refund_Properties Refund_Queue_Properties Dispute_Properties Entitlement_Properties Participation_Properties
    Order_Rights_Properties Tax_Recording_Properties
begin

text \<open>
  Monacado, a marketplace whose operator is the merchant of record: the commercial and post-sale core.

  The program.  A Seller lists a Product, possibly through a Promoter; Monacado buys from the Seller and
  sells to the buyer.  Every sale is priced by an immutable commercial policy version, recorded as one
  immutable economic snapshot, settled at a payment provider and owed to its parties as proceeds
  obligations.  After the sale the buyer may be refunded, the bank may take the money back, and the tax
  reported for the sale must be reversed.  The services keep their state in a MySQL database behind an
  object mapper; the providers are reached outside any transaction by workers that claim rows from
  durable queues.

  The model.  A table is the list of its rows; a row is a record with one field per column the modelled
  code reads or writes; each service is a set of functions of a record of tables.  The records extend one
  another in the order the components build on one another (\<open>policy_tables\<close>, \<open>accounting_tables\<close>,
  \<open>reversal_tables\<close>, \<open>account_tables\<close>, \<open>notice_tables\<close>, \<open>participation_tables\<close>, \<open>refund_policy_tables\<close>,
  \<open>fee_policy_tables\<close>, \<open>market_tables\<close>, \<open>sale_tables\<close>), and every operation is
  polymorphic in what follows, so the same definition runs on its own tables and on the whole market.  A
  database transaction is a function to \<open>err + _\<close>: what it throws leaves no state.  An operation that
  writes outside a transaction returns the state beside its result, since what it wrote stays when it
  throws.  Where the code decides on a row it read earlier, the read row is an argument of the write
  (\<open>resolve_read\<close>, \<open>fee_activation_tx\<close>, \<open>record_result_on\<close>, \<open>resolve_recording_read\<close>,
  \<open>requeue_read\<close>), so that other steps can be placed between the two.  Identifiers the
  program draws from its generators, the clock, and the answers of the payment and tax providers are
  arguments.  Concurrency is the interleaving of committed steps: \<open>accounting_step\<close>, \<open>governance_step\<close>,
  \<open>participation_step\<close>, \<open>market_step\<close>, \<open>fee_policy_step\<close>, \<open>order_step\<close>, \<open>serial_step\<close>, \<open>reporting_step\<close> and
  \<open>serial_report_step\<close> are inductive relations with one rule per operation, and the history properties are
  about their reflexive transitive closures.

  Theories, in the order of the code (paths under \<open>src/\<close>).

  \<^item> \<open>Mon_Prelude\<close>: errors, results, tables, and the locales \<open>transition_table\<close> and \<open>forward_table\<close>, the
    contract of every frozen lifecycle table of the program (interpreted once per lifecycle).
  \<^item> \<open>Economics\<close>, \<open>Policy\<close>: the pure arithmetic of \<open>contracts/marketplace/offer-source.ts\<close> and
    \<open>listing-source.ts\<close> with the bisection for the lowest viable price, and the versioned commercial policy of
    \<open>commercial-policy.ts\<close> and \<open>commercial-policy-service.ts\<close>.
  \<^item> \<open>Accounting\<close>, \<open>Accounting_Service\<close>, \<open>Accounting_Facts\<close>, \<open>Accounting_History\<close>: the economic snapshot and
    its settlement (\<open>transaction-accounting*.ts\<close>): computation, reconciliation, the flat columns and
    their reading, reconstruction from the bound versions, histories.
  \<^item> \<open>Reversal\<close>, \<open>Reversal_Facts\<close>: proceeds obligations, recovery exceptions and full reversals
    (\<open>proceeds-obligation.ts\<close>, \<open>proceeds-recovery.ts\<close>, \<open>transaction-reversal*.ts\<close>).
  \<^item> \<open>Internal_Authorization\<close>, \<open>Entitlement_Governance\<close>, \<open>Entitlement_Facts\<close>: accounts, capabilities and the
    authorization decision (\<open>contracts/account/internal-authorization.ts\<close>), and the governed grants and
    revocations with their ledger (\<open>server/account/entitlement-governance-service.ts\<close>), refining an abstract
    machine of who holds what.
  \<^item> \<open>Participant\<close>, \<open>Marketplace_Name\<close>, \<open>Participation\<close>, \<open>Participant_Admission\<close>: the participant lifecycle
    (\<open>participant*.ts\<close>, \<open>lifecycle.ts\<close>, \<open>activation-review.ts\<close>, \<open>restriction-enforcement.ts\<close>), public names,
    and the services of onboarding, governed review, restriction, suspension, closure and standing.
    \<open>Participation_Facts\<close>, \<open>Participation_History\<close>, \<open>Participation_Moves\<close>: what each operation writes, the
    invariant of histories, and how each step moves each status.
  \<^item> \<open>Notification_Obligation\<close>, \<open>Notice_Facts\<close>: the durable notices
    (\<open>notification-obligation*.ts\<close>), their key and their exactly-once emission.
  \<^item> \<open>Seller_Refund_Policy\<close>, \<open>Seller_Refund_Policy_Service\<close>, \<open>Seller_Refund_Policy_Facts\<close>: the seller's
    refund terms, with the locale \<open>version_rows\<close>, the contract of a table of versions of which one governs;
    it is interpreted for commercial policies, refund policies and the chargeback fee.
  \<^item> \<open>Delivery_Queue\<close>: the lease and retry technique of the work queues as the locales \<open>lease_queue\<close> and
    \<open>retry_schedule\<close>, interpreted for every queue that is modelled.
  \<^item> \<open>Order_Contract\<close>, \<open>Refund\<close>, \<open>Tax_Transaction\<close>, \<open>Tax_Reversal\<close>, \<open>Dispute\<close>, \<open>Chargeback_Fee_Policy\<close>, \<open>Market_Tables\<close>: the
    contracts of \<open>order.ts\<close>, \<open>order-refund.ts\<close>, \<open>tax-transaction.ts\<close>, \<open>tax-reversal.ts\<close>, \<open>transaction-dispute.ts\<close>, the fee policy
    service, and the tables all post-sale services share.
  \<^item> \<open>Refund_Service\<close>, \<open>Tax_Reversal_Service\<close>, \<open>Refund_Processor\<close>, \<open>Dispute_Service\<close>: the operations of
    \<open>order-refund-service.ts\<close>, \<open>tax-reversal-service.ts\<close>, \<open>refund-processor.ts\<close> and
    \<open>transaction-dispute-service.ts\<close>, each whole.
  \<^item> \<open>Refund_Machine\<close>, \<open>Refund_Facts\<close>, \<open>Refund_Request\<close>, \<open>Refund_History\<close>, \<open>Refund_Refinement\<close>,
    \<open>Refund_Retries\<close>, \<open>Refund_Cycle\<close>: the abstract machine of one refund row, the refinement of it by the
    services, what an accepted request rests on, the invariants of histories, retries and the worker.
  \<^item> \<open>Dispute_Facts\<close>, \<open>Dispute_History\<close>, \<open>Dispute_Loss\<close>, \<open>Chargeback_Fee_Facts\<close>: what an observation may
    write, the invariant of the dispute tables, a loss in full, and the histories of the fee policy.
  \<^item> \<open>Sale_Tables\<close>, \<open>Order_Service\<close>, \<open>Checkout\<close>: purchase evidence and review authority
    (\<open>purchase-evidence.ts\<close>, \<open>review-authority.ts\<close>), the row mappers (\<open>order-mapper.ts\<close>), the whole of
    \<open>order-service.ts\<close>, \<open>prepareCheckout\<close> of \<open>checkout-service.ts\<close>, the tax obligation a sale commits
    (\<open>tax-transaction-service.ts\<close>) and \<open>finalizeConfirmedPayment\<close> of \<open>executable-checkout-service.ts\<close>.
    The payment port, the claim-code digest and the reads behind buyer eligibility (\<open>checkout_reads\<close>) are
    parameters.
  \<^item> \<open>Order_Facts\<close>, \<open>Order_History\<close>, \<open>Order_Serial\<close>: what each operation writes, the histories of a shop
    whose workers may hold Orders they read earlier, with their invariant, and the histories in which
    every result is recorded on the Order as it stands, which are among them.
  \<^item> \<open>Tax_Evidence\<close>, \<open>Tax_Recording\<close>: the quote and the guard of the tax engine (\<open>tax-calculation.ts\<close>,
    \<open>server/tax/tax-port-guard.ts\<close>), the evidence of what an Order was charged (\<open>tax-evidence-service.ts\<close>), the
    recording queue (\<open>tax-transaction-service.ts\<close>), the recorder's cycle (\<open>tax-transaction-recorder.ts\<close>) and
    the operator's requeue, backlog and readiness (\<open>tax-recording-operations*.ts\<close>).  The engine, the recording
    port and SHA-256 are parameters.
  \<^item> \<open>Tax_Recording_Facts\<close>, \<open>Tax_Recording_History\<close>: the machine of one report, its histories with and without
    stale reads, and a cycle as a history.
  \<^item> \<open>Example_Sale\<close>, \<open>Example_Refund\<close>, \<open>Example_Dispute\<close>, \<open>Example_Pair\<close>, \<open>Example_Order\<close>, \<open>Example_Report\<close>: concrete markets, reached by the
    operations themselves, on which the witnesses evaluate.
  \<^item> \<open>Refund_Properties\<close>, \<open>Refund_Queue_Properties\<close>, \<open>Dispute_Properties\<close>, \<open>Entitlement_Properties\<close>,
    \<open>Participation_Properties\<close>, \<open>Order_Properties\<close>, \<open>Order_Rights_Properties\<close>,
    \<open>Tax_Recording_Properties\<close> and this theory: the properties.

  What the lemmas show, by group.  Arithmetic: exact splits, and the bisection finds the least viable price.
  Accounting: what is computed reconciles, what is stored reads back, what was recorded reconstructs after
  any later history.  Authority: one governor, never lost; the ledger replays to the entitlements in force.
  Sales: in every interleaving a paid Order is one whole sale, a charge is recorded once, and the buyer is
  quoted, charged and recorded one amount.  Tax: what was charged can be reported, a committed report is permanent and sends one
  unchanging request, and a recorded one is final unless a requeue was decided on an old read.  Participants: in every history a status is exactly what the rows beside it say, admission is by another's
  review, and a rejection is final.  Notices: a key identifies its notice and emission is idempotent.  Reversal: at most one per sale, exact, and netting every party to zero.  Refunds: the
  operations refine a row machine; an invariant ties each refunded Order to its own reversal and each tax
  reversal to its refund; attempts are bounded; a worker cycle is a history.  Disputes: adjudication moves
  forward, events are absorbed once, a chargeback belongs to a loss and never doubles a refund.  Versioned
  policies: one governs, and what was recorded is permanent.  Several properties state what the code does
  where its comments promise something else; they are of kind error and are recorded as findings.

  Bounds and fuel.  No fuel is used: the bisection recurses on the width of its interval (a measure), the
  batch loops recurse on the list of claimed rows, which a claim bounds by one hundred, and every retry
  schedule ends after eight attempts.  Integers are unbounded where the code uses \<open>BigInt\<close> or checks a
  bound; \<open>MAX_MINOR_UNIT_AMOUNT\<close> and \<open>Number.MAX_SAFE_INTEGER\<close> are written out where a schema or a mapper
  tests them.

  Not modelled, and why.  The shape of identifiers (\<open>mon:kind:opaque\<close>), e-mail and address formats: opaque
  strings.  Provider adapters, HTTP routes, pages, configuration, readiness reports and scripts: input and
  output around the services.  Sessions, passwords and e-mail verification: a service takes the acting
  account's id.  Row locks and the retries after a write conflict: a transaction is one step of the model.
  A participant's profile, provider readiness, accepted terms and support contact are written by other
  services; a review takes what it reads of them as an argument.  Comparing reports with the provider's own
  records (\<open>tax-reconciliation-service.ts\<close>) is a read of the provider.  Reconsideration requests, risk review and
  outbound mail.  The hosted checkout session, its rate limits and shipping address.  Listing, Offer and
  Storefront authoring, promotion authorizations, product capsules and their publication: their stored
  versions are read by the model as tables, and the reads a checkout makes of their lifecycles are
  arguments.
\<close>

section \<open>Commercial arithmetic\<close>

text \<open>C30: the lowest viable promoted price is an exact threshold.  When the search answers \<open>m\<close>, the
  promoted reconciliation of any in-range price succeeds exactly from \<open>m\<close> upwards; below it the
  calculation refuses.\<close>

theorem minimum_price_exact:
  assumes "minimumViablePromotedRetailPrice W C cur p = Inr m" and "Amount W" and "Amount C"
    and "1 \<le> R" and "R \<le> MAX_MINOR_UNIT_AMOUNT"
  shows "is_ok (calculatePromotedListingEconomics
           \<lparr>pi_commercialRetailPrice = R, pi_currency = cur, pi_offerWholesalePrice = W,
            pi_offerWholesalePriceCurrency = cur, pi_sellerFundedCommission = C, pi_policy = p\<rparr>) \<longleftrightarrow> m \<le> R"
proof -
  note m = minimumViablePromotedRetailPrice_least[OF assms(1)]
  show ?thesis
    by (subst calculatePromotedListingEconomics_ok_iff)
       (use assms m(3)[OF assms(4)] m(4-6) in \<open>auto simp: promoted_input_ok_def Amount_def\<close>)
qed

theorem minimum_price_exact_witness:
  "is_ok (calculatePromotedListingEconomics
     \<lparr>pi_commercialRetailPrice = 7000, pi_currency = ''USD'', pi_offerWholesalePrice = 6000,
      pi_offerWholesalePriceCurrency = ''USD'', pi_sellerFundedCommission = 600, pi_policy = to_policy ex_policy_row\<rparr>)
   \<longleftrightarrow> 5946 \<le> (7000::int)"
  by (rule minimum_price_exact) code_simp+

text \<open>A promoted reconciliation that is returned splits the retail price exactly: the seller
  receives wholesale less commission, the promoter the spread plus commission, Monacado the
  retained amount, the three are non-negative and sum to the price, and the retention is taken
  once, inside the acquisition amount.\<close>

theorem promoted_split:
  assumes "calculatePromotedListingEconomics i = Inr e"
  shows "ple_sellerProceeds e + ple_promoterNetProceeds e + ple_monacadoRetainedAmount e
           = pi_commercialRetailPrice i \<and>
         ple_acquisitionAmount e + ple_monacadoRetainedAmount e = pi_commercialRetailPrice i \<and>
         ple_sellerProceeds e = pi_offerWholesalePrice i - pi_sellerFundedCommission i \<and>
         ple_promoterNetProceeds e
           = ple_acquisitionAmount e - pi_offerWholesalePrice i + pi_sellerFundedCommission i \<and>
         0 \<le> ple_sellerProceeds e \<and> 0 \<le> ple_promoterNetProceeds e \<and> 0 \<le> ple_monacadoRetainedAmount e"
  using calculatePromotedListingEconomics_fields[OF assms] compute_promoted_acquisition[OF assms]
  by (auto simp: PromotedListingEconomics_def Amount_def)

definition ex_promoted_input :: promoted_input where
  "ex_promoted_input = \<lparr>pi_commercialRetailPrice = 10000, pi_currency = ''USD'', pi_offerWholesalePrice = 6000,
     pi_offerWholesalePriceCurrency = ''USD'', pi_sellerFundedCommission = 600, pi_policy = to_policy ex_policy_row\<rparr>"

theorem promoted_split_witness:
  "\<exists>e. calculatePromotedListingEconomics ex_promoted_input = Inr e \<and>
     ple_sellerProceeds e + ple_promoterNetProceeds e + ple_monacadoRetainedAmount e = 10000"
proof -
  have "is_ok (calculatePromotedListingEconomics ex_promoted_input)" by code_simp
  then obtain e where e: "calculatePromotedListingEconomics ex_promoted_input = Inr e"
    by (auto simp: is_ok_iff)
  show ?thesis using e promoted_split[OF e] by (simp add: ex_promoted_input_def)
qed

text \<open>An Offer's economics are total on the terms the schema accepts: neither internal assertion
  can fire, and the commission and the creator's proceeds are non-negative and sum to the
  wholesale price.\<close>

theorem offer_economics_total:
  assumes "OfferCommercialTerms t"
  shows "\<exists>e. calculateOfferEconomics t = Inr e \<and>
     oe_commission e + oe_creatorGrossProceeds e = wholesale_of (ot_price t) \<and>
     0 \<le> oe_commission e \<and> 0 \<le> oe_creatorGrossProceeds e"
  using calculateOfferEconomics_valid[OF assms] by metis

theorem offer_economics_total_witness:
  "\<exists>e. calculateOfferEconomics ex_terms = Inr e \<and>
     oe_commission e + oe_creatorGrossProceeds e = wholesale_of (ot_price ex_terms) \<and>
     0 \<le> oe_commission e \<and> 0 \<le> oe_creatorGrossProceeds e"
  by (rule offer_economics_total) code_simp

text \<open>A scheduled sale only ever lowers the price, in the ordinary price's currency, and exactly
  inside its half-open window; outside it the ordinary price is returned.\<close>

theorem sale_window:
  assumes "ListingPlacement (SellerDirectPlacement p)" and "sd_retail p = Some r"
    and "effectiveSellerRetailPrice p now = Inr e"
  shows "ep_effectivePriceMinorUnits e \<le> rp_minorUnits r \<and> 0 < ep_effectivePriceMinorUnits e \<and>
     ep_currency e = rp_currency r \<and>
     (ep_effectivePriceMinorUnits e < rp_minorUnits r \<longleftrightarrow>
        (\<exists>s. sd_sale p = Some s \<and> ss_saleStartsAt s \<le> now \<and> now < ss_saleEndsAt s))"
  using effectiveSellerRetailPrice_window[OF assms] by (auto simp: MinorUnitAmount_def)

theorem sale_window_witness:
  "\<exists>e. effectiveSellerRetailPrice ex_placement 150 = Inr e \<and> ep_effectivePriceMinorUnits e < 10000"
proof -
  have "is_ok (effectiveSellerRetailPrice ex_placement 150)" by code_simp
  then obtain e where e: "effectiveSellerRetailPrice ex_placement 150 = Inr e" by (auto simp: is_ok_iff)
  have "ListingPlacement (SellerDirectPlacement ex_placement)" by code_simp
  from sale_window[OF this _ e, of "\<lparr>rp_minorUnits = 10000, rp_currency = ''USD''\<rparr>"] e
  show ?thesis by (auto simp: ex_placement_def)
qed

section \<open>Commercial policies\<close>

text \<open>Over any history of policy creations, recordings and activations, at most one version of
  a policy is active and the effective lookup never answers that it is ambiguous.\<close>

theorem single_active_policy:
  assumes "policy_inv db" and "policy_step\<^sup>*\<^sup>* db db'"
  shows "count_where (\<lambda>v. pv_policyId v = pid \<and> pv_status v = Policy_ACTIVE) (policyVersions db') \<le> 1 \<and>
     getEffectiveCommercialPolicyVersion db' pid
       \<noteq> Inl (CommercialPolicyError ''AmbiguousActiveCommercialPolicyError'')"
  using policy_steps_inv[OF assms(2,1)] policy_inv_active_count effective_not_ambiguous by blast

definition ex_draft :: policy_version_input where
  "ex_draft = \<lparr>pvi_policyId = ''pol'', pvi_policyVersion = ''2'', pvi_currency = ''USD'',
     pvi_retainedPercentageBasisPoints = 900, pvi_retainedFixedAmountMinorUnits = 50, pvi_effectiveFrom = 10,
     pvi_recordedByAccountId = ''gov'', pvi_recordedAt = 10\<rparr>"

definition ex_repriced :: reversal_tables where
  "ex_repriced = (let d = after (recordCommercialPolicyVersion (\<lambda>a. a = ''gov'') ex_draft ex_books) ex_books
     in after (activateCommercialPolicyVersion (\<lambda>a. a = ''gov'') ''pol'' ''2'' ''gov'' 20 d) d)"

lemma ex_repriced_steps: "policy_step\<^sup>*\<^sup>* ex_books ex_repriced"
proof -
  define d where "d = after (recordCommercialPolicyVersion (\<lambda>a. a = ''gov'') ex_draft ex_books) ex_books"
  have "is_ok (recordCommercialPolicyVersion (\<lambda>a. a = ''gov'') ex_draft ex_books)" by code_simp
  then have 1: "policy_step ex_books d"
    by (auto simp: is_ok_iff d_def intro: policy_step.recorded)
  have "is_ok (activateCommercialPolicyVersion (\<lambda>a. a = ''gov'') ''pol'' ''2'' ''gov'' 20
      (after (recordCommercialPolicyVersion (\<lambda>a. a = ''gov'') ex_draft ex_books) ex_books))" by code_simp
  then have "policy_step d ex_repriced"
    by (auto simp: is_ok_iff ex_repriced_def d_def[symmetric] Let_def intro: policy_step.activated)
  with 1 show ?thesis by auto
qed

lemma ex_books_policy_inv: "policy_inv ex_books"
  by (simp add: policy_inv_def ex_books_def ex_policy_row_def unique_on_def)

theorem single_active_policy_witness:
  "count_where (\<lambda>v. pv_policyId v = ''pol'' \<and> pv_status v = Policy_ACTIVE) (policyVersions ex_repriced) \<le> 1 \<and>
   getEffectiveCommercialPolicyVersion ex_repriced ''pol''
     \<noteq> Inl (CommercialPolicyError ''AmbiguousActiveCommercialPolicyError'')"
  by (rule single_active_policy[OF ex_books_policy_inv ex_repriced_steps])

text \<open>A version that prices a sale prices it the same for ever: whatever is later recorded or
  activated, the exact lookup of that version returns the same acquisition policy, retired or not.\<close>

theorem policy_version_permanent:
  assumes "policy_inv db" and "policy_step\<^sup>*\<^sup>* db db'" and "readExactPolicy db pid ver = Inr p"
  shows "readExactPolicy db' pid ver = Inr p"
  using readExactPolicy_stable[OF assms] .

theorem policy_version_permanent_witness:
  "readExactPolicy ex_repriced ''pol'' ''1'' = Inr (to_policy ex_policy_row)"
  by (rule policy_version_permanent[OF ex_books_policy_inv ex_repriced_steps]) code_simp

section \<open>Accounting\<close>

text \<open>The flat columns of a snapshot lose nothing: economics the contract admits read back from
  their columns as themselves.\<close>

theorem economics_columns_roundtrip:
  assumes "TransactionEconomics e"
  shows "rowToEconomics (economicsToColumns e) = Inr e"
  using rowToEconomics_economicsToColumns[OF assms] .

theorem economics_columns_roundtrip_witness:
  "rowToEconomics (economicsToColumns (SELLER_DIRECT \<lparr>sdt_monacadoRetained = 1, sdt_acquisition = 9, sdt_sellerProceeds = 9\<rparr>))
     = Inr (SELLER_DIRECT \<lparr>sdt_monacadoRetained = 1, sdt_acquisition = 9, sdt_sellerProceeds = 9\<rparr>)"
  by (rule economics_columns_roundtrip) code_simp

text \<open>What the calculators produce from the bound versions always passes the check before the
  write: no computed sale is refused for an imbalance.\<close>

theorem computed_economics_reconcile:
  assumes "computeEconomics db lv policy cur at b = Inr (retail, e)" and "te_binding_ok e"
  shows "requireReconciled retail e = Inr ()"
  using computeEconomics_reconciles[OF assms] by simp

definition ex_computed :: "(amount \<times> transaction_economics) option" where
  "ex_computed = (case computeEconomics ex_books (listingVersions ex_books ! 1) (to_policy ex_policy_row) ''USD'' 150 None of
     Inr r \<Rightarrow> Some r | Inl _ \<Rightarrow> None)"

lemma ex_computed_ok: "\<exists>retail e. ex_computed = Some (retail, e) \<and> te_binding_ok e"
proof -
  have c: "case ex_computed of None \<Rightarrow> False | Some r \<Rightarrow> te_binding_ok (snd r)" by code_simp
  then obtain r where r: "ex_computed = Some r" by (cases ex_computed) auto
  have "te_binding_ok (snd r)" using c unfolding r option.case .
  with r show ?thesis by (metis prod.collapse)
qed

theorem computed_economics_reconcile_witness:
  "\<exists>retail e. ex_computed = Some (retail, e) \<and> requireReconciled retail e = Inr ()"
proof -
  obtain retail e where c: "ex_computed = Some (retail, e)" and b: "te_binding_ok e"
    using ex_computed_ok by blast
  then have "computeEconomics ex_books (listingVersions ex_books ! 1) (to_policy ex_policy_row) ''USD'' 150 None
      = Inr (retail, e)" by (auto simp: ex_computed_def split: sum.splits)
  from computed_economics_reconcile[OF this b] c show ?thesis by blast
qed


lemma ex_books_inv: "books_inv ex_books"
  using ex_books_policy_inv by (simp add: books_inv_def accounting_inv_def refs_unique_def ex_books_def)

lemma ex_sold_record:
  "\<exists>rec. recordTransactionEconomicSnapshotInTx ''s1'' (ex_sale ''l1'' 150) ex_books = Inr (ex_sold, rec)"
  using ex_sold_ok by (auto simp: is_ok_iff ex_sold_def)

definition ex_settled :: reversal_tables where
  "ex_settled = (case advanceTransactionSettlement ''s1'' FUNDS_RECEIVED 160 ex_sold of Inr d \<Rightarrow> d | Inl _ \<Rightarrow> ex_sold)"

lemma ex_settled_steps: "accounting_step\<^sup>*\<^sup>* ex_sold ex_settled"
proof -
  have "is_ok (advanceTransactionSettlement ''s1'' FUNDS_RECEIVED 160 ex_sold)" by code_simp
  then have "accounting_step ex_sold ex_settled"
    by (auto simp: is_ok_iff ex_settled_def intro: accounting_step.advance)
  then show ?thesis by blast
qed


text \<open>Over any history a settlement only moves forward along its table, and a provider
  reference once recorded is never replaced.\<close>

theorem settlement_forward_and_write_once:
  assumes "books_inv db" and "accounting_step\<^sup>*\<^sup>* db db'" and "find_settlement db sid = Some s"
  shows "\<exists>s'. find_settlement db' sid = Some s' \<and>
     settlement_rank (st_state s) \<le> settlement_rank (st_state s') \<and>
     (st_state s = REVERSED \<longrightarrow> st_state s' = REVERSED) \<and>
     (st_providerTransactionRef s \<noteq> None \<longrightarrow>
        st_provider s' = st_provider s \<and> st_providerTransactionRef s' = st_providerTransactionRef s)"
proof -
  obtain s' where s': "find_settlement db' sid = Some s'"
    "settlement_lifecycle.moves\<^sup>*\<^sup>* (st_state s) (st_state s')"
    "st_providerTransactionRef s \<noteq> None \<longrightarrow>
        st_provider s' = st_provider s \<and> st_providerTransactionRef s' = st_providerTransactionRef s"
    using settlement_state_of_histories[OF assms(2,1,3)] by blast
  have "st_state s = REVERSED \<longrightarrow> st_state s' = REVERSED"
    using settlement_lifecycle.moves_rtranclp_terminal[OF s'(2)]
    by (auto simp: isTerminalTransactionSettlementState_def)
  then show ?thesis using s' settlement_lifecycle.rank_reaches[OF s'(2)] by blast
qed

theorem settlement_forward_and_write_once_witness:
  "\<exists>s'. find_settlement ex_settled ''s1'' = Some s' \<and>
     settlement_rank Settlement_PENDING \<le> settlement_rank (st_state s')"
proof -
  have b: "books_inv ex_sold"
    using accounting_step_books[OF accounting_step.sale] ex_sold_record ex_books_inv by metis
  have f: "find_settlement ex_sold ''s1'' = Some (new_settlement ''s1'')" by code_simp
  from settlement_forward_and_write_once[OF b ex_settled_steps f] show ?thesis
    by (auto simp: new_settlement_def)
qed

section \<open>Reversals\<close>

text \<open>The full reversal of a stored sale always balances, and returns to the buyer exactly the
  total the buyer was charged.\<close>

theorem full_reversal_exact:
  assumes "accounting_inv db" and "find_snapshot db sid = Some row"
  shows "\<exists>s. snapshotRowToRecord row = Inr s \<and>
     reconcileFullReversal (snapshot_reversal s) (is_promoted (snap_economics s)) = Inr () \<and>
     reversedBuyerTotalMinorUnits (snapshot_reversal s) = buyerChargedTotalMinorUnits s"
proof -
  have "row \<in> set (snapshots db)" using assms(2) by (auto simp: find_snapshot_def dest: find_Some_set)
  then have "snapshot_ok row" using assms(1) by (simp add: accounting_inv_def)
  then obtain s where s: "snapshotRowToRecord row = Inr s"
    "reconcileTransactionEconomics (snap_commercialRetail s) (snap_economics s) = Inr ()"
    by (auto simp: snapshot_ok_def)
  show ?thesis
    using s full_reversal_balances[OF s(2)] full_reversal_buyer_total by (auto simp: snapshot_reversal_def)
qed

theorem full_reversal_exact_witness:
  "\<exists>row s. find_snapshot ex_sold ''s1'' = Some row \<and> snapshotRowToRecord row = Inr s \<and>
     reconcileFullReversal (snapshot_reversal s) (is_promoted (snap_economics s)) = Inr ()"
proof -
  have a: "accounting_inv ex_sold"
    using accounting_step_books[OF accounting_step.sale] ex_sold_record ex_books_inv
    by (metis books_inv_def)
  have "case find_snapshot ex_sold ''s1'' of None \<Rightarrow> False | Some _ \<Rightarrow> True" by code_simp
  then obtain row where "find_snapshot ex_sold ''s1'' = Some row" by (auto split: option.splits)
  with full_reversal_exact[OF a this] show ?thesis by blast
qed

text \<open>A reversal that is recorded is the sale's only one and leaves every snapshot as it was:
  the settlement is moved to its terminal state, and recording another reversal of the sale, with
  whatever identifiers, is refused.\<close>

theorem reversal_once:
  assumes "reversal_inv db" and "recordFullReversal rid i db = Inr (db', r)"
  shows "snapshots db' = snapshots db \<and> reversal_inv db' \<and>
     isSnapshotReversedIn db' (rvi_snapshotId i) \<and>
     (\<exists>s. find_settlement db' (rvi_snapshotId i) = Some s \<and> st_state s = REVERSED) \<and>
     (\<forall>rid' j. rvi_snapshotId j = rvi_snapshotId i \<longrightarrow> \<not> is_ok (recordFullReversal rid' j db'))"
proof -
  have ok: "recordFullReversalInTx rid i db = Inr (db', r)" using assms(2) by simp
  have inv: "reversal_inv db'" using recordFullReversal_inv[OF assms(1) ok] .
  have row: "r \<in> set (reversals db')" "trv_snapshotId r = rvi_snapshotId i" "snapshots db' = snapshots db"
    using recordFullReversalInTx_row[OF ok] by (auto simp: reversal_row_of_def)
  then have rev: "isSnapshotReversedIn db' (rvi_snapshotId i)"
    by (auto simp: isSnapshotReversedIn_def count_where_pos_iff)
  have "reversal_linked db' r" using inv row(1) by (simp add: reversal_inv_def)
  then have "\<exists>s. find_settlement db' (rvi_snapshotId i) = Some s \<and> st_state s = REVERSED"
    using row(2) by (auto simp: reversal_linked_def)
  moreover have "\<forall>rid' j. rvi_snapshotId j = rvi_snapshotId i \<longrightarrow> \<not> is_ok (recordFullReversal rid' j db')"
    using reversed_again_refused[OF inv] rev by (auto simp: is_ok_iff)
  ultimately show ?thesis using row(3) inv rev by blast
qed

lemma ex_bound_reversal_inv: "reversal_inv ex_bound"
proof -
  have "reversals ex_bound = []" by code_simp
  then show ?thesis by (simp add: reversal_inv_def)
qed

theorem reversal_once_witness:
  "isSnapshotReversedIn (after (recordFullReversal ''rv1'' ex_reverse ex_bound) ex_bound) ''s1'' \<and>
   \<not> is_ok (recordFullReversal ''rv2'' ex_reverse (after (recordFullReversal ''rv1'' ex_reverse ex_bound) ex_bound))"
proof -
  have i: "reversal_inv ex_bound" by (rule ex_bound_reversal_inv)
  obtain d r where ok: "recordFullReversal ''rv1'' ex_reverse ex_bound = Inr (d, r)"
    using ex_reverse_ok by (metis is_ok_iff surj_pair)
  have sid: "rvi_snapshotId ex_reverse = ''s1''" by (simp add: ex_reverse_def)
  have d: "after (recordFullReversal ''rv1'' ex_reverse ex_bound) ex_bound = d"
    unfolding ok by simp
  show ?thesis
    using reversal_once[OF i ok] unfolding d sid by (metis sid)
qed

text \<open>After the reversal every party's net position is exactly zero, when the obligations are
  the claims derived from the sale's economics.\<close>

theorem reversal_nets_zero:
  assumes "reversal_inv db" and "isSnapshotReversedIn db sid"
    and "find_snapshot db sid = Some row" and "snapshotRowToRecord row = Inr s"
    and "obligations_match db sid (snap_economics s)"
    and "reconcileProceedsAfterReversal db sid = Inr ps"
  shows "list_all (\<lambda>p. net_netAmount p = 0) ps"
  using net_zero_after_reversal[OF assms] by (simp add: list_all_iff)

definition ex_owed :: reversal_tables where
  "ex_owed = ex_bound\<lparr>obligations := [\<lparr>pob_id = ''b1'', pob_snapshotId = ''s1'', pob_participantId = ''sell'',
     pob_party = SELLER, pob_amount = 7300, pob_currency = ''USD'', pob_state = Obligation_PENDING,
     pob_accruedAt = 150, pob_becameEligibleAt = None, pob_paidAt = None\<rparr>]\<rparr>"

definition ex_reversed :: reversal_tables where
  "ex_reversed = after (recordFullReversal ''rv1'' ex_reverse ex_owed) ex_owed"

theorem reversal_nets_zero_witness:
  "\<exists>ps. reconcileProceedsAfterReversal ex_reversed ''s1'' = Inr ps \<and> length ps = 1 \<and>
     list_all (\<lambda>p. net_netAmount p = 0) ps"
proof -
  have "reversals ex_owed = []" by code_simp
  then have i: "reversal_inv ex_owed" by (simp add: reversal_inv_def)
  have "is_ok (recordFullReversal ''rv1'' ex_reverse ex_owed)" by code_simp
  then obtain d r where ok: "recordFullReversal ''rv1'' ex_reverse ex_owed = Inr (d, r)"
    by (metis is_ok_iff surj_pair)
  have "ex_reversed = d" unfolding ex_reversed_def ok by simp
  then have inv: "reversal_inv ex_reversed"
    using recordFullReversal_inv[OF i, of "''rv1''" ex_reverse d r] ok by simp
  have rev: "isSnapshotReversedIn ex_reversed ''s1''" by code_simp
  have m: "case find_snapshot ex_reversed ''s1'' of None \<Rightarrow> False
     | Some row \<Rightarrow> (case snapshotRowToRecord row of Inl _ \<Rightarrow> False
         | Inr s \<Rightarrow> obligations_match ex_reversed ''s1'' (snap_economics s))" by code_simp
  have l: "case reconcileProceedsAfterReversal ex_reversed ''s1'' of Inl _ \<Rightarrow> False | Inr ps \<Rightarrow> length ps = 1"
    by code_simp
  from m obtain row s where "find_snapshot ex_reversed ''s1'' = Some row" "snapshotRowToRecord row = Inr s"
    "obligations_match ex_reversed ''s1'' (snap_economics s)"
    by (auto split: option.splits sum.splits)
  with l reversal_nets_zero[OF inv rev] show ?thesis
    by (auto split: sum.splits)
qed

end
